(* ===== verification/Flow_Prelude.thy ===== *)
theory Flow_Prelude
  imports Complex_Main "HOL-Library.Word"
begin

text \<open>
  Shared ground of the development: the Go values the flow engine passes around, the parts of
  the packages \<open>strings\<close> and \<open>strconv\<close> the sources use, the application error of
  \<open>model/utils.go\<close>, and the generic lemmas on lists and options the components share.

  A Go string is a byte sequence, so it is modelled as \<^typ>\<open>string\<close> (a list of bytes).
  A Go map that is ranged over is an association list whose order is the order in which
  the loop visits the keys: Go leaves that order open, so a theorem about every list covers every
  visiting order.  A Go map that is only indexed is a partial function.
\<close>

section \<open>Automation\<close>

named_theorems flow_wf \<open>facts that establish the well-formedness of a flow\<close>
named_theorems flow_frame \<open>fields that an operation leaves alone\<close>

section \<open>Dynamically typed values\<close>

text \<open>
  \<open>interface{}\<close> values as the engine tells them apart with type assertions.  \<open>GMap\<close> is
  \<open>map[string]interface{}\<close>; \<open>GObj\<close> is the named type \<open>model.ApplicationObject\<close>, which a
  type assertion to \<open>map[string]interface{}\<close> does not accept.
\<close>

datatype goval =
    GNil
  | GBool bool
  | GInt int
  | GFloat rat
  | GStr string
  | GArr "goval list"
  | GMap "(string \<times> goval) list"
  | GObj "(string \<times> goval) list"

type_synonym app_object = "(string \<times> goval) list"
type_synonym applications = "app_object list"

definition as_map :: "goval \<Rightarrow> (string \<times> goval) list option" where
  "as_map v = (case v of GMap m \<Rightarrow> Some m | _ \<Rightarrow> None)"

definition as_arr :: "goval \<Rightarrow> goval list option" where
  "as_arr v = (case v of GArr xs \<Rightarrow> Some xs | _ \<Rightarrow> None)"

definition as_string :: "goval \<Rightarrow> string option" where
  "as_string v = (case v of GStr s \<Rightarrow> Some s | _ \<Rightarrow> None)"

definition as_bool :: "goval \<Rightarrow> bool option" where
  "as_bool v = (case v of GBool b \<Rightarrow> Some b | _ \<Rightarrow> None)"

definition as_float :: "goval \<Rightarrow> rat option" where
  "as_float v = (case v of GFloat q \<Rightarrow> Some q | _ \<Rightarrow> None)"

text \<open>Indexing a map yields the zero value (a nil interface) for a missing key.\<close>

definition map_get :: "(string \<times> goval) list \<Rightarrow> string \<Rightarrow> goval" where
  "map_get m k = (case map_of m k of None \<Rightarrow> GNil | Some v \<Rightarrow> v)"

section \<open>Application errors (model/utils.go)\<close>

record app_error =
  err_id :: string
  err_message :: string
  err_detail :: string
  err_request_id :: string
  err_status :: int
  err_where :: string
  err_is_oauth :: bool
  err_params :: "(string \<times> goval) list"

definition NewAppError :: "string \<Rightarrow> string \<Rightarrow> (string \<times> goval) list \<Rightarrow> string \<Rightarrow> int \<Rightarrow> app_error" where
  "NewAppError whr idn params details status =
     \<lparr>err_id = idn, err_message = idn, err_detail = details, err_request_id = [],
      err_status = status, err_where = whr, err_is_oauth = False, err_params = params\<rparr>"

definition AppError_Error :: "app_error \<Rightarrow> string" where
  "AppError_Error er = err_where er @ '': '' @ err_message er @ '', '' @ err_detail er"

definition NewInternalError :: "string \<Rightarrow> string \<Rightarrow> app_error" where
  "NewInternalError idn msg = NewAppError ''App'' idn [] msg 500"

definition NewRequestError :: "string \<Rightarrow> string \<Rightarrow> app_error" where
  "NewRequestError idn msg = NewAppError ''App'' idn [] msg 400"

definition ErrorRequiredParameter :: "string \<Rightarrow> string \<Rightarrow> app_error" where
  "ErrorRequiredParameter appId param =
     NewAppError ''Valid'' (''valid.app.'' @ appId) []
       (''App='' @ appId @ '' '' @ param @ '' is required'') 400"

type_synonym 'a result = "app_error + 'a"

section \<open>Go strings\<close>


text \<open>\<open>strings.Split\<close> with a separator of one byte: never empty.\<close>

fun split_on :: "char \<Rightarrow> string \<Rightarrow> string list" where
  "split_on c [] = [[]]"
| "split_on c (x # xs) =
     (if x = c then [] # split_on c xs
      else (case split_on c xs of [] \<Rightarrow> [[x]] | y # ys \<Rightarrow> (x # y) # ys))"

text \<open>\<open>strings.Trim(s, " ")\<close>.\<close>

definition trim_char :: "char \<Rightarrow> string \<Rightarrow> string" where
  "trim_char c s = rev (dropWhile ((=) c) (rev (dropWhile ((=) c) s)))"

definition has_prefix :: "string \<Rightarrow> string \<Rightarrow> bool" where
  "has_prefix s p = (take (length p) s = p)"

definition has_suffix :: "string \<Rightarrow> string \<Rightarrow> bool" where
  "has_suffix s p = (length p \<le> length s \<and> drop (length s - length p) s = p)"

section \<open>Decimal numbers (strconv)\<close>

definition digit_char :: "nat \<Rightarrow> char" where
  "digit_char d = char_of (48 + d)"

definition digit_val :: "char \<Rightarrow> nat option" where
  "digit_val c = (let n = of_char c in if 48 \<le> n \<and> n \<le> 57 then Some (n - 48) else None)"

fun nat_digits :: "nat \<Rightarrow> string" where
  "nat_digits n = (if n < 10 then [digit_char n] else nat_digits (n div 10) @ [digit_char (n mod 10)])"

declare nat_digits.simps [simp del]

definition Itoa :: "int \<Rightarrow> string" where
  "Itoa i = (if i < 0 then CHR ''-'' # nat_digits (nat (- i)) else nat_digits (nat i))"

text \<open>The digits of a number; \<open>None\<close> on an empty string or on a byte that is no digit.\<close>

fun digits_acc :: "nat \<Rightarrow> string \<Rightarrow> nat option" where
  "digits_acc acc [] = Some acc"
| "digits_acc acc (c # cs) =
     (case digit_val c of None \<Rightarrow> None | Some d \<Rightarrow> digits_acc (10 * acc + d) cs)"

definition parse_digits :: "string \<Rightarrow> nat option" where
  "parse_digits s = (if s = [] then None else digits_acc 0 s)"

text \<open>
  \<open>strconv.Atoi\<close> on a 64-bit platform: an optional sign, then decimal digits; an error
  (\<open>None\<close>) on anything else and on a value outside the range of \<open>int\<close>.
\<close>

definition Atoi :: "string \<Rightarrow> int option" where
  "Atoi s =
     (let (neg, ds) = (case s of [] \<Rightarrow> (False, [])
                        | c # cs \<Rightarrow> if c = CHR ''-'' then (True, cs)
                                     else if c = CHR ''+'' then (False, cs) else (False, s))
      in case parse_digits ds of None \<Rightarrow> None
         | Some n \<Rightarrow>
             (let v = (if neg then - int n else int n)
              in if - (2 ^ 63) \<le> v \<and> v < 2 ^ 63 then Some v else None))"

section \<open>Lemmas on strings and numbers\<close>

lemma split_on_ne [simp]: "split_on c s \<noteq> []"
  by (induction s) (auto split: list.splits)

lemma split_on_no_sep: "c \<notin> set s \<Longrightarrow> split_on c s = [s]"
  by (induction s) auto

lemma split_on_append_sep: "c \<notin> set a \<Longrightarrow> split_on c (a @ c # b) = a # split_on c b"
  by (induction a) auto

lemma length_split_on: "length (split_on c s) = Suc (count_list s c)"
  by (induction s) (auto split: list.splits)

lemma digit_val_digit_char [simp]: "d < 10 \<Longrightarrow> digit_val (digit_char d) = Some d"
  by (simp add: digit_val_def digit_char_def Let_def)

lemma digit_char_neq_sign [simp]:
  "d < 10 \<Longrightarrow> digit_char d \<noteq> CHR ''-''" "d < 10 \<Longrightarrow> digit_char d \<noteq> CHR ''+''"
  "d < 10 \<Longrightarrow> digit_char d \<noteq> CHR ''.''"
proof -
  assume d: "d < 10"
  have "digit_val CHR ''-'' = None" "digit_val CHR ''+'' = None" "digit_val CHR ''.'' = None"
    by (simp_all add: digit_val_def)
  then show "digit_char d \<noteq> CHR ''-''" "digit_char d \<noteq> CHR ''+''" "digit_char d \<noteq> CHR ''.''"
    using digit_val_digit_char [OF d] by (metis option.distinct(1))+
qed

lemma nat_digits_ne [simp]: "nat_digits n \<noteq> []"
  by (subst nat_digits.simps) simp

lemma digits_acc_append:
  "digits_acc acc (xs @ ys) = (case digits_acc acc xs of None \<Rightarrow> None | Some a \<Rightarrow> digits_acc a ys)"
  by (induction xs arbitrary: acc) (auto split: option.splits)

lemma digits_acc_nat_digits: "digits_acc 0 (nat_digits n) = Some n"
proof (induction n rule: nat_digits.induct)
  case (1 n)
  then show ?case
    by (cases "n < 10") (subst nat_digits.simps, simp add: digits_acc_append)+
qed

lemma parse_digits_nat_digits [simp]: "parse_digits (nat_digits n) = Some n"
  by (simp add: parse_digits_def digits_acc_nat_digits)

lemma nat_digits_set: "c \<in> set (nat_digits n) \<Longrightarrow> \<exists>d<10. c = digit_char d"
proof (induction n rule: nat_digits.induct)
  case (1 n)
  from "1.prems" show ?case
  proof (subst (asm) nat_digits.simps, cases "n < 10")
    case False
    assume "c \<in> set (if n < 10 then [digit_char n] else nat_digits (n div 10) @ [digit_char (n mod 10)])"
    then have "c \<in> set (nat_digits (n div 10)) \<or> c = digit_char (n mod 10)"
      using False by auto
    then show ?thesis using "1.IH" [OF False] by (auto intro: exI [of _ "n mod 10"])
  qed auto
qed

lemma nat_digits_no_sign:
  "CHR ''-'' \<notin> set (nat_digits n)" "CHR ''+'' \<notin> set (nat_digits n)" "CHR ''.'' \<notin> set (nat_digits n)"
  using nat_digits_set digit_char_neq_sign by metis+

lemma Itoa_no_dot: "CHR ''.'' \<notin> set (Itoa i)"
  by (simp add: Itoa_def nat_digits_no_sign)

lemma Atoi_digits:
  assumes "cs = nat_digits n"
  shows "Atoi cs = (if int n < 2 ^ 63 then Some (int n) else None)"
proof -
  obtain c ds where cds: "nat_digits n = c # ds"
    by (cases "nat_digits n") auto
  then have "c \<noteq> CHR ''-''" "c \<noteq> CHR ''+''"
    using nat_digits_no_sign [of n] by auto
  moreover have "parse_digits (c # ds) = Some n"
    using cds parse_digits_nat_digits [of n] by simp
  ultimately show ?thesis
    using cds assms by (simp add: Atoi_def Let_def)
qed

lemma Atoi_Itoa:
  assumes "- (2 ^ 63) \<le> i" "i < 2 ^ 63"
  shows "Atoi (Itoa i) = Some i"
proof (cases "i < 0")
  case True
  with assms show ?thesis by (simp add: Itoa_def Atoi_def Let_def)
next
  case False
  with assms Atoi_digits [OF refl, of "nat i"] show ?thesis by (simp add: Itoa_def)
qed

lemma nat_digits_inj: "nat_digits m = nat_digits n \<Longrightarrow> m = n"
  using parse_digits_nat_digits by (metis option.inject)

lemma Itoa_inj: "Itoa i = Itoa j \<Longrightarrow> i = j"
proof (cases "i < 0"; cases "j < 0")
  assume "Itoa i = Itoa j" "i < 0" "j < 0"
  then show "i = j" by (auto simp: Itoa_def dest: nat_digits_inj)
next
  assume eq: "Itoa i = Itoa j" and s: "i < 0" "\<not> j < 0"
  then have "CHR ''-'' \<in> set (nat_digits (nat j))"
    by (metis Itoa_def list.set_intros(1))
  then show "i = j" by (simp add: nat_digits_no_sign)
next
  assume eq: "Itoa i = Itoa j" and s: "\<not> i < 0" "j < 0"
  then have "CHR ''-'' \<in> set (nat_digits (nat i))"
    by (metis Itoa_def list.set_intros(1))
  then show "i = j" by (simp add: nat_digits_no_sign)
next
  assume "Itoa i = Itoa j" "\<not> i < 0" "\<not> j < 0"
  then show "i = j" by (auto simp: Itoa_def dest: nat_digits_inj)
qed

section \<open>Sizes of values reached through maps\<close>

lemma size_map_of_le:
  "map_of m k = Some v \<Longrightarrow> size v < size (GMap m)" "map_of m k = Some v \<Longrightarrow> size v < size (GObj m)"
  by (induction m) (auto split: if_splits)

lemma as_map_Some [simp]: "as_map v = Some m \<longleftrightarrow> v = GMap m"
  by (auto simp: as_map_def split: goval.splits)

lemma as_arr_Some [simp]: "as_arr v = Some xs \<longleftrightarrow> v = GArr xs"
  by (auto simp: as_arr_def split: goval.splits)

lemma as_string_Some [simp]: "as_string v = Some s \<longleftrightarrow> v = GStr s"
  by (auto simp: as_string_def split: goval.splits)

lemma map_get_size:
  "map_get m k = GArr xs \<Longrightarrow> size (GArr xs) < size (GMap m)"
  "map_get m k = GMap ys \<Longrightarrow> size (GMap ys) < size (GMap m)"
  by (auto simp: map_get_def dest: size_map_of_le split: option.splits)

lemma as_simps [simp]:
  "as_map (GMap m) = Some m" "as_arr (GArr xs) = Some xs" "as_string (GStr s) = Some s"
  "as_bool (GBool b) = Some b" "as_float (GFloat q) = Some q"
  by (simp_all add: as_map_def as_arr_def as_string_def as_bool_def as_float_def)

section \<open>Lists\<close>

lemma map_list_update_same: "g y = g (xs ! n) \<Longrightarrow> map g (xs[n := y]) = map g xs"
  by (cases "n < length xs") (auto simp: map_update list_update_same_conv list_update_beyond)

lemma nth_list_update_if: "i < length xs \<Longrightarrow> xs[i := x] ! j = (if i = j then x else xs ! j)"
  by (cases "j < length xs") (auto simp: nth_list_update)

end
