(* ===== verification/Flow_Tree.thy ===== *)
theory Flow_Tree
  imports Flow_Prelude "HOL-Library.AList"
begin

text \<open>
  The program tree of a flow and the moves of its cursor: \<open>flow/node.go\<close> and the
  navigation part of \<open>flow/flow.go\<close>.

  Pointers become indices into explicit stores of the flow: a \<open>*Node\<close> is an index into
  \<open>fl_nodes\<close>, a \<open>*Limiter\<close> one into \<open>fl_limiters\<close>, a \<open>*whileArgs\<close> one into
  \<open>fl_whiles\<close>.  A \<open>*ApplicationRequest\<close> points at an element of the children of one
  node (\<open>Node.Add\<close> takes the address of a fresh copy and children are only appended), so it
  is the pair of the node and the position there, and comparing the pairs is comparing the
  pointers.  The field \<open>flow\<close> of the parsed arguments always is the flow being parsed and
  is left out; loggers, mutexes and the JavaScript engine are no part of the state.
\<close>

section \<open>Data\<close>

type_synonym nid = nat
type_synonym lid = nat
type_synonym wid = nat
type_synonym reqptr = "nat \<times> nat"

record base_node =
  bn_depth :: "16 word"
  bn_idx :: nat
  bn_parent :: "nid option"

datatype app_args =
    ArgVal goval
  | ArgCondition string nid nid
  | ArgWhile wid
  | ArgSwitch string "(string \<times> nid) list"
  | ArgBreak

record app_request = base_node +
  rq_args :: app_args
  rq_flags :: "64 word"
  rq_name :: string
  rq_debug_id :: string
  rq_tag :: string
  rq_limiter :: "lid option"
  rq_log :: "string option"

record node = base_node +
  nd_position :: nat
  nd_children :: "app_request list"

record limiter =
  lim_count :: "32 word"
  lim_max :: "32 word"
  lim_failover :: string

record while_args =
  wh_condition :: string
  wh_do :: nid
  wh_step :: int
  wh_counter :: int
  wh_maxSteps :: int
  wh_originalParent :: "reqptr option"

record step_log =
  sl_name :: string
  sl_start :: int
  sl_stop :: int

record tag =
  tag_parent :: nid
  tag_idx :: nat

record flow =
  fl_schemaId :: int
  fl_name :: string
  fl_timezone :: "string option"
  fl_Tags :: "string \<Rightarrow> tag option"
  fl_Functions :: "(string \<times> applications) list"
  fl_triggers :: "(string \<times> applications) list"
  fl_currentNode :: nid
  fl_prevRequest :: "reqptr option"
  fl_interrupted :: "reqptr option"
  fl_gotoCounter :: "16 word"
  fl_cancel :: bool
  fl_logs :: "step_log list"
  fl_nodes :: "node list"
  fl_limiters :: "limiter list"
  fl_whiles :: "while_args list"

definition MAX_GOTO :: int where
  "MAX_GOTO = 1000"

definition ApplicationFlagBreakEnabled :: "64 word" where
  "ApplicationFlagBreakEnabled = 1"

definition ApplicationFlagAsyncEnabled :: "64 word" where
  "ApplicationFlagAsyncEnabled = 2"

unbundle bit_operations_syntax

section \<open>Nodes (flow/node.go)\<close>

definition getLength :: "node \<Rightarrow> nat" where
  "getLength n = length (nd_children n)"

definition getDepth :: "'a base_node_scheme \<Rightarrow> 16 word" where
  "getDepth n = bn_depth n"

definition GetParent :: "'a base_node_scheme \<Rightarrow> nid option" where
  "GetParent n = bn_parent n"

definition setParentNode :: "node list \<Rightarrow> nid option \<Rightarrow> 'a base_node_scheme \<Rightarrow> 'a base_node_scheme" where
  "setParentNode ns parent n =
     (case parent of None \<Rightarrow> n
      | Some p \<Rightarrow> n\<lparr>bn_parent := Some p, bn_idx := getLength (ns ! p),
                     bn_depth := bn_depth (ns ! p) + 1\<rparr>)"

definition node_Add :: "app_request \<Rightarrow> node \<Rightarrow> node" where
  "node_Add r n = n\<lparr>nd_children := nd_children n @ [r]\<rparr>"

definition setFirst :: "node \<Rightarrow> node" where
  "setFirst n = n\<lparr>nd_position := 0\<rparr>"

text \<open>\<open>Node.Next\<close>: the position of the child handed out, and the node moved on.\<close>

definition node_Next :: "node \<Rightarrow> nat option \<times> node" where
  "node_Next n =
     (if nd_position n < getLength n
      then (Some (nd_position n), n\<lparr>nd_position := nd_position n + 1\<rparr>) else (None, n))"

definition zero_node :: node where
  "zero_node = \<lparr>bn_depth = 0, bn_idx = 0, bn_parent = None, nd_position = 0, nd_children = []\<rparr>"

text \<open>\<open>NewNode\<close> allocates: the node store grows by one and the new index is returned.\<close>

definition NewNode :: "nid option \<Rightarrow> node list \<Rightarrow> nid \<times> node list" where
  "NewNode parent ns = (length ns, ns @ [setParentNode ns parent zero_node])"

partial_function (option) CompleteTreeTraversal :: "nid option \<Rightarrow> node list \<Rightarrow> node list option" where
  "CompleteTreeTraversal n ns =
     (case n of None \<Rightarrow> Some ns
      | Some i \<Rightarrow>
          if bn_parent (ns ! i) \<noteq> None \<and> nd_position (ns ! i) = 0
          then CompleteTreeTraversal (bn_parent (ns ! i))
                 (ns[i := (ns ! i)\<lparr>nd_position := length (nd_children (ns ! i))\<rparr>])
          else Some ns)"

declare CompleteTreeTraversal.simps [code]

section \<open>Requests and limiters (flow/flow.go)\<close>

definition MaxCount :: "limiter \<Rightarrow> bool" where
  "MaxCount l = (lim_max l \<le> lim_count l)"

definition AddIteration :: "limiter \<Rightarrow> limiter" where
  "AddIteration l = l\<lparr>lim_count := lim_count l + 1\<rparr>"

definition request_IsCancel :: "app_request \<Rightarrow> bool" where
  "request_IsCancel a = (rq_flags a AND ApplicationFlagBreakEnabled = ApplicationFlagBreakEnabled)"

definition cur_node :: "flow \<Rightarrow> node" where
  "cur_node f = fl_nodes f ! fl_currentNode f"

definition upd_node :: "nid \<Rightarrow> (node \<Rightarrow> node) \<Rightarrow> flow \<Rightarrow> flow" where
  "upd_node n g f = f\<lparr>fl_nodes := (fl_nodes f)[n := g (fl_nodes f ! n)]\<rparr>"

definition deref :: "flow \<Rightarrow> reqptr \<Rightarrow> app_request" where
  "deref f r = nd_children (fl_nodes f ! fst r) ! snd r"

section \<open>Moving the cursor\<close>

definition SetRoot :: "nid \<Rightarrow> flow \<Rightarrow> flow" where
  "SetRoot n f = f\<lparr>fl_currentNode := n\<rparr>"

definition SetCancel :: "flow \<Rightarrow> flow" where
  "SetCancel f = f\<lparr>fl_cancel := True\<rparr>"

definition ClearCancel :: "flow \<Rightarrow> flow" where
  "ClearCancel f = f\<lparr>fl_cancel := False\<rparr>"

definition Reset :: "flow \<Rightarrow> flow" where
  "Reset f = (upd_node (fl_currentNode f) setFirst f)\<lparr>fl_cancel := False\<rparr>"

definition setInterrupted :: "reqptr option \<Rightarrow> flow \<Rightarrow> flow" where
  "setInterrupted r f = f\<lparr>fl_interrupted := r\<rparr>"

definition PushSteepLog :: "string \<Rightarrow> int \<Rightarrow> int \<Rightarrow> flow \<Rightarrow> flow" where
  "PushSteepLog name s now f =
     f\<lparr>fl_logs := fl_logs f @ [\<lparr>sl_name = name, sl_start = s, sl_stop = now\<rparr>]\<rparr>"

definition flow_Logs :: "flow \<Rightarrow> step_log list option" where
  "flow_Logs f = (if length (fl_logs f) > 0 then Some (fl_logs f) else None)"

text \<open>\<open>None\<close> is the index-out-of-range panic of \<open>children[pos]\<close>.\<close>

definition setPreviousRequest :: "flow \<Rightarrow> flow option" where
  "setPreviousRequest f =
     (let pos = int (nd_position (cur_node f)) - 1
      in if pos < 0 then Some (f\<lparr>fl_prevRequest := None\<rparr>)
         else if length (nd_children (cur_node f)) \<noteq> 0 then
           (if nat pos < length (nd_children (cur_node f))
            then Some (f\<lparr>fl_prevRequest := Some (fl_currentNode f, nat pos)\<rparr>) else None)
         else Some f)"

definition GetParentNode :: "flow \<Rightarrow> nid option \<times> flow" where
  "GetParentNode f =
     (let parent = GetParent (cur_node f);
          f' = upd_node (fl_currentNode f) setFirst f
      in case parent of None \<Rightarrow> (None, f')
         | Some p \<Rightarrow> (Some p, f'\<lparr>fl_currentNode := p\<rparr>))"

text \<open>
  \<open>NextRequest\<close> climbs to the parent of an exhausted node and tries again.  \<open>None\<close> is
  a run that does not return; the first component of a result is the nil or non-nil request.
\<close>

partial_function (option) NextRequest :: "flow \<Rightarrow> (reqptr option \<times> flow) option" where
  "NextRequest f =
     Option.bind (setPreviousRequest f) (\<lambda>f1.
       (case node_Next (cur_node f1) of
          (Some k, nd) \<Rightarrow> Some (Some (fl_currentNode f1, k), upd_node (fl_currentNode f1) (\<lambda>_. nd) f1)
        | (None, nd) \<Rightarrow>
            (case GetParentNode f1 of
               (None, f2) \<Rightarrow> Some (None, f2)
             | (Some p, f2) \<Rightarrow> NextRequest f2)))"

declare NextRequest.simps [code]

definition trySetTag :: "string \<Rightarrow> nid \<Rightarrow> nat \<Rightarrow> flow \<Rightarrow> flow" where
  "trySetTag t parent idx f =
     (if t \<noteq> [] then f\<lparr>fl_Tags := (fl_Tags f)(t \<mapsto> \<lparr>tag_parent = parent, tag_idx = idx\<rparr>)\<rparr> else f)"

text \<open>
  \<open>Goto\<close>.  The call to \<open>CompleteTreeTraversal\<close> is on the parent of the parent of the
  node jumped into; a nil receiver does nothing.
\<close>

definition Goto :: "string \<Rightarrow> flow \<Rightarrow> (bool \<times> flow) option" where
  "Goto t f =
     (if sint (fl_gotoCounter f) > MAX_GOTO then Some (False, f)
      else case fl_Tags f t of
             None \<Rightarrow> Some (False, f)
           | Some g \<Rightarrow>
               (let f1 = upd_node (fl_currentNode f) setFirst f;
                    f2 = SetRoot (tag_parent g) f1;
                    f3 = upd_node (tag_parent g) (\<lambda>n. n\<lparr>nd_position := tag_idx g\<rparr>) f2
                in case bn_parent (cur_node f3) of
                     None \<Rightarrow> Some (True, f3\<lparr>fl_gotoCounter := fl_gotoCounter f3 + 1\<rparr>)
                   | Some p \<Rightarrow>
                       (let f4 = upd_node p (\<lambda>n. n\<lparr>nd_position := bn_idx (cur_node f3) + 1\<rparr>) f3
                        in Option.bind (CompleteTreeTraversal (bn_parent (fl_nodes f4 ! p)) (fl_nodes f4)) (\<lambda>ns.
                             Some (True, f4\<lparr>fl_nodes := ns, fl_gotoCounter := fl_gotoCounter f4 + 1\<rparr>)))))"

definition RepeatInterrupted :: "string list \<Rightarrow> flow \<Rightarrow> bool \<times> flow" where
  "RepeatInterrupted names f =
     (let f1 = f\<lparr>fl_interrupted := None\<rparr>
      in case fl_interrupted f of
           None \<Rightarrow> (False, f1)
         | Some req \<Rightarrow>
             if rq_name (deref f req) \<notin> set names then (False, f1)
             else (let pos = int (nd_position (cur_node f)) - 1
                   in if pos < 0 \<or> pos \<ge> int (length (nd_children (cur_node f)))
                         \<or> (fl_currentNode f, nat pos) \<noteq> req
                      then (False, f1)
                      else (True, upd_node (fl_currentNode f) (\<lambda>n. n\<lparr>nd_position := nat pos\<rparr>) f1)))"

end
