(* ===== verification/Flow_Nav.thy ===== *)
theory Flow_Nav
  imports Flow_Tree
begin

text \<open>
  Well-formedness of a flow and what the moves of the cursor keep of it.

  A flow has a static part, which parsing builds and no run changes (the tree and the tags),
  and a dynamic part (positions, the cursor, counters, flags, and the maps of functions and
  triggers, which a forked flow adds to).  \<open>static\<close> erases
  the dynamic part, so ``this operation only moves the cursor'' is an equation between the
  static parts.
\<close>

section \<open>Static part\<close>

definition strip :: "node list \<Rightarrow> node list" where
  "strip ns = map (\<lambda>n. n\<lparr>nd_position := 0\<rparr>) ns"

definition static :: "flow \<Rightarrow> flow" where
  "static f = f\<lparr>fl_currentNode := 0, fl_prevRequest := None, fl_interrupted := None,
     fl_gotoCounter := 0, fl_cancel := False, fl_logs := [], fl_nodes := strip (fl_nodes f),
     fl_timezone := None, fl_Functions := [], fl_triggers := [],
     fl_limiters := map (\<lambda>l. l\<lparr>lim_count := 0\<rparr>) (fl_limiters f),
     fl_whiles := map (\<lambda>w. w\<lparr>wh_step := 0, wh_counter := 0\<rparr>) (fl_whiles f)\<rparr>"

text \<open>
  The links of a well-formed tree.  \<open>X\<close> holds the nodes whose own request has not been
  added to its parent yet (a parse in progress); it is empty for a finished flow.
\<close>

definition wf_links :: "nid set \<Rightarrow> node list \<Rightarrow> bool" where
  "wf_links X ns = (\<forall>n<length ns. \<forall>p. bn_parent (ns ! n) = Some p \<longrightarrow>
     p < n \<and> bn_idx (ns ! n) \<le> length (nd_children (ns ! p))
     \<and> (n \<notin> X \<longrightarrow> bn_idx (ns ! n) < length (nd_children (ns ! p))))"

definition child_of :: "node list \<Rightarrow> nid \<Rightarrow> nid \<Rightarrow> bool" where
  "child_of ns n t = (t < length ns \<and> bn_parent (ns ! t) = Some n)"

fun args_ok :: "node list \<Rightarrow> nat \<Rightarrow> nid \<Rightarrow> app_args \<Rightarrow> bool" where
  "args_ok ns nw n (ArgCondition _ t e) = (child_of ns n t \<and> child_of ns n e)"
| "args_ok ns nw n (ArgWhile w) = (w < nw)"
| "args_ok ns nw n (ArgSwitch _ cs) = list_all (\<lambda>c. child_of ns n (snd c)) cs"
| "args_ok ns nw n _ = True"

definition request_ok :: "flow \<Rightarrow> nid \<Rightarrow> app_request \<Rightarrow> bool" where
  "request_ok f n r = (args_ok (fl_nodes f) (length (fl_whiles f)) n (rq_args r) \<and>
     (\<forall>l. rq_limiter r = Some l \<longrightarrow> l < length (fl_limiters f)))"

text \<open>A tag names a request that carries it.\<close>

definition tag_ok :: "node list \<Rightarrow> string \<Rightarrow> tag \<Rightarrow> bool" where
  "tag_ok ns t g = (tag_parent g < length ns \<and> tag_idx g < length (nd_children (ns ! tag_parent g)) \<and>
     rq_tag (nd_children (ns ! tag_parent g) ! tag_idx g) = t)"

definition wf_static :: "nid set \<Rightarrow> flow \<Rightarrow> bool" where
  "wf_static X f = (wf_links X (fl_nodes f) \<and>
     (\<forall>n<length (fl_nodes f). \<forall>r\<in>set (nd_children (fl_nodes f ! n)). request_ok f n r) \<and>
     (\<forall>w\<in>set (fl_whiles f). wh_do w < length (fl_nodes f)) \<and>
     (\<forall>t g. fl_Tags f t = Some g \<longrightarrow> tag_ok (fl_nodes f) t g))"

section \<open>Dynamic part\<close>

definition wf_dyn :: "flow \<Rightarrow> bool" where
  "wf_dyn f = (fl_currentNode f < length (fl_nodes f) \<and>
     (\<forall>n<length (fl_nodes f). nd_position (fl_nodes f ! n) \<le> length (nd_children (fl_nodes f ! n))) \<and>
     0 \<le> sint (fl_gotoCounter f) \<and> sint (fl_gotoCounter f) \<le> MAX_GOTO + 1)"

definition wf_flow :: "flow \<Rightarrow> bool" where
  "wf_flow f = (wf_static {} f \<and> wf_dyn f)"

text \<open>The nodes from a node up to its root, and the work left on that path.\<close>

fun ancestors :: "node list \<Rightarrow> nid \<Rightarrow> nid list" where
  "ancestors ns n = n # (case bn_parent (ns ! n) of None \<Rightarrow> []
                         | Some p \<Rightarrow> if p < n then ancestors ns p else [])"

declare ancestors.simps [simp del]

definition fanout :: "node list \<Rightarrow> nat" where
  "fanout ns = Suc (sum_list (map (\<lambda>n. length (nd_children n)) ns))"

definition weight :: "node list \<Rightarrow> nid \<Rightarrow> nat" where
  "weight ns n = fanout ns ^ (length ns - n)"

definition todo :: "node \<Rightarrow> nat" where
  "todo n = length (nd_children n) - nd_position n"

definition work_at :: "node list \<Rightarrow> nid \<Rightarrow> nat" where
  "work_at ns n = sum_list (map (\<lambda>m. todo (ns ! m) * weight ns m) (ancestors ns n))"

definition work :: "flow \<Rightarrow> nat" where
  "work f = work_at (fl_nodes f) (fl_currentNode f)"

section \<open>Facts on stripping\<close>

lemma strip_length [simp]: "length (strip ns) = length ns"
  by (simp add: strip_def)

lemma strip_nth [simp]: "n < length ns \<Longrightarrow> strip ns ! n = (ns ! n)\<lparr>nd_position := 0\<rparr>"
  by (simp add: strip_def)

lemma strip_nth_sel:
  "n < length ns \<Longrightarrow> bn_parent (strip ns ! n) = bn_parent (ns ! n)"
  "n < length ns \<Longrightarrow> bn_idx (strip ns ! n) = bn_idx (ns ! n)"
  "n < length ns \<Longrightarrow> nd_children (strip ns ! n) = nd_children (ns ! n)"
  by simp_all

lemma strip_update [simp]:
  "strip (ns[i := (ns ! i)\<lparr>nd_position := p\<rparr>]) = strip ns"
  by (cases "i < length ns") (auto intro!: nth_equalityI simp: nth_list_update)

lemma strip_eq_length: "strip ns = strip ns' \<Longrightarrow> length ns = length ns'"
  by (metis strip_length)

lemma strip_eq_sel:
  assumes "strip ns = strip ns'" "n < length ns"
  shows "bn_parent (ns' ! n) = bn_parent (ns ! n)" "bn_idx (ns' ! n) = bn_idx (ns ! n)"
    "nd_children (ns' ! n) = nd_children (ns ! n)"
  using assms strip_nth_sel strip_eq_length by metis+

lemma wf_links_strip: "strip ns = strip ns' \<Longrightarrow> wf_links X ns = wf_links X ns'"
proof -
  have *: "wf_links X ns'" if e: "strip ns = strip ns'" and w: "wf_links X ns" for ns ns'
    unfolding wf_links_def
  proof (intro allI impI)
    fix n p assume n: "n < length ns'" and p: "bn_parent (ns' ! n) = Some p"
    note len = strip_eq_length [OF e]
    from n len have n': "n < length ns" by simp
    from p strip_eq_sel(1) [OF e n'] have "bn_parent (ns ! n) = Some p" by simp
    with w n' have A: "p < n \<and> bn_idx (ns ! n) \<le> length (nd_children (ns ! p))
     \<and> (n \<notin> X \<longrightarrow> bn_idx (ns ! n) < length (nd_children (ns ! p)))"
      unfolding wf_links_def by blast
    then have "p < length ns" using n' by simp
    with A strip_eq_sel [OF e n'] strip_eq_sel(3) [OF e, of p]
    show "p < n \<and> bn_idx (ns' ! n) \<le> length (nd_children (ns' ! p))
     \<and> (n \<notin> X \<longrightarrow> bn_idx (ns' ! n) < length (nd_children (ns' ! p)))" by simp
  qed
  assume "strip ns = strip ns'"
  then show ?thesis using * by metis
qed

lemma child_of_strip:
  assumes "strip ns = strip ns'"
  shows "child_of ns n t = child_of ns' n t"
proof (cases "t < length ns")
  case True
  then show ?thesis
    using strip_eq_sel(1) [OF assms True] strip_eq_length [OF assms] by (simp add: child_of_def)
next
  case False
  then show ?thesis using strip_eq_length [OF assms] by (simp add: child_of_def)
qed

lemma args_ok_strip:
  assumes "strip ns = strip ns'"
  shows "args_ok ns nw n a = args_ok ns' nw n a"
  by (cases a) (simp_all add: child_of_strip [OF assms])

lemma static_eqD:
  assumes "static f = static g"
  shows "strip (fl_nodes f) = strip (fl_nodes g)" "fl_Tags f = fl_Tags g"
    "length (fl_limiters f) = length (fl_limiters g)" "length (fl_whiles f) = length (fl_whiles g)"
  using arg_cong [OF assms, of fl_nodes] arg_cong [OF assms, of fl_Tags]
    arg_cong [OF assms, of "\<lambda>f. length (fl_limiters f)"]
    arg_cong [OF assms, of "\<lambda>f. length (fl_whiles f)"]
  by (simp_all add: static_def)

lemma static_eq_whiles:
  assumes "static f = static g"
  shows "map wh_do (fl_whiles f) = map wh_do (fl_whiles g)"
    "map wh_maxSteps (fl_whiles f) = map wh_maxSteps (fl_whiles g)"
  using arg_cong [OF assms, of "\<lambda>f. map wh_do (fl_whiles f)"]
    arg_cong [OF assms, of "\<lambda>f. map wh_maxSteps (fl_whiles f)"]
  by (simp_all add: static_def comp_def)

lemma wf_static_cong:
  assumes e: "static f = static g" and w: "wf_static X f"
  shows "wf_static X g"
proof -
  note sD = static_eqD [OF e]
  have len: "length (fl_nodes f) = length (fl_nodes g)" using sD(1) by (rule strip_eq_length)
  have ch: "nd_children (fl_nodes g ! n) = nd_children (fl_nodes f ! n)" if "n < length (fl_nodes g)" for n
    using strip_eq_sel(3) [OF sD(1)] that len by simp
  have rq: "request_ok f n r = request_ok g n r" for n r
    using args_ok_strip [OF sD(1)] sD(3,4) by (simp add: request_ok_def)
  have dos: "wh_do ` set (fl_whiles f) = wh_do ` set (fl_whiles g)"
    using static_eq_whiles(1) [OF e] by (metis set_map)
  have "\<forall>w\<in>set (fl_whiles g). wh_do w < length (fl_nodes g)"
    using w dos len unfolding wf_static_def by (metis imageE imageI)
  moreover have "wf_links X (fl_nodes g)"
    using w wf_links_strip [OF sD(1)] by (simp add: wf_static_def)
  moreover have "\<forall>n<length (fl_nodes g). \<forall>r\<in>set (nd_children (fl_nodes g ! n)). request_ok g n r"
    using w len ch rq by (simp add: wf_static_def)
  moreover have "tag_ok (fl_nodes g) k t" if "fl_Tags g k = Some t" for k t
    using w that sD(2) ch len by (simp add: wf_static_def tag_ok_def)
  ultimately show ?thesis by (simp add: wf_static_def)
qed

section \<open>Operations that only move the cursor\<close>

definition cursorless :: "flow \<Rightarrow> flow" where
  "cursorless f = f\<lparr>fl_nodes := strip (fl_nodes f), fl_currentNode := 0, fl_prevRequest := None\<rparr>"

lemma strip_strip [simp]: "strip (strip ns) = strip ns"
  by (simp add: strip_def)

lemma static_cursorless: "static (cursorless f) = static f"
  by (simp add: static_def cursorless_def)

lemma cursorless_static: "cursorless f = cursorless g \<Longrightarrow> static f = static g"
  by (metis static_cursorless)

lemma cursorless_sel:
  assumes "cursorless f = cursorless g"
  shows "fl_cancel f = fl_cancel g" "fl_gotoCounter f = fl_gotoCounter g"
    "fl_limiters f = fl_limiters g" "fl_whiles f = fl_whiles g" "fl_logs f = fl_logs g"
    "fl_interrupted f = fl_interrupted g" "fl_Tags f = fl_Tags g"
    "strip (fl_nodes f) = strip (fl_nodes g)"
  using arg_cong [OF assms, of fl_cancel] arg_cong [OF assms, of fl_gotoCounter]
    arg_cong [OF assms, of fl_limiters] arg_cong [OF assms, of fl_whiles]
    arg_cong [OF assms, of fl_logs] arg_cong [OF assms, of fl_interrupted]
    arg_cong [OF assms, of fl_Tags] arg_cong [OF assms, of fl_nodes]
  by (simp_all add: cursorless_def)

lemma upd_node_position_cursorless [flow_frame]:
  "cursorless (upd_node n (\<lambda>m. m\<lparr>nd_position := q\<rparr>) f) = cursorless f"
  "cursorless (upd_node n setFirst f) = cursorless f"
  by (simp_all add: cursorless_def upd_node_def setFirst_def)

lemma cursorless_simps [flow_frame]:
  "cursorless (f\<lparr>fl_currentNode := c\<rparr>) = cursorless f"
  "cursorless (f\<lparr>fl_prevRequest := r\<rparr>) = cursorless f"
  by (simp_all add: cursorless_def)

lemma wf_flowI: "\<lbrakk>wf_flow f; static g = static f; wf_dyn g\<rbrakk> \<Longrightarrow> wf_flow g"
  using wf_static_cong wf_flow_def by metis

lemma wf_flow_cur: "wf_flow f \<Longrightarrow> fl_currentNode f < length (fl_nodes f)"
  by (simp add: wf_flow_def wf_dyn_def)

lemma wf_flow_pos:
  "wf_flow f \<Longrightarrow> n < length (fl_nodes f) \<Longrightarrow> nd_position (fl_nodes f ! n) \<le> length (nd_children (fl_nodes f ! n))"
  by (simp add: wf_flow_def wf_dyn_def)

lemma wf_flow_parent:
  "wf_flow f \<Longrightarrow> n < length (fl_nodes f) \<Longrightarrow> bn_parent (fl_nodes f ! n) = Some p \<Longrightarrow>
     p < n \<and> bn_idx (fl_nodes f ! n) < length (nd_children (fl_nodes f ! p))"
  by (auto simp: wf_flow_def wf_static_def wf_links_def)

lemma wf_flow_tag:
  "wf_flow f \<Longrightarrow> fl_Tags f t = Some g \<Longrightarrow> tag_parent g < length (fl_nodes f) \<and>
        tag_idx g < length (nd_children (fl_nodes f ! tag_parent g))"
  by (auto simp: wf_flow_def wf_static_def tag_ok_def)

text \<open>Moving one position inside its node keeps a flow well-formed.\<close>

lemma wf_dyn_position:
  assumes "wf_dyn f" "n < length (fl_nodes f)" "q \<le> length (nd_children (fl_nodes f ! n))"
  shows "wf_dyn (upd_node n (\<lambda>m. m\<lparr>nd_position := q\<rparr>) f)"
  using assms by (simp add: wf_dyn_def upd_node_def nth_list_update_if)

lemma wf_flow_position:
  assumes "wf_flow f" "n < length (fl_nodes f)" "q \<le> length (nd_children (fl_nodes f ! n))"
  shows "wf_flow (upd_node n (\<lambda>m. m\<lparr>nd_position := q\<rparr>) f)"
proof (rule wf_flowI [OF assms(1)])
  show "static (upd_node n (\<lambda>m. m\<lparr>nd_position := q\<rparr>) f) = static f"
    by (rule cursorless_static) (rule upd_node_position_cursorless)
  show "wf_dyn (upd_node n (\<lambda>m. m\<lparr>nd_position := q\<rparr>) f)"
    using assms by (simp add: wf_dyn_position wf_flow_def)
qed

lemma wf_flow_setFirst:
  "wf_flow f \<Longrightarrow> n < length (fl_nodes f) \<Longrightarrow> wf_flow (upd_node n setFirst f)"
  using wf_flow_position [of f n 0] by (simp add: setFirst_def [abs_def])

lemma wf_flow_cursor:
  "wf_flow f \<Longrightarrow> c < length (fl_nodes f) \<Longrightarrow> wf_flow (f\<lparr>fl_currentNode := c\<rparr>)"
  by (rule wf_flowI [of f]) (simp_all add: static_def wf_dyn_def wf_flow_def)

lemma wf_flow_prev: "wf_flow f \<Longrightarrow> wf_flow (f\<lparr>fl_prevRequest := r\<rparr>)"
  by (rule wf_flowI [of f]) (simp_all add: static_def wf_dyn_def wf_flow_def)

section \<open>The work left on the path of the cursor\<close>

lemma ancestors_le: "m \<in> set (ancestors ns n) \<Longrightarrow> m \<le> n"
proof (induction ns n rule: ancestors.induct)
  case (1 ns n)
  from "1.prems" have "m = n \<or> (\<exists>p. bn_parent (ns ! n) = Some p \<and> p < n \<and> m \<in> set (ancestors ns p))"
    by (auto simp: ancestors.simps [of ns n] split: option.splits if_splits)
  then show ?case using "1.IH" by fastforce
qed

lemma ancestors_cong:
  "(\<And>m. m \<le> n \<Longrightarrow> bn_parent (ns' ! m) = bn_parent (ns ! m)) \<Longrightarrow> ancestors ns' n = ancestors ns n"
proof (induction ns n rule: ancestors.induct)
  case (1 ns n)
  have "bn_parent (ns' ! n) = bn_parent (ns ! n)" using "1.prems" by simp
  moreover have "ancestors ns' p = ancestors ns p" if "bn_parent (ns ! n) = Some p" "p < n" for p
    using "1.IH" [OF that] "1.prems" that(2) by simp
  ultimately show ?case
    by (subst (1 2) ancestors.simps) (simp split: option.splits)
qed

lemma parent_update: "bn_parent (ns[i := (ns ! i)\<lparr>nd_position := q\<rparr>] ! m) = bn_parent (ns ! m)"
  by (cases "i < length ns") (auto simp: nth_list_update_if list_update_beyond)

lemma ancestors_update [simp]: "ancestors (ns[i := (ns ! i)\<lparr>nd_position := q\<rparr>]) n = ancestors ns n"
  by (rule ancestors_cong) (rule parent_update)

lemma fanout_strip: "fanout (strip ns) = fanout ns"
  by (simp add: fanout_def strip_def comp_def)

lemma weight_strip: "strip ns = strip ns' \<Longrightarrow> weight ns n = weight ns' n"
  using fanout_strip strip_eq_length unfolding weight_def by metis

lemma weight_update [simp]: "weight (ns[i := (ns ! i)\<lparr>nd_position := q\<rparr>]) n = weight ns n"
  by (rule weight_strip) simp

lemma weight_pos [simp]: "0 < weight ns n"
  by (simp add: weight_def fanout_def)

lemma work_at_root:
  "bn_parent (ns ! n) = None \<Longrightarrow> work_at ns n = todo (ns ! n) * weight ns n"
  unfolding work_at_def by (subst ancestors.simps) simp

lemma work_at_parent:
  "bn_parent (ns ! n) = Some p \<Longrightarrow> p < n \<Longrightarrow> work_at ns n = todo (ns ! n) * weight ns n + work_at ns p"
  unfolding work_at_def by (subst ancestors.simps) simp

lemma work_at_update_above:
  "n < i \<Longrightarrow> work_at (ns[i := (ns ! i)\<lparr>nd_position := q\<rparr>]) n = work_at ns n"
  unfolding work_at_def
  by (simp, rule arg_cong [where f = sum_list], rule map_cong [OF refl]) (auto dest: ancestors_le)

lemma length_children_less_fanout: "n < length ns \<Longrightarrow> length (nd_children (ns ! n)) < fanout ns"
  unfolding fanout_def
  by (simp add: less_Suc_eq_le) (metis (no_types, lifting) elem_le_sum_list length_map nth_map)

lemma todo_weight_less:
  assumes "p < n" "n < length ns"
  shows "length (nd_children (ns ! n)) * weight ns n < weight ns p"
proof -
  have "length (nd_children (ns ! n)) * weight ns n < fanout ns * weight ns n"
    using length_children_less_fanout [OF assms(2)] by simp
  also have "\<dots> = fanout ns ^ Suc (length ns - n)" by (simp add: weight_def)
  also have "\<dots> \<le> weight ns p"
    unfolding weight_def using assms by (intro power_increasing) (auto simp: fanout_def)
  finally show ?thesis .
qed

text \<open>Taking the next child pays for one weight of the node; entering a nested node costs less.\<close>

lemma work_at_advance:
  assumes n: "n < length ns" and q: "nd_position (ns ! n) = q" "q < length (nd_children (ns ! n))"
    and par: "\<And>p. bn_parent (ns ! n) = Some p \<Longrightarrow> p < n"
  shows "work_at (ns[n := (ns ! n)\<lparr>nd_position := Suc q\<rparr>]) n + weight ns n = work_at ns n"
proof -
  let ?ns = "ns[n := (ns ! n)\<lparr>nd_position := Suc q\<rparr>]"
  have t: "todo (?ns ! n) * weight ns n + weight ns n = todo (ns ! n) * weight ns n"
    using n q by (simp add: todo_def) (metis Suc_diff_Suc add.commute mult_Suc)
  show ?thesis
  proof (cases "bn_parent (ns ! n)")
    case None
    then show ?thesis
      using work_at_root [of ns n] work_at_root [of ?ns n] t by (simp add: parent_update)
  next
    case (Some p)
    with par have "p < n" by simp
    then show ?thesis
      using Some work_at_parent [of ns n p] work_at_parent [of ?ns n p] t
        work_at_update_above [of p n ns "Suc q"] by (simp add: parent_update)
  qed
qed

lemma work_at_enter:
  assumes "n < length ns" "bn_parent (ns ! n) = Some p" "p < n"
  shows "work_at (ns[n := (ns ! n)\<lparr>nd_position := 0\<rparr>]) n < work_at ns p + weight ns p"
proof -
  let ?ns = "ns[n := (ns ! n)\<lparr>nd_position := 0\<rparr>]"
  have "work_at ?ns n = length (nd_children (ns ! n)) * weight ns n + work_at ns p"
    using work_at_parent [of ?ns n p] assms work_at_update_above [of p n ns 0]
    by (simp add: parent_update todo_def)
  then show ?thesis using todo_weight_less [OF assms(3,1)] by simp
qed

section \<open>NextRequest\<close>

lemma setPreviousRequest_ok:
  assumes "wf_flow f"
  shows "\<exists>r. setPreviousRequest f = Some (f\<lparr>fl_prevRequest := r\<rparr>)"
proof -
  have "nd_position (cur_node f) \<le> length (nd_children (cur_node f))"
    using assms wf_flow_pos wf_flow_cur by (simp add: cur_node_def)
  moreover have "f = f\<lparr>fl_prevRequest := fl_prevRequest f\<rparr>" by simp
  ultimately show ?thesis
    by (auto simp: setPreviousRequest_def Let_def)
qed

text \<open>What a call of \<open>NextRequest\<close> leaves behind when it hands out request \<open>(c, k)\<close>.\<close>

definition handed_out :: "flow \<Rightarrow> nid \<Rightarrow> nat \<Rightarrow> bool" where
  "handed_out f c k = (fl_currentNode f = c \<and> k < length (nd_children (cur_node f))
     \<and> nd_position (cur_node f) = Suc k)"

lemma NextRequest_take:
  assumes w: "wf_flow f" and prev: "setPreviousRequest f = Some f1" "f1 = f\<lparr>fl_prevRequest := r\<rparr>"
    and k: "nd_position (cur_node f) = k" "k < length (nd_children (cur_node f))"
  defines "f' \<equiv> upd_node (fl_currentNode f) (\<lambda>n. n\<lparr>nd_position := Suc k\<rparr>) f1"
  shows "NextRequest f = Some (Some (fl_currentNode f, k), f')" (is ?run)
    and "wf_flow f'" "cursorless f' = cursorless f" "handed_out f' (fl_currentNode f) k"
    and "work f' + weight (fl_nodes f') (fl_currentNode f) = work f"
proof -
  note c = wf_flow_cur [OF w]
  show ?run
    by (subst NextRequest.simps) (use prev k in \<open>simp add: cur_node_def node_Next_def getLength_def f'_def upd_node_def\<close>)
  have w1: "wf_flow f1" using w prev(2) by (simp add: wf_flow_prev)
  show "wf_flow f'"
    unfolding f'_def using w1 c k prev(2) by (intro wf_flow_position) (simp_all add: cur_node_def)
  show "cursorless f' = cursorless f"
    by (simp add: f'_def upd_node_position_cursorless prev(2) cursorless_simps)
  show "handed_out f' (fl_currentNode f) k"
    using c k prev(2) by (simp add: handed_out_def f'_def upd_node_def cur_node_def)
  have "\<And>p. bn_parent (fl_nodes f ! fl_currentNode f) = Some p \<Longrightarrow> p < fl_currentNode f"
    using wf_flow_parent [OF w c] by blast
  then show "work f' + weight (fl_nodes f') (fl_currentNode f) = work f"
    using work_at_advance [OF c, of k] k prev(2)
    by (simp add: f'_def upd_node_def work_def cur_node_def)
qed

lemma NextRequest_climb:
  assumes w: "wf_flow f" and prev: "setPreviousRequest f = Some f1" "f1 = f\<lparr>fl_prevRequest := r\<rparr>"
    and full: "\<not> nd_position (cur_node f) < length (nd_children (cur_node f))"
  shows "NextRequest f =
      (case bn_parent (cur_node f) of
         None \<Rightarrow> Some (None, upd_node (fl_currentNode f) setFirst f1)
       | Some p \<Rightarrow> NextRequest ((upd_node (fl_currentNode f) setFirst f1)\<lparr>fl_currentNode := p\<rparr>))"
  by (subst NextRequest.simps)
    (use prev full in \<open>auto simp: cur_node_def node_Next_def getLength_def GetParentNode_def
       GetParent_def Let_def split: option.splits\<close>)

lemma NextRequest_ok:
  assumes "wf_flow f"
  shows "\<exists>r f'. NextRequest f = Some (r, f') \<and> wf_flow f' \<and> cursorless f' = cursorless f \<and>
     (\<forall>c k. r = Some (c, k) \<longrightarrow> handed_out f' c k \<and> work f' + weight (fl_nodes f') c \<le> work f)"
  using assms
proof (induction "fl_currentNode f" arbitrary: f rule: less_induct)
  case less
  note c = wf_flow_cur [OF less.prems]
  obtain r0 where prev: "setPreviousRequest f = Some (f\<lparr>fl_prevRequest := r0\<rparr>)"
    using setPreviousRequest_ok [OF less.prems] by blast
  let ?f1 = "f\<lparr>fl_prevRequest := r0\<rparr>"
  show ?case
  proof (cases "nd_position (cur_node f) < length (nd_children (cur_node f))")
    case True
    show ?thesis using NextRequest_take [OF less.prems prev refl refl True] by fastforce
  next
    case False
    let ?f2 = "upd_node (fl_currentNode f) setFirst ?f1"
    have w2: "wf_flow ?f2" using less.prems c by (intro wf_flow_setFirst wf_flow_prev) simp_all
    have cl2: "cursorless ?f2 = cursorless f"
      by (simp add: upd_node_position_cursorless cursorless_simps)
    show ?thesis
    proof (cases "bn_parent (cur_node f)")
      case None
      then show ?thesis using NextRequest_climb [OF less.prems prev refl False] w2 cl2 by auto
    next
      case (Some p)
      let ?f3 = "?f2\<lparr>fl_currentNode := p\<rparr>"
      have p: "p < fl_currentNode f" using wf_flow_parent [OF less.prems c] Some by (simp add: cur_node_def)
      then have w3: "wf_flow ?f3" using w2 c by (intro wf_flow_cursor) (simp_all add: upd_node_def)
      have "work ?f3 = work f"
        using work_at_parent [of "fl_nodes f" "fl_currentNode f" p] Some p False
          work_at_update_above [OF p, of "fl_nodes f" 0]
        by (simp add: work_def cur_node_def todo_def upd_node_def setFirst_def)
      moreover have "cursorless ?f3 = cursorless f" using cl2 by (simp add: cursorless_simps)
      moreover have "NextRequest f = NextRequest ?f3"
        using NextRequest_climb [OF less.prems prev refl False] Some by simp
      moreover have "fl_currentNode ?f3 < fl_currentNode f" using p by simp
      ultimately show ?thesis using less.hyps [OF _ w3] by metis
    qed
  qed
qed

text \<open>When no request is left the cursor is back at the start of a root.\<close>

definition at_start :: "flow \<Rightarrow> bool" where
  "at_start f = (bn_parent (cur_node f) = None \<and> nd_position (cur_node f) = 0)"

lemma NextRequest_end:
  assumes "wf_flow f" "NextRequest f = Some (None, f')"
  shows "at_start f'"
  using assms
proof (induction "fl_currentNode f" arbitrary: f rule: less_induct)
  case less
  note w = less.prems(1)
  note c = wf_flow_cur [OF w]
  obtain r0 where prev: "setPreviousRequest f = Some (f\<lparr>fl_prevRequest := r0\<rparr>)"
    using setPreviousRequest_ok [OF w] by blast
  let ?f2 = "upd_node (fl_currentNode f) setFirst (f\<lparr>fl_prevRequest := r0\<rparr>)"
  have full: "\<not> nd_position (cur_node f) < length (nd_children (cur_node f))"
    using NextRequest_take(1) [OF w prev refl refl] less.prems(2) by auto
  note climb = NextRequest_climb [OF w prev refl full]
  show ?case
  proof (cases "bn_parent (cur_node f)")
    case None
    then have "f' = ?f2" using climb less.prems(2) by simp
    then show ?thesis using None c by (simp add: at_start_def cur_node_def upd_node_def setFirst_def)
  next
    case (Some p)
    have "p < fl_currentNode f" using wf_flow_parent [OF w c] Some by (simp add: cur_node_def)
    moreover have "wf_flow (?f2\<lparr>fl_currentNode := p\<rparr>)"
      using w c calculation by (intro wf_flow_cursor wf_flow_setFirst wf_flow_prev) (simp_all add: upd_node_def)
    ultimately show ?thesis using less.hyps [of "?f2\<lparr>fl_currentNode := p\<rparr>"] climb Some less.prems(2) by simp
  qed
qed

section \<open>Goto\<close>

lemma CompleteTreeTraversal_None [simp]: "CompleteTreeTraversal None ns = Some ns"
  by (subst CompleteTreeTraversal.simps) simp

lemma CompleteTreeTraversal_ok:
  assumes "\<And>n p. n < length ns \<Longrightarrow> bn_parent (ns ! n) = Some p \<Longrightarrow> p < n" "i < length ns"
  shows "\<exists>ns'. CompleteTreeTraversal (Some i) ns = Some ns' \<and> strip ns' = strip ns \<and>
     (\<forall>m>i. ns' ! m = ns ! m) \<and>
     (\<forall>m. nd_position (ns' ! m) = nd_position (ns ! m) \<or> nd_position (ns' ! m) = length (nd_children (ns ! m)))"
  using assms
proof (induction i arbitrary: ns rule: less_induct)
  case (less i)
  let ?ns = "ns[i := (ns ! i)\<lparr>nd_position := length (nd_children (ns ! i))\<rparr>]"
  show ?case
  proof (cases "\<exists>p. bn_parent (ns ! i) = Some p \<and> nd_position (ns ! i) = 0")
    case False
    then have "CompleteTreeTraversal (Some i) ns = Some ns"
      by (subst CompleteTreeTraversal.simps) auto
    then show ?thesis by auto
  next
    case True
    then obtain p where p: "bn_parent (ns ! i) = Some p" "nd_position (ns ! i) = 0" by blast
    have pi: "p < i" using less.prems p(1) by blast
    have run: "CompleteTreeTraversal (Some i) ns = CompleteTreeTraversal (Some p) ?ns"
      using p by (subst CompleteTreeTraversal.simps) simp
    have sel: "nd_position (?ns ! m) = nd_position (ns ! m) \<or> nd_position (?ns ! m) = length (nd_children (ns ! m))"
        "nd_children (?ns ! m) = nd_children (ns ! m)" for m
      using less.prems(2) by (auto simp: nth_list_update_if)
    have "\<And>n q. n < length ?ns \<Longrightarrow> bn_parent (?ns ! n) = Some q \<Longrightarrow> q < n"
      using less.prems(1) by (simp add: parent_update)
    with less.IH [OF pi, of ?ns] pi less.prems(2) obtain ns' where ns':
      "CompleteTreeTraversal (Some p) ?ns = Some ns'" "strip ns' = strip ?ns"
      "\<forall>m>p. ns' ! m = ?ns ! m"
      "\<forall>m. nd_position (ns' ! m) = nd_position (?ns ! m) \<or> nd_position (ns' ! m) = length (nd_children (?ns ! m))"
      by auto
    have "\<forall>m>i. ns' ! m = ns ! m" using ns'(3) pi by auto
    moreover have "\<forall>m. nd_position (ns' ! m) = nd_position (ns ! m) \<or> nd_position (ns' ! m) = length (nd_children (ns ! m))"
      using ns'(4) sel by metis
    ultimately show ?thesis using run ns'(1,2) by auto
  qed
qed

lemma Goto_refused:
  "sint (fl_gotoCounter f) > MAX_GOTO \<or> fl_Tags f t = None \<Longrightarrow> Goto t f = Some (False, f)"
  by (auto simp: Goto_def)

text \<open>The flow a successful jump leaves: only the cursor and the counter moved.\<close>

definition jumped :: "flow \<Rightarrow> tag \<Rightarrow> flow \<Rightarrow> bool" where
  "jumped f g f' = (wf_flow f' \<and> static f' = static f \<and> fl_currentNode f' = tag_parent g
     \<and> nd_position (cur_node f') = tag_idx g \<and> fl_gotoCounter f' = fl_gotoCounter f + 1
     \<and> fl_whiles f' = fl_whiles f \<and> fl_limiters f' = fl_limiters f \<and> fl_cancel f' = fl_cancel f
     \<and> fl_logs f' = fl_logs f \<and> fl_interrupted f' = fl_interrupted f)"

lemma gotoCounter_bump:
  assumes "0 \<le> sint (g :: 16 word)" "sint g \<le> MAX_GOTO"
  shows "sint (g + 1) = sint g + 1"
proof -
  have "sint (g + 1) = signed_take_bit 15 (sint g + sint (1 :: 16 word))"
    by (simp add: sint_word_add)
  then show ?thesis using assms by (simp add: MAX_GOTO_def signed_take_bit_int_eq_self)
qed

text \<open>Writing back a traversal keeps a flow well-formed.\<close>

lemma traversal_wf:
  assumes w: "wf_flow f" and i: "\<And>j. i = Some j \<Longrightarrow> j < fl_currentNode f"
  shows "\<exists>ns. CompleteTreeTraversal i (fl_nodes f) = Some ns \<and> wf_flow (f\<lparr>fl_nodes := ns\<rparr>) \<and>
     strip ns = strip (fl_nodes f) \<and> ns ! fl_currentNode f = cur_node f"
proof (cases i)
  case None
  then show ?thesis using w by (simp add: cur_node_def)
next
  case (Some j)
  note c = wf_flow_cur [OF w]
  have "j < length (fl_nodes f)" using i [OF Some] c by simp
  with CompleteTreeTraversal_ok [of "fl_nodes f" j] wf_flow_parent [OF w] obtain ns where ns:
    "CompleteTreeTraversal (Some j) (fl_nodes f) = Some ns" "strip ns = strip (fl_nodes f)"
    "\<forall>m>j. ns ! m = fl_nodes f ! m"
    "\<forall>m. nd_position (ns ! m) = nd_position (fl_nodes f ! m) \<or>
         nd_position (ns ! m) = length (nd_children (fl_nodes f ! m))" by blast
  have len: "length ns = length (fl_nodes f)" using ns(2) by (rule strip_eq_length)
  have "nd_position (ns ! m) \<le> length (nd_children (ns ! m))" if "m < length ns" for m
    using that ns(4) wf_flow_pos [OF w] strip_eq_sel(3) [OF ns(2) [symmetric], of m] len
    by (metis order_refl)
  then have "wf_dyn (f\<lparr>fl_nodes := ns\<rparr>)" using w len by (simp add: wf_flow_def wf_dyn_def)
  then have "wf_flow (f\<lparr>fl_nodes := ns\<rparr>)" using ns(2) by (intro wf_flowI [OF w]) (simp_all add: static_def)
  then show ?thesis using ns Some i [OF Some] by (simp add: cur_node_def)
qed

lemma wf_flow_bump:
  assumes "wf_flow f" "sint (fl_gotoCounter f) \<le> MAX_GOTO"
  shows "wf_flow (f\<lparr>fl_gotoCounter := fl_gotoCounter f + 1\<rparr>)"
proof (rule wf_flowI [OF assms(1)])
  show "static (f\<lparr>fl_gotoCounter := fl_gotoCounter f + 1\<rparr>) = static f" by (simp add: static_def)
  show "wf_dyn (f\<lparr>fl_gotoCounter := fl_gotoCounter f + 1\<rparr>)"
    using assms gotoCounter_bump [of "fl_gotoCounter f"] by (simp add: wf_flow_def wf_dyn_def)
qed

lemma Goto_ok:
  assumes w: "wf_flow f" and room: "sint (fl_gotoCounter f) \<le> MAX_GOTO" and g: "fl_Tags f t = Some g"
  shows "\<exists>f'. Goto t f = Some (True, f') \<and> jumped f g f'"
proof -
  note tg = wf_flow_tag [OF w g]
  define f3 where "f3 = upd_node (tag_parent g) (\<lambda>n. n\<lparr>nd_position := tag_idx g\<rparr>)
    (SetRoot (tag_parent g) (upd_node (fl_currentNode f) setFirst f))"
  have shape: "length (fl_nodes (upd_node n h x)) = length (fl_nodes x)" for n h x
    by (simp add: upd_node_def)
  have ch: "nd_children (fl_nodes (upd_node m setFirst x) ! n) = nd_children (fl_nodes x ! n)" for m n x
    by (cases "m < length (fl_nodes x)") (auto simp: upd_node_def setFirst_def nth_list_update_if list_update_beyond)
  have w3: "wf_flow f3"
    unfolding f3_def SetRoot_def
    using w wf_flow_cur [OF w] tg by (intro wf_flow_position wf_flow_cursor wf_flow_setFirst) (simp_all add: shape ch)
  have cl3: "cursorless f3 = cursorless f"
    by (simp add: f3_def SetRoot_def upd_node_position_cursorless cursorless_simps)
  have cur3: "fl_currentNode f3 = tag_parent g" by (simp add: f3_def SetRoot_def upd_node_def)
  have pos3: "nd_position (cur_node f3) = tag_idx g"
    using tg by (simp add: cur_node_def f3_def SetRoot_def upd_node_def)
  note sel3 = cursorless_sel [OF cl3] cursorless_static [OF cl3]
  have unf: "Goto t f = (case bn_parent (cur_node f3) of
       None \<Rightarrow> Some (True, f3\<lparr>fl_gotoCounter := fl_gotoCounter f3 + 1\<rparr>)
     | Some p \<Rightarrow> let f4 = upd_node p (\<lambda>n. n\<lparr>nd_position := bn_idx (cur_node f3) + 1\<rparr>) f3
        in Option.bind (CompleteTreeTraversal (bn_parent (fl_nodes f4 ! p)) (fl_nodes f4)) (\<lambda>ns.
             Some (True, f4\<lparr>fl_nodes := ns, fl_gotoCounter := fl_gotoCounter f4 + 1\<rparr>)))"
    unfolding Goto_def f3_def using room g by (simp add: Let_def)
  show ?thesis
  proof (cases "bn_parent (cur_node f3)")
    case None
    have "jumped f g (f3\<lparr>fl_gotoCounter := fl_gotoCounter f3 + 1\<rparr>)"
      using wf_flow_bump [OF w3] room sel3 cur3 pos3 by (simp add: jumped_def cur_node_def static_def)
    then show ?thesis using unf None by simp
  next
    case (Some p)
    define f4 where "f4 = upd_node p (\<lambda>n. n\<lparr>nd_position := bn_idx (cur_node f3) + 1\<rparr>) f3"
    have p: "p < tag_parent g" "bn_idx (cur_node f3) < length (nd_children (fl_nodes f3 ! p))"
      using wf_flow_parent [OF w3 wf_flow_cur [OF w3]] Some cur3 by (auto simp: cur_node_def)
    have cur4: "fl_currentNode f4 = tag_parent g" by (simp add: f4_def cur3 upd_node_def)
    have pos4: "nd_position (cur_node f4) = tag_idx g"
      using p(1) pos3 by (simp add: f4_def cur3 upd_node_def cur_node_def)
    have w4: "wf_flow f4" unfolding f4_def
      using w3 p wf_flow_cur [OF w3] cur3 by (intro wf_flow_position) simp_all
    have cl4: "cursorless f4 = cursorless f" by (simp add: f4_def upd_node_position_cursorless cl3)
    note sel4 = cursorless_sel [OF cl4] cursorless_static [OF cl4]
    have "j < fl_currentNode f4" if "bn_parent (fl_nodes f4 ! p) = Some j" for j
      using wf_flow_parent [OF w4 _ that] p(1) cur4 wf_flow_cur [OF w4] by simp
    from traversal_wf [OF w4 this] obtain ns where ns:
      "CompleteTreeTraversal (bn_parent (fl_nodes f4 ! p)) (fl_nodes f4) = Some ns"
      "wf_flow (f4\<lparr>fl_nodes := ns\<rparr>)" "strip ns = strip (fl_nodes f4)"
      "ns ! fl_currentNode f4 = cur_node f4" by blast
    have "jumped f g (f4\<lparr>fl_nodes := ns, fl_gotoCounter := fl_gotoCounter f4 + 1\<rparr>)"
      using wf_flow_bump [OF ns(2)] room sel4 cur4 pos4 ns(3,4)
      by (simp add: jumped_def cur_node_def static_def)
    then show ?thesis using unf Some ns(1) by (simp add: f4_def Let_def)
  qed
qed

lemma Goto_cases:
  assumes "wf_flow f"
  obtains "Goto t f = Some (False, f)"
  | g f' where "fl_Tags f t = Some g" "sint (fl_gotoCounter f) \<le> MAX_GOTO" "Goto t f = Some (True, f')" "jumped f g f'"
  using Goto_refused Goto_ok [OF assms] by (metis not_less option.exhaust)

end
