(* ===== verification/Text_Subst.thy ===== *)
theory Text_Subst
  imports Flow_Prelude
begin

text \<open>
  Text that schemas carry: variable substitution (\<open>model/variables.go\<close>), JSON and URL escaping
  (\<open>model/json.go\<close>, \<open>model/tables.go\<close>, \<open>model/utils.go\<close>), the rewriting of conditions into
  JavaScript (\<open>parseExpression\<close> in \<open>flow/if.go\<close>) and the substitution inside JSON bodies
  (\<open>parseValidJson\<close>, \<open>parseString\<close> in \<open>flow/parser.go\<close>).

  The regular expressions are of two shapes.  An opening literal, the shortest body, a closing
  byte: the leftmost match starts where the literal stands and a closing byte follows, and ends at
  the first closing byte.  A keyword between word boundaries: a maximal run of word bytes
  that is one of the keywords.
\<close>

section \<open>Matching\<close>

fun take_until :: "char \<Rightarrow> string \<Rightarrow> (string \<times> string) option" where
  "take_until cl [] = None"
| "take_until cl (c # cs) =
     (if c = cl then Some ([], cs)
      else map_option (\<lambda>(b, r). (c # b, r)) (take_until cl cs))"

lemma take_until_length: "take_until cl s = Some (b, r) \<Longrightarrow> length r < length s"
  by (induction s arbitrary: b) (fastforce split: if_splits)+

text \<open>
  \<open>ReplaceAllStringFunc\<close> for an expression whose match is one of the literals of \<open>ops\<close> (tried
  in their order), then the shortest body up to \<open>cl\<close>.  The callback gets the literal, the body
  and the variables it closes over.
\<close>

function ReplaceAllStringFunc ::
  "string list \<Rightarrow> char \<Rightarrow> ('s \<Rightarrow> string \<Rightarrow> string \<Rightarrow> string \<times> 's) \<Rightarrow> 's \<Rightarrow> string \<Rightarrow> string" where
  "ReplaceAllStringFunc ops cl cb st [] = []"
| "ReplaceAllStringFunc ops cl cb st (c # cs) =
     (case find (has_prefix (c # cs)) ops of
        None \<Rightarrow> c # ReplaceAllStringFunc ops cl cb st cs
      | Some op \<Rightarrow>
          (case take_until cl (drop (length op) (c # cs)) of
             None \<Rightarrow> c # ReplaceAllStringFunc ops cl cb st cs
           | Some (b, r) \<Rightarrow>
               (let (out, st') = cb st op b in out @ ReplaceAllStringFunc ops cl cb st' r)))"
  by pat_completeness auto
termination
  by (relation "measure (\<lambda>(ops, cl, cb, st, s). length s)") (auto dest!: take_until_length)

definition op_var :: string where "op_var = [CHR 0x24, CHR 0x7B]"
definition op_global :: string where "op_global = [CHR 0x24, CHR 0x24, CHR 0x7B]"

section \<open>URL escaping (model/utils.go)\<close>

definition hex_upper :: "nat \<Rightarrow> char" where
  "hex_upper d = (if d < 10 then char_of (48 + d) else char_of (55 + d))"

definition is_alnum :: "char \<Rightarrow> bool" where
  "is_alnum c = (let n = (of_char c :: nat) in
     (48 \<le> n \<and> n \<le> 57) \<or> (65 \<le> n \<and> n \<le> 90) \<or> (97 \<le> n \<and> n \<le> 122))"

text \<open>\<open>url.QueryEscape\<close>.\<close>

definition query_escape_byte :: "char \<Rightarrow> string" where
  "query_escape_byte c =
     (if is_alnum c \<or> c \<in> set ''-_.~'' then [c]
      else if c = CHR '' '' then ''+''
      else CHR 0x25 # [hex_upper (of_char c div 16), hex_upper (of_char c mod 16)])"

definition QueryEscape :: "string \<Rightarrow> string" where
  "QueryEscape s = concat (map query_escape_byte s)"

text \<open>\<open>strings.Replace(s, old, new, -1)\<close> for a non-empty \<open>old\<close>.\<close>

function replace_all :: "string \<Rightarrow> string \<Rightarrow> string \<Rightarrow> string" where
  "replace_all old new s =
     (if s = [] then []
      else if old \<noteq> [] \<and> has_prefix s old then new @ replace_all old new (drop (length old) s)
      else hd s # replace_all old new (tl s))"
  by pat_completeness auto
termination
  by (relation "measure (\<lambda>(old, new, s). length s)") (auto simp: length_greater_0_conv)

declare replace_all.simps [simp del]

definition compatibleJSEncodeURIComponent :: "string \<Rightarrow> string" where
  "compatibleJSEncodeURIComponent str =
     (let r1 = replace_all ''+'' [CHR 0x25, CHR ''2'', CHR ''0''] str;
          r2 = replace_all [CHR 0x25, CHR ''2'', CHR ''1''] ''!'' r1;
          r3 = replace_all [CHR 0x25, CHR ''2'', CHR ''8''] ''('' r2;
          r4 = replace_all [CHR 0x25, CHR ''2'', CHR ''9''] '')'' r3
      in replace_all [CHR 0x25, CHR ''2'', CHR ''A''] ''*'' r4)"

text \<open>\<open>url.Values\<close> with the empty key encodes to an equals sign and the escaped value.\<close>

definition UrlEncoded :: "string \<Rightarrow> string" where
  "UrlEncoded str =
     (let res = CHR ''='' # QueryEscape str
      in if length res < 2 then [] else compatibleJSEncodeURIComponent (tl res))"

section \<open>JSON string escaping (model/json.go, model/tables.go)\<close>

definition safeSet :: "nat \<Rightarrow> bool" where
  "safeSet b = (32 \<le> b \<and> b < 128 \<and> b \<noteq> 34 \<and> b \<noteq> 92)"

definition htmlSafeSet :: "nat \<Rightarrow> bool" where
  "htmlSafeSet b = (32 \<le> b \<and> b < 128 \<and> b \<notin> {34, 38, 60, 62, 92})"

definition hex_lower :: "nat \<Rightarrow> char" where
  "hex_lower d = (if d < 10 then char_of (48 + d) else char_of (87 + d))"

text \<open>
  \<open>utf8.DecodeRuneInString\<close> on the first bytes of a string: the code point and its width;
  \<open>None\<close> is \<open>RuneError\<close> with width one.
\<close>

definition cont :: "nat \<Rightarrow> bool" where
  "cont b = (128 \<le> b \<and> b < 192)"

fun decode_rune :: "nat list \<Rightarrow> (nat \<times> nat) option" where
  "decode_rune (b0 # bs) =
     (if b0 < 128 then Some (b0, 1)
      else if 194 \<le> b0 \<and> b0 \<le> 223 then
        (case bs of b1 # _ \<Rightarrow> if cont b1 then Some ((b0 - 192) * 64 + (b1 - 128), 2) else None | _ \<Rightarrow> None)
      else if 224 \<le> b0 \<and> b0 \<le> 239 then
        (case bs of b1 # b2 # _ \<Rightarrow>
           if (if b0 = 224 then 160 else 128) \<le> b1 \<and> b1 \<le> (if b0 = 237 then 159 else 191) \<and> cont b2
           then Some ((b0 - 224) * 4096 + (b1 - 128) * 64 + (b2 - 128), 3) else None | _ \<Rightarrow> None)
      else if 240 \<le> b0 \<and> b0 \<le> 244 then
        (case bs of b1 # b2 # b3 # _ \<Rightarrow>
           if (if b0 = 240 then 144 else 128) \<le> b1 \<and> b1 \<le> (if b0 = 244 then 143 else 191) \<and> cont b2 \<and> cont b3
           then Some ((b0 - 240) * 262144 + (b1 - 128) * 4096 + (b2 - 128) * 64 + (b3 - 128), 4) else None | _ \<Rightarrow> None)
      else None)"
| "decode_rune [] = None"

definition slice :: "string \<Rightarrow> nat \<Rightarrow> nat \<Rightarrow> string" where
  "slice s i j = take (j - i) (drop i s)"

definition json_escape_byte :: "char \<Rightarrow> string" where
  "json_escape_byte c =
     (let b = (of_char c :: nat) in
      if b = 92 then [CHR 0x5C]
      else if b = 34 then [CHR 0x5C, c]
      else if b = 8 then [CHR 0x5C, CHR ''b'']
      else if b = 12 then [CHR 0x5C, CHR ''f'']
      else if b = 10 then [CHR 0x5C, CHR ''n'']
      else if b = 13 then [CHR 0x5C, CHR ''r'']
      else if b = 9 then [CHR 0x5C, CHR ''t'']
      else [CHR 0x5C, CHR ''u'', CHR ''0'', CHR ''0'', hex_lower (b div 16), hex_lower (b mod 16)])"

lemma decode_rune_width: "decode_rune bs = Some (c, n) \<Longrightarrow> 0 < n"
  by (cases bs) (auto split: if_splits list.splits)

text \<open>A string as Go ranges over it: code points with their bytes; a stray byte has none.\<close>

function runes :: "string \<Rightarrow> (nat option \<times> string) list" where
  "runes s =
     (if s = [] then []
      else case decode_rune (map of_char (take 4 s)) of
          None \<Rightarrow> (None, [hd s]) # runes (tl s)
        | Some (c, n) \<Rightarrow> (Some c, take n s) # runes (drop n s))"
  by pat_completeness auto
termination
proof (relation "measure length")
  fix s :: string and x c n
  assume "s \<noteq> []" "decode_rune (map of_char (take 4 s)) = Some x" "(c, n) = x"
  then have "0 < n" by (metis decode_rune_width)
  then show "(drop n s, s) \<in> measure length" using \<open>s \<noteq> []\<close> by simp
qed auto

declare runes.simps [simp del]

text \<open>The loop of \<open>JsonString\<close>, with its three variables.\<close>

function JsonString_loop :: "bool \<Rightarrow> string \<Rightarrow> nat \<Rightarrow> nat \<Rightarrow> string \<Rightarrow> string" where
  "JsonString_loop escapeHTML src i start dst =
     (if i \<ge> length src then dst @ drop start src
      else (let b = (of_char (src ! i) :: nat) in
        if b < 128 then
          (if htmlSafeSet b \<or> (\<not> escapeHTML \<and> safeSet b)
           then JsonString_loop escapeHTML src (i + 1) start dst
           else if b = 34 \<and> i > 0 \<and> src ! (i - 1) = CHR 0x5C
           then JsonString_loop escapeHTML src (i + 1) start (dst @ slice src start i)
           else JsonString_loop escapeHTML src (i + 1) (i + 1)
                  (dst @ slice src start i @ json_escape_byte (src ! i)))
        else (case decode_rune (map of_char (slice src i (i + min 4 (length src - i)))) of
            None \<Rightarrow> JsonString_loop escapeHTML src (i + 1) (i + 1)
                      (dst @ slice src start i @ CHR 0x5C # ''ufffd'')
          | Some (c, width) \<Rightarrow>
              if c = 8232 \<or> c = 8233
              then JsonString_loop escapeHTML src (i + width) (i + width)
                     (dst @ slice src start i @ CHR 0x5C # ''u202'' @ [hex_lower (c mod 16)])
              else JsonString_loop escapeHTML src (i + width) start dst)))"
  by pat_completeness auto
termination
  by (relation "measure (\<lambda>(e, src, i, start, dst). length src - i)") (auto dest: decode_rune_width)

declare JsonString_loop.simps [simp del]

definition JsonString :: "string \<Rightarrow> string \<Rightarrow> bool \<Rightarrow> string" where
  "JsonString dst src escapeHTML = JsonString_loop escapeHTML src 0 0 dst"

section \<open>Variable substitution (model/variables.go)\<close>

datatype parse_option = ParseOptionJson | ParseOptionOther nat

definition hasOption :: "parse_option \<Rightarrow> parse_option list \<Rightarrow> bool" where
  "hasOption opt ops = (opt \<in> set ops)"

text \<open>
  The callback of \<open>ParseText\<close>.  Its state is the captured variable \<open>uri\<close>, which the
  function declares once for the whole text.
\<close>

definition ParseText_cb ::
  "(string \<Rightarrow> string \<times> bool) \<Rightarrow> bool \<Rightarrow> bool \<Rightarrow> string \<Rightarrow> string \<Rightarrow> string \<times> bool" where
  "ParseText_cb get jsonString uri op body =
     (let (r1, uri') = (if has_suffix body ''.uri()'' then (take (length body - 6) body, True) else (body, uri));
          out0 = fst (get r1);
          out = (if uri' \<and> out0 \<noteq> [] then UrlEncoded out0 else out0)
      in (if jsonString \<and> length out > 0 then (JsonString [] out True, uri') else (out, uri')))"

definition ParseText :: "(string \<Rightarrow> string \<times> bool) \<Rightarrow> string \<Rightarrow> parse_option list \<Rightarrow> string" where
  "ParseText get text ops =
     ReplaceAllStringFunc [op_var] (CHR 0x7D) (ParseText_cb get (hasOption ParseOptionJson ops)) False text"

text \<open>The parsers run first, in order; nil ones are skipped.\<close>

definition ParseTextWithConfig ::
  "(string \<Rightarrow> string \<times> bool) \<Rightarrow> string \<Rightarrow> parse_option list \<Rightarrow> (string \<Rightarrow> string) option list \<Rightarrow> string" where
  "ParseTextWithConfig get text ops parsers =
     ParseText get (fold (\<lambda>p t. case p of None \<Rightarrow> t | Some h \<Rightarrow> h t) parsers text) ops"

section \<open>Text of a flow (flow/parser.go)\<close>

definition parseGlobalVariables :: "(string \<Rightarrow> string) \<Rightarrow> string \<Rightarrow> string" where
  "parseGlobalVariables global text =
     ReplaceAllStringFunc [op_global] (CHR 0x7D) (\<lambda>st op body. (global body, st)) () text"

definition parseString :: "(string \<Rightarrow> string) \<Rightarrow> (string \<Rightarrow> string \<times> bool) \<Rightarrow> string \<Rightarrow> string" where
  "parseString global get text = ParseText get (parseGlobalVariables global text) []"

text \<open>\<open>string(b)\<close> for a byte \<open>b\<close> is the UTF-8 encoding of the code point \<open>b\<close>.\<close>

definition byte_string :: "char \<Rightarrow> string" where
  "byte_string c =
     (let b = (of_char c :: nat) in if b < 128 then [c] else [char_of (192 + b div 64), char_of (128 + b mod 64)])"

text \<open>
  The loop of \<open>parseValidJson\<close>; \<open>None\<close> is the panic of \<open>Truncate\<close> on an empty buffer.
\<close>

function parseValidJson_loop ::
  "(string \<Rightarrow> string \<times> bool) \<Rightarrow> string \<Rightarrow> nat \<Rightarrow> string \<Rightarrow> string \<Rightarrow> string option" where
  "parseValidJson_loop get inp i res token =
     (let l = length inp in
      if i \<ge> l then Some res
      else if inp ! i = CHR 0x24 \<and> l > i + 2 \<and> inp ! (i + 1) = CHR 0x7B \<and> inp ! (i + 2) \<noteq> CHR 0x7D \<and> token = []
      then parseValidJson_loop get inp (i + 3) res (token @ byte_string (inp ! (i + 2)))
      else if token \<noteq> [] then
        (if inp ! i = CHR 0x7D then
           (let tok = fst (get token) in
            if tok \<noteq> [] then
              (if l > 2 \<and> (hd tok = CHR 0x5B \<or> hd tok = CHR 0x7B) \<and> (last tok = CHR 0x5D \<or> last tok = CHR 0x7D)
               then (if res = [] then None
                     else parseValidJson_loop get inp (i + 2) (butlast res @ tok) [])
               else parseValidJson_loop get inp (i + 1) (res @ tok) [])
            else parseValidJson_loop get inp (i + 1) res tok)
         else parseValidJson_loop get inp (i + 1) res (token @ byte_string (inp ! i)))
      else parseValidJson_loop get inp (i + 1) (res @ byte_string (inp ! i)) token)"
  by pat_completeness auto
termination
  by (relation "measure (\<lambda>(get, inp, i, res, token). length inp - i)") auto

declare parseValidJson_loop.simps [simp del]

definition parseValidJson :: "(string \<Rightarrow> string \<times> bool) \<Rightarrow> string \<Rightarrow> string option" where
  "parseValidJson get inp =
     (if length inp \<le> 3 then Some inp else parseValidJson_loop get inp 0 [] [])"

section \<open>Conditions (flow/if.go)\<close>

definition date_functions :: "string list" where
  "date_functions = [''year'', ''yday'', ''mon'', ''mday'', ''week'', ''mweek'', ''wday'', ''hour'',
     ''minute'', ''minute_of_day'', ''time_of_day'', ''date_time'']"

definition protected_words :: "string list" where
  "protected_words = [''function'', ''case'', ''if'', ''return'', ''new'', ''switch'', ''var'', ''this'',
     ''typeof'', ''for'', ''while'', ''break'', ''do'', ''continue'']"

definition is_word :: "char \<Rightarrow> bool" where
  "is_word c = (is_alnum c \<or> c = CHR ''_'')"

text \<open>\<open>ReplaceAllLiteralString(s, "")\<close> for \<open>\b(w1|w2|...)\b\<close>.\<close>

function remove_words :: "string list \<Rightarrow> string \<Rightarrow> string" where
  "remove_words ws [] = []"
| "remove_words ws (c # cs) =
     (if is_word c then
        (let w = takeWhile is_word (c # cs); r = dropWhile is_word (c # cs)
         in (if w \<in> set ws then [] else w) @ remove_words ws r)
      else c # remove_words ws cs)"
  by pat_completeness auto
termination
  by (relation "measure (\<lambda>(ws, s). length s)") (auto simp: le_imp_less_Suc length_dropWhile_le)

definition parseExpression :: "string \<Rightarrow> string" where
  "parseExpression ex =
     (let e1 = ReplaceAllStringFunc [op_global] (CHR 0x7D)
                 (\<lambda>st op body. (''sys.getGlobalVariable('' @ CHR 0x22 # body @ CHR 0x22 # '')'', st)) () ex;
          e2 = ReplaceAllStringFunc [op_var] (CHR 0x7D)
                 (\<lambda>st op body. (''sys.getVariable('' @ CHR 0x22 # body @ CHR 0x22 # '')'', st)) () e1;
          e3 = ReplaceAllStringFunc (map (\<lambda>n. CHR ''&'' # n @ ''('') date_functions) (CHR '')'')
                 (\<lambda>st op body. (''sys.'' @ butlast (tl op) @ ''('' @ CHR 0x22 # body @ CHR 0x22 # '')'', st)) () e2
      in remove_words protected_words e3)"

end
