(* ===== verification/Flow_Parse.thy ===== *)
theory Flow_Parse
  imports Flow_Nav Text_Subst
begin

text \<open>
  Building the tree of a flow from a schema: \<open>parseReq\<close>, \<open>parseFlowArray\<close>, \<open>New\<close> and
  \<open>Fork\<close> of \<open>flow/flow.go\<close> and the constructors they call (\<open>newConditionArgs\<close> in
  \<open>flow/if.go\<close>, \<open>newWhileArgs\<close> in \<open>flow/while.go\<close>, \<open>newSwitchArgs\<close> in
  \<open>flow/switch.go\<close>, \<open>addFunction\<close> in \<open>flow/function.go\<close>, \<open>addTrigger\<close> in
  \<open>flow/trigger.go\<close>).  The constructors allocate nodes, limiters and while states in
  the stores of the flow, in the order of the code.
\<close>

unbundle bit_operations_syntax

section \<open>Requests\<close>

text \<open>
  \<open>newLimiter\<close>.  The conversion \<open>uint32(max)\<close> truncates; beyond 32 bits Go leaves the
  result to the platform, and the model takes the low 32 bits.
\<close>

definition newLimiter :: "(string \<times> goval) list \<Rightarrow> limiter option" where
  "newLimiter args =
     (let mx = (case as_float (map_get args ''max'') of Some q \<Rightarrow> q | None \<Rightarrow> 0);
          failover = (case as_string (map_get args ''failover'') of Some s \<Rightarrow> s | None \<Rightarrow> [])
      in if mx > 0 \<and> length failover > 0
         then Some \<lparr>lim_count = 0, lim_max = word_of_int (floor mx), lim_failover = failover\<rparr> else None)"

definition newLog :: "(string \<times> goval) list \<Rightarrow> string option" where
  "newLog args =
     (let name = (case as_string (map_get args ''name'') of Some s \<Rightarrow> s | None \<Rightarrow> [])
      in if name \<noteq> [] then Some name else None)"

definition zero_request :: app_request where
  "zero_request = \<lparr>bn_depth = 0, bn_idx = 0, bn_parent = None, rq_args = ArgVal GNil, rq_flags = 0,
     rq_name = [], rq_debug_id = [], rq_tag = [], rq_limiter = None, rq_log = None\<rparr>"

text \<open>An argument of the type \<open>model.ApplicationObject\<close> is taken as a plain map.\<close>

definition app_value :: "goval \<Rightarrow> goval" where
  "app_value v = (case v of GObj m \<Rightarrow> GMap m | _ \<Rightarrow> v)"

text \<open>One round of the loop over the fields of an application object.\<close>

definition parseReq_field ::
  "string \<Rightarrow> goval \<Rightarrow> app_request \<times> limiter list \<Rightarrow> app_request \<times> limiter list" where
  "parseReq_field name v st =
     (let (req, ls) = st in
      if name = ''_id'' then
        (case v of GStr s \<Rightarrow> (req\<lparr>rq_debug_id := s\<rparr>, ls) | _ \<Rightarrow> st)
      else if name = ''break'' then
        (if as_bool v = Some True then (req\<lparr>rq_flags := rq_flags req OR ApplicationFlagBreakEnabled\<rparr>, ls) else st)
      else if name = ''async'' then
        (if as_bool v = Some True then (req\<lparr>rq_flags := rq_flags req OR ApplicationFlagAsyncEnabled\<rparr>, ls) else st)
      else if name = ''tag'' then
        (case v of GStr s \<Rightarrow> (req\<lparr>rq_tag := s\<rparr>, ls)
                 | GInt i \<Rightarrow> (req\<lparr>rq_tag := Itoa i\<rparr>, ls) | _ \<Rightarrow> st)
      else if name = ''limit'' then
        (case v of GMap m \<Rightarrow>
             (case newLimiter m of None \<Rightarrow> (req\<lparr>rq_limiter := None\<rparr>, ls)
              | Some l \<Rightarrow> (req\<lparr>rq_limiter := Some (length ls)\<rparr>, ls @ [l]))
         | _ \<Rightarrow> st)
      else if name = ''trace'' then
        (case v of GMap m \<Rightarrow> (req\<lparr>rq_log := newLog m\<rparr>, ls) | _ \<Rightarrow> st)
      else if rq_name req = [] then
        (req\<lparr>rq_name := name, rq_args := ArgVal (app_value v)\<rparr>, ls)
      else st)"

fun parseReq_loop :: "app_object \<Rightarrow> app_request \<times> limiter list \<Rightarrow> app_request \<times> limiter list" where
  "parseReq_loop [] st = st"
| "parseReq_loop ((name, v) # m) st = parseReq_loop m (parseReq_field name v st)"

definition parseReq :: "app_object \<Rightarrow> limiter list \<Rightarrow> app_request \<times> limiter list" where
  "parseReq m ls =
     (let (req, ls') = parseReq_loop m (zero_request, ls)
      in if rq_name req = [] \<and> rq_flags req AND ApplicationFlagBreakEnabled = ApplicationFlagBreakEnabled
         then (req\<lparr>rq_name := ''break''\<rparr>, ls') else (req, ls'))"

definition ArrInterfaceToArrayApplication :: "goval list \<Rightarrow> applications" where
  "ArrInterfaceToArrayApplication src = map (\<lambda>v. case v of GMap m \<Rightarrow> m | _ \<Rightarrow> []) src"

definition arg_val :: "app_args \<Rightarrow> goval" where
  "arg_val a = (case a of ArgVal v \<Rightarrow> v | _ \<Rightarrow> GNil)"

section \<open>Functions and triggers\<close>

definition addFunction :: "goval \<Rightarrow> flow \<Rightarrow> app_error option \<times> flow" where
  "addFunction args i =
     (case as_map args of
        None \<Rightarrow> (Some (NewAppError ''Iterator'' ''iterator.parse_app.function.valid_args'' [] ''bad arguments'' 400), i)
      | Some tmp \<Rightarrow>
          (case as_string (map_get tmp ''name'') of
             None \<Rightarrow> (Some (NewAppError ''Iterator'' ''iterator.parse_app.function.valid_name'' []
                         ''bad arguments, name is required'' 400), i)
           | Some name \<Rightarrow>
               (case as_arr (map_get tmp ''actions'') of
                  None \<Rightarrow> (Some (NewAppError ''Iterator'' ''iterator.parse_app.function.valid_actions'' []
                              ''bad arguments, actions is required'' 400), i)
                | Some actions \<Rightarrow>
                    (None, i\<lparr>fl_Functions := AList.update name (ArrInterfaceToArrayApplication actions) (fl_Functions i)\<rparr>))))"

definition TriggerDisconnected :: string where "TriggerDisconnected = ''disconnected''"
definition TriggerCommands :: string where "TriggerCommands = ''commands''"

definition TriggerCommandsName :: "string \<Rightarrow> string" where
  "TriggerCommandsName c = TriggerCommands @ ''-'' @ c"

fun addTrigger_commands :: "(string \<times> goval) list \<Rightarrow> (string \<times> applications) list \<Rightarrow> (string \<times> applications) list" where
  "addTrigger_commands [] ts = ts"
| "addTrigger_commands ((c, v) # cs) ts =
     addTrigger_commands cs
       (case as_arr v of None \<Rightarrow> ts
        | Some xs \<Rightarrow> AList.update (TriggerCommandsName c) (ArrInterfaceToArrayApplication xs) ts)"

fun addTrigger_loop :: "(string \<times> goval) list \<Rightarrow> (string \<times> applications) list \<Rightarrow> (string \<times> applications) list" where
  "addTrigger_loop [] ts = ts"
| "addTrigger_loop ((name, val) # m) ts =
     addTrigger_loop m
       (if name = TriggerDisconnected then
          (case as_arr val of None \<Rightarrow> ts
           | Some xs \<Rightarrow> AList.update name (ArrInterfaceToArrayApplication xs) ts)
        else if name = TriggerCommands then
          (case as_map val of None \<Rightarrow> ts | Some cs \<Rightarrow> addTrigger_commands cs ts)
        else ts)"

definition addTrigger :: "goval \<Rightarrow> flow \<Rightarrow> app_error option \<times> flow" where
  "addTrigger args i =
     (case as_map args of
        None \<Rightarrow> (Some (NewAppError ''Iterator'' ''iterator.parse_app.trigger.valid_args'' [] ''bad arguments'' 400), i)
      | Some tmp \<Rightarrow> (None, i\<lparr>fl_triggers := addTrigger_loop tmp (fl_triggers i)\<rparr>))"

section \<open>The tree\<close>

definition new_node :: "nid \<Rightarrow> flow \<Rightarrow> nid \<times> flow" where
  "new_node parent i = (let (n, ns) = NewNode (Some parent) (fl_nodes i) in (n, i\<lparr>fl_nodes := ns\<rparr>))"

definition add_request :: "nid \<Rightarrow> app_request \<Rightarrow> flow \<Rightarrow> flow" where
  "add_request n req i = upd_node n (node_Add req) i"

text \<open>
  The common end of the branches of \<open>parseFlowArray\<close>: the request gets its parent and position,
  its tag is recorded and it is added to the node.  (The two orders of the last two steps in the
  code give the same flow: the position of the tag is the one \<open>setParentNode\<close> stored.)
\<close>

definition attach :: "nid \<Rightarrow> app_request \<Rightarrow> flow \<Rightarrow> flow" where
  "attach n req i =
     (let req' = setParentNode (fl_nodes i) (Some n) req
      in add_request n req' (trySetTag (rq_tag req') n (bn_idx req') i))"

definition apps_size :: "applications \<Rightarrow> nat" where
  "apps_size apps = sum_list (map (\<lambda>m. size (GMap m)) apps)"

lemma apps_size_arr: "apps_size (ArrInterfaceToArrayApplication xs) < size (GArr xs)"
  by (induction xs) (auto simp: apps_size_def ArrInterfaceToArrayApplication_def split: goval.splits)

lemma parseReq_field_size:
  "size (arg_val (rq_args (fst (parseReq_field name v st)))) \<le> max (size v) (size (arg_val (rq_args (fst st))))"
  by (auto simp: parseReq_field_def app_value_def arg_val_def Let_def split: prod.splits goval.splits option.splits)

lemma parseReq_loop_size:
  "size (arg_val (rq_args (fst (parseReq_loop m st)))) < max (size (GMap m)) (Suc (size (arg_val (rq_args (fst st)))))"
proof (induction m st rule: parseReq_loop.induct)
  case (2 name v m st)
  then show ?case using parseReq_field_size [of name v st] by (simp add: less_max_iff_disj max_def split: if_splits)
qed simp

lemma parseReq_size: "size (arg_val (rq_args (fst (parseReq m ls)))) < size (GMap m)"
  using parseReq_loop_size [of m "(zero_request, ls)"]
  by (auto simp: parseReq_def Let_def zero_request_def arg_val_def split: prod.splits app_args.splits)

lemma parseReq_args_size: "parseReq m ls = (req, ls') \<Longrightarrow> size (arg_val (rq_args req)) < size (GMap m)"
  using parseReq_size [of m ls] by simp

lemma parse_sizes:
  "(req, ls') = parseReq v ls \<Longrightarrow> size (arg_val (rq_args req)) < apps_size (v # apps)"
  "apps_size apps < apps_size (v # apps)"
  "map_get m k = GArr xs \<Longrightarrow> apps_size (ArrInterfaceToArrayApplication xs) < size (GMap m)"
  "apps_size (ArrInterfaceToArrayApplication xs) < Suc (Suc (Suc (Suc (size_list size xs + n))))"
  "map_get m k = GMap m' \<Longrightarrow> size (GMap m') < size (GMap m)"
  using parseReq_args_size [of v ls req ls'] apps_size_arr [of xs] map_get_size [of m k]
  by (auto simp: apps_size_def)

text \<open>
  \<open>parseFlowArray\<close> and the constructors of the nested forms.  \<open>newSwitchArgs_loop\<close> is the
  loop of \<open>newSwitchArgs\<close> over the cases.  Errors are logged by the code and the request is
  dropped.
\<close>

function (sequential) parseFlowArray :: "flow \<Rightarrow> nid \<Rightarrow> applications \<Rightarrow> flow"
  and newConditionArgs :: "flow \<Rightarrow> nid \<Rightarrow> goval \<Rightarrow> app_args \<times> flow"
  and newWhileArgs :: "flow \<Rightarrow> nid \<Rightarrow> app_request \<Rightarrow> goval \<Rightarrow> app_args \<times> flow"
  and newSwitchArgs_loop :: "flow \<Rightarrow> nid \<Rightarrow> (string \<times> goval) list \<Rightarrow> (string \<times> nid) list \<Rightarrow> (string \<times> nid) list \<times> flow"
  and newSwitchArgs :: "flow \<Rightarrow> nid \<Rightarrow> goval \<Rightarrow> (app_error + app_args) \<times> flow"
where
  "parseFlowArray i n [] = i"
| "parseFlowArray i n (v # apps) =
     (case parseReq v (fl_limiters i) of (req, ls) \<Rightarrow>
      let i0 = i\<lparr>fl_limiters := ls\<rparr>;
          i' = (if rq_name req = ''if'' then
                  (case newConditionArgs i0 n (arg_val (rq_args req)) of
                     (a, i1) \<Rightarrow> attach n (req\<lparr>rq_args := a\<rparr>) i1)
                else if rq_name req = ''while'' then
                  (case newWhileArgs i0 n req (arg_val (rq_args req)) of
                     (a, i1) \<Rightarrow> attach n (req\<lparr>rq_args := a\<rparr>) i1)
                else if rq_name req = ''function'' then snd (addFunction (arg_val (rq_args req)) i0)
                else if rq_name req = ''trigger'' then snd (addTrigger (arg_val (rq_args req)) i0)
                else if rq_name req = ''switch'' then
                  (case newSwitchArgs i0 n (arg_val (rq_args req)) of
                     (Inl err, i1) \<Rightarrow> i1
                   | (Inr a, i1) \<Rightarrow> attach n (req\<lparr>rq_args := a\<rparr>) i1)
                else if rq_name req = ''break'' then attach n (req\<lparr>rq_args := ArgBreak\<rparr>) i0
                else if rq_name req \<noteq> [] then attach n req i0
                else i0)
      in parseFlowArray i' n apps)"
| "newConditionArgs i parent props =
     (let (th, i1) = new_node parent i;
          (el, i2) = new_node parent i1
      in case props of
           GMap tmp \<Rightarrow>
             (let i3 = (case map_get tmp ''then'' of
                          GArr xs \<Rightarrow> parseFlowArray i2 th (ArrInterfaceToArrayApplication xs) | _ \<Rightarrow> i2);
                  i4 = (case map_get tmp ''else'' of
                          GArr ys \<Rightarrow> parseFlowArray i3 el (ArrInterfaceToArrayApplication ys) | _ \<Rightarrow> i3);
                  ex = (case map_get tmp ''expression'' of GStr e \<Rightarrow> parseExpression e | _ \<Rightarrow> [])
              in (ArgCondition ex th el, i4))
         | _ \<Rightarrow> (ArgCondition [] th el, i2))"
| "newWhileArgs i parent req props =
     (let (do, i1) = new_node parent i;
          w = length (fl_whiles i1);
          a = \<lparr>wh_condition = [], wh_do = do, wh_step = 0, wh_counter = 0, wh_maxSteps = 1000,
               wh_originalParent = None\<rparr>;
          i2 = i1\<lparr>fl_whiles := fl_whiles i1 @ [a]\<rparr>
      in case props of
           GMap tmp \<Rightarrow>
             (let i3 = (case map_get tmp ''do'' of
                          GArr xs \<Rightarrow> parseFlowArray i2 do (ArrInterfaceToArrayApplication xs) | _ \<Rightarrow> i2);
                  cond = (case map_get tmp ''condition'' of GStr e \<Rightarrow> parseExpression e | _ \<Rightarrow> []);
                  steps = (case map_get tmp ''maxSteps'' of
                             GStr e \<Rightarrow> (case Atoi e of Some v \<Rightarrow> v | None \<Rightarrow> 1000) | _ \<Rightarrow> 1000);
                  len = length (nd_children (fl_nodes i3 ! parent));
                  orig = (if len = 0 then None else Some (parent, len - 1));
                  i4 = i3\<lparr>fl_whiles := (fl_whiles i3)[w := a\<lparr>wh_condition := cond, wh_maxSteps := steps,
                                                             wh_originalParent := orig\<rparr>]\<rparr>
              in (ArgWhile w, add_request do (req\<lparr>rq_args := ArgWhile w\<rparr>) i4))
         | _ \<Rightarrow> (ArgWhile w, i2))"
| "newSwitchArgs_loop i parent [] cases = (cases, i)"
| "newSwitchArgs_loop i parent ((caseName, caseVal) # cs) cases =
     (case caseVal of
        GArr c \<Rightarrow>
          (let (n, i1) = new_node parent i;
               i2 = parseFlowArray i1 n (ArrInterfaceToArrayApplication c)
           in newSwitchArgs_loop i2 parent cs (AList.update caseName n cases))
      | _ \<Rightarrow> newSwitchArgs_loop i parent cs cases)"
| "newSwitchArgs i parent props =
     (case props of
        GMap tmp \<Rightarrow>
          (case map_get tmp ''variable'' of
             GStr var \<Rightarrow>
               if var = [] then
                 (Inl (NewAppError ''Iterator'' ''iterator.parse_app.switch.valid_name'' []
                    ''bad arguments, variable is required'' 400), i)
               else (case map_get tmp ''case'' of
                       GMap cs \<Rightarrow> (case newSwitchArgs_loop i parent cs [] of (m, i1) \<Rightarrow> (Inr (ArgSwitch var m), i1))
                     | _ \<Rightarrow> (Inl (NewAppError ''Iterator'' ''iterator.parse_app.switch.valid_name'' []
                              ''bad arguments, case is required'' 400), i))
           | _ \<Rightarrow> (Inl (NewAppError ''Iterator'' ''iterator.parse_app.switch.valid_name'' []
                    ''bad arguments, variable is required'' 400), i))
      | _ \<Rightarrow> (Inr (ArgSwitch [] []), i))"
  by pat_completeness auto
termination
  by (relation "measure (\<lambda>x. case x of
      Inl (Inl (i, n, apps)) \<Rightarrow> apps_size apps
    | Inl (Inr (i, p, v)) \<Rightarrow> size v
    | Inr (Inl (i, p, r, v)) \<Rightarrow> size v
    | Inr (Inr (Inl (i, p, cs, m))) \<Rightarrow> size (GMap cs)
    | Inr (Inr (Inr (i, p, v))) \<Rightarrow> size v)")
    (use parse_sizes in auto)

declare parseFlowArray.simps(2) [simp del] newConditionArgs.simps [simp del] newWhileArgs.simps [simp del]
  newSwitchArgs_loop.simps(2) [simp del] newSwitchArgs.simps [simp del]

section \<open>Flows\<close>

record config =
  cf_SchemaId :: int
  cf_Timezone :: string
  cf_Name :: string
  cf_Schema :: applications
  cf_ConnId :: "string option"

definition empty_flow :: flow where
  "empty_flow = \<lparr>fl_schemaId = 0, fl_name = [], fl_timezone = None, fl_Tags = (\<lambda>_. None), fl_Functions = [],
     fl_triggers = [], fl_currentNode = 0, fl_prevRequest = None, fl_interrupted = None, fl_gotoCounter = 0,
     fl_cancel = False, fl_logs = [], fl_nodes = [], fl_limiters = [], fl_whiles = []\<rparr>"

text \<open>\<open>loc\<close> stands for \<open>time.LoadLocation\<close>, \<open>None\<close> when it fails.\<close>

definition New :: "(string \<Rightarrow> string option) \<Rightarrow> config \<Rightarrow> flow" where
  "New loc conf =
     (let i0 = empty_flow\<lparr>fl_schemaId := cf_SchemaId conf,
                 fl_name := cf_Name conf @ (case cf_ConnId conf of None \<Rightarrow> [] | Some c \<Rightarrow> '' ['' @ c @ '']'')\<rparr>;
          (n, ns) = NewNode None (fl_nodes i0);
          i1 = i0\<lparr>fl_currentNode := n, fl_nodes := ns\<rparr>;
          i2 = (if cf_Timezone conf \<noteq> [] then i1\<lparr>fl_timezone := loc (cf_Timezone conf)\<rparr> else i1)
      in parseFlowArray i2 (fl_currentNode i2) (cf_Schema conf))"

text \<open>
  \<open>Fork\<close> hands the child the maps of functions and triggers of the parent, not copies; what
  parsing the child adds to them shows in the parent, which \<open>share_with\<close> writes back.
\<close>

definition Fork :: "string \<Rightarrow> applications \<Rightarrow> flow \<Rightarrow> flow" where
  "Fork name schema f =
     (let i0 = empty_flow\<lparr>fl_name := name, fl_Functions := fl_Functions f, fl_triggers := fl_triggers f,
                           fl_timezone := fl_timezone f\<rparr>;
          (n, ns) = NewNode None (fl_nodes i0);
          i1 = i0\<lparr>fl_currentNode := n, fl_nodes := ns\<rparr>
      in parseFlowArray i1 (fl_currentNode i1) schema)"

definition share_with :: "flow \<Rightarrow> flow \<Rightarrow> flow" where
  "share_with child f = f\<lparr>fl_Functions := fl_Functions child, fl_triggers := fl_triggers child\<rparr>"

definition FunctionScope :: "string \<Rightarrow> flow \<Rightarrow> app_error + flow" where
  "FunctionScope name f =
     (case map_of (fl_Functions f) name of
        Some apps \<Rightarrow> Inr (Fork (''function-'' @ name) apps f)
      | None \<Rightarrow> Inl (NewAppError ''Iterator'' ''iterator.function.new_scope'' [] (''not found '' @ name) 400))"

definition TriggerScope :: "string \<Rightarrow> flow \<Rightarrow> app_error + flow" where
  "TriggerScope name f =
     (case map_of (fl_triggers f) name of
        Some apps \<Rightarrow> Inr (Fork (''trigger-'' @ name) apps f)
      | None \<Rightarrow> Inl (NewAppError ''Iterator'' ''iterator.trigger.new_scope'' [] (''not found '' @ name) 400))"

definition CountTriggers :: "flow \<Rightarrow> nat" where
  "CountTriggers f = length (fl_triggers f)"

definition HasTrigger :: "string \<Rightarrow> flow \<Rightarrow> bool" where
  "HasTrigger c f = (map_of (fl_triggers f) c \<noteq> None)"

section \<open>Parsing builds well-formed trees\<close>

definition parse_inv :: "nid set \<Rightarrow> flow \<Rightarrow> bool" where
  "parse_inv X i = (wf_static X i \<and> (\<forall>n<length (fl_nodes i). nd_position (fl_nodes i ! n) = 0))"

definition zeroed :: "flow \<Rightarrow> bool" where
  "zeroed i = (list_all (\<lambda>l. lim_count l = 0) (fl_limiters i) \<and> list_all (\<lambda>a. wh_counter a = 0) (fl_whiles i))"

definition grows :: "flow \<Rightarrow> flow \<Rightarrow> bool" where
  "grows i i' = (length (fl_nodes i) \<le> length (fl_nodes i') \<and>
     (\<forall>m<length (fl_nodes i). bn_parent (fl_nodes i' ! m) = bn_parent (fl_nodes i ! m)) \<and>
     length (fl_limiters i) \<le> length (fl_limiters i') \<and> length (fl_whiles i) \<le> length (fl_whiles i') \<and>
     fl_currentNode i' = fl_currentNode i \<and> fl_gotoCounter i' = fl_gotoCounter i \<and>
     (zeroed i \<longrightarrow> zeroed i'))"

lemma grows_refl [simp]: "grows i i"
  by (simp add: grows_def)

lemma grows_trans [trans]: "grows i j \<Longrightarrow> grows j k \<Longrightarrow> grows i k"
  by (auto simp: grows_def)

lemma grows_child_of: "grows i i' \<Longrightarrow> child_of (fl_nodes i) n t \<Longrightarrow> child_of (fl_nodes i') n t"
  by (auto simp: grows_def child_of_def)

lemma grows_args_ok:
  "grows i i' \<Longrightarrow> args_ok (fl_nodes i) (length (fl_whiles i)) n a \<Longrightarrow>
     args_ok (fl_nodes i') (length (fl_whiles i')) n a"
  by (cases a) (auto simp: grows_child_of list_all_iff, auto simp: grows_def)

lemma grows_request_ok: "grows i i' \<Longrightarrow> request_ok i n r \<Longrightarrow> request_ok i' n r"
  by (auto simp: request_ok_def grows_args_ok) (auto simp: grows_def dest: order.strict_trans2)

lemma grows_len: "grows i i' \<Longrightarrow> n < length (fl_nodes i) \<Longrightarrow> n < length (fl_nodes i')"
  by (simp add: grows_def)

lemma new_node_grows: "new_node p i = (n, i') \<Longrightarrow> grows i i'"
  by (auto simp: new_node_def NewNode_def grows_def zeroed_def nth_append)

lemma new_node_facts:
  assumes "new_node p i = (n, i')"
  shows "n = length (fl_nodes i)" "child_of (fl_nodes i') p n" "fl_whiles i' = fl_whiles i"
    "length (fl_nodes i') = Suc (length (fl_nodes i))" "fl_Tags i' = fl_Tags i"
    "fl_nodes i' = fl_nodes i @ [setParentNode (fl_nodes i) (Some p) zero_node]"
  using assms by (auto simp: new_node_def NewNode_def child_of_def setParentNode_def)

lemma new_node_inv:
  assumes inv: "parse_inv X i" and p: "p < length (fl_nodes i)" and nn: "new_node p i = (n, i')"
  shows "parse_inv (X \<union> {n}) i'"
proof -
  note F = new_node_facts [OF nn]
  have g: "grows i i'" using nn by (rule new_node_grows)
  have nth: "fl_nodes i' ! m = (if m < n then fl_nodes i ! m else setParentNode (fl_nodes i) (Some p) zero_node)"
    if "m < length (fl_nodes i')" for m
    using that F(1,4,6) by (auto simp: nth_append)
  have "wf_links (X \<union> {n}) (fl_nodes i')"
    unfolding wf_links_def
  proof (intro allI impI)
    fix m q assume m: "m < length (fl_nodes i')" and q: "bn_parent (fl_nodes i' ! m) = Some q"
    show "q < m \<and> bn_idx (fl_nodes i' ! m) \<le> length (nd_children (fl_nodes i' ! q)) \<and>
      (m \<notin> X \<union> {n} \<longrightarrow> bn_idx (fl_nodes i' ! m) < length (nd_children (fl_nodes i' ! q)))"
    proof (cases "m < n")
      case True
      then have A: "q < m" "bn_idx (fl_nodes i ! m) \<le> length (nd_children (fl_nodes i ! q))"
          "m \<notin> X \<longrightarrow> bn_idx (fl_nodes i ! m) < length (nd_children (fl_nodes i ! q))"
        using inv m q nth [OF m] F(1) by (auto simp: parse_inv_def wf_static_def wf_links_def)
      then show ?thesis using True nth [OF m] nth [of q] m by auto
    next
      case False
      then have "m = n" using m F(1,4) by simp
      moreover have "q = p" using q nth [OF m] False by (simp add: setParentNode_def)
      ultimately show ?thesis
        using p F(1,4) nth [OF m] nth [of p] False by (simp add: setParentNode_def getLength_def)
    qed
  qed
  moreover have "request_ok i' m r" if "m < length (fl_nodes i')" "r \<in> set (nd_children (fl_nodes i' ! m))" for m r
    using that inv nth [OF that(1)] grows_request_ok [OF g, of m r] F(1)
    by (cases "m < n") (auto simp: parse_inv_def wf_static_def setParentNode_def zero_node_def)
  moreover have "\<forall>w\<in>set (fl_whiles i'). wh_do w < length (fl_nodes i')"
    using inv F(3,4) by (auto simp: parse_inv_def wf_static_def)
  moreover have "\<forall>t g. fl_Tags i' t = Some g \<longrightarrow> tag_ok (fl_nodes i') t g"
    using inv F(1,4,5,6) by (auto simp: parse_inv_def wf_static_def tag_ok_def nth_append less_Suc_eq)
  moreover have "\<forall>m<length (fl_nodes i'). nd_position (fl_nodes i' ! m) = 0"
    using inv nth F(1) by (auto simp: parse_inv_def setParentNode_def zero_node_def)
  ultimately show ?thesis by (simp add: parse_inv_def wf_static_def)
qed

lemma add_request_facts:
  assumes n: "n < length (fl_nodes i)"
  shows "length (fl_nodes (add_request n r i)) = length (fl_nodes i)"
    "fl_nodes (add_request n r i) ! m =
       (if m = n then (fl_nodes i ! n)\<lparr>nd_children := nd_children (fl_nodes i ! n) @ [r]\<rparr> else fl_nodes i ! m)"
    "fl_Tags (add_request n r i) = fl_Tags i" "fl_whiles (add_request n r i) = fl_whiles i"
    "fl_limiters (add_request n r i) = fl_limiters i" "grows i (add_request n r i)"
  using n by (auto simp: add_request_def upd_node_def node_Add_def nth_list_update_if grows_def zeroed_def)

text \<open>
  Adding a request to \<open>n\<close> closes the nodes of that request: their position in \<open>n\<close> now
  lies below the length of its children.
\<close>

lemma add_request_inv:
  assumes inv: "parse_inv (X \<union> Y) i" and n: "n < length (fl_nodes i)"
    and Y: "\<And>y. y \<in> Y \<Longrightarrow> child_of (fl_nodes i) n y" and r: "request_ok i n r"
  shows "parse_inv X (add_request n r i)"
proof -
  note F = add_request_facts [OF n, of r]
  let ?i = "add_request n r i"
  have old: "wf_links (X \<union> Y) (fl_nodes i)"
      "\<And>m x. m < length (fl_nodes i) \<Longrightarrow> x \<in> set (nd_children (fl_nodes i ! m)) \<Longrightarrow> request_ok i m x"
      "\<And>t g. fl_Tags i t = Some g \<Longrightarrow> tag_ok (fl_nodes i) t g"
    using inv by (auto simp: parse_inv_def wf_static_def)
  have "wf_links X (fl_nodes ?i)"
    unfolding wf_links_def
  proof (intro allI impI)
    fix m q assume m: "m < length (fl_nodes ?i)" and q: "bn_parent (fl_nodes ?i ! m) = Some q"
    then have mq: "m < length (fl_nodes i)" "bn_parent (fl_nodes i ! m) = Some q"
      using F(1,2) by (auto split: if_splits)
    then have A: "q < m" "bn_idx (fl_nodes i ! m) \<le> length (nd_children (fl_nodes i ! q))"
        "m \<notin> X \<union> Y \<longrightarrow> bn_idx (fl_nodes i ! m) < length (nd_children (fl_nodes i ! q))"
      using old(1) by (auto simp: wf_links_def)
    have "m \<in> Y \<Longrightarrow> q = n" using Y [of m] mq by (auto simp: child_of_def)
    then show "q < m \<and> bn_idx (fl_nodes ?i ! m) \<le> length (nd_children (fl_nodes ?i ! q)) \<and>
      (m \<notin> X \<longrightarrow> bn_idx (fl_nodes ?i ! m) < length (nd_children (fl_nodes ?i ! q)))"
      using A F(2) by auto
  qed
  moreover have "request_ok ?i m x" if "m < length (fl_nodes ?i)" "x \<in> set (nd_children (fl_nodes ?i ! m))" for m x
  proof (rule grows_request_ok [OF F(6)])
    show "request_ok i m x" using that old(2) r F(1,2) by (auto split: if_splits)
  qed
  moreover have "tag_ok (fl_nodes ?i) t g" if "fl_Tags ?i t = Some g" for t g
    using old(3) [of t g] that F(1,2,3) by (auto simp: tag_ok_def nth_append)
  ultimately show ?thesis
    using inv F(1,2,4) by (simp add: parse_inv_def wf_static_def)
qed

lemma attach_inv:
  assumes inv: "parse_inv (X \<union> Y) i" and n: "n < length (fl_nodes i)"
    and Y: "\<And>y. y \<in> Y \<Longrightarrow> child_of (fl_nodes i) n y" and r: "request_ok i n r"
  shows "parse_inv X (attach n r i)" "grows i (attach n r i)"
proof -
  define r' where "r' = setParentNode (fl_nodes i) (Some n) r"
  define i' where "i' = add_request n r' i"
  have idx: "bn_idx r' = length (nd_children (fl_nodes i ! n))" by (simp add: r'_def setParentNode_def getLength_def)
  have r'ok: "request_ok i n r'" using r by (simp add: request_ok_def r'_def setParentNode_def)
  have swap: "attach n r i = trySetTag (rq_tag r') n (bn_idx r') i'"
    by (simp add: attach_def r'_def i'_def add_request_def upd_node_def trySetTag_def Let_def)
  note F = add_request_facts [OF n, of r', folded i'_def]
  have inv': "parse_inv X i'" unfolding i'_def using inv n Y r'ok by (rule add_request_inv)
  have "request_ok (trySetTag t n k i') m x = request_ok i' m x" for t k m x
    by (simp add: request_ok_def trySetTag_def)
  then show "parse_inv X (attach n r i)"
    using inv' n idx F(1,2) by (auto simp: swap parse_inv_def wf_static_def trySetTag_def tag_ok_def)
  show "grows i (attach n r i)"
    using F(6) by (simp add: swap grows_def zeroed_def trySetTag_def)
qed

text \<open>The limiters of a parsed request are allocated.\<close>

definition limiters_grow :: "app_request \<Rightarrow> limiter list \<Rightarrow> limiter list \<Rightarrow> bool" where
  "limiters_grow r ls ls' = (length ls \<le> length ls' \<and> (\<forall>l. rq_limiter r = Some l \<longrightarrow> l < length ls') \<and>
     (list_all (\<lambda>l. lim_count l = 0) ls \<longrightarrow> list_all (\<lambda>l. lim_count l = 0) ls'))"

lemma newLimiter_zero: "newLimiter m = Some l \<Longrightarrow> lim_count l = 0"
  by (auto simp: newLimiter_def Let_def split: if_splits)

lemma parseReq_field_limiter:
  assumes "parseReq_field name v (r, ls) = (r', ls')" "\<And>l. rq_limiter r = Some l \<Longrightarrow> l < length ls"
  shows "limiters_grow r' ls ls'"
  using assms unfolding limiters_grow_def
  by (auto simp: parseReq_field_def Let_def newLimiter_zero split: if_splits goval.splits option.splits)

lemma parseReq_loop_limiter:
  assumes "parseReq_loop m (r, ls) = (r', ls')" "\<And>l. rq_limiter r = Some l \<Longrightarrow> l < length ls"
  shows "limiters_grow r' ls ls'"
  using assms
proof (induction m arbitrary: r ls)
  case (Cons x m)
  obtain name v where x: "x = (name, v)" by force
  obtain r1 ls1 where f: "parseReq_field name v (r, ls) = (r1, ls1)" by force
  from parseReq_field_limiter [OF f Cons.prems(2)] Cons.IH [of r1 ls1] Cons.prems(1) x f
  show ?case unfolding limiters_grow_def by fastforce
qed (auto simp: limiters_grow_def)

lemma parseReq_limiter:
  assumes "parseReq m ls = (r, ls')"
  shows "length ls \<le> length ls'" "rq_limiter r = Some l \<Longrightarrow> l < length ls'"
    "list_all (\<lambda>l. lim_count l = 0) ls \<Longrightarrow> list_all (\<lambda>l. lim_count l = 0) ls'"
proof -
  obtain r0 ls0 where l: "parseReq_loop m (zero_request, ls) = (r0, ls0)" by force
  from parseReq_loop_limiter [OF l] have "limiters_grow r0 ls ls0" by (simp add: zero_request_def)
  then show "length ls \<le> length ls'" "rq_limiter r = Some l \<Longrightarrow> l < length ls'"
    "list_all (\<lambda>l. lim_count l = 0) ls \<Longrightarrow> list_all (\<lambda>l. lim_count l = 0) ls'"
    using assms l unfolding limiters_grow_def by (auto simp: parseReq_def Let_def split: if_splits)
qed

lemma parse_inv_limiters:
  assumes "parse_inv X i" "parseReq m (fl_limiters i) = (r, ls)"
  shows "parse_inv X (i\<lparr>fl_limiters := ls\<rparr>)" "grows i (i\<lparr>fl_limiters := ls\<rparr>)"
  using assms(1) parseReq_limiter(1,3) [OF assms(2)]
  by (auto simp: parse_inv_def wf_static_def request_ok_def grows_def zeroed_def dest: order.strict_trans2)

lemma parse_inv_other:
  assumes "parse_inv X i" "grows i i'" "fl_nodes i' = fl_nodes i" "fl_Tags i' = fl_Tags i" "fl_whiles i' = fl_whiles i"
  shows "parse_inv X i'"
  using assms grows_request_ok [OF assms(2)] by (auto simp: parse_inv_def wf_static_def)

lemma addFunction_inv:
  assumes "parse_inv X i"
  shows "parse_inv X (snd (addFunction a i))" "grows i (snd (addFunction a i))"
proof -
  show g: "grows i (snd (addFunction a i))" by (auto simp: addFunction_def grows_def zeroed_def split: option.splits)
  show "parse_inv X (snd (addFunction a i))"
    using assms g by (rule parse_inv_other) (auto simp: addFunction_def split: option.splits)
qed

lemma addTrigger_inv:
  assumes "parse_inv X i"
  shows "parse_inv X (snd (addTrigger a i))" "grows i (snd (addTrigger a i))"
proof -
  show g: "grows i (snd (addTrigger a i))" by (auto simp: addTrigger_def grows_def zeroed_def split: option.splits)
  show "parse_inv X (snd (addTrigger a i))"
    using assms g by (rule parse_inv_other) (auto simp: addTrigger_def split: option.splits)
qed

definition built :: "nid set \<Rightarrow> nid \<Rightarrow> flow \<Rightarrow> app_args \<Rightarrow> flow \<Rightarrow> bool" where
  "built X p i a i' = ((\<exists>Y. parse_inv (X \<union> Y) i' \<and> (\<forall>y\<in>Y. child_of (fl_nodes i') p y)) \<and> grows i i' \<and>
     args_ok (fl_nodes i') (length (fl_whiles i')) p a)"

lemma built_attach:
  assumes b: "built X p i a i'" and p: "p < length (fl_nodes i)"
    and lim: "\<And>l. rq_limiter r = Some l \<Longrightarrow> l < length (fl_limiters i)"
  shows "parse_inv X (attach p (r\<lparr>rq_args := a\<rparr>) i')" "grows i (attach p (r\<lparr>rq_args := a\<rparr>) i')"
proof -
  from b obtain Y where Y: "parse_inv (X \<union> Y) i'" "\<And>y. y \<in> Y \<Longrightarrow> child_of (fl_nodes i') p y"
      and g: "grows i i'" and ok: "args_ok (fl_nodes i') (length (fl_whiles i')) p a"
    by (auto simp: built_def)
  have "request_ok i' p (r\<lparr>rq_args := a\<rparr>)"
    using lim g ok by (auto simp: request_ok_def grows_def dest: order.strict_trans2)
  note A = attach_inv [OF Y(1) grows_len [OF g p] Y(2) this]
  show "parse_inv X (attach p (r\<lparr>rq_args := a\<rparr>) i')" by (rule A)
  show "grows i (attach p (r\<lparr>rq_args := a\<rparr>) i')" using g A(2) by (rule grows_trans)
qed

lemma built_trans: "grows i j \<Longrightarrow> built X p j a i' \<Longrightarrow> built X p i a i'"
  by (auto simp: built_def intro: grows_trans)

lemma list_all_AList_update: "list_all P m \<Longrightarrow> P (k, v) \<Longrightarrow> list_all P (AList.update k v m)"
  by (induction m) auto

lemma built_condition:
  assumes inv: "parse_inv (X \<union> {th} \<union> {el}) i'" and g: "grows i i'"
    and ch: "child_of (fl_nodes i') p th" "child_of (fl_nodes i') p el"
  shows "built X p i (ArgCondition e th el) i'"
  unfolding built_def using assms by (auto intro!: exI [of _ "{th, el}"] simp: insert_commute)

lemma new_node_step:
  assumes "parse_inv X i" "p < length (fl_nodes i)" "new_node p i = (n, i')"
  shows "parse_inv (X \<union> {n}) i' \<and> grows i i' \<and> child_of (fl_nodes i') p n \<and> n < length (fl_nodes i')
     \<and> fl_whiles i' = fl_whiles i \<and> fl_limiters i' = fl_limiters i"
  using new_node_inv [OF assms] new_node_grows [OF assms(3)] new_node_facts [OF assms(3)] assms(3)
  by (auto simp: new_node_def NewNode_def)

lemma list_all_list_update: "list_all P xs \<Longrightarrow> P a \<Longrightarrow> list_all P (xs[k := a])"
  by (metis list_all_length length_list_update nth_list_update nth_list_update_neq)

lemma while_store_inv:
  assumes "parse_inv X i" "wh_do a < length (fl_nodes i)" "wh_counter a = 0"
  shows "parse_inv X (i\<lparr>fl_whiles := fl_whiles i @ [a]\<rparr>)" "grows i (i\<lparr>fl_whiles := fl_whiles i @ [a]\<rparr>)"
    "parse_inv X (i\<lparr>fl_whiles := (fl_whiles i)[w := a]\<rparr>)" "grows i (i\<lparr>fl_whiles := (fl_whiles i)[w := a]\<rparr>)"
proof -
  let ?j = "i\<lparr>fl_whiles := fl_whiles i @ [a]\<rparr>" and ?k = "i\<lparr>fl_whiles := (fl_whiles i)[w := a]\<rparr>"
  show g: "grows i ?j" "grows i ?k" using assms(3) by (simp_all add: grows_def zeroed_def list_all_list_update)
  show "parse_inv X ?j" "parse_inv X ?k"
    using assms grows_request_ok [OF g(1)] grows_request_ok [OF g(2)] set_update_subset_insert [of "fl_whiles i" w a]
    by (auto simp: parse_inv_def wf_static_def)
qed

text \<open>One element of the array, given what the nested constructors promise.\<close>

definition parse_one :: "flow \<Rightarrow> nid \<Rightarrow> app_request \<Rightarrow> flow" where
  "parse_one i0 n req =
     (if rq_name req = ''if'' then
        (case newConditionArgs i0 n (arg_val (rq_args req)) of (a, i1) \<Rightarrow> attach n (req\<lparr>rq_args := a\<rparr>) i1)
      else if rq_name req = ''while'' then
        (case newWhileArgs i0 n req (arg_val (rq_args req)) of (a, i1) \<Rightarrow> attach n (req\<lparr>rq_args := a\<rparr>) i1)
      else if rq_name req = ''function'' then snd (addFunction (arg_val (rq_args req)) i0)
      else if rq_name req = ''trigger'' then snd (addTrigger (arg_val (rq_args req)) i0)
      else if rq_name req = ''switch'' then
        (case newSwitchArgs i0 n (arg_val (rq_args req)) of
           (Inl err, i1) \<Rightarrow> i1 | (Inr a, i1) \<Rightarrow> attach n (req\<lparr>rq_args := a\<rparr>) i1)
      else if rq_name req = ''break'' then attach n (req\<lparr>rq_args := ArgBreak\<rparr>) i0
      else if rq_name req \<noteq> [] then attach n req i0
      else i0)"

lemma parseFlowArray_Cons:
  "parseFlowArray i n (v # apps) =
     (case parseReq v (fl_limiters i) of (req, ls) \<Rightarrow>
        parseFlowArray (parse_one (i\<lparr>fl_limiters := ls\<rparr>) n req) n apps)"
  by (simp add: parseFlowArray.simps(2) parse_one_def Let_def split: prod.splits)

definition is_val :: "app_args \<Rightarrow> bool" where
  "is_val a = (case a of ArgVal _ \<Rightarrow> True | _ \<Rightarrow> False)"

lemma parseReq_field_val: "is_val (rq_args (fst st)) \<Longrightarrow> is_val (rq_args (fst (parseReq_field name v st)))"
  by (cases st) (simp add: parseReq_field_def Let_def is_val_def split: goval.split option.split)

lemma parseReq_loop_val: "is_val (rq_args (fst st)) \<Longrightarrow> is_val (rq_args (fst (parseReq_loop m st)))"
  by (induction m st rule: parseReq_loop.induct) (simp_all add: parseReq_field_val)

lemma parseReq_args: "parseReq m ls = (r, ls') \<Longrightarrow> \<exists>v. rq_args r = ArgVal v"
proof -
  assume r: "parseReq m ls = (r, ls')"
  have "is_val (rq_args (fst (parseReq_loop m (zero_request, ls))))"
    by (rule parseReq_loop_val) (simp add: zero_request_def is_val_def)
  then have "is_val (rq_args r)"
    using r by (auto simp: parseReq_def Let_def split: prod.splits if_splits)
  then show ?thesis by (cases "rq_args r") (simp_all add: is_val_def)
qed

lemma built_plain: "parse_inv X i \<Longrightarrow> args_ok (fl_nodes i) (length (fl_whiles i)) p a \<Longrightarrow> built X p i a i"
  by (auto simp: built_def intro: exI [of _ "{}"])

lemma parse_one_wf:
  assumes inv: "parse_inv X i" and n: "n < length (fl_nodes i)" and pr: "parseReq v (fl_limiters i) = (req, ls)"
  defines "i0 \<equiv> i\<lparr>fl_limiters := ls\<rparr>"
  assumes c: "\<And>v. rq_name req = ''if'' \<Longrightarrow> arg_val (rq_args req) = v \<Longrightarrow>
        built X n i0 (fst (newConditionArgs i0 n v)) (snd (newConditionArgs i0 n v))"
    and w: "\<And>v. rq_name req = ''while'' \<Longrightarrow> arg_val (rq_args req) = v \<Longrightarrow>
        built X n i0 (fst (newWhileArgs i0 n req v)) (snd (newWhileArgs i0 n req v))"
    and s: "\<And>v. rq_name req = ''switch'' \<Longrightarrow> arg_val (rq_args req) = v \<Longrightarrow>
        (case newSwitchArgs i0 n v of (Inl e, i') \<Rightarrow> i' = i0 | (Inr a, i') \<Rightarrow> built X n i0 a i')"
  shows "parse_inv X (parse_one i0 n req) \<and> grows i (parse_one i0 n req)"
proof -
  note L = parseReq_limiter [OF pr]
  have I0: "parse_inv X i0" "grows i i0" unfolding i0_def using inv pr by (rule parse_inv_limiters)+
  have n0: "n < length (fl_nodes i0)" using n by (simp add: i0_def)
  have lim: "\<And>l. rq_limiter req = Some l \<Longrightarrow> l < length (fl_limiters i0)" using L(2) by (simp add: i0_def)
  note A = built_attach [OF _ n0 lim]
  have plain: "parse_inv X (attach n (req\<lparr>rq_args := a\<rparr>) i0) \<and> grows i0 (attach n (req\<lparr>rq_args := a\<rparr>) i0)"
    if "a = ArgBreak \<or> (\<exists>v. a = ArgVal v)" for a
    using A [OF built_plain [OF I0(1)]] that by auto
  have same: "req\<lparr>rq_args := rq_args req\<rparr> = req" by simp
  have "parse_inv X (parse_one i0 n req) \<and> grows i0 (parse_one i0 n req)"
  proof -
    consider (c) "rq_name req = ''if''" | (w) "rq_name req = ''while''" | (f) "rq_name req = ''function''"
      | (t) "rq_name req = ''trigger''" | (s) "rq_name req = ''switch''" | (b) "rq_name req = ''break''"
      | (e) "rq_name req = []"
      | (d) "rq_name req \<notin> {''if'', ''while'', ''function'', ''trigger'', ''switch'', ''break'', []}" by blast
    then show ?thesis
    proof cases
      case c
      show ?thesis using A [OF assms(5) [OF c refl]] c by (simp add: parse_one_def split_beta)
    next
      case w
      show ?thesis using A [OF assms(6) [OF w refl]] w by (simp add: parse_one_def split_beta)
    next
      case f
      then show ?thesis using addFunction_inv [OF I0(1)] by (simp add: parse_one_def)
    next
      case t
      then show ?thesis using addTrigger_inv [OF I0(1)] by (simp add: parse_one_def)
    next
      case s
      obtain res i1 where res: "newSwitchArgs i0 n (arg_val (rq_args req)) = (res, i1)" by force
      then show ?thesis using assms(7) [OF s refl] s A I0(1) by (cases res) (simp_all add: parse_one_def)
    next
      case b
      then show ?thesis using plain [of ArgBreak] by (simp add: parse_one_def)
    next
      case e
      then show ?thesis using I0(1) by (simp add: parse_one_def)
    next
      case d
      then show ?thesis using plain [of "rq_args req"] parseReq_args [OF pr] same by (simp add: parse_one_def)
    qed
  qed
  then show ?thesis using I0(2) grows_trans by blast
qed

lemma built_one:
  assumes "parse_inv (X \<union> {y}) i'" "child_of (fl_nodes i') p y" "grows i i'"
    "args_ok (fl_nodes i') (length (fl_whiles i')) p a"
  shows "built X p i a i'"
  unfolding built_def using assms by (intro conjI exI [of _ "{y}"]) auto

lemma built_close:
  assumes "built (X \<union> {n}) p i2 a i'" "child_of (fl_nodes i2) p n" "grows i i2"
  shows "built X p i a i'"
proof -
  from assms(1) obtain Y where Y: "parse_inv (X \<union> {n} \<union> Y) i'" "\<forall>y\<in>Y. child_of (fl_nodes i') p y"
    and g: "grows i2 i'" and ok: "args_ok (fl_nodes i') (length (fl_whiles i')) p a" by (auto simp: built_def)
  have "parse_inv (X \<union> ({n} \<union> Y)) i'" using Y(1) by (simp add: Un_assoc)
  moreover have "\<forall>y\<in>{n} \<union> Y. child_of (fl_nodes i') p y" using Y(2) grows_child_of [OF g assms(2)] by blast
  ultimately show ?thesis using g assms(3) ok grows_trans unfolding built_def by blast
qed

lemma while_request_built:
  assumes inv: "parse_inv (X \<union> {do}) i3" and do: "do < length (fl_nodes i3)" "child_of (fl_nodes i3) p do"
    and w: "w < length (fl_whiles i3)" and g: "grows i i3"
    and lim: "\<forall>l. rq_limiter r = Some l \<longrightarrow> l < length (fl_limiters i)" and b: "wh_do b = do" "wh_counter b = 0"
  shows "built X p i (ArgWhile w) (add_request do (r\<lparr>rq_args := ArgWhile w\<rparr>) (i3\<lparr>fl_whiles := (fl_whiles i3)[w := b]\<rparr>))"
proof -
  let ?i4 = "i3\<lparr>fl_whiles := (fl_whiles i3)[w := b]\<rparr>" and ?r = "r\<lparr>rq_args := ArgWhile w\<rparr>"
  have I4: "parse_inv (X \<union> {do}) ?i4" "grows i3 ?i4" using inv do(1) b by (intro while_store_inv; simp)+
  have d4: "do < length (fl_nodes ?i4)" using do(1) by simp
  have "request_ok ?i4 do ?r" using w lim g by (auto simp: request_ok_def grows_def)
  then have I5: "parse_inv (X \<union> {do}) (add_request do ?r ?i4)"
    using add_request_inv [of "X \<union> {do}" "{}" ?i4 do ?r] I4(1) d4 by simp
  note F = add_request_facts [OF d4, of ?r]
  have "grows i (add_request do ?r ?i4)" using g I4(2) F(6) grows_trans by blast
  moreover have "child_of (fl_nodes (add_request do ?r ?i4)) p do"
    using grows_child_of [OF F(6)] do(2) by simp
  ultimately show ?thesis using I5 w F(4) by (intro built_one) simp_all
qed

lemma parse_wf:
  "parse_inv X i \<Longrightarrow> n < length (fl_nodes i) \<Longrightarrow>
     parse_inv X (parseFlowArray i n apps) \<and> grows i (parseFlowArray i n apps)"
  "parse_inv X i \<Longrightarrow> p < length (fl_nodes i) \<Longrightarrow> built X p i (fst (newConditionArgs i p v)) (snd (newConditionArgs i p v))"
  "parse_inv X i \<Longrightarrow> p < length (fl_nodes i) \<Longrightarrow> (\<forall>l. rq_limiter r = Some l \<longrightarrow> l < length (fl_limiters i)) \<Longrightarrow>
     built X p i (fst (newWhileArgs i p r v)) (snd (newWhileArgs i p r v))"
  "parse_inv X i \<Longrightarrow> p < length (fl_nodes i) \<Longrightarrow> list_all (\<lambda>c. child_of (fl_nodes i) p (snd c)) m \<Longrightarrow>
     built X p i (ArgSwitch [] (fst (newSwitchArgs_loop i p cs m))) (snd (newSwitchArgs_loop i p cs m))"
  "parse_inv X i \<Longrightarrow> p < length (fl_nodes i) \<Longrightarrow>
     (case newSwitchArgs i p v of (Inl e, i') \<Rightarrow> i' = i | (Inr a, i') \<Rightarrow> built X p i a i')"
proof (induction i n apps and i p v and i p r v and i p cs m and i p v arbitrary: X and X and X and X and X
    rule: parseFlowArray_newConditionArgs_newWhileArgs_newSwitchArgs_loop_newSwitchArgs.induct)
  case (1 i n)
  then show ?case by simp
next
  case (2 i n v apps)
  obtain req ls where pr: "parseReq v (fl_limiters i) = (req, ls)" by force
  let ?i0 = "i\<lparr>fl_limiters := ls\<rparr>"
  have I0: "parse_inv X ?i0" using 2(5) pr by (rule parse_inv_limiters)
  have n0: "n < length (fl_nodes ?i0)" using 2(6) by simp
  have step: "parse_inv X (parse_one ?i0 n req) \<and> grows i (parse_one ?i0 n req)"
    by (rule parse_one_wf [OF 2(5) 2(6) pr])
      (use 2(1) [OF pr [symmetric] refl _ I0 n0] 2(2) [OF pr [symmetric] refl _ _ I0 n0]
           2(3) [OF pr [symmetric] refl _ _ _ _ _ I0 n0] parseReq_limiter(2) [OF pr] in simp_all)
  then have "n < length (fl_nodes (parse_one ?i0 n req))" using grows_len 2(6) by blast
  then have "parse_inv X (parseFlowArray (parse_one ?i0 n req) n apps) \<and>
      grows (parse_one ?i0 n req) (parseFlowArray (parse_one ?i0 n req) n apps)"
    using 2(4) [OF pr [symmetric] refl parse_one_def] step by blast
  then show ?case using step pr grows_trans by (simp add: parseFlowArray_Cons) blast
next
  case (3 i parent props)
  obtain th i1 where n1: "new_node parent i = (th, i1)" by force
  obtain el i2 where n2: "new_node parent i1 = (el, i2)" by force
  note N1 = new_node_step [OF 3(3,4) n1]
  have p1: "parent < length (fl_nodes i1)" using N1 3(4) grows_len by blast
  note N2 = new_node_step [OF _ p1 n2, of "X \<union> {th}"]
  have I2: "parse_inv (X \<union> {th} \<union> {el}) i2" "grows i i2" "th < length (fl_nodes i2)" "el < length (fl_nodes i2)"
      "child_of (fl_nodes i2) parent th" "child_of (fl_nodes i2) parent el"
    using N1 N2 grows_trans grows_len grows_child_of by blast+
  show ?case
  proof (cases "\<exists>tmp. props = GMap tmp")
    case False
    then have "newConditionArgs i parent props = (ArgCondition [] th el, i2)"
      by (simp add: newConditionArgs.simps n1 n2 split: goval.split)
    then show ?thesis using built_condition [OF I2(1,2,5,6)] by simp
  next
    case True
    then obtain tmp where props: "props = GMap tmp" by blast
    define i3 where "i3 = (case map_get tmp ''then'' of
      GArr xs \<Rightarrow> parseFlowArray i2 th (ArrInterfaceToArrayApplication xs) | _ \<Rightarrow> i2)"
    define i4 where "i4 = (case map_get tmp ''else'' of
      GArr ys \<Rightarrow> parseFlowArray i3 el (ArrInterfaceToArrayApplication ys) | _ \<Rightarrow> i3)"
    have I3: "parse_inv (X \<union> {th} \<union> {el}) i3 \<and> grows i2 i3"
      using 3(1) [OF refl n1 [symmetric] refl n2 [symmetric] props _ I2(1,3)] I2(1)
      by (cases "map_get tmp ''then''") (simp_all add: i3_def)
    have "parse_inv (X \<union> {th} \<union> {el}) i4 \<and> grows i3 i4"
      using 3(2) [OF refl n1 [symmetric] refl n2 [symmetric] props i3_def _ conjunct1 [OF I3]] I3 grows_len I2(4)
      by (cases "map_get tmp ''else''") (auto simp: i4_def)
    then have "built X parent i (ArgCondition e th el) i4" for e
      using I2 I3 grows_trans grows_child_of by (intro built_condition) blast+
    moreover have "newConditionArgs i parent props = (ArgCondition
        (case map_get tmp ''expression'' of GStr e \<Rightarrow> parseExpression e | _ \<Rightarrow> []) th el, i4)"
      unfolding i4_def i3_def by (simp add: newConditionArgs.simps n1 n2 props Let_def)
    ultimately show ?thesis by simp
  qed
next
  case (4 i parent req props)
  obtain do i1 where n1: "new_node parent i = (do, i1)" by force
  note N1 = new_node_step [OF 4(2,3) n1]
  define a where "a = \<lparr>wh_condition = [], wh_do = do, wh_step = 0, wh_counter = 0, wh_maxSteps = 1000,
               wh_originalParent = None\<rparr>"
  define i2 where "i2 = i1\<lparr>fl_whiles := fl_whiles i1 @ [a]\<rparr>"
  let ?w = "length (fl_whiles i1)"
  have I2: "parse_inv (X \<union> {do}) i2" "grows i1 i2"
    unfolding i2_def using N1 by (intro while_store_inv; simp add: a_def)+
  have D2: "do < length (fl_nodes i2)" "child_of (fl_nodes i2) parent do" "?w < length (fl_whiles i2)"
    using N1 by (simp_all add: i2_def)
  have g2: "grows i i2" using N1 I2(2) grows_trans by blast
  show ?case
  proof (cases "\<exists>tmp. props = GMap tmp")
    case False
    then have "newWhileArgs i parent req props = (ArgWhile ?w, i2)"
      by (simp add: newWhileArgs.simps n1 i2_def a_def Let_def split: goval.split)
    then show ?thesis using built_one [OF I2(1) D2(2) g2] D2(3) by simp
  next
    case True
    then obtain tmp where props: "props = GMap tmp" by blast
    define i3 where "i3 = (case map_get tmp ''do'' of
      GArr xs \<Rightarrow> parseFlowArray i2 do (ArrInterfaceToArrayApplication xs) | _ \<Rightarrow> i2)"
    have I3: "parse_inv (X \<union> {do}) i3 \<and> grows i2 i3"
      using 4(1) [OF refl n1 [symmetric] refl a_def i2_def props _ I2(1) D2(1)] I2(1)
      by (cases "map_get tmp ''do''") (simp_all add: i3_def)
    have D3: "do < length (fl_nodes i3)" "child_of (fl_nodes i3) parent do" "?w < length (fl_whiles i3)" "grows i i3"
      using I3 D2 g2 grows_len grows_child_of grows_trans by (blast, blast, auto simp: grows_def)
    have fin: "built X parent i (ArgWhile ?w) (add_request do (req\<lparr>rq_args := ArgWhile ?w\<rparr>) (i3\<lparr>fl_whiles := (fl_whiles i3)[?w := b]\<rparr>))"
      if "wh_do b = do" "wh_counter b = 0" for b
      using while_request_built [OF conjunct1 [OF I3] D3] 4(4) that g2 by blast
    define b where "b = a\<lparr>wh_condition := (case map_get tmp ''condition'' of GStr e \<Rightarrow> parseExpression e | _ \<Rightarrow> []),
      wh_maxSteps := (case map_get tmp ''maxSteps'' of
         GStr e \<Rightarrow> (case Atoi e of Some v \<Rightarrow> v | None \<Rightarrow> 1000) | _ \<Rightarrow> 1000),
      wh_originalParent := (if length (nd_children (fl_nodes i3 ! parent)) = 0 then None
         else Some (parent, length (nd_children (fl_nodes i3 ! parent)) - 1))\<rparr>"
    have "newWhileArgs i parent req props = (ArgWhile ?w,
        add_request do (req\<lparr>rq_args := ArgWhile ?w\<rparr>) (i3\<lparr>fl_whiles := (fl_whiles i3)[?w := b]\<rparr>))"
      unfolding b_def i3_def i2_def a_def by (simp add: newWhileArgs.simps n1 props Let_def)
    then show ?thesis using fin [of b] by (simp add: b_def a_def)
  qed
next
  case (5 i parent cases)
  then show ?case by (auto simp: built_def intro: exI [of _ "{}"])
next
  case (6 i parent caseName caseVal cs cases)
  show ?case
  proof (cases "\<exists>c. caseVal = GArr c")
    case False
    then have "newSwitchArgs_loop i parent ((caseName, caseVal) # cs) cases = newSwitchArgs_loop i parent cs cases"
      by (simp add: newSwitchArgs_loop.simps split: goval.split)
    then show ?thesis using False 6 by (cases caseVal) simp_all
  next
    case True
    then obtain c where cv: "caseVal = GArr c" by blast
    obtain n i1 where n1: "new_node parent i = (n, i1)" by force
    note N1 = new_node_step [OF 6(10,11) n1]
    define i2 where "i2 = parseFlowArray i1 n (ArrInterfaceToArrayApplication c)"
    have I2: "parse_inv (X \<union> {n}) i2 \<and> grows i1 i2"
      unfolding i2_def using 6(6) [OF cv refl n1 [symmetric]] N1 by blast
    then have g2: "grows i i2" and c2: "child_of (fl_nodes i2) parent n"
      using N1 grows_trans grows_child_of by blast+
    have "list_all (\<lambda>c. child_of (fl_nodes i2) parent (snd c)) (AList.update caseName n cases)"
      using 6(12) c2 grows_child_of [OF g2] by (intro list_all_AList_update) (auto simp: list_all_iff)
    with 6(7) [OF cv refl n1 [symmetric] i2_def conjunct1 [OF I2] grows_len [OF g2 6(11)]]
    have B: "built (X \<union> {n}) parent i2 (ArgSwitch [] (fst (newSwitchArgs_loop i2 parent cs (AList.update caseName n cases))))
        (snd (newSwitchArgs_loop i2 parent cs (AList.update caseName n cases)))" by blast
    then show ?thesis
      using built_close [OF B c2 g2] by (simp add: newSwitchArgs_loop.simps cv n1 i2_def Let_def)
  qed
next
  case (7 i parent props)
  have B: "built X parent i (ArgSwitch var m) i'"
    if "newSwitchArgs_loop i parent cs [] = (m, i')"
      "props = GMap tmp" "map_get tmp ''variable'' = GStr var" "var \<noteq> []" "map_get tmp ''case'' = GMap cs" for tmp var cs m i'
    using 7(1) [OF that(2-5) 7(2,3)] that(1) by (simp add: built_def)
  have "built X parent i (ArgSwitch [] []) i" using 7(2) by (intro built_plain) simp_all
  with B show ?case
    by (auto simp: newSwitchArgs.simps split: goval.splits prod.splits)
qed

definition fresh :: "flow \<Rightarrow> bool" where
  "fresh i = (fl_Tags i = (\<lambda>_. None) \<and> fl_nodes i = [zero_node] \<and> fl_limiters i = [] \<and> fl_whiles i = []
     \<and> fl_currentNode i = 0 \<and> fl_gotoCounter i = 0)"

lemma parse_root_wf:
  assumes "fresh i" "n = fl_currentNode i"
  shows "wf_flow (parseFlowArray i n apps) \<and> zeroed (parseFlowArray i n apps)"
proof -
  have len: "fl_currentNode i < length (fl_nodes i)" using assms by (simp add: fresh_def)
  have "parse_inv {} i"
    using assms(1) by (simp add: fresh_def parse_inv_def wf_static_def wf_links_def zero_node_def)
  from parse_wf(1) [OF this len] have P: "parse_inv {} (parseFlowArray i (fl_currentNode i) apps)"
    "grows i (parseFlowArray i (fl_currentNode i) apps)" by blast+
  moreover have "zeroed i" using assms(1) by (simp add: fresh_def zeroed_def)
  ultimately show ?thesis
    using len assms by (auto simp: wf_flow_def wf_dyn_def parse_inv_def grows_def MAX_GOTO_def fresh_def)
qed

lemma New_built: "wf_flow (New loc conf) \<and> zeroed (New loc conf)"
  unfolding New_def Let_def NewNode_def setParentNode_def
  by (simp only: prod.case option.case, rule parse_root_wf) (simp_all add: fresh_def empty_flow_def)

lemma Fork_built: "wf_flow (Fork name schema f) \<and> zeroed (Fork name schema f)"
  unfolding Fork_def Let_def NewNode_def setParentNode_def
  by (simp only: prod.case option.case, rule parse_root_wf) (simp_all add: fresh_def empty_flow_def)

lemmas New_wf = New_built [THEN conjunct1] and Fork_wf = Fork_built [THEN conjunct1]

end
