(* ===== verification/Flow_Order.thy ===== *)
theory Flow_Order
  imports Flow_Parse "HOL-Library.Multiset"
begin

text \<open>
  The fields of an application object come from a Go map, whose iteration order is random.
  \<open>parseReq\<close> visits them in that order; with a single application name among them the
  order does not matter.
\<close>

definition field_names :: "string set" where
  "field_names = {''_id'', ''break'', ''async'', ''tag'', ''limit'', ''trace''}"

lemma parseReq_field_other:
  "name \<notin> field_names \<Longrightarrow> parseReq_field name v (r, ls) =
     (if rq_name r = [] then (r\<lparr>rq_name := name, rq_args := ArgVal (app_value v)\<rparr>, ls) else (r, ls))"
  by (simp add: parseReq_field_def field_names_def)

lemma parseReq_loop_fold: "parseReq_loop m st = fold (\<lambda>f. parseReq_field (fst f) (snd f)) m st"
  by (induction m st rule: parseReq_loop.induct) simp_all

lemma parseReq_field_commute:
  assumes "a \<noteq> b" "a \<in> field_names \<or> b \<in> field_names"
  shows "parseReq_field a x (parseReq_field b y st) = parseReq_field b y (parseReq_field a x st)"
proof -
  obtain r ls where st: "st = (r, ls)" by force
  consider "a \<notin> field_names" | "b \<notin> field_names" | "a \<in> field_names" "b \<in> field_names" by blast
  then show ?thesis
  proof cases
    case 3
    then show ?thesis using assms(1) unfolding field_names_def
      by (elim insertE emptyE) (simp_all add: st parseReq_field_def Let_def or.left_commute or.commute or.assoc split: goval.split option.split)
  next
    case 1
    then have "b \<in> field_names" using assms by blast
    then show ?thesis using 1 unfolding field_names_def
      by (elim insertE emptyE) (simp_all add: st parseReq_field_def Let_def split: goval.split option.split)
  next
    case 2
    then have "a \<in> field_names" using assms by blast
    then show ?thesis using 2 unfolding field_names_def
      by (elim insertE emptyE) (simp_all add: st parseReq_field_def Let_def split: goval.split option.split)
  qed
qed

lemma parseReq_order:
  assumes d: "distinct (map fst m)" and one: "length (filter (\<lambda>f. fst f \<notin> field_names) m) \<le> 1"
    and p: "mset m = mset m'"
  shows "parseReq m ls = parseReq m' ls"
proof -
  have "fold (\<lambda>f. parseReq_field (fst f) (snd f)) m = fold (\<lambda>f. parseReq_field (fst f) (snd f)) m'"
  proof (rule fold_multiset_equiv [OF _ p])
    fix x y assume xy: "x \<in> set m" "y \<in> set m"
    show "(\<lambda>f. parseReq_field (fst f) (snd f)) x \<circ> (\<lambda>f. parseReq_field (fst f) (snd f)) y =
       (\<lambda>f. parseReq_field (fst f) (snd f)) y \<circ> (\<lambda>f. parseReq_field (fst f) (snd f)) x"
    proof (cases "x = y")
      case False
      then have "fst x \<noteq> fst y" using d xy by (metis eq_key_imp_eq_value prod.collapse)
      moreover have "fst x \<in> field_names \<or> fst y \<in> field_names"
      proof (rule ccontr)
        assume "\<not> ?thesis"
        then have "{x, y} \<subseteq> set (filter (\<lambda>f. fst f \<notin> field_names) m)" using xy by auto
        then have "card {x, y} \<le> 1" using one by (meson card_length card_mono finite_set le_trans)
        then show False using False by simp
      qed
      ultimately show ?thesis using parseReq_field_commute by (auto simp: fun_eq_iff)
    qed simp
  qed
  then show ?thesis by (simp add: parseReq_def parseReq_loop_fold)
qed
end
