(* ===== verification/Flow_Handlers.thy ===== *)
theory Flow_Handlers
  imports Flow_Parse
begin

text \<open>
  The applications that steer a flow: \<open>if\<close>, \<open>while\<close>, \<open>switch\<close>, \<open>break\<close> and
  \<open>goto\<close> (\<open>flow/if.go\<close>, \<open>flow/while.go\<close>, \<open>flow/switch.go\<close>, \<open>flow/break.go\<close>,
  \<open>flow/goto.go\<close>), and the dispatch of a request to its application that every router
  repeats (\<open>Router.Request\<close>).

  What is not part of the repository is a field of the environment: the variables of the
  connection, the JavaScript engine and the \<open>mapstructure\<close> decoder, each as a function of the
  state \<open>'w\<close> outside the flow.  So are the remaining applications, which their own theories
  model: for the engine an application may not return, may answer with a nil response, may cancel
  the flow (\<open>bridge\<close>, the queues, the results of an attempt do) and may add to the functions and
  triggers, which a flow shares with the flows forked from it.
\<close>

type_synonym response = string

definition ResponseOK :: response where "ResponseOK = ''SUCCESS''"
definition ResponseErr :: response where "ResponseErr = ''FAIL''"
definition CallResponseOK :: response where "CallResponseOK = ''SUCCESS''"
definition CallResponseError :: response where "CallResponseError = ''ERROR''"

text \<open>
  \<open>env_vm\<close> runs a script: \<open>Inl\<close> its error, \<open>Inr (Some b)\<close> a value that \<open>ToBoolean\<close>
  takes to \<open>b\<close>, \<open>Inr None\<close> one it fails on.  \<open>env_select\<close> is the branch the engine's
  \<open>select\<close> takes when it waits for the context and for the result of an application, which
  runs in a goroutine of its own: the result comes first, or the context is done and the
  effects of the application are still to come, or have been, though nobody reads its result.
\<close>

text \<open>
  \<open>env_decode_execute\<close>, \<open>env_decode_schema\<close> and \<open>env_decode_list\<close> are \<open>Flow.Decode\<close>
  into the arguments of those applications; \<open>env_schema\<close> is \<open>GetSchemaById\<close> and
  \<open>env_list_check\<close> is \<open>ListCheckNumber\<close> for the domain of the connection.
  \<open>env_spawn\<close> hands a flow to a goroutine of its own and says whether that flow already is
  cancelled when the caller looks.  \<open>env_timer\<close> waits for a timer of so many seconds: true
  when it fired, false when the context ended first.
\<close>

record list_args =
  la_Name :: "string option"
  la_Id :: "int option"
  la_List_Id :: "int option"
  la_List_Name :: "string option"
  la_Destination :: string
  la_Actions :: "goval list"

datatype select_branch = ResultFirst | DoneEarly | DoneLate

text \<open>What a flow shares with the flows forked from it: the maps of functions and triggers.\<close>

type_synonym shared = "(string \<times> applications) list \<times> (string \<times> applications) list"

text \<open>
  What an application answers: an error, or a response, where \<open>None\<close> is the nil one.  An outcome
  that is \<open>None\<close> is a call that does not return, be it that it runs for ever or that it panics.
\<close>

type_synonym answer = "response option result"

record 'w env =
  env_get :: "'w \<Rightarrow> string \<Rightarrow> string \<times> bool"
  env_vm :: "string \<Rightarrow> 'w \<Rightarrow> (string + bool option) \<times> 'w"
  env_decode_string :: "goval \<Rightarrow> 'w \<Rightarrow> app_error + string"
  env_app :: "string \<Rightarrow> (shared \<Rightarrow> app_args \<Rightarrow> 'w \<Rightarrow> (answer \<times> bool \<times> shared \<times> 'w) option) option"
  env_select :: "'w \<Rightarrow> select_branch"
  env_nanos :: "'w \<Rightarrow> int"
  env_decode_execute :: "goval \<Rightarrow> 'w \<Rightarrow> app_error + string \<times> bool"
  env_decode_schema :: "goval \<Rightarrow> 'w \<Rightarrow> app_error + int \<times> bool"
  env_decode_list :: "goval \<Rightarrow> 'w \<Rightarrow> app_error + list_args"
  env_schema :: "int \<Rightarrow> 'w \<Rightarrow> (string \<times> applications) result"
  env_list_check :: "string \<Rightarrow> int option \<Rightarrow> string option \<Rightarrow> 'w \<Rightarrow> bool result"
  env_spawn :: "flow \<Rightarrow> 'w \<Rightarrow> bool \<times> 'w"
  env_timer :: "int \<Rightarrow> 'w \<Rightarrow> bool \<times> 'w"

type_synonym 'w outcome = "(answer \<times> flow \<times> 'w) option"

section \<open>Handlers\<close>

definition enter :: "nid \<Rightarrow> flow \<Rightarrow> flow" where
  "enter n f = SetRoot n (upd_node n setFirst f)"

definition conditionHandler :: "'w env \<Rightarrow> flow \<Rightarrow> app_args \<Rightarrow> 'w \<Rightarrow> 'w outcome" where
  "conditionHandler e scope args w =
     (case args of
        ArgCondition ex th el \<Rightarrow>
          (case env_vm e (''_result = '' @ ParseText (env_get e w) ex []) w of
             (Inl err, w') \<Rightarrow>
               Some (Inl (NewAppError ''Flow.ConditionHandler'' ''flow.condition_if.vm_err'' [] err 400), scope, w')
           | (Inr b, w') \<Rightarrow>
               Some (Inr (Some ResponseOK), if b = Some True then enter th scope else enter el scope, w'))
      | _ \<Rightarrow> Some (Inl (NewAppError ''Flow.ConditionHandler'' ''flow.condition_if.not_found'' []
                   ''bad arguments'' 400), scope, w))"

definition upd_while :: "wid \<Rightarrow> (while_args \<Rightarrow> while_args) \<Rightarrow> flow \<Rightarrow> flow" where
  "upd_while n g f = f\<lparr>fl_whiles := (fl_whiles f)[n := g (fl_whiles f ! n)]\<rparr>"

definition endCycle :: "wid \<Rightarrow> flow \<Rightarrow> flow" where
  "endCycle n f = upd_while n (\<lambda>a. a\<lparr>wh_step := 0\<rparr>) f"

definition nextStep :: "wid \<Rightarrow> flow \<Rightarrow> flow" where
  "nextStep n f =
     (let do = wh_do (fl_whiles f ! n)
      in if length (nd_children (fl_nodes f ! do)) = 1 then endCycle n f
         else upd_while n (\<lambda>a. a\<lparr>wh_step := wh_step a + 1\<rparr>) (enter do f))"

definition checkCondition :: "'w env \<Rightarrow> string \<Rightarrow> 'w \<Rightarrow> bool \<times> 'w" where
  "checkCondition e condition w =
     (case env_vm e (''_result = '' @ ParseText (env_get e w) condition []) w of
        (Inl err, w') \<Rightarrow> (False, w')
      | (Inr None, w') \<Rightarrow> (False, w')
      | (Inr (Some b), w') \<Rightarrow> (b, w'))"

definition whileHandler :: "'w env \<Rightarrow> flow \<Rightarrow> app_args \<Rightarrow> 'w \<Rightarrow> 'w outcome" where
  "whileHandler e scope args w =
     (case args of
        ArgWhile n \<Rightarrow>
          (let req = fl_whiles scope ! n;
               f1 = (if wh_counter req \<noteq> 0 \<and> fl_prevRequest scope = wh_originalParent req
                     then endCycle n scope else scope)
           in if wh_counter (fl_whiles f1 ! n) < wh_maxSteps (fl_whiles f1 ! n) then
                (let (ok, w') = (if wh_step (fl_whiles f1 ! n) = 0 then (True, w)
                                 else checkCondition e (wh_condition (fl_whiles f1 ! n)) w);
                     f2 = (if ok then nextStep n f1 else endCycle n f1)
                 in Some (Inr (Some ResponseOK), upd_while n (\<lambda>a. a\<lparr>wh_counter := wh_counter a + 1\<rparr>) f2, w'))
              else Some (Inr (Some ResponseOK), f1, w))
      | _ \<Rightarrow> Some (Inl (NewAppError ''Flow.whileHandler'' ''flow.while.not_found'' [] ''bad arguments'' 400), scope, w))"

definition switchHandler :: "'w env \<Rightarrow> flow \<Rightarrow> app_args \<Rightarrow> 'w \<Rightarrow> 'w outcome" where
  "switchHandler e scope args w =
     (case args of
        ArgSwitch var cases \<Rightarrow>
          (case map_of cases (ParseText (env_get e w) var []) of
             Some n \<Rightarrow> Some (Inr (Some ResponseOK), enter n scope, w)
           | None \<Rightarrow>
               (case map_of cases ''default'' of
                  Some n \<Rightarrow> Some (Inr (Some ResponseOK), enter n scope, w)
                | None \<Rightarrow> Some (Inr (Some ResponseOK), scope, w)))
      | _ \<Rightarrow> Some (Inl (NewAppError ''Flow.SwitchHandler'' ''flow.condition_switch.not_found'' []
                   ''bad arguments'' 400), scope, w))"

text \<open>The detail of the error prints the arguments; the model leaves the printed value out.\<close>

definition breakHandler :: "'w env \<Rightarrow> flow \<Rightarrow> app_args \<Rightarrow> 'w \<Rightarrow> 'w outcome" where
  "breakHandler e scope args w =
     (case args of
        ArgBreak \<Rightarrow> Some (Inr (Some CallResponseOK), SetCancel scope, w)
      | _ \<Rightarrow> Some (Inl (NewAppError ''Flow.Break'' ''flow.app.break.valid.args'' [] ''bad arguments'' 400), scope, w))"

definition GotoTag :: "'w env \<Rightarrow> flow \<Rightarrow> app_args \<Rightarrow> 'w \<Rightarrow> 'w outcome" where
  "GotoTag e scope args w =
     (case env_decode_string e (arg_val args) w of
        Inl err \<Rightarrow> Some (Inl err, scope, w)
      | Inr t \<Rightarrow>
          Option.bind (Goto t scope) (\<lambda>(ok, scope').
            Some (Inr (Some (if ok then ResponseOK else ResponseErr)), scope', w)))"

section \<open>Dispatch\<close>

text \<open>
  The applications a router knows: the steering ones above, then what the environment adds
  (\<open>UnionApplicationMap\<close> lets the later map win).  The identifiers of the not-found
  error differ from router to router.
\<close>

definition UnionApplicationMap :: "(string \<Rightarrow> 'h option) list \<Rightarrow> string \<Rightarrow> 'h option" where
  "UnionApplicationMap src = fold (\<lambda>m acc. acc ++ m) src Map.empty"

definition steering_apps :: "'w env \<Rightarrow> string \<Rightarrow> (flow \<Rightarrow> app_args \<Rightarrow> 'w \<Rightarrow> 'w outcome) option" where
  "steering_apps e =
     [''if'' \<mapsto> conditionHandler e, ''while'' \<mapsto> whileHandler e, ''switch'' \<mapsto> switchHandler e,
      ''break'' \<mapsto> breakHandler e, ''goto'' \<mapsto> GotoTag e]"

definition shared_of :: "flow \<Rightarrow> shared" where
  "shared_of f = (fl_Functions f, fl_triggers f)"

definition left_by :: "bool \<Rightarrow> shared \<Rightarrow> flow \<Rightarrow> flow" where
  "left_by cancel s f =
     (let f1 = f\<lparr>fl_Functions := fst s, fl_triggers := snd s\<rparr> in if cancel then SetCancel f1 else f1)"

definition other_apps :: "'w env \<Rightarrow> string \<Rightarrow> (flow \<Rightarrow> app_args \<Rightarrow> 'w \<Rightarrow> 'w outcome) option" where
  "other_apps e name =
     map_option (\<lambda>h scope args w. Option.bind (h (shared_of scope) args w) (\<lambda>(r, cancel, s, w').
       Some (r, left_by cancel s scope, w'))) (env_app e name)"

definition Router_Request ::
  "string \<times> string \<Rightarrow> (string \<Rightarrow> (flow \<Rightarrow> app_args \<Rightarrow> 'w \<Rightarrow> 'w outcome) option) \<Rightarrow> flow \<Rightarrow> reqptr \<Rightarrow> 'w \<Rightarrow> 'w outcome" where
  "Router_Request ids apps scope p w =
     (let req = deref scope p in
      case apps (rq_name req) of
        Some h \<Rightarrow> h scope (rq_args req) w
      | None \<Rightarrow> Some (Inl (NewAppError (fst ids) (snd ids) [] (''appId='' @ rq_name req @ '' not found'') 404), scope, w))"

section \<open>What the handlers keep\<close>

definition gotos_left :: "flow \<Rightarrow> nat" where
  "gotos_left f = nat (MAX_GOTO + 1 - sint (fl_gotoCounter f))"

definition whiles_left :: "flow \<Rightarrow> nat" where
  "whiles_left f = sum_list (map (\<lambda>a. nat (wh_maxSteps a - wh_counter a)) (fl_whiles f))"

definition budget :: "flow \<Rightarrow> nat \<Rightarrow> nat \<times> nat \<times> nat" where
  "budget f extra = (gotos_left f, whiles_left f, work f + extra)"

definition lex3 :: "((nat \<times> nat \<times> nat) \<times> (nat \<times> nat \<times> nat)) set" where
  "lex3 = less_than <*lex*> less_than <*lex*> less_than"

text \<open>
  A handled request costs something: a jump, a round of a while, or the work that taking the
  request paid for.
\<close>

definition progress :: "nid \<Rightarrow> flow \<Rightarrow> flow \<Rightarrow> bool" where
  "progress c f f' = ((budget f' 0, budget f (weight (fl_nodes f) c)) \<in> lex3)"

lemma progressI:
  "gotos_left f' < gotos_left f \<Longrightarrow> progress c f f'"
  "gotos_left f' \<le> gotos_left f \<Longrightarrow> whiles_left f' < whiles_left f \<Longrightarrow> progress c f f'"
  "gotos_left f' \<le> gotos_left f \<Longrightarrow> whiles_left f' \<le> whiles_left f \<Longrightarrow>
     work f' < work f + weight (fl_nodes f) c \<Longrightarrow> progress c f f'"
  by (auto simp: progress_def budget_def lex3_def)

lemma progress_same: "progress c f f"
  by (rule progressI(3)) simp_all

lemma handed_out_request:
  assumes "wf_flow f" "handed_out f c k"
  shows "request_ok f c (deref f (c, k))" "c < length (fl_nodes f)" "fl_currentNode f = c"
  using assms by (auto simp: wf_flow_def wf_static_def wf_dyn_def handed_out_def cur_node_def deref_def)

text \<open>
  What a handler leaves alone: the tree, the limiters, the step log, the interrupted request;
  it never clears the cancel flag and keeps every counter within its limit.
\<close>

definition counted :: "flow \<Rightarrow> bool" where
  "counted f = (list_all (\<lambda>l. lim_count l \<le> lim_max l) (fl_limiters f) \<and>
     list_all (\<lambda>a. 0 \<le> wh_counter a \<and> wh_counter a \<le> max 0 (wh_maxSteps a)) (fl_whiles f))"

definition keeps :: "flow \<Rightarrow> flow \<Rightarrow> bool" where
  "keeps f f' = (static f' = static f \<and> fl_limiters f' = fl_limiters f \<and> fl_logs f' = fl_logs f \<and>
     fl_interrupted f' = fl_interrupted f \<and> (fl_cancel f \<longrightarrow> fl_cancel f') \<and> (counted f \<longrightarrow> counted f'))"

lemma zeroed_counted: "zeroed f \<Longrightarrow> counted f"
  by (auto simp: zeroed_def counted_def list_all_iff)

lemma keeps_refl [simp]: "keeps f f"
  by (simp add: keeps_def)

lemma keeps_trans [trans]: "keeps f g \<Longrightarrow> keeps g h \<Longrightarrow> keeps f h"
  by (auto simp: keeps_def)

lemma keeps_cursorless: "cursorless f' = cursorless f \<Longrightarrow> keeps f f'"
  using cursorless_sel [of f' f] cursorless_static [of f' f] by (simp add: keeps_def counted_def)

lemma keeps_jumped: "jumped f g f' \<Longrightarrow> keeps f f'"
  by (simp add: jumped_def keeps_def counted_def)

text \<open>Entering a node of the request just taken.\<close>

lemma enter_keeps: "keeps f (enter t f)"
  by (rule keeps_cursorless) (simp add: enter_def SetRoot_def upd_node_position_cursorless cursorless_simps)

lemma enter_ok:
  assumes w: "wf_flow f" and c: "fl_currentNode f = c" and t: "child_of (fl_nodes f) c t"
  shows "wf_flow (enter t f)" "progress c f (enter t f)" "keeps f (enter t f)"
proof -
  have tl: "t < length (fl_nodes f)" and tp: "bn_parent (fl_nodes f ! t) = Some c" using t by (simp_all add: child_of_def)
  show "wf_flow (enter t f)"
    unfolding enter_def SetRoot_def using w tl
    by (intro wf_flow_cursor wf_flow_setFirst) (simp_all add: upd_node_def)
  have "c < t" using wf_flow_parent [OF w tl tp] by simp
  then have "work (enter t f) < work f + weight (fl_nodes f) c"
    using work_at_enter [OF tl tp] c by (simp add: work_def enter_def SetRoot_def upd_node_def setFirst_def)
  then show "progress c f (enter t f)"
    by (intro progressI(3)) (simp_all add: gotos_left_def whiles_left_def enter_def SetRoot_def upd_node_def)
qed (rule enter_keeps)

definition request_done :: "nid \<Rightarrow> flow \<Rightarrow> 'w outcome \<Rightarrow> bool" where
  "request_done c f out = (\<exists>r f' w'. out = Some (r, f', w') \<and> wf_flow f' \<and> progress c f f' \<and> keeps f f')"

lemma request_doneI:
  "wf_flow f' \<Longrightarrow> progress c f f' \<Longrightarrow> keeps f f' \<Longrightarrow> request_done c f (Some (r, f', w'))"
  by (simp add: request_done_def)

lemma conditionHandler_done:
  assumes "wf_flow f" "fl_currentNode f = c" "args_ok (fl_nodes f) (length (fl_whiles f)) c a"
  shows "request_done c f (conditionHandler e f a w)"
  using assms enter_ok progress_same
  by (auto simp: conditionHandler_def split: app_args.splits prod.splits sum.splits intro!: request_doneI)

lemma case_child:
  "map_of cs v = Some t \<Longrightarrow> list_all (\<lambda>c. child_of ns n (snd c)) cs \<Longrightarrow> child_of ns n t"
  by (induction cs) (auto split: if_splits)

lemma switchHandler_done:
  assumes "wf_flow f" "fl_currentNode f = c" "args_ok (fl_nodes f) (length (fl_whiles f)) c a"
  shows "request_done c f (switchHandler e f a w)"
proof (cases a)
  case (ArgSwitch var cs)
  then have "request_done c f (Some (r, enter t f, w))" if "map_of cs v = Some t" for r v t
    using enter_ok [OF assms(1,2)] case_child [OF that] assms(3) by (simp add: request_doneI)
  then show ?thesis
    using assms(1) progress_same ArgSwitch
    by (auto simp: switchHandler_def intro!: request_doneI split: option.splits)
qed (use assms(1) progress_same in \<open>simp_all add: switchHandler_def request_doneI\<close>)

lemma breakHandler_done:
  assumes "wf_flow f"
  shows "request_done c f (breakHandler e f a w)"
proof -
  have "wf_flow (SetCancel f)"
    using assms by (intro wf_flowI [OF assms]) (simp_all add: SetCancel_def static_def wf_flow_def wf_dyn_def)
  moreover have "progress c f (SetCancel f)"
    by (rule progressI(3)) (simp_all add: SetCancel_def gotos_left_def whiles_left_def work_def)
  moreover have "keeps f (SetCancel f)" by (simp add: keeps_def counted_def SetCancel_def static_def)
  ultimately show ?thesis
    using assms progress_same by (auto simp: breakHandler_def intro!: request_doneI split: app_args.splits)
qed

lemma jumped_gotos_left:
  assumes "wf_flow f" "sint (fl_gotoCounter f) \<le> MAX_GOTO" "jumped f g f'"
  shows "gotos_left f' < gotos_left f"
  using assms gotoCounter_bump [of "fl_gotoCounter f"]
  by (simp add: gotos_left_def jumped_def wf_flow_def wf_dyn_def)

lemma Goto_done:
  assumes "wf_flow f"
  shows "\<exists>ok f'. Goto t f = Some (ok, f') \<and> wf_flow f' \<and> keeps f f' \<and> (ok \<longrightarrow> gotos_left f' < gotos_left f) \<and> (\<not> ok \<longrightarrow> f' = f)"
  using assms
proof (cases rule: Goto_cases [of f t])
  case (2 g f')
  then show ?thesis using jumped_gotos_left [OF assms] keeps_jumped by (auto simp: jumped_def)
qed (use assms in auto)

lemma GotoTag_done:
  assumes "wf_flow f"
  shows "request_done c f (GotoTag e f a w)"
proof (cases "env_decode_string e (arg_val a) w")
  case (Inr t)
  obtain ok f' where g: "Goto t f = Some (ok, f')" "wf_flow f'" "keeps f f'"
      "ok \<longrightarrow> gotos_left f' < gotos_left f" "\<not> ok \<longrightarrow> f' = f"
    using Goto_done [OF assms, of t] by blast
  then have "progress c f f'" using progressI(1) progress_same by (cases ok) auto
  then show ?thesis using g Inr by (simp add: GotoTag_def request_doneI)
qed (use assms progress_same in \<open>simp add: GotoTag_def request_doneI\<close>)

lemma upd_while_sel [simp]:
  "fl_nodes (upd_while n g f) = fl_nodes f" "fl_currentNode (upd_while n g f) = fl_currentNode f"
  "fl_gotoCounter (upd_while n g f) = fl_gotoCounter f" "fl_cancel (upd_while n g f) = fl_cancel f"
  "length (fl_whiles (upd_while n g f)) = length (fl_whiles f)"
  by (simp_all add: upd_while_def)

lemma upd_while_ok:
  assumes "wf_flow f" "\<And>a. (g a)\<lparr>wh_step := 0, wh_counter := 0\<rparr> = a\<lparr>wh_step := 0, wh_counter := 0\<rparr>"
  shows "wf_flow (upd_while n g f)"
proof (rule wf_flowI [OF assms(1)])
  show "static (upd_while n g f) = static f"
    using assms(2) by (simp add: static_def upd_while_def map_list_update_same)
  show "wf_dyn (upd_while n g f)" using assms(1) by (simp add: wf_flow_def wf_dyn_def)
qed

lemma endCycle_ok: "wf_flow f \<Longrightarrow> wf_flow (endCycle n f)"
  by (simp add: endCycle_def upd_while_ok)

lemma nextStep_ok:
  assumes w: "wf_flow f" and n: "n < length (fl_whiles f)"
  shows "wf_flow (nextStep n f)"
proof -
  have "wh_do (fl_whiles f ! n) < length (fl_nodes f)"
    using w n by (simp add: wf_flow_def wf_static_def)
  then have "wf_flow (enter (wh_do (fl_whiles f ! n)) f)"
    unfolding enter_def SetRoot_def using w
    by (intro wf_flow_cursor wf_flow_setFirst) (simp_all add: upd_node_def)
  then show ?thesis by (simp add: nextStep_def Let_def endCycle_ok [OF w] upd_while_ok)
qed

lemma upd_while_keeps:
  assumes "\<And>a. (g a)\<lparr>wh_step := 0, wh_counter := 0\<rparr> = a\<lparr>wh_step := 0, wh_counter := 0\<rparr>"
    "n < length (fl_whiles f) \<Longrightarrow> wh_counter (fl_whiles f ! n) \<le> wh_counter (g (fl_whiles f ! n)) \<and>
       wh_counter (g (fl_whiles f ! n)) \<le> max (wh_counter (fl_whiles f ! n)) (wh_maxSteps (fl_whiles f ! n))"
  shows "keeps f (upd_while n g f)"
proof -
  have "static (upd_while n g f) = static f"
    using assms(1) by (simp add: static_def upd_while_def map_list_update_same)
  moreover have "wh_maxSteps (g a) = wh_maxSteps a" for a
    using arg_cong [OF assms(1) [of a], of wh_maxSteps] by simp
  then have "0 \<le> wh_counter (g a) \<and> wh_counter (g a) \<le> max 0 (wh_maxSteps (g a))"
    if "counted f" "n < length (fl_whiles f)" "a = fl_whiles f ! n" for a
    using that assms(2) list_all_length [of _ "fl_whiles f"] unfolding counted_def by fastforce
  then have "counted f \<longrightarrow> counted (upd_while n g f)"
    by (cases "n < length (fl_whiles f)")
      (simp_all add: counted_def upd_while_def list_update_beyond list_all_list_update)
  ultimately show ?thesis by (simp add: keeps_def upd_while_def)
qed

lemma endCycle_keeps: "keeps f (endCycle n f)"
  unfolding endCycle_def by (rule upd_while_keeps) simp_all

lemma nextStep_keeps: "keeps f (nextStep n f)"
proof -
  have "keeps g (upd_while n (\<lambda>a. a\<lparr>wh_step := wh_step a + 1\<rparr>) g)" for g
    by (rule upd_while_keeps) simp_all
  then show ?thesis by (auto simp: nextStep_def Let_def endCycle_keeps intro: keeps_trans [OF enter_keeps])
qed

text \<open>The counters of the loops: only the last step of \<open>whileHandler\<close> touches them.\<close>

definition counters :: "flow \<Rightarrow> (int \<times> int) list" where
  "counters f = map (\<lambda>a. (wh_counter a, wh_maxSteps a)) (fl_whiles f)"

lemma counters_frame [simp]:
  "counters (endCycle n f) = counters f" "counters (nextStep n f) = counters f"
  "fl_gotoCounter (endCycle n f) = fl_gotoCounter f" "fl_gotoCounter (nextStep n f) = fl_gotoCounter f"
  "length (fl_whiles (nextStep n f)) = length (fl_whiles f)"
  by (simp_all add: counters_def endCycle_def nextStep_def Let_def upd_while_def enter_def SetRoot_def
      upd_node_def map_list_update_same)

lemma whiles_left_counters: "whiles_left f = sum_list (map (\<lambda>(c, m). nat (m - c)) (counters f))"
  by (simp add: whiles_left_def counters_def o_def)

lemma sum_list_update_less:
  "n < length xs \<Longrightarrow> g y < g (xs ! n) \<Longrightarrow>
     sum_list (map g (xs[n := y])) < sum_list (map (g :: 'a \<Rightarrow> nat) xs)"
  by (induction xs arbitrary: n) (auto split: nat.splits simp: nth_Cons)

lemma counters_bump:
  "n < length (fl_whiles f) \<Longrightarrow>
   counters (upd_while n (\<lambda>a. a\<lparr>wh_counter := wh_counter a + 1\<rparr>) f) =
     (counters f)[n := (fst (counters f ! n) + 1, snd (counters f ! n))]"
  by (simp add: counters_def upd_while_def map_update)

text \<open>A pass through the loop body of \<open>whileHandler\<close> pays one of its remaining rounds.\<close>

lemma round_done:
  assumes w: "wf_flow f2" and n: "n < length (fl_whiles f2)" and c: "counters f2 = counters f"
    and g: "fl_gotoCounter f2 = fl_gotoCounter f" and keep: "keeps f f2"
    and room: "wh_counter (fl_whiles f ! n) < wh_maxSteps (fl_whiles f ! n)"
  shows "request_done k f (Some (r, upd_while n (\<lambda>a. a\<lparr>wh_counter := wh_counter a + 1\<rparr>) f2, w'))"
proof -
  let ?f3 = "upd_while n (\<lambda>a. a\<lparr>wh_counter := wh_counter a + 1\<rparr>) f2"
  have n': "n < length (fl_whiles f)"
    using arg_cong [OF c, of length] n by (simp add: counters_def)
  then have "counters f2 ! n = (wh_counter (fl_whiles f ! n), wh_maxSteps (fl_whiles f ! n))"
    unfolding c by (simp add: counters_def)
  moreover have "n < length (counters f2)" using n by (simp add: counters_def)
  ultimately have "whiles_left ?f3 < whiles_left f"
    using room unfolding whiles_left_counters counters_bump [OF n] c
    by (intro sum_list_update_less) auto
  moreover have "gotos_left ?f3 \<le> gotos_left f" by (simp add: gotos_left_def g)
  moreover have "wh_counter (fl_whiles f2 ! n) < wh_maxSteps (fl_whiles f2 ! n)"
    using \<open>counters f2 ! n = _\<close> room n by (simp add: counters_def)
  then have "keeps f2 ?f3" by (intro upd_while_keeps) simp_all
  then have "keeps f ?f3" using keep keeps_trans by blast
  moreover have "wf_flow ?f3" using w by (simp add: upd_while_ok)
  ultimately show ?thesis by (simp add: progressI(2) request_doneI)
qed

lemma endCycle_sel [simp]:
  "fl_nodes (endCycle n f) = fl_nodes f" "fl_currentNode (endCycle n f) = fl_currentNode f"
  "length (fl_whiles (endCycle n f)) = length (fl_whiles f)"
  by (simp_all add: endCycle_def)

lemma endCycle_counter [simp]:
  "n < length (fl_whiles f) \<Longrightarrow> wh_counter (fl_whiles (endCycle n f) ! n) = wh_counter (fl_whiles f ! n)"
  "n < length (fl_whiles f) \<Longrightarrow> wh_maxSteps (fl_whiles (endCycle n f) ! n) = wh_maxSteps (fl_whiles f ! n)"
  by (simp_all add: endCycle_def upd_while_def)

lemma endCycle_done: "wf_flow f \<Longrightarrow> request_done c f (Some (r, endCycle n f, w))"
  by (intro request_doneI endCycle_ok progressI(3) endCycle_keeps)
     (simp_all add: gotos_left_def whiles_left_counters work_def)

lemma whileHandler_done:
  assumes w: "wf_flow f" and a: "args_ok (fl_nodes f) (length (fl_whiles f)) c a"
  shows "request_done c f (whileHandler e f a w0)"
proof (cases a)
  case (ArgWhile n)
  then have n: "n < length (fl_whiles f)" using a by simp
  define f1 where "f1 = (if wh_counter (fl_whiles f ! n) \<noteq> 0 \<and>
      fl_prevRequest f = wh_originalParent (fl_whiles f ! n) then endCycle n f else f)"
  define ch where "ch = (if wh_step (fl_whiles f1 ! n) = 0 then (True, w0)
      else checkCondition e (wh_condition (fl_whiles f1 ! n)) w0)"
  have run: "whileHandler e f a w0 = (if wh_counter (fl_whiles f1 ! n) < wh_maxSteps (fl_whiles f1 ! n)
      then Some (Inr (Some ResponseOK), upd_while n (\<lambda>a. a\<lparr>wh_counter := wh_counter a + 1\<rparr>)
        (if fst ch then nextStep n f1 else endCycle n f1), snd ch) else Some (Inr (Some ResponseOK), f1, w0))"
    unfolding ArgWhile whileHandler_def app_args.case Let_def ch_def f1_def by (simp only: case_prod_beta)
  have f1: "wf_flow f1" "counters f1 = counters f" "fl_gotoCounter f1 = fl_gotoCounter f"
      "length (fl_whiles f1) = length (fl_whiles f)" "wh_counter (fl_whiles f1 ! n) = wh_counter (fl_whiles f ! n)"
      "wh_maxSteps (fl_whiles f1 ! n) = wh_maxSteps (fl_whiles f ! n)"
    using w n by (simp_all add: f1_def endCycle_ok)
  have "request_done c f (Some (Inr (Some ResponseOK), f1, w0))"
    using w by (simp add: f1_def endCycle_done request_doneI progress_same)
  moreover have "wf_flow (if fst ch then nextStep n f1 else endCycle n f1)"
    using f1 n by (simp add: nextStep_ok endCycle_ok)
  moreover have "keeps f (if fst ch then nextStep n f1 else endCycle n f1)"
    using keeps_trans nextStep_keeps endCycle_keeps by (simp add: f1_def) blast
  ultimately show ?thesis unfolding run using f1 n by (auto intro!: round_done)
qed (use w progress_same in \<open>simp_all add: whileHandler_def request_doneI\<close>)

section \<open>Requests of a well-formed flow\<close>

text \<open>
  The contract of a map of applications: given arguments of the node the cursor is on, a
  handler that returns has kept the flow well-formed and made progress.  A router over such a map
  provides requests to the engine.
\<close>

locale request_provider =
  fixes rq :: "flow \<Rightarrow> reqptr \<Rightarrow> 'w \<Rightarrow> 'w outcome"
  assumes rq_safe: "\<lbrakk>wf_flow f; handed_out f c k; rq f (c, k) w = Some out\<rbrakk> \<Longrightarrow> request_done c f (Some out)"

locale applications =
  fixes apps :: "string \<Rightarrow> (flow \<Rightarrow> app_args \<Rightarrow> 'w \<Rightarrow> 'w outcome) option"
  assumes app_safe: "\<lbrakk>wf_flow f; fl_currentNode f = c; args_ok (fl_nodes f) (length (fl_whiles f)) c a;
     apps name = Some h; h f a w = Some out\<rbrakk> \<Longrightarrow> request_done c f (Some out)"

lemma Router_Request_provider:
  assumes "applications apps"
  shows "request_provider (Router_Request ids apps)"
proof
  fix f c k w out
  assume h: "wf_flow f" "handed_out f c k" and out: "Router_Request ids apps f (c, k) w = Some out"
  note r = handed_out_request [OF h]
  have "request_done c f (Some out)" if "apps nm = Some h" "h f (rq_args (deref f (c, k))) w = Some out" for nm h
    using applications.app_safe [OF assms h(1) r(3) _ that] r(1) by (simp add: request_ok_def)
  then show "request_done c f (Some out)"
    using h(1) out progress_same
    by (auto simp: Router_Request_def Let_def intro!: request_doneI split: option.splits)
qed

sublocale applications < router: request_provider "Router_Request ids apps" for ids
  by (rule Router_Request_provider) (rule applications_axioms)

lemma applications_union:
  assumes "applications m1" "applications m2"
  shows "applications (m1 ++ m2)"
proof
  fix f c a name h w out
  assume A: "wf_flow f" "fl_currentNode f = c" "args_ok (fl_nodes f) (length (fl_whiles f)) c a"
    and h: "(m1 ++ m2) name = Some h" "h f a w = Some out"
  from h(1) have "m2 name = Some h \<or> m1 name = Some h" by auto
  then show "request_done c f (Some out)"
    using applications.app_safe [OF assms(1) A, of name h w out] applications.app_safe [OF assms(2) A, of name h w out] h(2) by blast
qed

lemma UnionApplicationMap_applications:
  assumes "list_all applications ms"
  shows "applications (UnionApplicationMap ms)"
proof -
  have "applications acc \<Longrightarrow> applications (fold (\<lambda>m acc. acc ++ m) ms acc)" for acc
    using assms by (induction ms arbitrary: acc) (simp_all add: applications_union)
  moreover have "applications Map.empty" by (simp add: applications_def)
  ultimately show ?thesis by (simp add: UnionApplicationMap_def)
qed

text \<open>New functions and triggers and a cancellation leave the tree, the cursor and the counters alone.\<close>

lemma left_by_sel [simp]:
  "fl_nodes (left_by b s f) = fl_nodes f" "fl_currentNode (left_by b s f) = fl_currentNode f"
  "cur_node (left_by b s f) = cur_node f" "fl_cancel (left_by b s f) = (b \<or> fl_cancel f)"
  "deref (left_by b s f) p = deref f p" "fl_limiters (left_by b s f) = fl_limiters f"
  "fl_logs (left_by b s f) = fl_logs f" "fl_interrupted (left_by b s f) = fl_interrupted f"
  "shared_of (left_by b s f) = s"
  by (simp_all add: left_by_def Let_def SetCancel_def cur_node_def deref_def shared_of_def)

lemma left_by_done:
  assumes "wf_flow f"
  shows "request_done c f (Some (r, left_by b s f, w))"
proof (rule request_doneI)
  have st: "static (left_by b s f) = static f" by (simp add: static_def left_by_def Let_def SetCancel_def)
  show "wf_flow (left_by b s f)"
    by (rule wf_flowI [OF assms st]) (use assms in \<open>simp add: wf_flow_def wf_dyn_def left_by_def Let_def SetCancel_def\<close>)
  show "progress c f (left_by b s f)"
    by (rule progressI(3)) (simp_all add: gotos_left_def whiles_left_def work_def left_by_def Let_def SetCancel_def)
  show "keeps f (left_by b s f)" using st by (simp add: keeps_def counted_def) (simp add: left_by_def Let_def SetCancel_def)
qed

lemma applications_other: "applications (other_apps e)"
  unfolding applications_def using left_by_done by (auto simp: other_apps_def bind_eq_Some_conv)

lemma applications_steering: "applications (steering_apps e)"
proof
  fix f c a name h w out
  assume "wf_flow f" "fl_currentNode f = c" "args_ok (fl_nodes f) (length (fl_whiles f)) c a"
    and h: "steering_apps e name = Some h" "h f a w = Some out"
  then have "request_done c f (k f a w)"
    if "k \<in> {conditionHandler e, whileHandler e, switchHandler e, breakHandler e, GotoTag e}" for k
    using that conditionHandler_done whileHandler_done switchHandler_done breakHandler_done GotoTag_done
    by fastforce
  moreover have "h \<in> {conditionHandler e, whileHandler e, switchHandler e, breakHandler e, GotoTag e}"
    using h(1) by (simp add: steering_apps_def split: if_splits)
  ultimately show "request_done c f (Some out)" using h(2) by force
qed

text \<open>The steering applications always return, with a response or an error.\<close>

definition answered :: "'w outcome \<Rightarrow> bool" where
  "answered out = (\<exists>r f' w'. out = Some (r, f', w') \<and> r \<noteq> Inr None)"

lemma steering_answers:
  assumes "wf_flow f" "fl_currentNode f = c" "args_ok (fl_nodes f) (length (fl_whiles f)) c a" "steering_apps e name = Some h"
  shows "answered (h f a w)"
proof -
  have "answered (conditionHandler e f a w)" "answered (switchHandler e f a w)" "answered (breakHandler e f a w)"
    by (auto simp: answered_def conditionHandler_def switchHandler_def breakHandler_def split: app_args.splits prod.splits sum.splits option.splits)
  moreover have "answered (whileHandler e f a w)"
    by (auto simp: answered_def whileHandler_def Let_def split: app_args.splits prod.splits)
  moreover have "answered (GotoTag e f a w)"
  proof -
    show ?thesis
    proof (cases "env_decode_string e (arg_val a) w")
      case (Inr t)
      obtain ok g where "Goto t f = Some (ok, g)" using Goto_done [OF assms(1), of t] by blast
      then show ?thesis by (simp add: answered_def GotoTag_def Inr)
    qed (simp add: answered_def GotoTag_def)
  qed
  ultimately show ?thesis using assms(4) by (auto simp: steering_apps_def split: if_splits)
qed

interpretation steering: applications "steering_apps e" for e
  by (rule applications_steering)

interpretation others: applications "other_apps e" for e
  by (rule applications_other)

end
