(* ===== verification/Flow_Route.thy ===== *)
theory Flow_Route
  imports Flow_Handlers "HOL-Library.Sublist"
begin

text \<open>
  The engine: \<open>Route\<close> of \<open>flow/handler.go\<close>, over any provider of requests.  The loop is
  a partial function into \<open>option\<close>: \<open>None\<close> is a run that does not return, because a call of it
  does not, or because it panics.  That it returns where its calls do is a theorem.
\<close>

section \<open>The loop\<close>

text \<open>
  The \<open>select\<close> of one round, with the branch \<open>env_select\<close> picks, and the end of the
  round: whether the loop goes on, the flow and the world.  A log entry holds the start in
  microseconds and the stop in milliseconds.  A result without an error is printed for the debug
  log with \<open>res.Res.String()\<close>, which panics when the application has answered with nil.
\<close>

definition route_log :: "'w env \<Rightarrow> app_request \<Rightarrow> 'w \<Rightarrow> 'w \<Rightarrow> flow \<Rightarrow> flow" where
  "route_log e req w w' f =
     (case rq_log req of None \<Rightarrow> f
      | Some name \<Rightarrow> PushSteepLog name (env_nanos e w div 1000) (env_nanos e w' div 1000000) f)"

definition route_select ::
  "'w env \<Rightarrow> (flow \<Rightarrow> reqptr \<Rightarrow> 'w \<Rightarrow> 'w outcome) \<Rightarrow> flow \<Rightarrow> reqptr \<Rightarrow> 'w \<Rightarrow> (bool \<times> flow \<times> 'w) option" where
  "route_select e rq f p w =
     (let req = deref f p in
      case env_select e w of
        DoneEarly \<Rightarrow> Some (False, SetCancel (setInterrupted (Some p) f), w)
      | DoneLate \<Rightarrow>
          Option.bind (rq f p w) (\<lambda>(res, f', w').
            Some (False, SetCancel (setInterrupted (Some p) f'), w'))
      | ResultFirst \<Rightarrow>
          Option.bind (rq f p w) (\<lambda>(res, f', w').
            if res = Inr None then None else
            (let f1 = route_log e req w w' f';
                 f2 = (if request_IsCancel req then SetCancel f1 else f1)
             in Some (\<not> fl_cancel f2, f2, w'))))"

definition upd_limiter :: "lid \<Rightarrow> (limiter \<Rightarrow> limiter) \<Rightarrow> flow \<Rightarrow> flow" where
  "upd_limiter l g f = f\<lparr>fl_limiters := (fl_limiters f)[l := g (fl_limiters f ! l)]\<rparr>"

text \<open>One round after a request was handed out.\<close>

definition route_round ::
  "'w env \<Rightarrow> (flow \<Rightarrow> reqptr \<Rightarrow> 'w \<Rightarrow> 'w outcome) \<Rightarrow> flow \<Rightarrow> reqptr \<Rightarrow> 'w \<Rightarrow> (bool \<times> flow \<times> 'w) option" where
  "route_round e rq f p w =
     (if fl_cancel f then Some (False, f, w)
      else case rq_limiter (deref f p) of
             None \<Rightarrow> route_select e rq f p w
           | Some l \<Rightarrow>
               if MaxCount (fl_limiters f ! l)
               then Option.bind (Goto (lim_failover (fl_limiters f ! l)) f) (\<lambda>(ok, f'). Some (ok, f', w))
               else route_select e rq (upd_limiter l AddIteration f) p w)"

partial_function (option) route_loop ::
  "'w env \<Rightarrow> (flow \<Rightarrow> reqptr \<Rightarrow> 'w \<Rightarrow> 'w outcome) \<Rightarrow> flow \<Rightarrow> 'w \<Rightarrow> (flow \<times> 'w) option" where
  "route_loop e rq f w =
     Option.bind (NextRequest f) (\<lambda>(r, f1).
       (case r of
          None \<Rightarrow> Some (f1, w)
        | Some p \<Rightarrow>
            Option.bind (route_round e rq f1 p w) (\<lambda>(go, f2, w').
              if go then route_loop e rq f2 w' else Some (f2, w'))))"

declare route_loop.simps [code]

definition Route ::
  "'w env \<Rightarrow> (flow \<Rightarrow> reqptr \<Rightarrow> 'w \<Rightarrow> 'w outcome) \<Rightarrow> flow \<Rightarrow> 'w \<Rightarrow> (flow \<times> 'w) option" where
  "Route e rq f w = route_loop e rq (setInterrupted None f) w"

text \<open>A rule for runs that return, with an invariant at the head of the loop.\<close>

lemma route_loop_rule:
  assumes r: "route_loop e rq f w = Some (f', w')" and I: "I f w"
    and stop: "\<And>f w f1. I f w \<Longrightarrow> NextRequest f = Some (None, f1) \<Longrightarrow> Q f1 w"
    and step: "\<And>f w p f1 go f2 w2. \<lbrakk>I f w; NextRequest f = Some (Some p, f1);
       route_round e rq f1 p w = Some (go, f2, w2)\<rbrakk> \<Longrightarrow> if go then I f2 w2 else Q f2 w2"
  shows "Q f' w'"
proof -
  let ?P = "\<lambda>e0 r f w x. e0 = e \<and> r = rq \<and> I f w \<longrightarrow> Q (fst x) (snd x)"
  have "?P e rq f w (f', w')"
  proof (rule route_loop.raw_induct [where P = ?P, OF _ r], intro impI)
    fix loop e0 r f w x
    assume ih: "\<And>e0 r f w x. loop e0 r f w = Some x \<Longrightarrow> ?P e0 r f w x"
      and out: "Option.bind (NextRequest f) (\<lambda>(q, f1).
        (case q of None \<Rightarrow> Some (f1, w)
         | Some p \<Rightarrow> Option.bind (route_round e0 r f1 p w) (\<lambda>(go, f2, w').
             if go then loop e0 r f2 w' else Some (f2, w')))) = Some x"
      and pre: "e0 = e \<and> r = rq \<and> I f w"
    from out obtain q f1 where n: "NextRequest f = Some (q, f1)" by (auto simp: bind_eq_Some_conv)
    show "Q (fst x) (snd x)"
    proof (cases q)
      case None
      then show ?thesis using out n stop pre by auto
    next
      case (Some p)
      from out n Some pre obtain go f2 w2 where rr: "route_round e rq f1 p w = Some (go, f2, w2)"
        and rest: "(if go then loop e rq f2 w2 else Some (f2, w2)) = Some x"
        by (auto simp: bind_eq_Some_conv)
      have "if go then I f2 w2 else Q f2 w2" using step pre n Some rr by blast
      then show ?thesis using rest ih [of e rq f2 w2 x] by (auto split: if_splits)
    qed
  qed
  then show ?thesis using I by simp
qed

section \<open>Rounds keep the invariants\<close>

definition run_keeps :: "flow \<Rightarrow> flow \<Rightarrow> bool" where
  "run_keeps f f' = (wf_flow f' \<and> static f' = static f \<and> (fl_cancel f \<longrightarrow> fl_cancel f') \<and>
     (counted f \<longrightarrow> counted f') \<and> gotos_left f' \<le> gotos_left f \<and> prefix (fl_logs f) (fl_logs f'))"

lemma run_keeps_refl: "wf_flow f \<Longrightarrow> run_keeps f f"
  by (simp add: run_keeps_def)

lemma run_keeps_trans: "run_keeps f g \<Longrightarrow> run_keeps g h \<Longrightarrow> run_keeps f h"
  by (auto simp: run_keeps_def)

lemma progress_gotos: "progress c f f' \<Longrightarrow> gotos_left f' \<le> gotos_left f"
  by (auto simp: progress_def budget_def lex3_def)

lemma keeps_run: "wf_flow f' \<Longrightarrow> keeps f f' \<Longrightarrow> gotos_left f' \<le> gotos_left f \<Longrightarrow> run_keeps f f'"
  by (simp add: keeps_def run_keeps_def)

lemma wf_flow_flags:
  "wf_flow (SetCancel f) = wf_flow f" "wf_flow (setInterrupted r f) = wf_flow f"
  "wf_flow (PushSteepLog nm a b f) = wf_flow f" "wf_flow (ClearCancel f) = wf_flow f"
  unfolding SetCancel_def setInterrupted_def PushSteepLog_def ClearCancel_def wf_flow_def wf_static_def
    wf_dyn_def request_ok_def by simp_all

lemma flags_budget [simp]:
  "budget (SetCancel f) x = budget f x" "budget (setInterrupted r f) x = budget f x"
  "budget (PushSteepLog nm a b f) x = budget f x" "budget (upd_limiter l g f) x = budget f x"
  by (simp_all add: budget_def gotos_left_def whiles_left_def work_def SetCancel_def setInterrupted_def
      PushSteepLog_def upd_limiter_def)

lemma flags_keep:
  assumes "wf_flow f"
  shows "run_keeps f (SetCancel f)" "run_keeps f (setInterrupted r f)" "run_keeps f (PushSteepLog nm a b f)"
  using assms wf_flow_flags
  by (simp_all add: run_keeps_def, simp_all add: SetCancel_def setInterrupted_def PushSteepLog_def
      static_def counted_def gotos_left_def)

lemma route_log_keep: "wf_flow f \<Longrightarrow> run_keeps f (route_log e req w w' f)"
  using flags_keep(3) run_keeps_refl by (simp add: route_log_def split: option.split)

lemma route_log_budget [simp]: "budget (route_log e req w w' f) x = budget f x"
  by (simp add: route_log_def split: option.split)

text \<open>A limiter that is not exhausted counts one more without passing its maximum.\<close>

lemma AddIteration_bound: "\<not> MaxCount l \<Longrightarrow> lim_count (AddIteration l) \<le> lim_max (AddIteration l)"
  by (simp add: MaxCount_def AddIteration_def inc_le)

lemma upd_limiter_keep:
  assumes w: "wf_flow f" and h: "handed_out f c k" and l: "\<not> MaxCount (fl_limiters f ! l)"
  defines "f' \<equiv> upd_limiter l AddIteration f"
  shows "run_keeps f f'" "handed_out f' c k" "fl_nodes f' = fl_nodes f"
proof -
  have s: "static f' = static f"
    by (simp add: f'_def upd_limiter_def static_def AddIteration_def map_list_update_same)
  then have "wf_flow f'"
    using w by (intro wf_flowI [OF w]) (simp_all add: f'_def upd_limiter_def wf_flow_def wf_dyn_def)
  moreover have "counted f \<longrightarrow> counted f'"
    using AddIteration_bound [OF l] by (simp add: f'_def counted_def upd_limiter_def list_all_list_update)
  ultimately show "run_keeps f f'"
    using s by (simp add: run_keeps_def f'_def upd_limiter_def gotos_left_def)
  show "handed_out f' c k" "fl_nodes f' = fl_nodes f"
    using h by (auto simp: handed_out_def f'_def upd_limiter_def cur_node_def)
qed

text \<open>The ways a run ends: cancelled, out of requests, or refused at an exhausted limiter.\<close>

definition ended :: "flow \<Rightarrow> bool" where
  "ended f = (fl_cancel f \<or> at_start f \<or> (\<exists>l\<in>set (fl_limiters f). MaxCount l))"

lemma route_select_end: "route_select e rq f p w = Some (False, f', w') \<Longrightarrow> fl_cancel f'"
  by (auto simp: route_select_def Let_def SetCancel_def bind_eq_Some_conv split: select_branch.splits if_split_asm)

lemma Goto_False: "Goto t f = Some (False, f') \<Longrightarrow> f' = f"
  by (auto simp: Goto_def Let_def bind_eq_Some_conv split: if_splits option.splits)

lemma route_round_end:
  assumes "wf_flow f" "handed_out f c k" "route_round e rq f (c, k) w = Some (False, f', w')"
  shows "fl_cancel f' \<or> (\<exists>l\<in>set (fl_limiters f'). MaxCount l)"
proof -
  have "l < length (fl_limiters f)" if "rq_limiter (deref f (c, k)) = Some l" for l
    using handed_out_request(1) [OF assms(1,2)] that by (simp add: request_ok_def)
  then show ?thesis
    using assms(3) route_select_end
    by (auto simp: route_round_def bind_eq_Some_conv dest!: Goto_False split: if_splits option.splits)
qed

section \<open>The engine returns\<close>

text \<open>What one round promises, seen from the flow the request was handed out from.\<close>

definition round_done :: "nid \<Rightarrow> flow \<Rightarrow> (bool \<times> flow \<times> 'w) option \<Rightarrow> bool" where
  "round_done c f out = (\<exists>go f' w'. out = Some (go, f', w') \<and> run_keeps f f' \<and> (go \<longrightarrow> progress c f f'))"

lemma round_doneI: "run_keeps f f' \<Longrightarrow> (go \<Longrightarrow> progress c f f') \<Longrightarrow> round_done c f (Some (go, f', w'))"
  by (simp add: round_done_def)

lemma wf_lex3: "wf lex3"
  by (simp add: lex3_def wf_lex_prod)

text \<open>
  A provider whose requests all return, with a response or an error, on the flows over a program
  \<open>S\<close>.  The engine runs each of them to its end.
\<close>

locale answering_provider = request_provider rq for rq :: "flow \<Rightarrow> reqptr \<Rightarrow> 'w \<Rightarrow> 'w outcome" +
  fixes S
  assumes rq_answers: "\<lbrakk>wf_flow f; static f = S; handed_out f c k\<rbrakk> \<Longrightarrow> answered (rq f (c, k) w)"
begin

lemma rq_step:
  assumes "wf_flow f" "static f = S" "handed_out f c k"
  obtains r f' w' where "rq f (c, k) w = Some (r, f', w')" "r \<noteq> Inr None" "wf_flow f'" "progress c f f'" "keeps f f'"
proof -
  obtain r f' w' where out: "rq f (c, k) w = Some (r, f', w')" "r \<noteq> Inr None"
    using rq_answers [OF assms, of w] unfolding answered_def by blast
  then show thesis using rq_safe [OF assms(1,3) out(1)] that by (auto simp: request_done_def)
qed

lemma select_done:
  assumes w: "wf_flow f" and S: "static f = S" and h: "handed_out f c k"
  shows "round_done c f (route_select e rq f (c, k) w0)"
proof -
  obtain r f' w' where out: "rq f (c, k) w0 = Some (r, f', w')" "wf_flow f'" "progress c f f'" "keeps f f'" and r: "r \<noteq> Inr None"
    using rq_step [OF w S h, of w0] by blast
  have k: "run_keeps f f'" using out keeps_run progress_gotos by blast
  have stop: "run_keeps g (SetCancel (setInterrupted p g))" if "wf_flow g" for g p
    using run_keeps_trans [OF flags_keep(2) [OF that] flags_keep(1)] that by (simp add: wf_flow_flags)
  define f1 where "f1 = route_log e (deref f (c, k)) w0 w' f'"
  have k1: "run_keeps f f1" unfolding f1_def by (rule run_keeps_trans [OF k route_log_keep [OF out(2)]])
  then have "wf_flow f1" by (simp add: run_keeps_def)
  note k2 = run_keeps_trans [OF k1 flags_keep(1) [OF this]]
  have "progress c f f1" "progress c f (SetCancel f1)"
    using out(3) by (simp_all add: progress_def f1_def)
  with k1 k2 stop [OF w] run_keeps_trans [OF k stop [OF out(2)]] show ?thesis
    by (simp add: route_select_def out(1) r Let_def f1_def [symmetric] round_doneI split: select_branch.split)
qed

lemma route_round_done:
  assumes w: "wf_flow f" and S: "static f = S" and h: "handed_out f c k"
  shows "round_done c f (route_round e rq f (c, k) w0)"
proof -
  note self = run_keeps_refl [OF w]
  have jump: "round_done c f (Option.bind (Goto t f) (\<lambda>(ok, f'). Some (ok, f', w0)))" for t
  proof -
    obtain ok f' where g: "Goto t f = Some (ok, f')" "wf_flow f'" "keeps f f'"
      "ok \<longrightarrow> gotos_left f' < gotos_left f" "\<not> ok \<longrightarrow> f' = f" using Goto_done [OF w] by blast
    then show ?thesis using keeps_run [OF g(2,3)] self progressI(1) by (cases ok) (auto intro!: round_doneI)
  qed
  have lim: "round_done c f (route_select e rq (upd_limiter l AddIteration f) (c, k) w0)"
    if "\<not> MaxCount (fl_limiters f ! l)" for l
  proof -
    note U = upd_limiter_keep [OF w h that]
    have "wf_flow (upd_limiter l AddIteration f)" "static (upd_limiter l AddIteration f) = S" using U(1) S by (simp_all add: run_keeps_def)
    from select_done [OF this U(2), of e w0] obtain go f' w' where
      "route_select e rq (upd_limiter l AddIteration f) (c, k) w0 = Some (go, f', w')"
      "run_keeps (upd_limiter l AddIteration f) f'" "go \<longrightarrow> progress c f f'"
      unfolding round_done_def progress_def U(3) flags_budget by blast
    then show ?thesis using run_keeps_trans [OF U(1)] by (simp add: round_doneI)
  qed
  show ?thesis
    using select_done [OF w S h] jump lim self
    by (simp add: route_round_def round_doneI split: option.split)
qed

lemma route_loop_done:
  assumes "wf_flow f" "static f = S"
  shows "\<exists>f' w'. route_loop e rq f w = Some (f', w') \<and> run_keeps f f'"
  using assms
proof (induction "budget f 0" arbitrary: f w rule: wf_induct_rule [OF wf_lex3])
  case (1 f)
  obtain r f1 where n: "NextRequest f = Some (r, f1)" "wf_flow f1" "cursorless f1 = cursorless f"
    "\<And>c k. r = Some (c, k) \<Longrightarrow> handed_out f1 c k \<and> work f1 + weight (fl_nodes f1) c \<le> work f"
    using NextRequest_ok [OF 1(2)] by blast
  have g: "gotos_left f1 = gotos_left f" "whiles_left f1 = whiles_left f"
    using cursorless_sel [OF n(3)] by (simp_all add: gotos_left_def whiles_left_def)
  have k1: "run_keeps f f1" using keeps_run [OF n(2) keeps_cursorless [OF n(3)]] g by simp
  then have S1: "static f1 = S" using 1(3) by (simp add: run_keeps_def)
  show ?case
  proof (cases r)
    case None
    then show ?thesis using n(1) k1 by (subst route_loop.simps) simp
  next
    case (Some p)
    obtain c k where p: "p = (c, k)" by force
    note H = n(4) [of c k]
    obtain go f2 w' where rr: "route_round e rq f1 p w = Some (go, f2, w')" "run_keeps f1 f2"
        "go \<longrightarrow> progress c f1 f2"
      using route_round_done [OF n(2) S1, of c k e w] H Some p by (auto simp: round_done_def)
    have k2: "run_keeps f f2" using k1 rr(2) run_keeps_trans by blast
    have run: "route_loop e rq f w = (if go then route_loop e rq f2 w' else Some (f2, w'))"
      using n(1) Some rr(1) by (subst route_loop.simps) simp
    show ?thesis
    proof (cases go)
      case True
      then have "(budget f2 0, budget f 0) \<in> lex3"
        using rr(3) g H Some p by (auto simp: progress_def budget_def lex3_def)
      moreover have "wf_flow f2" "static f2 = S" using k2 1(3) by (simp_all add: run_keeps_def)
      ultimately obtain f' w2 where "route_loop e rq f2 w' = Some (f', w2)" "run_keeps f2 f'"
        using 1(1) by blast
      then show ?thesis using run_keeps_trans [OF k2] run True by simp
    qed (use run k2 in simp)
  qed
qed

lemma Route_done:
  assumes "wf_flow f" "static f = S"
  shows "\<exists>f' w'. Route e rq f w = Some (f', w') \<and> run_keeps f f'"
proof -
  have "wf_flow (setInterrupted None f)" "static (setInterrupted None f) = S"
    using assms flags_keep(2) [OF assms(1)] by (simp_all add: run_keeps_def)
  from route_loop_done [OF this] run_keeps_trans [OF flags_keep(2) [OF assms(1)]] show ?thesis
    unfolding Route_def by blast
qed

end

text \<open>The applications of the flow package that steer it, alone, are such a provider for every program.\<close>

interpretation steer: answering_provider "Router_Request ids (steering_apps e)" S for ids e S
proof unfold_locales
  fix f c k w
  assume h: "wf_flow f" "handed_out f c k"
  note r = handed_out_request [OF h]
  have "args_ok (fl_nodes f) (length (fl_whiles f)) c (rq_args (deref f (c, k)))" using r(1) by (simp add: request_ok_def)
  from steering_answers [OF h(1) r(3) this] show "answered (Router_Request ids (steering_apps e) f (c, k) w)"
    by (auto simp: Router_Request_def Let_def answered_def split: option.split)
qed

end
