(* ===== verification/Flow_Nested.thy ===== *)
theory Flow_Nested
  imports Flow_Route
begin

text \<open>
  The applications that run another flow: \<open>execute\<close> (\<open>flow/execute.go\<close>), \<open>schema\<close>
  (\<open>flow/schema.go\<close>) and \<open>list\<close> (\<open>flow/list.go\<close>), and the timer of
  \<open>flow/timer.go\<close>.  They call \<open>Route\<close> with the handler they are part of, so the handler
  is defined by the depth of the nesting: \<open>flow_request e d\<close> answers \<open>None\<close>, as a run that
  does not return, where more than \<open>d\<close> runs are nested.  The identifiers of the error for an unknown
  application are those of the chat router; the other routers have their own.
\<close>

section \<open>Runs of a forked flow\<close>

definition cancel_with :: "flow \<Rightarrow> flow \<Rightarrow> flow" where
  "cancel_with child scope = (if fl_cancel child then SetCancel scope else scope)"

text \<open>The synchronous run of a forked flow, as the three applications do it.\<close>

definition run_fork ::
  "'w env \<Rightarrow> (flow \<Rightarrow> reqptr \<Rightarrow> 'w \<Rightarrow> 'w outcome) \<Rightarrow> flow \<Rightarrow> flow \<Rightarrow> response \<Rightarrow> 'w \<Rightarrow> 'w outcome" where
  "run_fork e rq child scope r w =
     Option.bind (Route e rq child w) (\<lambda>(child', w').
       Some (Inr (Some r), cancel_with child' (share_with child' scope), w'))"

definition execute ::
  "'w env \<Rightarrow> (flow \<Rightarrow> reqptr \<Rightarrow> 'w \<Rightarrow> 'w outcome) \<Rightarrow> flow \<Rightarrow> app_args \<Rightarrow> 'w \<Rightarrow> 'w outcome" where
  "execute e rq scope args w =
     (case env_decode_execute e (arg_val args) w of
        Inl err \<Rightarrow> Some (Inl err, scope, w)
      | Inr (name, async) \<Rightarrow>
          if name = [] then Some (Inl (ErrorRequiredParameter ''execute'' ''name''), scope, w)
          else case FunctionScope name scope of
            Inl err \<Rightarrow> Some (Inl err, scope, w)
          | Inr fnScope \<Rightarrow>
              (let scope1 = share_with fnScope scope
               in if async then
                    (let (c, w') = env_spawn e fnScope w
                     in Some (Inr (Some ResponseOK), if c then SetCancel scope1 else scope1, w'))
                  else run_fork e rq fnScope scope1 ResponseOK w))"

definition schema ::
  "'w env \<Rightarrow> (flow \<Rightarrow> reqptr \<Rightarrow> 'w \<Rightarrow> 'w outcome) \<Rightarrow> flow \<Rightarrow> app_args \<Rightarrow> 'w \<Rightarrow> 'w outcome" where
  "schema e rq scope args w =
     (case env_decode_schema e (arg_val args) w of
        Inl err \<Rightarrow> Some (Inl err, scope, w)
      | Inr (sid, async) \<Rightarrow>
          (case env_schema e sid w of
             Inl err \<Rightarrow> Some (Inl err, scope, w)
           | Inr (name, apps) \<Rightarrow>
               (let parent = Fork name apps scope;
                    scope1 = share_with parent scope
                in if async then Some (Inr (Some ResponseOK), scope1, snd (env_spawn e parent w))
                   else run_fork e rq parent scope1 ResponseOK w)))"

text \<open>The deprecated places of the list's id and name; the check still is given the name there.\<close>

definition list_fallback :: "list_args \<Rightarrow> list_args" where
  "list_fallback argv =
     (let argv1 = (if la_List_Id argv = None \<and> la_Id argv \<noteq> None
                   then argv\<lparr>la_List_Id := la_Id argv\<rparr> else argv)
      in if la_List_Name argv1 = None \<and> la_Name argv1 \<noteq> None
         then argv1\<lparr>la_List_Name := la_Name argv1\<rparr> else argv1)"

definition List_handler ::
  "'w env \<Rightarrow> (flow \<Rightarrow> reqptr \<Rightarrow> 'w \<Rightarrow> 'w outcome) \<Rightarrow> flow \<Rightarrow> app_args \<Rightarrow> 'w \<Rightarrow> 'w outcome" where
  "List_handler e rq scope args w =
     (case env_decode_list e (arg_val args) w of
        Inl err \<Rightarrow> Some (Inl err, scope, w)
      | Inr argv0 \<Rightarrow>
          if la_Actions argv0 = [] then Some (Inl (ErrorRequiredParameter ''list'' ''actions''), scope, w)
          else
            (let argv = list_fallback argv0
             in case env_list_check e (la_Destination argv) (la_List_Id argv) (la_Name argv) w of
                  Inl err \<Rightarrow> Some (Inl err, scope, w)
                | Inr exists \<Rightarrow>
                    if exists then
                      (let scope2 = Fork ''list'' (ArrInterfaceToArrayApplication (la_Actions argv)) scope
                       in run_fork e rq scope2 (share_with scope2 scope) CallResponseOK w)
                    else Some (Inr (Some CallResponseOK), scope, w)))"

definition nested_apps ::
  "'w env \<Rightarrow> (flow \<Rightarrow> reqptr \<Rightarrow> 'w \<Rightarrow> 'w outcome) \<Rightarrow> string \<Rightarrow> (flow \<Rightarrow> app_args \<Rightarrow> 'w \<Rightarrow> 'w outcome) option" where
  "nested_apps e rq = [''execute'' \<mapsto> execute e rq, ''schema'' \<mapsto> schema e rq, ''list'' \<mapsto> List_handler e rq]"

fun flow_request :: "'w env \<Rightarrow> nat \<Rightarrow> flow \<Rightarrow> reqptr \<Rightarrow> 'w \<Rightarrow> 'w outcome" where
  "flow_request e 0 = (\<lambda>scope p w. None)"
| "flow_request e (Suc d) =
     Router_Request (''Chat.Request'', ''chat.request.not_found'')
       (UnionApplicationMap [steering_apps e, nested_apps e (flow_request e d), other_apps e])"

section \<open>The timer\<close>

record timer_args =
  tm_Name :: string
  tm_Interval :: int
  tm_Tries :: int
  tm_Offset :: int
  tm_Actions :: "goval list"

text \<open>The loop of \<open>Timer\<close> with the flow it repeats; it ends by the count of the tries.\<close>

function timer_loop ::
  "'w env \<Rightarrow> (flow \<Rightarrow> reqptr \<Rightarrow> 'w \<Rightarrow> 'w outcome) \<Rightarrow> timer_args \<Rightarrow> int \<Rightarrow> int \<Rightarrow> flow \<Rightarrow> 'w \<Rightarrow> (int \<times> flow \<times> 'w) option" where
  "timer_loop e rq t tries interval f w =
     (case env_timer e interval w of
        (False, w1) \<Rightarrow> Some (tries, f, w1)
      | (True, w1) \<Rightarrow>
          (case Route e rq f w1 of
             None \<Rightarrow> None
           | Some (f', w2) \<Rightarrow>
               if tries + 1 \<ge> tm_Tries t \<or> interval + tm_Offset t < 1 then Some (tries + 1, f', w2)
               else timer_loop e rq t (tries + 1) (interval + tm_Offset t) (Reset f') w2))"
  by pat_completeness auto
termination
  by (relation "measure (\<lambda>(e, rq, t, tries, interval, f, w). nat (tm_Tries t - tries))") auto

declare timer_loop.simps [simp del]

text \<open>The result: how often the actions ran, the repeated flow and the world.\<close>

definition Timer ::
  "'w env \<Rightarrow> (flow \<Rightarrow> reqptr \<Rightarrow> 'w \<Rightarrow> 'w outcome) \<Rightarrow> flow \<Rightarrow> timer_args \<Rightarrow> 'w \<Rightarrow> (int \<times> flow \<times> 'w) option" where
  "Timer e rq scope t w =
     (if tm_Interval t = 0 then Some (0, scope, w)
      else (let t' = (if tm_Tries t = 0 then t\<lparr>tm_Tries := 999\<rparr> else t)
            in timer_loop e rq t' 0 (tm_Interval t')
                 (Fork (tm_Name t') (ArrInterfaceToArrayApplication (tm_Actions t')) scope) w))"

section \<open>Runs that return\<close>

text \<open>
  A provider that answers more often lets \<open>Route\<close> return the same.  The responses themselves are
  only printed, so it may also answer a nil response with something else.
\<close>

definition answers_more ::
  "(flow \<Rightarrow> reqptr \<Rightarrow> 'w \<Rightarrow> 'w outcome) \<Rightarrow> (flow \<Rightarrow> reqptr \<Rightarrow> 'w \<Rightarrow> 'w outcome) \<Rightarrow> bool" where
  "answers_more rq rq' = (\<forall>f p w r f' w'. rq f p w = Some (r, f', w') \<longrightarrow>
     (\<exists>r'. rq' f p w = Some (r', f', w') \<and> (r \<noteq> Inr None \<longrightarrow> r' = r)))"

lemma answers_moreD:
  assumes "answers_more rq rq'" "rq f p w = Some (r, f', w')"
  obtains r' where "rq' f p w = Some (r', f', w')" "r \<noteq> Inr None \<longrightarrow> r' = r"
  using assms unfolding answers_more_def by blast

lemma answers_moreI: "(\<And>f p w out. rq f p w = Some out \<Longrightarrow> rq' f p w = Some out) \<Longrightarrow> answers_more rq rq'"
  by (auto simp: answers_more_def)

lemma route_select_mono:
  assumes "answers_more rq rq'" "route_select e rq f p w = Some x"
  shows "route_select e rq' f p w = Some x"
proof (cases "rq f p w")
  case None
  then show ?thesis using assms(2) by (simp add: route_select_def Let_def split: select_branch.splits)
next
  case (Some out)
  then obtain r f' w' where out: "rq f p w = Some (r, f', w')" by (metis prod_cases3)
  obtain r' where "rq' f p w = Some (r', f', w')" "r \<noteq> Inr None \<longrightarrow> r' = r" using answers_moreD [OF assms(1) out] .
  then show ?thesis
    using assms(2) out by (cases "env_select e w") (auto simp: route_select_def Let_def split: if_splits)
qed

lemma route_round_mono:
  assumes m: "answers_more rq rq'" and r: "route_round e rq f p w = Some x"
  shows "route_round e rq' f p w = Some x"
  using r by (cases "rq_limiter (deref f p)")
    (simp_all add: route_round_def route_select_mono [OF m] split: if_splits)

lemma route_loop_mono:
  assumes m: "answers_more rq rq'"
    and r: "route_loop e rq f w = Some x"
  shows "route_loop e rq' f w = Some x"
proof -
  let ?P = "\<lambda>e r f w x. r = rq \<longrightarrow> route_loop e rq' f w = Some x"
  have "?P e rq f w x"
  proof (rule route_loop.raw_induct [where P = ?P, OF _ r])
    fix loop e r f w x
    assume ih: "\<And>e r f w x. loop e r f w = Some x \<Longrightarrow> ?P e r f w x"
      and out: "Option.bind (NextRequest f) (\<lambda>(q, f1).
        (case q of None \<Rightarrow> Some (f1, w)
         | Some p \<Rightarrow> Option.bind (route_round e r f1 p w) (\<lambda>(go, f2, w').
             if go then loop e r f2 w' else Some (f2, w')))) = Some x"
    from out obtain q f1 where n: "NextRequest f = Some (q, f1)"
      by (auto simp: bind_eq_Some_conv)
    show "?P e r f w x"
    proof (cases q)
      case None
      then show ?thesis using out n by (subst route_loop.simps) simp
    next
      case (Some p)
      from out n Some obtain go f2 w' where rr: "route_round e r f1 p w = Some (go, f2, w')"
        and rest: "(if go then loop e r f2 w' else Some (f2, w')) = Some x"
        by (auto simp: bind_eq_Some_conv)
      have "r = rq \<longrightarrow> (if go then route_loop e rq' f2 w' else Some (f2, w')) = Some x"
        using rest ih by (auto split: if_splits)
      moreover have "r = rq \<longrightarrow> route_round e rq' f1 p w = Some (go, f2, w')"
        using route_round_mono [OF m] rr by blast
      ultimately show ?thesis using n Some by (subst route_loop.simps) auto
    qed
  qed
  then show ?thesis by simp
qed

lemma Route_mono: "answers_more rq rq' \<Longrightarrow> Route e rq f w = Some x \<Longrightarrow> Route e rq' f w = Some x"
  unfolding Route_def by (rule route_loop_mono)

text \<open>
  Giving a provider an error to answer where it does not return, or returns nil, makes it an
  answering one, so the laws of the engine carry over to the runs that return.
\<close>

definition totalise ::
  "(flow \<Rightarrow> reqptr \<Rightarrow> 'w \<Rightarrow> 'w outcome) \<Rightarrow> flow \<Rightarrow> reqptr \<Rightarrow> 'w \<Rightarrow> 'w outcome" where
  "totalise rq f p w = (case rq f p w of
     None \<Rightarrow> Some (Inl (NewInternalError [] []), f, w)
   | Some (r, f', w') \<Rightarrow> Some (if r = Inr None then Inl (NewInternalError [] []) else r, f', w'))"

lemma totalise_more: "answers_more rq (totalise rq)"
  by (auto simp: answers_more_def totalise_def)

context request_provider
begin

lemma total_answering: "answering_provider (totalise rq) S"
proof unfold_locales
  fix f c k w out
  assume h: "wf_flow f" "handed_out f c k" and out: "totalise rq f (c, k) w = Some out"
  show "request_done c f (Some out)"
  proof (cases "rq f (c, k) w")
    case None
    then show ?thesis using out h progress_same by (auto simp: totalise_def intro!: request_doneI)
  next
    case (Some o')
    then show ?thesis using rq_safe [OF h Some] out by (auto simp: totalise_def request_done_def)
  qed
next
  fix f c k w
  show "answered (totalise rq f (c, k) w)"
    by (auto simp: answered_def totalise_def split: option.split prod.split)
qed

lemma Route_safe:
  assumes "wf_flow f" "Route e rq f w = Some (f', w')"
  shows "run_keeps f f'"
  using answering_provider.Route_done [OF total_answering assms(1) refl, of e w] Route_mono [OF totalise_more assms(2)] by auto

lemma round_safe:
  assumes "wf_flow f" "handed_out f c k" "route_round e rq f (c, k) w = Some (go, f', w')"
  shows "run_keeps f f'"
  using answering_provider.route_round_done [OF total_answering assms(1) refl assms(2), of e w] route_round_mono [OF totalise_more assms(3)]
  by (auto simp: round_done_def)

lemma Route_ended:
  assumes "wf_flow f" "Route e rq f w = Some (f', w')"
  shows "ended f'"
proof (rule route_loop_rule [where I = "\<lambda>f _. wf_flow f" and Q = "\<lambda>f _. ended f", OF assms(2) [unfolded Route_def]])
  show "wf_flow (setInterrupted None f)" using assms(1) by (simp add: wf_flow_flags)
next
  fix f f1 assume "wf_flow f" "NextRequest f = Some (None, f1)"
  then show "ended f1" using NextRequest_end by (simp add: ended_def)
next
  fix f w p f1 go f2 w2
  assume w: "wf_flow f" and n: "NextRequest f = Some (Some p, f1)" and r: "route_round e rq f1 p w = Some (go, f2, w2)"
  obtain c k where p: "p = (c, k)" by force
  have h: "wf_flow f1" "handed_out f1 c k" using NextRequest_ok [OF w] n p by auto
  have "wf_flow f2" using round_safe [OF h r [unfolded p]] by (simp add: run_keeps_def)
  moreover have "\<not> go \<Longrightarrow> ended f2" using route_round_end [OF h, of e rq w f2 w2] r p by (auto simp: ended_def)
  ultimately show "if go then wf_flow f2 else ended f2" by simp
qed

text \<open>A run whose requests are all answered returns.\<close>

lemma Route_returns:
  assumes "wf_flow f" "\<And>g c k w. \<lbrakk>wf_flow g; static g = static f; handed_out g c k\<rbrakk> \<Longrightarrow> answered (rq g (c, k) w)"
  shows "\<exists>f' w'. Route e rq f w = Some (f', w') \<and> run_keeps f f' \<and> ended f'"
proof -
  have "answering_provider rq (static f)" by unfold_locales (rule assms(2))
  from answering_provider.Route_done [OF this assms(1) refl] show ?thesis using Route_ended [OF assms(1)] by blast
qed

end

text \<open>The nested applications meet the contract whenever they return.\<close>

lemma share_done: "wf_flow f \<Longrightarrow> request_done c f (Some (r, share_with g f, w))"
  and share_cancel_done: "wf_flow f \<Longrightarrow> request_done c f (Some (r, SetCancel (share_with g f), w))"
proof -
  let ?s = "share_with g f"
  have st: "static ?s = static f" "static (SetCancel ?s) = static f"
    by (simp_all add: static_def share_with_def SetCancel_def)
  assume w: "wf_flow f"
  have "wf_flow ?s" by (rule wf_flowI [OF w st(1)]) (use w in \<open>simp add: wf_flow_def wf_dyn_def share_with_def\<close>)
  moreover have "progress c f ?s" "progress c f (SetCancel ?s)"
    by (rule progressI(3); simp add: gotos_left_def whiles_left_def work_def share_with_def SetCancel_def)+
  moreover have "keeps f ?s" "keeps f (SetCancel ?s)"
    using st by (simp_all add: keeps_def counted_def) (simp_all add: share_with_def SetCancel_def)
  ultimately show "request_done c f (Some (r, ?s, w))" "request_done c f (Some (r, SetCancel ?s, w))"
    by (simp_all add: request_doneI wf_flow_flags)
qed

lemma share_twice [simp]: "share_with g (share_with h f) = share_with g f"
  by (simp add: share_with_def)

lemma cancel_with_done: "wf_flow f \<Longrightarrow> request_done c f (Some (r, cancel_with g (share_with h f), w))"
  by (simp add: cancel_with_def share_done share_cancel_done)

lemma run_fork_done:
  "wf_flow f \<Longrightarrow> run_fork e rq child (share_with h f) r w = Some out \<Longrightarrow> request_done c f (Some out)"
  by (auto simp: run_fork_def bind_eq_Some_conv cancel_with_done)

lemma self_done: "wf_flow f \<Longrightarrow> request_done c f (Some (r, f, w))"
  by (simp add: request_doneI progress_same)

lemma nested_done:
  assumes w: "wf_flow f" and h: "nested_apps e rq name = Some h" "h f a w0 = Some out"
  shows "request_done c f (Some out)"
proof -
  have "h \<in> {execute e rq, schema e rq, List_handler e rq}"
    using h(1) by (simp add: nested_apps_def split: if_splits)
  then show ?thesis
    using h(2) share_done [OF w] share_cancel_done [OF w] self_done [OF w]
    by (auto simp: execute_def schema_def List_handler_def Let_def dest!: run_fork_done [OF w]
        split: sum.splits if_splits prod.splits)
qed

lemma union3_Some:
  "UnionApplicationMap [a, b, c] nm = Some h \<longleftrightarrow>
     c nm = Some h \<or> c nm = None \<and> b nm = Some h \<or> c nm = None \<and> b nm = None \<and> a nm = Some h"
  unfolding UnionApplicationMap_def by (simp add: map_add_Some_iff) blast

lemma union3_None: "UnionApplicationMap [a, b, c] nm = None \<longleftrightarrow> a nm = None \<and> b nm = None \<and> c nm = None"
  unfolding UnionApplicationMap_def by (simp add: map_add_None) blast

lemma applications_nested: "applications (nested_apps e rq)"
  by unfold_locales (rule nested_done)

interpretation nested_map: applications "nested_apps e rq" for e rq
  by (rule applications_nested)

lemma flow_request_provider: "request_provider (flow_request e d)"
proof (cases d)
  case 0
  then show ?thesis by (simp add: request_provider_def)
next
  case (Suc n)
  have "applications (UnionApplicationMap [steering_apps e, nested_apps e (flow_request e n), other_apps e])"
    by (rule UnionApplicationMap_applications) (simp add: applications_steering applications_nested applications_other)
  then show ?thesis unfolding Suc flow_request.simps by (rule Router_Request_provider)
qed

interpretation nested: request_provider "flow_request e d" for e d
  by (rule flow_request_provider)

text \<open>A deeper bound on the nesting only adds answers.\<close>

lemma run_fork_mono:
  assumes "answers_more rq rq'" "run_fork e rq g f r w = Some out"
  shows "run_fork e rq' g f r w = Some out"
  using assms Route_mono by (cases "Route e rq g w") (fastforce simp: run_fork_def)+

lemma nested_apps_mono:
  assumes m: "answers_more rq rq'" and h: "nested_apps e rq name = Some h" "h f a w = Some out"
  shows "\<exists>h'. nested_apps e rq' name = Some h' \<and> h' f a w = Some out"
proof -
  note B = run_fork_mono [OF m]
  have "execute e rq f a w = Some out \<Longrightarrow> execute e rq' f a w = Some out"
    by (cases "env_decode_execute e (arg_val a) w") (auto simp: execute_def Let_def B split: sum.splits if_splits)
  moreover have "schema e rq f a w = Some out \<Longrightarrow> schema e rq' f a w = Some out"
    by (cases "env_decode_schema e (arg_val a) w") (auto simp: schema_def Let_def B split: sum.splits if_splits)
  moreover have "List_handler e rq f a w = Some out \<Longrightarrow> List_handler e rq' f a w = Some out"
    by (cases "env_decode_list e (arg_val a) w") (auto simp: List_handler_def Let_def B split: sum.splits if_splits)
  ultimately show ?thesis using h by (auto simp: nested_apps_def split: if_splits)
qed

lemma Router_Request_mono:
  assumes "\<And>h. apps (rq_name (deref f p)) = Some h \<Longrightarrow> h f (rq_args (deref f p)) w = Some out \<Longrightarrow>
     \<exists>h'. apps' (rq_name (deref f p)) = Some h' \<and> h' f (rq_args (deref f p)) w = Some out"
    "apps (rq_name (deref f p)) = None \<Longrightarrow> apps' (rq_name (deref f p)) = None"
    "Router_Request ids apps f p w = Some out"
  shows "Router_Request ids apps' f p w = Some out"
  using assms by (auto simp: Router_Request_def Let_def split: option.splits)

lemma flow_request_mono: "answers_more (flow_request e d) (flow_request e (Suc d))"
proof (induction d)
  case 0
  show ?case by (simp add: answers_more_def)
next
  case (Suc d)
  let ?a = "\<lambda>n. UnionApplicationMap [steering_apps e, nested_apps e (flow_request e n), other_apps e]"
  have dom: "nested_apps e rq name = None \<longleftrightarrow> nested_apps e rq' name = None" for rq rq' name
    by (simp add: nested_apps_def)
  show ?case
  proof (rule answers_moreI)
    fix f p w out
    assume "flow_request e (Suc d) f p w = Some out"
    then have "Router_Request (''Chat.Request'', ''chat.request.not_found'') (?a d) f p w = Some out"
      by simp
    then have "Router_Request (''Chat.Request'', ''chat.request.not_found'') (?a (Suc d)) f p w = Some out"
    proof (rule Router_Request_mono [rotated 2])
      fix h
      let ?nm = "rq_name (deref f p)"
      assume h: "?a d ?nm = Some h" "h f (rq_args (deref f p)) w = Some out"
      show "\<exists>h'. ?a (Suc d) ?nm = Some h' \<and> h' f (rq_args (deref f p)) w = Some out"
      proof (cases "other_apps e ?nm = None \<and> nested_apps e (flow_request e d) ?nm = Some h")
        case True
        then show ?thesis
          using nested_apps_mono [OF Suc conjunct2 [OF True] h(2)] unfolding union3_Some by blast
      next
        case False
        then have "?a (Suc d) ?nm = Some h"
          using h(1) dom [of "flow_request e d" ?nm "flow_request e (Suc d)"] unfolding union3_Some by blast
        then show ?thesis using h(2) by blast
      qed
    next
      assume "?a d (rq_name (deref f p)) = None"
      then show "?a (Suc d) (rq_name (deref f p)) = None"
        using dom [of "flow_request e d" _ "flow_request e (Suc d)"]
        unfolding union3_None by blast
    qed
    then show "flow_request e (Suc (Suc d)) f p w = Some out" by simp
  qed
qed

section \<open>The timer ends\<close>

lemma Reset_ok:
  assumes "wf_flow f"
  shows "wf_flow (Reset f)" "\<not> fl_cancel (Reset f)"
proof -
  have "wf_flow (upd_node (fl_currentNode f) setFirst f)" using assms by (simp add: wf_flow_setFirst wf_flow_cur)
  then show "wf_flow (Reset f)"
    using wf_flow_flags(4) [of "upd_node (fl_currentNode f) setFirst f"] by (simp add: Reset_def ClearCancel_def)
  show "\<not> fl_cancel (Reset f)" by (simp add: Reset_def)
qed

lemma Reset_again:
  assumes "at_start f" "\<not> fl_cancel f"
  shows "Reset f = f"
proof -
  have "setFirst (cur_node f) = cur_node f" using assms(1) by (simp add: at_start_def setFirst_def)
  then have "upd_node (fl_currentNode f) setFirst f = f" by (simp add: upd_node_def cur_node_def [symmetric])
      (simp add: cur_node_def)
  then show ?thesis using assms(2) by (simp add: Reset_def)
qed

lemma timer_loop_done:
  assumes "wf_flow f" and "\<And>f w. wf_flow f \<Longrightarrow> \<exists>f' w'. Route e rq f w = Some (f', w') \<and> wf_flow f'"
  shows "\<exists>n f' w'. timer_loop e rq t tries interval f w = Some (n, f', w') \<and> wf_flow f' \<and>
     tries \<le> n \<and> n \<le> max (tries + 1) (tm_Tries t)"
  using assms
proof (induction e rq t tries interval f w rule: timer_loop.induct)
  case (1 e rq t tries interval f w)
  obtain fired w1 where tm: "env_timer e interval w = (fired, w1)" by force
  obtain f' w2 where r: "Route e rq f w1 = Some (f', w2)" "wf_flow f'" using 1(3) [OF 1(2), of w1] by blast
  let ?stop = "tries + 1 \<ge> tm_Tries t \<or> interval + tm_Offset t < 1"
  show ?case
  proof (cases "fired \<and> \<not> ?stop")
    case False
    then show ?thesis using tm r 1(2) by (subst timer_loop.simps) (auto split: bool.split)
  next
    case True
    then have "timer_loop e rq t tries interval f w =
        timer_loop e rq t (tries + 1) (interval + tm_Offset t) (Reset f') w2"
      using tm r by (subst timer_loop.simps) auto
    moreover have "\<exists>n g w'. timer_loop e rq t (tries + 1) (interval + tm_Offset t) (Reset f') w2 = Some (n, g, w') \<and>
        wf_flow g \<and> tries + 1 \<le> n \<and> n \<le> max (tries + 1 + 1) (tm_Tries t)"
      using 1(1) [of True w1 "(f', w2)" f' w2] tm r True Reset_ok(1) [OF r(2)] 1(3) by auto
    ultimately show ?thesis using True by force
  qed
qed

lemma Timer_done:
  assumes "\<And>f w. wf_flow f \<Longrightarrow> \<exists>f' w'. Route e rq f w = Some (f', w') \<and> wf_flow f'" "tm_Interval t \<noteq> 0"
  shows "\<exists>n f' w'. Timer e rq scope t w = Some (n, f', w') \<and> wf_flow f' \<and>
     0 \<le> n \<and> n \<le> (if tm_Tries t = 0 then 999 else max 1 (tm_Tries t))"
proof -
  define t' where "t' = (if tm_Tries t = 0 then t\<lparr>tm_Tries := 999\<rparr> else t)"
  have "Timer e rq scope t w = timer_loop e rq t' 0 (tm_Interval t')
      (Fork (tm_Name t') (ArrInterfaceToArrayApplication (tm_Actions t')) scope) w"
    unfolding Timer_def t'_def Let_def using assms(2) by simp
  moreover have "max 1 (tm_Tries t') = (if tm_Tries t = 0 then 999 else max 1 (tm_Tries t))"
    by (simp add: t'_def)
  ultimately show ?thesis
    using timer_loop_done [OF Fork_wf assms(1), where t = t' and tries = 0 and interval = "tm_Interval t'" and w = w] by auto
qed

end
