(* ===== verification/Flow_Seq.thy ===== *)
theory Flow_Seq
  imports Flow_Nested
begin

text \<open>
  A schema that only lists applications is run like a list: parsing puts the requests side by
  side below the root and \<open>Route\<close> calls each application once, in order, whatever errors
  they return, until one cancels the flow, does not return, or answers with nil.  The reference is a
  recursion over the schema.
\<close>

section \<open>Reference\<close>

definition app_effect :: "'w env \<Rightarrow> string \<Rightarrow> app_args \<Rightarrow> shared \<Rightarrow> 'w \<Rightarrow> (bool \<times> shared \<times> 'w) option" where
  "app_effect e name a s w =
     (case env_app e name of
        None \<Rightarrow> Some (False, s, w)
      | Some h \<Rightarrow> Option.bind (h s a w) (\<lambda>(r, cancel, s', w'). if r = Inr None then None else Some (cancel, s', w')))"

fun run_list :: "'w env \<Rightarrow> (string \<times> goval) list \<Rightarrow> shared \<Rightarrow> 'w \<Rightarrow> (shared \<times> 'w) option" where
  "run_list e [] s w = Some (s, w)"
| "run_list e ((name, v) # as) s w =
     Option.bind (app_effect e name (ArgVal (app_value v)) s w) (\<lambda>(cancel, s', w').
       if cancel then Some (s', w') else run_list e as s' w')"

definition reserved :: "string set" where
  "reserved = {[], ''if'', ''while'', ''function'', ''trigger'', ''switch'', ''break'', ''goto'',
     ''_id'', ''async'', ''tag'', ''limit'', ''trace''}"

text \<open>The applications that run other flows.\<close>

definition nested_names :: "string set" where
  "nested_names = {''execute'', ''schema'', ''list''}"

section \<open>Requests without control\<close>

definition plain :: "app_request \<Rightarrow> bool" where
  "plain r = (rq_name r \<notin> reserved \<union> nested_names \<and> rq_limiter r = None \<and> rq_flags r = 0)"

fun run_requests :: "'w env \<Rightarrow> app_request list \<Rightarrow> shared \<Rightarrow> 'w \<Rightarrow> (shared \<times> 'w) option" where
  "run_requests e [] s w = Some (s, w)"
| "run_requests e (r # rs) s w =
     Option.bind (app_effect e (rq_name r) (rq_args r) s w) (\<lambda>(cancel, s', w').
       if cancel then Some (s', w') else run_requests e rs s' w')"

lemma steering_reserved: "name \<notin> reserved \<Longrightarrow> steering_apps e name = None"
  by (auto simp: steering_apps_def reserved_def)

lemma nested_reserved: "name \<notin> nested_names \<Longrightarrow> nested_apps e rq name = None"
  by (auto simp: nested_apps_def nested_names_def)

lemma left_by_self: "left_by False (shared_of f) f = f"
  by (simp add: left_by_def shared_of_def Let_def)

lemma request_plain:
  assumes "rq_name (deref f p) \<notin> reserved \<union> nested_names"
  shows "case flow_request e (Suc d) f p w of
      None \<Rightarrow> app_effect e (rq_name (deref f p)) (rq_args (deref f p)) (shared_of f) w = None
    | Some (r, f', w') \<Rightarrow> (if r = Inr None then app_effect e (rq_name (deref f p)) (rq_args (deref f p)) (shared_of f) w = None
        else \<exists>b s. app_effect e (rq_name (deref f p)) (rq_args (deref f p)) (shared_of f) w = Some (b, s, w') \<and> f' = left_by b s f)"
proof -
  let ?nm = "rq_name (deref f p)"
  have u: "UnionApplicationMap [steering_apps e, nested_apps e (flow_request e d), other_apps e] ?nm = other_apps e ?nm"
    using assms steering_reserved [of ?nm e] nested_reserved [of ?nm e "flow_request e d"]
    by (simp add: UnionApplicationMap_def map_add_def split: option.split)
  show ?thesis
  proof (cases "env_app e ?nm")
    case None
    then show ?thesis using u by (simp add: Router_Request_def Let_def other_apps_def app_effect_def left_by_self) (metis left_by_self)
  next
    case (Some h)
    then show ?thesis using u
      by (cases "h (shared_of f) (rq_args (deref f p)) w") (auto simp: Router_Request_def Let_def other_apps_def app_effect_def)
  qed
qed

lemma request_IsCancel_0: "rq_flags r = 0 \<Longrightarrow> \<not> request_IsCancel r"
  by (simp add: request_IsCancel_def ApplicationFlagBreakEnabled_def)

lemma route_log_sel [simp]:
  "fl_nodes (route_log e r w w' f) = fl_nodes f" "fl_currentNode (route_log e r w w' f) = fl_currentNode f"
  "fl_cancel (route_log e r w w' f) = fl_cancel f" "cur_node (route_log e r w w' f) = cur_node f"
  "shared_of (route_log e r w w' f) = shared_of f"
  by (simp_all add: route_log_def PushSteepLog_def cur_node_def shared_of_def split: option.split)

lemma route_round_plain:
  assumes "\<not> fl_cancel f" "plain (deref f p)" "env_select e w = ResultFirst"
  shows "route_round e (flow_request e (Suc d)) f p w =
     map_option (\<lambda>(b, s, w'). (\<not> b, route_log e (deref f p) w w' (left_by b s f), w'))
       (app_effect e (rq_name (deref f p)) (rq_args (deref f p)) (shared_of f) w)"
proof -
  have "rq_name (deref f p) \<notin> reserved \<union> nested_names" "\<not> request_IsCancel (deref f p)" "rq_limiter (deref f p) = None"
    using assms(2) request_IsCancel_0 by (simp_all add: plain_def)
  then show ?thesis
    using request_plain [of f p e w d] assms(1,3)
    by (cases "flow_request e (Suc d) f p w"; cases "app_effect e (rq_name (deref f p)) (rq_args (deref f p)) (shared_of f) w")
       (auto simp del: flow_request.simps simp: route_round_def route_select_def Let_def split: if_splits)
qed

lemma route_loop_plain:
  assumes "wf_flow f" "bn_parent (cur_node f) = None" "\<not> fl_cancel f"
    "list_all plain (drop (nd_position (cur_node f)) (nd_children (cur_node f)))"
    and sel: "\<And>w. env_select e w = ResultFirst"
  shows "\<exists>f'. route_loop e (flow_request e (Suc d)) f w =
     map_option (\<lambda>(s, w'). (f', w')) (run_requests e (drop (nd_position (cur_node f)) (nd_children (cur_node f))) (shared_of f) w)"
  using assms(1-4)
proof (induction "length (nd_children (cur_node f)) - nd_position (cur_node f)" arbitrary: f w rule: less_induct)
  case less
  let ?n = "fl_currentNode f" and ?k = "nd_position (cur_node f)" and ?ch = "nd_children (cur_node f)"
  obtain r0 where prev: "setPreviousRequest f = Some (f\<lparr>fl_prevRequest := r0\<rparr>)"
    using setPreviousRequest_ok [OF less.prems(1)] by blast
  show ?case
  proof (cases "?k < length ?ch")
    case False
    then show ?thesis
      using NextRequest_climb [OF less.prems(1) prev refl False] less.prems(2) by (subst route_loop.simps) simp
  next
    case True
    define f1 where "f1 = upd_node ?n (\<lambda>m. m\<lparr>nd_position := Suc ?k\<rparr>) (f\<lparr>fl_prevRequest := r0\<rparr>)"
    note T = NextRequest_take [OF less.prems(1) prev refl refl True, folded f1_def]
    let ?r = "?ch ! ?k"
    have c: "?n < length (fl_nodes f)" using less.prems(1) by (rule wf_flow_cur)
    have f1: "deref f1 (?n, ?k) = ?r" "\<not> fl_cancel f1" "fl_currentNode f1 = ?n" "shared_of f1 = shared_of f"
        "cur_node f1 = (cur_node f)\<lparr>nd_position := Suc ?k\<rparr>"
      using c less.prems(3) by (simp_all add: f1_def upd_node_def cur_node_def deref_def shared_of_def)
    have d: "drop ?k ?ch = ?r # drop (Suc ?k) ?ch" using True by (rule Cons_nth_drop_Suc [symmetric])
    then have pl: "plain ?r" "list_all plain (drop (Suc ?k) ?ch)" using less.prems(4) by simp_all
    note R = route_round_plain [of f1 "(?n, ?k)" e w, OF f1(2) _ sel, unfolded f1(1,4), OF pl(1)]
    show ?thesis
    proof (cases "app_effect e (rq_name ?r) (rq_args ?r) (shared_of f) w")
      case None
      then show ?thesis using T(1) R d by (subst route_loop.simps) (simp del: flow_request.simps)
    next
      case (Some x)
      obtain b s w' where x: "x = (b, s, w')" by (rule prod_cases3)
      define f2 where "f2 = route_log e ?r w w' (left_by b s f1)"
      have rr: "route_round e (flow_request e (Suc d)) f1 (?n, ?k) w = Some (\<not> b, f2, w')"
        using R Some x by (simp del: flow_request.simps add: f2_def)
      show ?thesis
      proof (cases b)
        case True
        then show ?thesis using T(1) rr Some x d by (subst route_loop.simps) (auto simp del: flow_request.simps)
      next
        case False
        have "wf_flow (left_by b s f1)" using left_by_done [OF T(2)] by (auto simp: request_done_def)
        then have "wf_flow f2" using route_log_keep [of "left_by b s f1" e ?r w w'] by (simp add: f2_def run_keeps_def)
        moreover have "length ?ch - Suc ?k < length ?ch - ?k" using True by arith
        ultimately obtain f' where "route_loop e (flow_request e (Suc d)) f2 w' =
            map_option (\<lambda>(s, w'). (f', w')) (run_requests e (drop (Suc ?k) ?ch) s w')"
          using less.hyps [of f2 w'] less.prems(2) pl(2) f1 False by (auto simp del: flow_request.simps simp: f2_def)
        then show ?thesis
          using T(1) rr d Some x False by (subst route_loop.simps) (auto simp del: flow_request.simps)
      qed
    qed
  qed
qed

lemma Route_plain:
  assumes "wf_flow f" "at_start f" "\<not> fl_cancel f" "list_all plain (nd_children (cur_node f))"
    and sel: "\<And>w. env_select e w = ResultFirst"
  shows "\<exists>f'. Route e (flow_request e (Suc d)) f w =
     map_option (\<lambda>(s, w'). (f', w')) (run_requests e (nd_children (cur_node f)) (shared_of f) w)"
proof -
  let ?f = "setInterrupted None f"
  have "wf_flow ?f" "bn_parent (cur_node ?f) = None" "\<not> fl_cancel ?f" "cur_node ?f = cur_node f" "shared_of ?f = shared_of f"
    using assms(1-3) by (simp_all add: wf_flow_flags, simp_all add: setInterrupted_def cur_node_def at_start_def shared_of_def)
  from route_loop_plain [OF this(1-3) _ sel, where d = d and w = w] this(4,5) assms(2,4) show ?thesis
    unfolding Route_def by (simp del: flow_request.simps add: at_start_def)
qed

section \<open>Parsing a list\<close>

definition app_list :: "(string \<times> goval) list \<Rightarrow> applications" where
  "app_list as = map (\<lambda>a. [a]) as"

definition plain_request :: "string \<times> goval \<Rightarrow> app_request" where
  "plain_request a = zero_request\<lparr>rq_name := fst a,
     rq_args := ArgVal (app_value (snd a))\<rparr>"

lemma parseReq_single: "fst a \<notin> reserved \<Longrightarrow> parseReq [a] ls = (plain_request a, ls)"
  by (cases a) (auto simp: parseReq_def parseReq_field_def reserved_def Let_def zero_request_def plain_request_def)

lemma parseFlowArray_single:
  assumes "fst a \<notin> reserved"
  shows "parseFlowArray i n ([a] # apps) = parseFlowArray (attach n (plain_request a) i) n apps"
proof -
  have "rq_name (plain_request a) = fst a" by (simp add: plain_request_def)
  then have "parse_one i n (plain_request a) = attach n (plain_request a) i"
    using assms by (simp add: parse_one_def reserved_def)
  then show ?thesis by (simp add: parseFlowArray_Cons parseReq_single [OF assms])
qed

text \<open>What of a request matters to a run.\<close>

definition essence :: "app_request \<Rightarrow> string \<times> app_args \<times> lid option \<times> 64 word" where
  "essence r = (rq_name r, rq_args r, rq_limiter r, rq_flags r)"

lemma attach_essence:
  assumes "n < length (fl_nodes i)" "rq_tag r = []"
  shows "map essence (nd_children (fl_nodes (attach n r i) ! n)) = map essence (nd_children (fl_nodes i ! n)) @ [essence r]"
    "length (fl_nodes (attach n r i)) = length (fl_nodes i)"
    "bn_parent (fl_nodes (attach n r i) ! n) = bn_parent (fl_nodes i ! n)"
    "nd_position (fl_nodes (attach n r i) ! n) = nd_position (fl_nodes i ! n)"
    "fl_currentNode (attach n r i) = fl_currentNode i" "fl_cancel (attach n r i) = fl_cancel i"
    "fl_Functions (attach n r i) = fl_Functions i"
  using assms by (simp_all add: attach_def add_request_def upd_node_def node_Add_def trySetTag_def
      setParentNode_def essence_def Let_def)

lemma parse_list:
  assumes "n < length (fl_nodes i)" "\<forall>a\<in>set as. fst a \<notin> reserved"
  defines "i' \<equiv> parseFlowArray i n (app_list as)"
  shows "map essence (nd_children (fl_nodes i' ! n)) =
       map essence (nd_children (fl_nodes i ! n)) @ map (\<lambda>a. essence (plain_request a)) as \<and>
     bn_parent (fl_nodes i' ! n) = bn_parent (fl_nodes i ! n) \<and>
     nd_position (fl_nodes i' ! n) = nd_position (fl_nodes i ! n) \<and>
     fl_currentNode i' = fl_currentNode i \<and> fl_cancel i' = fl_cancel i \<and> fl_Functions i' = fl_Functions i"
  using assms(1,2) unfolding i'_def
proof (induction as arbitrary: i)
  case Nil
  then show ?case by (simp add: app_list_def)
next
  case (Cons a as)
  have "rq_tag (plain_request a) = []" by (simp add: plain_request_def zero_request_def)
  note A = attach_essence [OF Cons.prems(1) this]
  have "parseFlowArray i n (app_list (a # as)) = parseFlowArray (attach n (plain_request a) i) n (app_list as)"
    using Cons.prems(2) by (simp add: app_list_def parseFlowArray_single)
  then show ?case using Cons.IH [of "attach n (plain_request a) i"] Cons.prems A by simp
qed

lemma essence_plain:
  "essence r = essence (plain_request a) \<longleftrightarrow> rq_name r = fst a \<and>
     rq_args r = ArgVal (app_value (snd a)) \<and> rq_limiter r = None \<and> rq_flags r = 0"
  by (simp add: essence_def plain_request_def zero_request_def)

lemma run_requests_essence:
  "map essence rs = map (\<lambda>a. essence (plain_request a)) as \<Longrightarrow> run_requests e rs s w = run_list e as s w"
proof (induction as arbitrary: rs s w)
  case (Cons a as)
  then obtain r rs' where "rs = r # rs'" "essence r = essence (plain_request a)" "map essence rs' = map (\<lambda>a. essence (plain_request a)) as"
    by (auto simp: map_eq_Cons_conv)
  then show ?case using Cons.IH [of rs'] by (cases a) (auto simp: essence_plain intro!: Option.bind_cong)
qed simp

lemma plain_essence:
  assumes "map essence rs = map (\<lambda>a. essence (plain_request a)) as" "\<forall>a\<in>set as. fst a \<notin> reserved \<union> nested_names"
  shows "list_all plain rs"
  using assms
proof (induction as arbitrary: rs)
  case (Cons a as)
  then obtain r rs' where "rs = r # rs'" "essence r = essence (plain_request a)" "map essence rs' = map (\<lambda>a. essence (plain_request a)) as"
    by (auto simp: map_eq_Cons_conv)
  then show ?case using Cons.IH [of rs'] Cons.prems(2)
    by (simp add: plain_def essence_plain)
qed simp

lemma parse_list_start:
  assumes i: "n < length (fl_nodes i)" "fl_currentNode i = n" "\<not> fl_cancel i" "fl_nodes i ! n = zero_node"
    and as: "\<forall>a\<in>set as. fst a \<notin> reserved"
  defines "f \<equiv> parseFlowArray i n (app_list as)"
  shows "at_start f" "\<not> fl_cancel f" "map essence (nd_children (cur_node f)) = map (\<lambda>a. essence (plain_request a)) as"
proof -
  note P = parse_list [OF i(1) as, folded f_def]
  show "map essence (nd_children (cur_node f)) = map (\<lambda>a. essence (plain_request a)) as"
    using P i(2,4) by (simp add: cur_node_def zero_node_def)
  show "at_start f" "\<not> fl_cancel f" using P i by (simp_all add: at_start_def cur_node_def zero_node_def)
qed

lemma New_list_start:
  assumes "cf_Schema conf = app_list as" "\<forall>a\<in>set as. fst a \<notin> reserved"
  shows "at_start (New loc conf)" "\<not> fl_cancel (New loc conf)"
    "map essence (nd_children (cur_node (New loc conf))) = map (\<lambda>a. essence (plain_request a)) as"
  unfolding New_def Let_def NewNode_def setParentNode_def assms(1) prod.case option.case
  by (rule parse_list_start [OF _ _ _ _ assms(2)]; simp add: empty_flow_def)+

lemma Fork_list_requests:
  assumes "\<forall>a\<in>set as. fst a \<notin> reserved"
  shows "map essence (nd_children (cur_node (Fork name (app_list as) f))) = map (\<lambda>a. essence (plain_request a)) as"
    "fl_Functions (Fork name (app_list as) f) = fl_Functions f"
proof -
  define i where "i = empty_flow\<lparr>fl_name := name, fl_Functions := fl_Functions f, fl_triggers := fl_triggers f,
     fl_timezone := fl_timezone f, fl_currentNode := 0, fl_nodes := [zero_node]\<rparr>"
  have F: "Fork name (app_list as) f = parseFlowArray i 0 (app_list as)"
    by (simp add: Fork_def i_def NewNode_def setParentNode_def empty_flow_def Let_def)
  have "0 < length (fl_nodes i)" "fl_nodes i ! 0 = zero_node" "fl_currentNode i = 0" "fl_Functions i = fl_Functions f"
    by (simp_all add: i_def)
  with parse_list [OF this(1) assms]
  show "map essence (nd_children (cur_node (Fork name (app_list as) f))) = map (\<lambda>a. essence (plain_request a)) as"
    "fl_Functions (Fork name (app_list as) f) = fl_Functions f"
    unfolding F by (simp_all add: cur_node_def zero_node_def)
qed

lemma Fork_list_start:
  assumes "\<forall>a\<in>set as. fst a \<notin> reserved"
  shows "at_start (Fork name (app_list as) f)" "\<not> fl_cancel (Fork name (app_list as) f)"
  unfolding Fork_def Let_def NewNode_def setParentNode_def prod.case option.case
  by (rule parse_list_start [OF _ _ _ _ assms]; simp add: empty_flow_def)+

section \<open>Recursion through execute\<close>

text \<open>
  Jumps and loops are counted, calls of functions are not: a function whose body starts by
  executing itself never returns, at any depth of nesting.
\<close>

definition self_calling :: "string \<Rightarrow> flow \<Rightarrow> bool" where
  "self_calling g f = (\<exists>as. map_of (fl_Functions f) g = Some (app_list ((''execute'', GStr g) # as)) \<and>
     (\<forall>a\<in>set as. fst a \<notin> reserved))"

definition calls_next :: "string \<Rightarrow> flow \<Rightarrow> bool" where
  "calls_next g f = (wf_flow f \<and> \<not> fl_cancel f \<and> nd_position (cur_node f) < length (nd_children (cur_node f)) \<and>
     essence (nd_children (cur_node f) ! nd_position (cur_node f)) = essence (plain_request (''execute'', GStr g)) \<and>
     self_calling g f)"

lemma execute_not_reserved: "''execute'' \<notin> reserved"
  by (simp add: reserved_def)

lemma self_calling_fork:
  assumes "self_calling g f"
  shows "\<exists>h. FunctionScope g f = Inr h \<and> calls_next g h"
proof -
  obtain as where as: "map_of (fl_Functions f) g = Some (app_list ((''execute'', GStr g) # as))"
      "\<forall>a\<in>set ((''execute'', GStr g) # as). fst a \<notin> reserved"
    using assms execute_not_reserved by (auto simp: self_calling_def)
  define h where "h = Fork (''function-'' @ g) (app_list ((''execute'', GStr g) # as)) f"
  note S = Fork_list_start(1,2) [OF as(2), of "''function-'' @ g" f, folded h_def]
    Fork_list_requests [OF as(2), of "''function-'' @ g" f, folded h_def]
  have "wf_flow h" unfolding h_def by (rule Fork_wf)
  moreover have ne: "nd_children (cur_node h) \<noteq> []" using S(3) by auto
  moreover have "essence (nd_children (cur_node h) ! 0) = essence (plain_request (''execute'', GStr g))"
    using S(3) ne by (cases "nd_children (cur_node h)") auto
  moreover have "self_calling g h" using S(4) as by (auto simp: self_calling_def)
  ultimately have "calls_next g h" using S(1,2) by (simp add: calls_next_def at_start_def)
  then show ?thesis using as(1) by (simp add: FunctionScope_def h_def)
qed

text \<open>A run stops where the next request, without a limiter, does not return.\<close>

lemma route_loop_stuck:
  assumes c: "calls_next g f" and sel: "env_select e w = ResultFirst"
    and rq: "\<And>f1 p. \<lbrakk>rq_name (deref f1 p) = ''execute''; rq_args (deref f1 p) = ArgVal (GStr g);
      self_calling g f1\<rbrakk> \<Longrightarrow> rq f1 p w = None"
  shows "route_loop e rq f w = None"
proof -
  let ?n = "fl_currentNode f" and ?k = "nd_position (cur_node f)"
  have w: "wf_flow f" "\<not> fl_cancel f" "?k < length (nd_children (cur_node f))" "self_calling g f"
      "essence (nd_children (cur_node f) ! ?k) = essence (plain_request (''execute'', GStr g))"
    using c by (simp_all add: calls_next_def)
  obtain r0 where prev: "setPreviousRequest f = Some (f\<lparr>fl_prevRequest := r0\<rparr>)"
    using setPreviousRequest_ok [OF w(1)] by blast
  define f1 where "f1 = upd_node ?n (\<lambda>m. m\<lparr>nd_position := Suc ?k\<rparr>) (f\<lparr>fl_prevRequest := r0\<rparr>)"
  note T = NextRequest_take [OF w(1) prev refl refl w(3), folded f1_def]
  have f1: "deref f1 (?n, ?k) = nd_children (cur_node f) ! ?k" "\<not> fl_cancel f1" "self_calling g f1"
    using wf_flow_cur [OF w(1)] w(2,4) by (simp_all add: f1_def upd_node_def cur_node_def deref_def self_calling_def)
  have r: "rq_name (deref f1 (?n, ?k)) = ''execute''" "rq_args (deref f1 (?n, ?k)) = ArgVal (GStr g)"
      "rq_limiter (deref f1 (?n, ?k)) = None"
    using w(5) f1(1) by (simp_all add: essence_plain app_value_def)
  have "route_round e rq f1 (?n, ?k) w = None"
    using rq [OF r(1,2) f1(3)] r(3) f1(2) sel by (simp add: route_round_def route_select_def Let_def)
  then show ?thesis using T(1) by (subst route_loop.simps) simp
qed

lemma recursion_diverges:
  assumes e: "\<And>w. env_select e w = ResultFirst" "env_app e ''execute'' = None"
      "\<And>w. env_decode_execute e (GStr g) w = Inr (g, False)" and g: "g \<noteq> []"
  shows "calls_next g f \<Longrightarrow> Route e (flow_request e d) f w = None"
proof (induction d arbitrary: f w)
  case 0
  have "calls_next g (setInterrupted None f)"
    using 0 wf_flow_flags(2) by (simp add: calls_next_def cur_node_def setInterrupted_def self_calling_def)
  then show ?case unfolding Route_def by (rule route_loop_stuck) (simp_all add: e)
next
  case (Suc d)
  have "calls_next g (setInterrupted None f)"
    using Suc.prems wf_flow_flags(2) by (simp add: calls_next_def cur_node_def setInterrupted_def self_calling_def)
  moreover have "flow_request e (Suc d) f1 p w = None"
    if r: "rq_name (deref f1 p) = ''execute''" "rq_args (deref f1 p) = ArgVal (GStr g)" "self_calling g f1" for f1 p
  proof -
    obtain h where h: "FunctionScope g f1 = Inr h" "calls_next g h" using self_calling_fork [OF r(3)] by blast
    have "UnionApplicationMap [steering_apps e, nested_apps e (flow_request e d), other_apps e] ''execute'' =
        Some (execute e (flow_request e d))"
      unfolding union3_Some by (simp add: other_apps_def e(2) nested_apps_def)
    then show ?thesis
      using r(1,2) Suc.IH [OF h(2), of w] h(1) e(3) g
      by (simp add: Router_Request_def Let_def execute_def arg_val_def run_fork_def)
  qed
  ultimately show ?case unfolding Route_def using e(1) by (intro route_loop_stuck)
qed

end
