(* ===== verification/Flow_Resume.thy ===== *)
theory Flow_Resume
  imports Flow_Seq
begin

text \<open>
  Jumps and resumption: what \<open>NextRequest\<close> hands out after \<open>Goto\<close> and after
  \<open>RepeatInterrupted\<close>, and what a run leaves behind when its context ends.
\<close>

section \<open>The next request\<close>

lemma NextRequest_at:
  assumes "wf_flow f" "fl_currentNode f = c" "nd_position (fl_nodes f ! c) = k" "k < length (nd_children (fl_nodes f ! c))"
  shows "\<exists>f'. NextRequest f = Some (Some (c, k), f') \<and> handed_out f' c k \<and> deref f' (c, k) = deref f (c, k)"
proof -
  obtain r0 where prev: "setPreviousRequest f = Some (f\<lparr>fl_prevRequest := r0\<rparr>)"
    using setPreviousRequest_ok [OF assms(1)] by blast
  have k: "nd_position (cur_node f) = k" "k < length (nd_children (cur_node f))" using assms by (simp_all add: cur_node_def)
  note T = NextRequest_take [OF assms(1) prev refl k]
  have "deref (upd_node c g (f\<lparr>fl_prevRequest := r0\<rparr>)) (c, k) = deref f (c, k)" if "\<And>n. nd_children (g n) = nd_children n" for g
    using that wf_flow_cur [OF assms(1)] assms(2) by (simp add: deref_def upd_node_def)
  then show ?thesis using T(1,4) assms(2) by auto
qed

lemma jumped_next:
  assumes "jumped f g f'" "tag_ok (fl_nodes f) t g"
  shows "\<exists>f2. NextRequest f' = Some (Some (tag_parent g, tag_idx g), f2) \<and> rq_tag (deref f2 (tag_parent g, tag_idx g)) = t"
proof -
  have j: "wf_flow f'" "fl_currentNode f' = tag_parent g" "nd_position (fl_nodes f' ! tag_parent g) = tag_idx g"
      "strip (fl_nodes f') = strip (fl_nodes f)"
    using assms(1) static_eqD(1) [of f' f] by (auto simp: jumped_def cur_node_def)
  have ch: "nd_children (fl_nodes f' ! tag_parent g) = nd_children (fl_nodes f ! tag_parent g)"
    using strip_eq_sel(3) [OF j(4)] strip_eq_length [OF j(4)] assms(2) by (simp add: tag_ok_def)
  have "tag_idx g < length (nd_children (fl_nodes f' ! tag_parent g))" using assms(2) ch by (simp add: tag_ok_def)
  from NextRequest_at [OF j(1,2,3) this] obtain f2 where
    "NextRequest f' = Some (Some (tag_parent g, tag_idx g), f2)"
    "deref f2 (tag_parent g, tag_idx g) = deref f' (tag_parent g, tag_idx g)" by blast
  moreover have "rq_tag (deref f' (tag_parent g, tag_idx g)) = t"
    using assms(2) ch by (simp add: deref_def tag_ok_def)
  ultimately show ?thesis by auto
qed

section \<open>Resumption\<close>

lemma RepeatInterrupted_True:
  assumes w: "wf_flow f" and r: "RepeatInterrupted names f = (True, g)"
  shows "\<exists>c k. fl_interrupted f = Some (c, k) \<and> rq_name (deref f (c, k)) \<in> set names \<and> wf_flow g \<and>
     (\<exists>g'. NextRequest g = Some (Some (c, k), g') \<and> deref g' (c, k) = deref f (c, k))"
proof -
  from r obtain c k where i: "fl_interrupted f = Some (c, k)" "rq_name (deref f (c, k)) \<in> set names"
    by (auto simp: RepeatInterrupted_def Let_def split: option.splits if_splits)
  have p: "fl_currentNode f = c" "nd_position (cur_node f) = Suc k" "k < length (nd_children (cur_node f))"
      "g = upd_node c (\<lambda>n. n\<lparr>nd_position := k\<rparr>) (f\<lparr>fl_interrupted := None\<rparr>)"
    using r i by (auto simp: RepeatInterrupted_def Let_def split: if_splits)
  have c: "c < length (fl_nodes f)" using wf_flow_cur [OF w] p(1) by simp
  have "wf_flow (f\<lparr>fl_interrupted := None\<rparr>)" using w wf_flow_flags(2) [of None f] by (simp add: setInterrupted_def)
  then have wg: "wf_flow g"
    unfolding p(4) using c p(1,3) by (intro wf_flow_position) (simp_all add: cur_node_def)
  have "\<exists>g'. NextRequest g = Some (Some (c, k), g') \<and> handed_out g' c k \<and> deref g' (c, k) = deref g (c, k)"
    using wg by (rule NextRequest_at) (use c p in \<open>simp_all add: upd_node_def cur_node_def\<close>)
  moreover have "deref g (c, k) = deref f (c, k)" using c by (simp add: p(4) deref_def upd_node_def)
  ultimately show ?thesis using i wg by auto
qed

lemma RepeatInterrupted_handed:
  assumes "handed_out f c k" "fl_interrupted f = Some (c, k)" "rq_name (deref f (c, k)) \<in> set names"
  shows "\<exists>g. RepeatInterrupted names f = (True, g)"
  using assms by (auto simp: RepeatInterrupted_def Let_def handed_out_def cur_node_def)

text \<open>
  A run whose \<open>select\<close> never loses the race with the application leaves the cursor on the
  request it was interrupted at.
\<close>

definition resumable :: "flow \<Rightarrow> bool" where
  "resumable f = (\<forall>c k. fl_interrupted f = Some (c, k) \<longrightarrow> handed_out f c k)"

lemma handed_out_flags [simp]:
  "handed_out (SetCancel f) c k = handed_out f c k" "handed_out (setInterrupted r f) c k = handed_out f c k"
  "handed_out (ClearCancel f) c k = handed_out f c k"
  by (simp_all add: handed_out_def SetCancel_def setInterrupted_def ClearCancel_def cur_node_def)

lemma request_done_interrupted: "request_done c f (Some (r, f', w')) \<Longrightarrow> fl_interrupted f' = fl_interrupted f"
  by (simp add: request_done_def keeps_def)

context request_provider
begin

lemma select_resumable:
  assumes h: "wf_flow f" "handed_out f c k" and sel: "env_select e w \<noteq> DoneLate" and i: "fl_interrupted f = None"
    and r: "route_select e rq f (c, k) w = Some (go, f', w')"
  shows "if go then fl_interrupted f' = None else resumable f'"
proof (cases "env_select e w")
  case DoneEarly
  then show ?thesis
    using r h(2) by (auto simp: route_select_def Let_def resumable_def) (simp add: SetCancel_def setInterrupted_def)
next
  case ResultFirst
  from r obtain res f1 where rq: "rq f (c, k) w = Some (res, f1, w')"
    and f': "f' = (if request_IsCancel (deref f (c, k)) then SetCancel (route_log e (deref f (c, k)) w w' f1)
             else route_log e (deref f (c, k)) w w' f1)"
    by (auto simp: route_select_def ResultFirst Let_def bind_eq_Some_conv split: if_split_asm)
  have "fl_interrupted f1 = None" using request_done_interrupted [OF rq_safe [OF h rq]] i by simp
  then have "fl_interrupted f' = None"
    unfolding f' by (simp add: SetCancel_def route_log_def PushSteepLog_def split: option.split)
  then show ?thesis by (simp add: resumable_def)
qed (use sel in simp)

lemma round_resumable:
  assumes h: "wf_flow f" "handed_out f c k" and sel: "env_select e w \<noteq> DoneLate" and i: "fl_interrupted f = None"
    and r: "route_round e rq f (c, k) w = Some (go, f', w')"
  shows "if go then fl_interrupted f' = None else resumable f'"
proof -
  have fin: "fl_interrupted f' = None" if "Goto t f = Some (ok, f')" for t ok f'
    using Goto_done [OF h(1), of t] that i by (auto simp: keeps_def)
  have lim: "if go then fl_interrupted f' = None else resumable f'"
    if "\<not> MaxCount (fl_limiters f ! l)" "route_select e rq (upd_limiter l AddIteration f) (c, k) w = Some (go, f', w')" for l
  proof -
    note U = upd_limiter_keep [OF h that(1)]
    have "wf_flow (upd_limiter l AddIteration f)" using U(1) by (simp add: run_keeps_def)
    moreover have "fl_interrupted (upd_limiter l AddIteration f) = None" using i by (simp add: upd_limiter_def)
    ultimately show ?thesis using select_resumable [OF _ U(2) sel _ that(2)] by simp
  qed
  show ?thesis
    using r i fin lim select_resumable [OF h sel i, of go f' w']
    by (auto simp: route_round_def resumable_def bind_eq_Some_conv split: if_splits option.splits)
qed

lemma Route_resumable:
  assumes w: "wf_flow f" and sel: "\<And>w. env_select e w \<noteq> DoneLate" and r: "Route e rq f w = Some (f', w')"
  shows "resumable f'"
proof (rule route_loop_rule [where I = "\<lambda>f _. wf_flow f \<and> fl_interrupted f = None" and Q = "\<lambda>f _. resumable f",
      OF r [unfolded Route_def]])
  show "wf_flow (setInterrupted None f) \<and> fl_interrupted (setInterrupted None f) = None"
    using w by (simp add: wf_flow_flags) (simp add: setInterrupted_def)
next
  fix f f1 assume "wf_flow f \<and> fl_interrupted f = None" "NextRequest f = Some (None, f1)"
  then show "resumable f1" using NextRequest_ok [of f] cursorless_sel(6) [of f1 f] by (auto simp: resumable_def)
next
  fix f w p f1 go f2 w2
  assume I: "wf_flow f \<and> fl_interrupted f = None" and n: "NextRequest f = Some (Some p, f1)"
    and rr: "route_round e rq f1 p w = Some (go, f2, w2)"
  obtain c k where p: "p = (c, k)" by force
  have h: "wf_flow f1" "handed_out f1 c k" "fl_interrupted f1 = None"
    using NextRequest_ok [of f] I n p cursorless_sel(6) [of f1 f] by auto
  have "wf_flow f2" using round_safe [OF h(1,2) rr [unfolded p]] by (simp add: run_keeps_def)
  then show "if go then wf_flow f2 \<and> fl_interrupted f2 = None else resumable f2"
    using round_resumable [OF h(1,2) sel h(3) rr [unfolded p]] by simp
qed

end

end
