(* ===== verification/Flow_Example.thy ===== *)
theory Flow_Example
  imports Flow_Resume
begin

text \<open>
  A concrete environment and small schemas, on which the theorems are applied.  The world is
  the list of the arguments the application \<open>log\<close> was called with; \<open>hangup\<close> cancels the flow and
  \<open>setUser\<close> answers with nil, as it does in \<open>routes/call/user.go\<close>; the script engine knows
  the literals \<open>true\<close> and \<open>false\<close>; the decoders read the plain shapes.
\<close>

definition example_log :: "shared \<Rightarrow> app_args \<Rightarrow> string list \<Rightarrow> (answer \<times> bool \<times> shared \<times> string list) option" where
  "example_log s a w = Some (Inr (Some ResponseOK), False, s, w @ [case arg_val a of GStr t \<Rightarrow> t | _ \<Rightarrow> []])"

definition example_apps :: "string \<Rightarrow> (shared \<Rightarrow> app_args \<Rightarrow> string list \<Rightarrow> (answer \<times> bool \<times> shared \<times> string list) option) option" where
  "example_apps n =
     (if n = ''log'' then Some example_log
      else if n = ''hangup'' then Some (\<lambda>s a w. Some (Inr (Some ResponseOK), True, s, w))
      else if n = ''setUser'' then Some (\<lambda>s a w. Some (Inr None, False, s, w))
      else None)"

definition example_env :: "(string list \<Rightarrow> select_branch) \<Rightarrow> string list env" where
  "example_env sel = \<lparr>
     env_get = (\<lambda>w v. if v = ''x'' then (''1'', True) else ([], False)),
     env_vm = (\<lambda>s w. (Inr (Some (has_suffix s ''true'')), w)),
     env_decode_string = (\<lambda>v w. case v of GStr s \<Rightarrow> Inr s | _ \<Rightarrow> Inl (NewInternalError ''decode'' ''string'')),
     env_app = example_apps,
     env_select = sel,
     env_nanos = (\<lambda>w. 5000000),
     env_decode_execute = (\<lambda>v w. case v of GStr s \<Rightarrow> Inr (s, False) | _ \<Rightarrow> Inl (NewInternalError ''decode'' ''execute'')),
     env_decode_schema = (\<lambda>v w. case v of GInt i \<Rightarrow> Inr (i, False) | _ \<Rightarrow> Inl (NewInternalError ''decode'' ''schema'')),
     env_decode_list = (\<lambda>v w. Inl (NewInternalError ''decode'' ''list'')),
     env_schema = (\<lambda>i w. Inl (NewInternalError ''schema'' ''not found'')),
     env_list_check = (\<lambda>d i n w. Inr False),
     env_spawn = (\<lambda>f w. (False, w)),
     env_timer = (\<lambda>n w. (length w < 9, w))\<rparr>"

definition ex_conf :: "applications \<Rightarrow> config" where
  "ex_conf apps = \<lparr>cf_SchemaId = 1, cf_Timezone = [], cf_Name = ''demo'', cf_Schema = apps, cf_ConnId = None\<rparr>"

definition ex_new :: "applications \<Rightarrow> flow" where
  "ex_new apps = New (\<lambda>_. None) (ex_conf apps)"

definition app_log :: "string \<Rightarrow> app_object" where
  "app_log s = [(''log'', GStr s)]"

definition app_if :: "string \<Rightarrow> goval list \<Rightarrow> goval list \<Rightarrow> app_object" where
  "app_if c th el = [(''if'', GMap [(''expression'', GStr c), (''then'', GArr th), (''else'', GArr el)])]"

definition done_early :: "string list \<Rightarrow> select_branch" where
  "done_early w = (if w = [] then ResultFirst else DoneEarly)"

definition recursive_schema :: applications where
  "recursive_schema =
     [[(''function'', GMap [(''name'', GStr ''g''), (''actions'', GArr [GMap [(''execute'', GStr ''g'')]])])],
      [(''execute'', GStr ''g'')]]"

definition interrupted_example :: flow where
  "interrupted_example = (case NextRequest (ex_new [app_log ''a'']) of
     Some (Some p, f) \<Rightarrow> SetCancel (setInterrupted (Some p) f) | _ \<Rightarrow> empty_flow)"

lemma recursive_schema_calls: "calls_next ''g'' (ex_new recursive_schema)"
proof -
  have f: "nd_position (cur_node (ex_new recursive_schema)) < length (nd_children (cur_node (ex_new recursive_schema)))"
    "\<not> fl_cancel (ex_new recursive_schema)" by code_simp+
  have "essence (nd_children (cur_node (ex_new recursive_schema)) ! nd_position (cur_node (ex_new recursive_schema)))
      = essence (plain_request (''execute'', GStr ''g''))" by code_simp
  moreover have "map_of (fl_Functions (ex_new recursive_schema)) ''g'' = Some (app_list [(''execute'', GStr ''g'')])"
    by code_simp
  ultimately show ?thesis using f New_wf by (auto simp: calls_next_def self_calling_def ex_new_def)
qed

lemma interrupted_example_wf: "wf_flow interrupted_example"
proof -
  obtain r f where "NextRequest (ex_new [app_log ''a'']) = Some (r, f)" "wf_flow f"
    using NextRequest_ok [of "ex_new [app_log ''a'']"] New_wf by (auto simp: ex_new_def)
  moreover have "map_option fst (NextRequest (ex_new [app_log ''a''])) = Some (Some (0, 0))" by code_simp
  ultimately show ?thesis by (auto simp: interrupted_example_def wf_flow_flags)
qed

end
