(* ===== verification/Flow_Props.thy ===== *)
theory Flow_Props
  imports Flow_Order Flow_Example
begin

text \<open>
  The properties of the engine: runs end and keep the tree, jumps and interruptions, parsing, and the reference
  semantics of schemas without control.
\<close>

section \<open>The engine\<close>

text \<open>
  A higher bound on the nesting never changes the result of a run that returned.
\<close>

lemma nesting_bound_irrelevant:
  assumes "Route e (flow_request e d) f w = Some r"
  shows "Route e (flow_request e (d + k)) f w = Some r"
proof (induction k)
  case (Suc k)
  then show ?case using Route_mono [OF flow_request_mono [of e "d + k"]] by simp
qed (use assms in simp)






text \<open>
  C2: A run of any well-formed flow with the applications that run other flows (functions, schemas,
  lists), if it returns with nesting bounded by some depth \<open>d\<close>, returns the same with every higher
  bound, and it has kept the flow: the tree is untouched, everything is in range, limiters and loops
  are within their maxima if they were, every entry that the step log had is still there in its place,
  and the run was cancelled, complete or stopped by a limiter.
\<close>

theorem nested_run_safe:
  assumes "wf_flow f" and "Route e (flow_request e d) f w = Some (f', w')"
  shows "wf_flow f' \<and> static f' = static f \<and> (counted f \<longrightarrow> counted f') \<and> ended f' \<and>
     prefix (fl_logs f) (fl_logs f') \<and> (\<forall>k. Route e (flow_request e (d + k)) f w = Some (f', w'))"
  using nested.Route_safe [OF assms] nested.Route_ended [OF assms] nesting_bound_irrelevant [OF assms(2)]
  by (simp add: run_keeps_def)

theorem nested_run_safe_witness:
  "let e = example_env (\<lambda>_. ResultFirst);
       conf = ex_conf [[(''function'', GMap [(''name'', GStr ''g''), (''actions'', GArr [GMap (app_log ''b'')])])],
                       app_log ''a'', [(''execute'', GStr ''g'')]];
       f = PushSteepLog ''before'' 1 2 (New (\<lambda>_. None) conf)
   in \<exists>f'. Route e (flow_request e 2) f [] = Some (f', [''a'', ''b'']) \<and> wf_flow f' \<and> ended f' \<and> prefix (fl_logs f) (fl_logs f') \<and> fl_logs f \<noteq> []"
proof -
  let ?e = "example_env (\<lambda>_. ResultFirst)"
  let ?conf = "ex_conf [[(''function'', GMap [(''name'', GStr ''g''), (''actions'', GArr [GMap (app_log ''b'')])])],
                        app_log ''a'', [(''execute'', GStr ''g'')]]"
  let ?f = "PushSteepLog ''before'' 1 2 (New (\<lambda>_. None) ?conf)"
  have "map_option snd (Route ?e (flow_request ?e 2) ?f []) = Some [''a'', ''b'']" by code_simp
  then obtain f' where r: "Route ?e (flow_request ?e 2) ?f [] = Some (f', [''a'', ''b''])" by auto
  have "wf_flow ?f" using New_wf by (simp add: wf_flow_flags)
  from nested_run_safe [OF this r] show ?thesis unfolding Let_def using r by (auto simp: PushSteepLog_def)
qed

text \<open>
  Unlike jumps and loops, calls of functions are not counted: the schema below defines a
  function whose body executes itself and calls it, and no bound on the nesting lets the run
  return.
\<close>

lemma execute_recursion_unbounded:
  "Route (example_env (\<lambda>_. ResultFirst)) (flow_request (example_env (\<lambda>_. ResultFirst)) d) (ex_new recursive_schema) w = None"
  by (rule recursion_diverges [OF _ _ _ _ recursive_schema_calls]) (simp_all add: example_env_def example_apps_def)

text \<open>
  C3: The counter of jumps stays between 0 and \<open>MAX_GOTO + 1\<close>, far from the limit of its 16
  bits, throughout a run of a parsed schema, and at the upper end every jump is refused and
  leaves the flow as it is.
\<close>

theorem goto_counter_bounded:
  assumes "Route e (flow_request e d) (New loc conf) w = Some (f', w')"
  shows "0 \<le> sint (fl_gotoCounter f') \<and> sint (fl_gotoCounter f') \<le> MAX_GOTO + 1 \<and>
     (sint (fl_gotoCounter f') = MAX_GOTO + 1 \<longrightarrow> Goto t f' = Some (False, f'))"
proof -
  have "wf_flow f'" using nested.Route_safe [OF New_wf assms] by (simp add: run_keeps_def)
  then show ?thesis using Goto_refused [of f' t] by (simp add: wf_flow_def wf_dyn_def)
qed

theorem goto_counter_bounded_witness:
  "let e = example_env (\<lambda>_. ResultFirst)
   in \<exists>f'. Route e (flow_request e 1) (ex_new [[(''goto'', GStr ''t'')], app_log ''a'', (''tag'', GStr ''t'') # app_log ''b'']) [] = Some (f', [''b'']) \<and>
        fl_gotoCounter f' = 1 \<and> 0 \<le> sint (fl_gotoCounter f') \<and> sint (fl_gotoCounter f') \<le> 1001"
proof -
  let ?e = "example_env (\<lambda>_. ResultFirst)" and ?s = "[[(''goto'', GStr ''t'')], app_log ''a'', (''tag'', GStr ''t'') # app_log ''b'']"
  have "map_option (\<lambda>(f, w). (fl_gotoCounter f, w)) (Route ?e (flow_request ?e 1) (ex_new ?s) []) = Some (1, [''b''])" by code_simp
  then obtain f' where "Route ?e (flow_request ?e 1) (ex_new ?s) [] = Some (f', [''b''])" "fl_gotoCounter f' = 1" by auto
  with goto_counter_bounded [OF this(1) [unfolded ex_new_def]] show ?thesis
    unfolding Let_def by (auto simp: MAX_GOTO_def)
qed

text \<open>
  C4: While jumps are left, \<open>Goto\<close> to a tag of the schema succeeds, counts itself, keeps
  the program, and the next request handed out is one that carries that tag.
\<close>

theorem Goto_reaches_tag:
  assumes "wf_flow f" "sint (fl_gotoCounter f) \<le> MAX_GOTO" "fl_Tags f t = Some g"
  shows "\<exists>f' f2. Goto t f = Some (True, f') \<and> wf_flow f' \<and> static f' = static f \<and>
     fl_gotoCounter f' = fl_gotoCounter f + 1 \<and>
     NextRequest f' = Some (Some (tag_parent g, tag_idx g), f2) \<and> rq_tag (deref f2 (tag_parent g, tag_idx g)) = t"
proof -
  obtain f' where f': "Goto t f = Some (True, f')" "jumped f g f'" using Goto_ok [OF assms] by blast
  moreover have "tag_ok (fl_nodes f) t g" using assms(1,3) by (simp add: wf_flow_def wf_static_def)
  ultimately show ?thesis using jumped_next [OF f'(2)] by (auto simp: jumped_def)
qed

theorem Goto_reaches_tag_witness:
  "\<exists>f' f2. Goto ''t'' (ex_new [app_log ''a'', (''tag'', GStr ''t'') # app_log ''b'']) = Some (True, f') \<and>
     NextRequest f' = Some (Some (0, 1), f2) \<and> rq_tag (deref f2 (0, 1)) = ''t''"
proof -
  let ?f = "ex_new [app_log ''a'', (''tag'', GStr ''t'') # app_log ''b'']"
  have "sint (fl_gotoCounter ?f) \<le> MAX_GOTO" "fl_Tags ?f ''t'' = Some \<lparr>tag_parent = 0, tag_idx = 1\<rparr>" by code_simp+
  moreover have "wf_flow ?f" unfolding ex_new_def by (rule New_wf)
  ultimately show ?thesis using Goto_reaches_tag [of ?f "''t''" "\<lparr>tag_parent = 0, tag_idx = 1\<rparr>"] by auto
qed

text \<open>
  \<open>RepeatInterrupted\<close> reports success only when the next request handed out is the one
  the run was interrupted at, and it is one of the names asked for.
\<close>

lemma RepeatInterrupted_sound:
  assumes "wf_flow f" "RepeatInterrupted names f = (True, g)"
  shows "\<exists>c k g'. fl_interrupted f = Some (c, k) \<and> rq_name (deref f (c, k)) \<in> set names \<and> wf_flow g \<and>
     NextRequest g = Some (Some (c, k), g') \<and> deref g' (c, k) = deref f (c, k)"
  using RepeatInterrupted_True [OF assms] by blast

text \<open>
  C6: Parsing yields a well-typed program: every node has its parent and its place in it, every
  condition, loop and switch refers to nodes of the tree, every tag names the request that
  carries it, no node is its own ancestor, and all counters start at zero; the same holds for the
  flow that \<open>Fork\<close> builds from a function.
\<close>

theorem parsed_flow_well_typed:
  "wf_flow (New loc conf) \<and> zeroed (New loc conf) \<and> wf_flow (Fork name apps f) \<and> zeroed (Fork name apps f)"
  using New_built Fork_built by simp

text \<open>
  C5: A schema that only lists applications, run while the context lives, refines the recursion over
  the list: each application is called once, in order, whether or not earlier ones failed, until one
  cancels the flow; the run does not return exactly where an application does not, or answers with nil.
\<close>

theorem plain_schema_is_run_list:
  assumes "cf_Schema conf = app_list as" "\<forall>a\<in>set as. fst a \<notin> reserved \<union> nested_names" "\<forall>w. env_select e w = ResultFirst"
  shows "\<exists>f'. Route e (flow_request e (Suc d)) (New loc conf) w =
     map_option (\<lambda>(s, w'). (f', w')) (run_list e as (shared_of (New loc conf)) w)"
proof -
  have as: "\<forall>a\<in>set as. fst a \<notin> reserved" using assms(2) by simp
  note S = New_list_start [OF assms(1) as, of loc]
  show ?thesis
    using Route_plain [OF New_wf S(1,2) plain_essence [OF S(3) assms(2)], of e d w] assms(3)
    unfolding run_requests_essence [OF S(3)] by blast
qed

theorem plain_schema_is_run_list_witness:
  "(\<exists>f'. Route (example_env (\<lambda>_. ResultFirst)) (flow_request (example_env (\<lambda>_. ResultFirst)) 1)
     (New (\<lambda>_. None) (ex_conf (app_list [(''log'', GStr ''a''), (''nope'', GNil), (''log'', GStr ''b''), (''hangup'', GNil), (''log'', GStr ''c'')]))) []
       = Some (f', [''a'', ''b'']))
   \<and> Route (example_env (\<lambda>_. ResultFirst)) (flow_request (example_env (\<lambda>_. ResultFirst)) 1)
     (New (\<lambda>_. None) (ex_conf (app_list [(''log'', GStr ''a''), (''setUser'', GNil)]))) [] = None"
proof -
  let ?e = "example_env (\<lambda>_. ResultFirst)"
  let ?as = "[(''log'', GStr ''a''), (''nope'', GNil), (''log'', GStr ''b''), (''hangup'', GNil), (''log'', GStr ''c'')]"
  let ?bs = "[(''log'', GStr ''a''), (''setUser'', GNil)]"
  have run: "map_option snd (run_list ?e ?as (shared_of (New (\<lambda>_. None) (ex_conf (app_list ?as)))) []) = Some [''a'', ''b'']"
    "run_list ?e ?bs s [] = None" for s by (simp_all add: app_effect_def example_env_def example_apps_def example_log_def app_value_def arg_val_def)
  have sel: "\<forall>w. env_select ?e w = ResultFirst" by (simp add: example_env_def)
  have "\<forall>a\<in>set ?as. fst a \<notin> reserved \<union> nested_names" "\<forall>a\<in>set ?bs. fst a \<notin> reserved \<union> nested_names"
    by (simp_all add: reserved_def nested_names_def)
  then obtain f g where
    "Route ?e (flow_request ?e (Suc 0)) (New (\<lambda>_. None) (ex_conf (app_list ?as))) [] =
       map_option (\<lambda>(s, w'). (f, w')) (run_list ?e ?as (shared_of (New (\<lambda>_. None) (ex_conf (app_list ?as)))) [])"
    "Route ?e (flow_request ?e (Suc 0)) (New (\<lambda>_. None) (ex_conf (app_list ?bs))) [] =
       map_option (\<lambda>(s, w'). (g, w')) (run_list ?e ?bs (shared_of (New (\<lambda>_. None) (ex_conf (app_list ?bs)))) [])"
    using plain_schema_is_run_list [of "ex_conf (app_list ?as)" ?as ?e 0 "\<lambda>_. None" "[]"]
      plain_schema_is_run_list [of "ex_conf (app_list ?bs)" ?bs ?e 0 "\<lambda>_. None" "[]"] sel by (auto simp: ex_conf_def)
  then show ?thesis using run by (auto simp del: flow_request.simps)
qed

text \<open>
  A timer whose actions end inside a branch repeats only that branch: \<open>Reset\<close> rewinds the
  node the cursor stands in, not the root.  Here three ticks of the actions "log a; if true then
  break" log once.
\<close>

lemma timer_restarts_inside_branch:
  "let e = (example_env (\<lambda>_. ResultFirst))\<lparr>env_timer := \<lambda>n w. (True, w)\<rparr>
   in map_option (\<lambda>(n, f, w). (n, w)) (Timer e (flow_request e 1) (ex_new [])
      \<lparr>tm_Name = ''t'', tm_Interval = 1, tm_Tries = 3, tm_Offset = 0,
       tm_Actions = [GMap (app_log ''a''), GMap (app_if ''true'' [GMap [(''break'', GBool True)]] [])]\<rparr> []) = Some (3, [''a''])"
  by code_simp

text \<open>
  C7: Application objects come from a Go map, whose order is random; with one application name
  beside the fields (\<open>tag\<close>, \<open>limit\<close>, \<open>break\<close>, \<open>async\<close>, \<open>trace\<close>, \<open>_id\<close>) every order parses to the same
  request.
\<close>

theorem parse_ignores_key_order:
  assumes "distinct (map fst m)" "length (filter (\<lambda>f. fst f \<notin> field_names) m) \<le> 1" "mset m = mset m'"
  shows "parseReq m ls = parseReq m' ls"
  by (rule parseReq_order [OF assms])

theorem parse_ignores_key_order_witness:
  "parseReq [(''tag'', GStr ''t''), (''log'', GStr ''a''), (''break'', GBool True)] [] =
   parseReq [(''break'', GBool True), (''tag'', GStr ''t''), (''log'', GStr ''a'')] []"
  by (rule parse_ignores_key_order) (simp_all add: field_names_def)

end
