(* ===== verification/Flow_Date.thy ===== *)
theory Flow_Date
  imports Flow_Prelude "HOL-Library.Word"
begin

text \<open>
  The date functions a condition can call (the object \<open>sys\<close> of \<open>injectJsSysObject\<close> in \<open>flow/if.go\<close>): each
  compares a component of the current time with a list of values and ranges, or returns the
  component.  The current time is given by its calendar fields in the flow's time zone and by its
  nanoseconds; the parser of time stamps, which needs the database of time zones, is an
  argument.
\<close>

section \<open>Calendar\<close>

record civil =
  ct_Year :: int
  ct_Month :: nat
  ct_Day :: int
  ct_Hour :: int
  ct_Minute :: int
  ct_Second :: int
  ct_Weekday :: int
  ct_UnixNano :: int

definition is_leap :: "int \<Rightarrow> bool" where
  "is_leap y = (y mod 4 = 0 \<and> (y mod 100 \<noteq> 0 \<or> y mod 400 = 0))"

definition year_days :: "int \<Rightarrow> int" where
  "year_days y = (if is_leap y then 366 else 365)"

definition month_days :: "int \<Rightarrow> nat \<Rightarrow> int" where
  "month_days y m = (if m = 2 then (if is_leap y then 29 else 28) else if m \<in> {4, 6, 9, 11} then 30 else 31)"

definition YearDay :: "civil \<Rightarrow> int" where
  "YearDay t = sum_list (map (month_days (ct_Year t)) [1..<ct_Month t]) + ct_Day t"

text \<open>The week of a date is that of the Thursday of its Monday-based week.\<close>

definition ISOWeek :: "civil \<Rightarrow> int \<times> int" where
  "ISOWeek t =
     (let y = ct_Year t; thu = YearDay t + (3 - (ct_Weekday t + 6) mod 7);
          (y', yd) = (if thu < 1 then (y - 1, thu + year_days (y - 1)) else if thu > year_days y then (y + 1, thu - year_days y) else (y, thu))
      in (y', (yd - 1) div 7 + 1))"

definition first_of_month :: "civil \<Rightarrow> civil" where
  "first_of_month t = t\<lparr>ct_Day := 1, ct_Weekday := (ct_Weekday t - (ct_Day t - 1)) mod 7\<rparr>"

definition numberOfTheWeekInMonth :: "civil \<Rightarrow> int" where
  "numberOfTheWeekInMonth now = 1 + snd (ISOWeek now) - snd (ISOWeek (first_of_month now))"

definition getWeekday :: "civil \<Rightarrow> int" where
  "getWeekday t = ct_Weekday t + 1"

section \<open>Lists of values and ranges\<close>

text \<open>\<open>regSpace\<close> is the class of blanks of RE2.\<close>

definition is_blank :: "char \<Rightarrow> bool" where
  "is_blank c = ((of_char c :: nat) \<in> {9, 10, 12, 13, 32})"

definition equalsDateTimeRange :: "int \<Rightarrow> string \<Rightarrow> int \<Rightarrow> bool" where
  "equalsDateTimeRange datetime strRange maxVal =
     (let rows = split_on (CHR ''-'') strRange in
      case Atoi (rows ! 0) of
        None \<Rightarrow> False
      | Some mn \<Rightarrow>
          (case (if length rows \<ge> 2 then Atoi (rows ! 1) else Some maxVal) of
             None \<Rightarrow> False
           | Some mx \<Rightarrow>
               (let (lo, hi) = (if mn > mx then (mx, mn) else (mn, mx)) in lo \<le> datetime \<and> datetime \<le> hi)))"

fun parseDate_loop :: "string list \<Rightarrow> int \<Rightarrow> int \<Rightarrow> bool \<Rightarrow> bool" where
  "parseDate_loop [] datetime maxVal result = result"
| "parseDate_loop (v # vs) datetime maxVal result =
     (let result' =
        (if CHR ''-'' \<in> set v then equalsDateTimeRange datetime (trim_char (CHR '' '') v) maxVal
         else (case Atoi (trim_char (CHR '' '') v) of Some i \<Rightarrow> i = datetime | None \<Rightarrow> result))
      in if result' then True else parseDate_loop vs datetime maxVal result')"

definition parseDate :: "string \<Rightarrow> int \<Rightarrow> int \<Rightarrow> bool" where
  "parseDate params datetime maxVal =
     parseDate_loop (split_on (CHR '','') (filter (\<lambda>c. \<not> is_blank c) params)) datetime maxVal False"

section \<open>Times of the day\<close>

definition wrap64 :: "int \<Rightarrow> int" where
  "wrap64 i = sint (word_of_int i :: 64 word)"

text \<open>A bad part ends the loop with what was read so far.\<close>

fun parseTime_loop :: "nat \<Rightarrow> string list \<Rightarrow> int \<Rightarrow> int" where
  "parseTime_loop i [] result = result"
| "parseTime_loop i (v # vs) result =
     (case Atoi (trim_char (CHR '' '') v) of
        None \<Rightarrow> result
      | Some tmp \<Rightarrow>
          parseTime_loop (i + 1) vs (wrap64 (result + (if i = 0 then wrap64 (tmp * 10000) else if i = 1 then wrap64 (tmp * 100) else tmp))))"

definition parseTime :: "string \<Rightarrow> int" where
  "parseTime str = parseTime_loop 0 (split_on (CHR '':'') str) 0"

definition leadingZeros :: "int \<Rightarrow> string" where
  "leadingZeros d = (if d < 10 then CHR ''0'' # Itoa d else Itoa d)"

definition time_of_day_in :: "int \<Rightarrow> string \<Rightarrow> bool" where
  "time_of_day_in current v =
     (let tmp = split_on (CHR ''-'') v in
      length tmp = 2 \<and> current \<ge> parseTime (tmp ! 0) \<and> current \<le> parseTime (tmp ! 1))"

text \<open>
  \<open>stringDateTimeToNano\<close>: the length selects the layout; \<open>parse\<close> reads a time stamp with or
  without seconds in the flow's time zone.
\<close>

definition stringDateTimeToNano :: "(bool \<Rightarrow> string \<Rightarrow> int option) \<Rightarrow> string \<Rightarrow> int option" where
  "stringDateTimeToNano parse data =
     (if length data = 19 then parse True data else if length data = 16 then parse False data else None)"

fun date_time_loop :: "(bool \<Rightarrow> string \<Rightarrow> int option) \<Rightarrow> int \<Rightarrow> string list \<Rightarrow> bool" where
  "date_time_loop parse cur [] = False"
| "date_time_loop parse cur (v # vs) =
     (let tmp = split_on (CHR 0x7E) v in
      if length tmp \<noteq> 2 then date_time_loop parse cur vs
      else (case (stringDateTimeToNano parse (tmp ! 0), stringDateTimeToNano parse (tmp ! 1)) of
          (Some t1, Some t2) \<Rightarrow> if t1 \<le> cur \<and> cur \<le> t2 then True else date_time_loop parse cur vs
        | _ \<Rightarrow> date_time_loop parse cur vs))"

section \<open>The object\<close>

datatype js_value = JInt int | JBool bool | JStr string | JUndefined

text \<open>A component with its greatest value: the number without argument, the comparison with one.\<close>

definition sys_component :: "int \<Rightarrow> int \<Rightarrow> int \<Rightarrow> string \<Rightarrow> js_value" where
  "sys_component shown val maxVal param = (if param = [] then JInt shown else JBool (parseDate param val maxVal))"

fun pad :: "nat \<Rightarrow> string \<Rightarrow> string" where
  "pad n s = replicate (n - length s) (CHR ''0'') @ s"

definition format_date_time :: "civil \<Rightarrow> string" where
  "format_date_time t = pad 4 (Itoa (ct_Year t)) @ ''-'' @ pad 2 (Itoa (int (ct_Month t))) @ ''-'' @ pad 2 (Itoa (ct_Day t)) @ '' '' @
     pad 2 (Itoa (ct_Hour t)) @ '':'' @ pad 2 (Itoa (ct_Minute t)) @ '':'' @ pad 2 (Itoa (ct_Second t))"

definition injectJsSysObject :: "(bool \<Rightarrow> string \<Rightarrow> int option) \<Rightarrow> civil \<Rightarrow> string \<Rightarrow> string \<Rightarrow> js_value" where
  "injectJsSysObject parse now fn param =
     (if fn = ''year'' then sys_component (ct_Year now) (ct_Year now) 9999 param
      else if fn = ''yday'' then sys_component (YearDay now) (YearDay now) 366 param
      else if fn = ''mon'' then sys_component (int (ct_Month now)) (int (ct_Month now)) 12 param
      else if fn = ''mday'' then sys_component (ct_Day now) (ct_Day now) 31 param
      else if fn = ''week'' then sys_component (snd (ISOWeek now)) (snd (ISOWeek now)) 53 param
      else if fn = ''mweek'' then sys_component (numberOfTheWeekInMonth now) (numberOfTheWeekInMonth now) 6 param
      else if fn = ''wday'' then sys_component (ct_Weekday now + 1) (getWeekday now) 7 param
      else if fn = ''hour'' then sys_component (ct_Hour now) (ct_Hour now) 23 param
      else if fn = ''minute'' then sys_component (ct_Minute now) (ct_Minute now) 59 param
      else if fn = ''minute_of_day'' then
        sys_component (ct_Hour now * 60 + ct_Minute now) (ct_Hour now * 60 + ct_Minute now) 1440 param
      else if fn = ''time_of_day'' then
        (if param = [] then JStr (leadingZeros (ct_Hour now) @ '':'' @ leadingZeros (ct_Minute now))
         else JBool (list_ex (time_of_day_in (ct_Hour now * 10000 + ct_Minute now * 100 + ct_Second now)) (split_on (CHR '','') param)))
      else if fn = ''date_time'' then
        (if param = [] then JStr (format_date_time now)
         else if date_time_loop parse (ct_UnixNano now) (split_on (CHR '','') param) then JBool True else JUndefined)
      else JUndefined)"

section \<open>Laws\<close>

text \<open>Whether one entry of a list matches.\<close>

definition entry_matches :: "int \<Rightarrow> int \<Rightarrow> string \<Rightarrow> bool" where
  "entry_matches datetime maxVal v =
     (if CHR ''-'' \<in> set v then equalsDateTimeRange datetime (trim_char (CHR '' '') v) maxVal
      else Atoi (trim_char (CHR '' '') v) = Some datetime)"

lemma parseDate_loop_ex: "parseDate_loop vs d m False = list_ex (entry_matches d m) vs"
  by (induction vs) (auto simp: entry_matches_def Let_def split: option.splits)

datatype date_item = One int | Span int int

fun item_text :: "date_item \<Rightarrow> string" where
  "item_text (One i) = Itoa i"
| "item_text (Span a b) = Itoa a @ CHR ''-'' # Itoa b"

fun item_ok :: "date_item \<Rightarrow> bool" where
  "item_ok (One i) = (0 \<le> i \<and> i < 2 ^ 63)"
| "item_ok (Span a b) = (0 \<le> a \<and> a < 2 ^ 63 \<and> 0 \<le> b \<and> b < 2 ^ 63)"

text \<open>A range may be given in either direction.\<close>

fun item_matches :: "int \<Rightarrow> date_item \<Rightarrow> bool" where
  "item_matches d (One i) = (d = i)"
| "item_matches d (Span a b) = (min a b \<le> d \<and> d \<le> max a b)"

fun items_text :: "date_item list \<Rightarrow> string" where
  "items_text [] = []"
| "items_text [x] = item_text x"
| "items_text (x # y # zs) = item_text x @ CHR '','' # items_text (y # zs)"

lemma digit_char_plain: "d < 10 \<Longrightarrow> digit_char d \<notin> set ''-, '' \<and> \<not> is_blank (digit_char d)"
proof -
  assume "d < 10"
  moreover have "list_all (\<lambda>d. digit_char d \<notin> set ''-, '' \<and> \<not> is_blank (digit_char d)) [0..<10]" by code_simp
  ultimately show ?thesis by (auto simp: list_all_iff)
qed

lemma Itoa_plain:
  assumes "0 \<le> i" "c \<in> set (Itoa i)"
  shows "c \<notin> set ''-, ''" "\<not> is_blank c"
  using assms nat_digits_set [of c "nat i"] digit_char_plain by (auto simp: Itoa_def simp del: set_simps)

lemma trim_plain: "c \<notin> set s \<Longrightarrow> trim_char c s = s"
proof -
  have "dropWhile ((=) c) s = s" if "c \<notin> set s" for s :: string using that by (cases s) auto
  then show "c \<notin> set s \<Longrightarrow> trim_char c s = s" by (simp add: trim_char_def)
qed

lemma item_text_plain:
  assumes "item_ok x" "c \<in> set (item_text x)"
  shows "c \<noteq> CHR '',''" "c \<noteq> CHR '' ''" "\<not> is_blank c"
proof -
  have "c = CHR ''-'' \<or> (\<exists>i\<ge>0. c \<in> set (Itoa i))" using assms by (cases x) auto
  moreover have "\<not> is_blank (CHR ''-'')" by (simp add: is_blank_def)
  ultimately show "c \<noteq> CHR '',''" "c \<noteq> CHR '' ''" "\<not> is_blank c" using Itoa_plain by auto
qed

lemma entry_item:
  assumes "item_ok x"
  shows "entry_matches d m (item_text x) = item_matches d x"
proof -
  have tr: "trim_char (CHR '' '') (item_text x) = item_text x" using item_text_plain(2) [OF assms] by (intro trim_plain) blast
  show ?thesis
  proof (cases x)
    case (One i)
    then have "CHR ''-'' \<notin> set (item_text x)" using Itoa_plain(1) assms by fastforce
    then show ?thesis using tr One assms Atoi_Itoa [of i] by (auto simp: entry_matches_def)
  next
    case (Span a b)
    have nd: "CHR ''-'' \<notin> set (Itoa a)" "CHR ''-'' \<notin> set (Itoa b)" using Itoa_plain(1) assms Span by fastforce+
    have "split_on (CHR ''-'') (item_text x) = [Itoa a, Itoa b]"
      using nd by (simp add: Span split_on_append_sep split_on_no_sep)
    then show ?thesis using tr Span assms Atoi_Itoa [of a] Atoi_Itoa [of b]
      by (auto simp: entry_matches_def equalsDateTimeRange_def Let_def)
  qed
qed

lemma items_split:
  "xs \<noteq> [] \<Longrightarrow> \<forall>x\<in>set xs. item_ok x \<Longrightarrow> split_on (CHR '','') (items_text xs) = map item_text xs"
proof (induction xs rule: items_text.induct)
  case (2 x)
  then show ?case using item_text_plain(1) [of x] by (auto intro: split_on_no_sep)
next
  case (3 x y zs)
  then have "CHR '','' \<notin> set (item_text x)" using item_text_plain(1) [of x "CHR '',''"] by auto
  then show ?case using 3 by (simp add: split_on_append_sep)
qed simp

lemma items_no_blank: "\<forall>x\<in>set xs. item_ok x \<Longrightarrow> filter (\<lambda>c. \<not> is_blank c) (items_text xs) = items_text xs"
proof (induction xs rule: items_text.induct)
  case (2 x)
  then show ?case using item_text_plain(3) [of x] by (simp add: filter_id_conv)
next
  case (3 x y zs)
  then have "filter (\<lambda>c. \<not> is_blank c) (item_text x) = item_text x" using item_text_plain(3) [of x] by (simp add: filter_id_conv)
  moreover have "\<not> is_blank (CHR '','')" by (simp add: is_blank_def)
  ultimately show ?case using 3 by simp
qed simp

section \<open>Properties\<close>

text \<open>
  A list of values and ranges, written out as a schema has it, is read back by \<open>parseDate\<close>: the condition holds
  exactly when the current value is one of the values or lies in one of the ranges, which may be
  given in either direction.
\<close>

lemma parseDate_reads_list:
  assumes "xs \<noteq> []" "\<forall>x\<in>set xs. item_ok x"
  shows "parseDate (items_text xs) d maxVal = list_ex (item_matches d) xs"
proof -
  have "list_ex (entry_matches d maxVal) (map item_text xs) = list_ex (item_matches d) xs"
    using assms(2) entry_item by (induction xs) auto
  then show ?thesis unfolding parseDate_def items_no_blank [OF assms(2)] items_split [OF assms] parseDate_loop_ex .
qed

text \<open>
  The week of the month is the difference of two ISO weeks, which goes wrong where the month starts
  in a week of the year before: on 5 January 2021, a Tuesday, it is -51.
\<close>

lemma week_of_month_negative:
  "numberOfTheWeekInMonth \<lparr>ct_Year = 2021, ct_Month = 1, ct_Day = 5, ct_Hour = 0, ct_Minute = 0, ct_Second = 0, ct_Weekday = 2, ct_UnixNano = 0\<rparr> = - 51"
  by code_simp

end
