(* ===== verification/Text_Laws.thy ===== *)
theory Text_Laws
  imports Text_Subst
begin

text \<open>
  Laws of the text functions: \<open>ParseText\<close> against a reference on parsed templates, the
  percent encoding of \<open>UrlEncoded\<close> against its decoder, and the words a condition may contain
  after \<open>parseExpression\<close>.
\<close>

section \<open>Templates\<close>

datatype segment = Lit string | Var string

fun template_text :: "segment list \<Rightarrow> string" where
  "template_text [] = []"
| "template_text (Lit s # ts) = s @ template_text ts"
| "template_text (Var v # ts) = op_var @ v @ CHR 0x7D # template_text ts"

definition render :: "bool \<Rightarrow> bool \<Rightarrow> string \<Rightarrow> string" where
  "render json uri s = (let out = (if uri \<and> s \<noteq> [] then UrlEncoded s else s)
     in if json \<and> out \<noteq> [] then JsonString [] out True else out)"

fun expand :: "(string \<Rightarrow> string \<times> bool) \<Rightarrow> bool \<Rightarrow> bool \<Rightarrow> segment list \<Rightarrow> string" where
  "expand get json uri [] = []"
| "expand get json uri (Lit s # ts) = s @ expand get json uri ts"
| "expand get json uri (Var v # ts) =
     (if has_suffix v ''.uri()'' then render json True (fst (get (take (length v - 6) v))) @ expand get json True ts
      else render json uri (fst (get v)) @ expand get json uri ts)"

fun segment_ok :: "segment \<Rightarrow> bool" where
  "segment_ok (Lit s) = (CHR 0x24 \<notin> set s)"
| "segment_ok (Var v) = (CHR 0x7D \<notin> set v)"

lemma take_until_at: "c \<notin> set b \<Longrightarrow> take_until c (b @ c # r) = Some (b, r)"
  by (induction b) auto

lemma ReplaceAll_literal:
  "CHR 0x24 \<notin> set s \<Longrightarrow> ReplaceAllStringFunc [op_var] cl cb st (s @ t) = s @ ReplaceAllStringFunc [op_var] cl cb st t"
  by (induction s) (auto simp: has_prefix_def op_var_def)

lemma ReplaceAll_match:
  assumes "cl \<notin> set b"
  shows "ReplaceAllStringFunc [op_var] cl cb st (op_var @ b @ cl # r) =
     fst (cb st op_var b) @ ReplaceAllStringFunc [op_var] cl cb (snd (cb st op_var b)) r"
  using take_until_at [OF assms, of r] by (simp add: op_var_def has_prefix_def split: prod.split)

lemma ParseText_cb_render:
  "ParseText_cb get json uri op v =
     (if has_suffix v ''.uri()'' then (render json True (fst (get (take (length v - 6) v))), True)
      else (render json uri (fst (get v)), uri))"
  by (simp add: ParseText_cb_def render_def Let_def)

lemma ReplaceAll_template:
  "list_all segment_ok ts \<Longrightarrow>
     ReplaceAllStringFunc [op_var] (CHR 0x7D) (ParseText_cb get json) uri (template_text ts) = expand get json uri ts"
proof (induction get json uri ts rule: expand.induct)
  case (3 get json uri v ts)
  then have "CHR 0x7D \<notin> set v" by simp
  from ReplaceAll_match [OF this, of "ParseText_cb get json" uri "template_text ts"] 3
  show ?case using ParseText_cb_render [of get json uri op_var v] by simp
qed (simp_all add: ReplaceAll_literal)

section \<open>Percent encoding\<close>

definition hex_value :: "char \<Rightarrow> nat" where
  "hex_value c = (let n = (of_char c :: nat) in if n < 58 then n - 48 else n - 55)"

text \<open>\<open>decodeURIComponent\<close> on bytes.\<close>

fun uri_decode :: "string \<Rightarrow> string" where
  "uri_decode [] = []"
| "uri_decode (c # cs) =
     (if c = CHR 0x25 then
        (case cs of h # l # r \<Rightarrow> char_of (16 * hex_value h + hex_value l) # uri_decode r | _ \<Rightarrow> c # uri_decode cs)
      else c # uri_decode cs)"

definition uri_chars :: "char set" where
  "uri_chars = {c. is_alnum c} \<union> set ''-_.~!()*'' \<union> {CHR 0x25}"

text \<open>A token of an escaped text: one byte, or a percent sign with two digits.\<close>

definition token :: "string \<Rightarrow> bool" where
  "token t = ((\<exists>c. t = [c] \<and> c \<noteq> CHR 0x25) \<or>
     (\<exists>h l. t = [CHR 0x25, h, l] \<and> h \<noteq> CHR 0x25 \<and> l \<noteq> CHR 0x25 \<and> h \<noteq> CHR ''+'' \<and> l \<noteq> CHR ''+''))"

lemma replace_all_Nil [simp]: "replace_all old new [] = []"
  by (simp add: replace_all.simps)

lemma replace_all_Cons:
  "replace_all old new (c # cs) =
     (if old \<noteq> [] \<and> has_prefix (c # cs) old then new @ replace_all old new (drop (length old) (c # cs))
      else c # replace_all old new cs)"
  by (simp add: replace_all.simps)

definition swap_token :: "string \<Rightarrow> string \<Rightarrow> string \<Rightarrow> string" where
  "swap_token old new t = (if t = old then new else t)"

lemma replace_all_tokens:
  assumes "list_all token ts" "old = ''+'' \<or> (\<exists>h l. old = [CHR 0x25, h, l])"
  shows "replace_all old new (concat ts) = concat (map (swap_token old new) ts)"
  using assms
proof (induction ts)
  case (Cons t ts)
  then have IH: "replace_all old new (concat ts) = concat (map (swap_token old new) ts)" by simp
  have "token t" using Cons.prems by simp
  then consider c where "t = [c]" "c \<noteq> CHR 0x25"
    | h l where "t = [CHR 0x25, h, l]" "h \<noteq> CHR 0x25" "l \<noteq> CHR 0x25" "h \<noteq> CHR ''+''" "l \<noteq> CHR ''+''"
    unfolding token_def by blast
  then show ?case
    by cases (use Cons.prems(2) IH swap_token_def [of old new t] in \<open>auto simp: replace_all_Cons has_prefix_def\<close>)
qed simp

lemma replace_all_forms:
  assumes "list_all token ts"
  shows "replace_all ''+'' new (concat ts) = concat (map (swap_token ''+'' new) ts)"
    "replace_all [CHR 0x25, h, l] new (concat ts) = concat (map (swap_token [CHR 0x25, h, l] new) ts)"
  by (rule replace_all_tokens [OF assms]; simp)+

definition uri_byte :: "char \<Rightarrow> string" where
  "uri_byte c = swap_token [CHR 0x25, CHR ''2'', CHR ''A''] ''*'' (swap_token [CHR 0x25, CHR ''2'', CHR ''9''] '')''
     (swap_token [CHR 0x25, CHR ''2'', CHR ''8''] ''('' (swap_token [CHR 0x25, CHR ''2'', CHR ''1''] ''!''
     (swap_token ''+'' [CHR 0x25, CHR ''2'', CHR ''0''] (query_escape_byte c)))))"

lemma hex_upper_facts:
  assumes "d < 16"
  shows "hex_upper d \<noteq> CHR 0x25" "hex_upper d \<noteq> CHR ''+''" "is_alnum (hex_upper d)" "hex_value (hex_upper d) = d"
proof -
  have "list_all (\<lambda>d. hex_upper d \<noteq> CHR 0x25 \<and> hex_upper d \<noteq> CHR ''+'' \<and> is_alnum (hex_upper d) \<and>
      hex_value (hex_upper d) = d) [0..<16]"
    by code_simp
  then have "hex_upper d \<noteq> CHR 0x25 \<and> hex_upper d \<noteq> CHR ''+'' \<and> is_alnum (hex_upper d) \<and> hex_value (hex_upper d) = d"
    using assms by (simp add: list_all_iff)
  then show "hex_upper d \<noteq> CHR 0x25" "hex_upper d \<noteq> CHR ''+''" "is_alnum (hex_upper d)" "hex_value (hex_upper d) = d"
    by simp_all
qed

lemma byte_less: "(of_char c :: nat) div 16 < 16" "(of_char c :: nat) mod 16 < 16"
  using nat_of_char_less_256 [of c] by (simp_all add: less_mult_imp_div_less)

lemma plain_not_percent: "is_alnum c \<or> c \<in> set ''-_.~'' \<Longrightarrow> c \<noteq> CHR 0x25"
  by (auto simp: is_alnum_def)

lemma query_escape_token: "token (query_escape_byte c)"
  using byte_less [of c] hex_upper_facts(1,2) plain_not_percent [of c]
  by (auto simp: query_escape_byte_def token_def)

lemma token_swap: "list_all token ts \<Longrightarrow> token new \<Longrightarrow> list_all token (map (swap_token old new) ts)"
  by (auto simp: list_all_iff swap_token_def)

lemma UrlEncoded_bytes: "UrlEncoded s = concat (map uri_byte s)"
proof -
  have tk: "list_all token (map query_escape_byte s)" by (simp add: list_all_iff query_escape_token)
  have new: "token [CHR 0x25, CHR ''2'', CHR ''0'']" "token ''!''" "token ''(''" "token '')''" "token ''*''"
    by (simp_all add: token_def)
  have ub: "uri_byte = swap_token [CHR 0x25, CHR ''2'', CHR ''A''] ''*'' \<circ> (swap_token [CHR 0x25, CHR ''2'', CHR ''9''] '')'' \<circ>
      (swap_token [CHR 0x25, CHR ''2'', CHR ''8''] ''('' \<circ> (swap_token [CHR 0x25, CHR ''2'', CHR ''1''] ''!'' \<circ>
      (swap_token ''+'' [CHR 0x25, CHR ''2'', CHR ''0''] \<circ> query_escape_byte))))"
    by (simp add: fun_eq_iff uri_byte_def)
  have "compatibleJSEncodeURIComponent (concat (map query_escape_byte s)) = concat (map uri_byte s)"
    unfolding compatibleJSEncodeURIComponent_def Let_def
    by (simp only: replace_all_forms tk new token_swap simp_thms ub list.map_comp [symmetric])
  moreover have "query_escape_byte c \<noteq> []" for c by (simp add: query_escape_byte_def)
  ultimately show ?thesis by (cases s) (auto simp: UrlEncoded_def QueryEscape_def)
qed

lemma query_escape_percent:
  assumes "query_escape_byte c = [CHR 0x25, h, l]"
  shows "c = char_of (16 * hex_value h + hex_value l)"
proof -
  have "h = hex_upper (of_char c div 16)" "l = hex_upper (of_char c mod 16)"
    using assms by (auto simp: query_escape_byte_def split: if_splits)
  then have "16 * hex_value h + hex_value l = of_char c" using hex_upper_facts(4) byte_less [of c] by simp
  then show ?thesis by simp
qed

lemma kept_bytes:
  "char_of (33 :: nat) = CHR ''!''" "char_of (40 :: nat) = CHR ''(''" "char_of (41 :: nat) = CHR '')''" "char_of (42 :: nat) = CHR ''*''"
  "uri_byte (CHR ''!'') = ''!''" "uri_byte (CHR ''('') = ''(''" "uri_byte (CHR '')'') = '')''" "uri_byte (CHR ''*'') = ''*''"
  by code_simp+

lemma uri_byte_cases:
  "(uri_byte c = [c] \<and> c \<in> uri_chars \<and> c \<noteq> CHR 0x25) \<or>
   (uri_byte c = CHR 0x25 # [hex_upper (of_char c div 16), hex_upper (of_char c mod 16)])"
proof (cases "is_alnum c \<or> c \<in> set ''-_.~''")
  case True
  moreover from True have "c \<noteq> CHR ''+''" by (auto simp: is_alnum_def)
  ultimately show ?thesis using plain_not_percent [OF True]
    by (auto simp: uri_byte_def query_escape_byte_def swap_token_def uri_chars_def)
next
  case False
  let ?q = "CHR 0x25 # [hex_upper (of_char c div 16), hex_upper (of_char c mod 16)]"
  show ?thesis
  proof (cases "c = CHR '' ''")
    case True
    moreover have "uri_byte (CHR '' '') = CHR 0x25 # [hex_upper (of_char (CHR '' '') div 16), hex_upper (of_char (CHR '' '') mod 16)]" by code_simp
    ultimately show ?thesis by blast
  next
    case no: False
    then have q: "query_escape_byte c = ?q" using False by (simp add: query_escape_byte_def)
    show ?thesis
    proof (cases "?q \<in> {[CHR 0x25, CHR ''2'', CHR ''1''], [CHR 0x25, CHR ''2'', CHR ''8''], [CHR 0x25, CHR ''2'', CHR ''9''], [CHR 0x25, CHR ''2'', CHR ''A'']}")
      case True
      then have "c \<in> set ''!()*''" using query_escape_percent [of c] q by (auto simp: hex_value_def kept_bytes)
      moreover from this have "uri_byte c = [c]" by (auto simp: kept_bytes)
      ultimately show ?thesis by (auto simp: uri_chars_def)
    next
      case False
      then have "uri_byte c = ?q" by (simp add: uri_byte_def q swap_token_def)
      then show ?thesis by blast
    qed
  qed
qed

lemma uri_decode_UrlEncoded: "uri_decode (UrlEncoded s) = s"
  unfolding UrlEncoded_bytes
proof (induction s)
  case (Cons c s)
  have "16 * (of_char c div 16) + of_char c mod 16 = (of_char c :: nat)" by simp
  then show ?case using uri_byte_cases [of c] Cons.IH hex_upper_facts(4) byte_less [of c] by auto
qed simp

section \<open>Words of a condition\<close>

function words_of :: "string \<Rightarrow> string list" where
  "words_of [] = []"
| "words_of (c # cs) =
     (if is_word c then takeWhile is_word (c # cs) # words_of (dropWhile is_word (c # cs)) else words_of cs)"
  by pat_completeness auto
termination
  by (relation "measure length") (auto simp: le_imp_less_Suc length_dropWhile_le)

lemma words_of_append:
  assumes "w \<noteq> []" "list_all is_word w" "r = [] \<or> \<not> is_word (hd r)"
  shows "words_of (w @ r) = w # words_of r"
proof -
  obtain c cs where w: "w = c # cs" using assms(1) by (cases w) auto
  have "takeWhile is_word (w @ r) = w" "dropWhile is_word (w @ r) = r"
    using assms(2,3) by (simp_all add: list_all_iff takeWhile_append dropWhile_append) (cases r; simp)+
  then show ?thesis using assms(2) by (simp add: w)
qed

lemma remove_words_hd: "s = [] \<or> \<not> is_word (hd s) \<Longrightarrow> remove_words ws s = [] \<or> \<not> is_word (hd (remove_words ws s))"
  by (cases s) auto

lemma words_of_remove: "words_of (remove_words ws s) = filter (\<lambda>w. w \<notin> set ws) (words_of s)"
proof (induction ws s rule: remove_words.induct)
  case (2 ws c cs)
  show ?case
  proof (cases "is_word c")
    case True
    let ?w = "takeWhile is_word (c # cs)" and ?r = "dropWhile is_word (c # cs)"
    have "?r = [] \<or> \<not> is_word (hd ?r)" using hd_dropWhile by blast
    from remove_words_hd [OF this]
    have "words_of (?w @ remove_words ws ?r) = ?w # words_of (remove_words ws ?r)"
      using True by (intro words_of_append) (auto simp: list_all_iff dest: set_takeWhileD)
    then show ?thesis using 2(1) [OF True refl refl] True by (simp del: takeWhile.simps dropWhile.simps)
  qed (use 2 in simp)
qed simp

section \<open>Properties\<close>

text \<open>
  C8: \<open>ParseText\<close> on the text of a template leaves the literal parts as they are and puts the value
  of each variable in its place, encoded for URLs from the first variable with the suffix
  \<open>.uri()\<close> on (not only for that variable) and escaped for JSON when the option asks for it.
\<close>

theorem ParseText_template:
  assumes "list_all segment_ok ts"
  shows "ParseText get (template_text ts) ops = expand get (hasOption ParseOptionJson ops) False ts"
  unfolding ParseText_def by (rule ReplaceAll_template [OF assms])

theorem ParseText_template_witness:
  "ParseText (\<lambda>v. (if v = ''x'' then ''a b'' else ''c d'', True))
     (template_text [Lit ''q='', Var ''y'', Lit ''&'', Var ''x.uri()'', Lit ''&'', Var ''y'']) [] =
   ''q=c d&a'' @ CHR 0x25 # ''20b&c'' @ CHR 0x25 # ''20d''"
proof -
  let ?ts = "[Lit ''q='', Var ''y'', Lit ''&'', Var ''x.uri()'', Lit ''&'', Var ''y'']"
  let ?get = "\<lambda>v. (if v = ''x'' then ''a b'' else ''c d'', True)"
  have "list_all segment_ok ?ts" by code_simp
  moreover have "expand ?get (hasOption ParseOptionJson []) False ?ts = ''q=c d&a'' @ CHR 0x25 # ''20b&c'' @ CHR 0x25 # ''20d''"
    by code_simp
  ultimately show ?thesis using ParseText_template [of ?ts ?get "[]"] by simp
qed

text \<open>
  \<open>UrlEncoded\<close> loses nothing: decoding its result gives the text back, and the result
  holds only letters, digits, the marks that JavaScript's \<open>encodeURIComponent\<close> keeps (but the
  apostrophe) and percent signs.
\<close>

lemma UrlEncoded_round_trip: "uri_decode (UrlEncoded s) = s \<and> set (UrlEncoded s) \<subseteq> uri_chars"
proof -
  have "set (uri_byte c) \<subseteq> uri_chars" for c
    using uri_byte_cases [of c] hex_upper_facts(3) byte_less [of c] by (auto simp: uri_chars_def)
  then show ?thesis unfolding UrlEncoded_bytes by (auto simp: uri_decode_UrlEncoded [unfolded UrlEncoded_bytes])
qed

text \<open>
  C9: The condition handed to the script engine contains none of the protected words, whatever
  the schema's expression was (as a whole word; also none that only appears when another is
  removed).
\<close>

theorem parseExpression_no_protected: "set (words_of (parseExpression ex)) \<inter> set protected_words = {}"
  by (auto simp: parseExpression_def Let_def words_of_remove)

end
