(* ===== verification/Lru_Cache.thy ===== *)
theory Lru_Cache
  imports Flow_Prelude
begin

text \<open>
  The cache of \<open>model/lru.go\<close>: a list of entries in the order of use, a map from keys to
  list elements, a generation that \<open>Purge\<close> moves on instead of clearing, and a count of
  the entries of the current generation.

  A \<open>*list.Element\<close> is an identifier drawn from a counter, so that the map of the items
  and the list are linked the way the pointers link them.  The clock is an argument, in seconds.
\<close>

section \<open>State\<close>

record ('k, 'v) lru_entry =
  en_key :: 'k
  en_value :: 'v
  en_expireAtSecs :: int
  en_generation :: int

record ('k, 'v) lru =
  lru_size :: int
  lru_evictList :: "(nat \<times> ('k, 'v) lru_entry) list"
  lru_items :: "'k \<Rightarrow> nat option"
  lru_name :: string
  lru_defaultExpiry :: int
  lru_invalidateClusterEvent :: string
  lru_currentGeneration :: int
  lru_len :: int
  lru_next :: nat

definition NewLru :: "int \<Rightarrow> ('k, 'v) lru" where
  "NewLru sz = \<lparr>lru_size = sz, lru_evictList = [], lru_items = (\<lambda>_. None), lru_name = [],
     lru_defaultExpiry = 0, lru_invalidateClusterEvent = [], lru_currentGeneration = 0, lru_len = 0, lru_next = 0\<rparr>"

definition NewLruWithParams :: "int \<Rightarrow> string \<Rightarrow> int \<Rightarrow> string \<Rightarrow> ('k, 'v) lru" where
  "NewLruWithParams sz name defaultExpiry ev =
     (NewLru sz)\<lparr>lru_name := name, lru_defaultExpiry := defaultExpiry, lru_invalidateClusterEvent := ev\<rparr>"

section \<open>container/list\<close>

definition list_Remove :: "nat \<Rightarrow> (nat \<times> 'e) list \<Rightarrow> (nat \<times> 'e) list" where
  "list_Remove i xs = filter (\<lambda>x. fst x \<noteq> i) xs"

definition MoveToFront :: "nat \<Rightarrow> (nat \<times> 'e) list \<Rightarrow> (nat \<times> 'e) list" where
  "MoveToFront i xs = (case map_of xs i of None \<Rightarrow> xs | Some e \<Rightarrow> (i, e) # list_Remove i xs)"

definition set_elem :: "nat \<Rightarrow> 'e \<Rightarrow> (nat \<times> 'e) list \<Rightarrow> (nat \<times> 'e) list" where
  "set_elem i e xs = map (\<lambda>x. if fst x = i then (i, e) else x) xs"

section \<open>Operations\<close>

definition lru_Purge :: "('k, 'v) lru \<Rightarrow> ('k, 'v) lru" where
  "lru_Purge c = c\<lparr>lru_len := 0, lru_currentGeneration := lru_currentGeneration c + 1\<rparr>"

definition removeElement :: "nat \<Rightarrow> ('k, 'v) lru \<Rightarrow> ('k, 'v) lru" where
  "removeElement i c =
     (case map_of (lru_evictList c) i of
        None \<Rightarrow> c
      | Some kv \<Rightarrow>
          c\<lparr>lru_evictList := list_Remove i (lru_evictList c),
            lru_len := (if en_generation kv = lru_currentGeneration c then lru_len c - 1 else lru_len c),
            lru_items := (lru_items c)(en_key kv := None)\<rparr>)"

definition AddWithExpiresInSecs :: "int \<Rightarrow> 'k \<Rightarrow> 'v \<Rightarrow> int \<Rightarrow> ('k, 'v) lru \<Rightarrow> ('k, 'v) lru" where
  "AddWithExpiresInSecs now key value expireAtSecs c =
     (let expireAt = (if expireAtSecs > 0 then now + expireAtSecs else expireAtSecs)
      in case lru_items c key of
           Some i \<Rightarrow>
             (case map_of (lru_evictList c) i of
                None \<Rightarrow> c
              | Some e \<Rightarrow>
                  (let e' = e\<lparr>en_value := value, en_expireAtSecs := expireAt, en_generation := lru_currentGeneration c\<rparr>
                   in c\<lparr>lru_evictList := set_elem i e' (MoveToFront i (lru_evictList c)),
                        lru_len := (if en_generation e \<noteq> lru_currentGeneration c then lru_len c + 1 else lru_len c)\<rparr>))
         | None \<Rightarrow>
             (let ent = \<lparr>en_key = key, en_value = value, en_expireAtSecs = expireAt,
                         en_generation = lru_currentGeneration c\<rparr>;
                  i = lru_next c;
                  c1 = c\<lparr>lru_evictList := (i, ent) # lru_evictList c, lru_items := (lru_items c)(key \<mapsto> i),
                         lru_len := lru_len c + 1, lru_next := i + 1\<rparr>
              in if int (length (lru_evictList c1)) > lru_size c1
                 then removeElement (fst (last (lru_evictList c1))) c1 else c1))"

definition lru_Add :: "int \<Rightarrow> 'k \<Rightarrow> 'v \<Rightarrow> ('k, 'v) lru \<Rightarrow> ('k, 'v) lru" where
  "lru_Add now key value c = AddWithExpiresInSecs now key value 0 c"

definition AddWithDefaultExpires :: "int \<Rightarrow> 'k \<Rightarrow> 'v \<Rightarrow> ('k, 'v) lru \<Rightarrow> ('k, 'v) lru" where
  "AddWithDefaultExpires now key value c = AddWithExpiresInSecs now key value (lru_defaultExpiry c) c"

definition lru_Get :: "int \<Rightarrow> 'k \<Rightarrow> ('k, 'v) lru \<Rightarrow> 'v option \<times> ('k, 'v) lru" where
  "lru_Get now key c =
     (case lru_items c key of
        None \<Rightarrow> (None, c)
      | Some i \<Rightarrow>
          (case map_of (lru_evictList c) i of
             None \<Rightarrow> (None, c)
           | Some e \<Rightarrow>
               if en_generation e \<noteq> lru_currentGeneration c \<or> (en_expireAtSecs e > 0 \<and> now > en_expireAtSecs e)
               then (None, removeElement i c)
               else (Some (en_value e), c\<lparr>lru_evictList := MoveToFront i (lru_evictList c)\<rparr>)))"

definition lru_Remove :: "'k \<Rightarrow> ('k, 'v) lru \<Rightarrow> ('k, 'v) lru" where
  "lru_Remove key c = (case lru_items c key of None \<Rightarrow> c | Some i \<Rightarrow> removeElement i c)"

text \<open>
  \<open>Keys\<close> fills a slice of length \<open>len\<close> from the back of the list; \<open>None\<close> is the panic of
  an index beyond it, an unfilled place stays nil.
\<close>

fun Keys_loop :: "int \<Rightarrow> (nat \<times> ('k, 'v) lru_entry) list \<Rightarrow> nat \<Rightarrow> 'k option list \<Rightarrow> 'k option list option" where
  "Keys_loop gen [] i keys = Some keys"
| "Keys_loop gen ((p, e) # xs) i keys =
     (if en_generation e = gen then
        (if i < length keys then Keys_loop gen xs (i + 1) (keys[i := Some (en_key e)]) else None)
      else Keys_loop gen xs i keys)"

definition lru_Keys :: "('k, 'v) lru \<Rightarrow> 'k option list option" where
  "lru_Keys c =
     (if lru_len c < 0 then None
      else Keys_loop (lru_currentGeneration c) (rev (lru_evictList c)) 0 (replicate (nat (lru_len c)) None))"

definition lru_Len :: "('k, 'v) lru \<Rightarrow> int" where
  "lru_Len c = lru_len c"

section \<open>Invariant\<close>

definition live_elems :: "('k, 'v) lru \<Rightarrow> (nat \<times> ('k, 'v) lru_entry) set" where
  "live_elems c = {x \<in> set (lru_evictList c). en_generation (snd x) = lru_currentGeneration c}"

definition lru_links :: "('k, 'v) lru \<Rightarrow> bool" where
  "lru_links c = (distinct (map fst (lru_evictList c)) \<and> inj_on (\<lambda>x. en_key (snd x)) (set (lru_evictList c)) \<and>
     (\<forall>k i. lru_items c k = Some i \<longleftrightarrow> (\<exists>e. (i, e) \<in> set (lru_evictList c) \<and> en_key e = k)) \<and>
     lru_len c = int (card (live_elems c)) \<and>
     (\<forall>x\<in>set (lru_evictList c). fst x < lru_next c \<and> en_generation (snd x) \<le> lru_currentGeneration c))"

definition lru_inv :: "('k, 'v) lru \<Rightarrow> bool" where
  "lru_inv c = (lru_links c \<and> int (length (lru_evictList c)) \<le> max 0 (lru_size c))"

text \<open>The content: what a lookup may find, whatever the clock says.\<close>

definition content :: "('k, 'v) lru \<Rightarrow> 'k \<Rightarrow> ('v \<times> int) option" where
  "content c k =
     (case lru_items c k of None \<Rightarrow> None
      | Some i \<Rightarrow> (case map_of (lru_evictList c) i of None \<Rightarrow> None
                  | Some e \<Rightarrow> if en_generation e = lru_currentGeneration c
                             then Some (en_value e, en_expireAtSecs e) else None))"

definition alive :: "int \<Rightarrow> 'v \<times> int \<Rightarrow> bool" where
  "alive now x = (snd x > 0 \<longrightarrow> now \<le> snd x)"

section \<open>Lists of elements\<close>

lemma set_list_Remove: "set (list_Remove i xs) = {x \<in> set xs. fst x \<noteq> i}"
  by (auto simp: list_Remove_def)

lemma distinct_list_Remove: "distinct (map fst xs) \<Longrightarrow> distinct (map fst (list_Remove i xs))"
  by (simp add: list_Remove_def distinct_map_filter)

lemma length_list_Remove_le: "length (list_Remove i xs) \<le> length xs"
  by (simp add: list_Remove_def)

lemma length_list_Remove: "map_of xs i = Some e \<Longrightarrow> length (list_Remove i xs) < length xs"
  unfolding list_Remove_def by (rule length_filter_less [OF map_of_SomeD]) simp_all

lemma MoveToFront_eq:
  "map_of xs i = Some e \<Longrightarrow> MoveToFront i xs = (i, e) # list_Remove i xs"
  by (simp add: MoveToFront_def)

lemma MoveToFront_facts:
  assumes d: "distinct (map fst xs)" and m: "map_of xs i = Some e"
  shows "set (MoveToFront i xs) = set xs" "distinct (map fst (MoveToFront i xs))"
    "length (MoveToFront i xs) = length xs"
proof -
  have e: "x = (i, e)" if "x \<in> set xs" "fst x = i" for x
  proof -
    obtain a b where x: "x = (a, b)" by force
    then show ?thesis using map_of_is_SomeI [OF d, of a b] that m by simp
  qed
  then show s: "set (MoveToFront i xs) = set xs"
    using map_of_SomeD [OF m] unfolding MoveToFront_eq [OF m] list.set set_list_Remove by blast
  show d': "distinct (map fst (MoveToFront i xs))"
    using distinct_list_Remove [OF d] by (auto simp: MoveToFront_eq [OF m] set_list_Remove)
  have "card (set (MoveToFront i xs)) = card (set xs)" using s by simp
  moreover have "distinct xs" "distinct (MoveToFront i xs)" using d d' by (auto simp: distinct_map)
  ultimately show "length (MoveToFront i xs) = length xs" by (simp add: distinct_card)
qed

lemma set_elem_facts:
  "map fst (set_elem i e xs) = map fst xs" "length (set_elem i e xs) = length xs"
  "x \<in> set (set_elem i e xs) \<longleftrightarrow> (x = (i, e) \<and> i \<in> fst ` set xs) \<or> (x \<in> set xs \<and> fst x \<noteq> i)"
  by (force simp: set_elem_def image_iff)+

section \<open>Lookups\<close>

lemma lru_elem:
  assumes "lru_links c" "lru_items c k = Some i"
  obtains e where "map_of (lru_evictList c) i = Some e" "en_key e = k" "(i, e) \<in> set (lru_evictList c)"
proof -
  from assms obtain e where e: "(i, e) \<in> set (lru_evictList c)" "en_key e = k" unfolding lru_links_def by blast
  moreover have "map_of (lru_evictList c) i = Some e" using assms e by (auto simp: lru_links_def)
  ultimately show ?thesis using that by blast
qed

lemma lru_same_elem:
  assumes "lru_links c" "(i, e) \<in> set (lru_evictList c)" "(j, e') \<in> set (lru_evictList c)" "i = j \<or> en_key e = en_key e'"
  shows "i = j \<and> e = e'"
proof -
  have d: "distinct (map fst (lru_evictList c))" and inj: "inj_on (\<lambda>x. en_key (snd x)) (set (lru_evictList c))"
    using assms(1) by (simp_all add: lru_links_def)
  show ?thesis
  proof (cases "i = j")
    case True
    then show ?thesis using map_of_is_SomeI [OF d assms(2)] map_of_is_SomeI [OF d assms(3)] by simp
  next
    case False
    then show ?thesis using inj_onD [OF inj _ assms(2,3)] assms(4) by simp
  qed
qed

lemma content_iff:
  assumes "lru_links c"
  shows "content c k = Some (v, x) \<longleftrightarrow> (\<exists>i e. (i, e) \<in> live_elems c \<and> en_key e = k \<and> en_value e = v \<and> en_expireAtSecs e = x)"
proof (cases "lru_items c k")
  case None
  then have "\<not> (\<exists>i e. (i, e) \<in> set (lru_evictList c) \<and> en_key e = k)"
    using assms unfolding lru_links_def by (metis option.distinct(1))
  then show ?thesis using None by (auto simp: content_def live_elems_def)
next
  case (Some i)
  from assms Some obtain e where e: "map_of (lru_evictList c) i = Some e" "en_key e = k" "(i, e) \<in> set (lru_evictList c)"
    by (rule lru_elem)
  have u: "j = i \<and> e' = e" if "(j, e') \<in> set (lru_evictList c)" "en_key e' = k" for j e'
    using lru_same_elem [OF assms that(1) e(3)] that(2) e(2) by simp
  have "content c k = Some (v, x) \<longleftrightarrow> en_generation e = lru_currentGeneration c \<and> en_value e = v \<and> en_expireAtSecs e = x"
    by (simp add: content_def Some e(1))
  moreover have "(\<exists>i e. (i, e) \<in> live_elems c \<and> en_key e = k \<and> en_value e = v \<and> en_expireAtSecs e = x) \<longleftrightarrow>
      en_generation e = lru_currentGeneration c \<and> en_value e = v \<and> en_expireAtSecs e = x"
    using e u unfolding live_elems_def by (metis (mono_tags, lifting) mem_Collect_eq snd_conv)
  ultimately show ?thesis by blast
qed

lemma content_eqI:
  assumes "lru_links c" "lru_links c'" "live_elems c' = live_elems c"
  shows "content c' = content c"
proof
  fix k
  have "content c' k = Some y \<longleftrightarrow> content c k = Some y" for y
    using content_iff [OF assms(1), of k "fst y" "snd y"] content_iff [OF assms(2), of k "fst y" "snd y"] assms(3)
    by (cases y) simp
  then show "content c' k = content c k" by (metis option.exhaust)
qed

section \<open>Every operation keeps the invariant\<close>

lemma NewLru_inv: "lru_inv (NewLruWithParams sz name d ev)"
  by (simp add: lru_inv_def lru_links_def NewLruWithParams_def NewLru_def live_elems_def)

lemma live_finite: "finite (live_elems c)"
  by (simp add: live_elems_def)

lemma lru_linksI:
  assumes "distinct (map fst (lru_evictList c))" "inj_on (\<lambda>x. en_key (snd x)) (set (lru_evictList c))"
    "\<And>k i. lru_items c k = Some i \<longleftrightarrow> (\<exists>e. (i, e) \<in> set (lru_evictList c) \<and> en_key e = k)"
    "lru_len c = int (card (live_elems c))"
    "\<And>i e. (i, e) \<in> set (lru_evictList c) \<Longrightarrow> i < lru_next c \<and> en_generation e \<le> lru_currentGeneration c"
  shows "lru_links c"
  unfolding lru_links_def using assms by auto

lemma lru_linksD:
  assumes "lru_links c"
  shows "distinct (map fst (lru_evictList c))" "inj_on (\<lambda>x. en_key (snd x)) (set (lru_evictList c))"
    "lru_items c k = Some i \<longleftrightarrow> (\<exists>e. (i, e) \<in> set (lru_evictList c) \<and> en_key e = k)"
    "lru_len c = int (card (live_elems c))"
    "(i, e) \<in> set (lru_evictList c) \<Longrightarrow> i < lru_next c \<and> en_generation e \<le> lru_currentGeneration c"
  using assms unfolding lru_links_def by auto

lemma card_live_remove:
  assumes "(i, e) \<in> set (lru_evictList c)"
  shows "int (card (live_elems c - {(i, e)})) =
     (if en_generation e = lru_currentGeneration c then int (card (live_elems c)) - 1 else int (card (live_elems c)))"
proof (cases "en_generation e = lru_currentGeneration c")
  case True
  then have "(i, e) \<in> live_elems c" using assms by (simp add: live_elems_def)
  then show ?thesis using True live_finite [of c] card_Suc_Diff1 [of "live_elems c" "(i, e)"] by simp
next
  case False
  then have "(i, e) \<notin> live_elems c" by (simp add: live_elems_def)
  then show ?thesis using False by simp
qed

lemma removeElement_facts:
  assumes w: "lru_links c" and m: "map_of (lru_evictList c) i = Some e"
  shows "lru_links (removeElement i c)" "live_elems (removeElement i c) = live_elems c - {(i, e)}"
    "length (lru_evictList (removeElement i c)) < length (lru_evictList c)"
proof -
  let ?c = "removeElement i c"
  note D = lru_linksD [OF w]
  have ie: "(i, e) \<in> set (lru_evictList c)" using m by (rule map_of_SomeD)
  note only = lru_same_elem [OF w _ ie]
  have L: "lru_evictList ?c = list_Remove i (lru_evictList c)" "lru_currentGeneration ?c = lru_currentGeneration c"
      "lru_items ?c = (lru_items c)(en_key e := None)" "lru_size ?c = lru_size c" "lru_next ?c = lru_next c"
      "lru_len ?c = (if en_generation e = lru_currentGeneration c then lru_len c - 1 else lru_len c)"
    by (simp_all add: removeElement_def m)
  have S: "(j, x) \<in> set (lru_evictList ?c) \<longleftrightarrow> (j, x) \<in> set (lru_evictList c) \<and> (j, x) \<noteq> (i, e)" for j x
    using only [of j x] by (auto simp: L(1) set_list_Remove)
  then have S': "set (lru_evictList ?c) = set (lru_evictList c) - {(i, e)}" by auto
  show live: "live_elems ?c = live_elems c - {(i, e)}" using S by (auto simp: live_elems_def L(2))
  show len: "length (lru_evictList ?c) < length (lru_evictList c)" unfolding L(1) by (rule length_list_Remove [OF m])
  show "lru_links ?c"
  proof (rule lru_linksI)
    show "distinct (map fst (lru_evictList ?c))" unfolding L(1) by (rule distinct_list_Remove [OF D(1)])
    show "inj_on (\<lambda>x. en_key (snd x)) (set (lru_evictList ?c))" unfolding S' by (rule inj_on_subset [OF D(2)]) blast
    show "lru_items ?c k = Some j \<longleftrightarrow> (\<exists>x. (j, x) \<in> set (lru_evictList ?c) \<and> en_key x = k)" for k j
    proof (cases "k = en_key e")
      case True
      then show ?thesis using only [of j] by (auto simp: L(3) S)
    next
      case False
      then show ?thesis using D(3) [of k j] by (auto simp: L(3) S)
    qed
    show "lru_len ?c = int (card (live_elems ?c))" unfolding live card_live_remove [OF ie] L(6) D(4) by simp
    show "(j, x) \<in> set (lru_evictList ?c) \<Longrightarrow> j < lru_next ?c \<and> en_generation x \<le> lru_currentGeneration ?c" for j x
      using D(5) [of j x] by (simp add: S L(2,5))
  qed
qed

text \<open>Moving an element to the front changes nothing but the order.\<close>

lemma moved_facts:
  assumes w: "lru_links c" and m: "map_of (lru_evictList c) i = Some e"
  defines "c' \<equiv> c\<lparr>lru_evictList := MoveToFront i (lru_evictList c)\<rparr>"
  shows "lru_links c'" "live_elems c' = live_elems c"
proof -
  note M = MoveToFront_facts [OF lru_linksD(1) [OF w] m]
  show live: "live_elems c' = live_elems c" by (simp add: live_elems_def c'_def M(1))
  show "lru_links c'"
    using w M live unfolding lru_links_def c'_def by simp
qed

lemma set_elem_inv:
  assumes w: "lru_links c" and m: "map_of (lru_evictList c) i = Some e"
    and e': "en_key e' = en_key e" "en_generation e' = lru_currentGeneration c"
  defines "c' \<equiv> c\<lparr>lru_evictList := set_elem i e' (lru_evictList c),
     lru_len := (if en_generation e \<noteq> lru_currentGeneration c then lru_len c + 1 else lru_len c)\<rparr>"
  shows "lru_links c'" "live_elems c' = insert (i, e') (live_elems c - {(i, e)})"
proof -
  note D = lru_linksD [OF w]
  have ie: "(i, e) \<in> set (lru_evictList c)" using m by (rule map_of_SomeD)
  then have fi: "i \<in> fst ` set (lru_evictList c)" by force
  note only = lru_same_elem [OF w _ ie]
  have S: "(j, x) \<in> set (lru_evictList c') \<longleftrightarrow> (j, x) = (i, e') \<or> (j, x) \<in> set (lru_evictList c) \<and> (j, x) \<noteq> (i, e)" for j x
    using only [of j x] fi by (auto simp: c'_def set_elem_facts(3))
  have L: "lru_currentGeneration c' = lru_currentGeneration c" "lru_items c' = lru_items c" "lru_size c' = lru_size c"
      "lru_next c' = lru_next c" "length (lru_evictList c') = length (lru_evictList c)"
      "map fst (lru_evictList c') = map fst (lru_evictList c)"
    by (simp_all add: c'_def set_elem_facts)
  show live: "live_elems c' = insert (i, e') (live_elems c - {(i, e)})"
    using e'(2) S unfolding live_elems_def L(1) by auto
  have "(i, e') \<notin> live_elems c - {(i, e)}" using only [of i e'] by (auto simp: live_elems_def)
  then have card: "int (card (live_elems c')) = int (card (live_elems c - {(i, e)})) + 1"
    unfolding live using live_finite [of c] by simp
  show "lru_links c'"
  proof (rule lru_linksI)
    show "distinct (map fst (lru_evictList c'))" unfolding L(6) by (rule D(1))
    show "inj_on (\<lambda>x. en_key (snd x)) (set (lru_evictList c'))"
    proof (rule inj_onI)
      fix p q assume pq: "p \<in> set (lru_evictList c')" "q \<in> set (lru_evictList c')" "en_key (snd p) = en_key (snd q)"
      obtain a x b y where xy: "p = (a, x)" "q = (b, y)" by force
      have old: "(a, x) = (b, y)" if "(a, x) \<in> set (lru_evictList c)" "(b, y) \<in> set (lru_evictList c)"
        using lru_same_elem [OF w that] pq(3) xy by simp
      have new: "(j, z) = (i, e)" if "(j, z) \<in> set (lru_evictList c)" "en_key z = en_key e'" for j z
        using only [OF that(1)] that(2) e'(1) by simp
      have P: "(a, x) = (i, e') \<or> (a, x) \<in> set (lru_evictList c) \<and> (a, x) \<noteq> (i, e)"
        and Q: "(b, y) = (i, e') \<or> (b, y) \<in> set (lru_evictList c) \<and> (b, y) \<noteq> (i, e)"
        and K: "en_key x = en_key y"
        using S pq xy by (blast, blast, simp)
      have "(a, x) = (b, y)" using P Q K old new [of a x] new [of b y] by (metis Pair_inject)
      then show "p = q" using xy by simp
    qed
    show "lru_items c' k = Some j \<longleftrightarrow> (\<exists>x. (j, x) \<in> set (lru_evictList c') \<and> en_key x = k)" for k j
    proof (cases "k = en_key e")
      case True
      have "(\<exists>x. (j, x) \<in> set (lru_evictList c) \<and> en_key x = k) \<longleftrightarrow> j = i" using ie only [of j] True by metis
      moreover have "(\<exists>x. (j, x) \<in> set (lru_evictList c') \<and> en_key x = k) \<longleftrightarrow> j = i"
        using only [of j] True e'(1) unfolding S prod.inject by metis
      ultimately show ?thesis using D(3) [of k j] by (simp add: L(2))
    next
      case False
      then show ?thesis using D(3) [of k j] e'(1) unfolding L(2) S by auto
    qed
    show "lru_len c' = int (card (live_elems c'))"
      unfolding card card_live_remove [OF ie] using D(4) by (simp add: c'_def)
    show "(j, x) \<in> set (lru_evictList c') \<Longrightarrow> j < lru_next c' \<and> en_generation x \<le> lru_currentGeneration c'" for j x
      using D(5) [of j x] D(5) [OF ie] e'(2) unfolding S L(1,4) by auto
  qed
qed

text \<open>Putting a fresh element in front.\<close>

lemma pushed_inv:
  assumes w: "lru_links c" and k: "lru_items c key = None"
    and ent: "en_key ent = key" "en_generation ent = lru_currentGeneration c"
  defines "c' \<equiv> c\<lparr>lru_evictList := (lru_next c, ent) # lru_evictList c, lru_items := (lru_items c)(key \<mapsto> lru_next c),
     lru_len := lru_len c + 1, lru_next := lru_next c + 1\<rparr>"
  shows "lru_links c'" "live_elems c' = insert (lru_next c, ent) (live_elems c)"
proof -
  note D = lru_linksD [OF w]
  have L: "lru_evictList c' = (lru_next c, ent) # lru_evictList c" "lru_currentGeneration c' = lru_currentGeneration c"
      "lru_items c' = (lru_items c)(key \<mapsto> lru_next c)" "lru_size c' = lru_size c" "lru_next c' = lru_next c + 1"
      "lru_len c' = lru_len c + 1"
    by (simp_all add: c'_def)
  have fresh: "(lru_next c, x) \<notin> set (lru_evictList c)" for x using D(5) by blast
  have nokey: "en_key x \<noteq> key" if "(j, x) \<in> set (lru_evictList c)" for j x
    using D(3) [of key j] that k by auto
  show live: "live_elems c' = insert (lru_next c, ent) (live_elems c)"
    using ent(2) by (auto simp: live_elems_def L(1,2))
  show "lru_links c'"
  proof (rule lru_linksI)
    show "distinct (map fst (lru_evictList c'))" using D(1) fresh by (auto simp: L(1))
    show "inj_on (\<lambda>x. en_key (snd x)) (set (lru_evictList c'))"
      using D(2) nokey ent(1) by (force simp: L(1))
    show "lru_items c' a = Some j \<longleftrightarrow> (\<exists>x. (j, x) \<in> set (lru_evictList c') \<and> en_key x = a)" for a j
    proof (cases "a = key")
      case True
      then show ?thesis using nokey [of j] ent(1) by (auto simp: L(1,3))
    next
      case False
      then show ?thesis using D(3) [of a j] ent(1) by (auto simp: L(1,3))
    qed
    have "(lru_next c, ent) \<notin> live_elems c" using fresh by (simp add: live_elems_def)
    then show "lru_len c' = int (card (live_elems c'))" using D(4) live_finite [of c] by (simp add: live L(6))
    show "(j, x) \<in> set (lru_evictList c') \<Longrightarrow> j < lru_next c' \<and> en_generation x \<le> lru_currentGeneration c'" for j x
      using D(5) [of j x] ent(2) by (auto simp: L(1,2,5))
  qed
qed

section \<open>The operations, seen through the content\<close>

lemma content_remove:
  assumes w: "lru_links c" and m: "map_of (lru_evictList c) i = Some e"
  shows "content (removeElement i c) = (content c)(en_key e := None)"
proof
  fix k
  note R = removeElement_facts [OF w m]
  have ie: "(i, e) \<in> set (lru_evictList c)" using m by (rule map_of_SomeD)
  have "content (removeElement i c) k = Some y \<longleftrightarrow> ((content c)(en_key e := None)) k = Some y" for y
  proof (cases "k = en_key e")
    case True
    have "(j, x) \<notin> live_elems c - {(i, e)} \<or> en_key x \<noteq> k" for j x
      using lru_same_elem [OF w _ ie, of j x] True by (auto simp: live_elems_def)
    then show ?thesis using content_iff [OF R(1), of k "fst y" "snd y"] True unfolding R(2) by (cases y) auto
  next
    case False
    then show ?thesis
      using content_iff [OF R(1), of k "fst y" "snd y"] content_iff [OF w, of k "fst y" "snd y"] unfolding R(2)
      by (cases y) auto
  qed
  then show "content (removeElement i c) k = ((content c)(en_key e := None)) k" by (metis option.exhaust)
qed

lemma lru_Remove_facts:
  assumes w: "lru_inv c"
  shows "lru_inv (lru_Remove k c)" "content (lru_Remove k c) = (content c)(k := None)"
proof -
  have l: "lru_links c" using w by (simp add: lru_inv_def)
  have "lru_inv (lru_Remove k c) \<and> content (lru_Remove k c) = (content c)(k := None)"
  proof (cases "lru_items c k")
    case None
    then show ?thesis using w by (auto simp: lru_Remove_def content_def)
  next
    case (Some i)
    from l Some obtain e where e: "map_of (lru_evictList c) i = Some e" "en_key e = k" by (rule lru_elem)
    note R = removeElement_facts [OF l e(1)]
    have "lru_size (removeElement i c) = lru_size c" by (simp add: removeElement_def e(1))
    then show ?thesis
      using R(1,3) w content_remove [OF l e(1)] Some e(2) by (simp add: lru_Remove_def lru_inv_def)
  qed
  then show "lru_inv (lru_Remove k c)" "content (lru_Remove k c) = (content c)(k := None)" by blast+
qed

lemma lru_Purge_facts:
  assumes w: "lru_inv c"
  shows "lru_inv (lru_Purge c)" "content (lru_Purge c) = Map.empty"
proof -
  have l: "lru_links c" using w by (simp add: lru_inv_def)
  have old: "en_generation x \<noteq> lru_currentGeneration c + 1" if "(i, x) \<in> set (lru_evictList c)" for i x
    using lru_linksD(5) [OF l that] by simp
  then have live: "live_elems (lru_Purge c) = {}" by (auto simp: live_elems_def lru_Purge_def)
  have "lru_links (lru_Purge c)"
    using l live unfolding lru_links_def by (auto simp: lru_Purge_def)
  then show "lru_inv (lru_Purge c)" using w by (simp add: lru_inv_def lru_Purge_def)
  show "content (lru_Purge c) = Map.empty"
    using content_iff [OF \<open>lru_links (lru_Purge c)\<close>] unfolding live by (metis empty_iff option.exhaust prod.exhaust ext)
qed

lemma lru_Get_facts:
  assumes w: "lru_inv c" and g: "lru_Get now k c = (r, c')"
  shows "lru_inv c'" "r = (case content c k of None \<Rightarrow> None | Some x \<Rightarrow> if alive now x then Some (fst x) else None)"
    "content c' = (if r = None then (content c)(k := None) else content c)"
proof -
  have l: "lru_links c" using w by (simp add: lru_inv_def)
  have "lru_inv c' \<and> r = (case content c k of None \<Rightarrow> None | Some x \<Rightarrow> if alive now x then Some (fst x) else None) \<and>
    content c' = (if r = None then (content c)(k := None) else content c)"
  proof (cases "lru_items c k")
    case None
    then show ?thesis using w g by (auto simp: lru_Get_def content_def)
  next
    case (Some i)
    from l Some obtain e where e: "map_of (lru_evictList c) i = Some e" "en_key e = k" by (rule lru_elem)
    have ct: "content c k = (if en_generation e = lru_currentGeneration c then Some (en_value e, en_expireAtSecs e) else None)"
      by (simp add: content_def Some e(1))
    show ?thesis
    proof (cases "en_generation e \<noteq> lru_currentGeneration c \<or> (en_expireAtSecs e > 0 \<and> now > en_expireAtSecs e)")
      case True
      then have "r = None" "c' = lru_Remove k c" using g by (simp_all add: lru_Get_def lru_Remove_def Some e(1))
      then show ?thesis using True ct lru_Remove_facts [OF w, of k] by (auto simp: alive_def)
    next
      case False
      then have r: "r = Some (en_value e)" "c' = c\<lparr>lru_evictList := MoveToFront i (lru_evictList c)\<rparr>"
        using g by (auto simp: lru_Get_def Some e(1))
      note M = moved_facts [OF l e(1), folded r(2)]
      have "length (lru_evictList c') = length (lru_evictList c)" "lru_size c' = lru_size c"
        using MoveToFront_facts(3) [OF lru_linksD(1) [OF l] e(1)] by (simp_all add: r(2))
      then show ?thesis using M w content_eqI [OF l M] False ct r(1) by (auto simp: alive_def lru_inv_def)
    qed
  qed
  then show "lru_inv c'" "r = (case content c k of None \<Rightarrow> None | Some x \<Rightarrow> if alive now x then Some (fst x) else None)"
    "content c' = (if r = None then (content c)(k := None) else content c)" by blast+
qed

text \<open>The content after an element of the current generation was written.\<close>

lemma content_written:
  assumes l: "lru_links c" "lru_links c'"
    and live: "live_elems c' = insert (i, e') (live_elems c - X)"
    and X: "\<And>j x. (j, x) \<in> live_elems c \<Longrightarrow> (j, x) \<in> X \<longleftrightarrow> en_key x = en_key e'"
  shows "content c' = (content c)(en_key e' \<mapsto> (en_value e', en_expireAtSecs e'))"
proof
  fix k
  let ?m = "(content c)(en_key e' \<mapsto> (en_value e', en_expireAtSecs e'))"
  have "content c' k = Some y \<longleftrightarrow> ?m k = Some y" for y
    using content_iff [OF l(2), of k "fst y" "snd y"] content_iff [OF l(1), of k "fst y" "snd y"] X unfolding live
    by (cases "k = en_key e'"; cases y) (simp, blast)+
  then show "content c' k = ?m k" by (metis option.exhaust)
qed

definition expires_at :: "int \<Rightarrow> int \<Rightarrow> int" where
  "expires_at now secs = (if secs > 0 then now + secs else secs)"

lemma Add_existing:
  fixes now secs :: int and v :: 'v and c :: "('k, 'v) lru"
  assumes w: "lru_inv c" and k: "lru_items c key = Some i"
  defines "c' \<equiv> AddWithExpiresInSecs now key v secs c"
  shows "lru_inv c' \<and> content c' = (content c)(key \<mapsto> (v, expires_at now secs)) \<and> lru_size c' = lru_size c"
proof -
  have l: "lru_links c" using w by (simp add: lru_inv_def)
  from l k obtain e where e: "map_of (lru_evictList c) i = Some e" "en_key e = key" "(i, e) \<in> set (lru_evictList c)"
    by (rule lru_elem)
  define e' where "e' = e\<lparr>en_value := v, en_expireAtSecs := expires_at now secs, en_generation := lru_currentGeneration c\<rparr>"
  define c1 where "c1 = c\<lparr>lru_evictList := MoveToFront i (lru_evictList c)\<rparr>"
  note M = moved_facts [OF l e(1), folded c1_def]
  have l1: "lru_links c1" by (rule M)
  have e1: "map_of (lru_evictList c1) i = Some e" by (simp add: c1_def MoveToFront_eq [OF e(1)])
  have c': "c' = c1\<lparr>lru_evictList := set_elem i e' (lru_evictList c1),
     lru_len := (if en_generation e \<noteq> lru_currentGeneration c1 then lru_len c1 + 1 else lru_len c1)\<rparr>"
    by (simp add: c'_def c1_def AddWithExpiresInSecs_def k e(1) e'_def expires_at_def Let_def)
  have e'f: "en_key e' = en_key e" "en_generation e' = lru_currentGeneration c1" by (simp_all add: e'_def c1_def)
  note S = set_elem_inv [OF l1 e1 e'f, folded c']
  have X: "(j, x) \<in> {(i, e)} \<longleftrightarrow> en_key x = en_key e'" if "(j, x) \<in> live_elems c1" for j x
    using lru_same_elem [OF l1 _ map_of_SomeD [OF e1], of j x] that e'f(1) by (auto simp: live_elems_def)
  have "content c' = (content c1)(en_key e' \<mapsto> (en_value e', en_expireAtSecs e'))"
    by (rule content_written [OF l1 S(1,2) X])
  moreover have "content c1 = content c" by (rule content_eqI [OF l M])
  moreover have "length (lru_evictList c') = length (lru_evictList c)" "lru_size c' = lru_size c"
    using MoveToFront_facts(3) [OF lru_linksD(1) [OF l] e(1)] by (simp_all add: c' c1_def set_elem_facts)
  ultimately show ?thesis using S(1) w e(2) by (simp add: lru_inv_def e'_def)
qed

lemma Add_new:
  fixes now secs :: int and v :: 'v and c :: "('k, 'v) lru"
  assumes w: "lru_inv c" and k: "lru_items c key = None"
  defines "c' \<equiv> AddWithExpiresInSecs now key v secs c"
  shows "lru_inv c' \<and> lru_size c' = lru_size c \<and>
     (\<forall>a. content c' a = ((content c)(key \<mapsto> (v, expires_at now secs))) a \<or> content c' a = None \<and> (a = key \<longrightarrow> lru_size c < 1))"
proof -
  have l: "lru_links c" using w by (simp add: lru_inv_def)
  define ent where "ent = \<lparr>en_key = key, en_value = v, en_expireAtSecs = expires_at now secs,
     en_generation = lru_currentGeneration c\<rparr>"
  define c1 where "c1 = c\<lparr>lru_evictList := (lru_next c, ent) # lru_evictList c, lru_items := (lru_items c)(key \<mapsto> lru_next c),
     lru_len := lru_len c + 1, lru_next := lru_next c + 1\<rparr>"
  let ?old = "last (lru_evictList c1)"
  have ent: "en_key ent = key" "en_generation ent = lru_currentGeneration c" by (simp_all add: ent_def)
  note P = pushed_inv [OF l k ent, folded c1_def]
  have "\<not> en_key x = en_key ent" if "(j, x) \<in> live_elems c" for j x
    using lru_linksD(3) [OF l, of key j] that k ent(1) by (auto simp: live_elems_def)
  then have ct: "content c1 = (content c)(key \<mapsto> (v, expires_at now secs))"
    using content_written [OF l P(1), of "lru_next c" ent "{}"] P(2) ent(1) by (auto simp: ent_def)
  have c': "c' = (if int (length (lru_evictList c1)) > lru_size c then removeElement (fst ?old) c1 else c1)"
    by (simp add: c'_def c1_def AddWithExpiresInSecs_def k ent_def expires_at_def Let_def)
  have len1: "length (lru_evictList c1) = Suc (length (lru_evictList c))" "lru_size c1 = lru_size c" by (simp_all add: c1_def)
  show ?thesis
  proof (cases "int (length (lru_evictList c1)) > lru_size c")
    case False
    then show ?thesis using P(1) ct len1 by (simp add: c' lru_inv_def)
  next
    case True
    have mem: "(fst ?old, snd ?old) \<in> set (lru_evictList c1)" by (simp add: c1_def)
    then have m: "map_of (lru_evictList c1) (fst ?old) = Some (snd ?old)"
      using lru_linksD(1) [OF P(1)] by simp
    note R = removeElement_facts [OF P(1) m]
    have sz: "lru_size (removeElement (fst ?old) c1) = lru_size c" by (simp add: removeElement_def m len1(2))
    have key: "en_key (snd ?old) = key \<Longrightarrow> lru_size c < 1"
    proof (rule ccontr)
      assume a: "en_key (snd ?old) = key" "\<not> lru_size c < 1"
      then have "lru_evictList c \<noteq> []" using True len1(1) by auto
      then have "?old \<in> set (lru_evictList c)" by (simp add: c1_def)
      then show False using lru_linksD(3) [OF l, of key "fst ?old"] a(1) k by (metis option.distinct(1) prod.collapse)
    qed
    have "lru_inv (removeElement (fst ?old) c1)"
      using R(1,3) w len1 sz by (auto simp: lru_inv_def)
    then show ?thesis
      using True sz content_remove [OF P(1) m] ct key by (auto simp: c')
  qed
qed

text \<open>
  \<open>AddWithExpiresInSecs\<close> in terms of the content: the key has the new value, if there is room
  for one entry at all, and every other key keeps its value or is evicted.
\<close>

lemma lru_Add_facts:
  fixes now secs :: int and key :: 'k and v :: 'v and c :: "('k, 'v) lru"
  assumes w: "lru_inv c"
  defines "c' \<equiv> AddWithExpiresInSecs now key v secs c"
  shows "lru_inv c'" "lru_size c' = lru_size c"
    "1 \<le> lru_size c \<Longrightarrow> content c' key = Some (v, expires_at now secs)"
    "content c' \<subseteq>\<^sub>m (content c)(key \<mapsto> (v, expires_at now secs))"
  using Add_existing [OF w, of key _ now v secs, folded c'_def] Add_new [OF w, of key now v secs, folded c'_def]
  by (cases "lru_items c key"; auto simp: map_le_def split: if_splits)+

section \<open>Keys\<close>

lemma Keys_loop_fill:
  assumes "length keys = i + n" "n = length (filter (\<lambda>x. en_generation (snd x) = gen) xs)"
  shows "Keys_loop gen xs i keys =
     Some (take i keys @ map (\<lambda>x. Some (en_key (snd x))) (filter (\<lambda>x. en_generation (snd x) = gen) xs))"
  using assms
proof (induction gen xs i keys arbitrary: n rule: Keys_loop.induct)
  case (2 gen p e xs i keys)
  show ?case
  proof (cases "en_generation e = gen")
    case True
    then obtain n' where n: "n = Suc n'" using 2(4) by (cases n) auto
    then have i: "i < length keys" using 2(3) by simp
    have "Keys_loop gen xs (i + 1) (keys[i := Some (en_key e)]) =
        Some (take (i + 1) (keys[i := Some (en_key e)]) @ map (\<lambda>x. Some (en_key (snd x))) (filter (\<lambda>x. en_generation (snd x) = gen) xs))"
      using 2(1) [OF True i, of n'] 2(3,4) n True by simp
    moreover have "take (i + 1) (keys[i := Some (en_key e)]) = take i keys @ [Some (en_key e)]"
      using i by (simp add: take_Suc_conv_app_nth)
    ultimately show ?thesis using True i by simp
  next
    case False
    then show ?thesis using 2(2) [OF False, of n] 2(3,4) by simp
  qed
qed simp

lemma lru_Keys_total:
  assumes "lru_inv c"
  shows "lru_Keys c = Some (map (\<lambda>x. Some (en_key (snd x))) (filter (\<lambda>x. en_generation (snd x) = lru_currentGeneration c) (rev (lru_evictList c))))"
proof -
  let ?cur = "\<lambda>x. en_generation (snd x) = lru_currentGeneration c"
  have l: "lru_links c" using assms by (simp add: lru_inv_def)
  have "distinct (lru_evictList c)" using lru_linksD(1) [OF l] by (auto simp: distinct_map)
  then have "length (filter ?cur (lru_evictList c)) = card (set (filter ?cur (lru_evictList c)))"
    by (metis distinct_card distinct_filter)
  then have "nat (lru_len c) = length (filter ?cur (rev (lru_evictList c)))" "0 \<le> lru_len c"
    using lru_linksD(4) [OF l] by (simp_all add: live_elems_def rev_filter [symmetric])
  then show ?thesis
    using Keys_loop_fill [of "replicate (nat (lru_len c)) None" 0 "nat (lru_len c)" "lru_currentGeneration c" "rev (lru_evictList c)"]
    by (simp add: lru_Keys_def)
qed

lemma lru_Keys_content:
  assumes "lru_inv c"
  shows "\<exists>ks. lru_Keys c = Some (map Some ks) \<and> distinct ks \<and> int (length ks) = lru_Len c \<and>
     (\<forall>k. k \<in> set ks \<longleftrightarrow> content c k \<noteq> None)"
proof -
  let ?xs = "filter (\<lambda>x. en_generation (snd x) = lru_currentGeneration c) (rev (lru_evictList c))"
  let ?ks = "map (\<lambda>x. en_key (snd x)) ?xs"
  have l: "lru_links c" using assms by (simp add: lru_inv_def)
  have d: "distinct (lru_evictList c)" using lru_linksD(1) [OF l] by (auto simp: distinct_map)
  have live: "set ?xs = live_elems c" by (auto simp: live_elems_def)
  have "inj_on (\<lambda>x. en_key (snd x)) (set ?xs)"
    by (rule inj_on_subset [OF lru_linksD(2) [OF l]]) auto
  then have "distinct ?ks" using d by (simp add: distinct_map)
  moreover have "length ?ks = card (live_elems c)" using d live by (metis distinct_card distinct_filter distinct_rev length_map)
  moreover have "k \<in> set ?ks \<longleftrightarrow> content c k \<noteq> None" for k
  proof -
    have "k \<in> set ?ks \<longleftrightarrow> (\<exists>i e. (i, e) \<in> live_elems c \<and> en_key e = k)" unfolding set_map live by force
    then show ?thesis using content_iff [OF l, of k] by (metis not_None_eq prod.exhaust)
  qed
  ultimately show ?thesis
    using lru_Keys_total [OF assms] lru_linksD(4) [OF l] by (auto simp: lru_Len_def o_def intro!: exI [of _ ?ks])
qed

end
