(* ===== verification/Cache_Layer.thy ===== *)
theory Cache_Layer
  imports Lru_Cache Flow_Handlers
begin

text \<open>
  The caches behind the \<open>cache\<close> application: the values and the memory and Redis stores of
  \<open>store/cachelayer\<close>, the per-domain keys of \<open>app/cache.go\<close>, the handler of
  \<open>flow/cache.go\<close>, and the schema variables of \<open>app/schema_variable.go\<close> and the schema
  cache of \<open>app/schema.go\<close>, which keep an LRU cache in front of the database.

  \<open>singleflight\<close> lets concurrent calls with one key share a run; for one caller it is the
  call itself.  The Redis client and the database are arguments.
\<close>

section \<open>Values and stores (store/cachelayer)\<close>

record CacheValue =
  cv_value :: goval

definition CacheValue_String :: "CacheValue \<Rightarrow> string result" where
  "CacheValue_String v =
     (case cv_value v of
        GNil \<Rightarrow> Inl (NewAppError ''CacheValue'' ''cache_value.string'' [] ''value is nil'' 500)
      | GStr s \<Rightarrow> Inr s
      | _ \<Rightarrow> Inl (NewAppError ''CacheValue'' ''cache_value.string'' [] ''unable to convert value'' 500))"

definition CacheValue_Set :: "goval \<Rightarrow> CacheValue \<Rightarrow> app_error option \<times> CacheValue" where
  "CacheValue_Set value v =
     (if value \<noteq> GNil then (None, v\<lparr>cv_value := value\<rparr>)
      else (Some (NewAppError ''CacheValue'' ''cache_value.set'' [] ''accepted value is nil'' 500), v))"

definition NewCacheValue :: "goval \<Rightarrow> CacheValue result" where
  "NewCacheValue value =
     (case CacheValue_Set value \<lparr>cv_value = GNil\<rparr> of (Some err, _) \<Rightarrow> Inl err | (None, cv) \<Rightarrow> Inr cv)"

type_synonym memory_cache = "(string, goval) lru"

definition NewMemoryCache :: "int \<Rightarrow> int \<Rightarrow> memory_cache" where
  "NewMemoryCache sz defaultExpiry = NewLruWithParams sz ''memoryCache'' defaultExpiry []"

definition MemoryCache_Get :: "int \<Rightarrow> string \<Rightarrow> memory_cache \<Rightarrow> CacheValue result \<times> memory_cache" where
  "MemoryCache_Get now key m =
     (case lru_Get now key m of
        (None, m') \<Rightarrow>
          (Inl (NewAppError ''CacheLayer.MemoryCache'' ''cache.memory_cache.get'' []
             (''unable to find value by key '' @ key) 500), m')
      | (Some v, m') \<Rightarrow> (NewCacheValue v, m'))"

definition MemoryCache_Set :: "int \<Rightarrow> string \<Rightarrow> goval \<Rightarrow> int \<Rightarrow> memory_cache \<Rightarrow> app_error option \<times> memory_cache" where
  "MemoryCache_Set now key value expiresAfterSecs m = (None, AddWithExpiresInSecs now key value expiresAfterSecs m)"

definition MemoryCache_Delete :: "string \<Rightarrow> memory_cache \<Rightarrow> app_error option \<times> memory_cache" where
  "MemoryCache_Delete key m = (None, lru_Remove key m)"

text \<open>
  The commands of the Redis client: an error text or an answer, and the server afterwards.
  The store is \<open>None\<close> where the client is nil.  A duration is in nanoseconds.
\<close>

record 'r redis_ops =
  rd_get :: "string \<Rightarrow> 'r \<Rightarrow> (string + string) \<times> 'r"
  rd_set :: "string \<Rightarrow> goval \<Rightarrow> int \<Rightarrow> 'r \<Rightarrow> string option \<times> 'r"
  rd_del :: "string \<Rightarrow> 'r \<Rightarrow> string option \<times> 'r"

definition redis_error :: "string \<Rightarrow> string \<Rightarrow> app_error" where
  "redis_error idn detail = NewAppError ''CacheLayer.RedisCache'' idn [] detail 500"

definition RedisCache_IsValid :: "'r option \<Rightarrow> app_error option" where
  "RedisCache_IsValid r =
     (if r = None then Some (redis_error ''cache.redis_cache'' ''redis client not declared'') else None)"

definition RedisCache_Get :: "'r redis_ops \<Rightarrow> string \<Rightarrow> 'r option \<Rightarrow> CacheValue result \<times> 'r option" where
  "RedisCache_Get ro key r =
     (case r of
        None \<Rightarrow> (Inl (redis_error ''cache.redis_cache'' ''redis client not declared''), r)
      | Some x \<Rightarrow>
          (case rd_get ro key x of
             (Inl err, x') \<Rightarrow> (Inl (redis_error ''cache.redis_cache.get'' err), Some x')
           | (Inr v, x') \<Rightarrow> (NewCacheValue (GStr v), Some x')))"

definition RedisCache_Set :: "'r redis_ops \<Rightarrow> string \<Rightarrow> goval \<Rightarrow> int \<Rightarrow> 'r option \<Rightarrow> app_error option \<times> 'r option" where
  "RedisCache_Set ro key value expiresAfter r =
     (case r of
        None \<Rightarrow> (Some (redis_error ''cache.redis_cache'' ''redis client not declared''), r)
      | Some x \<Rightarrow>
          (case rd_set ro key value (expiresAfter * 1000000000) x of
             (Some err, x') \<Rightarrow> (Some (redis_error ''cache.redis_cache.set'' err), Some x')
           | (None, x') \<Rightarrow> (None, Some x')))"

definition RedisCache_Delete :: "'r redis_ops \<Rightarrow> string \<Rightarrow> 'r option \<Rightarrow> app_error option \<times> 'r option" where
  "RedisCache_Delete ro key r =
     (case r of
        None \<Rightarrow> (Some (redis_error ''cache.redis_cache'' ''redis client not declared''), r)
      | Some x \<Rightarrow>
          (case rd_del ro key x of
             (Some err, x') \<Rightarrow> (Some (redis_error ''cache.redis_cache.delete'' err), Some x')
           | (None, x') \<Rightarrow> (None, Some x')))"

section \<open>Per-domain keys (app/cache.go)\<close>

datatype cache_type = Memory | Redis

definition cache_type_name :: "cache_type \<Rightarrow> string" where
  "cache_type_name t = (case t of Memory \<Rightarrow> ''memory'' | Redis \<Rightarrow> ''redis'')"

definition parseCacheType :: "string \<Rightarrow> cache_type" where
  "parseCacheType s = (if s = ''redis'' then Redis else Memory)"

definition formatKeys :: "cache_type \<Rightarrow> string \<Rightarrow> int \<Rightarrow> string \<Rightarrow> string \<times> string" where
  "formatKeys t mthd domainId key =
     (let cacheKey = Itoa domainId @ ''.'' @ key
      in (cache_type_name t @ ''.'' @ mthd @ ''.'' @ cacheKey, cacheKey))"

text \<open>The stores of the manager: the memory store always, the Redis store where it is configured.\<close>

record 'r caches =
  fc_memory :: memory_cache
  fc_redis :: "'r option option"

definition GetCacheStoreByType :: "cache_type \<Rightarrow> 'r caches \<Rightarrow> cache_type" where
  "GetCacheStoreByType t fm = (if t = Redis \<and> fc_redis fm \<noteq> None then Redis else Memory)"

definition cacheSetValue :: "'r redis_ops \<Rightarrow> int \<Rightarrow> cache_type \<Rightarrow> string \<Rightarrow> goval \<Rightarrow> int \<Rightarrow> 'r caches \<Rightarrow> app_error option \<times> 'r caches" where
  "cacheSetValue ro now t key value expiresAfter fm =
     (case GetCacheStoreByType t fm of
        Memory \<Rightarrow> (case MemoryCache_Set now key value expiresAfter (fc_memory fm) of (e, m) \<Rightarrow> (e, fm\<lparr>fc_memory := m\<rparr>))
      | Redis \<Rightarrow> (case RedisCache_Set ro key value expiresAfter (the (fc_redis fm)) of (e, r) \<Rightarrow> (e, fm\<lparr>fc_redis := Some r\<rparr>)))"

definition cacheGetValue :: "'r redis_ops \<Rightarrow> int \<Rightarrow> cache_type \<Rightarrow> string \<Rightarrow> 'r caches \<Rightarrow> CacheValue result \<times> 'r caches" where
  "cacheGetValue ro now t key fm =
     (case GetCacheStoreByType t fm of
        Memory \<Rightarrow> (case MemoryCache_Get now key (fc_memory fm) of (v, m) \<Rightarrow> (v, fm\<lparr>fc_memory := m\<rparr>))
      | Redis \<Rightarrow> (case RedisCache_Get ro key (the (fc_redis fm)) of (v, r) \<Rightarrow> (v, fm\<lparr>fc_redis := Some r\<rparr>)))"

definition cacheDeleteValue :: "'r redis_ops \<Rightarrow> cache_type \<Rightarrow> string \<Rightarrow> 'r caches \<Rightarrow> app_error option \<times> 'r caches" where
  "cacheDeleteValue ro t key fm =
     (case GetCacheStoreByType t fm of
        Memory \<Rightarrow> (case MemoryCache_Delete key (fc_memory fm) of (e, m) \<Rightarrow> (e, fm\<lparr>fc_memory := m\<rparr>))
      | Redis \<Rightarrow> (case RedisCache_Delete ro key (the (fc_redis fm)) of (e, r) \<Rightarrow> (e, fm\<lparr>fc_redis := Some r\<rparr>)))"

definition CacheSetValue :: "'r redis_ops \<Rightarrow> int \<Rightarrow> string \<Rightarrow> int \<Rightarrow> string \<Rightarrow> goval \<Rightarrow> int \<Rightarrow> 'r caches \<Rightarrow> app_error option \<times> 'r caches" where
  "CacheSetValue ro now cacheType domainId key value expiresAfter fm =
     (let t = parseCacheType cacheType
      in cacheSetValue ro now t (snd (formatKeys t ''set'' domainId key)) value expiresAfter fm)"

definition CacheGetValue :: "'r redis_ops \<Rightarrow> int \<Rightarrow> string \<Rightarrow> int \<Rightarrow> string \<Rightarrow> 'r caches \<Rightarrow> CacheValue result \<times> 'r caches" where
  "CacheGetValue ro now cacheType domainId key fm =
     (let t = parseCacheType cacheType
      in cacheGetValue ro now t (snd (formatKeys t ''get'' domainId key)) fm)"

definition CacheDeleteValue :: "'r redis_ops \<Rightarrow> string \<Rightarrow> int \<Rightarrow> string \<Rightarrow> 'r caches \<Rightarrow> app_error option \<times> 'r caches" where
  "CacheDeleteValue ro cacheType domainId key fm =
     (let t = parseCacheType cacheType
      in cacheDeleteValue ro t (snd (formatKeys t ''delete'' domainId key)) fm)"

section \<open>The application (flow/cache.go)\<close>

text \<open>The decoded arguments; a Go map is the list of its entries in the order it is ranged over.\<close>

record cache_args =
  ca_Type :: string
  ca_Action :: string
  ca_Get :: "(string \<times> string) list option"
  ca_Set :: "((string \<times> string) list \<times> string) option"
  ca_Delete :: "string list option"

definition cache_error :: "string \<Rightarrow> string \<Rightarrow> int \<Rightarrow> app_error" where
  "cache_error idn detail status = NewAppError ''Flow.Cache'' idn [] detail status"

definition no_object :: "string \<Rightarrow> string" where
  "no_object a = ''no '' @ [CHR 0x27] @ a @ [CHR 0x27] @ '' object when type is '' @ [CHR 0x27] @ a @ [CHR 0x27]"

fun cache_set_loop ::
  "'r redis_ops \<Rightarrow> int \<Rightarrow> string \<Rightarrow> int \<Rightarrow> int \<Rightarrow> (string \<times> string) list \<Rightarrow> 'r caches \<Rightarrow> app_error option \<times> 'r caches" where
  "cache_set_loop ro now t d ttl [] fm = (None, fm)"
| "cache_set_loop ro now t d ttl ((key, value) # kvs) fm =
     (case CacheSetValue ro now t d key (GStr value) ttl fm of
        (Some err, fm') \<Rightarrow> (Some (cache_error ''flow.cache.set'' (AppError_Error err) 400), fm')
      | (None, fm') \<Rightarrow> cache_set_loop ro now t d ttl kvs fm')"

fun cache_get_loop ::
  "'r redis_ops \<Rightarrow> int \<Rightarrow> string \<Rightarrow> int \<Rightarrow> (string \<times> string) list \<Rightarrow> (string \<times> string) list \<Rightarrow> 'r caches \<Rightarrow>
     (app_error + (string \<times> string) list) \<times> 'r caches" where
  "cache_get_loop ro now t d [] vars fm = (Inr vars, fm)"
| "cache_get_loop ro now t d ((variable, key) # vks) vars fm =
     (case CacheGetValue ro now t d key fm of
        (Inl err, fm') \<Rightarrow> (Inl (cache_error ''flow.cache.get'' (AppError_Error err) 400), fm')
      | (Inr value, fm') \<Rightarrow>
          (case CacheValue_String value of
             Inl err \<Rightarrow> (Inl (cache_error ''flow.cache.get'' (AppError_Error err) 400), fm')
           | Inr val \<Rightarrow> cache_get_loop ro now t d vks (vars @ [(variable, val)]) fm'))"

fun cache_delete_loop ::
  "'r redis_ops \<Rightarrow> string \<Rightarrow> int \<Rightarrow> string list \<Rightarrow> 'r caches \<Rightarrow> app_error option \<times> 'r caches" where
  "cache_delete_loop ro t d [] fm = (None, fm)"
| "cache_delete_loop ro t d (key # ks) fm =
     (case CacheDeleteValue ro t d key fm of
        (Some err, fm') \<Rightarrow> (Some (cache_error ''flow.cache.delete'' (AppError_Error err) 500), fm')
      | (None, fm') \<Rightarrow> cache_delete_loop ro t d ks fm')"

text \<open>
  The handler: \<open>dec\<close> is the result of \<open>Decode\<close>, \<open>cset\<close> the connection's \<open>Set\<close> on the
  collected variables, \<open>c\<close> the connection.  \<open>ParseInt\<close> with base 10 is \<open>Atoi\<close>; the text of
  its error is left out.
\<close>

definition cache_handler ::
  "'r redis_ops \<Rightarrow> int \<Rightarrow> int \<Rightarrow> (app_error + cache_args) \<Rightarrow> ((string \<times> string) list \<Rightarrow> 'c \<Rightarrow> app_error option \<times> 'c) \<Rightarrow>
     'r caches \<Rightarrow> 'c \<Rightarrow> (response \<times> app_error option) \<times> 'r caches \<times> 'c" where
  "cache_handler ro now d dec cset fm c =
     (case dec of
        Inl _ \<Rightarrow> ((ResponseErr, Some (cache_error ''flow.cache.not_found'' ''bad arguments'' 400)), fm, c)
      | Inr a \<Rightarrow>
          if ca_Action a = ''set'' then
            (case ca_Set a of
               None \<Rightarrow> ((ResponseErr, Some (cache_error ''flow.cache.set'' (no_object ''set'') 500)), fm, c)
             | Some (data, ttl) \<Rightarrow>
                 (case Atoi ttl of
                    None \<Rightarrow> ((ResponseErr, Some (cache_error ''flow.cache.set'' [] 400)), fm, c)
                  | Some n \<Rightarrow>
                      (case cache_set_loop ro now (ca_Type a) d n data fm of
                         (Some err, fm') \<Rightarrow> ((ResponseErr, Some err), fm', c)
                       | (None, fm') \<Rightarrow> ((ResponseOK, None), fm', c))))
          else if ca_Action a = ''get'' then
            (case ca_Get a of
               None \<Rightarrow> ((ResponseErr, Some (cache_error ''flow.cache.get'' (no_object ''get'') 500)), fm, c)
             | Some gets \<Rightarrow>
                 (case cache_get_loop ro now (ca_Type a) d gets [] fm of
                    (Inl err, fm') \<Rightarrow> ((ResponseErr, Some err), fm', c)
                  | (Inr vars, fm') \<Rightarrow>
                      (case cset vars c of
                         (Some err, c') \<Rightarrow>
                           ((ResponseErr, Some (cache_error ''flow.cache.get'' (AppError_Error err) 500)), fm', c')
                       | (None, c') \<Rightarrow> ((ResponseOK, None), fm', c'))))
          else if ca_Action a = ''delete'' then
            (case ca_Delete a of
               None \<Rightarrow> ((ResponseErr, Some (cache_error ''flow.cache.delete'' (no_object ''delete'') 500)), fm, c)
             | Some ks \<Rightarrow>
                 (case cache_delete_loop ro (ca_Type a) d ks fm of
                    (Some err, fm') \<Rightarrow> ((ResponseErr, Some err), fm', c)
                  | (None, fm') \<Rightarrow> ((ResponseOK, None), fm', c)))
          else ((ResponseOK, None), fm, c))"

section \<open>Schema variables (app/schema_variable.go)\<close>

definition removeQuote :: "string \<Rightarrow> string" where
  "removeQuote text =
     (let l = length text
      in if l < 2 then text
         else (let text1 = (if hd text = CHR 0x22 then tl text else text)
               in if last text1 = CHR 0x22 then butlast text1 else text1))"

record schema_variable =
  sv_Encrypt :: bool
  sv_Value :: string

definition variable_key :: "int \<Rightarrow> string \<Rightarrow> string" where
  "variable_key domainId name = Itoa domainId @ ''-'' @ name"

text \<open>\<open>getv\<close> is the store's \<open>GetVariable\<close>, \<open>dec\<close> the decryption of the certificate.\<close>

definition schemaVariable ::
  "(int \<Rightarrow> string \<Rightarrow> app_error + schema_variable) \<Rightarrow> (string \<Rightarrow> string + string) \<Rightarrow> int \<Rightarrow> string \<Rightarrow> int \<Rightarrow> string \<Rightarrow>
     (string, string) lru \<Rightarrow> string \<times> (string, string) lru" where
  "schemaVariable getv dec now key domainId name cache =
     (case getv domainId name of
        Inl err \<Rightarrow> ([], cache)
      | Inr sb \<Rightarrow>
          if sv_Encrypt sb then
            (case dec (sv_Value sb) of
               Inl err2 \<Rightarrow> ([], cache)
             | Inr b \<Rightarrow> (let val = removeQuote b in (val, AddWithDefaultExpires now key val cache)))
          else (let val = removeQuote (sv_Value sb) in (val, AddWithDefaultExpires now key val cache)))"

definition SchemaVariable ::
  "(int \<Rightarrow> string \<Rightarrow> app_error + schema_variable) \<Rightarrow> (string \<Rightarrow> string + string) \<Rightarrow> int \<Rightarrow> int \<Rightarrow> string \<Rightarrow>
     (string, string) lru \<Rightarrow> string \<times> (string, string) lru" where
  "SchemaVariable getv dec now domainId name cache =
     (let key = variable_key domainId name
      in case lru_Get now key cache of
           (Some v, c') \<Rightarrow> (v, c')
         | (None, c') \<Rightarrow> schemaVariable getv dec now key domainId name c')"

text \<open>\<open>setv\<close> is the store's \<open>SetVariable\<close>, whose errors are only logged.\<close>

fun SetSchemaVariable ::
  "(string \<Rightarrow> string + string) \<Rightarrow> (int \<Rightarrow> string \<Rightarrow> schema_variable \<Rightarrow> 'd \<Rightarrow> 'd) \<Rightarrow> int \<Rightarrow> (string \<times> schema_variable) list \<Rightarrow> 'd \<Rightarrow>
     app_error option \<times> 'd" where
  "SetSchemaVariable enc setv domainId [] db = (None, db)"
| "SetSchemaVariable enc setv domainId ((k, v) # vars) db =
     (case (if sv_Encrypt v then enc (sv_Value v) else Inr (sv_Value v)) of
        Inl err \<Rightarrow> (Some (NewAppError ''SetSchemaVariable'' ''app.'' [] err 500), db)
      | Inr val \<Rightarrow>
          SetSchemaVariable enc setv domainId vars
            (setv domainId k (v\<lparr>sv_Value := [CHR 0x22] @ val @ [CHR 0x22]\<rparr>) db))"

section \<open>Schemas (app/schema.go)\<close>

record schema_rec =
  sc_Id :: int
  sc_Name :: string
  sc_UpdatedAt :: int
  sc_Schema :: applications

text \<open>\<open>get\<close> and \<open>upd\<close> are the store's \<open>Get\<close> and \<open>GetUpdatedAt\<close>.\<close>

definition GetSchema ::
  "(int \<Rightarrow> int \<Rightarrow> app_error + schema_rec) \<Rightarrow> int \<Rightarrow> int \<Rightarrow> int \<Rightarrow> int \<Rightarrow> (int, schema_rec) lru \<Rightarrow>
     schema_rec result \<times> (int, schema_rec) lru" where
  "GetSchema get now domainId sid updatedAt cache =
     (case lru_Get now sid cache of
        (hit, c1) \<Rightarrow>
          (case hit of
             Some s \<Rightarrow>
               if sc_UpdatedAt s = updatedAt then (Inr s, c1)
               else (case get domainId sid of
                       Inl err \<Rightarrow> (Inl err, c1)
                     | Inr s' \<Rightarrow> (Inr s', AddWithDefaultExpires now sid s' c1))
           | None \<Rightarrow>
               (case get domainId sid of
                  Inl err \<Rightarrow> (Inl err, c1)
                | Inr s' \<Rightarrow> (Inr s', AddWithDefaultExpires now sid s' c1))))"

definition GetSchemaById ::
  "(int \<Rightarrow> int \<Rightarrow> app_error + schema_rec) \<Rightarrow> (int \<Rightarrow> int \<Rightarrow> app_error + int) \<Rightarrow> int \<Rightarrow> int \<Rightarrow> int \<Rightarrow> (int, schema_rec) lru \<Rightarrow>
     schema_rec result \<times> (int, schema_rec) lru" where
  "GetSchemaById get upd now domainId sid cache =
     (case upd domainId sid of
        Inl err \<Rightarrow> (Inl err, cache)
      | Inr updatedAt \<Rightarrow> GetSchema get now domainId sid updatedAt cache)"

end
