(* ===== verification/Cache_Laws.thy ===== *)
theory Cache_Laws
  imports Cache_Layer
begin

text \<open>
  The contract of \<open>cachelayer.CacheStore\<close> as a locale, discharged for the memory store, and
  what its client \<open>app/cache.go\<close> gets from it: keys of different domains never meet, and a
  hit is always the last value written.
\<close>

section \<open>The contract\<close>

locale cache_store =
  fixes sget :: "int \<Rightarrow> string \<Rightarrow> 's \<Rightarrow> CacheValue result \<times> 's"
    and sset :: "int \<Rightarrow> string \<Rightarrow> goval \<Rightarrow> int \<Rightarrow> 's \<Rightarrow> app_error option \<times> 's"
    and sdel :: "string \<Rightarrow> 's \<Rightarrow> app_error option \<times> 's"
    and good :: "'s \<Rightarrow> bool"
    and cont :: "'s \<Rightarrow> string \<Rightarrow> (goval \<times> int) option"
  assumes set_law: "good s \<Longrightarrow> sset now k v secs s = (r, s') \<Longrightarrow> r = None \<and> good s' \<and>
      cont s' k = Some (v, expires_at now secs) \<and> cont s' \<subseteq>\<^sub>m (cont s)(k \<mapsto> (v, expires_at now secs))"
    and get_law: "good s \<Longrightarrow> sget now k s = (g, s') \<Longrightarrow> good s' \<and> cont s' \<subseteq>\<^sub>m cont s \<and>
      (case g of Inr cv \<Rightarrow> \<exists>e. cont s k = Some (cv_value cv, e) | Inl err \<Rightarrow>
         \<forall>x. cont s k = Some x \<longrightarrow> \<not> alive now x \<or> fst x = GNil)"
    and del_law: "good s \<Longrightarrow> sdel k s = (r, s') \<Longrightarrow> r = None \<and> good s' \<and> cont s' = (cont s)(k := None)"
begin

lemma get_after_set:
  assumes "good s" "sset now k v secs s = (r, s1)" "v \<noteq> GNil" "alive now' (v, expires_at now secs)"
  shows "\<exists>s2. sget now' k s1 = (Inr \<lparr>cv_value = v\<rparr>, s2)"
proof -
  note S = set_law [OF assms(1,2)]
  obtain r2 s2 where g: "sget now' k s1 = (r2, s2)" by force
  have gl: "case r2 of Inr cv \<Rightarrow> \<exists>e. cont s1 k = Some (cv_value cv, e)
      | Inl err \<Rightarrow> \<forall>x. cont s1 k = Some x \<longrightarrow> \<not> alive now' x \<or> fst x = GNil"
    using get_law [OF _ g] S by simp
  show ?thesis
  proof (cases r2)
    case (Inl err)
    then show ?thesis using gl S assms(3,4) by auto
  next
    case (Inr cv)
    then have "cv = \<lparr>cv_value = v\<rparr>" using gl S by auto
    then show ?thesis using g Inr by simp
  qed
qed

lemma get_after_delete:
  assumes "good s" "sdel k s = (r, s1)" "sget now k s1 = (r2, s2)"
  shows "\<exists>err. r2 = Inl err"
  using get_law [OF _ assms(3)] del_law [OF assms(1,2)] by (cases r2) auto

lemma get_after_other_set:
  assumes "good s" "sset now k' v secs s = (r, s1)" "k \<noteq> k'" "sget now' k s1 = (Inr cv, s2)"
  shows "\<exists>e. cont s k = Some (cv_value cv, e)"
proof -
  note S = set_law [OF assms(1,2)]
  obtain e where "cont s1 k = Some (cv_value cv, e)" using get_law [OF _ assms(4)] S by auto
  then have "((cont s)(k' \<mapsto> (v, expires_at now secs))) k = Some (cv_value cv, e)"
    using S by (metis domI map_le_def)
  then show ?thesis using assms(3) by simp
qed

end

section \<open>The memory store meets it\<close>

lemma NewCacheValue_Inr: "NewCacheValue v = Inr cv \<longleftrightarrow> v \<noteq> GNil \<and> cv = \<lparr>cv_value = v\<rparr>"
  by (auto simp: NewCacheValue_def CacheValue_Set_def)

lemma MemoryCache_get_law:
  assumes "lru_inv m" "1 \<le> lru_size m" "MemoryCache_Get now k m = (r, m')"
  shows "lru_inv m' \<and> 1 \<le> lru_size m' \<and> content m' \<subseteq>\<^sub>m content m \<and>
    (case r of Inr cv \<Rightarrow> \<exists>e. content m k = Some (cv_value cv, e)
     | Inl err \<Rightarrow> \<forall>x. content m k = Some x \<longrightarrow> \<not> alive now x \<or> fst x = GNil)"
proof -
  obtain h m1 where g: "lru_Get now k m = (h, m1)" by force
  note G = lru_Get_facts [OF assms(1) g]
  have m': "m' = m1" using assms(3) g by (auto simp: MemoryCache_Get_def split: option.splits)
  have "lru_size m1 = lru_size m"
    using g by (auto simp: lru_Get_def removeElement_def split: option.splits if_splits)
  moreover have "content m1 \<subseteq>\<^sub>m content m" using G(3) by (auto simp: map_le_def)
  moreover have "case r of Inr cv \<Rightarrow> \<exists>e. content m k = Some (cv_value cv, e)
     | Inl err \<Rightarrow> \<forall>x. content m k = Some x \<longrightarrow> \<not> alive now x \<or> fst x = GNil"
  proof (cases h)
    case None
    then have "\<exists>err. r = Inl err" using assms(3) g by (auto simp: MemoryCache_Get_def)
    then show ?thesis using G(2) None by (auto split: option.splits if_splits)
  next
    case (Some v)
    then have r: "r = NewCacheValue v" using assms(3) g by (simp add: MemoryCache_Get_def)
    have v: "\<exists>e. content m k = Some (v, e)" using G(2) Some by (auto split: option.splits if_splits)
    show ?thesis
    proof (cases r)
      case (Inl err)
      then have "v = GNil" using r by (metis NewCacheValue_Inr Inl_Inr_False)
      then show ?thesis using v Inl by auto
    next
      case (Inr cv)
      then show ?thesis using v NewCacheValue_Inr [of v cv] r by auto
    qed
  qed
  ultimately show ?thesis using G(1) assms(2) m' by simp
qed

interpretation memory: cache_store MemoryCache_Get MemoryCache_Set MemoryCache_Delete
  "\<lambda>m. lru_inv m \<and> 1 \<le> lru_size m" content
proof unfold_locales
  fix s :: memory_cache and now secs k v r s'
  assume a: "lru_inv s \<and> 1 \<le> lru_size s" "MemoryCache_Set now k v secs s = (r, s')"
  show "r = None \<and> (lru_inv s' \<and> 1 \<le> lru_size s') \<and> content s' k = Some (v, expires_at now secs) \<and>
      content s' \<subseteq>\<^sub>m (content s)(k \<mapsto> (v, expires_at now secs))"
    using lru_Add_facts [of s now k v secs] a by (auto simp: MemoryCache_Set_def)
next
  fix s :: memory_cache and now k r s'
  assume a: "lru_inv s \<and> 1 \<le> lru_size s" "MemoryCache_Get now k s = (r, s')"
  show "(lru_inv s' \<and> 1 \<le> lru_size s') \<and> content s' \<subseteq>\<^sub>m content s \<and>
      (case r of Inr cv \<Rightarrow> \<exists>e. content s k = Some (cv_value cv, e)
       | Inl err \<Rightarrow> \<forall>x. content s k = Some x \<longrightarrow> \<not> alive now x \<or> fst x = GNil)"
    using MemoryCache_get_law [of s now k r s'] a by blast
next
  fix s :: memory_cache and k r s'
  assume a: "lru_inv s \<and> 1 \<le> lru_size s" "MemoryCache_Delete k s = (r, s')"
  have "lru_size (lru_Remove k s) = lru_size s"
    by (simp add: lru_Remove_def removeElement_def split: option.split)
  then show "r = None \<and> (lru_inv s' \<and> 1 \<le> lru_size s') \<and> content s' = (content s)(k := None)"
    using lru_Remove_facts [of s k] a by (auto simp: MemoryCache_Delete_def)
qed

section \<open>Keys of domains\<close>

definition domain_key :: "int \<Rightarrow> string \<Rightarrow> string" where
  "domain_key d k = snd (formatKeys Memory [] d k)"

lemma formatKeys_key: "snd (formatKeys t m d k) = domain_key d k"
  by (simp add: domain_key_def formatKeys_def Let_def)

lemma dot_split: "a @ CHR ''.'' # b = a' @ CHR ''.'' # b' \<Longrightarrow> CHR ''.'' \<notin> set a \<Longrightarrow> CHR ''.'' \<notin> set a' \<Longrightarrow> a = a' \<and> b = b'"
  by (induction a arbitrary: a') (auto simp: Cons_eq_append_conv append_eq_Cons_conv)

lemma domain_key_inj: "domain_key d k = domain_key d' k' \<longleftrightarrow> d = d' \<and> k = k'"
proof
  assume "domain_key d k = domain_key d' k'"
  then have "Itoa d @ CHR ''.'' # k = Itoa d' @ CHR ''.'' # k'"
    by (simp add: domain_key_def formatKeys_def Let_def)
  from dot_split [OF this] show "d = d' \<and> k = k'" using Itoa_no_dot Itoa_inj by blast
qed simp

section \<open>Histories\<close>

text \<open>
  A history of calls on one cache and what a client expects of it: the last value written to
  a key of a domain.  Every call carries the clock.
\<close>

datatype cache_op =
    OpSet int int string string int
  | OpGet int int string
  | OpDelete int string

fun cache_step :: "'r redis_ops \<Rightarrow> string \<Rightarrow> cache_op \<Rightarrow> 'r caches \<Rightarrow> 'r caches" where
  "cache_step ro t (OpSet now d k v ttl) fm = snd (CacheSetValue ro now t d k (GStr v) ttl fm)"
| "cache_step ro t (OpGet now d k) fm = snd (CacheGetValue ro now t d k fm)"
| "cache_step ro t (OpDelete d k) fm = snd (CacheDeleteValue ro t d k fm)"

fun expected :: "cache_op \<Rightarrow> (int \<times> string \<Rightarrow> string option) \<Rightarrow> int \<times> string \<Rightarrow> string option" where
  "expected (OpSet now d k v ttl) m = m((d, k) \<mapsto> v)"
| "expected (OpGet now d k) m = m"
| "expected (OpDelete d k) m = m((d, k) := None)"

definition agrees :: "'r caches \<Rightarrow> (int \<times> string \<Rightarrow> string option) \<Rightarrow> bool" where
  "agrees fm m = (lru_inv (fc_memory fm) \<and> 1 \<le> lru_size (fc_memory fm) \<and>
     (\<forall>d k x. content (fc_memory fm) (domain_key d k) = Some x \<longrightarrow> (\<exists>v. fst x = GStr v \<and> m (d, k) = Some v)))"

lemma memory_calls:
  assumes "t \<noteq> ''redis''"
  shows "CacheSetValue ro now t d k v ttl fm =
      (fst (MemoryCache_Set now (domain_key d k) v ttl (fc_memory fm)),
       fm\<lparr>fc_memory := snd (MemoryCache_Set now (domain_key d k) v ttl (fc_memory fm))\<rparr>)"
    "CacheGetValue ro now t d k fm =
      (fst (MemoryCache_Get now (domain_key d k) (fc_memory fm)),
       fm\<lparr>fc_memory := snd (MemoryCache_Get now (domain_key d k) (fc_memory fm))\<rparr>)"
    "CacheDeleteValue ro t d k fm =
      (fst (MemoryCache_Delete (domain_key d k) (fc_memory fm)),
       fm\<lparr>fc_memory := snd (MemoryCache_Delete (domain_key d k) (fc_memory fm))\<rparr>)"
  using assms
  by (simp_all add: CacheSetValue_def CacheGetValue_def CacheDeleteValue_def cacheSetValue_def cacheGetValue_def
      cacheDeleteValue_def parseCacheType_def GetCacheStoreByType_def formatKeys_key Let_def split: prod.split)

lemma agrees_step:
  assumes t: "t \<noteq> ''redis''" and a: "agrees fm m"
  shows "agrees (cache_step ro t x fm) (expected x m)"
proof -
  have good: "lru_inv (fc_memory fm) \<and> 1 \<le> lru_size (fc_memory fm)"
    and sim: "\<And>d k x. content (fc_memory fm) (domain_key d k) = Some x \<Longrightarrow> \<exists>v. fst x = GStr v \<and> m (d, k) = Some v"
    using a unfolding agrees_def by blast+
  show ?thesis
  proof (cases x)
    case (OpSet now d k v ttl)
    obtain r mc where r: "MemoryCache_Set now (domain_key d k) (GStr v) ttl (fc_memory fm) = (r, mc)" by force
    note S = memory.set_law [OF good r]
    have "\<exists>u. fst y = GStr u \<and> (m((d, k) \<mapsto> v)) (d', k') = Some u"
      if "content mc (domain_key d' k') = Some y" for d' k' y
    proof -
      have "((content (fc_memory fm))(domain_key d k \<mapsto> (GStr v, expires_at now ttl))) (domain_key d' k') = Some y"
        using S that by (metis domI map_le_def)
      then show ?thesis using sim [of d' k' y] by (auto simp: domain_key_inj split: if_splits)
    qed
    then show ?thesis using S by (simp add: OpSet memory_calls [OF t] r agrees_def)
  next
    case (OpGet now d k)
    obtain r mc where r: "MemoryCache_Get now (domain_key d k) (fc_memory fm) = (r, mc)" by force
    note G = memory.get_law [OF good r]
    have "content (fc_memory fm) q = Some y" if "content mc q = Some y" for q y
      using G that by (metis domI map_le_def)
    then show ?thesis using G sim by (simp add: OpGet memory_calls [OF t] r agrees_def)
  next
    case (OpDelete d k)
    obtain r mc where r: "MemoryCache_Delete (domain_key d k) (fc_memory fm) = (r, mc)" by force
    note D = memory.del_law [OF good r]
    then show ?thesis using sim by (auto simp: OpDelete memory_calls [OF t] r agrees_def domain_key_inj split: if_splits)
  qed
qed

lemma agrees_run:
  assumes "t \<noteq> ''redis''" "agrees fm m"
  shows "agrees (fold (cache_step ro t) xs fm) (fold expected xs m)"
  using assms(2) by (induction xs arbitrary: fm m) (simp_all add: agrees_step [OF assms(1)])

lemma agrees_new: "fc_memory fm = NewMemoryCache sz ex \<Longrightarrow> 1 \<le> sz \<Longrightarrow> agrees fm Map.empty"
  using NewLru_inv [of sz "''memoryCache''" ex "[]"]
  by (simp add: agrees_def NewMemoryCache_def) (simp add: content_def NewLruWithParams_def NewLru_def)

lemma agrees_hit:
  assumes "t \<noteq> ''redis''" "agrees fm m" "CacheGetValue ro now t d k fm = (Inr cv, fm')"
  shows "\<exists>v. m (d, k) = Some v \<and> cv = \<lparr>cv_value = GStr v\<rparr>"
proof -
  have good: "lru_inv (fc_memory fm) \<and> 1 \<le> lru_size (fc_memory fm)" using assms(2) by (simp add: agrees_def)
  obtain mc where g: "MemoryCache_Get now (domain_key d k) (fc_memory fm) = (Inr cv, mc)"
    using assms(3) by (metis Pair_inject memory_calls(2) [OF assms(1)] prod.collapse)
  obtain e where "content (fc_memory fm) (domain_key d k) = Some (cv_value cv, e)"
    using memory.get_law [OF good g] by auto
  then show ?thesis using assms(2) unfolding agrees_def by fastforce
qed

section \<open>Schema variables\<close>

text \<open>
  The column is JSON and is read as the text of the JSON string, so a value that needs no
  escape comes back without the quotes it was stored with.
\<close>

definition json_plain :: "string \<Rightarrow> bool" where
  "json_plain s = list_all (\<lambda>c. c \<noteq> CHR 0x22 \<and> c \<noteq> CHR 0x5C \<and> 0x20 \<le> (of_char c :: nat)) s"

definition json_column ::
  "(int \<Rightarrow> string \<Rightarrow> schema_variable \<Rightarrow> 'd \<Rightarrow> 'd) \<Rightarrow> ('d \<Rightarrow> int \<Rightarrow> string \<Rightarrow> app_error + schema_variable) \<Rightarrow> bool" where
  "json_column setv getv = (\<forall>d k b s db. json_plain s \<longrightarrow>
     getv (setv d k \<lparr>sv_Encrypt = b, sv_Value = [CHR 0x22] @ s @ [CHR 0x22]\<rparr> db) d k = Inr \<lparr>sv_Encrypt = b, sv_Value = s\<rparr>)"

lemma removeQuote_plain:
  assumes "json_plain s"
  shows "removeQuote s = s"
proof (cases "length s < 2")
  case False
  then have "s \<noteq> []" by auto
  then have "hd s \<noteq> CHR 0x22" "last s \<noteq> CHR 0x22" using assms by (auto simp: json_plain_def list_all_iff)
  then show ?thesis by (simp add: removeQuote_def Let_def)
qed (simp add: removeQuote_def Let_def)

section \<open>Properties\<close>

text \<open>
  C10: After any history of calls on a memory cache of room for at least one entry, from an
  empty one, a successful read of a key of a domain returns exactly the last value written to
  that key of that domain, not deleted since: expiry and eviction lose values, they never
  bring back an old or a foreign one.
\<close>

theorem cache_hit_is_last_write:
  assumes "t \<noteq> ''redis''" "fc_memory fm0 = NewMemoryCache sz ex" "1 \<le> sz"
    "CacheGetValue ro now t d k (fold (cache_step ro t) xs fm0) = (Inr cv, fm')"
  shows "\<exists>v. fold expected xs Map.empty (d, k) = Some v \<and> CacheValue_String cv = Inr v"
proof -
  have "agrees (fold (cache_step ro t) xs fm0) (fold expected xs Map.empty)"
    by (rule agrees_run [OF assms(1) agrees_new [OF assms(2,3)]])
  from agrees_hit [OF assms(1) this assms(4)] show ?thesis by (auto simp: CacheValue_String_def)
qed

definition example_redis :: "unit redis_ops" where
  "example_redis = \<lparr>rd_get = (\<lambda>k r. (Inl ''redis: nil'', r)), rd_set = (\<lambda>k v e r. (None, r)), rd_del = (\<lambda>k r. (None, r))\<rparr>"

definition example_caches :: "unit caches" where
  "example_caches = \<lparr>fc_memory = NewMemoryCache 2 10, fc_redis = None\<rparr>"

theorem cache_hit_is_last_write_witness:
  "\<exists>cv. fst (CacheGetValue example_redis 5 ''memory'' 1 ''a'' (fold (cache_step example_redis ''memory'')
       [OpSet 0 1 ''a'' ''x'' 100, OpSet 0 11 ''a'' ''y'' 100] example_caches)) = Inr cv \<and> CacheValue_String cv = Inr ''x''"
proof -
  let ?fm = "fold (cache_step example_redis ''memory'') [OpSet 0 1 ''a'' ''x'' 100, OpSet 0 11 ''a'' ''y'' 100] example_caches"
  have "case fst (CacheGetValue example_redis 5 ''memory'' 1 ''a'' ?fm) of Inr cv \<Rightarrow> True | Inl _ \<Rightarrow> False" by code_simp
  then obtain cv where c: "fst (CacheGetValue example_redis 5 ''memory'' 1 ''a'' ?fm) = Inr cv" by (auto split: sum.splits)
  then obtain fm' where "CacheGetValue example_redis 5 ''memory'' 1 ''a'' ?fm = (Inr cv, fm')" by (metis prod.collapse)
  from cache_hit_is_last_write [OF _ _ _ this, of 2 10] have "\<exists>v. fold expected [OpSet 0 1 ''a'' ''x'' 100, OpSet 0 11 ''a'' ''y'' 100]
      Map.empty (1, ''a'') = Some v \<and> CacheValue_String cv = Inr v" by (simp add: example_caches_def)
  then show ?thesis using c by auto
qed

text \<open>
  A value written to a key of a domain is read back until it expires: until \<open>ttl\<close> seconds
  later where \<open>ttl\<close> is positive, for ever where it is not.
\<close>

lemma cache_get_after_set:
  assumes "t \<noteq> ''redis''" "lru_inv (fc_memory fm)" "1 \<le> lru_size (fc_memory fm)"
    "CacheSetValue ro now t d k (GStr v) ttl fm = (r, fm1)" "0 < ttl \<Longrightarrow> now' \<le> now + ttl"
  shows "r = None \<and> (\<exists>fm2. CacheGetValue ro now' t d k fm1 = (Inr \<lparr>cv_value = GStr v\<rparr>, fm2))"
proof -
  let ?m = "fc_memory fm" and ?k = "domain_key d k"
  obtain r' mc where s: "MemoryCache_Set now ?k (GStr v) ttl ?m = (r', mc)" by force
  have fm1: "r = r'" "fc_memory fm1 = mc" using assms(4) by (auto simp: memory_calls [OF assms(1)] s)
  have "alive now' (GStr v, expires_at now ttl)" using assms(5) by (auto simp: alive_def expires_at_def)
  then obtain m2 where "MemoryCache_Get now' ?k mc = (Inr \<lparr>cv_value = GStr v\<rparr>, m2)"
    using memory.get_after_set [OF _ s, of now'] assms(2,3) by auto
  then show ?thesis
    using memory.set_law [OF _ s] assms(2,3) fm1 by (simp add: memory_calls [OF assms(1)])
qed

text \<open>
  \<open>Keys\<close> never indexes beyond its slice and leaves no place of it empty: on a reachable
  cache it lists the keys of the current generation, oldest first, each once.
\<close>

lemma lru_Keys_complete:
  assumes "lru_inv c"
  shows "\<exists>ks. lru_Keys c = Some (map Some ks) \<and> distinct ks \<and> int (length ks) = lru_Len c \<and>
     (\<forall>k. k \<in> set ks \<longleftrightarrow> content c k \<noteq> None)"
  using assms by (rule lru_Keys_content)

text \<open>
  C11: The operations of the cache keep its invariant: the map and the list of elements name
  each other, keys are unique, \<open>len\<close> counts the entries of the current generation, and the
  list never holds more entries than the size allows.
\<close>

theorem lru_operations_keep_invariant:
  assumes "lru_inv c"
  shows "lru_inv (AddWithExpiresInSecs now k v secs c) \<and> lru_inv (snd (lru_Get now k c)) \<and>
     lru_inv (lru_Remove k c) \<and> lru_inv (lru_Purge c)"
  using assms lru_Get_facts(1) [of c now k "fst (lru_Get now k c)" "snd (lru_Get now k c)"]
  by (simp add: lru_Add_facts lru_Remove_facts lru_Purge_facts)

theorem lru_operations_keep_invariant_witness:
  "lru_inv (lru_Remove ''a'' (NewLruWithParams 5 [] 0 [] :: (string, int) lru))"
  by (rule lru_operations_keep_invariant [OF NewLru_inv, THEN conjunct2, THEN conjunct2, THEN conjunct1])

text \<open>
  A schema variable that needs no JSON escapes is read back as written: the writer wraps
  it in quotes for the JSON column, the reader gets the text of the column and takes no more
  quotes off; encrypted too, where decryption undoes encryption.
\<close>

lemma schema_variable_round_trip:
  assumes "json_column setv getv" "json_plain (sv_Value v)"
    "sv_Encrypt v \<Longrightarrow> \<exists>y. enc (sv_Value v) = Inr y \<and> json_plain y \<and> dec y = Inr (sv_Value v)"
    "SetSchemaVariable enc setv d [(k, v)] db = (r, db')"
  shows "r = None \<and> fst (schemaVariable (getv db') dec now key d k cache) = sv_Value v"
proof (cases "sv_Encrypt v")
  case True
  then obtain y where y: "enc (sv_Value v) = Inr y" "json_plain y" "dec y = Inr (sv_Value v)" using assms(3) by blast
  then have "getv db' d k = Inr \<lparr>sv_Encrypt = True, sv_Value = y\<rparr>" "r = None"
    using assms(1,4) True by (cases v; auto simp: json_column_def)+
  then show ?thesis using y removeQuote_plain [OF assms(2)] by (simp add: schemaVariable_def Let_def)
next
  case False
  then have "getv db' d k = Inr \<lparr>sv_Encrypt = False, sv_Value = sv_Value v\<rparr>" "r = None"
    using assms(1,2,4) by (cases v; auto simp: json_column_def)+
  then show ?thesis using removeQuote_plain [OF assms(2)] by (simp add: schemaVariable_def Let_def)
qed

definition example_setv :: "int \<Rightarrow> string \<Rightarrow> schema_variable \<Rightarrow> (int \<times> string \<Rightarrow> schema_variable option) \<Rightarrow> int \<times> string \<Rightarrow> schema_variable option" where
  "example_setv d k v db = db((d, k) \<mapsto> v\<lparr>sv_Value := butlast (tl (sv_Value v))\<rparr>)"

definition example_getv :: "(int \<times> string \<Rightarrow> schema_variable option) \<Rightarrow> int \<Rightarrow> string \<Rightarrow> app_error + schema_variable" where
  "example_getv db d k = (case db (d, k) of None \<Rightarrow> Inl (NewInternalError [] []) | Some v \<Rightarrow> Inr v)"

text \<open>
  Writing a schema variable does not reach the cache of its readers: while an entry is
  alive, a read returns the cached value whatever the store holds.
\<close>

lemma schema_variable_read_is_cached:
  assumes "lru_inv cache" "content cache (variable_key d name) = Some (old, ex)" "alive now (old, ex)"
  shows "fst (SchemaVariable getv dec now d name cache) = old"
proof -
  obtain r c' where g: "lru_Get now (variable_key d name) cache = (r, c')" by force
  then have "r = Some old" using lru_Get_facts(2) [OF assms(1) g] assms(2,3) by simp
  then show ?thesis using g by (simp add: SchemaVariable_def Let_def)
qed

text \<open>
  C12: The schema cache is keyed by the id alone, but every read checks the time of the last
  update first: on success the schema either carries exactly the update time the store reports
  for this domain, or was read from the store for this domain just now.
\<close>

theorem GetSchemaById_current:
  assumes "lru_inv cache" "GetSchemaById get upd now d sid cache = (Inr s, cache')"
  shows "lru_inv cache' \<and> ((\<exists>u. upd d sid = Inr u \<and> sc_UpdatedAt s = u) \<or> get d sid = Inr s)"
proof -
  obtain h c1 where g: "lru_Get now sid cache = (h, c1)" by force
  have "lru_inv c1" using lru_Get_facts(1) [OF assms(1) g] .
  then have "lru_inv (AddWithDefaultExpires now sid s c1)" unfolding AddWithDefaultExpires_def by (rule lru_Add_facts)
  then show ?thesis
    using assms(2) g \<open>lru_inv c1\<close> by (auto simp: GetSchemaById_def GetSchema_def split: sum.splits option.splits if_splits)
qed

theorem GetSchemaById_current_witness:
  "let s = \<lparr>sc_Id = 4, sc_Name = ''n'', sc_UpdatedAt = 77, sc_Schema = []\<rparr>;
       get = (\<lambda>d i. if d = 1 then Inr s else Inl (NewInternalError [] []));
       c = NewLruWithParams 10 [] 60 []
   in lru_inv (snd (GetSchemaById get (\<lambda>d i. Inr 77) 0 1 4 c))"
proof -
  let ?s = "\<lparr>sc_Id = 4, sc_Name = ''n'', sc_UpdatedAt = 77, sc_Schema = []\<rparr>"
  let ?get = "\<lambda>d i. if d = (1 :: int) then Inr ?s else Inl (NewInternalError [] [])"
  let ?c = "NewLruWithParams 10 [] 60 [] :: (int, schema_rec) lru"
  have "fst (GetSchemaById ?get (\<lambda>d i. Inr 77) 0 1 4 ?c) = Inr ?s"
    by (simp add: GetSchemaById_def GetSchema_def lru_Get_def NewLruWithParams_def NewLru_def)
  then obtain c' where "GetSchemaById ?get (\<lambda>d i. Inr 77) 0 1 4 ?c = (Inr ?s, c')" by (metis prod.collapse)
  from GetSchemaById_current [OF NewLru_inv this] this show ?thesis by (simp add: Let_def)
qed

end
