(* ===== verification/Sql_Store.thy ===== *)
theory Sql_Store
  imports Text_Laws Lru_Cache Flow_Handlers "HOL-Library.List_Lexorder" "HOL-Library.Char_ord"
begin

text \<open>
  External databases: \<open>store/cachelayer/store.go\<close>, its settings (\<open>ExternalSQLSettings\<close> in
  \<open>model/config.go\<close>), \<open>app/sql.go\<close> and the application \<open>flow/sql.go\<close>.  A schema names a driver and
  a data source; SQLite files are confined to a sandbox directory.

  The file system and the database drivers are arguments (\<open>host\<close>); the path functions of the standard
  library are defined on byte strings with the separator of Unix.
\<close>

section \<open>strings: TrimSpace, ToLower\<close>

definition unicode_space :: "int \<Rightarrow> bool" where
  "unicode_space c = ((9 \<le> c \<and> c \<le> 13) \<or> (8192 \<le> c \<and> c \<le> 8202) \<or>
     c \<in> {32, 133, 160, 5760, 8232, 8233, 8239, 8287, 12288})"

definition space_rune :: "nat option \<times> string \<Rightarrow> bool" where
  "space_rune r = (case fst r of None \<Rightarrow> False | Some c \<Rightarrow> unicode_space (int c))"

definition TrimSpace :: "string \<Rightarrow> string" where
  "TrimSpace s = concat (map snd (rev (dropWhile space_rune (rev (dropWhile space_rune (runes s))))))"

text \<open>
  \<open>strings.ToLower\<close>, as far as its result can be one of the names it is compared with: outside
  ASCII only the dotted capital I and the Kelvin sign have a small ASCII letter.
\<close>

definition lower_rune :: "nat option \<times> string \<Rightarrow> string" where
  "lower_rune r = (case fst r of
     None \<Rightarrow> snd r
   | Some c \<Rightarrow> if 65 \<le> c \<and> c \<le> 90 then [char_of (c + 32)] else if int c = 304 then ''i'' else if int c = 8490 then ''k'' else snd r)"

definition ToLower :: "string \<Rightarrow> string" where
  "ToLower s = concat (map lower_rune (runes s))"

section \<open>path/filepath\<close>

definition IsAbs :: "string \<Rightarrow> bool" where
  "IsAbs p = has_prefix p ''/''"

definition dotdot :: string where "dotdot = ''..''"

text \<open>The elements of a cleaned path, from the elements left and the reversed output.\<close>

fun clean_elems :: "bool \<Rightarrow> string list \<Rightarrow> string list \<Rightarrow> string list" where
  "clean_elems rooted out [] = rev out"
| "clean_elems rooted out (x # xs) =
     (if x = [] \<or> x = ''.'' then clean_elems rooted out xs
      else if x = dotdot then
        (case out of
           [] \<Rightarrow> clean_elems rooted (if rooted then [] else [dotdot]) xs
         | y # ys \<Rightarrow> clean_elems rooted (if y = dotdot then dotdot # out else ys) xs)
      else clean_elems rooted (x # out) xs)"

definition elems :: "string \<Rightarrow> string list" where
  "elems p = clean_elems (IsAbs p) [] (split_on (CHR ''/'') p)"

fun join_path :: "string list \<Rightarrow> string" where
  "join_path [] = []"
| "join_path [x] = x"
| "join_path (x # y # zs) = x @ CHR ''/'' # join_path (y # zs)"

definition Clean :: "string \<Rightarrow> string" where
  "Clean p = (if IsAbs p then CHR ''/'' # join_path (elems p)
     else if elems p = [] then ''.'' else join_path (elems p))"

text \<open>\<open>Join\<close> with two elements; empty ones are ignored.\<close>

definition Join :: "string \<Rightarrow> string \<Rightarrow> string" where
  "Join a b = (case filter (\<lambda>x. x \<noteq> []) [a, b] of [] \<Rightarrow> [] | xs \<Rightarrow> Clean (join_path xs))"

fun strip_common :: "string list \<Rightarrow> string list \<Rightarrow> string list \<times> string list" where
  "strip_common (x # xs) (y # ys) = (if x = y then strip_common xs ys else (x # xs, y # ys))"
| "strip_common xs ys = (xs, ys)"

text \<open>
  \<open>Rel\<close> on the elements of the cleaned paths; \<open>None\<close> is its error.  A target that is the current
  directory has the element ".", a base that is has none.  The error for a base that goes up
  arises only where the target has another element at that place.
\<close>

definition Rel :: "string \<Rightarrow> string \<Rightarrow> string option" where
  "Rel base targ =
     (if Clean base = Clean targ then Some ''.''
      else if IsAbs base \<noteq> IsAbs targ then None
      else case strip_common (elems base) (if \<not> IsAbs targ \<and> elems targ = [] then [''.''] else elems targ) of
          ([], ts) \<Rightarrow> Some (join_path ts)
        | (b # bs, ts) \<Rightarrow>
            if b = dotdot \<and> ts \<noteq> [] then None
            else Some (join_path (replicate (length (b # bs)) dotdot @ ts)))"

section \<open>net/url\<close>

definition path_escape_byte :: "char \<Rightarrow> string" where
  "path_escape_byte c =
     (if is_alnum c \<or> c \<in> set ''-_.~$&+,/:;=@'' then [c]
      else CHR 0x25 # [hex_upper (of_char c div 16), hex_upper (of_char c mod 16)])"

definition EscapedPath :: "string \<Rightarrow> string" where
  "EscapedPath p = (if p = ''*'' then ''*'' else concat (map path_escape_byte p))"

text \<open>\<open>Values.Encode\<close>: sorted by key, the values of a key in their order.\<close>

definition Values_Encode :: "(string \<times> string list) list \<Rightarrow> string" where
  "Values_Encode q = concat (map (\<lambda>(i, k, v). (if i = 0 then [] else ''&'') @ QueryEscape k @ CHR ''='' # QueryEscape v)
     (enumerate 0 (concat (map (\<lambda>(k, vs). map (\<lambda>v. (k, v)) vs) (sort_key fst q)))))"

section \<open>The manager (store/cachelayer/store.go)\<close>

definition SQLiteDriverName :: string where "SQLiteDriverName = ''sqlite_sandboxed''"

definition CacheSize :: int where "CacheSize = 100"
definition CacheExpire :: int where "CacheExpire = 25 * 1000"

datatype auth_action = AuthSelect | AuthRead | AuthFunction | AuthRecursive | AuthInsert | AuthUpdate | AuthDelete | AuthOther nat
datatype auth_return = AuthorizerOK | AuthorizerDeny

fun sqliteAuthorizer :: "auth_action \<Rightarrow> auth_return" where
  "sqliteAuthorizer AuthSelect = AuthorizerOK"
| "sqliteAuthorizer AuthRead = AuthorizerOK"
| "sqliteAuthorizer AuthFunction = AuthorizerOK"
| "sqliteAuthorizer AuthRecursive = AuthorizerOK"
| "sqliteAuthorizer AuthInsert = AuthorizerOK"
| "sqliteAuthorizer AuthUpdate = AuthorizerOK"
| "sqliteAuthorizer AuthDelete = AuthorizerOK"
| "sqliteAuthorizer _ = AuthorizerDeny"

text \<open>
  What the process sees of its host: the working directory, the resolution of symbolic links (which
  fails for a missing file), the file modes, and the drivers' \<open>sql.Open\<close>.
\<close>

record file_info =
  fi_regular :: bool
  fi_dir :: bool
  fi_perm :: nat

record 'db host =
  ho_Getwd :: "string option"
  ho_EvalSymlinks :: "string \<Rightarrow> string option"
  ho_Stat :: "string \<Rightarrow> file_info option"
  ho_Open :: "string \<Rightarrow> string \<Rightarrow> string + 'db"

definition Abs :: "'db host \<Rightarrow> string \<Rightarrow> string option" where
  "Abs h p = (if IsAbs p then Some (Clean p) else map_option (\<lambda>wd. Join wd p) (ho_Getwd h))"

record 'db external_store =
  es_sqliteSandboxDir :: string
  es_sqliteWriteEnabled :: bool
  es_cache :: "(string, 'db) lru"

datatype store_option = WithSQLiteSandboxDir string | WithWriteOperationsEnabled bool

fun apply_option :: "store_option \<Rightarrow> 'db external_store \<Rightarrow> 'db external_store" where
  "apply_option (WithSQLiteSandboxDir d) e = e\<lparr>es_sqliteSandboxDir := d\<rparr>"
| "apply_option (WithWriteOperationsEnabled b) e = e\<lparr>es_sqliteWriteEnabled := b\<rparr>"

definition NewExternalStoreManager :: "store_option list \<Rightarrow> 'db external_store" where
  "NewExternalStoreManager os = fold apply_option os
     \<lparr>es_sqliteSandboxDir = [], es_sqliteWriteEnabled = False,
      es_cache = NewLruWithParams CacheSize ''external'' CacheExpire []\<rparr>"

definition isSQLiteDriver :: "string \<Rightarrow> bool" where
  "isSQLiteDriver driver = (ToLower (TrimSpace driver) \<in> {''sqlite'', ''sqlite3'', SQLiteDriverName})"

definition isWithin :: "string \<Rightarrow> string \<Rightarrow> bool" where
  "isWithin rt p = (case Rel rt p of
     None \<Rightarrow> False
   | Some rel \<Rightarrow> rel \<noteq> dotdot \<and> \<not> has_prefix rel (dotdot @ ''/''))"

definition sandbox_fail :: "string \<Rightarrow> string \<Rightarrow> int \<Rightarrow> app_error" where
  "sandbox_fail code detail status =
     NewAppError ''ResolveSandboxPath'' (''cachelayer.store.resolve_sandbox_path.'' @ code) [] detail status"

definition resolveSandboxPath :: "'db host \<Rightarrow> 'db external_store \<Rightarrow> string \<Rightarrow> string result" where
  "resolveSandboxPath h e p0 =
     (let p1 = TrimSpace p0 in
      if p1 = [] then Inl (sandbox_fail ''empty_path'' ''empty sqlite path'' 400)
      else case Option.bind (Abs h (es_sqliteSandboxDir e)) (ho_EvalSymlinks h) of
          None \<Rightarrow> Inl (sandbox_fail ''sandbox_root'' ''sandbox directory is not accessible'' 500)
        | Some rt \<Rightarrow>
            (let p2 = (if IsAbs p1 then p1 else Join rt p1) in
             case ho_EvalSymlinks h p2 of
               None \<Rightarrow> Inl (sandbox_fail ''not_accessible'' ''file is not accessible'' 404)
             | Some realPath \<Rightarrow>
                 if \<not> isWithin rt realPath then Inl (sandbox_fail ''not_accessible'' ''file is not accessible'' 404)
                 else (case ho_Stat h realPath of
                     None \<Rightarrow> Inl (sandbox_fail ''not_regular'' ''not a regular file'' 400)
                   | Some fi \<Rightarrow>
                       if \<not> fi_regular fi then Inl (sandbox_fail ''not_regular'' ''not a regular file'' 400)
                       else Inr realPath)))"

definition sqlite_query :: "bool \<Rightarrow> (string \<times> string list) list" where
  "sqlite_query write = [(''mode'', [if write then ''rw'' else ''ro'']),
     (''_pragma'', [''trusted_schema(0)'', ''busy_timeout(5000)'']), (''_defensive'', [''1''])]"

definition buildSQLiteDSN :: "'db host \<Rightarrow> 'db external_store \<Rightarrow> string \<Rightarrow> string result" where
  "buildSQLiteDSN h e userPath =
     (if es_sqliteSandboxDir e = [] then
        Inl (NewAppError ''BuildSQLiteDSN'' ''cachelayer.store.build_sqlite_dsn.empty'' []
          ''sqlite is disabled: sandbox directory not configured'' 400)
      else case resolveSandboxPath h e userPath of
          Inl err \<Rightarrow> Inl err
        | Inr realPath \<Rightarrow>
            Inr (''file:'' @ EscapedPath realPath @ CHR ''?'' # Values_Encode (sqlite_query (es_sqliteWriteEnabled e))))"

definition resolveConnection :: "'db host \<Rightarrow> 'db external_store \<Rightarrow> string \<Rightarrow> string \<Rightarrow> (string \<times> string) result" where
  "resolveConnection h e driver dsn =
     (if \<not> isSQLiteDriver driver then Inr (driver, dsn)
      else case buildSQLiteDSN h e dsn of Inl err \<Rightarrow> Inl err | Inr d \<Rightarrow> Inr (SQLiteDriverName, d))"

text \<open>
  \<open>Connect\<close>.  The closure handed to \<open>singleflight\<close> looks a second time, since another caller
  may have opened the database meanwhile.
\<close>

definition Connect :: "'db host \<Rightarrow> int \<Rightarrow> string \<Rightarrow> string \<Rightarrow> 'db external_store \<Rightarrow> 'db result \<times> 'db external_store" where
  "Connect h now cfgDriver cfgDSN e =
     (case resolveConnection h e cfgDriver cfgDSN of
        Inl err \<Rightarrow> (Inl err, e)
      | Inr (driver, dsn) \<Rightarrow>
          (let key = driver @ ''|'' @ dsn in
           case lru_Get now key (es_cache e) of
             (Some d, c1) \<Rightarrow> (Inr d, e\<lparr>es_cache := c1\<rparr>)
           | (None, c1) \<Rightarrow>
               (case lru_Get now key c1 of
                  (Some d, c2) \<Rightarrow> (Inr d, e\<lparr>es_cache := c2\<rparr>)
                | (None, c2) \<Rightarrow>
                    (case ho_Open h driver dsn of
                       Inl err \<Rightarrow> (Inl (NewAppError ''Cache'' ''cache.connect.open_err'' [] err 500), e\<lparr>es_cache := c2\<rparr>)
                     | Inr db \<Rightarrow> (Inr db, e\<lparr>es_cache := AddWithDefaultExpires now key db c2\<rparr>)))))"

section \<open>Queries\<close>

text \<open>
  What a driver answers to a query: an error of \<open>QueryContext\<close>, or rows with an error or the names of
  the columns, and for the first row an error of \<open>Next\<close>, no row, an error of \<open>Scan\<close>, or the values.
  Byte strings are \<open>Bytes\<close>; any other value is given by its \<open>fmt.Sprint\<close> text.
\<close>

datatype sql_value = Bytes string | Printed string

datatype first_row = NextErr string | NoRow | ScanErr string | Row "sql_value list"

record sql_rows =
  sr_Columns :: "string + string list"
  sr_first :: first_row

definition queryError :: "string \<Rightarrow> string \<Rightarrow> app_error" where
  "queryError idn err = NewAppError ''Cache.Query'' idn [] err 500"

fun value_text :: "sql_value \<Rightarrow> string" where
  "value_text (Bytes b) = b"
| "value_text (Printed s) = s"

definition Query :: "(string \<Rightarrow> goval list \<Rightarrow> string + sql_rows) \<Rightarrow> string \<Rightarrow> goval list \<Rightarrow> (string \<rightharpoonup> string) result" where
  "Query q text params =
     (case q text params of
        Inl err \<Rightarrow> Inl (queryError ''cache.query.err'' err)
      | Inr rows \<Rightarrow>
          (case sr_Columns rows of
             Inl err \<Rightarrow> Inl (queryError ''cache.query.columns.err'' err)
           | Inr names \<Rightarrow>
               (case sr_first rows of
                  NextErr err \<Rightarrow> Inl (queryError ''cachelayer.store.external_db.rows_next'' err)
                | NoRow \<Rightarrow> Inr Map.empty
                | ScanErr err \<Rightarrow> Inl (queryError ''cache.query.scan.err'' err)
                | Row vs \<Rightarrow> Inr (map_of (rev (zip names (map value_text vs)))))))"

section \<open>Settings (model/config.go, app/app.go, app/sql.go)\<close>

record sql_settings =
  ss_Enabled :: bool
  ss_SQLiteSandboxRootDirectory :: string
  ss_SQLiteWriteEnabled :: bool

definition settings_error :: "string \<Rightarrow> string \<Rightarrow> app_error" where
  "settings_error code detail = NewAppError ''Config'' (''model.config.external_sql_settings.'' @ code) [] detail 400"

text \<open>The error of \<open>EvalSymlinks\<close> is printed into the detail; \<open>show_err\<close> is that text.\<close>

definition Prepare :: "'db host \<Rightarrow> string \<Rightarrow> sql_settings \<Rightarrow> app_error option \<times> sql_settings" where
  "Prepare h show_err s =
     (let d = ss_SQLiteSandboxRootDirectory s in
      if TrimSpace d = [] then (Some (settings_error ''empty'' ''empty external sql sandbox dir''), s)
      else if \<not> IsAbs d then (Some (settings_error ''not_absolute'' ''sandbox root must be absolute''), s)
      else case ho_EvalSymlinks h (Clean d) of
          None \<Rightarrow> (Some (settings_error ''sandbox_root'' (''sandbox root '' @ show_err)), s)
        | Some realDir \<Rightarrow>
            (case ho_Stat h realDir of
               None \<Rightarrow> (Some (settings_error ''sandbox_not_dir'' ''sandbox root path must be an existing directory''), s)
             | Some fi \<Rightarrow>
                 if \<not> fi_dir fi then (Some (settings_error ''sandbox_not_dir'' ''sandbox root path must be an existing directory''), s)
                 else if (fi_perm fi div 2) mod 2 \<noteq> 0 then (Some (settings_error ''world_writable'' ''sandbox root must not be a world writable''), s)
                 else (None, s\<lparr>ss_SQLiteSandboxRootDirectory := realDir\<rparr>)))"

text \<open>The part of the start-up in \<open>app/app.go\<close> that sets up the manager.\<close>

definition setup_external :: "'db host \<Rightarrow> string \<Rightarrow> sql_settings \<Rightarrow> 'db external_store option" where
  "setup_external h show_err s =
     (if \<not> ss_Enabled s then None
      else (case Prepare h show_err s of
          (Some _, _) \<Rightarrow> Some (NewExternalStoreManager [WithWriteOperationsEnabled (ss_SQLiteWriteEnabled s)])
        | (None, s') \<Rightarrow> Some (NewExternalStoreManager
            [WithWriteOperationsEnabled (ss_SQLiteWriteEnabled s), WithSQLiteSandboxDir (ss_SQLiteSandboxRootDirectory s')])))"

definition ErrExternalStoreDisabled :: app_error where
  "ErrExternalStoreDisabled = NewAppError ''App'' ''app.settings.sql.external.disabled'' [] ''External store disabled'' 403"

definition GetSqlDb :: "'db host \<Rightarrow> int \<Rightarrow> string \<Rightarrow> string \<Rightarrow> 'db external_store option \<Rightarrow> 'db result \<times> 'db external_store option" where
  "GetSqlDb h now driver dns ext =
     (case ext of
        None \<Rightarrow> (Inl ErrExternalStoreDisabled, None)
      | Some e \<Rightarrow> (case Connect h now driver dns e of (r, e') \<Rightarrow> (r, Some e')))"

section \<open>The application (flow/sql.go)\<close>

record sql_args =
  sa_Driver :: string
  sa_Dns :: string
  sa_Query :: string
  sa_Params :: "goval list"
  sa_Timeout :: int

text \<open>
  The decoder fills the arguments over the default time-out; \<open>runs db\<close> is how the opened database
  answers under the deadline of the request.  A success hands the values to the connection's
  \<open>Set\<close>.
\<close>

definition SqlHandler ::
  "'db host \<Rightarrow> ('db \<Rightarrow> int \<Rightarrow> string \<Rightarrow> goval list \<Rightarrow> string + sql_rows) \<Rightarrow> (goval \<Rightarrow> sql_args \<Rightarrow> sql_args result) \<Rightarrow>
   ((string \<rightharpoonup> string) \<Rightarrow> 'c \<Rightarrow> response result \<times> 'c) \<Rightarrow> int \<Rightarrow> goval \<Rightarrow> 'db external_store option \<times> 'c \<Rightarrow>
   (response option \<times> app_error option) \<times> 'db external_store option \<times> 'c" where
  "SqlHandler h runs decode setVars now args st =
     (case st of (ext, conn) \<Rightarrow>
        case decode args \<lparr>sa_Driver = [], sa_Dns = [], sa_Query = [], sa_Params = [], sa_Timeout = 1000\<rparr> of
          Inl err \<Rightarrow> ((None, Some err), ext, conn)
        | Inr req \<Rightarrow>
            if sa_Query req = [] then ((None, Some (ErrorRequiredParameter ''sql'' ''query'')), ext, conn)
            else if sa_Driver req = [] then ((None, Some (ErrorRequiredParameter ''sql'' ''driver'')), ext, conn)
            else if sa_Dns req = [] then ((None, Some (ErrorRequiredParameter ''sql'' ''dns'')), ext, conn)
            else (case GetSqlDb h now (sa_Driver req) (sa_Dns req) ext of
                (Inl err, ext') \<Rightarrow> ((Some CallResponseError, Some err), ext', conn)
              | (Inr db, ext') \<Rightarrow>
                  (case Query (runs db (sa_Timeout req)) (sa_Query req) (sa_Params req) of
                     Inl err \<Rightarrow> ((Some CallResponseError, Some err), ext', conn)
                   | Inr vals \<Rightarrow>
                       (case setVars vals conn of
                          (Inl err, conn') \<Rightarrow> ((None, Some err), ext', conn')
                        | (Inr r, conn') \<Rightarrow> ((Some r, None), ext', conn')))))"

end
