(* ===== verification/Sql_Laws.thy ===== *)
theory Sql_Laws
  imports Sql_Store
begin

text \<open>
  The sandbox: what \<open>Clean\<close> and \<open>Rel\<close> guarantee, that a resolved path lies below the root, that the
  path cannot reach the query part of the data source name, and that a handle given out for
  SQLite was opened through the sandbox.
\<close>

section \<open>Cleaned paths\<close>

definition name_ok :: "string \<Rightarrow> bool" where
  "name_ok x = (x \<noteq> [] \<and> x \<noteq> ''.'' \<and> x \<noteq> dotdot \<and> CHR ''/'' \<notin> set x)"

text \<open>The elements of a cleaned path: steps up (only of a relative path), then names.\<close>

definition clean_list :: "bool \<Rightarrow> string list \<Rightarrow> bool" where
  "clean_list rooted xs = (\<exists>k ns. xs = replicate k dotdot @ ns \<and> list_all name_ok ns \<and> (rooted \<longrightarrow> k = 0))"

lemma clean_list_Nil [simp]: "clean_list r []"
  by (auto simp: clean_list_def)

lemma clean_listI: "xs = replicate k dotdot @ ns \<Longrightarrow> list_all name_ok ns \<Longrightarrow> (r \<Longrightarrow> k = 0) \<Longrightarrow> clean_list r xs"
  by (auto simp: clean_list_def)

lemma clean_listE:
  assumes "clean_list r xs"
  obtains k ns where "xs = replicate k dotdot @ ns" "list_all name_ok ns" "r \<Longrightarrow> k = 0"
  using assms by (auto simp: clean_list_def)

lemma clean_list_snoc:
  assumes "clean_list r xs" "name_ok x"
  shows "clean_list r (xs @ [x])"
  using assms(1) by (rule clean_listE) (rule clean_listI [of _ _ "_ @ [x]"], use assms(2) in auto)

lemma name_ok_dotdot [simp]: "\<not> name_ok dotdot"
  by (simp add: name_ok_def)

lemma clean_list_up:
  assumes "clean_list r (xs @ [dotdot])"
  shows "clean_list r (xs @ [dotdot] @ [dotdot])" "\<not> r"
proof -
  from assms obtain k ns where k: "xs @ [dotdot] = replicate k dotdot @ ns" "list_all name_ok ns" "r \<longrightarrow> k = 0"
    by (auto simp: clean_list_def)
  then have "ns = []" by (cases ns rule: rev_cases) auto
  then have eq: "xs @ [dotdot] = replicate k dotdot" "0 < k" using k(1) by (auto intro: gr0I)
  then show "\<not> r" using k(3) by auto
  have "(xs @ [dotdot]) @ [dotdot] = replicate (Suc k) dotdot" unfolding eq(1) by (simp add: replicate_append_same)
  then show "clean_list r (xs @ [dotdot] @ [dotdot])"
    unfolding clean_list_def using \<open>\<not> r\<close> by (metis append.assoc append_Nil2 list.pred_inject(1))
qed

lemma clean_list_pop: "clean_list r (xs @ [x]) \<Longrightarrow> clean_list r xs"
proof -
  assume "clean_list r (xs @ [x])"
  then obtain k ns where k: "xs @ [x] = replicate k dotdot @ ns" "list_all name_ok ns" "r \<longrightarrow> k = 0"
    by (auto simp: clean_list_def)
  show ?thesis
  proof (cases ns rule: rev_cases)
    case Nil
    then obtain j where "k = Suc j" using k(1) by (cases k) auto
    then have "xs = replicate j dotdot" using k(1) Nil by (simp add: replicate_append_same [symmetric])
    then show ?thesis using k(3) \<open>k = Suc j\<close> by (intro clean_listI [of _ j "[]"]) auto
  qed (use k in \<open>auto simp: clean_list_def\<close>)
qed

lemma split_on_sep: "x \<in> set (split_on c s) \<Longrightarrow> c \<notin> set x"
  by (induction s arbitrary: x) (auto split: if_splits list.splits)

lemma clean_elems_clean:
  "clean_list r (rev out) \<Longrightarrow> \<forall>x\<in>set xs. CHR ''/'' \<notin> set x \<Longrightarrow> clean_list r (clean_elems r out xs)"
proof (induction r out xs rule: clean_elems.induct)
  case step: (2 rooted out x xs)
  consider "x = [] \<or> x = ''.''" | "x = dotdot" "x \<noteq> [] \<and> x \<noteq> ''.''" | "name_ok x" "x \<noteq> dotdot" "x \<noteq> [] \<and> x \<noteq> ''.''"
    using step.prems(2) by (auto simp: name_ok_def)
  then show ?case
  proof cases
    case 1
    then show ?thesis using step by simp
  next
    case 2
    have up: "clean_list False [dotdot]" by (rule clean_listI [of _ 1 "[]"]) auto
    show ?thesis
    proof (cases out)
      case Nil
      then show ?thesis using 2 step.IH(2) step.prems up by (cases rooted) simp_all
    next
      case (Cons y ys)
      then have "clean_list rooted (rev ys @ [y])" using step.prems by simp
      then have "clean_list rooted (rev (if y = dotdot then dotdot # out else ys))"
        using clean_list_up(1) [of rooted "rev ys"] clean_list_pop Cons by auto
      then show ?thesis using 2 step.IH(3) [OF _ _ Cons] step.prems Cons by (auto split: if_splits)
    qed
  next
    case 3
    then show ?thesis using step.IH(4) step.prems clean_list_snoc by simp
  qed
qed simp

lemma elems_clean: "clean_list (IsAbs p) (elems p)"
  unfolding elems_def by (rule clean_elems_clean) (auto dest: split_on_sep)

text \<open>A cleaned path is cleaned to itself.\<close>

lemma clean_elems_names: "list_all name_ok ns \<Longrightarrow> clean_elems r out (ns @ xs) = clean_elems r (rev ns @ out) xs"
  by (induction ns arbitrary: out) (auto simp: name_ok_def)

lemma clean_elems_ups:
  "(out = [] \<or> hd out = dotdot) \<Longrightarrow> clean_elems False out (replicate k dotdot @ xs) = clean_elems False (replicate k dotdot @ out) xs"
proof (induction k arbitrary: out)
  case (Suc k)
  have "dotdot \<noteq> []" "dotdot \<noteq> ''.''" by (simp_all add: dotdot_def)
  then have "clean_elems False out (replicate (Suc k) dotdot @ xs) = clean_elems False (dotdot # out) (replicate k dotdot @ xs)"
    using Suc.prems by (cases out) auto
  also have "\<dots> = clean_elems False (replicate k dotdot @ dotdot # out) xs" by (rule Suc.IH) simp
  finally show ?case by (simp add: replicate_app_Cons_same)
qed simp

lemma clean_elems_same: "clean_list r xs \<Longrightarrow> clean_elems r [] xs = xs"
proof (erule clean_listE)
  fix k ns assume xs: "xs = replicate k dotdot @ ns" "list_all name_ok ns" "r \<Longrightarrow> k = 0"
  show ?thesis
  proof (cases r)
    case True
    then show ?thesis using xs clean_elems_names [of ns r "[]" "[]"] by simp
  next
    case False
    then show ?thesis using xs clean_elems_names [of ns r "replicate k dotdot" "[]"] clean_elems_ups [of "[]" k ns] by simp
  qed
qed

lemma clean_list_elem:
  assumes "clean_list r xs" "x \<in> set xs"
  shows "x \<noteq> [] \<and> x \<noteq> ''.'' \<and> CHR ''/'' \<notin> set x"
proof -
  from assms(1) obtain k ns where "xs = replicate k dotdot @ ns" "list_all name_ok ns" by (rule clean_listE)
  then have "x = dotdot \<or> name_ok x" using assms(2) by (auto simp: list_all_iff)
  then show ?thesis by (auto simp: name_ok_def dotdot_def)
qed

lemma split_join:
  "xs \<noteq> [] \<Longrightarrow> \<forall>x\<in>set xs. CHR ''/'' \<notin> set x \<Longrightarrow> split_on (CHR ''/'') (join_path xs) = xs"
  by (induction xs rule: join_path.induct) (auto simp: split_on_no_sep split_on_append_sep)

lemma join_path_hd:
  assumes "xs \<noteq> []" "\<forall>x\<in>set xs. x \<noteq> [] \<and> CHR ''/'' \<notin> set x"
  shows "\<not> IsAbs (join_path xs)" "join_path xs \<noteq> []"
  using assms by (cases xs rule: join_path.cases; auto simp: IsAbs_def has_prefix_def neq_Nil_conv)+

lemma elems_Clean: "IsAbs (Clean p) = IsAbs p" "elems (Clean p) = elems p"
proof -
  note c = elems_clean [of p]
  have el: "\<forall>x\<in>set (elems p). x \<noteq> [] \<and> CHR ''/'' \<notin> set x" using clean_list_elem [OF c] by blast
  show abs: "IsAbs (Clean p) = IsAbs p"
    using join_path_hd(1) [OF _ el] by (auto simp: Clean_def IsAbs_def has_prefix_def)
  have split: "elems p \<noteq> [] \<Longrightarrow> split_on (CHR ''/'') (join_path (elems p)) = elems p" using split_join el by blast
  show "elems (Clean p) = elems p"
  proof (cases "elems p = []")
    case True
    then show ?thesis unfolding elems_def [of "Clean p"] by (auto simp: abs Clean_def)
  next
    case False
    then have "split_on (CHR ''/'') (Clean p) = (if IsAbs p then [] # elems p else elems p)"
      using split by (simp add: Clean_def)
    then show ?thesis unfolding elems_def [of "Clean p"] abs using clean_elems_same [OF c] by (cases "IsAbs p") simp_all
  qed
qed

lemma Clean_eq: "Clean p = Clean q \<Longrightarrow> IsAbs p = IsAbs q \<and> elems p = elems q"
  by (metis elems_Clean)

section \<open>Inside the sandbox\<close>

lemma strip_common_append:
  "strip_common xs ys = (us, vs) \<Longrightarrow> \<exists>ws. xs = ws @ us \<and> ys = ws @ vs"
  by (induction xs ys arbitrary: us vs rule: strip_common.induct) (auto split: if_splits intro: exI [of _ "_ # _"] dest!: meta_spec)

lemma ups_prefix: "join_path (dotdot # ts) = dotdot \<or> has_prefix (join_path (dotdot # ts)) (dotdot @ ''/'')"
  by (cases ts) (simp_all add: has_prefix_def dotdot_def)

lemma clean_list_suffix:
  assumes "clean_list r (ws @ vs)" "vs = [] \<or> hd vs \<noteq> dotdot"
  shows "dotdot \<notin> set vs"
proof -
  from assms(1) obtain k ns where k: "ws @ vs = replicate k dotdot @ ns" "list_all name_ok ns" by (rule clean_listE)
  have ns: "dotdot \<notin> set ns" using k(2) name_ok_dotdot by (auto simp: list_all_iff)
  from k(1) consider us where "ns = us @ vs" | us where "ws @ us = replicate k dotdot" "vs = us @ ns"
    by (auto simp: append_eq_append_conv2)
  then show ?thesis
  proof cases
    case 2
    have "set us \<subseteq> {dotdot}" using arg_cong [OF 2(1), of set] by (auto simp: set_replicate_conv_if split: if_splits)
    then have "us = []" using assms(2) 2(2) by (cases us) auto
    then show ?thesis using ns 2(2) by simp
  qed (use ns in auto)
qed

definition below :: "string \<Rightarrow> string \<Rightarrow> bool" where
  "below rt p = (IsAbs p = IsAbs rt \<and> (\<exists>rest. elems p = elems rt @ rest \<and> dotdot \<notin> set rest))"

lemma isWithin_below:
  assumes "isWithin rt p"
  shows "below rt p"
proof (cases "Clean rt = Clean p")
  case True
  then show ?thesis using Clean_eq [OF True] by (simp add: below_def)
next
  case ne: False
  from assms obtain rel where rel: "Rel rt p = Some rel" "rel \<noteq> dotdot" "\<not> has_prefix rel (dotdot @ ''/'')"
    by (auto simp: isWithin_def split: option.splits)
  then have a: "IsAbs rt = IsAbs p" using ne by (auto simp: Rel_def split: if_splits)
  let ?t = "if \<not> IsAbs p \<and> elems p = [] then [''.''] else elems p"
  obtain us vs where s: "strip_common (elems rt) ?t = (us, vs)" by force
  from strip_common_append [OF s] obtain ws where ws: "elems rt = ws @ us" "?t = ws @ vs" by blast
  have us: "us = []"
  proof (rule ccontr)
    assume "us \<noteq> []"
    then obtain b bs where "us = b # bs" by (cases us) auto
    then have "rel = join_path (dotdot # replicate (length bs) dotdot @ vs)"
      using rel(1) a ne s by (auto simp: Rel_def split: if_splits)
    then show False using ups_prefix rel(2,3) by metis
  qed
  have dot: "\<not> (\<not> IsAbs p \<and> elems p = [])"
  proof
    assume p: "\<not> IsAbs p \<and> elems p = []"
    then have "elems rt = [''.''] \<or> elems rt = []" using ws us by (auto simp: Cons_eq_append_conv)
    moreover have "elems rt \<noteq> [''.'']" using clean_list_elem [OF elems_clean, of "''.''" rt] by auto
    ultimately show False using ne p a by (simp add: Clean_def)
  qed
  then have p: "elems p = elems rt @ vs" using ws us by (auto split: if_splits)
  have "rel = join_path vs" using rel(1) a ne s us dot by (auto simp: Rel_def split: if_splits)
  then have hd: "vs = [] \<or> hd vs \<noteq> dotdot" using ups_prefix rel(2,3) by (metis list.collapse)
  have "dotdot \<notin> set vs" using elems_clean [of p] hd unfolding p by (rule clean_list_suffix)
  then show ?thesis using a p by (simp add: below_def)
qed

lemma resolve_below:
  assumes "resolveSandboxPath h e p = Inr q"
  shows "\<exists>rt fi. Option.bind (Abs h (es_sqliteSandboxDir e)) (ho_EvalSymlinks h) = Some rt \<and> below rt q \<and>
     ho_Stat h q = Some fi \<and> fi_regular fi"
  using assms isWithin_below
  by (auto simp: resolveSandboxPath_def Let_def split: if_splits option.splits sum.splits)

section \<open>The data source name\<close>

definition dsn_path_chars :: "char set" where
  "dsn_path_chars = {c. is_alnum c} \<union> set ''-_.~$&+,/:;=@*'' \<union> {CHR 0x25}"

lemma path_escape_cases:
  "(path_escape_byte c = [c] \<and> c \<in> dsn_path_chars \<and> c \<noteq> CHR 0x25) \<or>
   path_escape_byte c = CHR 0x25 # [hex_upper (of_char c div 16), hex_upper (of_char c mod 16)]"
proof (cases "is_alnum c \<or> c \<in> set ''-_.~$&+,/:;=@''")
  case True
  then have "c \<noteq> CHR 0x25" by (auto simp: is_alnum_def)
  then show ?thesis using True by (auto simp: path_escape_byte_def dsn_path_chars_def)
qed (auto simp: path_escape_byte_def)

lemma EscapedPath_facts: "set (EscapedPath p) \<subseteq> dsn_path_chars" "uri_decode (EscapedPath p) = p"
proof -
  have "set (path_escape_byte c) \<subseteq> dsn_path_chars" for c
    using path_escape_cases [of c] hex_upper_facts(3) byte_less [of c] by (auto simp: dsn_path_chars_def)
  moreover have "CHR ''*'' \<in> dsn_path_chars" by (simp add: dsn_path_chars_def)
  ultimately show "set (EscapedPath p) \<subseteq> dsn_path_chars" by (auto simp: EscapedPath_def simp del: Un_iff)
  have "uri_decode (concat (map path_escape_byte p)) = p"
  proof (induction p)
    case (Cons c s)
    have "16 * (of_char c div 16) + of_char c mod 16 = (of_char c :: nat)" by simp
    then show ?case using path_escape_cases [of c] Cons.IH hex_upper_facts(4) byte_less [of c] by auto
  qed simp
  then show "uri_decode (EscapedPath p) = p" by (auto simp: EscapedPath_def)
qed

lemma dsn_chars_neq: "c \<in> dsn_path_chars \<Longrightarrow> c \<noteq> CHR ''?'' \<and> c \<noteq> CHR ''#'' \<and> c \<noteq> CHR ''|''"
  by (auto simp: dsn_path_chars_def is_alnum_def)

lemma sqlite_query_text:
  "Values_Encode (sqlite_query wr) = ''_defensive=1&_pragma=trusted_schema'' @ [CHR 0x25] @ ''280'' @ [CHR 0x25] @
     ''29&_pragma=busy_timeout'' @ [CHR 0x25] @ ''285000'' @ [CHR 0x25] @ ''29&mode='' @ (if wr then ''rw'' else ''ro'')"
  by (cases wr) (simp_all only: if_True if_False, code_simp+)

lemma buildSQLiteDSN_form:
  assumes "buildSQLiteDSN h e p = Inr dsn"
  shows "\<exists>q. resolveSandboxPath h e p = Inr q \<and>
     dsn = ''file:'' @ EscapedPath q @ CHR ''?'' # Values_Encode (sqlite_query (es_sqliteWriteEnabled e))"
  using assms by (auto simp: buildSQLiteDSN_def split: if_splits sum.splits)

lemma dsn_no_bar:
  assumes "buildSQLiteDSN h e p = Inr dsn"
  shows "CHR ''|'' \<notin> set dsn"
proof -
  obtain q where "dsn = ''file:'' @ EscapedPath q @ CHR ''?'' # Values_Encode (sqlite_query (es_sqliteWriteEnabled e))"
    using buildSQLiteDSN_form [OF assms] by blast
  moreover have "CHR ''|'' \<notin> set (Values_Encode (sqlite_query wr))" for wr by (simp add: sqlite_query_text)
  moreover have "CHR ''|'' \<notin> set (EscapedPath q)" using EscapedPath_facts(1) [of q] dsn_chars_neq [of "CHR ''|''"] by blast
  ultimately show ?thesis by simp
qed

section \<open>Cached handles\<close>

text \<open>Every cached handle was opened with a driver and source that make up its key.\<close>

definition opened_ok :: "'db host \<Rightarrow> 'db external_store \<Rightarrow> bool" where
  "opened_ok h e = (lru_inv (es_cache e) \<and>
     (\<forall>k d x. content (es_cache e) k = Some (d, x) \<longrightarrow> (\<exists>dr ds. k = dr @ CHR ''|'' # ds \<and> ho_Open h dr ds = Inr d)))"

lemma opened_ok_new: "opened_ok h (NewExternalStoreManager os)"
proof -
  have "es_cache (fold apply_option os e) = es_cache e" for e :: "'a external_store"
  proof (induction os arbitrary: e)
    case (Cons op os)
    then show ?case by (cases op) simp_all
  qed simp
  then show ?thesis
    by (simp add: opened_ok_def NewExternalStoreManager_def NewLru_inv) (simp add: content_def NewLruWithParams_def NewLru_def)
qed

lemma opened_ok_sub:
  assumes "opened_ok h e" "lru_inv c"
    "content c \<subseteq>\<^sub>m (content (es_cache e))(dr @ CHR ''|'' # ds \<mapsto> (d, x))" "ho_Open h dr ds = Inr d"
  shows "opened_ok h (e\<lparr>es_cache := c\<rparr>)"
proof -
  have "\<exists>dr ds. k = dr @ CHR ''|'' # ds \<and> ho_Open h dr ds = Inr d'" if k: "content c k = Some (d', x')" for k d' x'
  proof (cases "k = dr @ CHR ''|'' # ds")
    case True
    have "((content (es_cache e))(dr @ CHR ''|'' # ds \<mapsto> (d, x))) k = Some (d', x')"
      using assms(3) k by (simp add: map_le_def dom_def)
    then show ?thesis using True assms(4) by auto
  next
    case False
    have "((content (es_cache e))(dr @ CHR ''|'' # ds \<mapsto> (d, x))) k = Some (d', x')"
      using assms(3) k by (simp add: map_le_def dom_def)
    then show ?thesis using False assms(1) by (auto simp: opened_ok_def)
  qed
  then show ?thesis using assms(2) by (simp add: opened_ok_def)
qed

lemma opened_ok_miss:
  assumes "opened_ok h e" "lru_Get now k (es_cache e) = (r, c)"
  shows "opened_ok h (e\<lparr>es_cache := c\<rparr>)" "\<And>d. r = Some d \<Longrightarrow> \<exists>dr ds. k = dr @ CHR ''|'' # ds \<and> ho_Open h dr ds = Inr d"
proof -
  have inv: "lru_inv (es_cache e)" using assms(1) by (simp add: opened_ok_def)
  note G = lru_Get_facts [OF inv assms(2)]
  show "opened_ok h (e\<lparr>es_cache := c\<rparr>)" using assms(1) G(1,3) by (auto simp: opened_ok_def split: if_splits)
  fix d assume "r = Some d"
  then obtain x where "content (es_cache e) k = Some (d, x)" using G(2) by (auto split: option.splits if_splits)
  then show "\<exists>dr ds. k = dr @ CHR ''|'' # ds \<and> ho_Open h dr ds = Inr d" using assms(1) by (auto simp: opened_ok_def)
qed

lemma Connect_facts:
  assumes ok: "opened_ok h e" and r: "resolveConnection h e driver dsn = Inr (dr, ds)" and c: "Connect h now driver dsn e = (res, e')"
  shows "opened_ok h e'" "\<And>db. res = Inr db \<Longrightarrow> \<exists>dr' ds'. dr @ CHR ''|'' # ds = dr' @ CHR ''|'' # ds' \<and> ho_Open h dr' ds' = Inr db"
proof -
  let ?k = "dr @ CHR ''|'' # ds"
  obtain g1 c1 where g1: "lru_Get now ?k (es_cache e) = (g1, c1)" by force
  note M1 = opened_ok_miss [OF ok g1]
  obtain g2 c2 where g2: "lru_Get now ?k c1 = (g2, c2)" by force
  have "opened_ok h (e\<lparr>es_cache := c1\<rparr>)" by (rule M1(1))
  from opened_ok_miss [OF this, of now ?k g2 c2] g2
  have M2: "opened_ok h (e\<lparr>es_cache := c2\<rparr>)" "\<And>d. g2 = Some d \<Longrightarrow> \<exists>dr ds. ?k = dr @ CHR ''|'' # ds \<and> ho_Open h dr ds = Inr d" by simp_all
  have add: "opened_ok h (e\<lparr>es_cache := AddWithDefaultExpires now ?k db c2\<rparr>)" if o: "ho_Open h dr ds = Inr db" for db
  proof -
    have "lru_inv c2" using M2(1) by (simp add: opened_ok_def)
    from lru_Add_facts [OF this, of now ?k db "lru_defaultExpiry c2"]
    show ?thesis using opened_ok_sub [OF M2(1) _ _ o] by (simp add: AddWithDefaultExpires_def)
  qed
  note C = c [unfolded Connect_def r sum.case prod.case Let_def append_Cons append_Nil g1 g2]
  show "opened_ok h e'" using C M1(1) M2(1) add by (auto split: option.splits sum.splits)
  show "\<exists>dr' ds'. ?k = dr' @ CHR ''|'' # ds' \<and> ho_Open h dr' ds' = Inr db" if "res = Inr db" for db
    using C that M1(2) M2(2) by (auto split: option.splits sum.splits)
qed

text \<open>The manager after a history of requests.\<close>

fun run_connects :: "'db host \<Rightarrow> (int \<times> string \<times> string) list \<Rightarrow> 'db external_store \<Rightarrow> 'db external_store" where
  "run_connects h [] e = e"
| "run_connects h ((now, driver, dsn) # rs) e = run_connects h rs (snd (Connect h now driver dsn e))"

lemma run_connects_ok: "opened_ok h e \<Longrightarrow> opened_ok h (run_connects h rs e)"
proof (induction h rs e rule: run_connects.induct)
  case (2 h now driver dsn rs e)
  obtain res e' where c: "Connect h now driver dsn e = (res, e')" by force
  have "opened_ok h e'"
  proof (cases "resolveConnection h e driver dsn")
    case (Inl err)
    then show ?thesis using c 2(2) by (simp add: Connect_def)
  next
    case (Inr p)
    then show ?thesis using Connect_facts(1) [OF 2(2) _ c] by (cases p) simp
  qed
  then show ?case using 2(1) c by simp
qed simp

lemma bar_split: "a @ CHR ''|'' # b = a' @ CHR ''|'' # b' \<Longrightarrow> CHR ''|'' \<notin> set b \<Longrightarrow> CHR ''|'' \<notin> set a \<Longrightarrow> a' = a \<and> b' = b"
  by (auto simp: append_eq_append_conv2 append_eq_Cons_conv Cons_eq_append_conv)

section \<open>Properties\<close>

text \<open>A host with a sandbox, one database in it, a link that leads out of it, and drivers that name what they open.\<close>

definition example_host :: "string host" where
  "example_host = \<lparr>ho_Getwd = Some ''/work'',
     ho_EvalSymlinks = (\<lambda>p. if p \<in> {''/srv/db'', ''/srv/db/a?mode=rw#.db'', ''/etc/passwd''} then Some p
        else if p = ''/srv/db/link'' then Some ''/etc/passwd'' else None),
     ho_Stat = (\<lambda>p. Some \<lparr>fi_regular = p \<noteq> ''/srv/db'', fi_dir = p = ''/srv/db'', fi_perm = 493\<rparr>),
     ho_Open = (\<lambda>dr ds. if dr = ''sqlite_sandboxed'' \<or> dr = ''mysql'' then Inr (dr @ '' '' @ ds) else Inl ''unknown driver'')\<rparr>"

definition example_store :: "string external_store" where
  "example_store = NewExternalStoreManager [WithSQLiteSandboxDir ''/srv/db'']"

text \<open>
  C13: A path a schema gives for an SQLite database reaches the driver only as a regular file below the
  resolved sandbox directory, links and ".." resolved; and the data source name is that path
  percent-encoded, followed by the fixed parameters: no path can add a parameter of its own, such as
  the mode that allows writing.
\<close>

theorem sandbox_confined:
  assumes "buildSQLiteDSN h e p = Inr dsn"
  shows "\<exists>rt q fi esc. Option.bind (Abs h (es_sqliteSandboxDir e)) (ho_EvalSymlinks h) = Some rt \<and> below rt q \<and>
     ho_Stat h q = Some fi \<and> fi_regular fi \<and>
     dsn = ''file:'' @ esc @ CHR ''?'' # Values_Encode (sqlite_query (es_sqliteWriteEnabled e)) \<and>
     uri_decode esc = q \<and> CHR ''?'' \<notin> set esc \<and> CHR ''#'' \<notin> set esc"
proof -
  obtain q where q: "resolveSandboxPath h e p = Inr q"
    "dsn = ''file:'' @ EscapedPath q @ CHR ''?'' # Values_Encode (sqlite_query (es_sqliteWriteEnabled e))"
    using buildSQLiteDSN_form [OF assms] by blast
  moreover have "CHR ''?'' \<notin> set (EscapedPath q)" "CHR ''#'' \<notin> set (EscapedPath q)"
    using EscapedPath_facts(1) [of q] dsn_chars_neq [of "CHR ''?''"] dsn_chars_neq [of "CHR ''#''"] by blast+
  ultimately show ?thesis using resolve_below [OF q(1)] EscapedPath_facts(2) [of q] by blast
qed

theorem sandbox_confined_witness:
  "\<exists>dsn q. buildSQLiteDSN example_host example_store '' x/../a?mode=rw#.db '' = Inr dsn \<and> below ''/srv/db'' q \<and>
     has_suffix dsn ''mode=ro'' \<and> buildSQLiteDSN example_host example_store ''link'' = Inl (sandbox_fail ''not_accessible'' ''file is not accessible'' 404)"
proof -
  let ?b = "buildSQLiteDSN example_host example_store"
  have "(case ?b '' x/../a?mode=rw#.db '' of Inr d \<Rightarrow> has_suffix d ''mode=ro'' | _ \<Rightarrow> False)"
    "?b ''link'' = Inl (sandbox_fail ''not_accessible'' ''file is not accessible'' 404)"
    "Option.bind (Abs example_host (es_sqliteSandboxDir example_store)) (ho_EvalSymlinks example_host) = Some ''/srv/db''"
    by code_simp+
  moreover from this(1) obtain dsn where "?b '' x/../a?mode=rw#.db '' = Inr dsn" by (auto split: sum.splits)
  ultimately show ?thesis using sandbox_confined [of example_host example_store "'' x/../a?mode=rw#.db ''" dsn] by auto
qed

text \<open>
  C14: After any history of requests, a handle given out for an SQLite driver (however its name is
  written) was opened by the sandboxed driver with the data source name built for the requested path: the
  cache never hands out a database of another driver or of another path.
\<close>

theorem sqlite_handle_is_sandboxed:
  assumes "isSQLiteDriver driver" "Connect h now driver p (run_connects h rs (NewExternalStoreManager os)) = (Inr db, e')"
  shows "\<exists>dsn. buildSQLiteDSN h (run_connects h rs (NewExternalStoreManager os)) p = Inr dsn \<and> ho_Open h SQLiteDriverName dsn = Inr db"
proof -
  let ?e = "run_connects h rs (NewExternalStoreManager os)"
  have ok: "opened_ok h ?e" by (rule run_connects_ok [OF opened_ok_new])
  obtain dsn where dsn: "buildSQLiteDSN h ?e p = Inr dsn"
    using assms by (cases "buildSQLiteDSN h ?e p") (auto simp: Connect_def resolveConnection_def)
  then have r: "resolveConnection h ?e driver p = Inr (SQLiteDriverName, dsn)" using assms(1) by (simp add: resolveConnection_def)
  obtain dr ds where k: "SQLiteDriverName @ CHR ''|'' # dsn = dr @ CHR ''|'' # ds" "ho_Open h dr ds = Inr db"
    using Connect_facts(2) [OF ok r assms(2)] by blast
  have "dr = SQLiteDriverName \<and> ds = dsn" using k(1) dsn_no_bar [OF dsn]
    by (rule bar_split) (simp add: SQLiteDriverName_def)
  then show ?thesis using dsn k(2) by blast
qed

theorem sqlite_handle_is_sandboxed_witness:
  "\<exists>db e' dsn. Connect example_host 9 ''SQLite3 '' ''a?mode=rw#.db''
      (run_connects example_host [(1, ''mysql'', ''u@h/d''), (2, ''sqlite'', ''a?mode=rw#.db'')] (NewExternalStoreManager [WithSQLiteSandboxDir ''/srv/db''])) = (Inr db, e') \<and>
     ho_Open example_host SQLiteDriverName dsn = Inr db"
proof -
  let ?os = "[WithSQLiteSandboxDir ''/srv/db'']" and ?rs = "[(1, ''mysql'', ''u@h/d''), (2, ''sqlite'', ''a?mode=rw#.db'')]"
  let ?c = "Connect example_host 9 ''SQLite3 '' ''a?mode=rw#.db'' (run_connects example_host ?rs (NewExternalStoreManager ?os))"
  have "isSQLiteDriver ''SQLite3 ''" "(case fst ?c of Inr _ \<Rightarrow> True | _ \<Rightarrow> False)" by code_simp+
  then obtain db e' where "?c = (Inr db, e')" by (cases ?c) (auto split: sum.splits)
  then show ?thesis using sqlite_handle_is_sandboxed [OF \<open>isSQLiteDriver ''SQLite3 ''\<close>, of example_host 9 "''a?mode=rw#.db''" ?rs ?os db e'] by blast
qed

end
