(* ===== verification/Im_Types.thy ===== *)
theory Im_Types
  imports Flow_Prelude
begin

text \<open>
  The data of the instant-messaging provider: endpoints, messages, callbacks and the events
  that wrap them (\<open>model/im.go\<close>), the outbound menus and keyboards (\<open>model/chat.go\<close>,
  \<open>model/im_interactive.go\<close>), and the status a gRPC error is reported with
  (\<open>model/utils.go\<close>).  The interface \<open>IMEvent\<close> has three implementations in the source,
  the constructors of \<open>im_event\<close>; its methods are functions on them.
\<close>

section \<open>Endpoints and messages\<close>

record im_endpoint =
  ie_ID :: string
  ie_Type :: int
  ie_Sub :: string
  ie_Issuer :: string
  ie_Name :: string
  ie_MemberID :: string
  ie_Role :: int

definition zero_endpoint :: im_endpoint where
  "zero_endpoint = \<lparr>ie_ID = [], ie_Type = 0, ie_Sub = [], ie_Issuer = [], ie_Name = [], ie_MemberID = [], ie_Role = 0\<rparr>"

record message_file =
  mf_ID :: string
  mf_Name :: string
  mf_Mime :: string
  mf_Size :: int
  mf_URL :: string

record im_contact =
  ic_Name :: string
  ic_Phone :: string
  ic_Email :: string

record im_location =
  il_Latitude :: rat
  il_Longitude :: rat
  il_Address :: string
  il_Name :: string

record system_message =
  sm_Type :: string
  sm_Sub :: int

record im_message =
  ms_ID :: string
  ms_ThreadID :: string
  ms_DomainID :: int
  ms_From :: im_endpoint
  ms_To :: "im_endpoint list"
  ms_Text :: string
  ms_CreatedAt :: int
  ms_Subject :: string
  ms_Description :: string
  ms_Type :: string
  ms_Contact :: "im_contact option"
  ms_Location :: "im_location option"
  ms_Documents :: "message_file list"
  ms_System :: "system_message option"

definition zero_message :: im_message where
  "zero_message = \<lparr>ms_ID = [], ms_ThreadID = [], ms_DomainID = 0, ms_From = zero_endpoint, ms_To = [], ms_Text = [],
     ms_CreatedAt = 0, ms_Subject = [], ms_Description = [], ms_Type = [], ms_Contact = None, ms_Location = None,
     ms_Documents = [], ms_System = None\<rparr>"

record interactive_callback =
  cb_DomainID :: int
  cb_ReactedBy :: im_endpoint
  cb_Receiver :: im_endpoint
  cb_InReplyTo :: string
  cb_ThreadID :: string
  cb_ButtonCode :: string
  cb_CallbackData :: string
  cb_ReactedAt :: int

record bot_control_released =
  br_ThreadID :: string
  br_DomainID :: int
  br_MemberID :: string
  br_NextMemberID :: string
  br_Reason :: string
  br_Sub :: int

record bot_control_granted =
  bg_ThreadID :: string
  bg_DomainID :: int
  bg_MemberID :: string
  bg_AutoLeave :: bool
  bg_IsResume :: bool
  bg_ReleasedSub :: int
  bg_Sub :: int
  bg_Reason :: string

section \<open>Events\<close>

datatype im_event =
    EvMessage im_message
  | EvCallback interactive_callback
  | EvReleased bot_control_released

fun GetThreadID :: "im_event \<Rightarrow> string" where
  "GetThreadID (EvMessage m) = ms_ThreadID m"
| "GetThreadID (EvCallback c) = cb_ThreadID c"
| "GetThreadID (EvReleased b) = br_ThreadID b"

fun Sender :: "im_event \<Rightarrow> im_endpoint" where
  "Sender (EvMessage m) = ms_From m"
| "Sender (EvCallback c) = cb_ReactedBy c"
| "Sender (EvReleased b) = zero_endpoint"

fun Receivers :: "im_event \<Rightarrow> im_endpoint list" where
  "Receivers (EvMessage m) = ms_To m"
| "Receivers (EvCallback c) = [cb_Receiver c]"
| "Receivers (EvReleased b) = []"

fun Message :: "im_event \<Rightarrow> im_message" where
  "Message (EvMessage m) = m"
| "Message (EvCallback c) = zero_message\<lparr>ms_Text := cb_ButtonCode c\<rparr>"
| "Message (EvReleased b) = zero_message"

text \<open>\<open>MessageWrapper\<close>; the getters of the interface \<open>IMEventWrapper\<close> are its fields.\<close>

record im_wrapper =
  iw_ID :: string
  iw_Payload :: im_event
  iw_UserID :: string
  iw_DomainID :: int
  iw_Echo :: bool
  iw_jwtPayload :: string
  iw_deviceID :: string
  iw_Type :: string
  iw_via :: string

definition IMEventTypeMessage :: string where "IMEventTypeMessage = ''message''"
definition IMEventTypeCallback :: string where "IMEventTypeCallback = ''callback''"
definition IMEventTypeBotControlReleased :: string where "IMEventTypeBotControlReleased = ''bot_control_released''"
definition BotControlReasonClientLeave :: string where "BotControlReasonClientLeave = ''client_leave''"
definition BotControlReasonAgentTakeover :: string where "BotControlReasonAgentTakeover = ''agent_takeover''"
definition BotControlReasonAgentHandback :: string where "BotControlReasonAgentHandback = ''agent_handback''"
definition BotControlReasonAgentLeft :: string where "BotControlReasonAgentLeft = ''agent_left''"
definition BotControlReasonInitial :: string where "BotControlReasonInitial = ''initial''"
definition IMMessageTypeSystem :: string where "IMMessageTypeSystem = ''system''"
definition IMUserTypeBot :: string where "IMUserTypeBot = ''bot''"

text \<open>Whether a message is an administrative notice, as \<open>fromOperator\<close> and \<open>nodeMessage\<close> decide it.\<close>

definition is_system :: "im_message \<Rightarrow> bool" where
  "is_system m = (ms_System m \<noteq> None \<or> ms_Type m = IMMessageTypeSystem)"

section \<open>gRPC errors\<close>

text \<open>
  An error returned by a gRPC call: its text and the status \<open>status.FromError\<close> finds in it,
  \<open>None\<close> where it finds none.  A call returns the error or a reply.
\<close>

datatype grpc_code = GOK | GCanceled | GUnknown | GInvalidArgument | GDeadlineExceeded | GNotFound | GAlreadyExists
  | GPermissionDenied | GResourceExhausted | GFailedPrecondition | GAborted | GOutOfRange | GUnimplemented
  | GInternal | GUnavailable | GDataLoss | GUnauthenticated

record grpc_error =
  ge_text :: string
  ge_status :: "grpc_code option"

type_synonym 'a grpc_result = "grpc_error + 'a"

fun ExtractHTPPStatusCodeFromGRPC :: "grpc_error option \<Rightarrow> int" where
  "ExtractHTPPStatusCodeFromGRPC None = 200"
| "ExtractHTPPStatusCodeFromGRPC (Some er) = (case ge_status er of
     None \<Rightarrow> 500
   | Some GOK \<Rightarrow> 200
   | Some GInvalidArgument \<Rightarrow> 400 | Some GFailedPrecondition \<Rightarrow> 400 | Some GOutOfRange \<Rightarrow> 400
   | Some GUnauthenticated \<Rightarrow> 401
   | Some GPermissionDenied \<Rightarrow> 403
   | Some GNotFound \<Rightarrow> 404
   | Some GAborted \<Rightarrow> 409 | Some GAlreadyExists \<Rightarrow> 409
   | Some GResourceExhausted \<Rightarrow> 429
   | Some GCanceled \<Rightarrow> 499
   | Some GInternal \<Rightarrow> 500 | Some GUnknown \<Rightarrow> 500 | Some GDataLoss \<Rightarrow> 500
   | Some GUnimplemented \<Rightarrow> 501
   | Some GUnavailable \<Rightarrow> 503
   | Some GDeadlineExceeded \<Rightarrow> 504)"

section \<open>Outbound files, menus and keyboards\<close>

record im_file =
  fi_Id :: int
  fi_Url :: string
  fi_PublicUrl :: string
  fi_Name :: string
  fi_Size :: int
  fi_MimeType :: string
  fi_ViewName :: "string option"
  fi_Server :: string
  fi_Channel :: string

definition GetViewName :: "im_file \<Rightarrow> string" where
  "GetViewName f = (case fi_ViewName f of Some v \<Rightarrow> v | None \<Rightarrow> fi_Name f)"

record chat_button =
  bt_Caption :: string
  bt_Text :: string
  bt_Type :: string
  bt_Url :: string
  bt_Code :: string

record chat_menu_args =
  mn_Type :: string
  mn_Buttons :: "chat_button list list"
  mn_Inline :: "chat_button list list"
  mn_Text :: string
  mn_NoInput :: bool
  mn_Kind :: string

record chat_message_outbound =
  co_Type :: string
  co_Text :: string
  co_File :: "im_file option"
  co_Server :: string
  co_Buttons :: "chat_button list list"
  co_Inline :: "chat_button list list"
  co_NoInput :: bool
  co_Kind :: string

record keyboard_button =
  kb_ID :: string
  kb_Label :: string
  kb_Metadata :: "(string \<times> goval) list option"
  kb_URL :: "string option"
  kb_Callback :: "string option"
  kb_Request :: "string option"

text \<open>The generic row, section, markup and list types, over the type of the buttons.\<close>

record 'b keyboard_row =
  kr_Buttons :: "'b list"

record 'b keyboard_section =
  ks_Section :: string
  ks_Buttons :: "'b list"

record 'b keyboard_list_reply =
  kl_MainButtonTitle :: string
  kl_Sections :: "'b keyboard_section list"

record 'b interactive =
  in_Documents :: "im_file list option"
  in_Images :: "im_file list option"
  in_SingleUse :: bool
  in_Markup :: "'b keyboard_row list option"
  in_ListReply :: "'b keyboard_list_reply option"
  in_Placement :: string
  in_InputFieldState :: string

record 'b send_interactive =
  si_Interactive :: "'b interactive"
  si_Body :: string
  si_Metadata :: "(string \<times> goval) list"

end
