(* ===== verification/Im_Connection.thy ===== *)
theory Im_Connection
  imports Im_Types Flow_Handlers "HOL-Library.List_Lexorder" "HOL-Library.Char_ord"
begin

text \<open>
  The dialog of the instant-messaging provider (\<open>providers/im/connection.go\<close>): the state a
  connection keeps, its life cycle (running, suspended, terminating), its queue and wait
  channels and its variables.

  A connection is shared by pointer between the store, the listener and the goroutine that
  runs its schema, so connections live in a heap and are named by their address; contexts and
  channels live there too, because they outlive the field that holds them: \<open>Resume\<close> puts a
  new context into \<open>runCtx\<close> while the schema still waits on the old one.  Logging is left
  out.  \<open>gjson\<close> and the rendering of values as JSON are arguments.
\<close>

section \<open>State\<close>

datatype conn_state = Running | Suspended | Terminating

record thread_member =
  tm_Type :: string
  tm_Name :: string
  tm_Iss :: string
  tm_Sub :: string
  tm_MemberId :: string
  tm_Role :: int

record thread_info =
  ti_Subject :: string
  ti_Description :: string
  ti_Members :: "thread_member list"
  ti_LastMessage :: string
  ti_Variables :: "(string \<times> string) list"

definition zero_thread_info :: thread_info where
  "zero_thread_info = \<lparr>ti_Subject = [], ti_Description = [], ti_Members = [], ti_LastMessage = [], ti_Variables = []\<rparr>"

text \<open>
  \<open>ctx\<close>, \<open>runCtx\<close>, \<open>waitMsgChan\<close>, \<open>queueReturn\<close> and the queue key are references;
  \<open>resumeCh\<close> is a channel with room for one token, of which only the number matters.
\<close>

record connection =
  cn_id :: string
  cn_threadId :: string
  cn_ctx :: nat
  cn_runCtx :: nat
  cn_state :: conn_state
  cn_resumeCh :: nat
  cn_domainId :: int
  cn_schemaId :: int
  cn_variables :: "string \<rightharpoonup> string"
  cn_storeMessages :: "string \<rightharpoonup> string"
  cn_msg :: im_message
  cn_lastMsg :: im_message
  cn_from :: im_endpoint
  cn_to :: im_endpoint
  cn_waitMsgChan :: "nat option"
  cn_hdrs :: "(string \<times> string) list"
  cn_queueKey :: "nat option"
  cn_exportVariables :: "string list"
  cn_messages :: "im_wrapper list"
  cn_info :: thread_info
  cn_completeId :: string
  cn_queueReturn :: "nat option"
  cn_nested :: bool

text \<open>
  \<open>ih_ctx\<close> tells which contexts are cancelled, \<open>ih_chan\<close> which queue channels are closed;
  \<open>ih_waits\<close> numbers the channels of \<open>receive\<close>, and \<open>ih_sent\<close> lists what was sent on them.
\<close>

record im_heap =
  ih_conns :: "connection list"
  ih_ctx :: "bool list"
  ih_chan :: "bool list"
  ih_waits :: nat
  ih_sent :: "(nat \<times> im_wrapper) list"

definition upd_conn :: "nat \<Rightarrow> (connection \<Rightarrow> connection) \<Rightarrow> 'a im_heap_scheme \<Rightarrow> 'a im_heap_scheme" where
  "upd_conn a g h = h\<lparr>ih_conns := (ih_conns h)[a := g (ih_conns h ! a)]\<rparr>"

definition new_ctx :: "'a im_heap_scheme \<Rightarrow> nat \<times> 'a im_heap_scheme" where
  "new_ctx h = (length (ih_ctx h), h\<lparr>ih_ctx := ih_ctx h @ [False]\<rparr>)"

definition cancel :: "nat \<Rightarrow> 'a im_heap_scheme \<Rightarrow> 'a im_heap_scheme" where
  "cancel i h = h\<lparr>ih_ctx := (ih_ctx h)[i := True]\<rparr>"

definition set_state :: "nat \<Rightarrow> conn_state \<Rightarrow> 'a im_heap_scheme \<Rightarrow> 'a im_heap_scheme" where
  "set_state a st = upd_conn a (\<lambda>c. c\<lparr>cn_state := st\<rparr>)"

definition set_var :: "string \<Rightarrow> string \<Rightarrow> connection \<Rightarrow> connection" where
  "set_var k v c = c\<lparr>cn_variables := (cn_variables c)(k \<mapsto> v)\<rparr>"

definition WebitelDeviceIDVariableKey :: string where "WebitelDeviceIDVariableKey = ''wbt-device-id''"
definition WebitelClickedButtonVariableKey :: string where "WebitelClickedButtonVariableKey = ''clicked_button''"
definition WebitelJwtPayloadVariableKey :: string where "WebitelJwtPayloadVariableKey = ''jwt''"
definition WebitelViaVariableKey :: string where "WebitelViaVariableKey = ''via''"

section \<open>Construction\<close>

text \<open>
  The value \<open>strconv.Atoi\<close> returns beside its error: 0 for bad syntax, the nearest
  representable number for an overflow.
\<close>

definition Atoi_value :: "string \<Rightarrow> int" where
  "Atoi_value s =
     (let (neg, ds) = (case s of [] \<Rightarrow> (False, [])
                        | c # cs \<Rightarrow> if c = CHR ''-'' then (True, cs)
                                     else if c = CHR ''+'' then (False, cs) else (False, s))
      in case parse_digits ds of None \<Rightarrow> 0
         | Some n \<Rightarrow> if neg then max (- int n) (- (2 ^ 63)) else min (int n) (2 ^ 63 - 1))"

definition conn_hdrs :: "int \<Rightarrow> int \<Rightarrow> (string \<times> string) list" where
  "conn_hdrs domainId schemaId =
     [(''x-webitel-type'', ''schema''), (''x-webitel-schema'', Itoa domainId @ ''.'' @ Itoa schemaId)]"

definition set_nonempty :: "string \<Rightarrow> string \<Rightarrow> connection \<Rightarrow> connection" where
  "set_nonempty k v c = (if v = [] then c else set_var k v c)"

definition newConnection ::
  "string \<Rightarrow> im_endpoint \<Rightarrow> im_wrapper \<Rightarrow> bool \<Rightarrow> 'a im_heap_scheme \<Rightarrow> nat \<times> 'a im_heap_scheme" where
  "newConnection idn to msg nested h =
     (let schemaId = Atoi_value (ie_Sub to);
          (ctx, h1) = new_ctx h;
          (runCtx, h2) = new_ctx h1;
          c = \<lparr>cn_id = idn, cn_threadId = GetThreadID (iw_Payload msg), cn_ctx = ctx, cn_runCtx = runCtx,
               cn_state = Running, cn_resumeCh = 0, cn_domainId = iw_DomainID msg, cn_schemaId = schemaId,
               cn_variables = Map.empty, cn_storeMessages = Map.empty,
               cn_msg = Message (iw_Payload msg), cn_lastMsg = Message (iw_Payload msg),
               cn_from = Sender (iw_Payload msg), cn_to = to, cn_waitMsgChan = None,
               cn_hdrs = conn_hdrs (iw_DomainID msg) schemaId, cn_queueKey = None, cn_exportVariables = [],
               cn_messages = [], cn_info = zero_thread_info, cn_completeId = ie_MemberID to,
               cn_queueReturn = None, cn_nested = nested\<rparr>;
          c1 = set_nonempty WebitelJwtPayloadVariableKey (iw_jwtPayload msg) c;
          c2 = set_nonempty WebitelDeviceIDVariableKey (iw_deviceID msg) c1;
          c3 = set_nonempty WebitelViaVariableKey (iw_via msg) c2
      in (length (ih_conns h2), h2\<lparr>ih_conns := ih_conns h2 @ [c3]\<rparr>))"

text \<open>
  \<open>setupVariables\<close>: \<open>marshal\<close> renders the start message and the thread information as
  JSON, \<open>info\<close> is the reply of \<open>treadInfo\<close>.
\<close>

definition setupVariables ::
  "(im_message \<Rightarrow> string option) \<Rightarrow> (thread_info \<Rightarrow> string option) \<Rightarrow> thread_info result \<Rightarrow> connection \<Rightarrow> connection" where
  "setupVariables marshal_msg marshal_info info c =
     (let c1 = (case marshal_msg (cn_msg c) of None \<Rightarrow> c | Some raw \<Rightarrow> set_var ''start_message'' raw c);
          c2 = set_var ''uuid'' (cn_id c1) c1
      in case info of
           Inl _ \<Rightarrow> c2
         | Inr i \<Rightarrow>
             (let c3 = (case marshal_info i of None \<Rightarrow> c2 | Some raw \<Rightarrow> set_var ''thread'' raw c2)
              in c3\<lparr>cn_variables := cn_variables c3 ++ map_of (ti_Variables i), cn_info := i\<rparr>))"

section \<open>Inbound messages\<close>

definition setDeviceID :: "string \<Rightarrow> connection \<Rightarrow> connection" where
  "setDeviceID device c = (if device = [] then c else set_var WebitelDeviceIDVariableKey device c)"

definition DeviceID :: "connection \<Rightarrow> string" where
  "DeviceID c = (case cn_variables c WebitelDeviceIDVariableKey of Some v \<Rightarrow> v | None \<Rightarrow> [])"

definition processLastMessage :: "im_wrapper \<Rightarrow> connection \<Rightarrow> connection" where
  "processLastMessage m c =
     (if iw_Type m \<noteq> IMEventTypeMessage then c
      else c\<lparr>cn_messages := cn_messages c @ [m], cn_lastMsg := Message (iw_Payload m)\<rparr>)"

definition processViaMetadata :: "string \<Rightarrow> connection \<Rightarrow> connection" where
  "processViaMetadata via c = (if via = [] then c else set_var WebitelViaVariableKey via c)"

definition processLastInteractiveCallback ::
  "(interactive_callback \<Rightarrow> string option) \<Rightarrow> im_wrapper \<Rightarrow> connection \<Rightarrow> connection" where
  "processLastInteractiveCallback marshal_cb m c =
     (if iw_Type m \<noteq> IMEventTypeCallback then c
      else case iw_Payload m of
          EvCallback cb \<Rightarrow>
            (case marshal_cb cb of None \<Rightarrow> c | Some raw \<Rightarrow> set_var WebitelClickedButtonVariableKey raw c)
        | _ \<Rightarrow> c)"

definition Via :: "connection \<Rightarrow> string" where
  "Via c = (case cn_variables c WebitelViaVariableKey of Some v \<Rightarrow> v | None \<Rightarrow> [])"

text \<open>The send on the wait channel; that it may block is the subject of \<open>Im_Wait\<close>.\<close>

definition pushMessageToWaitMessageChan :: "im_wrapper \<Rightarrow> nat \<Rightarrow> 'a im_heap_scheme \<Rightarrow> 'a im_heap_scheme" where
  "pushMessageToWaitMessageChan m a h =
     (if ie_Issuer (Sender (EvMessage (Message (iw_Payload m)))) = ''bot'' then h
      else case cn_waitMsgChan (ih_conns h ! a) of
          None \<Rightarrow> h
        | Some ch \<Rightarrow> h\<lparr>ih_sent := ih_sent h @ [(ch, m)]\<rparr>)"

definition updateJWTPayloadVariable :: "im_wrapper \<Rightarrow> connection \<Rightarrow> connection" where
  "updateJWTPayloadVariable m c =
     (if iw_jwtPayload m = [] then c else set_var WebitelJwtPayloadVariableKey (iw_jwtPayload m) c)"

definition fromOperator :: "connection \<Rightarrow> im_wrapper \<Rightarrow> bool" where
  "fromOperator c m =
     (if is_system (Message (iw_Payload m)) then False
      else ie_Sub (cn_from c) \<noteq> [] \<and> ie_Sub (Sender (iw_Payload m)) \<noteq> ie_Sub (cn_from c))"

definition OnMessage ::
  "(interactive_callback \<Rightarrow> string option) \<Rightarrow> im_wrapper \<Rightarrow> nat \<Rightarrow> 'a im_heap_scheme \<Rightarrow> 'a im_heap_scheme" where
  "OnMessage marshal_cb m a h =
     (let c = ih_conns h ! a in
      if ie_Sub (Sender (iw_Payload m)) = ie_Sub (cn_to c) then h
      else if fromOperator c m then h
      else
        (let h1 = upd_conn a (processLastMessage m) h;
             h2 = upd_conn a (processLastInteractiveCallback marshal_cb m) h1;
             h3 = pushMessageToWaitMessageChan m a h2;
             h4 = upd_conn a (updateJWTPayloadVariable m) h3;
             h5 = upd_conn a (setDeviceID (iw_deviceID m)) h4
         in upd_conn a (processViaMetadata (iw_via m)) h5))"

section \<open>Variables\<close>

definition join_with :: "string \<Rightarrow> string list \<Rightarrow> string" where
  "join_with sep xs = (case xs of [] \<Rightarrow> [] | y # ys \<Rightarrow> y @ concat (map (\<lambda>s. sep @ s) ys))"

text \<open>
  \<open>fmt.Sprintf("%v", v)\<close>; the shortest decimal form of a float is the argument \<open>ff\<close>.
\<close>

fun sprint_v :: "(rat \<Rightarrow> string) \<Rightarrow> goval \<Rightarrow> string" where
  "sprint_v ff GNil = ''<nil>''"
| "sprint_v ff (GBool b) = (if b then ''true'' else ''false'')"
| "sprint_v ff (GInt i) = Itoa i"
| "sprint_v ff (GFloat q) = ff q"
| "sprint_v ff (GStr s) = s"
| "sprint_v ff (GArr xs) = ''['' @ join_with '' '' (map (sprint_v ff) xs) @ '']''"
| "sprint_v ff (GMap m) = ''map['' @ join_with '' '' (map (\<lambda>(k, s). k @ '':'' @ s)
     (sort_key fst (map (\<lambda>(k, v). (k, sprint_v ff v)) m))) @ '']''"
| "sprint_v ff (GObj m) = ''map['' @ join_with '' '' (map (\<lambda>(k, s). k @ '':'' @ s)
     (sort_key fst (map (\<lambda>(k, v). (k, sprint_v ff v)) m))) @ '']''"

text \<open>\<open>strings.ToValidUTF8(s, "")\<close>: the bytes that belong to no code point are dropped.\<close>

function to_valid_utf8 :: "string \<Rightarrow> string" where
  "to_valid_utf8 s =
     (if s = [] then []
      else case decode_rune (map of_char (take 4 s)) of
          None \<Rightarrow> to_valid_utf8 (tl s)
        | Some (c, n) \<Rightarrow> take n s @ to_valid_utf8 (drop n s))"
  by pat_completeness auto
termination
proof (relation "measure length")
  fix s :: string and x c n
  assume "s \<noteq> []" "decode_rune (map of_char (take 4 s)) = Some x" "(c, n) = x"
  then have "0 < n" by (metis decode_rune_width)
  then show "(drop n s, s) \<in> measure length" using \<open>s \<noteq> []\<close> by simp
qed auto

declare to_valid_utf8.simps [simp del]

definition conn_Get :: "(string \<Rightarrow> string \<Rightarrow> string) \<Rightarrow> connection \<Rightarrow> string \<Rightarrow> string \<times> bool" where
  "conn_Get gj c key =
     (let direct = (case cn_variables c key of Some v \<Rightarrow> (v, True) | None \<Rightarrow> ([], False)) in
      case take_until CHR ''.'' key of
        Some (nameRoot, path) \<Rightarrow>
          (if nameRoot = [] then direct
           else case cn_storeMessages c nameRoot of
               Some m \<Rightarrow> (gj m path, True)
             | None \<Rightarrow> (case cn_variables c nameRoot of Some v \<Rightarrow> (gj v path, True) | None \<Rightarrow> direct))
      | None \<Rightarrow> direct)"

definition conn_Set :: "(rat \<Rightarrow> string) \<Rightarrow> (string \<times> goval) list \<Rightarrow> connection \<Rightarrow> connection" where
  "conn_Set ff vars c = fold (\<lambda>(k, v). set_var k (sprint_v ff v)) vars c"

definition UnSet :: "string list \<Rightarrow> connection \<Rightarrow> connection" where
  "UnSet ks c = c\<lparr>cn_variables := fold (\<lambda>k m. m(k := None)) ks (cn_variables c)\<rparr>"

text \<open>The map \<open>exp\<close> of \<open>Export\<close>, in the order of the first mention of each name.\<close>

definition export_values :: "(string \<Rightarrow> string \<Rightarrow> string) \<Rightarrow> connection \<Rightarrow> string list \<Rightarrow> (string \<times> goval) list" where
  "export_values gj c vars = map (\<lambda>v. (v, GStr (to_valid_utf8 (fst (conn_Get gj c v))))) (remdups vars)"

text \<open>\<open>Export\<close>; \<open>core\<close> is the call of \<open>exportToIMCore\<close>.\<close>

definition Export ::
  "(string \<Rightarrow> string \<Rightarrow> string) \<Rightarrow> (rat \<Rightarrow> string) \<Rightarrow> (connection \<Rightarrow> (string \<times> goval) list \<Rightarrow> app_error option) \<Rightarrow>
   string list \<Rightarrow> connection \<Rightarrow> (response \<times> app_error option) \<times> connection" where
  "Export gj ff core vars c =
     (let ex = export_values gj c vars;
          c1 = c\<lparr>cn_exportVariables := cn_exportVariables c @ vars\<rparr>;
          c2 = (if 0 < length ex then conn_Set ff ex c1 else c1)
      in case core c2 ex of
           Some err \<Rightarrow> ((CallResponseError, Some err), c2)
         | None \<Rightarrow> ((CallResponseOK, None), c2))"

definition DumpExportVariables :: "connection \<Rightarrow> string \<rightharpoonup> string" where
  "DumpExportVariables c =
     fold (\<lambda>k out. case cn_variables c k of Some v \<Rightarrow> out(k \<mapsto> v) | None \<Rightarrow> out) (cn_exportVariables c) Map.empty"

definition SetQueue :: "nat option \<Rightarrow> connection \<Rightarrow> bool \<times> connection" where
  "SetQueue key c = (if cn_queueKey c = key then (False, c) else (True, c\<lparr>cn_queueKey := key\<rparr>))"

section \<open>Life cycle\<close>

definition IsSuspended :: "connection \<Rightarrow> bool" where
  "IsSuspended c = (cn_state c = Suspended)"

definition IsTerminating :: "connection \<Rightarrow> bool" where
  "IsTerminating c = (cn_state c = Terminating)"

definition Suspend :: "nat \<Rightarrow> 'a im_heap_scheme \<Rightarrow> 'a im_heap_scheme" where
  "Suspend a h = (let h1 = set_state a Suspended h in cancel (cn_runCtx (ih_conns h1 ! a)) h1)"

definition Resume :: "nat \<Rightarrow> 'a im_heap_scheme \<Rightarrow> 'a im_heap_scheme" where
  "Resume a h =
     (let (ctx, h1) = new_ctx h;
          h2 = upd_conn a (\<lambda>c. c\<lparr>cn_runCtx := ctx\<rparr>) h1;
          h3 = set_state a Running h2
      in upd_conn a (\<lambda>c. if cn_resumeCh c < 1 then c\<lparr>cn_resumeCh := cn_resumeCh c + 1\<rparr> else c) h3)"

definition EnterQueue :: "nat \<Rightarrow> 'a im_heap_scheme \<Rightarrow> nat \<times> 'a im_heap_scheme" where
  "EnterQueue a h =
     (let ch = length (ih_chan h)
      in (ch, upd_conn a (\<lambda>c. c\<lparr>cn_queueReturn := Some ch\<rparr>) (h\<lparr>ih_chan := ih_chan h @ [False]\<rparr>)))"

definition LeaveQueue :: "nat \<Rightarrow> 'a im_heap_scheme \<Rightarrow> 'a im_heap_scheme" where
  "LeaveQueue a h = upd_conn a (\<lambda>c. c\<lparr>cn_queueReturn := None\<rparr>) h"

definition InQueue :: "connection \<Rightarrow> bool" where
  "InQueue c = (cn_queueReturn c \<noteq> None)"

text \<open>Closing a closed channel panics: \<open>None\<close>.\<close>

definition close_chan :: "nat \<Rightarrow> 'a im_heap_scheme \<Rightarrow> 'a im_heap_scheme option" where
  "close_chan ch h = (if ih_chan h ! ch then None else Some (h\<lparr>ih_chan := (ih_chan h)[ch := True]\<rparr>))"

definition ReturnFromQueue :: "nat \<Rightarrow> 'a im_heap_scheme \<Rightarrow> (bool \<times> 'a im_heap_scheme) option" where
  "ReturnFromQueue a h =
     (case cn_queueReturn (ih_conns h ! a) of
        None \<Rightarrow> Some (False, h)
      | Some ch \<Rightarrow>
          (case close_chan ch h of
             None \<Rightarrow> None
           | Some h1 \<Rightarrow> Some (True, upd_conn a (\<lambda>c. c\<lparr>cn_queueReturn := None\<rparr>) h1)))"

definition Break :: "nat \<Rightarrow> 'a im_heap_scheme \<Rightarrow> 'a im_heap_scheme" where
  "Break a h =
     (let h1 = set_state a Terminating h; c = ih_conns h1 ! a
      in cancel (cn_ctx c) (cancel (cn_runCtx c) h1))"

section \<open>Waiting for messages\<close>

definition setStateWaitMessage :: "nat option \<Rightarrow> connection \<Rightarrow> bool \<times> connection" where
  "setStateWaitMessage ch c =
     (if cn_waitMsgChan c \<noteq> None \<and> ch \<noteq> None then (False, c) else (True, c\<lparr>cn_waitMsgChan := ch\<rparr>))"

text \<open>
  The branch the \<open>select\<close> of \<open>receive\<close> takes: the connection's context ended, the context
  of the run ended (with the error of that context), the timeout, or a message.
\<close>

datatype wait_outcome = LifeDone string | RunDone string | TimedOut | Got im_wrapper

definition ErrWaitMessageTimeout :: app_error where
  "ErrWaitMessageTimeout = NewAppError ''Dialog.WaitMessage'' ''dialog.timeout.msg'' [] ''Timeout'' 408"

fun wait_result :: "wait_outcome \<Rightarrow> app_error + im_wrapper list" where
  "wait_result (LifeDone er) = Inl (NewAppError ''Conversation.WaitMessage'' ''conv.timeout.msg.app_err'' [] er 500)"
| "wait_result (RunDone er) = Inl (NewAppError ''Conversation.WaitMessage'' ''conv.timeout.msg.app_err'' [] er 500)"
| "wait_result TimedOut = Inl ErrWaitMessageTimeout"
| "wait_result (Got m) = Inr [m]"

text \<open>
  \<open>receive\<close>: while it waits, the listener and others change the heap as \<open>rely\<close> says.  The
  deferred call clears the wait channel on every path, the refused registration included.
\<close>

definition receive ::
  "('a im_heap_scheme \<Rightarrow> 'a im_heap_scheme) \<times> wait_outcome \<Rightarrow> nat \<Rightarrow> 'a im_heap_scheme \<Rightarrow>
   (app_error + im_wrapper list) \<times> 'a im_heap_scheme" where
  "receive w a h =
     (let ch = ih_waits h;
          h1 = h\<lparr>ih_waits := ch + 1\<rparr>;
          done = upd_conn a (\<lambda>c. snd (setStateWaitMessage None c));
          (ok, c1) = setStateWaitMessage (Some ch) (ih_conns h1 ! a)
      in if \<not> ok then (Inl (NewAppError ''Conversation.WaitMessage'' ''conv.timeout.msg'' [] ''Timeout'' 500), done h1)
         else (wait_result (snd w), done (fst w (upd_conn a (\<lambda>_. c1) h1))))"

definition storeMessage :: "im_wrapper list \<Rightarrow> im_wrapper" where
  "storeMessage msgs =
     (case filter (\<lambda>m. ms_Documents (Message (iw_Payload m)) \<noteq> []) msgs of m # _ \<Rightarrow> m | [] \<Rightarrow> msgs ! 0)"

definition messageToText :: "im_wrapper list \<Rightarrow> string list" where
  "messageToText = map (\<lambda>m. let msg = Message (iw_Payload m) in
     if ms_Text msg = [] then (case ms_Documents msg of d # _ \<Rightarrow> mf_URL d | [] \<Rightarrow> ms_Text msg) else ms_Text msg)"

text \<open>
  The loop that collects further messages until a wait fails; \<open>None\<close> where the given waits
  are used up before one does.
\<close>

fun receive_more ::
  "(('a im_heap_scheme \<Rightarrow> 'a im_heap_scheme) \<times> wait_outcome) list \<Rightarrow> nat \<Rightarrow> im_wrapper list \<Rightarrow>
   'a im_heap_scheme \<Rightarrow> (im_wrapper list \<times> 'a im_heap_scheme) option" where
  "receive_more [] a msgs h = None"
| "receive_more (w # ws) a msgs h =
     (case receive w a h of
        (Inl _, h') \<Rightarrow> Some (msgs, h')
      | (Inr m, h') \<Rightarrow> receive_more ws a (msgs @ m) h')"

definition ReceiveMessage ::
  "(im_message \<Rightarrow> string option) \<Rightarrow> (('a im_heap_scheme \<Rightarrow> 'a im_heap_scheme) \<times> wait_outcome) list \<Rightarrow>
   string \<Rightarrow> int \<Rightarrow> nat \<Rightarrow> 'a im_heap_scheme \<Rightarrow> ((app_error + string list) \<times> 'a im_heap_scheme) option" where
  "ReceiveMessage marshal_msg ws name messageTimeout a h =
     (case ws of
        [] \<Rightarrow> None
      | w # ws' \<Rightarrow>
          (case receive w a h of
             (Inl err, h1) \<Rightarrow> Some (Inl err, h1)
           | (Inr first, h1) \<Rightarrow>
               (case (if messageTimeout > 0 then receive_more ws' a first h1 else Some (first, h1)) of
                  None \<Rightarrow> None
                | Some (msgs, h2) \<Rightarrow>
                    (let h3 = (if msgs \<noteq> [] \<and> name \<noteq> [] then
                                 (case marshal_msg (Message (iw_Payload (storeMessage msgs))) of
                                    None \<Rightarrow> h2
                                  | Some raw \<Rightarrow> upd_conn a (\<lambda>c. c\<lparr>cn_storeMessages := (cn_storeMessages c)(name \<mapsto> raw)\<rparr>) h2)
                               else h2)
                     in Some (Inr (messageToText msgs), h3)))))"

end
