(* ===== verification/Im_Outbound.thy ===== *)
theory Im_Outbound
  imports Im_Connection
begin

text \<open>
  What a dialog asks of the messaging services (\<open>providers/im/connection.go\<close>): the requests
  it builds for text, files, menus and interactive messages, the authorization query, the export
  of variables, and how the errors of a call are reported.  The gRPC services and the protobuf
  conversions \<open>structpb.NewStruct\<close> and \<open>structpb.NewValue\<close> are arguments; \<open>'p\<close> is their
  message type.
\<close>

section \<open>Requests\<close>

record peer =
  pe_Sub :: string
  pe_Iss :: string

record document_input =
  di_Id :: string
  di_FileName :: string
  di_Url :: string
  di_MimeType :: string
  di_SizeBytes :: "int option"

record send_document_request =
  sd_To :: peer
  sd_Documents :: "document_input list"
  sd_Body :: string

datatype 'p button_kind = KUrl string | KRequest string | KCallback string | KNone

record 'p proto_button =
  pb_Id :: string
  pb_Label :: string
  pb_Metadata :: "'p option"
  pb_Kind :: "'p button_kind"

datatype 'p proto_kind = MarkupKind "'p proto_button list list" | ListKind string "(string \<times> 'p proto_button list) list" | NoKind

record image_input =
  im_Id :: string
  im_Name :: string
  im_MimeType :: string

datatype proto_attachment = DocumentsAttached "document_input list" | ImagesAttached "image_input list" | NothingAttached

record 'p proto_interactive =
  pi_SingleUse :: bool
  pi_Attachments :: proto_attachment
  pi_Kind :: "'p proto_kind"

record 'p send_interactive_request =
  sr_To :: peer
  sr_Interactive :: "'p proto_interactive"
  sr_Body :: string
  sr_Metadata :: "'p option"

record 'p system_request =
  sy_To :: peer
  sy_Type :: string
  sy_Body :: string
  sy_Metadata :: 'p

record system_outbound =
  so_Type :: string
  so_Text :: string
  so_Metadata :: "(string \<times> goval) list"

record 'p variables_request =
  vr_ThreadId :: string
  vr_Variables :: "(string \<times> 'p) list"

text \<open>The services: each takes the headers of the call and the request.\<close>

record 'p im_services =
  sv_SendDocument :: "(string \<times> string) list \<Rightarrow> send_document_request \<Rightarrow> unit grpc_result"
  sv_SendText :: "(string \<times> string) list \<Rightarrow> peer \<Rightarrow> string \<Rightarrow> unit grpc_result"
  sv_SendSystemMessage :: "(string \<times> string) list \<Rightarrow> 'p system_request \<Rightarrow> unit grpc_result"
  sv_SendInteractive :: "(string \<times> string) list \<Rightarrow> 'p send_interactive_request \<Rightarrow> unit grpc_result"
  sv_SetVariables :: "(string \<times> string) list \<Rightarrow> 'p variables_request \<Rightarrow> unit grpc_result"
  sv_NewStruct :: "(string \<times> goval) list \<Rightarrow> string + 'p"
  sv_NewValue :: "goval \<Rightarrow> string + 'p"

type_synonym reply = "response \<times> app_error option"

definition reply_of :: "string \<Rightarrow> string \<Rightarrow> (grpc_error \<Rightarrow> int) \<Rightarrow> unit grpc_result \<Rightarrow> reply" where
  "reply_of whr idn code r =
     (case r of Inl err \<Rightarrow> (CallResponseError, Some (NewAppError whr idn [] (ge_text err) (code err)))
      | Inr _ \<Rightarrow> (CallResponseOK, None))"

definition contact_peer :: "connection \<Rightarrow> peer" where
  "contact_peer c = \<lparr>pe_Sub = ie_Sub (ms_From (cn_msg c)), pe_Iss = ie_Issuer (ms_From (cn_msg c))\<rparr>"

definition file_documents :: "im_file option \<Rightarrow> document_input list" where
  "file_documents f = (case f of None \<Rightarrow> []
     | Some f \<Rightarrow> [\<lparr>di_Id = [], di_FileName = fi_Name f, di_Url = fi_Url f, di_MimeType = fi_MimeType f, di_SizeBytes = Some (fi_Size f)\<rparr>])"

section \<open>Sending\<close>

definition SendMessage :: "'p im_services \<Rightarrow> chat_message_outbound \<Rightarrow> connection \<Rightarrow> reply" where
  "SendMessage sv msg c =
     reply_of ''SendMessage'' ''conv.msg'' (\<lambda>err. ExtractHTPPStatusCodeFromGRPC (Some err))
       (sv_SendDocument sv (cn_hdrs c) \<lparr>sd_To = contact_peer c, sd_Documents = file_documents (co_File msg), sd_Body = co_Text msg\<rparr>)"

definition SendTextMessage :: "'p im_services \<Rightarrow> string \<Rightarrow> connection \<Rightarrow> reply" where
  "SendTextMessage sv txt c =
     reply_of ''SendTextMessage'' ''conv.msg'' (\<lambda>_. 500) (sv_SendText sv (cn_hdrs c) (contact_peer c) txt)"

definition SendSystemMessage :: "'p im_services \<Rightarrow> system_outbound \<Rightarrow> connection \<Rightarrow> reply" where
  "SendSystemMessage sv msg c =
     (case sv_NewStruct sv (so_Metadata msg) of
        Inl err \<Rightarrow> (CallResponseError, Some (NewAppError ''SendSystemMessage'' ''conv.msg'' [] err 400))
      | Inr meta \<Rightarrow>
          reply_of ''SendSystemMessage'' ''conv.msg'' (\<lambda>_. 500)
            (sv_SendSystemMessage sv (cn_hdrs c)
               \<lparr>sy_To = contact_peer c, sy_Type = so_Type msg, sy_Body = so_Text msg, sy_Metadata = meta\<rparr>))"

definition SendDocumentMessage :: "'p im_services \<Rightarrow> chat_message_outbound \<Rightarrow> connection \<Rightarrow> reply" where
  "SendDocumentMessage sv msg c =
     reply_of ''SendDocumentMessage'' ''conv.msg'' (\<lambda>_. 500)
       (sv_SendDocument sv (cn_hdrs c) \<lparr>sd_To = contact_peer c, sd_Documents = file_documents (co_File msg), sd_Body = co_Text msg\<rparr>)"

definition SendFile :: "'p im_services \<Rightarrow> string \<Rightarrow> im_file option \<Rightarrow> connection \<Rightarrow> reply" where
  "SendFile sv txt f c =
     reply_of ''SendFile'' ''conv.msg'' (\<lambda>_. 500)
       (sv_SendDocument sv (cn_hdrs c) \<lparr>sd_To = contact_peer c, sd_Documents = file_documents f, sd_Body = txt\<rparr>)"

section \<open>Menus\<close>

text \<open>\<open>cmp.Or\<close> on strings: the first that is not empty.\<close>

fun cmp_Or :: "string list \<Rightarrow> string" where
  "cmp_Or [] = []"
| "cmp_Or (x # xs) = (if x \<noteq> [] then x else cmp_Or xs)"

definition build_button :: "bool \<Rightarrow> chat_button \<Rightarrow> 'p proto_button" where
  "build_button inline btn =
     (let mtch = (if inline then cmp_Or [bt_Code btn, bt_Text btn] else cmp_Or [bt_Text btn, bt_Code btn, bt_Caption btn])
      in \<lparr>pb_Id = mtch, pb_Label = cmp_Or [bt_Caption btn, bt_Text btn], pb_Metadata = None,
          pb_Kind = (if bt_Type btn = ''url'' then KUrl (bt_Url btn)
                     else if bt_Type btn \<in> {''contact'', ''email'', ''location''} then KRequest (bt_Type btn)
                     else KCallback mtch)\<rparr>)"

definition buildKeyboardRows :: "chat_button list list \<Rightarrow> bool \<Rightarrow> 'p proto_button list list" where
  "buildKeyboardRows src inline = map (map (build_button inline)) src"

definition SendMenu :: "'p im_services \<Rightarrow> chat_menu_args \<Rightarrow> connection \<Rightarrow> reply" where
  "SendMenu sv menu c =
     (let (src, inline) = (if mn_Buttons menu = [] \<and> mn_Inline menu \<noteq> [] then (mn_Inline menu, True) else (mn_Buttons menu, False))
      in reply_of ''Connection.SendMenu'' ''conv.send.menu.app_err'' (\<lambda>_. 500)
           (sv_SendInteractive sv (cn_hdrs c)
              \<lparr>sr_To = contact_peer c,
               sr_Interactive = \<lparr>pi_SingleUse = mn_NoInput menu, pi_Attachments = NothingAttached,
                                 pi_Kind = MarkupKind (buildKeyboardRows src inline)\<rparr>,
               sr_Body = mn_Text menu, sr_Metadata = None\<rparr>))"

section \<open>Interactive messages\<close>

definition convertToProtoImages :: "im_file list \<Rightarrow> image_input list" where
  "convertToProtoImages = map (\<lambda>f. \<lparr>im_Id = Itoa (fi_Id f), im_Name = fi_Name f, im_MimeType = fi_MimeType f\<rparr>)"

definition convertToProtoDocuments :: "im_file list \<Rightarrow> document_input list" where
  "convertToProtoDocuments = map (\<lambda>f. \<lparr>di_Id = Itoa (fi_Id f), di_FileName = fi_Name f, di_Url = [],
     di_MimeType = fi_MimeType f, di_SizeBytes = Some (fi_Size f)\<rparr>)"

definition convertToProtoButtons :: "'p im_services \<Rightarrow> keyboard_button list \<Rightarrow> 'p proto_button list" where
  "convertToProtoButtons sv = map (\<lambda>b.
     \<lparr>pb_Id = kb_ID b, pb_Label = kb_Label b,
      pb_Metadata = (case kb_Metadata b of None \<Rightarrow> None
                     | Some m \<Rightarrow> (case sv_NewStruct sv m of Inl _ \<Rightarrow> None | Inr s \<Rightarrow> Some s)),
      pb_Kind = (case kb_URL b of Some u \<Rightarrow> KUrl u
                 | None \<Rightarrow> (case kb_Callback b of Some d \<Rightarrow> KCallback d
                   | None \<Rightarrow> (case kb_Request b of Some r \<Rightarrow> KRequest r | None \<Rightarrow> KNone)))\<rparr>)"

definition convertToProtoMarkup :: "'p im_services \<Rightarrow> keyboard_button keyboard_row list \<Rightarrow> 'p proto_button list list" where
  "convertToProtoMarkup sv = map (\<lambda>r. convertToProtoButtons sv (kr_Buttons r))"

definition convertoToProtoListReply ::
  "'p im_services \<Rightarrow> keyboard_button keyboard_list_reply \<Rightarrow> string \<times> (string \<times> 'p proto_button list) list" where
  "convertoToProtoListReply sv src =
     (kl_MainButtonTitle src, map (\<lambda>s. (ks_Section s, convertToProtoButtons sv (ks_Buttons s))) (kl_Sections src))"

definition convertToProtoInteractive :: "'p im_services \<Rightarrow> keyboard_button interactive \<Rightarrow> 'p proto_interactive" where
  "convertToProtoInteractive sv src =
     \<lparr>pi_SingleUse = in_SingleUse src,
      pi_Attachments = (case in_Documents src of
          Some ds \<Rightarrow> DocumentsAttached (convertToProtoDocuments ds)
        | None \<Rightarrow> (case in_Images src of Some is \<Rightarrow> ImagesAttached (convertToProtoImages is) | None \<Rightarrow> NothingAttached)),
      pi_Kind = (case in_Markup src of
          Some rows \<Rightarrow> MarkupKind (convertToProtoMarkup sv rows)
        | None \<Rightarrow> (case in_ListReply src of
              Some l \<Rightarrow> (case convertoToProtoListReply sv l of (t, ss) \<Rightarrow> ListKind t ss)
            | None \<Rightarrow> NoKind))\<rparr>"

definition SendInteractive :: "'p im_services \<Rightarrow> keyboard_button send_interactive \<Rightarrow> connection \<Rightarrow> reply" where
  "SendInteractive sv req c =
     reply_of ''connection.send_interactive'' ''im.connection.send_interactive''
       (\<lambda>err. ExtractHTPPStatusCodeFromGRPC (Some err))
       (sv_SendInteractive sv (cn_hdrs c)
          \<lparr>sr_To = contact_peer c, sr_Interactive = convertToProtoInteractive sv (si_Interactive req),
           sr_Body = si_Body req,
           sr_Metadata = (case sv_NewStruct sv (si_Metadata req) of Inl _ \<Rightarrow> None | Inr s \<Rightarrow> Some s)\<rparr>)"

section \<open>Exported variables\<close>

fun convertInternalVariablesToIMCore :: "'p im_services \<Rightarrow> (string \<times> goval) list \<Rightarrow> (string \<times> 'p) list" where
  "convertInternalVariablesToIMCore sv [] = []"
| "convertInternalVariablesToIMCore sv ((k, v) # vs) =
     (case sv_NewValue sv v of
        Inl _ \<Rightarrow> convertInternalVariablesToIMCore sv vs
      | Inr x \<Rightarrow> (k, x) # convertInternalVariablesToIMCore sv vs)"

definition exportToIMCore :: "'p im_services \<Rightarrow> connection \<Rightarrow> (string \<times> goval) list \<Rightarrow> app_error option" where
  "exportToIMCore sv c vars =
     (case sv_SetVariables sv (cn_hdrs c)
             \<lparr>vr_ThreadId = cn_threadId c, vr_Variables = convertInternalVariablesToIMCore sv vars\<rparr> of
        Inr _ \<Rightarrow> None
      | Inl err \<Rightarrow>
          if ge_status err = Some GPermissionDenied then None
          else Some (NewAppError ''Connection.exportToIMCore'' ''im.connection.export_to_im_core.execute_request'' []
                       (ge_text err) (ExtractHTPPStatusCodeFromGRPC (Some err))))"

section \<open>Threads\<close>

text \<open>
  A thread as the gateway returns it.  The getters of a protobuf message yield zero values on a
  nil message, so a missing contact has empty fields.
\<close>

record proto_contact =
  pc_Type :: string
  pc_Name :: string
  pc_Iss :: string
  pc_Sub :: string
  pc_IsBot :: bool

definition zero_contact :: proto_contact where
  "zero_contact = \<lparr>pc_Type = [], pc_Name = [], pc_Iss = [], pc_Sub = [], pc_IsBot = False\<rparr>"

record proto_member =
  pm_Id :: string
  pm_Contact :: "proto_contact option"
  pm_Role :: int

record 'p proto_thread =
  pt_Subject :: string
  pt_Description :: string
  pt_LastMsg :: "string option"
  pt_Members :: "proto_member list"
  pt_Variables :: "(string \<times> 'p option) list option"

definition GetContact :: "proto_member \<Rightarrow> proto_contact" where
  "GetContact m = (case pm_Contact m of Some c \<Rightarrow> c | None \<Rightarrow> zero_contact)"

text \<open>The thread search of the gateway: headers and thread id to the items found.\<close>

type_synonym 'p thread_search = "(string \<times> string) list \<Rightarrow> string \<Rightarrow> 'p proto_thread list grpc_result"

fun thread_variables :: "('p \<Rightarrow> string option) \<Rightarrow> (string \<times> 'p option) list \<Rightarrow> (string \<times> string) list" where
  "thread_variables marshal [] = []"
| "thread_variables marshal ((k, v) # vs) =
     (case v of None \<Rightarrow> thread_variables marshal vs
      | Some x \<Rightarrow> (case marshal x of None \<Rightarrow> thread_variables marshal vs
                  | Some raw \<Rightarrow> (k, raw) # thread_variables marshal vs))"

definition treadInfo :: "'p thread_search \<Rightarrow> ('p \<Rightarrow> string option) \<Rightarrow> connection \<Rightarrow> thread_info result" where
  "treadInfo search marshal c =
     (case search (cn_hdrs c) (cn_threadId c) of
        Inl err \<Rightarrow> Inl (NewAppError ''Connection.TreadInfo'' ''conv.thread_info.app_err'' [] (ge_text err) 500)
      | Inr [] \<Rightarrow> Inl (NewAppError ''Connection.TreadInfo'' ''conv.thread_info.not_found'' []
                        ''result thread info set contains zero records'' 404)
      | Inr (t # _) \<Rightarrow>
          Inr \<lparr>ti_Subject = pt_Subject t, ti_Description = pt_Description t,
               ti_Members = map (\<lambda>v. \<lparr>tm_Type = pc_Type (GetContact v), tm_Name = pc_Name (GetContact v),
                                      tm_Iss = pc_Iss (GetContact v), tm_Sub = pc_Sub (GetContact v),
                                      tm_MemberId = pm_Id v, tm_Role = pm_Role v\<rparr>) (pt_Members t),
               ti_LastMessage = (case pt_LastMsg t of Some b \<Rightarrow> b | None \<Rightarrow> []),
               ti_Variables = (case pt_Variables t of None \<Rightarrow> [] | Some vs \<Rightarrow> thread_variables marshal vs)\<rparr>)"

section \<open>Authorization sessions\<close>

record user_agent =
  ua_Name :: string
  ua_Version :: string
  ua_OS :: string
  ua_Device :: string
  ua_Mobile :: bool
  ua_Tablet :: bool
  ua_Desktop :: bool
  ua_Bot :: bool
  ua_String :: string

record user_session =
  us_Date :: int
  us_Name :: string
  us_ApplicationID :: string
  us_Current :: bool
  us_IP :: string
  us_Push :: string
  us_App :: user_agent

record auth_query =
  aq_DeviceID :: string
  aq_Sub :: string
  aq_Iss :: string

definition ErrAuthSesionNotFound :: app_error where
  "ErrAuthSesionNotFound = NewAppError ''model.ErrAuthSessionNotFound'' ''app.api.account.get_auth_session.not_found'' []
     ''The requested authorization session does not exist or has expired.'' 404"

text \<open>
  \<open>GetAuthSession\<close>; the reply lists sessions in the form of \<open>user_session\<close>, a missing device
  or agent with empty fields.
\<close>

definition GetAuthSession ::
  "((string \<times> string) list \<Rightarrow> auth_query \<Rightarrow> user_session list grpc_result) \<Rightarrow> auth_query \<Rightarrow> connection \<Rightarrow> user_session result" where
  "GetAuthSession api query c =
     (case api (cn_hdrs c) query of
        Inl err \<Rightarrow> Inl (NewAppError ''GetAuthSession'' ''providers.im.connection'' [] (ge_text err)
                          (ExtractHTPPStatusCodeFromGRPC (Some err)))
      | Inr [] \<Rightarrow> Inl ErrAuthSesionNotFound
      | Inr (u # _) \<Rightarrow> Inr (u\<lparr>us_App := (us_App u)\<lparr>ua_Desktop := ua_Tablet (us_App u)\<rparr>\<rparr>))"

end
