(* ===== verification/Im_Apps.thy ===== *)
theory Im_Apps
  imports Im_Outbound Flow_Nested
begin

text \<open>
  The applications of the instant-message router (\<open>routes/im\<close>): sending, receiving, menus,
  queues, speech and user information, and the gate lookups they use
  (\<open>providers/im/providers_factory.go\<close>).

  An application gets the address of its dialog and the heap, and returns a response, an error, or
  both, with the new heap.  The argument decoder (\<open>mapstructure\<close>, or \<open>encoding/json\<close> for the
  menu) and the services of the flow manager (files, speech, contact centre) are arguments.
\<close>

type_synonym outcome2 = "response option \<times> app_error option"

definition reply2 :: "reply \<Rightarrow> outcome2" where
  "reply2 r = (Some (fst r), snd r)"

definition ok2 :: outcome2 where "ok2 = (Some CallResponseOK, None)"

definition set_vars :: "(rat \<Rightarrow> string) \<Rightarrow> (string \<times> goval) list \<Rightarrow> nat \<Rightarrow> 'a im_heap_scheme \<Rightarrow> outcome2 \<times> 'a im_heap_scheme" where
  "set_vars ff vars a h = (ok2, upd_conn a (conn_Set ff vars) h)"

section \<open>Sending (send.go)\<close>

record media_services =
  fm_SearchMediaFile :: "int \<Rightarrow> int \<Rightarrow> string \<Rightarrow> im_file result"
  fm_SetupPublicFileUrl :: "im_file \<Rightarrow> int \<Rightarrow> string \<Rightarrow> string \<Rightarrow> int \<Rightarrow> im_file result"

definition trim_slash :: "string \<Rightarrow> string" where
  "trim_slash server = (if has_suffix server ''/'' then butlast server else server)"

text \<open>
  The file of an outbound message: one with an address of its own gets a dummy id, any other is
  looked up and given a public address.
\<close>

definition outbound_file :: "media_services \<Rightarrow> int \<Rightarrow> chat_message_outbound \<Rightarrow> im_file \<Rightarrow> (bool \<times> im_file) result" where
  "outbound_file ms domainId argv f =
     (if fi_Url f \<noteq> [] \<and> fi_Id f = 0 then Inr (False, f\<lparr>fi_Id := 1\<rparr>)
      else (let server = trim_slash (if fi_Server f \<noteq> [] then fi_Server f else co_Server argv) in
        case fm_SearchMediaFile ms domainId (fi_Id f) (fi_Name f) of
          Inl err \<Rightarrow> Inl err
        | Inr f1 \<Rightarrow>
            (case fm_SetupPublicFileUrl ms f1 domainId server ''media'' 604800 of
               Inl err \<Rightarrow> Inl err
             | Inr f2 \<Rightarrow> Inr (True, f2))))"

definition sendMessage ::
  "'p im_services \<Rightarrow> media_services \<Rightarrow> (goval \<Rightarrow> chat_message_outbound result) \<Rightarrow> goval \<Rightarrow> nat \<Rightarrow> 'a im_heap_scheme \<Rightarrow> outcome2" where
  "sendMessage sv ms decode args a h =
     (let c = ih_conns h ! a in
      case decode args of
        Inl err \<Rightarrow> (None, Some err)
      | Inr argv \<Rightarrow>
          (case co_File argv of
             None \<Rightarrow> reply2 (SendMessage sv argv c)
           | Some f \<Rightarrow>
               (case outbound_file ms (cn_domainId c) argv f of
                  Inl err \<Rightarrow> (None, Some err)
                | Inr (found, f') \<Rightarrow>
                    reply2 (SendMessage sv (if found then argv\<lparr>co_File := Some f', co_Type := ''file''\<rparr> else argv\<lparr>co_File := Some f'\<rparr>) c))))"

definition sendFile ::
  "'p im_services \<Rightarrow> media_services \<Rightarrow> (goval \<Rightarrow> chat_message_outbound result) \<Rightarrow> goval \<Rightarrow> nat \<Rightarrow> 'a im_heap_scheme \<Rightarrow> outcome2" where
  "sendFile sv ms decode args a h =
     (let c = ih_conns h ! a in
      case decode args of
        Inl err \<Rightarrow> (None, Some err)
      | Inr argv \<Rightarrow>
          (case co_File argv of
             None \<Rightarrow> reply2 (SendDocumentMessage sv argv c)
           | Some f \<Rightarrow>
               (case outbound_file ms (cn_domainId c) argv f of
                  Inl err \<Rightarrow> (None, Some err)
                | Inr (_, f') \<Rightarrow> reply2 (SendDocumentMessage sv (argv\<lparr>co_File := Some f'\<rparr>) c))))"

text \<open>\<open>sendImage\<close> has the same body.\<close>

definition sendImage ::
  "'p im_services \<Rightarrow> media_services \<Rightarrow> (goval \<Rightarrow> chat_message_outbound result) \<Rightarrow> goval \<Rightarrow> nat \<Rightarrow> 'a im_heap_scheme \<Rightarrow> outcome2" where
  "sendImage = sendFile"

definition sendText :: "'p im_services \<Rightarrow> (goval \<Rightarrow> string result) \<Rightarrow> goval \<Rightarrow> nat \<Rightarrow> 'a im_heap_scheme \<Rightarrow> outcome2" where
  "sendText sv decode args a h =
     (case decode args of Inl err \<Rightarrow> (None, Some err) | Inr s \<Rightarrow> reply2 (SendTextMessage sv s (ih_conns h ! a)))"

definition sendSystemMessage :: "'p im_services \<Rightarrow> (goval \<Rightarrow> system_outbound result) \<Rightarrow> goval \<Rightarrow> nat \<Rightarrow> 'a im_heap_scheme \<Rightarrow> outcome2" where
  "sendSystemMessage sv decode args a h =
     (case decode args of Inl err \<Rightarrow> (None, Some err) | Inr m \<Rightarrow> reply2 (SendSystemMessage sv m (ih_conns h ! a)))"

definition sendAction :: "(string \<Rightarrow> string \<Rightarrow> app_error option) \<Rightarrow> (goval \<Rightarrow> string result) \<Rightarrow> goval \<Rightarrow> nat \<Rightarrow> 'a im_heap_scheme \<Rightarrow> outcome2" where
  "sendAction send decode args a h =
     (case decode args of
        Inl err \<Rightarrow> (None, Some err)
      | Inr action \<Rightarrow> (case send (cn_id (ih_conns h ! a)) action of Some err \<Rightarrow> (Some CallResponseError, Some err) | None \<Rightarrow> ok2))"

section \<open>Variables (export.go, unset.go)\<close>

definition im_UnSet :: "(goval \<Rightarrow> string list result) \<Rightarrow> goval \<Rightarrow> nat \<Rightarrow> 'a im_heap_scheme \<Rightarrow> outcome2 \<times> 'a im_heap_scheme" where
  "im_UnSet decode args a h =
     (case decode args of
        Inl err \<Rightarrow> ((None, Some err), h)
      | Inr [] \<Rightarrow> ((None, Some (ErrorRequiredParameter ''UnSet'' ''unSet'')), h)
      | Inr ks \<Rightarrow> (ok2, upd_conn a (UnSet ks) h))"

definition im_export ::
  "(string \<Rightarrow> string \<Rightarrow> string) \<Rightarrow> (rat \<Rightarrow> string) \<Rightarrow> 'p im_services \<Rightarrow> (goval \<Rightarrow> string list result) \<Rightarrow> goval \<Rightarrow> nat \<Rightarrow>
   'a im_heap_scheme \<Rightarrow> outcome2 \<times> 'a im_heap_scheme" where
  "im_export gj ff sv decode args a h =
     (case decode args of
        Inl err \<Rightarrow> ((None, Some err), h)
      | Inr vars \<Rightarrow> (case Export gj ff (exportToIMCore sv) vars (ih_conns h ! a) of (r, c) \<Rightarrow> (reply2 r, upd_conn a (\<lambda>_. c) h)))"

section \<open>Speech (tts.go)\<close>

record tts_args =
  ta_Message :: string
  ta_ProfileID :: int
  ta_Language :: string
  ta_Voice :: string
  ta_TextType :: string
  ta_Server :: string
  ta_FileName :: string
  ta_Kind :: string

definition sendTTS ::
  "'p im_services \<Rightarrow> (string \<Rightarrow> int \<Rightarrow> int \<Rightarrow> string \<Rightarrow> string \<Rightarrow> string \<Rightarrow> string result) \<Rightarrow> (goval \<Rightarrow> tts_args result) \<Rightarrow>
   goval \<Rightarrow> nat \<Rightarrow> 'a im_heap_scheme \<Rightarrow> outcome2" where
  "sendTTS sv link decode args a h =
     (let c = ih_conns h ! a in
      case decode args of
        Inl err \<Rightarrow> (None, Some err)
      | Inr t \<Rightarrow>
          (case link (ta_Message t) (cn_domainId c) (ta_ProfileID t) (ta_TextType t) (ta_Voice t) (ta_Language t) of
             Inl err \<Rightarrow> (Some CallResponseError, Some err)
           | Inr uri \<Rightarrow>
               reply2 (SendFile sv [] (Some \<lparr>fi_Id = - 1, fi_Url = ta_Server t @ uri, fi_PublicUrl = [], fi_Name = ta_FileName t,
                 fi_Size = 1, fi_MimeType = ''audio/mpeg'', fi_ViewName = None, fi_Server = [], fi_Channel = []\<rparr>) c)))"

record stt_args =
  st_FileID :: int
  st_ProfileID :: int
  st_Language :: string
  st_SetVar :: string

definition stt_error :: "string \<Rightarrow> outcome2" where
  "stt_error detail = (Some CallResponseError, Some (NewAppError [] ''im_route.stt.check_args.error'' [] detail 400))"

definition sendSTT ::
  "(rat \<Rightarrow> string) \<Rightarrow> (int \<Rightarrow> int \<Rightarrow> int \<Rightarrow> string \<Rightarrow> string result) \<Rightarrow> (goval \<Rightarrow> stt_args result) \<Rightarrow>
   goval \<Rightarrow> nat \<Rightarrow> 'a im_heap_scheme \<Rightarrow> outcome2 \<times> 'a im_heap_scheme" where
  "sendSTT ff transcribe decode args a h =
     (case decode args of
        Inl err \<Rightarrow> ((None, Some err), h)
      | Inr s \<Rightarrow>
          if st_FileID s \<le> 0 then (stt_error ''file id invalid'', h)
          else if st_ProfileID s \<le> 0 then (stt_error ''profile id invalid'', h)
          else if st_Language s = [] then (stt_error ''language empty'', h)
          else if st_SetVar s = [] then (stt_error ''set var empty'', h)
          else (case transcribe (st_FileID s) (cn_domainId (ih_conns h ! a)) (st_ProfileID s) (st_Language s) of
              Inl err \<Rightarrow> ((Some CallResponseError, Some err), h)
            | Inr text \<Rightarrow> set_vars ff [(st_SetVar s, GStr text)] a h))"

section \<open>Receiving (wait.go)\<close>

record receive_args =
  ra_Timeout :: int
  ra_MessageTimeout :: int
  ra_Delimiter :: string
  ra_Set :: string

text \<open>
  The first message whose text is a command with a trigger starts the trigger beside the schema, and
  the application waits again.  The scope of the trigger shares the functions and triggers of the
  schema (\<open>share_with\<close>).  Each round of waits is one element of \<open>rounds\<close>; \<open>None\<close> where they
  are used up.  The third component lists the scopes that were started.
\<close>

fun recvMessage ::
  "(im_message \<Rightarrow> string option) \<Rightarrow> (rat \<Rightarrow> string) \<Rightarrow> (goval \<Rightarrow> receive_args result) \<Rightarrow>
   (('a im_heap_scheme \<Rightarrow> 'a im_heap_scheme) \<times> wait_outcome) list list \<Rightarrow> flow \<Rightarrow> goval \<Rightarrow> nat \<Rightarrow> flow list \<Rightarrow>
   'a im_heap_scheme \<Rightarrow> (outcome2 \<times> flow \<times> flow list \<times> 'a im_heap_scheme) option" where
  "recvMessage marshal ff decode [] scope args a started h = None"
| "recvMessage marshal ff decode (ws # rounds) scope args a started h =
     (case decode args of
        Inl err \<Rightarrow> Some ((None, Some err), scope, started, h)
      | Inr argv \<Rightarrow>
          if ra_Set argv = [] then Some (ok2, scope, started, h)
          else (let delimiter = (if ra_Delimiter argv \<noteq> [] then ra_Delimiter argv else '' '') in
            case ReceiveMessage marshal ws (ra_Set argv) (ra_MessageTimeout argv) a h of
              None \<Rightarrow> None
            | Some (Inl err, h1) \<Rightarrow> Some ((None, Some err), scope, started, snd (set_vars ff [(ra_Set argv, GStr [])] a h1))
            | Some (Inr msgs, h1) \<Rightarrow>
                (case (if CountTriggers scope > 0 then find (\<lambda>m. HasTrigger (TriggerCommandsName m) scope) msgs else None) of
                   Some m \<Rightarrow>
                     (case TriggerScope (TriggerCommandsName m) scope of
                        Inl _ \<Rightarrow> recvMessage marshal ff decode rounds scope args a started h1
                      | Inr s \<Rightarrow> recvMessage marshal ff decode rounds (share_with s scope) args a (started @ [s]) h1)
                 | None \<Rightarrow>
                     (case set_vars ff [(ra_Set argv, GStr (join_with delimiter msgs))] a h1 of
                        (r, h2) \<Rightarrow> Some (r, scope, started, h2)))))"

section \<open>Menus (menu.go, interactive.go)\<close>

definition im_Menu :: "'p im_services \<Rightarrow> (chat_menu_args \<Rightarrow> goval \<Rightarrow> chat_menu_args result) \<Rightarrow> goval \<Rightarrow> nat \<Rightarrow> 'a im_heap_scheme \<Rightarrow> outcome2" where
  "im_Menu sv decode args a h =
     (case decode \<lparr>mn_Type = ''buttons'', mn_Buttons = [], mn_Inline = [], mn_Text = [], mn_NoInput = False, mn_Kind = []\<rparr> args of
        Inl err \<Rightarrow> (None, Some err)
      | Inr argv \<Rightarrow>
          if mn_Type argv \<in> {''buttons'', ''inline''} then reply2 (SendMenu sv argv (ih_conns h ! a))
          else (Some CallResponseError, None))"

definition im_SendInteractive ::
  "'p im_services \<Rightarrow> (goval \<Rightarrow> keyboard_button send_interactive result) \<Rightarrow> goval \<Rightarrow> nat \<Rightarrow> 'a im_heap_scheme \<Rightarrow> outcome2" where
  "im_SendInteractive sv decode args a h =
     (case decode args of
        Inl err \<Rightarrow> (None, Some err)
      | Inr req \<Rightarrow> (case SendInteractive sv req (ih_conns h ! a) of (r, None) \<Rightarrow> (Some r, None) | (_, Some err) \<Rightarrow> (None, Some err)))"

record menu_button =
  mb_Button :: keyboard_button
  mb_NextFlow :: "goval list"

record menu_args =
  ma_Request :: "menu_button send_interactive"
  ma_Timeout :: int
  ma_MessageTimeout :: int
  ma_Set :: string
  ma_Default :: "goval list option"

definition ConvertMenuRequestToStandard :: "menu_button send_interactive \<Rightarrow> keyboard_button send_interactive" where
  "ConvertMenuRequestToStandard r =
     (let i = si_Interactive r in
      \<lparr>si_Interactive =
         \<lparr>in_Documents = in_Documents i, in_Images = in_Images i, in_SingleUse = in_SingleUse i,
          in_Markup = (case in_Markup i of None \<Rightarrow> None
             | Some rows \<Rightarrow> Some (map (\<lambda>row. \<lparr>kr_Buttons = map mb_Button (kr_Buttons row)\<rparr>) rows)),
          in_ListReply = (case in_ListReply i of None \<Rightarrow> None
             | Some l \<Rightarrow> Some \<lparr>kl_MainButtonTitle = kl_MainButtonTitle l,
                 kl_Sections = map (\<lambda>s. \<lparr>ks_Section = ks_Section s, ks_Buttons = map mb_Button (ks_Buttons s)\<rparr>) (kl_Sections l)\<rparr>),
          in_Placement = in_Placement i, in_InputFieldState = in_InputFieldState i\<rparr>,
       si_Body = si_Body r, si_Metadata = si_Metadata r\<rparr>)"

text \<open>The loops over rows and their buttons, with the breaks of the source.\<close>

fun find_in_rows :: "string \<Rightarrow> menu_button list list \<Rightarrow> menu_button option" where
  "find_in_rows i [] = None"
| "find_in_rows i (row # rows) =
     (case find (\<lambda>b. kb_ID (mb_Button b) = i) row of Some b \<Rightarrow> Some b | None \<Rightarrow> find_in_rows i rows)"

definition clicked_button :: "string \<Rightarrow> menu_button interactive \<Rightarrow> menu_button option" where
  "clicked_button i x =
     (case (case in_Markup x of None \<Rightarrow> None | Some rows \<Rightarrow> find_in_rows i (map kr_Buttons rows)) of
        Some b \<Rightarrow> Some b
      | None \<Rightarrow> (case in_ListReply x of None \<Rightarrow> None | Some l \<Rightarrow> find_in_rows i (map ks_Buttons (kl_Sections l))))"

text \<open>
  \<open>MenuWithReceive\<close>: the menu is sent, a message awaited, and the branch of the clicked button, or
  else the default, run as a flow of its own; then the calling flow is cancelled.  \<open>ws\<close> are the
  waits, \<open>e\<close> and \<open>rq\<close> the environment of the run.
\<close>

definition MenuWithReceive ::
  "'p im_services \<Rightarrow> (im_message \<Rightarrow> string option) \<Rightarrow> (rat \<Rightarrow> string) \<Rightarrow> (goval \<Rightarrow> menu_args result) \<Rightarrow>
   (('a im_heap_scheme \<Rightarrow> 'a im_heap_scheme) \<times> wait_outcome) list \<Rightarrow> 'a im_heap_scheme env \<Rightarrow>
   (flow \<Rightarrow> reqptr \<Rightarrow> 'a im_heap_scheme \<Rightarrow> 'a im_heap_scheme outcome) \<Rightarrow> flow \<Rightarrow> goval \<Rightarrow> nat \<Rightarrow> 'a im_heap_scheme \<Rightarrow>
   (outcome2 \<times> flow \<times> 'a im_heap_scheme) option" where
  "MenuWithReceive sv marshal ff parse ws e rq scope args a h =
     (case parse args of
        Inl err \<Rightarrow> Some ((None, Some err), scope, h)
      | Inr req \<Rightarrow>
          (case SendInteractive sv (ConvertMenuRequestToStandard (ma_Request req)) (ih_conns h ! a) of
             (_, Some err) \<Rightarrow> Some ((None, Some err), scope, h)
           | (_, None) \<Rightarrow>
               (case ReceiveMessage marshal ws (ma_Set req) (ma_MessageTimeout req) a h of
                  None \<Rightarrow> None
                | Some (Inl err, h1) \<Rightarrow> Some ((None, Some err), scope, h1)
                | Some (Inr [], h1) \<Rightarrow>
                    Some ((None, Some (NewAppError ''Flow.MenuWithReceive'' ''flow.menu.empty_event'' [] ''no event received'' 500)), scope, h1)
                | Some (Inr (ev # evs), h1) \<Rightarrow>
                    (let h2 = snd (set_vars ff [(ma_Set req, GStr (join_with '' '' (ev # evs)))] a h1);
                         branch = (case clicked_button ev (si_Interactive (ma_Request req)) of
                            Some b \<Rightarrow> if mb_NextFlow b \<noteq> [] then Some (mb_NextFlow b) else ma_Default req
                          | None \<Rightarrow> ma_Default req)
                     in case branch of
                          None \<Rightarrow> Some (ok2, scope, h2)
                        | Some acts \<Rightarrow>
                            (case Route e rq (Fork ev (ArrInterfaceToArrayApplication acts) scope) h2 of
                               None \<Rightarrow> None
                             | Some (child, h3) \<Rightarrow> Some (ok2, SetCancel (share_with child scope), h3))))))"

section \<open>Queues (queue.go)\<close>

record queue_join_arg =
  qj_Priority :: int
  qj_BucketId :: int
  qj_QueueId :: int
  qj_QueueName :: string
  qj_Agent :: "(int option \<times> string option) option"
  qj_Timers :: "timer_args list"

record member_info =
  mi_Type :: string
  mi_Name :: string
  mi_Iss :: string
  mi_Sub :: string
  mi_Role :: int
  mi_MemberId :: string

record endpoint_info =
  ei_Name :: string
  ei_Sub :: string
  ei_MemberId :: string

record join_request =
  jr_ThreadId :: string
  jr_QueueId :: int
  jr_QueueName :: string
  jr_Priority :: int
  jr_BucketId :: int
  jr_Variables :: "string \<rightharpoonup> string"
  jr_DomainId :: int
  jr_StickyAgentId :: int
  jr_From :: endpoint_info
  jr_To :: endpoint_info
  jr_Subject :: string
  jr_Members :: "member_info list"
  jr_LastMessage :: string

text \<open>
  What the contact centre offers, and what the application did there: the timers it started, the
  request it sent, the cancellation of the timers and the end of the subscription.
\<close>

record queue_services =
  qs_FindQueueByName :: "int \<Rightarrow> string \<Rightarrow> int result"
  qs_GetAgentIdByExtension :: "int \<Rightarrow> string \<Rightarrow> int option"
  qs_Join :: "join_request \<Rightarrow> string + (int \<times> bool)"
  qs_CancelAttempt :: "nat \<Rightarrow> string \<Rightarrow> app_error option"

datatype queue_action = StartsTimer timer_args | Joins join_request | CancelsTimers | LeavesAttempt int

text \<open>
  What \<open>select\<close> takes in a round: the context ended, the channel of \<open>EnterQueue\<close> was closed, or an
  event of the attempt (of a closed subscription: the empty event).  Before it, others change the heap.
\<close>

datatype queue_obs = QCtxDone | QReturned | QEvent string string

definition CCResultBot :: string where "CCResultBot = ''bot''"

fun queue_loop ::
  "(rat \<Rightarrow> string) \<Rightarrow> (('a im_heap_scheme \<Rightarrow> 'a im_heap_scheme) \<times> queue_obs) list \<Rightarrow> nat \<Rightarrow> queue_action list \<Rightarrow>
   'a im_heap_scheme \<Rightarrow> (outcome2 \<times> queue_action list \<times> 'a im_heap_scheme) option" where
  "queue_loop ff [] a acts h = None"
| "queue_loop ff ((rely, ob) # obs) a acts h =
     (let h1 = rely h in
      case ob of
        QCtxDone \<Rightarrow> Some (ok2, acts, h1)
      | QReturned \<Rightarrow> (case set_vars ff [(''cc_result'', GStr CCResultBot)] a h1 of (r, h2) \<Rightarrow> Some (r, acts, h2))
      | QEvent ev res \<Rightarrow>
          if ev = ''bridged'' then queue_loop ff obs a (acts @ [CancelsTimers]) h1
          else if ev = ''leaving'' then
            (if res \<noteq> [] then (case set_vars ff [(''cc_result'', GStr res)] a h1 of (r, h2) \<Rightarrow> Some (r, acts, h2))
             else Some (ok2, acts, h1))
          else queue_loop ff obs a acts h1)"

definition queue_timer_names :: "timer_args list \<Rightarrow> timer_args list" where
  "queue_timer_names ts = map (\<lambda>(k, t). t\<lparr>tm_Name := ''queue-timer-'' @ Itoa (int k)\<rparr>) (enumerate 0 ts)"

definition sticky_agent :: "queue_services \<Rightarrow> int \<Rightarrow> (int option \<times> string option) option \<Rightarrow> int" where
  "sticky_agent qs domainId agent =
     (case agent of
        None \<Rightarrow> 0
      | Some (Some i, _) \<Rightarrow> i
      | Some (None, None) \<Rightarrow> 0
      | Some (None, Some ex) \<Rightarrow> (case qs_GetAgentIdByExtension qs domainId ex of Some i \<Rightarrow> i | None \<Rightarrow> 0))"

definition join_request_of :: "queue_join_arg \<Rightarrow> int \<Rightarrow> int \<Rightarrow> connection \<Rightarrow> join_request" where
  "join_request_of q queueId sticky c =
     (let info = cn_info c; ep = (\<lambda>x. \<lparr>ei_Name = ie_Name x, ei_Sub = ie_Sub x, ei_MemberId = ie_MemberID x\<rparr>) in
      \<lparr>jr_ThreadId = cn_threadId c, jr_QueueId = queueId, jr_QueueName = qj_QueueName q, jr_Priority = qj_Priority q,
       jr_BucketId = qj_BucketId q, jr_Variables = DumpExportVariables c, jr_DomainId = cn_domainId c,
       jr_StickyAgentId = sticky, jr_From = ep (cn_from c), jr_To = ep (cn_to c), jr_Subject = ti_Subject info,
       jr_Members = map (\<lambda>m. \<lparr>mi_Type = thread_member.tm_Type m, mi_Name = thread_member.tm_Name m, mi_Iss = thread_member.tm_Iss m,
          mi_Sub = thread_member.tm_Sub m, mi_Role = sint (word_of_int (thread_member.tm_Role m) :: 32 word), mi_MemberId = thread_member.tm_MemberId m\<rparr>) (ti_Members info),
       jr_LastMessage = (if ti_LastMessage info = [] then ms_Text (cn_lastMsg c) else ti_LastMessage info)\<rparr>)"

text \<open>
  \<open>joinQueue\<close>.  \<open>delayed\<close> tells whether the context ended in the delay of a nested dialog.  The
  deferred calls are made on every return: the queue is left and the subscription ended if the
  dialog joined, and the timers are cancelled once they were started.
\<close>

definition joinQueue ::
  "queue_services \<Rightarrow> (rat \<Rightarrow> string) \<Rightarrow> (goval \<Rightarrow> queue_join_arg result) \<Rightarrow> bool \<Rightarrow>
   (('a im_heap_scheme \<Rightarrow> 'a im_heap_scheme) \<times> queue_obs) list \<Rightarrow> goval \<Rightarrow> nat \<Rightarrow> 'a im_heap_scheme \<Rightarrow>
   (outcome2 \<times> queue_action list \<times> 'a im_heap_scheme) option" where
  "joinQueue qs ff decode delayed obs args a h =
     (let c = ih_conns h ! a in
      case decode args of
        Inl err \<Rightarrow> Some ((None, Some err), [], h)
      | Inr q \<Rightarrow>
          if cn_nested c \<and> delayed then Some (ok2, [], h)
          else (case (if qj_QueueId q = 0 \<and> qj_QueueName q \<noteq> [] then qs_FindQueueByName qs (cn_domainId c) (qj_QueueName q) else Inr (qj_QueueId q)) of
              Inl err \<Rightarrow> Some ((None, Some err), [], h)
            | Inr queueId \<Rightarrow>
                (let acts = map StartsTimer (queue_timer_names (qj_Timers q));
                     req = join_request_of q queueId (sticky_agent qs (cn_domainId c) (qj_Agent q)) c
                 in case qs_Join qs req of
                      Inl _ \<Rightarrow> Some (ok2, acts @ [Joins req, CancelsTimers], h)
                    | Inr (attId, bridged) \<Rightarrow>
                        (case queue_loop ff obs a (acts @ [Joins req] @ (if bridged then [CancelsTimers] else [])) (snd (EnterQueue a h)) of
                           None \<Rightarrow> None
                         | Some (r, acts', h1) \<Rightarrow>
                             Some (r, acts' @ [LeavesAttempt attId, CancelsTimers],
                               upd_conn a (\<lambda>c. snd (SetQueue None c)) (LeaveQueue a h1))))))"

definition cancelQueue :: "queue_services \<Rightarrow> (rat \<Rightarrow> string) \<Rightarrow> nat \<Rightarrow> 'a im_heap_scheme \<Rightarrow> outcome2 \<times> 'a im_heap_scheme" where
  "cancelQueue qs ff a h =
     (let c = ih_conns h ! a in
      case cn_queueKey c of
        None \<Rightarrow> ((Some CallResponseError, None), h)
      | Some key \<Rightarrow>
          (case qs_CancelAttempt qs key ''cancel'' of
             Some err \<Rightarrow> ((None, Some err), h)
           | None \<Rightarrow> (let (changed, c') = SetQueue None c
                      in set_vars ff [(''cc_cancel'', GStr (if changed then ''true'' else ''false''))] a (upd_conn a (\<lambda>_. c') h))))"

section \<open>Gates (providers/im/providers_factory.go, model/im_user_info.go)\<close>

datatype gate_type = IMGateTypeUnspecified | IMGateTypeFacebook | IMGateTypeWhatsapp | IMGateTypeViber

fun gate_type_name :: "gate_type \<Rightarrow> string" where
  "gate_type_name IMGateTypeUnspecified = ''unspecified''"
| "gate_type_name IMGateTypeFacebook = ''facebook''"
| "gate_type_name IMGateTypeWhatsapp = ''whatsapp''"
| "gate_type_name IMGateTypeViber = ''viber''"

definition IMGateTypeFromString :: "string \<Rightarrow> gate_type" where
  "IMGateTypeFromString s =
     (if s = ''facebook'' then IMGateTypeFacebook else if s = ''whatsapp'' then IMGateTypeWhatsapp
      else if s = ''viber'' then IMGateTypeViber else IMGateTypeUnspecified)"

record gate_facebook =
  gf_ID :: string
  gf_Name :: string
  gf_MetaAppID :: string
  gf_PageID :: string
  gf_PageName :: string

record gate_viber =
  gv_ID :: string
  gv_Name :: string
  gv_BotID :: string
  gv_BotURI :: string
  gv_SenderName :: string

datatype gate_payload = FacebookGate gate_facebook | ViberGate gate_viber

record im_gate =
  ig_Type :: gate_type
  ig_Payload :: gate_payload

text \<open>The provider services answer with the fields of the gate.\<close>

type_synonym 'g gate_api = "(string \<times> string) list \<Rightarrow> string \<Rightarrow> 'g grpc_result"

definition gate_error :: "string \<Rightarrow> grpc_error \<Rightarrow> app_error" where
  "gate_error whr er = NewAppError whr ''providers.im.providers_factory.request'' [] (ge_text er) (ExtractHTPPStatusCodeFromGRPC (Some er))"

definition FacebookGateHandler_Handle :: "gate_facebook gate_api \<Rightarrow> (string \<times> string) list \<Rightarrow> string \<Rightarrow> im_gate result" where
  "FacebookGateHandler_Handle api hdrs idn =
     (case api hdrs idn of
        Inl er \<Rightarrow> Inl (gate_error ''FacebookGateHandler.Handle'' er)
      | Inr g \<Rightarrow> Inr \<lparr>ig_Type = IMGateTypeFacebook, ig_Payload = FacebookGate (g\<lparr>gf_PageName := cmp_Or [gf_PageName g, gf_Name g]\<rparr>)\<rparr>)"

definition ViberGateHandler_Handle :: "gate_viber gate_api \<Rightarrow> (string \<times> string) list \<Rightarrow> string \<Rightarrow> im_gate result" where
  "ViberGateHandler_Handle api hdrs idn =
     (case api hdrs idn of
        Inl er \<Rightarrow> Inl (gate_error ''ViberGateHandler.Handle'' er)
      | Inr g \<Rightarrow> Inr \<lparr>ig_Type = IMGateTypeViber, ig_Payload = ViberGate g\<rparr>)"

type_synonym gate_handler = "(string \<times> string) list \<Rightarrow> string \<Rightarrow> im_gate result"

text \<open>A factory is a map from types to handlers, a later registration replacing an earlier one.\<close>

definition NewGateHandlerFactory :: "(gate_type \<times> gate_handler) list \<Rightarrow> (gate_type \<rightharpoonup> gate_handler)" where
  "NewGateHandlerFactory hs = fold (\<lambda>(t, hl) m. m(t \<mapsto> hl)) hs Map.empty"

definition GateHandlerFactory_Handle :: "(gate_type \<rightharpoonup> gate_handler) \<Rightarrow> (string \<times> string) list \<Rightarrow> gate_type \<Rightarrow> string \<Rightarrow> im_gate result" where
  "GateHandlerFactory_Handle f hdrs t idn =
     (case f t of
        Some hl \<Rightarrow> hl hdrs idn
      | None \<Rightarrow> Inl (NewAppError ''GateHandlerFactory.Handle'' ''im.providers_factory.zero_handlers''
          [(''type'', GStr (gate_type_name t))] ''resolved zero handlers for provided type'' 404))"

text \<open>The factory the server is started with.\<close>

definition server_gates :: "gate_facebook gate_api \<Rightarrow> gate_viber gate_api \<Rightarrow> (gate_type \<rightharpoonup> gate_handler)" where
  "server_gates fb vb = NewGateHandlerFactory
     [(IMGateTypeFacebook, FacebookGateHandler_Handle fb), (IMGateTypeViber, ViberGateHandler_Handle vb)]"

definition HandleGateInfo :: "(gate_type \<rightharpoonup> gate_handler) \<Rightarrow> gate_type \<Rightarrow> string \<Rightarrow> connection \<Rightarrow> im_gate result" where
  "HandleGateInfo f t idn c = GateHandlerFactory_Handle f (cn_hdrs c) t idn"

section \<open>User information (user_info.go, user_info_factory.go)\<close>

text \<open>The JSON texts of a session and of a gate are arguments; \<open>Inl\<close> is the text of an error.\<close>

record info_services =
  io_auth :: "(string \<times> string) list \<Rightarrow> auth_query \<Rightarrow> user_session list grpc_result"
  io_gates :: "gate_type \<rightharpoonup> gate_handler"
  io_session_json :: "user_session \<Rightarrow> string + string"
  io_gate_json :: "im_gate \<Rightarrow> string + string"

definition DeviceHandler_Handle :: "info_services \<Rightarrow> connection \<Rightarrow> string result" where
  "DeviceHandler_Handle sv c =
     (if DeviceID c = [] then Inl (NewRequestError ''IMUserInfoDeviceHandler.Handle'' ''received empty device id call'')
      else if ie_Issuer (cn_from c) = [] \<or> ie_Sub (cn_from c) = []
        then Inl (NewRequestError ''IMUserInfoDeviceHandler.Handle'' ''received invalid auth contact'')
      else (case GetAuthSession (io_auth sv) \<lparr>aq_DeviceID = DeviceID c, aq_Sub = ie_Sub (cn_from c), aq_Iss = ie_Issuer (cn_from c)\<rparr> c of
          Inl er \<Rightarrow> if er = ErrAuthSesionNotFound then Inr [CHR 0x7B, CHR 0x7D] else Inl er
        | Inr s \<Rightarrow> (case io_session_json sv s of
              Inl er \<Rightarrow> Inl (NewAppError ''Serialize'' ''model.im_user_info.marshaling'' [] er 500)
            | Inr j \<Rightarrow> Inr j)))"

definition GateHandler_Handle :: "info_services \<Rightarrow> connection \<Rightarrow> string result" where
  "GateHandler_Handle sv c =
     (if Via c = [] then Inl (NewRequestError ''IMUserInfoGateHandler.Handle'' ''received call with empty via info'')
      else (case HandleGateInfo (io_gates sv) (IMGateTypeFromString (ie_Issuer (cn_from c))) (Via c) c of
          Inl er \<Rightarrow> Inl er
        | Inr g \<Rightarrow> (case io_gate_json sv g of
              Inl er \<Rightarrow> Inl (NewAppError ''IMUserInfoGateHandler.Handle'' ''im.user_info_factory.handle.marshaling_gate'' [] er 500)
            | Inr j \<Rightarrow> Inr j)))"

definition NewIMUserInfoHandlerFactory ::
  "(string \<times> (info_services \<Rightarrow> connection \<Rightarrow> string result)) list \<Rightarrow> (string \<rightharpoonup> (info_services \<Rightarrow> connection \<Rightarrow> string result))" where
  "NewIMUserInfoHandlerFactory hs = fold (\<lambda>(t, hl) m. m(t \<mapsto> hl)) hs Map.empty"

definition IMUserInfoHandlerFactory_Handle ::
  "(string \<rightharpoonup> (info_services \<Rightarrow> connection \<Rightarrow> string result)) \<Rightarrow> info_services \<Rightarrow> string \<Rightarrow> connection \<Rightarrow> string result" where
  "IMUserInfoHandlerFactory_Handle f sv t c =
     (case f t of
        None \<Rightarrow> Inl (NewAppError ''IMUserInfoHandlerFactory.Handle'' ''im.user_info.handler_factory.handle'' [(''type'', GStr t)]
          ''received unregistered im user info request type'' 404)
      | Some hl \<Rightarrow> hl sv c)"

definition user_info_handlers :: "string \<rightharpoonup> (info_services \<Rightarrow> connection \<Rightarrow> string result)" where
  "user_info_handlers = NewIMUserInfoHandlerFactory [(''device'', DeviceHandler_Handle), (''gate'', GateHandler_Handle)]"

record user_info_request =
  ur_Set :: string
  ur_Type :: string

definition IMUserInfoRequest_Validate :: "user_info_request \<Rightarrow> app_error option" where
  "IMUserInfoRequest_Validate r =
     (if ur_Type r \<in> {''device'', ''gate''} then None
      else Some (NewRequestError ''im.user_info.validate.unsupported_info_type'' (''received unsupported request info type: '' @ ur_Type r)))"

definition IMUserInfo ::
  "(rat \<Rightarrow> string) \<Rightarrow> info_services \<Rightarrow> (goval \<Rightarrow> user_info_request result) \<Rightarrow> goval \<Rightarrow> nat \<Rightarrow> 'a im_heap_scheme \<Rightarrow> outcome2 \<times> 'a im_heap_scheme" where
  "IMUserInfo ff sv decode args a h =
     (case decode args of
        Inl er \<Rightarrow> ((Some CallResponseError, Some er), h)
      | Inr r \<Rightarrow>
          (case IMUserInfoRequest_Validate r of
             Some er \<Rightarrow> ((Some CallResponseError, Some er), h)
           | None \<Rightarrow>
               (case IMUserInfoHandlerFactory_Handle user_info_handlers sv (ur_Type r) (ih_conns h ! a) of
                  Inl er \<Rightarrow> ((Some CallResponseError, Some er), h)
                | Inr res \<Rightarrow> set_vars ff [(ur_Set r, GStr res)] a h)))"

end
