(* ===== verification/Im_Server.thy ===== *)
theory Im_Server
  imports Im_Outbound
begin

text \<open>
  The instant-messaging server (\<open>providers/im/server.go\<close>, \<open>store.go\<close>): the store of live
  dialogs, the sessions that tie a dialog to a node (\<open>store/pg_store/session.go\<close>), and the
  handlers of the listener for inbound messages and for control being granted to, and released
  from, a bot.

  The expirable LRU of the store is third-party: its operations are an argument, and what it
  promises is stated where a property needs it.  The session table is a map from the session id
  to the node and the sequence number.
\<close>

section \<open>Store of connections\<close>

record 'c conn_lru =
  cl_Get :: "string \<Rightarrow> 'c \<Rightarrow> nat option \<times> 'c"
  cl_Add :: "string \<Rightarrow> nat \<Rightarrow> 'c \<Rightarrow> 'c"
  cl_Remove :: "string \<Rightarrow> 'c \<Rightarrow> 'c"
  cl_Keys :: "'c \<Rightarrow> string list"

record 'c im_server = im_heap +
  is_id :: string
  is_conns :: 'c
  is_pushParent :: "string \<rightharpoonup> string"
  is_sessions :: "string \<rightharpoonup> string \<times> int"
  is_consume :: "nat list"

definition store_Get :: "'c conn_lru \<Rightarrow> string \<Rightarrow> 'c im_server \<Rightarrow> nat option \<times> 'c im_server" where
  "store_Get cl k s = (case cl_Get cl k (is_conns s) of (r, c) \<Rightarrow> (r, s\<lparr>is_conns := c\<rparr>))"

definition store_Add :: "'c conn_lru \<Rightarrow> nat \<Rightarrow> 'c im_server \<Rightarrow> 'c im_server" where
  "store_Add cl a s = s\<lparr>is_conns := cl_Add cl (cn_id (ih_conns s ! a)) a (is_conns s)\<rparr>"

definition store_Delete :: "'c conn_lru \<Rightarrow> nat \<Rightarrow> 'c im_server \<Rightarrow> 'c im_server" where
  "store_Delete cl a s = s\<lparr>is_conns := cl_Remove cl (cn_id (ih_conns s ! a)) (is_conns s)\<rparr>"

fun break_keys :: "'c conn_lru \<Rightarrow> string \<Rightarrow> string list \<Rightarrow> nat \<Rightarrow> 'c im_server \<Rightarrow> nat \<times> 'c im_server" where
  "break_keys cl pre [] broken s = (broken, s)"
| "break_keys cl pre (k # ks) broken s =
     (if \<not> has_prefix k pre then break_keys cl pre ks broken s
      else case store_Get cl k s of
          (None, s1) \<Rightarrow> break_keys cl pre ks broken s1
        | (Some a, s1) \<Rightarrow> break_keys cl pre ks (broken + 1) (Break a s1))"

definition BreakByThread :: "'c conn_lru \<Rightarrow> string \<Rightarrow> 'c im_server \<Rightarrow> nat \<times> 'c im_server" where
  "BreakByThread cl threadID s =
     (if threadID = [] then (0, s)
      else break_keys cl (threadID @ ''.'') (cl_Keys cl (is_conns s)) 0 s)"

section \<open>Sessions\<close>

text \<open>
  The statements of \<open>SQLSessionStore\<close>; \<open>db\<close> is the error of the database for the
  statement, if any.  The insert claims a free id with sequence number 1, the update raises the
  number only where the id belongs to the same node, and returns no row otherwise.
\<close>

type_synonym sessions = "string \<rightharpoonup> string \<times> int"

definition session_Touch :: "string option \<Rightarrow> string \<Rightarrow> string \<Rightarrow> sessions \<Rightarrow> (string + int option) \<times> sessions" where
  "session_Touch db idn app ss =
     (case db of
        Some err \<Rightarrow> (Inl err, ss)
      | None \<Rightarrow>
          (case ss idn of
             None \<Rightarrow> (Inr (Some 1), ss(idn \<mapsto> (app, 1)))
           | Some (app', seq) \<Rightarrow>
               if app' = app then (Inr (Some (seq + 1)), ss(idn \<mapsto> (app, seq + 1))) else (Inr None, ss)))"

definition session_Remove :: "string option \<Rightarrow> string \<Rightarrow> string \<Rightarrow> sessions \<Rightarrow> sessions" where
  "session_Remove db idn app ss =
     (case db of Some _ \<Rightarrow> ss
      | None \<Rightarrow> (\<lambda>i. if i = idn \<and> (case ss i of Some (app', _) \<Rightarrow> app' = app | None \<Rightarrow> False) then None else ss i))"

text \<open>
  The \<open>LIKE\<close> pattern, on single-byte text: a percent sign stands for any text, an underscore
  for any character, and a backslash takes the next character literally.
\<close>

fun like :: "string \<Rightarrow> string \<Rightarrow> bool" where
  "like [] s = (s = [])"
| "like (p # ps) s =
     (if p = CHR ''%'' then list_ex (\<lambda>n. like ps (drop n s)) [0 ..< Suc (length s)]
      else if p = CHR 0x5C then
        (case ps of [] \<Rightarrow> False | q # qs \<Rightarrow> (case s of [] \<Rightarrow> False | c # cs \<Rightarrow> q = c \<and> like qs cs))
      else case s of [] \<Rightarrow> False
        | c # cs \<Rightarrow> (p = CHR ''_'' \<or> p = c) \<and> like ps cs)"

definition session_RemoveByThread :: "string option \<Rightarrow> string \<Rightarrow> sessions \<Rightarrow> sessions" where
  "session_RemoveByThread db threadID ss =
     (if threadID = [] then ss
      else case db of Some _ \<Rightarrow> ss
        | None \<Rightarrow> (\<lambda>i. if like (threadID @ ''.%'') i then None else ss i))"

definition session_RemoveAll :: "string option \<Rightarrow> string \<Rightarrow> sessions \<Rightarrow> sessions" where
  "session_RemoveAll db app ss =
     (case db of Some _ \<Rightarrow> ss
      | None \<Rightarrow> (\<lambda>i. case ss i of Some (app', n) \<Rightarrow> if app' = app then None else ss i | None \<Rightarrow> None))"

section \<open>Starting a dialog\<close>

text \<open>
  What the handlers are given: the thread search of the gateway, the JSON renderings, and the
  error of the database, if any, for the statement the handler runs.
\<close>

record 'p im_env =
  ev_search :: "'p thread_search"
  ev_marshal_msg :: "im_message \<Rightarrow> string option"
  ev_marshal_cb :: "interactive_callback \<Rightarrow> string option"
  ev_marshal_info :: "thread_info \<Rightarrow> string option"
  ev_marshal_value :: "'p \<Rightarrow> string option"
  ev_db :: "string option"

definition startDialog ::
  "'c conn_lru \<Rightarrow> 'p im_env \<Rightarrow> string \<Rightarrow> im_endpoint \<Rightarrow> im_wrapper \<Rightarrow> bool \<Rightarrow> 'c im_server \<Rightarrow> string option \<times> 'c im_server" where
  "startDialog cl e idn to msg nested s =
     (case store_Get cl idn s of
        (Some _, s1) \<Rightarrow> (None, s1)
      | (None, s1) \<Rightarrow>
          (case session_Touch (ev_db e) idn (is_id s1) (is_sessions s1) of
             (Inl err, _) \<Rightarrow> (Some err, s1)
           | (Inr None, _) \<Rightarrow> (None, s1)
           | (Inr (Some sq), ss) \<Rightarrow>
               (let (a, s2) = newConnection idn to msg nested (s1\<lparr>is_sessions := ss\<rparr>);
                    info = treadInfo (ev_search e) (ev_marshal_value e) (ih_conns s2 ! a);
                    s3 = upd_conn a (setupVariables (ev_marshal_msg e) (ev_marshal_info e) info) s2;
                    s4 = store_Add cl a s3
                in (None, s4\<lparr>is_consume := is_consume s4 @ [a]\<rparr>))))"

section \<open>Stopping and resuming\<close>

definition stopConnection :: "'c conn_lru \<Rightarrow> 'p im_env \<Rightarrow> nat \<Rightarrow> 'c im_server \<Rightarrow> 'c im_server" where
  "stopConnection cl e a s =
     (let s1 = store_Delete cl a s;
          s2 = s1\<lparr>is_pushParent := (is_pushParent s1)(cn_id (ih_conns s1 ! a) := None)\<rparr>
      in s2\<lparr>is_sessions := session_Remove (ev_db e) (cn_id (ih_conns s2 ! a)) (is_id s2) (is_sessions s2)\<rparr>)"

definition conn_Stop :: "'c conn_lru \<Rightarrow> 'p im_env \<Rightarrow> nat \<Rightarrow> 'c im_server \<Rightarrow> 'c im_server" where
  "conn_Stop cl e a s =
     (let s1 = set_state a Terminating s; c = ih_conns s1 ! a;
          s2 = cancel (cn_ctx c) (cancel (cn_runCtx c) s1)
      in stopConnection cl e a s2)"

definition resumeParentOf :: "'c conn_lru \<Rightarrow> string \<Rightarrow> 'c im_server \<Rightarrow> 'c im_server" where
  "resumeParentOf cl childID s =
     (case is_pushParent s childID of
        None \<Rightarrow> s
      | Some parentID \<Rightarrow>
          (let s1 = s\<lparr>is_pushParent := (is_pushParent s)(childID := None)\<rparr> in
           if parentID = [] then s1
           else case store_Get cl parentID s1 of
               (None, s2) \<Rightarrow> s2
             | (Some p, s2) \<Rightarrow> if \<not> IsSuspended (ih_conns s2 ! p) then s2 else Resume p s2))"

definition ResumeParent :: "'c conn_lru \<Rightarrow> nat \<Rightarrow> 'c im_server \<Rightarrow> 'c im_server" where
  "ResumeParent cl a s = resumeParentOf cl (cn_id (ih_conns s ! a)) s"

section \<open>Control released\<close>

definition suspendForAgent :: "'c conn_lru \<Rightarrow> bot_control_released \<Rightarrow> 'c im_server \<Rightarrow> 'c im_server" where
  "suspendForAgent cl rel s =
     (if br_Sub rel = 0 then s
      else case store_Get cl (br_ThreadID rel @ ''.'' @ Itoa (br_Sub rel)) s of
          (None, s1) \<Rightarrow> s1
        | (Some a, s1) \<Rightarrow>
            (let c = ih_conns s1 ! a in
             if IsSuspended c \<or> IsTerminating c \<or> InQueue c then s1 else Suspend a s1))"

definition handleBotControlReleased :: "'c conn_lru \<Rightarrow> 'p im_env \<Rightarrow> im_wrapper \<Rightarrow> 'c im_server \<Rightarrow> 'c im_server" where
  "handleBotControlReleased cl e msg s =
     (case iw_Payload msg of
        EvReleased rel \<Rightarrow>
          (if br_Reason rel = BotControlReasonAgentTakeover then suspendForAgent cl rel s
           else if br_Reason rel \<noteq> BotControlReasonClientLeave then s
           else (let s1 = snd (BreakByThread cl (br_ThreadID rel) s)
                 in s1\<lparr>is_sessions := session_RemoveByThread (ev_db e) (br_ThreadID rel) (is_sessions s1)\<rparr>))
      | _ \<Rightarrow> s)"

section \<open>Control granted\<close>

definition ROLE_OWNER :: int where "ROLE_OWNER = 3"

definition customerEndpoint :: "proto_member \<Rightarrow> im_endpoint" where
  "customerEndpoint m = zero_endpoint\<lparr>ie_Sub := pc_Sub (GetContact m), ie_Issuer := pc_Iss (GetContact m),
     ie_Name := pc_Name (GetContact m), ie_MemberID := pm_Id m, ie_Role := pm_Role m\<rparr>"

fun select_loop :: "string \<Rightarrow> proto_member option \<Rightarrow> proto_member list \<Rightarrow> im_endpoint" where
  "select_loop botSub fallback [] = (case fallback of None \<Rightarrow> zero_endpoint | Some m \<Rightarrow> customerEndpoint m)"
| "select_loop botSub fallback (m # ms) =
     (case pm_Contact m of
        None \<Rightarrow> select_loop botSub fallback ms
      | Some c \<Rightarrow>
          if pc_IsBot c \<or> pc_Sub c = botSub then select_loop botSub fallback ms
          else if pm_Role m = ROLE_OWNER then customerEndpoint m
          else select_loop botSub (if fallback = None then Some m else fallback) ms)"

definition selectCustomerPeer :: "proto_member list \<Rightarrow> string \<Rightarrow> im_endpoint" where
  "selectCustomerPeer members botSub = select_loop botSub None members"

definition resolveCustomerPeer :: "'p thread_search \<Rightarrow> bot_control_granted \<Rightarrow> im_endpoint \<Rightarrow> string + im_endpoint" where
  "resolveCustomerPeer search m to =
     (case search (conn_hdrs (bg_DomainID m) (Atoi_value (ie_Sub to))) (bg_ThreadID m) of
        Inl err \<Rightarrow> Inl (''searching thread '' @ bg_ThreadID m @ '': '' @ ge_text err)
      | Inr [] \<Rightarrow> Inl (''thread '' @ bg_ThreadID m @ '' not found'')
      | Inr (t # _) \<Rightarrow> Inr (selectCustomerPeer (pt_Members t) (ie_Sub to)))"

definition synthesizeGrantMessage :: "bot_control_granted \<Rightarrow> im_endpoint \<Rightarrow> im_endpoint \<Rightarrow> im_wrapper" where
  "synthesizeGrantMessage m from to =
     \<lparr>iw_ID = [], iw_Payload = EvMessage (zero_message\<lparr>ms_ThreadID := bg_ThreadID m, ms_DomainID := bg_DomainID m,
        ms_From := from, ms_To := [to]\<rparr>),
      iw_UserID = [], iw_DomainID = bg_DomainID m, iw_Echo = False, iw_jwtPayload = [], iw_deviceID = [],
      iw_Type = IMEventTypeMessage, iw_via = []\<rparr>"

definition adoptPush :: "'c conn_lru \<Rightarrow> string \<Rightarrow> string \<Rightarrow> 'c im_server \<Rightarrow> 'c im_server" where
  "adoptPush cl sessionID releasedSessionID s =
     (case store_Get cl releasedSessionID s of
        (None, s1) \<Rightarrow> s1
      | (Some r, s1) \<Rightarrow>
          (let c = ih_conns s1 ! r;
               s2 = (if \<not> IsSuspended c \<and> \<not> IsTerminating c then Suspend r s1 else s1)
           in s2\<lparr>is_pushParent := (is_pushParent s2)(sessionID \<mapsto> releasedSessionID)\<rparr>))"

text \<open>
  \<open>handleBotControlGranted\<close>, in the order of its branches: pop (a suspended dialog of the bot is
  resumed and the released one broken), hand-back from a queue, a push that overtook the start,
  a duplicate grant, grants that start nothing, and the push that suspends the released dialog
  and starts a fresh one.  \<open>None\<close> is the panic of closing a closed channel.
\<close>

definition sessionID :: "string \<Rightarrow> int \<Rightarrow> string" where
  "sessionID thread sub = thread @ ''.'' @ Itoa sub"

definition releasedID :: "bot_control_granted \<Rightarrow> string" where
  "releasedID m = (if bg_ReleasedSub m \<noteq> 0 \<and> bg_ReleasedSub m \<noteq> bg_Sub m then sessionID (bg_ThreadID m) (bg_ReleasedSub m) else [])"

definition grant_pop :: "'c conn_lru \<Rightarrow> string \<Rightarrow> nat \<Rightarrow> 'c im_server \<Rightarrow> 'c im_server" where
  "grant_pop cl released a s =
     (let s1 = (if released = [] then s
                else case store_Get cl released s of (None, s') \<Rightarrow> s' | (Some r, s') \<Rightarrow> Break r s')
      in Resume a s1)"

definition grant_push :: "'c conn_lru \<Rightarrow> 'p im_env \<Rightarrow> bot_control_granted \<Rightarrow> 'c im_server \<Rightarrow> string option \<times> 'c im_server" where
  "grant_push cl e m s =
     (let idn = sessionID (bg_ThreadID m) (bg_Sub m);
          released = releasedID m;
          s1 = (if released = [] then s
                else case store_Get cl released s of
                    (None, s') \<Rightarrow> s'
                  | (Some r, s') \<Rightarrow>
                      (let s'' = Suspend r s'
                       in s''\<lparr>is_pushParent := (is_pushParent s'')(idn \<mapsto> released)\<rparr>));
          to = zero_endpoint\<lparr>ie_Sub := Itoa (bg_Sub m), ie_Issuer := IMUserTypeBot, ie_MemberID := bg_MemberID m\<rparr>
      in case resolveCustomerPeer (ev_search e) m to of
           Inl err \<Rightarrow> (Some err, s1)
         | Inr from \<Rightarrow>
             if ie_Sub from = [] then
               (Some (''bot control granted: no customer peer resolved for thread '' @ bg_ThreadID m), s1)
             else startDialog cl e idn to (synthesizeGrantMessage m from to) (released \<noteq> []) s1)"

definition handleBotControlGranted ::
  "'c conn_lru \<Rightarrow> 'p im_env \<Rightarrow> bot_control_granted \<Rightarrow> 'c im_server \<Rightarrow> (string option \<times> 'c im_server) option" where
  "handleBotControlGranted cl e m s =
     (let idn = sessionID (bg_ThreadID m) (bg_Sub m); released = releasedID m in
      case store_Get cl idn s of
        (Some a, s1) \<Rightarrow>
          if IsSuspended (ih_conns s1 ! a) then Some (None, grant_pop cl released a s1)
          else (case (if bg_Reason m = BotControlReasonAgentHandback then ReturnFromQueue a s1 else Some (False, s1)) of
              None \<Rightarrow> None
            | Some (returned, s2) \<Rightarrow>
                if returned then Some (None, s2)
                else if released \<noteq> [] then Some (None, adoptPush cl idn released s2)
                else Some (None, s2))
      | (None, s1) \<Rightarrow>
          if bg_Reason m = BotControlReasonInitial then Some (None, s1)
          else if bg_Reason m = BotControlReasonAgentHandback \<or> bg_Reason m = BotControlReasonAgentLeft then Some (None, s1)
          else Some (grant_push cl e m s1))"

section \<open>Inbound messages\<close>

fun node_loop ::
  "'c conn_lru \<Rightarrow> 'p im_env \<Rightarrow> im_wrapper \<Rightarrow> im_endpoint list \<Rightarrow> 'c im_server \<Rightarrow> string option \<times> 'c im_server" where
  "node_loop cl e msg [] s = (None, s)"
| "node_loop cl e msg (ep # eps) s =
     (if ie_Issuer ep \<noteq> IMUserTypeBot then node_loop cl e msg eps s
      else (let idn = GetThreadID (iw_Payload msg) @ ''.'' @ ie_Sub ep in
        case store_Get cl idn s of
          (Some a, s1) \<Rightarrow> node_loop cl e msg eps (OnMessage (ev_marshal_cb e) msg a s1)
        | (None, s1) \<Rightarrow>
            if is_system (Message (iw_Payload msg)) then node_loop cl e msg eps s1
            else (case startDialog cl e idn ep msg False s1 of
                (Some err, s2) \<Rightarrow> (Some err, s2)
              | (None, s2) \<Rightarrow> node_loop cl e msg eps s2)))"

definition nodeMessage :: "'c conn_lru \<Rightarrow> 'p im_env \<Rightarrow> im_wrapper \<Rightarrow> 'c im_server \<Rightarrow> string option \<times> 'c im_server" where
  "nodeMessage cl e msg s =
     (if ie_Issuer (Sender (iw_Payload msg)) = IMUserTypeBot then (None, s)
      else node_loop cl e msg (Receivers (iw_Payload msg)) s)"

text \<open>One event taken by \<open>listen\<close> from its channel; errors are only logged.\<close>

datatype im_input = InGranted bot_control_granted | InEvent im_wrapper

definition listen_event :: "'c conn_lru \<Rightarrow> 'p im_env \<Rightarrow> im_input \<Rightarrow> 'c im_server \<Rightarrow> 'c im_server option" where
  "listen_event cl e i s =
     (case i of
        InGranted m \<Rightarrow> (case handleBotControlGranted cl e m s of None \<Rightarrow> None | Some (_, s') \<Rightarrow> Some s')
      | InEvent m \<Rightarrow>
          if iw_Type m = IMEventTypeBotControlReleased then Some (handleBotControlReleased cl e m s)
          else if GetThreadID (iw_Payload m) = [] then Some s
          else Some (snd (nodeMessage cl e m s)))"

end
