(* ===== verification/Im_Heap.thy ===== *)
theory Im_Heap
  imports Im_Server
begin

text \<open>
  The invariant of the heap of dialogs and what the operations of one dialog do to it: every
  reference is in range, no context is shared, a dialog that waits in a queue holds an open
  channel of its own, and at most one resume token is buffered.
\<close>

section \<open>Invariant\<close>

definition conn_ok :: "'a im_heap_scheme \<Rightarrow> connection \<Rightarrow> bool" where
  "conn_ok h c = (cn_ctx c < length (ih_ctx h) \<and> cn_runCtx c < length (ih_ctx h) \<and> cn_resumeCh c \<le> 1 \<and>
     (\<forall>ch. cn_queueReturn c = Some ch \<longrightarrow> ch < length (ih_chan h) \<and> \<not> ih_chan h ! ch) \<and>
     (\<forall>ch. cn_waitMsgChan c = Some ch \<longrightarrow> ch < ih_waits h) \<and>
     cn_id c = cn_threadId c @ ''.'' @ ie_Sub (cn_to c))"

definition apart :: "connection \<Rightarrow> connection \<Rightarrow> bool" where
  "apart c d = ({cn_ctx c, cn_runCtx c} \<inter> {cn_ctx d, cn_runCtx d} = {} \<and>
     (cn_queueReturn c = None \<or> cn_queueReturn c \<noteq> cn_queueReturn d))"

definition heap_ok :: "'a im_heap_scheme \<Rightarrow> bool" where
  "heap_ok h = ((\<forall>a < length (ih_conns h). conn_ok h (ih_conns h ! a) \<and> cn_ctx (ih_conns h ! a) \<noteq> cn_runCtx (ih_conns h ! a)) \<and>
     (\<forall>a < length (ih_conns h). \<forall>b < length (ih_conns h). a \<noteq> b \<longrightarrow> apart (ih_conns h ! a) (ih_conns h ! b)))"

lemma heap_okD:
  assumes "heap_ok h" "a < length (ih_conns h)"
  shows "conn_ok h (ih_conns h ! a)" "cn_ctx (ih_conns h ! a) \<noteq> cn_runCtx (ih_conns h ! a)"
    "b < length (ih_conns h) \<Longrightarrow> a \<noteq> b \<Longrightarrow> apart (ih_conns h ! a) (ih_conns h ! b)"
  using assms by (auto simp: heap_ok_def)

section \<open>Frames\<close>

lemma upd_conn_simps [simp]:
  "length (ih_conns (upd_conn a g h)) = length (ih_conns h)"
  "ih_ctx (upd_conn a g h) = ih_ctx h" "ih_chan (upd_conn a g h) = ih_chan h"
  "ih_waits (upd_conn a g h) = ih_waits h" "ih_sent (upd_conn a g h) = ih_sent h"
  "im_heap.more (upd_conn a g h) = im_heap.more h"
  by (simp_all add: upd_conn_def)

lemma upd_conn_nth [simp]:
  "a < length (ih_conns h) \<Longrightarrow> ih_conns (upd_conn a g h) ! b = (if b = a then g (ih_conns h ! a) else ih_conns h ! b)"
  by (auto simp: upd_conn_def nth_list_update_if)

lemma cancel_simps [simp]:
  "ih_conns (cancel i h) = ih_conns h" "length (ih_ctx (cancel i h)) = length (ih_ctx h)"
  "ih_chan (cancel i h) = ih_chan h" "ih_waits (cancel i h) = ih_waits h" "ih_sent (cancel i h) = ih_sent h"
  "im_heap.more (cancel i h) = im_heap.more h"
  by (simp_all add: cancel_def)

lemma cancel_ctx: "i < length (ih_ctx h) \<Longrightarrow> ih_ctx (cancel i h) ! j \<longleftrightarrow> j = i \<or> ih_ctx h ! j"
  by (auto simp: cancel_def nth_list_update_if)

lemma set_state_simps [simp]:
  "length (ih_conns (set_state a st h)) = length (ih_conns h)"
  "ih_ctx (set_state a st h) = ih_ctx h" "ih_chan (set_state a st h) = ih_chan h"
  "ih_waits (set_state a st h) = ih_waits h" "im_heap.more (set_state a st h) = im_heap.more h"
  "a < length (ih_conns h) \<Longrightarrow> ih_conns (set_state a st h) ! b = (if b = a then (ih_conns h ! a)\<lparr>cn_state := st\<rparr> else ih_conns h ! b)"
  by (simp_all add: set_state_def)

lemma heap_ok_more [simp]: "heap_ok (im_heap.more_update g h) = heap_ok h"
  by (simp add: heap_ok_def conn_ok_def)

text \<open>A change of one dialog that keeps its references keeps the invariant.\<close>

definition same_refs :: "connection \<Rightarrow> connection \<Rightarrow> bool" where
  "same_refs c d = (cn_ctx d = cn_ctx c \<and> cn_runCtx d = cn_runCtx c \<and> cn_queueReturn d = cn_queueReturn c \<and>
     cn_id d = cn_id c \<and> cn_threadId d = cn_threadId c \<and> cn_to d = cn_to c)"

lemma heap_ok_upd:
  assumes "heap_ok h" "a < length (ih_conns h)"
    and "conn_ok h (g (ih_conns h ! a))" "same_refs (ih_conns h ! a) (g (ih_conns h ! a))"
  shows "heap_ok (upd_conn a g h)"
proof -
  have ok: "conn_ok (upd_conn a g h) c = conn_ok h c" for c by (simp add: conn_ok_def)
  show ?thesis
    using assms unfolding heap_ok_def by (simp add: ok) (auto simp: same_refs_def apart_def)
qed

lemma heap_ok_state: "heap_ok h \<Longrightarrow> a < length (ih_conns h) \<Longrightarrow> heap_ok (set_state a st h)"
  unfolding set_state_def by (rule heap_ok_upd) (auto simp: same_refs_def conn_ok_def heap_ok_def)

lemma heap_ok_cancel: "heap_ok h \<Longrightarrow> heap_ok (cancel i h)"
  by (simp add: heap_ok_def conn_ok_def)

section \<open>Life cycle\<close>

text \<open>
  The effect of an operation on the dialog at \<open>a\<close>: the others keep their records and their
  contexts, the dialogs keep their identity, and nothing is added or removed.
\<close>

definition only_at :: "nat \<Rightarrow> 'a im_heap_scheme \<Rightarrow> 'a im_heap_scheme \<Rightarrow> bool" where
  "only_at a h h' = (length (ih_conns h') = length (ih_conns h) \<and> im_heap.more h' = im_heap.more h \<and>
     (\<forall>b < length (ih_conns h). b \<noteq> a \<longrightarrow> ih_conns h' ! b = ih_conns h ! b \<and>
        (\<forall>i \<in> {cn_ctx (ih_conns h ! b), cn_runCtx (ih_conns h ! b)}. ih_ctx h' ! i = ih_ctx h ! i)) \<and>
     cn_id (ih_conns h' ! a) = cn_id (ih_conns h ! a))"

lemma Suspend_facts:
  assumes ok: "heap_ok h" and a: "a < length (ih_conns h)"
  shows "heap_ok (Suspend a h)" "only_at a h (Suspend a h)"
    "ih_conns (Suspend a h) ! a = (ih_conns h ! a)\<lparr>cn_state := Suspended\<rparr>"
    "ih_ctx (Suspend a h) ! cn_runCtx (ih_conns h ! a)"
    "ih_ctx (Suspend a h) ! cn_ctx (ih_conns h ! a) = ih_ctx h ! cn_ctx (ih_conns h ! a)"
proof -
  note D = heap_okD [OF ok a]
  have r: "cn_runCtx (ih_conns h ! a) < length (ih_ctx h)" using D(1) by (simp add: conn_ok_def)
  show "heap_ok (Suspend a h)" using ok a by (simp add: Suspend_def Let_def heap_ok_cancel heap_ok_state)
  show "ih_conns (Suspend a h) ! a = (ih_conns h ! a)\<lparr>cn_state := Suspended\<rparr>" using a by (simp add: Suspend_def Let_def)
  show "ih_ctx (Suspend a h) ! cn_runCtx (ih_conns h ! a)" using a r by (simp add: Suspend_def Let_def cancel_ctx)
  show "ih_ctx (Suspend a h) ! cn_ctx (ih_conns h ! a) = ih_ctx h ! cn_ctx (ih_conns h ! a)"
    using a r D(2) by (simp add: Suspend_def Let_def cancel_ctx)
  show "only_at a h (Suspend a h)"
    using a r D(3) by (auto simp: only_at_def Suspend_def Let_def cancel_ctx apart_def)
qed

lemma Break_facts:
  assumes ok: "heap_ok h" and a: "a < length (ih_conns h)"
  shows "heap_ok (Break a h)" "only_at a h (Break a h)"
    "ih_conns (Break a h) ! a = (ih_conns h ! a)\<lparr>cn_state := Terminating\<rparr>"
    "ih_ctx (Break a h) ! cn_runCtx (ih_conns h ! a)" "ih_ctx (Break a h) ! cn_ctx (ih_conns h ! a)"
proof -
  note D = heap_okD [OF ok a]
  have r: "cn_runCtx (ih_conns h ! a) < length (ih_ctx h)" "cn_ctx (ih_conns h ! a) < length (ih_ctx h)"
    using D(1) by (auto simp: conn_ok_def)
  show "heap_ok (Break a h)" using ok a by (simp add: Break_def Let_def heap_ok_cancel heap_ok_state)
  show "ih_conns (Break a h) ! a = (ih_conns h ! a)\<lparr>cn_state := Terminating\<rparr>" using a by (simp add: Break_def Let_def)
  show "ih_ctx (Break a h) ! cn_runCtx (ih_conns h ! a)" "ih_ctx (Break a h) ! cn_ctx (ih_conns h ! a)"
    using a r by (simp_all add: Break_def Let_def cancel_ctx)
  show "only_at a h (Break a h)"
    using a r D(3) by (auto simp: only_at_def Break_def Let_def cancel_ctx apart_def)
qed

lemma Resume_facts:
  assumes ok: "heap_ok h" and a: "a < length (ih_conns h)"
  shows "heap_ok (Resume a h)" "only_at a h (Resume a h)"
    "ih_conns (Resume a h) ! a = (ih_conns h ! a)\<lparr>cn_state := Running, cn_runCtx := length (ih_ctx h), cn_resumeCh := 1\<rparr>"
    "\<not> ih_ctx (Resume a h) ! length (ih_ctx h)" "length (ih_ctx (Resume a h)) = length (ih_ctx h) + 1"
    "ih_ctx (Resume a h) ! cn_ctx (ih_conns h ! a) = ih_ctx h ! cn_ctx (ih_conns h ! a)"
proof -
  let ?c = "ih_conns h ! a"
  have c: "cn_resumeCh ?c \<le> 1" "cn_ctx ?c < length (ih_ctx h)" using heap_okD(1) [OF ok a] by (auto simp: conn_ok_def)
  show n: "ih_conns (Resume a h) ! a = ?c\<lparr>cn_state := Running, cn_runCtx := length (ih_ctx h), cn_resumeCh := 1\<rparr>"
    using a c(1) by (cases "cn_resumeCh ?c") (auto simp: Resume_def new_ctx_def Let_def)
  have o: "b \<noteq> a \<Longrightarrow> ih_conns (Resume a h) ! b = ih_conns h ! b" for b
    using a by (simp add: Resume_def new_ctx_def Let_def)
  have x: "ih_ctx (Resume a h) = ih_ctx h @ [False]" "length (ih_conns (Resume a h)) = length (ih_conns h)"
    "ih_chan (Resume a h) = ih_chan h" "ih_waits (Resume a h) = ih_waits h" "im_heap.more (Resume a h) = im_heap.more h"
    by (simp_all add: Resume_def new_ctx_def Let_def)
  show "\<not> ih_ctx (Resume a h) ! length (ih_ctx h)" "length (ih_ctx (Resume a h)) = length (ih_ctx h) + 1"
    "ih_ctx (Resume a h) ! cn_ctx ?c = ih_ctx h ! cn_ctx ?c" using x c by (simp_all add: nth_append)
  have old: "conn_ok h (ih_conns h ! b) \<Longrightarrow> conn_ok (Resume a h) (ih_conns h ! b)" for b using x by (auto simp: conn_ok_def)
  have lt: "b < length (ih_conns h) \<Longrightarrow> cn_ctx (ih_conns h ! b) < length (ih_ctx h) \<and> cn_runCtx (ih_conns h ! b) < length (ih_ctx h)" for b
    using heap_okD(1) [OF ok] by (auto simp: conn_ok_def)
  show "only_at a h (Resume a h)" using lt a by (auto simp: only_at_def x n o nth_append)
  have na: "conn_ok (Resume a h) (ih_conns (Resume a h) ! a)"
    using heap_okD(1) [OF ok a] by (simp add: n conn_ok_def x)
  have ap: "apart (ih_conns (Resume a h) ! b) (ih_conns (Resume a h) ! d)"
    if "b < length (ih_conns h)" "d < length (ih_conns h)" "b \<noteq> d" for b d
    using heap_okD(3) [OF ok that] lt [OF that(1)] lt [OF that(2)] that
    by (cases "b = a"; cases "d = a") (auto simp: n o apart_def)
  have each: "conn_ok (Resume a h) (ih_conns (Resume a h) ! b) \<and> cn_ctx (ih_conns (Resume a h) ! b) \<noteq> cn_runCtx (ih_conns (Resume a h) ! b)"
    if "b < length (ih_conns h)" for b
    using na heap_okD(1,2) [OF ok that] lt [OF that] old [of b] by (cases "b = a") (auto simp: n o)
  show "heap_ok (Resume a h)" unfolding heap_ok_def x(2) using each ap by blast
qed

section \<open>Queues\<close>

lemma EnterQueue_facts:
  assumes ok: "heap_ok h" and a: "a < length (ih_conns h)" and e: "EnterQueue a h = (ch, h')"
  shows "heap_ok h'" "only_at a h h'" "cn_queueReturn (ih_conns h' ! a) = Some ch" "\<not> ih_chan h' ! ch"
proof -
  let ?g = "h\<lparr>ih_chan := ih_chan h @ [False]\<rparr>" and ?c = "ih_conns h ! a"
  have h': "h' = upd_conn a (\<lambda>c. c\<lparr>cn_queueReturn := Some ch\<rparr>) ?g" "ch = length (ih_chan h)"
    using e by (auto simp: EnterQueue_def Let_def)
  show "cn_queueReturn (ih_conns h' ! a) = Some ch" "\<not> ih_chan h' ! ch" using a by (simp_all add: h')
  show "only_at a h h'" using a by (auto simp: only_at_def h')
  have q: "cn_queueReturn (ih_conns h ! b) \<noteq> Some ch" if "b < length (ih_conns h)" for b
    using heap_okD(1) [OF ok that] h'(2) by (auto simp: conn_ok_def)
  have "conn_ok h' (ih_conns h' ! b) \<and> cn_ctx (ih_conns h' ! b) \<noteq> cn_runCtx (ih_conns h' ! b)" if "b < length (ih_conns h)" for b
    using heap_okD(1,2) [OF ok that] a by (auto simp: h' conn_ok_def nth_append)
  moreover have "apart (ih_conns h' ! b) (ih_conns h' ! d)"
    if "b < length (ih_conns h)" "d < length (ih_conns h)" "b \<noteq> d" for b d
    using heap_okD(3) [OF ok that] q [OF that(1)] q [OF that(2)] a that
    by (cases "b = a"; cases "d = a") (auto simp: h'(1) apart_def)
  moreover have "length (ih_conns h') = length (ih_conns h)" by (simp add: h')
  ultimately show "heap_ok h'" unfolding heap_ok_def by simp
qed

lemma LeaveQueue_facts:
  assumes ok: "heap_ok h" and a: "a < length (ih_conns h)"
  shows "heap_ok (LeaveQueue a h)" "only_at a h (LeaveQueue a h)" "\<not> InQueue (ih_conns (LeaveQueue a h) ! a)"
proof -
  have "conn_ok (LeaveQueue a h) (ih_conns (LeaveQueue a h) ! b) \<and>
      cn_ctx (ih_conns (LeaveQueue a h) ! b) \<noteq> cn_runCtx (ih_conns (LeaveQueue a h) ! b)" if "b < length (ih_conns h)" for b
    using heap_okD(1,2) [OF ok that] a by (auto simp: LeaveQueue_def conn_ok_def)
  moreover have "apart (ih_conns (LeaveQueue a h) ! b) (ih_conns (LeaveQueue a h) ! d)"
    if "b < length (ih_conns h)" "d < length (ih_conns h)" "b \<noteq> d" for b d
    using heap_okD(3) [OF ok that] a by (auto simp: LeaveQueue_def apart_def)
  ultimately show "heap_ok (LeaveQueue a h)" unfolding heap_ok_def by (simp add: LeaveQueue_def)
  show "only_at a h (LeaveQueue a h)" using a by (auto simp: only_at_def LeaveQueue_def)
  show "\<not> InQueue (ih_conns (LeaveQueue a h) ! a)" using a by (simp add: LeaveQueue_def InQueue_def)
qed

text \<open>The channel of a waiting dialog is open, so closing it does not panic.\<close>

lemma ReturnFromQueue_facts:
  assumes ok: "heap_ok h" and a: "a < length (ih_conns h)"
  shows "\<exists>h'. ReturnFromQueue a h = Some (InQueue (ih_conns h ! a), h') \<and> heap_ok h' \<and> only_at a h h' \<and>
     \<not> InQueue (ih_conns h' ! a) \<and> cn_state (ih_conns h' ! a) = cn_state (ih_conns h ! a) \<and> ih_ctx h' = ih_ctx h"
proof (cases "cn_queueReturn (ih_conns h ! a)")
  case None
  then show ?thesis using ok by (auto simp: ReturnFromQueue_def InQueue_def only_at_def)
next
  case (Some ch)
  let ?h1 = "h\<lparr>ih_chan := (ih_chan h)[ch := True]\<rparr>"
  have ch: "ch < length (ih_chan h)" "\<not> ih_chan h ! ch" using heap_okD(1) [OF ok a] Some by (auto simp: conn_ok_def)
  then have r: "ReturnFromQueue a h = Some (True, LeaveQueue a ?h1)"
    using Some by (simp add: ReturnFromQueue_def close_chan_def LeaveQueue_def)
  have other: "cn_queueReturn (ih_conns h ! b) \<noteq> Some ch" if "b < length (ih_conns h)" "b \<noteq> a" for b
    using heap_okD(3) [OF ok a that(1)] that(2) Some by (auto simp: apart_def)
  have "conn_ok (LeaveQueue a ?h1) (ih_conns (LeaveQueue a ?h1) ! b) \<and>
      cn_ctx (ih_conns (LeaveQueue a ?h1) ! b) \<noteq> cn_runCtx (ih_conns (LeaveQueue a ?h1) ! b)" if "b < length (ih_conns h)" for b
    using heap_okD(1,2) [OF ok that] other [OF that] a by (cases "b = a") (auto simp: LeaveQueue_def conn_ok_def nth_list_update_if split: if_splits)
  moreover have "apart (ih_conns (LeaveQueue a ?h1) ! b) (ih_conns (LeaveQueue a ?h1) ! d)"
    if "b < length (ih_conns h)" "d < length (ih_conns h)" "b \<noteq> d" for b d
    using heap_okD(3) [OF ok that] a by (auto simp: LeaveQueue_def apart_def)
  ultimately have "heap_ok (LeaveQueue a ?h1)" unfolding heap_ok_def by (simp add: LeaveQueue_def)
  moreover have "only_at a h (LeaveQueue a ?h1)" using a by (auto simp: only_at_def LeaveQueue_def)
  ultimately show ?thesis using r a Some by (auto simp: InQueue_def LeaveQueue_def)
qed

section \<open>Messages and construction\<close>

lemma heap_ok_sent [simp]: "heap_ok (h\<lparr>ih_sent := x\<rparr>) = heap_ok h"
  by (simp add: heap_ok_def conn_ok_def)

text \<open>A message changes only variables and the record of messages of its dialog.\<close>

lemma message_refs:
  "same_refs c (processLastMessage m c)" "same_refs c (processLastInteractiveCallback mc m c)"
  "same_refs c (updateJWTPayloadVariable m c)" "same_refs c (setDeviceID d c)" "same_refs c (processViaMetadata v c)"
  by (auto simp: same_refs_def processLastMessage_def processLastInteractiveCallback_def updateJWTPayloadVariable_def
      setDeviceID_def processViaMetadata_def set_var_def split: im_event.splits option.splits)

definition same_life :: "connection \<Rightarrow> connection \<Rightarrow> bool" where
  "same_life c d = (same_refs c d \<and> cn_state d = cn_state c \<and> cn_resumeCh d = cn_resumeCh c \<and> cn_waitMsgChan d = cn_waitMsgChan c)"

lemma message_life:
  "same_life c (processLastMessage m c)" "same_life c (processLastInteractiveCallback mc m c)"
  "same_life c (updateJWTPayloadVariable m c)" "same_life c (setDeviceID d c)" "same_life c (processViaMetadata v c)"
  by (auto simp: same_life_def same_refs_def processLastMessage_def processLastInteractiveCallback_def updateJWTPayloadVariable_def
      setDeviceID_def processViaMetadata_def set_var_def split: im_event.splits option.splits)

lemma same_life_trans: "same_life c d \<Longrightarrow> same_life d e \<Longrightarrow> same_life c e"
  by (simp add: same_life_def same_refs_def)

lemma same_life_ok: "same_life c d \<Longrightarrow> conn_ok h c \<Longrightarrow> conn_ok h d"
  by (simp add: same_life_def same_refs_def conn_ok_def)

lemma upd_conn_twice: "a < length (ih_conns h) \<Longrightarrow> upd_conn a g (upd_conn a f h) = upd_conn a (\<lambda>c. g (f c)) h"
  by (simp add: upd_conn_def)

lemma push_upd: "pushMessageToWaitMessageChan m a h = h\<lparr>ih_sent := ih_sent (pushMessageToWaitMessageChan m a h)\<rparr>"
  by (auto simp: pushMessageToWaitMessageChan_def split: option.splits)

lemma OnMessage_cases:
  assumes "a < length (ih_conns h)"
  obtains "OnMessage mc m a h = h"
  | g x where "OnMessage mc m a h = upd_conn a g (h\<lparr>ih_sent := x\<rparr>)" "same_life (ih_conns h ! a) (g (ih_conns h ! a))"
proof -
  let ?c = "ih_conns h ! a"
  let ?f = "\<lambda>c. processLastInteractiveCallback mc m (processLastMessage m c)"
  let ?k = "\<lambda>c. processViaMetadata (iw_via m) (setDeviceID (iw_deviceID m) (updateJWTPayloadVariable m c))"
  let ?h2 = "upd_conn a ?f h"
  have sl: "same_life ?c (?k (?f ?c))"
    by (meson message_life same_life_trans)
  show ?thesis
  proof (cases "ie_Sub (Sender (iw_Payload m)) = ie_Sub (cn_to ?c) \<or> fromOperator ?c m")
    case True
    then show ?thesis using that(1) by (auto simp: OnMessage_def Let_def)
  next
    case False
    obtain x where x: "pushMessageToWaitMessageChan m a ?h2 = ?h2\<lparr>ih_sent := x\<rparr>" using push_upd by blast
    have "OnMessage mc m a h = upd_conn a ?k (pushMessageToWaitMessageChan m a ?h2)"
      using False assms by (simp add: OnMessage_def Let_def upd_conn_twice x)
    also have "\<dots> = upd_conn a (\<lambda>c. ?k (?f c)) (h\<lparr>ih_sent := x\<rparr>)"
      using assms unfolding x by (simp add: upd_conn_def)
    finally show ?thesis using that(2) sl by blast
  qed
qed

lemma OnMessage_facts:
  assumes ok: "heap_ok h" and a: "a < length (ih_conns h)"
  shows "heap_ok (OnMessage mc m a h)" "only_at a h (OnMessage mc m a h)"
    "same_life (ih_conns h ! a) (ih_conns (OnMessage mc m a h) ! a)" "ih_ctx (OnMessage mc m a h) = ih_ctx h"
proof -
  note D = heap_okD(1) [OF ok a]
  have "heap_ok (OnMessage mc m a h) \<and> only_at a h (OnMessage mc m a h) \<and>
      same_life (ih_conns h ! a) (ih_conns (OnMessage mc m a h) ! a) \<and> ih_ctx (OnMessage mc m a h) = ih_ctx h"
  proof (rule OnMessage_cases [OF a, of mc m])
    assume "OnMessage mc m a h = h"
    then show ?thesis using ok by (simp add: only_at_def same_life_def same_refs_def)
  next
    fix g x assume g: "OnMessage mc m a h = upd_conn a g (h\<lparr>ih_sent := x\<rparr>)" "same_life (ih_conns h ! a) (g (ih_conns h ! a))"
    have "conn_ok (h\<lparr>ih_sent := x\<rparr>) (g (ih_conns h ! a))" using same_life_ok [OF g(2) D] by (simp add: conn_ok_def)
    then have "heap_ok (upd_conn a g (h\<lparr>ih_sent := x\<rparr>))"
      using ok a g(2) by (intro heap_ok_upd) (simp_all add: same_life_def)
    then show ?thesis using g a by (simp add: only_at_def same_life_def same_refs_def)
  qed
  then show "heap_ok (OnMessage mc m a h)" "only_at a h (OnMessage mc m a h)"
    "same_life (ih_conns h ! a) (ih_conns (OnMessage mc m a h) ! a)" "ih_ctx (OnMessage mc m a h) = ih_ctx h" by blast+
qed

lemma set_nonempty_life: "same_life c (set_nonempty k v c)" "cn_nested (set_nonempty k v c) = cn_nested c"
  by (auto simp: set_nonempty_def set_var_def same_life_def same_refs_def)

lemma newConnection_facts:
  assumes ok: "heap_ok h" and n: "newConnection idn to msg nested h = (a, h')"
    and idn: "idn = GetThreadID (iw_Payload msg) @ ''.'' @ ie_Sub to"
  shows "a = length (ih_conns h)" "heap_ok h'" "im_heap.more h' = im_heap.more h"
    "\<exists>c. ih_conns h' = ih_conns h @ [c] \<and> cn_id c = idn \<and> cn_state c = Running \<and> cn_nested c = nested \<and>
       cn_threadId c = GetThreadID (iw_Payload msg) \<and> \<not> ih_ctx h' ! cn_runCtx c \<and> \<not> ih_ctx h' ! cn_ctx c"
    "ih_ctx h' = ih_ctx h @ [False, False]"
proof -
  let ?l = "length (ih_ctx h)"
  obtain c0 :: connection where c0: "cn_id c0 = idn" "cn_threadId c0 = GetThreadID (iw_Payload msg)" "cn_ctx c0 = ?l" "cn_runCtx c0 = ?l + 1"
    "cn_state c0 = Running" "cn_resumeCh c0 = 0" "cn_waitMsgChan c0 = None" "cn_queueReturn c0 = None" "cn_to c0 = to" "cn_nested c0 = nested"
    and h': "h' = h\<lparr>ih_ctx := ih_ctx h @ [False, False], ih_conns := ih_conns h @
      [set_nonempty WebitelViaVariableKey (iw_via msg) (set_nonempty WebitelDeviceIDVariableKey (iw_deviceID msg)
        (set_nonempty WebitelJwtPayloadVariableKey (iw_jwtPayload msg) c0))]\<rparr>"
    and a: "a = length (ih_conns h)"
    using n by (simp add: newConnection_def new_ctx_def Let_def) (elim conjE, rule that, auto)
  define c where "c = set_nonempty WebitelViaVariableKey (iw_via msg) (set_nonempty WebitelDeviceIDVariableKey (iw_deviceID msg)
        (set_nonempty WebitelJwtPayloadVariableKey (iw_jwtPayload msg) c0))"
  have life: "same_life c0 c" "cn_nested c = nested" unfolding c_def using set_nonempty_life same_life_trans c0(10) by metis+
  then have c: "cn_id c = idn" "cn_threadId c = GetThreadID (iw_Payload msg)" "cn_ctx c = ?l" "cn_runCtx c = ?l + 1"
    "cn_state c = Running" "cn_resumeCh c = 0" "cn_waitMsgChan c = None" "cn_queueReturn c = None" "cn_to c = to"
    using c0 by (simp_all add: same_life_def same_refs_def)
  have h: "h' = h\<lparr>ih_ctx := ih_ctx h @ [False, False], ih_conns := ih_conns h @ [c]\<rparr>" using h' c_def by simp
  show "a = length (ih_conns h)" by (rule a)
  show "im_heap.more h' = im_heap.more h" "ih_ctx h' = ih_ctx h @ [False, False]" by (simp_all add: h)
  show "\<exists>c. ih_conns h' = ih_conns h @ [c] \<and> cn_id c = idn \<and> cn_state c = Running \<and> cn_nested c = nested \<and>
       cn_threadId c = GetThreadID (iw_Payload msg) \<and> \<not> ih_ctx h' ! cn_runCtx c \<and> \<not> ih_ctx h' ! cn_ctx c"
    using c life(2) by (intro exI [of _ c]) (simp add: h nth_append)
  have new: "conn_ok h' c" using c idn by (simp add: conn_ok_def h)
  have old: "conn_ok h d \<Longrightarrow> conn_ok h' d" for d by (auto simp: conn_ok_def h)
  have far: "apart c d \<and> apart d c" if "conn_ok h d" for d using that c by (auto simp: apart_def conn_ok_def)
  have nth: "ih_conns h' ! b = (if b < length (ih_conns h) then ih_conns h ! b else c)" if "b < length (ih_conns h')" for b
    using that by (auto simp: h nth_append less_Suc_eq)
  have len: "length (ih_conns h') = Suc (length (ih_conns h))" by (simp add: h)
  have "conn_ok h' (ih_conns h' ! b) \<and> cn_ctx (ih_conns h' ! b) \<noteq> cn_runCtx (ih_conns h' ! b)" if "b < length (ih_conns h')" for b
    using nth [OF that] new old heap_okD(1,2) [OF ok, of b] c by (cases "b < length (ih_conns h)") auto
  moreover have "apart (ih_conns h' ! b) (ih_conns h' ! d)"
    if "b < length (ih_conns h')" "d < length (ih_conns h')" "b \<noteq> d" for b d
    using nth [OF that(1)] nth [OF that(2)] that len heap_okD(3) [OF ok, of b d] far heap_okD(1) [OF ok, of b] heap_okD(1) [OF ok, of d]
    by (cases "b < length (ih_conns h)"; cases "d < length (ih_conns h)") auto
  ultimately show "heap_ok h'" unfolding heap_ok_def by blast
qed

end
