(* ===== verification/Im_Laws.thy ===== *)
theory Im_Laws
  imports Im_Heap Lru_Cache
begin

text \<open>
  What the server needs of the cache of dialogs, as locales over its operations, and the
  invariant of the server under every event: the cache names dialogs by their own session id,
  the heap of dialogs is well formed, and the listener never panics.
\<close>

lemma map_le_Some: "m \<subseteq>\<^sub>m n \<Longrightarrow> m k = Some v \<Longrightarrow> n k = Some v"
  by (metis domI map_le_def)

section \<open>The cache of dialogs\<close>

text \<open>
  \<open>view\<close> is the content of a cache.  Entries may vanish at any time (eviction, expiry), but a
  lookup never returns anything but the current entry of its key.
\<close>

locale conn_store =
  fixes cl :: "'c conn_lru" and ok :: "'c \<Rightarrow> bool" and view :: "'c \<Rightarrow> string \<rightharpoonup> nat"
  assumes get_law: "ok c \<Longrightarrow> cl_Get cl k c = (r, c') \<Longrightarrow> ok c' \<and> view c' \<subseteq>\<^sub>m view c \<and> (\<forall>a. r = Some a \<longrightarrow> view c k = Some a)"
    and add_law: "ok c \<Longrightarrow> ok (cl_Add cl k a c) \<and> view (cl_Add cl k a c) \<subseteq>\<^sub>m (view c)(k \<mapsto> a)"
    and remove_law: "ok c \<Longrightarrow> ok (cl_Remove cl k c) \<and> view (cl_Remove cl k c) \<subseteq>\<^sub>m (view c)(k := None)"

text \<open>A cache in which nothing has expired: lookups find what is there, and the keys are complete.\<close>

locale fresh_store = conn_store +
  assumes get_fresh: "ok c \<Longrightarrow> cl_Get cl k c = (r, c') \<Longrightarrow> r = view c k \<and> view c' = view c"
    and keys_law: "ok c \<Longrightarrow> set (cl_Keys cl c) = dom (view c)"
    and add_here: "ok c \<Longrightarrow> view (cl_Add cl k a c) k = Some a"

definition dialog_lru :: "(string, nat) lru conn_lru" where
  "dialog_lru = \<lparr>cl_Get = lru_Get 0, cl_Add = (\<lambda>k a c. lru_Add 0 k a c), cl_Remove = lru_Remove,
     cl_Keys = (\<lambda>c. case lru_Keys c of None \<Rightarrow> [] | Some ks \<Rightarrow> map the ks)\<rparr>"

definition dialog_ok :: "(string, nat) lru \<Rightarrow> bool" where
  "dialog_ok c = (lru_inv c \<and> 1 \<le> lru_size c \<and> (\<forall>k x. content c k = Some x \<longrightarrow> snd x = 0))"

definition dialog_view :: "(string, nat) lru \<Rightarrow> string \<rightharpoonup> nat" where
  "dialog_view c k = map_option fst (content c k)"

lemma dialog_get:
  assumes ok: "dialog_ok c" and g: "cl_Get dialog_lru k c = (r, c')"
  shows "dialog_ok c' \<and> r = dialog_view c k \<and> dialog_view c' = dialog_view c"
proof -
  have g': "lru_Get 0 k c = (r, c')" using g by (simp add: dialog_lru_def)
  have w: "lru_inv c" using ok by (simp add: dialog_ok_def)
  note G = lru_Get_facts [OF w g']
  have r: "r = dialog_view c k"
    using ok G(2) by (auto simp: dialog_view_def dialog_ok_def alive_def split: option.splits)
  then have "content c' = content c" using G(3) by (auto simp: dialog_view_def)
  moreover have "lru_size c' = lru_size c"
    using g' by (auto simp: lru_Get_def removeElement_def split: option.splits if_splits)
  ultimately show ?thesis using ok G(1) r by (auto simp: dialog_ok_def dialog_view_def)
qed

lemma dialog_add:
  assumes ok: "dialog_ok c"
  shows "dialog_ok (cl_Add dialog_lru k a c)" "dialog_view (cl_Add dialog_lru k a c) \<subseteq>\<^sub>m (dialog_view c)(k \<mapsto> a)"
    "dialog_view (cl_Add dialog_lru k a c) k = Some a"
proof -
  let ?c = "AddWithExpiresInSecs 0 k a 0 c"
  have e: "cl_Add dialog_lru k a c = ?c" by (simp add: dialog_lru_def lru_Add_def)
  have w: "lru_inv c" using ok by (simp add: dialog_ok_def)
  note A = lru_Add_facts [OF w, of 0 k a 0]
  have ex: "expires_at 0 0 = 0" by (simp add: expires_at_def)
  have le: "((content c)(k \<mapsto> (a, 0))) b = Some x" if "content ?c b = Some x" for b x
    using map_le_Some [OF A(4) that] by (simp add: ex)
  have "snd x = 0" if "content ?c b = Some x" for b x
    using ok le [OF that] by (cases "b = k"; cases x) (auto simp: dialog_ok_def)
  then show "dialog_ok (cl_Add dialog_lru k a c)" using A(1,2) ok by (simp add: e dialog_ok_def)
  show "dialog_view (cl_Add dialog_lru k a c) \<subseteq>\<^sub>m (dialog_view c)(k \<mapsto> a)"
    unfolding e map_le_def
  proof
    fix b assume "b \<in> dom (dialog_view ?c)"
    then obtain x where "content ?c b = Some x" by (auto simp: dialog_view_def)
    with le [of b x] show "dialog_view ?c b = ((dialog_view c)(k \<mapsto> a)) b" by (auto simp: dialog_view_def split: if_splits)
  qed
  show "dialog_view (cl_Add dialog_lru k a c) k = Some a" using A(3) ok by (simp add: e dialog_view_def dialog_ok_def)
qed

lemma dialog_remove:
  assumes "dialog_ok c"
  shows "dialog_ok (cl_Remove dialog_lru k c)" "dialog_view (cl_Remove dialog_lru k c) = (dialog_view c)(k := None)"
proof -
  have "lru_size (lru_Remove k c) = lru_size c" by (simp add: lru_Remove_def removeElement_def split: option.split)
  then show "dialog_ok (cl_Remove dialog_lru k c)" "dialog_view (cl_Remove dialog_lru k c) = (dialog_view c)(k := None)"
    using lru_Remove_facts [of c k] assms by (auto simp: dialog_ok_def dialog_lru_def dialog_view_def split: if_splits)
qed

interpretation dialogs: fresh_store dialog_lru dialog_ok dialog_view
proof unfold_locales
  fix c :: "(string, nat) lru" and k r c'
  assume "dialog_ok c" "cl_Get dialog_lru k c = (r, c')"
  from dialog_get [OF this] show "dialog_ok c' \<and> dialog_view c' \<subseteq>\<^sub>m dialog_view c \<and> (\<forall>a. r = Some a \<longrightarrow> dialog_view c k = Some a)"
    "r = dialog_view c k \<and> dialog_view c' = dialog_view c" by auto
next
  fix c :: "(string, nat) lru" and k a
  assume "dialog_ok c"
  then show "dialog_ok (cl_Add dialog_lru k a c) \<and> dialog_view (cl_Add dialog_lru k a c) \<subseteq>\<^sub>m (dialog_view c)(k \<mapsto> a)"
    "dialog_ok (cl_Remove dialog_lru k c) \<and> dialog_view (cl_Remove dialog_lru k c) \<subseteq>\<^sub>m (dialog_view c)(k := None)"
    "dialog_view (cl_Add dialog_lru k a c) k = Some a"
    by (simp_all add: dialog_add dialog_remove)
next
  fix c :: "(string, nat) lru"
  assume "dialog_ok c"
  then obtain ks where "lru_Keys c = Some (map Some ks)" "\<forall>k. k \<in> set ks \<longleftrightarrow> content c k \<noteq> None"
    using lru_Keys_content [of c] by (auto simp: dialog_ok_def)
  then show "set (cl_Keys dialog_lru c) = dom (dialog_view c)"
    by (auto simp: dialog_lru_def dialog_view_def o_def)
qed

section \<open>The invariant of the server\<close>

definition srv_ok :: "('c \<Rightarrow> bool) \<Rightarrow> ('c \<Rightarrow> string \<rightharpoonup> nat) \<Rightarrow> 'c im_server \<Rightarrow> bool" where
  "srv_ok ok view s = (heap_ok s \<and> ok (is_conns s) \<and>
     (\<forall>k a. view (is_conns s) k = Some a \<longrightarrow> a < length (ih_conns s) \<and> cn_id (ih_conns s ! a) = k) \<and>
     (\<forall>a \<in> set (is_consume s). a < length (ih_conns s)) \<and> distinct (is_consume s))"

lemma heap_ok_server [simp]:
  "heap_ok (s\<lparr>is_conns := x\<rparr>) = heap_ok s" "heap_ok (s\<lparr>is_consume := y\<rparr>) = heap_ok s"
  "heap_ok (s\<lparr>is_pushParent := p\<rparr>) = heap_ok s" "heap_ok (s\<lparr>is_sessions := ss\<rparr>) = heap_ok s"
  by (simp_all add: heap_ok_def conn_ok_def)

lemma srv_okD:
  assumes "srv_ok ok view s"
  shows "heap_ok s" "ok (is_conns s)" "view (is_conns s) k = Some a \<Longrightarrow> a < length (ih_conns s)"
    "view (is_conns s) k = Some a \<Longrightarrow> cn_id (ih_conns s ! a) = k"
  using assms by (auto simp: srv_ok_def)

lemma more_server:
  "im_heap.more s' = im_heap.more s \<Longrightarrow> is_conns s' = is_conns s \<and> is_consume s' = is_consume s \<and>
     is_sessions s' = is_sessions s \<and> is_pushParent s' = is_pushParent s \<and> is_id s' = is_id (s :: 'c im_server)"
  by (cases s; cases s') simp

lemma srv_ok_only_at:
  assumes s: "srv_ok ok view s" and h: "heap_ok s'" and o: "only_at a s s'"
  shows "srv_ok ok view s'"
proof -
  have "cn_id (ih_conns s' ! b) = cn_id (ih_conns s ! b)" if "b < length (ih_conns s)" for b
    using o that by (cases "b = a") (auto simp: only_at_def)
  then show ?thesis
    using s h o more_server [of s' s] by (auto simp: srv_ok_def only_at_def)
qed

lemma srv_ok_fields [simp]:
  "srv_ok ok view (s\<lparr>is_pushParent := p\<rparr>) = srv_ok ok view s"
  "srv_ok ok view (s\<lparr>is_sessions := ss\<rparr>) = srv_ok ok view s"
  by (simp_all add: srv_ok_def)

lemma setup_life: "same_life c (setupVariables mm mi info c)" "cn_nested (setupVariables mm mi info c) = cn_nested c"
  by (auto simp: setupVariables_def set_var_def same_life_def same_refs_def Let_def split: option.split sum.split)

text \<open>The dialog \<open>startDialog\<close> dispatches, and what it leaves alone.\<close>

definition started :: "string \<Rightarrow> bool \<Rightarrow> 'c im_server \<Rightarrow> 'c im_server \<Rightarrow> bool" where
  "started idn nested s s' = (\<exists>c. ih_conns s' = ih_conns s @ [c] \<and> cn_id c = idn \<and> cn_state c = Running \<and> cn_nested c = nested \<and>
     \<not> ih_ctx s' ! cn_runCtx c \<and> \<not> ih_ctx s' ! cn_ctx c \<and> ih_ctx s' = ih_ctx s @ [False, False] \<and>
     is_consume s' = is_consume s @ [length (ih_conns s)] \<and> is_pushParent s' = is_pushParent s \<and> is_id s' = is_id s)"

context conn_store
begin

lemma store_Get_ok:
  assumes s: "srv_ok ok view s" and g: "store_Get cl k s = (r, s1)"
  shows "srv_ok ok view s1" "s1 = s\<lparr>is_conns := is_conns s1\<rparr>"
    "r = Some a \<Longrightarrow> a < length (ih_conns s1) \<and> cn_id (ih_conns s1 ! a) = k \<and> view (is_conns s) k = Some a"
proof -
  obtain c where c: "cl_Get cl k (is_conns s) = (r, c)" "s1 = s\<lparr>is_conns := c\<rparr>"
    using g by (auto simp: store_Get_def split: prod.splits)
  note L = get_law [OF srv_okD(2) [OF s] c(1)]
  have v: "view c j = Some b \<Longrightarrow> view (is_conns s) j = Some b" for j b using L map_le_Some by metis
  show "s1 = s\<lparr>is_conns := is_conns s1\<rparr>" using c by simp
  have "\<forall>j b. view c j = Some b \<longrightarrow> b < length (ih_conns s) \<and> cn_id (ih_conns s ! b) = j"
    using v srv_okD(3,4) [OF s] by blast
  then show "srv_ok ok view s1" using s L by (simp add: c(2) srv_ok_def)
  show "r = Some a \<Longrightarrow> a < length (ih_conns s1) \<and> cn_id (ih_conns s1 ! a) = k \<and> view (is_conns s) k = Some a"
    using L srv_okD(3,4) [OF s, of k a] by (simp add: c(2))
qed

lemma started_ok:
  fixes mm :: "im_message \<Rightarrow> string option" and mi :: "thread_info \<Rightarrow> string option" and info :: "thread_info result"
  assumes s: "srv_ok ok view s" and n: "newConnection idn to msg nested s = (a, s1)"
    and idn: "idn = GetThreadID (iw_Payload msg) @ ''.'' @ ie_Sub to"
  defines "s2 \<equiv> store_Add cl a (upd_conn a (setupVariables mm mi info) s1)"
  shows "srv_ok ok view (s2\<lparr>is_consume := is_consume s2 @ [a]\<rparr>)" "started idn nested s (s2\<lparr>is_consume := is_consume s2 @ [a]\<rparr>)"
proof -
  let ?g = "setupVariables mm mi info" and ?s' = "s2\<lparr>is_consume := is_consume s2 @ [a]\<rparr>"
  note N = newConnection_facts [OF srv_okD(1) [OF s] n idn]
  obtain c where c: "ih_conns s1 = ih_conns s @ [c]" "cn_id c = idn" "cn_state c = Running" "cn_nested c = nested"
    "\<not> ih_ctx s1 ! cn_runCtx c" "\<not> ih_ctx s1 ! cn_ctx c" using N(4) by blast
  have a: "a < length (ih_conns s1)" "a = length (ih_conns s)" using N(1) c by simp_all
  have ca: "ih_conns s1 ! a = c" by (simp add: c(1) a(2))
  have gl: "same_life c (?g c)" "cn_nested (?g c) = nested" using setup_life(1) [of c mm mi info] setup_life(2) [of mm mi info c] c(4) by auto
  have h1: "heap_ok (upd_conn a ?g s1)"
    using N(2) a(1) heap_okD(1) [OF N(2) a(1)] gl(1) same_life_ok ca
    by (intro heap_ok_upd) (auto simp: same_life_def)
  have cs: "ih_conns s2 = ih_conns s @ [?g c]"
    using c(1) a(2) by (simp add: s2_def store_Add_def upd_conn_def)
  have m: "is_conns s1 = is_conns s" "is_consume s1 = is_consume s" "is_pushParent s1 = is_pushParent s" "is_id s1 = is_id s"
    using more_server [OF N(3)] by auto
  have idg: "cn_id (?g c) = idn" using gl(1) c(2) by (simp add: same_life_def same_refs_def)
  have conns: "is_conns s2 = cl_Add cl idn a (is_conns s)"
    using idg a ca m(1) by (simp add: s2_def store_Add_def upd_conn_def)
  note A = add_law [OF srv_okD(2) [OF s], of idn a]
  have keys: "b < length (ih_conns s2) \<and> cn_id (ih_conns s2 ! b) = k" if "view (is_conns s2) k = Some b" for k b
  proof -
    have "((view (is_conns s))(idn \<mapsto> a)) k = Some b" using A that map_le_Some unfolding conns by metis
    then show ?thesis using srv_okD(3,4) [OF s, of k b] idg a(2) by (cases "k = idn") (auto simp: cs nth_append)
  qed
  have "heap_ok ?s'" using h1 by (simp add: s2_def store_Add_def)
  moreover have "is_consume s2 = is_consume s" using m(2) by (simp add: s2_def store_Add_def upd_conn_def)
  moreover have "\<forall>b \<in> set (is_consume s). b < length (ih_conns s)" "distinct (is_consume s)" using s by (simp_all add: srv_ok_def)
  moreover have "\<forall>k b. view (is_conns s2) k = Some b \<longrightarrow> b < length (ih_conns s2) \<and> cn_id (ih_conns s2 ! b) = k" using keys by blast
  moreover have "ok (is_conns s2)" using A by (simp add: conns)
  ultimately show "srv_ok ok view ?s'" unfolding srv_ok_def by (simp add: cs a(2) less_Suc_eq) blast
  show "started idn nested s ?s'"
    unfolding started_def using gl c(3,5,6) idg N(5) m a(2) cs
    by (intro exI [of _ "?g c"]) (simp add: s2_def store_Add_def same_life_def same_refs_def upd_conn_def)
qed

lemma startDialog_cases:
  assumes s: "srv_ok ok view s" and d: "startDialog cl e idn to msg nested s = (r, s')"
    and idn: "idn = GetThreadID (iw_Payload msg) @ ''.'' @ ie_Sub to"
  obtains "s' = s\<lparr>is_conns := is_conns s'\<rparr>" "srv_ok ok view s'"
    "fst (store_Get cl idn s) \<noteq> None \<or> (\<forall>n. fst (session_Touch (ev_db e) idn (is_id s) (is_sessions s)) \<noteq> Inr (Some n))"
  | "r = None" "started idn nested s s'" "srv_ok ok view s'" "fst (store_Get cl idn s) = None"
    "\<exists>n. session_Touch (ev_db e) idn (is_id s) (is_sessions s) = (Inr (Some n), is_sessions s')"
proof -
  obtain g s1 where g: "store_Get cl idn s = (g, s1)" by force
  note G = store_Get_ok [OF s g]
  have f: "is_id s1 = is_id s" "is_sessions s1 = is_sessions s" "is_consume s1 = is_consume s"
    "ih_conns s1 = ih_conns s" "ih_ctx s1 = ih_ctx s" "is_pushParent s1 = is_pushParent s" by (subst G(2), simp)+
  obtain t ss where t: "session_Touch (ev_db e) idn (is_id s) (is_sessions s) = (t, ss)" by force
  show ?thesis
  proof (cases "g = None \<and> (\<exists>n. t = Inr (Some n))")
    case False
    then have "s' = s1" using d g t f by (auto simp: startDialog_def Let_def split: option.splits sum.splits prod.splits)
    moreover have "fst (store_Get cl idn s) \<noteq> None \<or> (\<forall>n. fst (session_Touch (ev_db e) idn (is_id s) (is_sessions s)) \<noteq> Inr (Some n))"
      using False g t by auto
    ultimately show ?thesis using G(1,2) that(1) by blast
  next
    case True
    then obtain n where n: "g = None" "t = Inr (Some n)" by blast
    let ?b = "s1\<lparr>is_sessions := ss\<rparr>"
    obtain a s2 where c: "newConnection idn to msg nested ?b = (a, s2)" by force
    let ?info = "treadInfo (ev_search e) (ev_marshal_value e) (ih_conns s2 ! a)"
    let ?s3 = "store_Add cl a (upd_conn a (setupVariables (ev_marshal_msg e) (ev_marshal_info e) ?info) s2)"
    have s': "r = None" "s' = ?s3\<lparr>is_consume := is_consume ?s3 @ [a]\<rparr>"
      using d g t f n c by (auto simp: startDialog_def Let_def)
    have b: "srv_ok ok view ?b" using G(1) by simp
    note S = started_ok [OF b c idn, of "ev_marshal_msg e" "ev_marshal_info e" ?info]
    have st: "started idn nested s s'" using S(2) f unfolding s'(2) by (simp add: started_def)
    have "is_sessions s2 = ss" using more_server [OF newConnection_facts(3) [OF srv_okD(1) [OF b] c idn]] by simp
    then have "is_sessions s' = ss" by (simp add: s' store_Add_def upd_conn_def)
    then show ?thesis using that(2) s'(1) st S(1) g n t unfolding s'(2) by simp
  qed
qed

text \<open>Operations on one dialog.\<close>

lemma conn_ops_ok:
  assumes "srv_ok ok view s" "a < length (ih_conns s)"
  shows "srv_ok ok view (Suspend a s)" "srv_ok ok view (Resume a s)" "srv_ok ok view (Break a s)"
    "srv_ok ok view (OnMessage mc m a s)"
proof -
  have h: "heap_ok s" using assms(1) by (rule srv_okD)
  show "srv_ok ok view (Suspend a s)" by (rule srv_ok_only_at [OF assms(1) Suspend_facts(1,2) [OF h assms(2)]])
  show "srv_ok ok view (Resume a s)" by (rule srv_ok_only_at [OF assms(1) Resume_facts(1,2) [OF h assms(2)]])
  show "srv_ok ok view (Break a s)" by (rule srv_ok_only_at [OF assms(1) Break_facts(1,2) [OF h assms(2)]])
  show "srv_ok ok view (OnMessage mc m a s)" by (rule srv_ok_only_at [OF assms(1) OnMessage_facts(1,2) [OF h assms(2)]])
qed

lemma suspendForAgent_ok: "srv_ok ok view s \<Longrightarrow> srv_ok ok view (suspendForAgent cl rel s)"
  by (auto simp: suspendForAgent_def Let_def dest: store_Get_ok intro!: conn_ops_ok split: option.split prod.split)

lemma break_keys_ok: "srv_ok ok view s \<Longrightarrow> srv_ok ok view (snd (break_keys cl pre ks n s))"
proof (induction ks arbitrary: n s)
  case (Cons k ks)
  obtain r s1 where g: "store_Get cl k s = (r, s1)" by force
  note G = store_Get_ok [OF Cons.prems g]
  show ?case using Cons g G(1) conn_ops_ok(3) [OF G(1)] G(3) by (auto split: option.split)
qed simp

lemma released_ok: "srv_ok ok view s \<Longrightarrow> srv_ok ok view (handleBotControlReleased cl e msg s)"
  by (auto simp: handleBotControlReleased_def BreakByThread_def Let_def suspendForAgent_ok break_keys_ok split: im_event.split)

lemma adoptPush_ok: "srv_ok ok view s \<Longrightarrow> srv_ok ok view (adoptPush cl i r s)"
  by (auto simp: adoptPush_def Let_def dest: store_Get_ok intro!: conn_ops_ok split: option.split prod.split)

lemma grant_pop_ok:
  assumes "srv_ok ok view s" "a < length (ih_conns s)"
  shows "srv_ok ok view (grant_pop cl r a s)"
proof -
  obtain g s1 where g: "store_Get cl r s = (g, s1)" by force
  note G = store_Get_ok [OF assms(1) g]
  have l: "length (ih_conns s1) = length (ih_conns s)" by (subst G(2)) simp
  have "length (ih_conns (Break b s1)) = length (ih_conns s1)" for b by (simp add: Break_def Let_def)
  then show ?thesis
    using assms g G(1,3) l conn_ops_ok(3) [OF G(1)] by (auto simp: grant_pop_def intro!: conn_ops_ok split: option.split)
qed

lemma startDialog_ok:
  assumes "srv_ok ok view s" "idn = GetThreadID (iw_Payload msg) @ ''.'' @ ie_Sub to"
  shows "srv_ok ok view (snd (startDialog cl e idn to msg nested s))"
  by (rule startDialog_cases [OF assms(1) prod.collapse [symmetric] assms(2)])

lemma grant_push_ok:
  assumes s: "srv_ok ok view s"
  shows "srv_ok ok view (snd (grant_push cl e m s))"
proof -
  obtain g s1 where g: "store_Get cl (releasedID m) s = (g, s1)" by force
  note G = store_Get_ok [OF s g]
  let ?id = "sessionID (bg_ThreadID m) (bg_Sub m)"
  let ?s2 = "if releasedID m = [] then s else case g of None \<Rightarrow> s1
      | Some r \<Rightarrow> (Suspend r s1)\<lparr>is_pushParent := (is_pushParent (Suspend r s1))(?id \<mapsto> releasedID m)\<rparr>"
  have s2: "srv_ok ok view ?s2" using s G(1,3) conn_ops_ok(1) [OF G(1)] by (auto split: option.split)
  have "srv_ok ok view (snd (startDialog cl e ?id to (synthesizeGrantMessage m fr to) n ?s2))"
    if "ie_Sub to = Itoa (bg_Sub m)" for fr to n
    by (rule startDialog_ok [OF s2]) (simp add: sessionID_def synthesizeGrantMessage_def that)
  then show ?thesis using s2 g by (auto simp: grant_push_def Let_def split: option.splits sum.split)
qed

lemma granted_ok:
  assumes s: "srv_ok ok view s"
  shows "\<exists>r s'. handleBotControlGranted cl e m s = Some (r, s') \<and> srv_ok ok view s'"
proof -
  let ?id = "sessionID (bg_ThreadID m) (bg_Sub m)"
  obtain g s1 where g: "store_Get cl ?id s = (g, s1)" by force
  note G = store_Get_ok [OF s g]
  show ?thesis
  proof (cases g)
    case None
    then show ?thesis
      using g G(1) grant_push_ok [OF G(1), of e m] by (cases "grant_push cl e m s1") (auto simp: handleBotControlGranted_def Let_def)
  next
    case (Some a)
    then have a: "a < length (ih_conns s1)" using G(3) by blast
    obtain q s2 where q: "ReturnFromQueue a s1 = Some (q, s2)" "srv_ok ok view s2"
      using ReturnFromQueue_facts [OF srv_okD(1) [OF G(1)] a] srv_ok_only_at [OF G(1)] by blast
    show ?thesis
      using Some g q G(1) a grant_pop_ok [OF G(1) a] adoptPush_ok
      by (auto simp: handleBotControlGranted_def Let_def)
  qed
qed

lemma node_loop_ok:
  assumes "srv_ok ok view s"
  shows "srv_ok ok view (snd (node_loop cl e msg eps s))"
  using assms
proof (induction eps arbitrary: s)
  case (Cons ep eps)
  let ?id = "GetThreadID (iw_Payload msg) @ ''.'' @ ie_Sub ep"
  obtain g s1 where g: "store_Get cl ?id s = (g, s1)" by force
  note G = store_Get_ok [OF Cons.prems g]
  obtain r s2 where d: "startDialog cl e ?id ep msg False s1 = (r, s2)" by force
  have "srv_ok ok view s2" using startDialog_ok [OF G(1) refl, of e msg ep False] d by simp
  then show ?case
    using Cons g G(1,3) conn_ops_ok(4) [OF G(1)] d by (auto simp: Let_def split: option.split)
qed simp

lemma listen_ok:
  assumes "srv_ok ok view s"
  shows "\<exists>s'. listen_event cl e i s = Some s' \<and> srv_ok ok view s'"
proof (cases i)
  case (InGranted m)
  then show ?thesis using granted_ok [OF assms, of e m] by (auto simp: listen_event_def)
next
  case (InEvent m)
  then show ?thesis
    using assms released_ok [OF assms, of e m] node_loop_ok [OF assms, of e m] by (auto simp: listen_event_def nodeMessage_def)
qed

lemma Stop_ok:
  assumes s: "srv_ok ok view s" and a: "a < length (ih_conns s)"
  shows "srv_ok ok view (conn_Stop cl e a s)"
proof -
  let ?s1 = "Break a s"
  have s1: "srv_ok ok view ?s1" by (rule conn_ops_ok [OF s a])
  note R = remove_law [OF srv_okD(2) [OF s1], of "cn_id (ih_conns ?s1 ! a)"]
  have "b < length (ih_conns ?s1) \<and> cn_id (ih_conns ?s1 ! b) = k"
    if "view (cl_Remove cl (cn_id (ih_conns ?s1 ! a)) (is_conns ?s1)) k = Some b" for k b
  proof -
    have "((view (is_conns ?s1))(cn_id (ih_conns ?s1 ! a) := None)) k = Some b" using R that map_le_Some by metis
    then show ?thesis using srv_okD(3,4) [OF s1, of k b] by (auto split: if_splits)
  qed
  then have "srv_ok ok view (store_Delete cl a ?s1)" using s1 R by (simp add: srv_ok_def store_Delete_def)
  moreover have "conn_Stop cl e a s = stopConnection cl e a ?s1" by (simp add: conn_Stop_def Break_def Let_def)
  ultimately show ?thesis by (simp add: stopConnection_def Let_def)
qed

lemma ResumeParent_ok: "srv_ok ok view s \<Longrightarrow> srv_ok ok view (resumeParentOf cl i s)"
proof -
  assume s: "srv_ok ok view s"
  let ?s1 = "s\<lparr>is_pushParent := (is_pushParent s)(i := None)\<rparr>"
  have s1: "srv_ok ok view ?s1" using s by simp
  show ?thesis
    using s s1 store_Get_ok [OF s1] by (auto simp: resumeParentOf_def Let_def intro!: conn_ops_ok split: option.split prod.split)
qed

end

section \<open>Lookups that find\<close>

definition dead :: "'c im_server \<Rightarrow> nat \<Rightarrow> bool" where
  "dead s a = (cn_state (ih_conns s ! a) = Terminating \<and> ih_ctx s ! cn_runCtx (ih_conns s ! a) \<and> ih_ctx s ! cn_ctx (ih_conns s ! a))"

definition untouched :: "'c im_server \<Rightarrow> 'c im_server \<Rightarrow> nat \<Rightarrow> bool" where
  "untouched s s' a = (ih_conns s' ! a = ih_conns s ! a \<and>
     ih_ctx s' ! cn_runCtx (ih_conns s ! a) = ih_ctx s ! cn_runCtx (ih_conns s ! a) \<and>
     ih_ctx s' ! cn_ctx (ih_conns s ! a) = ih_ctx s ! cn_ctx (ih_conns s ! a))"

lemma only_at_untouched: "only_at a s s' \<Longrightarrow> b < length (ih_conns s) \<Longrightarrow> b \<noteq> a \<Longrightarrow> untouched s s' b"
  by (auto simp: only_at_def untouched_def)

lemma untouched_dead: "untouched s s' a \<Longrightarrow> dead s' a = dead s a"
  by (auto simp: untouched_def dead_def)

lemma untouched_trans: "untouched s s' a \<Longrightarrow> untouched s' s'' a \<Longrightarrow> untouched s s'' a"
  by (auto simp: untouched_def)

lemma Break_dead:
  assumes "srv_ok ok view s" "a < length (ih_conns s)"
  shows "dead (Break a s) a"
  using Break_facts [OF srv_okD(1) [OF assms(1)] assms(2)] by (simp add: dead_def)

context fresh_store
begin

lemma store_Get_fresh:
  assumes "srv_ok ok view s" "store_Get cl k s = (r, s1)"
  shows "r = view (is_conns s) k" "view (is_conns s1) = view (is_conns s)" "untouched s s1 a" "length (ih_conns s1) = length (ih_conns s)"
  using assms get_fresh [OF srv_okD(2) [OF assms(1)]]
  by (auto simp: store_Get_def untouched_def split: prod.splits)

lemma break_keys_effect:
  assumes "srv_ok ok view s" "break_keys cl pre ks n s = (m, s')"
  shows "srv_ok ok view s' \<and> view (is_conns s') = view (is_conns s) \<and> length (ih_conns s') = length (ih_conns s) \<and>
     m = n + length (filter (\<lambda>k. has_prefix k pre \<and> view (is_conns s) k \<noteq> None) ks) \<and>
     (\<forall>a < length (ih_conns s). (if \<exists>k \<in> set ks. has_prefix k pre \<and> view (is_conns s) k = Some a then dead s' a else untouched s s' a) \<and>
        (dead s a \<longrightarrow> dead s' a))"
  using assms
proof (induction ks arbitrary: n s)
  case Nil
  then show ?case by (auto simp: untouched_def)
next
  case (Cons k ks)
  show ?case
  proof (cases "has_prefix k pre")
    case False
    then have b: "break_keys cl pre ks n s = (m, s')" using Cons.prems(2) by simp
    show ?thesis using Cons.IH [OF Cons.prems(1) b] False by simp
  next
    case True
    obtain r s1 where g: "store_Get cl k s = (r, s1)" by force
    note G = conn_store.store_Get_ok [OF conn_store_axioms Cons.prems(1) g] and F = store_Get_fresh [OF Cons.prems(1) g]
    show ?thesis
    proof (cases r)
      case None
      then have b: "break_keys cl pre ks n s1 = (m, s')" using Cons.prems(2) True g by simp
      have vk: "view (is_conns s) k = None" using F(1) None by simp
      show ?thesis
        using Cons.IH [OF G(1) b] F vk untouched_trans [OF F(3)] untouched_dead [OF F(3)] by auto
    next
      case (Some a)
      have a: "a < length (ih_conns s1)" using G(3) [OF Some] by blast
      let ?s2 = "Break a s1"
      have b: "break_keys cl pre ks (n + 1) ?s2 = (m, s')" using Cons.prems(2) True g Some by simp
      have ok2: "srv_ok ok view ?s2" by (rule conn_store.conn_ops_ok [OF conn_store_axioms G(1) a])
      have o: "only_at a s1 ?s2" by (rule Break_facts [OF srv_okD(1) [OF G(1)] a])
      have vk: "view (is_conns s) k = Some a" using F(1) Some by simp
      have v2: "view (is_conns ?s2) = view (is_conns s)" "length (ih_conns ?s2) = length (ih_conns s)"
        using more_server [of ?s2 s1] o F(2,4) by (auto simp: only_at_def)
      have u: "untouched s ?s2 b" if "b < length (ih_conns s)" "b \<noteq> a" for b
        using only_at_untouched [OF o, of b] that F(4) untouched_trans [OF F(3)] by auto
      have da: "dead ?s2 a" by (rule Break_dead [OF G(1) a])
      note I = Cons.IH [OF ok2 b]
      have "(if \<exists>k \<in> set (k # ks). has_prefix k pre \<and> view (is_conns s) k = Some c then dead s' c else untouched s s' c) \<and> (dead s c \<longrightarrow> dead s' c)"
        if c: "c < length (ih_conns s)" for c
      proof (cases "c = a")
        case True
        then show ?thesis using I da c v2 \<open>has_prefix k pre\<close> vk by auto
      next
        case False
        have "dead ?s2 c = dead s c" using u [OF c False] by (rule untouched_dead)
        then show ?thesis using I c v2 False vk untouched_trans [OF u [OF c False]] by auto
      qed
      then show ?thesis using I v2 True vk by auto
    qed
  qed
qed

end

end
