(* ===== verification/Im_Props.thy ===== *)
theory Im_Props
  imports Im_Laws
begin

text \<open>
  The properties of the instant-messaging server: the invariant of every reachable state, the
  push and pop of dialogs when control passes between bots, the departure of a customer, the
  exclusion of a second dialog for a session, and which messages reach a schema.
\<close>

section \<open>Steps\<close>

text \<open>
  The steps of the server and of the goroutines that run its dialogs, in any order: the listener
  takes an event; a runner resumes its parent, stops, enters or leaves a queue, takes a resume
  token, waits for a message or stops waiting, and sets or removes variables.
\<close>

inductive im_step :: "'c conn_lru \<Rightarrow> 'c im_server \<Rightarrow> 'c im_server \<Rightarrow> bool" for cl where
  listen: "listen_event cl (e :: goval im_env) i s = Some s' \<Longrightarrow> im_step cl s s'"
| resume_parent: "a < length (ih_conns s) \<Longrightarrow> im_step cl s (ResumeParent cl a s)"
| stop: "a < length (ih_conns s) \<Longrightarrow> im_step cl s (conn_Stop cl (e :: goval im_env) a s)"
| enter_queue: "a < length (ih_conns s) \<Longrightarrow> im_step cl s (snd (EnterQueue a s))"
| leave_queue: "a < length (ih_conns s) \<Longrightarrow> im_step cl s (LeaveQueue a s)"
| take_token: "a < length (ih_conns s) \<Longrightarrow> 0 < cn_resumeCh (ih_conns s ! a) \<Longrightarrow>
    im_step cl s (upd_conn a (\<lambda>c. c\<lparr>cn_resumeCh := cn_resumeCh c - 1\<rparr>) s)"
| wait: "a < length (ih_conns s) \<Longrightarrow>
    im_step cl s (upd_conn a (\<lambda>c. snd (setStateWaitMessage (Some (ih_waits s)) c)) (s\<lparr>ih_waits := ih_waits s + 1\<rparr>))"
| unwait: "a < length (ih_conns s) \<Longrightarrow> im_step cl s (upd_conn a (\<lambda>c. snd (setStateWaitMessage None c)) s)"
| set_variables: "a < length (ih_conns s) \<Longrightarrow> im_step cl s (upd_conn a (conn_Set ff vars) s)"
| unset_variables: "a < length (ih_conns s) \<Longrightarrow> im_step cl s (upd_conn a (UnSet ks) s)"

inductive_cases im_stepE: "im_step cl s s'"

definition started_empty :: "('c \<Rightarrow> bool) \<Rightarrow> ('c \<Rightarrow> string \<rightharpoonup> nat) \<Rightarrow> 'c im_server \<Rightarrow> bool" where
  "started_empty ok view s = (ih_conns s = [] \<and> is_consume s = [] \<and> ok (is_conns s) \<and> view (is_conns s) = Map.empty)"

lemma started_empty_ok: "started_empty ok view s \<Longrightarrow> srv_ok ok view s"
  by (simp add: started_empty_def srv_ok_def heap_ok_def)

lemma conn_Set_refs: "same_life c (conn_Set ff vars c)"
  unfolding conn_Set_def
proof (induction vars arbitrary: c)
  case (Cons kv vs)
  have "same_life c (set_var (fst kv) (sprint_v ff (snd kv)) c)" by (simp add: same_life_def same_refs_def set_var_def)
  then show ?case using Cons same_life_trans by (auto simp: case_prod_beta)
qed (simp add: same_life_def same_refs_def)

lemma UnSet_refs: "same_life c (UnSet ks c)"
  by (simp add: UnSet_def same_life_def same_refs_def)

lemma heap_ok_waits: "heap_ok h \<Longrightarrow> heap_ok (h\<lparr>ih_waits := Suc (ih_waits h)\<rparr>)"
  by (auto simp: heap_ok_def conn_ok_def less_Suc_eq)

lemma only_at_upd: "a < length (ih_conns h) \<Longrightarrow> same_refs (ih_conns h ! a) (g (ih_conns h ! a)) \<Longrightarrow> only_at a h (upd_conn a g h)"
  by (auto simp: only_at_def same_refs_def)

lemma srv_ok_upd:
  assumes "srv_ok ok view s" "a < length (ih_conns s)" "conn_ok s (g (ih_conns s ! a))" "same_refs (ih_conns s ! a) (g (ih_conns s ! a))"
  shows "srv_ok ok view (upd_conn a g s)"
proof (rule srv_ok_only_at [OF assms(1)])
  show "heap_ok (upd_conn a g s)" using srv_okD(1) [OF assms(1)] assms(2-4) by (rule heap_ok_upd)
  show "only_at a s (upd_conn a g s)" using assms(2,4) by (rule only_at_upd)
qed

lemma srv_ok_life:
  assumes "srv_ok ok view s" "a < length (ih_conns s)" "same_life (ih_conns s ! a) (g (ih_conns s ! a))"
  shows "srv_ok ok view (upd_conn a g s)"
  using assms same_life_ok [OF assms(3) heap_okD(1) [OF srv_okD(1) [OF assms(1)] assms(2)]]
  by (intro srv_ok_upd) (simp_all add: same_life_def)

lemma wait_ok:
  assumes "srv_ok ok view s" "a < length (ih_conns s)"
  shows "srv_ok ok view (upd_conn a (\<lambda>c. snd (setStateWaitMessage (Some (ih_waits s)) c)) (s\<lparr>ih_waits := ih_waits s + 1\<rparr>))"
proof -
  let ?s = "s\<lparr>ih_waits := ih_waits s + 1\<rparr>"
  have "srv_ok ok view ?s" using assms(1) heap_ok_waits [of s] by (simp add: srv_ok_def)
  moreover have "conn_ok ?s (ih_conns s ! a)"
    using heap_okD(1) [OF heap_ok_waits [OF srv_okD(1) [OF assms(1)]], of a] assms(2) by simp
  ultimately show ?thesis
    using assms(2) by (intro srv_ok_upd) (auto simp: setStateWaitMessage_def conn_ok_def same_refs_def)
qed

lemma token_ok:
  assumes "srv_ok ok view s" "a < length (ih_conns s)"
  shows "srv_ok ok view (upd_conn a (\<lambda>c. c\<lparr>cn_resumeCh := cn_resumeCh c - 1\<rparr>) s)"
    "srv_ok ok view (upd_conn a (\<lambda>c. snd (setStateWaitMessage None c)) s)"
  using assms heap_okD(1) [OF srv_okD(1) [OF assms(1)] assms(2)]
  by (auto intro!: srv_ok_upd simp: same_refs_def conn_ok_def setStateWaitMessage_def)

lemma queue_ok:
  assumes s: "srv_ok ok view s" and a: "a < length (ih_conns s)"
  shows "srv_ok ok view (snd (EnterQueue a s))" "srv_ok ok view (LeaveQueue a s)"
  using EnterQueue_facts [OF srv_okD(1) [OF s] a prod.collapse [symmetric]] LeaveQueue_facts [OF srv_okD(1) [OF s] a]
    srv_ok_only_at [OF s] by blast+

lemma step_ok:
  assumes st: "conn_store cl ok view" and s: "im_step cl s s'" and ok: "srv_ok ok view s"
  shows "srv_ok ok view s'"
  using s
proof cases
  case (listen e i)
  then show ?thesis using conn_store.listen_ok [OF st ok, of e i] by auto
next
  case (resume_parent a)
  then show ?thesis using conn_store.ResumeParent_ok [OF st ok] by (simp add: ResumeParent_def)
next
  case (stop a e)
  then show ?thesis using conn_store.Stop_ok [OF st ok] by simp
next
  case (set_variables a ff vars)
  then show ?thesis using srv_ok_life [OF ok] conn_Set_refs by auto
next
  case (unset_variables a ks)
  then show ?thesis using srv_ok_life [OF ok] UnSet_refs by auto
qed (use queue_ok [OF ok] token_ok [OF ok] wait_ok [OF ok] in auto)

lemma reachable_ok:
  assumes "conn_store cl ok view" "started_empty ok view s0" "(im_step cl)\<^sup>*\<^sup>* s0 s"
  shows "srv_ok ok view s"
  using assms(3) by (induction rule: rtranclp_induct) (auto intro: started_empty_ok [OF assms(2)] step_ok [OF assms(1)])

section \<open>Departure of a customer\<close>

lemma prefix_of_thread:
  assumes "CHR ''.'' \<notin> set t" "CHR ''.'' \<notin> set u"
  shows "has_prefix (t @ ''.'' @ sub) (u @ ''.'') \<longleftrightarrow> t = u"
proof
  assume "has_prefix (t @ ''.'' @ sub) (u @ ''.'')"
  then obtain r where "t @ ''.'' @ sub = (u @ ''.'') @ r" by (metis append_take_drop_id has_prefix_def)
  then have "takeWhile (\<lambda>c. c \<noteq> CHR ''.'') (t @ ''.'' @ sub) = takeWhile (\<lambda>c. c \<noteq> CHR ''.'') (u @ ''.'' @ r)" by simp
  moreover have "takeWhile (\<lambda>c. c \<noteq> CHR ''.'') (w @ CHR ''.'' # x) = w" if "CHR ''.'' \<notin> set w" for w x
    using that by (induction w) auto
  ultimately show "t = u" using assms by simp
qed (simp add: has_prefix_def)

lemma client_leave_effect:
  assumes st: "fresh_store cl ok view" and s: "srv_ok ok view s"
    and dots: "\<forall>a < length (ih_conns s). CHR ''.'' \<notin> set (cn_threadId (ih_conns s ! a))"
    and t: "t \<noteq> []" "CHR ''.'' \<notin> set t" and b: "BreakByThread cl t s = (m, s')"
    and a: "view (is_conns s) k = Some a"
  shows "if cn_threadId (ih_conns s ! a) = t then dead s' a else untouched s s' a"
proof -
  have c: "conn_store cl ok view" using st by (rule fresh_store.axioms)
  have b': "break_keys cl (t @ ''.'') (cl_Keys cl (is_conns s)) 0 s = (m, s')" using b t(1) by (simp add: BreakByThread_def)
  note E = fresh_store.break_keys_effect [OF st s b']
  have al: "a < length (ih_conns s)" "cn_id (ih_conns s ! a) = k" using srv_okD(3,4) [OF s a] by blast+
  have "k = cn_threadId (ih_conns s ! a) @ ''.'' @ ie_Sub (cn_to (ih_conns s ! a))"
    using heap_okD(1) [OF srv_okD(1) [OF s] al(1)] al(2) by (simp add: conn_ok_def)
  then have p: "has_prefix k (t @ ''.'') \<longleftrightarrow> cn_threadId (ih_conns s ! a) = t"
    using prefix_of_thread [of _ t] dots al(1) t(2) by metis
  have keys: "set (cl_Keys cl (is_conns s)) = dom (view (is_conns s))" by (rule fresh_store.keys_law [OF st srv_okD(2) [OF s]])
  have "(\<exists>k' \<in> set (cl_Keys cl (is_conns s)). has_prefix k' (t @ ''.'') \<and> view (is_conns s) k' = Some a) \<longleftrightarrow> has_prefix k (t @ ''.'')"
    using keys a srv_okD(4) [OF s] al(2) by blast
  then show ?thesis using E al(1) p by auto
qed

section \<open>Push and completion\<close>

lemma Itoa_ne [simp]: "Itoa i \<noteq> []"
  by (simp add: Itoa_def)

lemma sessionID_inj: "sessionID t i = sessionID t j \<longleftrightarrow> i = j"
  using Itoa_inj by (auto simp: sessionID_def)

lemma releasedID_ne: "bg_ReleasedSub m \<noteq> 0 \<Longrightarrow> bg_ReleasedSub m \<noteq> bg_Sub m \<Longrightarrow>
    releasedID m = sessionID (bg_ThreadID m) (bg_ReleasedSub m) \<and> releasedID m \<noteq> []"
  by (simp add: releasedID_def sessionID_def)

text \<open>
  What a push does when the thread has a customer and the session can be claimed: the released
  dialog is suspended and recorded as the parent of the new one.
\<close>

lemma grant_push_effect:
  assumes st: "fresh_store cl ok view" and s: "srv_ok ok view s"
    and m: "bg_ReleasedSub m \<noteq> 0" "bg_ReleasedSub m \<noteq> bg_Sub m"
    and idn: "idn = sessionID (bg_ThreadID m) (bg_Sub m)" and rid: "rid = sessionID (bg_ThreadID m) (bg_ReleasedSub m)"
    and p: "view (is_conns s) rid = Some p" and new: "view (is_conns s) idn = None"
    and cust: "resolveCustomerPeer (ev_search e) m (zero_endpoint\<lparr>ie_Sub := Itoa (bg_Sub m), ie_Issuer := IMUserTypeBot, ie_MemberID := bg_MemberID m\<rparr>) = Inr peer"
    and sub: "ie_Sub peer \<noteq> []"
    and claim: "session_Touch (ev_db e) idn (is_id s) (is_sessions s) = (Inr (Some n), ss)"
    and g: "grant_push cl e m s = (r, s')"
  shows "r = None \<and> srv_ok ok view s' \<and> is_pushParent s' idn = Some rid \<and> p < length (ih_conns s) \<and>
     is_consume s' = is_consume s @ [length (ih_conns s)] \<and> length (ih_conns s') = Suc (length (ih_conns s)) \<and>
     cn_id (ih_conns s' ! length (ih_conns s)) = idn \<and> cn_state (ih_conns s' ! length (ih_conns s)) = Running \<and>
     cn_nested (ih_conns s' ! length (ih_conns s)) \<and>
     ih_conns s' ! p = (ih_conns s ! p)\<lparr>cn_state := Suspended\<rparr> \<and> ih_ctx s' ! cn_runCtx (ih_conns s ! p)"
proof -
  have c: "conn_store cl ok view" using st by (rule fresh_store.axioms)
  have rel: "releasedID m = rid" "rid \<noteq> []" using releasedID_ne [OF m] rid by auto
  obtain r1 s1 where g1: "store_Get cl rid s = (r1, s1)" by force
  note G = conn_store.store_Get_ok [OF c s g1] and F = fresh_store.store_Get_fresh [OF st s g1]
  have r1: "r1 = Some p" using F(1) p by simp
  then have p1: "p < length (ih_conns s1)" using G(3) by blast
  have f1: "is_id s1 = is_id s" "is_sessions s1 = is_sessions s" "is_consume s1 = is_consume s" "ih_conns s1 = ih_conns s" "ih_ctx s1 = ih_ctx s"
    by (subst G(2), simp)+
  let ?s2 = "(Suspend p s1)\<lparr>is_pushParent := (is_pushParent (Suspend p s1))(idn \<mapsto> rid)\<rparr>"
  let ?to = "zero_endpoint\<lparr>ie_Sub := Itoa (bg_Sub m), ie_Issuer := IMUserTypeBot, ie_MemberID := bg_MemberID m\<rparr>"
  note S = Suspend_facts [OF srv_okD(1) [OF G(1)] p1]
  have s2: "srv_ok ok view ?s2" using conn_store.conn_ops_ok(1) [OF c G(1) p1] by simp
  have f2: "is_id ?s2 = is_id s" "is_sessions ?s2 = is_sessions s" "is_consume ?s2 = is_consume s" "is_conns ?s2 = is_conns s1"
    "length (ih_conns ?s2) = length (ih_conns s)"
    using more_server [of "Suspend p s1" s1] S(2) f1 by (simp_all add: only_at_def)
  have d: "startDialog cl e idn ?to (synthesizeGrantMessage m peer ?to) True ?s2 = (r, s')"
    using g rel g1 r1 cust sub idn by (simp add: grant_push_def Let_def)
  have none: "fst (store_Get cl idn ?s2) = None"
    using fresh_store.store_Get_fresh(1) [OF st s2 prod.collapse [symmetric], of idn] f2(4) F(2) new by simp
  have act: "\<exists>k. session_Touch (ev_db e) idn (is_id ?s2) (is_sessions ?s2) = (Inr (Some k), ss)" using claim f2 by simp
  have idm: "idn = GetThreadID (iw_Payload (synthesizeGrantMessage m peer ?to)) @ ''.'' @ ie_Sub ?to"
    by (simp add: idn sessionID_def synthesizeGrantMessage_def)
  have st': "r = None \<and> started idn True ?s2 s' \<and> srv_ok ok view s'"
  proof (rule conn_store.startDialog_cases [OF c s2 d idm])
    assume "fst (store_Get cl idn ?s2) \<noteq> None \<or> (\<forall>n. fst (session_Touch (ev_db e) idn (is_id ?s2) (is_sessions ?s2)) \<noteq> Inr (Some n))"
    then show ?thesis using none act by force
  qed blast
  then obtain x where x: "ih_conns s' = ih_conns ?s2 @ [x]" "cn_id x = idn" "cn_state x = Running" "cn_nested x"
    "ih_ctx s' = ih_ctx ?s2 @ [False, False]" "is_consume s' = is_consume ?s2 @ [length (ih_conns ?s2)]" "is_pushParent s' = is_pushParent ?s2"
    unfolding started_def by blast
  have pl: "p < length (ih_conns s)" using p1 f1 by simp
  have "cn_runCtx (ih_conns s1 ! p) < length (ih_ctx (Suspend p s1))"
    using heap_okD(1) [OF srv_okD(1) [OF G(1)] p1] by (simp add: conn_ok_def Suspend_def Let_def)
  then have "ih_ctx s' ! cn_runCtx (ih_conns s ! p)" using S(4) f1 x(5) by (simp add: nth_append)
  moreover have "ih_conns s' ! p = (ih_conns s ! p)\<lparr>cn_state := Suspended\<rparr>"
    using S(3) x(1) pl f1(4) f2(5) by (simp add: nth_append)
  ultimately show ?thesis using st' x f2 pl by (simp add: nth_append)
qed

text \<open>Completion of a child at address \<open>a\<close>: its parent is resumed, then the child stops.\<close>

lemma completion_effect:
  fixes e :: "'p im_env"
  assumes st: "fresh_store cl ok view" and s: "srv_ok ok view s" and a: "a < length (ih_conns s)"
    and par: "is_pushParent s (cn_id (ih_conns s ! a)) = Some rid" "rid \<noteq> []" "view (is_conns s) rid = Some p"
    and sus: "cn_state (ih_conns s ! p) = Suspended" and ne: "p \<noteq> a"
  defines "s' \<equiv> conn_Stop cl e a (ResumeParent cl a s)"
  shows "cn_state (ih_conns s' ! p) = Running \<and> cn_resumeCh (ih_conns s' ! p) = 1 \<and>
     cn_id (ih_conns s' ! p) = rid \<and> \<not> ih_ctx s' ! cn_runCtx (ih_conns s' ! p) \<and> is_pushParent s' (cn_id (ih_conns s ! a)) = None"
proof -
  have c: "conn_store cl ok view" using st by (rule fresh_store.axioms)
  let ?i = "cn_id (ih_conns s ! a)"
  let ?s1 = "s\<lparr>is_pushParent := (is_pushParent s)(?i := None)\<rparr>"
  have s1: "srv_ok ok view ?s1" using s by simp
  obtain r s2 where g: "store_Get cl rid ?s1 = (r, s2)" by force
  note G = conn_store.store_Get_ok [OF c s1 g] and F = fresh_store.store_Get_fresh [OF st s1 g]
  have r: "r = Some p" using F(1) par(3) by simp
  have p: "p < length (ih_conns s2)" "cn_id (ih_conns s2 ! p) = rid" using G(3) [OF r] by blast+
  have f: "ih_conns s2 = ih_conns s" "is_pushParent s2 = (is_pushParent s)(?i := None)" by (subst G(2), simp)+
  have R: "ResumeParent cl a s = Resume p s2"
    using par g r sus f by (simp add: ResumeParent_def resumeParentOf_def Let_def IsSuspended_def)
  note U = Resume_facts [OF srv_okD(1) [OF G(1)] p(1)]
  have s3: "srv_ok ok view (Resume p s2)" by (rule conn_store.conn_ops_ok [OF c G(1) p(1)])
  have a3: "a < length (ih_conns (Resume p s2))" using a U(2) f by (simp add: only_at_def)
  note B = Break_facts [OF srv_okD(1) [OF s3] a3]
  have u: "untouched (Resume p s2) (Break a (Resume p s2)) p"
    using only_at_untouched [OF B(2), of p] ne p U(2) by (simp add: only_at_def)
  have same: "ih_conns s' = ih_conns (Break a (Resume p s2))" "ih_ctx s' = ih_ctx (Break a (Resume p s2))"
    by (simp_all add: s'_def R conn_Stop_def stopConnection_def store_Delete_def Break_def Let_def)
  have "is_pushParent (Break a (Resume p s2)) = (is_pushParent s)(?i := None)"
    using more_server [of "Break a (Resume p s2)" "Resume p s2"] B(2) more_server [of "Resume p s2" s2] U(2) f by (simp add: only_at_def)
  moreover have "cn_id (ih_conns (Break a (Resume p s2)) ! a) = ?i"
    using B(2) U(2) ne f a by (auto simp: only_at_def)
  ultimately have "is_pushParent s' ?i = None"
    by (simp add: s'_def R conn_Stop_def stopConnection_def store_Delete_def Break_def Let_def)
  then show ?thesis using u U(3,4) p(2) same by (simp add: untouched_def)
qed

section \<open>Examples\<close>

definition example_server :: "(string, nat) lru im_server" where
  "example_server = \<lparr>ih_conns = [], ih_ctx = [], ih_chan = [], ih_waits = 0, ih_sent = [], is_id = ''node1'',
     is_conns = NewLru 10000, is_pushParent = Map.empty, is_sessions = Map.empty, is_consume = []\<rparr>"

definition example_customer :: proto_member where
  "example_customer = \<lparr>pm_Id = ''m1'', pm_Contact = Some \<lparr>pc_Type = [], pc_Name = ''Ann'', pc_Iss = ''web'', pc_Sub = ''c7'', pc_IsBot = False\<rparr>, pm_Role = 3\<rparr>"

definition example_im_env :: "goval im_env" where
  "example_im_env = \<lparr>ev_search = (\<lambda>_ _. Inr [\<lparr>pt_Subject = [], pt_Description = [], pt_LastMsg = None,
       pt_Members = [example_customer], pt_Variables = None\<rparr>]),
     ev_marshal_msg = (\<lambda>_. None), ev_marshal_cb = (\<lambda>_. None), ev_marshal_info = (\<lambda>_. None), ev_marshal_value = (\<lambda>_. None), ev_db = None\<rparr>"

definition example_message :: "string \<Rightarrow> string \<Rightarrow> string \<Rightarrow> im_wrapper" where
  "example_message typ thread txt = \<lparr>iw_ID = ''1'', iw_Payload = EvMessage (zero_message\<lparr>ms_ThreadID := thread, ms_Text := txt, ms_Type := typ,
       ms_From := zero_endpoint\<lparr>ie_Sub := ''c7'', ie_Issuer := ''web''\<rparr>,
       ms_To := [zero_endpoint\<lparr>ie_Sub := ''5'', ie_Issuer := ''bot'', ie_MemberID := ''b5''\<rparr>]\<rparr>),
     iw_UserID = [], iw_DomainID = 1, iw_Echo = False, iw_jwtPayload = [], iw_deviceID = [], iw_Type = IMEventTypeMessage, iw_via = []\<rparr>"

text \<open>The server after the first message of a customer in thread \<open>t\<close>.\<close>

definition example_running :: "(string, nat) lru im_server" where
  "example_running = snd (nodeMessage dialog_lru example_im_env (example_message [] ''t'' ''hi'') example_server)"

definition example_grant :: bot_control_granted where
  "example_grant = \<lparr>bg_ThreadID = ''t'', bg_DomainID = 1, bg_MemberID = ''b9'', bg_AutoLeave = False, bg_IsResume = False,
     bg_ReleasedSub = 5, bg_Sub = 9, bg_Reason = ''transfer''\<rparr>"

lemma example_server_empty: "started_empty dialog_ok dialog_view example_server"
proof -
  have "lru_inv (NewLru 10000 :: (string, nat) lru)" using NewLru_inv [of 10000 "[]" 0 "[]"] by (simp add: NewLruWithParams_def NewLru_def)
  then show ?thesis
    by (simp add: started_empty_def example_server_def dialog_ok_def dialog_view_def fun_eq_iff) (simp add: content_def NewLru_def)
qed

lemma example_listen: "listen_event dialog_lru example_im_env (InEvent (example_message [] ''t'' ''hi'')) example_server = Some example_running"
  by (simp add: listen_event_def example_running_def example_message_def IMEventTypeMessage_def IMEventTypeBotControlReleased_def)

lemma example_running_ok: "srv_ok dialog_ok dialog_view example_running"
  using reachable_ok [OF dialogs.conn_store_axioms example_server_empty] im_step.listen [OF example_listen] by blast

section \<open>Messages and customers\<close>

lemma OnMessage_frame:
  "is_consume (OnMessage mc m a s) = is_consume s" "is_sessions (OnMessage mc m a s) = is_sessions s"
  "length (ih_conns (OnMessage mc m a s)) = length (ih_conns s)"
  by (auto simp: OnMessage_def Let_def pushMessageToWaitMessageChan_def upd_conn_def split: option.splits)

definition human :: "string \<Rightarrow> proto_member \<Rightarrow> bool" where
  "human botSub m = (case pm_Contact m of None \<Rightarrow> False | Some c \<Rightarrow> \<not> pc_IsBot c \<and> pc_Sub c \<noteq> botSub)"

lemma select_loop_spec:
  "select_loop botSub fb members =
     (case find (\<lambda>m. human botSub m \<and> pm_Role m = ROLE_OWNER) members of
        Some m \<Rightarrow> customerEndpoint m
      | None \<Rightarrow> (case fb of Some m \<Rightarrow> customerEndpoint m
               | None \<Rightarrow> (case find (human botSub) members of Some m \<Rightarrow> customerEndpoint m | None \<Rightarrow> zero_endpoint)))"
  by (induction members arbitrary: fb) (auto simp: human_def split: option.split)

section \<open>Properties\<close>

text \<open>
  C15: In every state the server and its runners reach from an empty start, with any cache that
  returns only current entries, the cache names each dialog by the dialog's own id
  \<open><thread>.<sub>\<close>, contexts are not shared, a dialog in a queue holds an open channel, at most
  one resume token is buffered, and no event makes the listener panic.
\<close>

theorem im_server_invariant:
  assumes "conn_store cl ok view" "started_empty ok view s0" "(im_step cl)\<^sup>*\<^sup>* s0 s"
  shows "srv_ok ok view s \<and> listen_event cl e i s \<noteq> None"
  using reachable_ok [OF assms] conn_store.listen_ok [OF assms(1) reachable_ok [OF assms], of e i] by auto

theorem im_server_invariant_witness:
  "srv_ok dialog_ok dialog_view example_running \<and> listen_event dialog_lru example_im_env (InGranted example_grant) example_running \<noteq> None"
proof -
  have "(im_step dialog_lru)\<^sup>*\<^sup>* example_server example_running" using im_step.listen [OF example_listen] by blast
  then show ?thesis by (rule im_server_invariant [OF dialogs.conn_store_axioms example_server_empty])
qed

text \<open>
  C17: When the customer leaves a thread, every live dialog of that thread is terminating with
  both of its contexts cancelled, and no dialog of another thread is touched, provided thread
  ids contain no dot (the store matches the prefix \<open><thread>.\<close> of the session id).
\<close>

theorem client_leave_stops_thread:
  assumes "fresh_store cl ok view" "srv_ok ok view s"
    "\<forall>a < length (ih_conns s). CHR ''.'' \<notin> set (cn_threadId (ih_conns s ! a))"
    "iw_Payload msg = EvReleased rel" "br_Reason rel = BotControlReasonClientLeave"
    "br_ThreadID rel \<noteq> []" "CHR ''.'' \<notin> set (br_ThreadID rel)" "view (is_conns s) k = Some a"
  shows "let s' = handleBotControlReleased cl e msg s in
     if cn_threadId (ih_conns s ! a) = br_ThreadID rel then dead s' a else untouched s s' a"
proof -
  obtain m s1 where b: "BreakByThread cl (br_ThreadID rel) s = (m, s1)" by force
  have "BotControlReasonClientLeave \<noteq> BotControlReasonAgentTakeover"
    by (simp add: BotControlReasonClientLeave_def BotControlReasonAgentTakeover_def)
  then have "handleBotControlReleased cl e msg s =
      s1\<lparr>is_sessions := session_RemoveByThread (ev_db e) (br_ThreadID rel) (is_sessions s1)\<rparr>"
    using assms(4,5) b by (simp add: handleBotControlReleased_def)
  then show ?thesis
    using client_leave_effect [OF assms(1-3,6,7) b assms(8)] by (auto simp: Let_def dead_def untouched_def split: if_splits)
qed

theorem client_leave_stops_thread_witness:
  "let msg = (example_message [] ''t'' [])\<lparr>iw_Payload := EvReleased \<lparr>br_ThreadID = ''t'', br_DomainID = 1, br_MemberID = [],
       br_NextMemberID = [], br_Reason = ''client_leave'', br_Sub = 5\<rparr>\<rparr>
   in dead (handleBotControlReleased dialog_lru example_im_env msg example_running) 0"
proof -
  let ?rel = "\<lparr>br_ThreadID = ''t'', br_DomainID = 1, br_MemberID = [], br_NextMemberID = [], br_Reason = ''client_leave'', br_Sub = 5\<rparr>"
  let ?msg = "(example_message [] ''t'' [])\<lparr>iw_Payload := EvReleased ?rel\<rparr>"
  have x: "length (ih_conns example_running) = 1" "dialog_view (is_conns example_running) ''t.5'' = Some 0"
    "cn_threadId (ih_conns example_running ! 0) = ''t''" by code_simp+
  have d: "\<forall>a < length (ih_conns example_running). CHR ''.'' \<notin> set (cn_threadId (ih_conns example_running ! a))" using x by simp
  have "let s' = handleBotControlReleased dialog_lru example_im_env ?msg example_running in
     if cn_threadId (ih_conns example_running ! 0) = br_ThreadID ?rel then dead s' 0 else untouched example_running s' 0"
    by (rule client_leave_stops_thread [OF dialogs.fresh_store_axioms example_running_ok d _ _ _ _ x(2)])
      (simp_all add: BotControlReasonClientLeave_def)
  then show ?thesis using x(3) by (simp add: Let_def)
qed

text \<open>
  C16: Control is granted to another bot over a running dialog.  If the thread has a customer and
  the session can be claimed, the running dialog is suspended, a nested dialog of the granted bot
  is dispatched, and when that one completes and stops, the first dialog runs again: with a
  context that is not cancelled and with the token its runner waits for.
\<close>

theorem push_completion_resumes_parent:
  assumes st: "fresh_store cl ok view" and s: "srv_ok ok view s"
    and m: "bg_ReleasedSub m \<noteq> 0" "bg_ReleasedSub m \<noteq> bg_Sub m"
      "bg_Reason m \<notin> {BotControlReasonInitial, BotControlReasonAgentHandback, BotControlReasonAgentLeft}"
    and p: "view (is_conns s) (sessionID (bg_ThreadID m) (bg_ReleasedSub m)) = Some p"
    and new: "view (is_conns s) (sessionID (bg_ThreadID m) (bg_Sub m)) = None"
    and cust: "resolveCustomerPeer (ev_search e) m (zero_endpoint\<lparr>ie_Sub := Itoa (bg_Sub m), ie_Issuer := IMUserTypeBot, ie_MemberID := bg_MemberID m\<rparr>) = Inr peer"
      "ie_Sub peer \<noteq> []"
    and claim: "session_Touch (ev_db e) (sessionID (bg_ThreadID m) (bg_Sub m)) (is_id s) (is_sessions s) = (Inr (Some n), ss)"
    and g: "handleBotControlGranted cl e m s = Some (r, s1)"
    and kept: "view (is_conns s1) (sessionID (bg_ThreadID m) (bg_ReleasedSub m)) = Some p"
  defines "child \<equiv> length (ih_conns s)"
  shows "r = None \<and> is_consume s1 = is_consume s @ [child] \<and> IsSuspended (ih_conns s1 ! p) \<and>
     ih_ctx s1 ! cn_runCtx (ih_conns s1 ! p) \<and> cn_nested (ih_conns s1 ! child) \<and>
     (let s2 = conn_Stop cl e child (ResumeParent cl child s1); c = ih_conns s2 ! p
      in cn_state c = Running \<and> cn_resumeCh c = 1 \<and> \<not> ih_ctx s2 ! cn_runCtx c)"
proof -
  have c: "conn_store cl ok view" using st by (rule fresh_store.axioms)
  obtain r0 s0 where g0: "store_Get cl (sessionID (bg_ThreadID m) (bg_Sub m)) s = (r0, s0)" by force
  note G = conn_store.store_Get_ok [OF c s g0] and F = fresh_store.store_Get_fresh [OF st s g0]
  have f: "is_id s0 = is_id s" "is_sessions s0 = is_sessions s" "is_consume s0 = is_consume s" "ih_conns s0 = ih_conns s"
    by (subst G(2), simp)+
  have r0: "r0 = None" using F(1) new by simp
  have push: "grant_push cl e m s0 = (r, s1)" using g g0 r0 m(3) by (simp add: handleBotControlGranted_def Let_def)
  have v0: "view (is_conns s0) (sessionID (bg_ThreadID m) (bg_ReleasedSub m)) = Some p"
    "view (is_conns s0) (sessionID (bg_ThreadID m) (bg_Sub m)) = None"
    "session_Touch (ev_db e) (sessionID (bg_ThreadID m) (bg_Sub m)) (is_id s0) (is_sessions s0) = (Inr (Some n), ss)"
    using F(2) p new claim f by simp_all
  note E = grant_push_effect [OF st G(1) m(1,2) refl refl v0(1,2) cust v0(3) push, unfolded f, folded child_def]
  have len: "child < length (ih_conns s1)" "p \<noteq> child" using E by (auto simp: child_def)
  have i: "cn_id (ih_conns s1 ! child) = sessionID (bg_ThreadID m) (bg_Sub m)"
    "is_pushParent s1 (cn_id (ih_conns s1 ! child)) = Some (sessionID (bg_ThreadID m) (bg_ReleasedSub m))" using E by simp_all
  have ne: "sessionID (bg_ThreadID m) (bg_ReleasedSub m) \<noteq> []" by (simp add: sessionID_def)
  have sus: "cn_state (ih_conns s1 ! p) = Suspended" "srv_ok ok view s1" using E by simp_all
  note C = completion_effect [OF st sus(2) len(1) i(2) ne kept sus(1) len(2), of e]
  show ?thesis using E C by (simp add: IsSuspended_def Let_def)
qed

theorem push_completion_resumes_parent_witness:
  "\<exists>s1. handleBotControlGranted dialog_lru example_im_env example_grant example_running = Some (None, s1) \<and>
     IsSuspended (ih_conns s1 ! 0) \<and>
     cn_state (ih_conns (conn_Stop dialog_lru example_im_env 1 (ResumeParent dialog_lru 1 s1)) ! 0) = Running"
proof -
  let ?to = "zero_endpoint\<lparr>ie_Sub := Itoa (bg_Sub example_grant), ie_Issuer := IMUserTypeBot, ie_MemberID := bg_MemberID example_grant\<rparr>"
  let ?peer = "customerEndpoint example_customer"
  let ?ss = "(is_sessions example_running)(''t.9'' \<mapsto> (''node1'', 1))"
  have x: "dialog_view (is_conns example_running) ''t.5'' = Some 0" "dialog_view (is_conns example_running) ''t.9'' = None"
    "length (ih_conns example_running) = 1" "is_sessions example_running ''t.9'' = None" "is_id example_running = ''node1''"
    "case handleBotControlGranted dialog_lru example_im_env example_grant example_running of Some (r, s1) \<Rightarrow>
        dialog_view (is_conns s1) ''t.5'' = Some 0 | None \<Rightarrow> False" by code_simp+
  have ids: "sessionID (bg_ThreadID example_grant) (bg_ReleasedSub example_grant) = ''t.5''"
    "sessionID (bg_ThreadID example_grant) (bg_Sub example_grant) = ''t.9''" by code_simp+
  obtain r s1 where g: "handleBotControlGranted dialog_lru example_im_env example_grant example_running = Some (r, s1)"
    "dialog_view (is_conns s1) ''t.5'' = Some 0" using x(6) by (auto split: option.splits prod.splits)
  have cust: "resolveCustomerPeer (ev_search example_im_env) example_grant ?to = Inr ?peer" "ie_Sub ?peer \<noteq> []"
    by (simp_all add: resolveCustomerPeer_def example_im_env_def selectCustomerPeer_def example_customer_def ROLE_OWNER_def
        customerEndpoint_def GetContact_def example_grant_def Itoa_def nat_digits.simps)
  have claim: "session_Touch (ev_db example_im_env) ''t.9'' (is_id example_running) (is_sessions example_running) = (Inr (Some 1), ?ss)"
    using x by (simp add: session_Touch_def example_im_env_def)
  note P = push_completion_resumes_parent [OF dialogs.fresh_store_axioms example_running_ok, of example_grant 0 example_im_env ?peer 1 ?ss r s1,
      unfolded ids, OF _ _ _ x(1,2) cust claim g]
  show ?thesis using P g x(3)
    by (simp add: example_grant_def BotControlReasonInitial_def BotControlReasonAgentHandback_def BotControlReasonAgentLeft_def Let_def)
qed

text \<open>
  A system notice never starts a schema: whatever its receivers, no dialog is created or
  dispatched and no session is claimed.
\<close>

lemma system_message_starts_nothing:
  assumes "is_system (Message (iw_Payload msg))" "nodeMessage cl e msg s = (r, s')"
  shows "r = None \<and> is_consume s' = is_consume s \<and> length (ih_conns s') = length (ih_conns s) \<and> is_sessions s' = is_sessions s"
proof -
  have "fst (node_loop cl e msg eps s) = None \<and> is_consume (snd (node_loop cl e msg eps s)) = is_consume s \<and>
      length (ih_conns (snd (node_loop cl e msg eps s))) = length (ih_conns s) \<and> is_sessions (snd (node_loop cl e msg eps s)) = is_sessions s" for eps
    using assms(1) by (induction eps arbitrary: s) (auto simp: Let_def store_Get_def OnMessage_frame split: prod.split option.split)
  from this [of "Receivers (iw_Payload msg)"] show ?thesis using assms(2) by (auto simp: nodeMessage_def split: if_splits)
qed

text \<open>
  A session belongs to one node: once a node has dispatched a dialog for a session id, a node
  of another id that sees the same session table dispatches none for it, whatever message or
  grant it handles, until the row is removed.
\<close>

lemma session_claimed_by_one_node:
  assumes "startDialog cl e idn to msg nested s = (r, s')" "is_consume s' \<noteq> is_consume s"
    "is_id t \<noteq> is_id s" "is_sessions t = is_sessions s'"
  shows "is_consume (snd (startDialog cl' e' idn to' msg' nested' t)) = is_consume t \<and>
     is_sessions (snd (startDialog cl' e' idn to' msg' nested' t)) = is_sessions t"
proof -
  have "\<exists>q. is_sessions s' idn = Some (is_id s, q)"
    using assms(1,2) by (auto simp: startDialog_def session_Touch_def store_Get_def newConnection_def new_ctx_def store_Add_def
        upd_conn_def Let_def split: prod.splits option.splits sum.splits if_splits)
  then obtain q where "is_sessions t idn = Some (is_id s, q)" using assms(4) by auto
  then show ?thesis using assms(3)
    by (auto simp: startDialog_def session_Touch_def store_Get_def split: prod.split option.split)
qed

text \<open>
  The customer of a thread is its human owner, the first in the order of the members, and
  only where no human owns the thread the first human member; bots and the granted bot are never
  chosen, and with no human there is none.
\<close>

lemma selectCustomerPeer_spec:
  "selectCustomerPeer members botSub =
     (case find (\<lambda>m. human botSub m \<and> pm_Role m = ROLE_OWNER) members of
        Some m \<Rightarrow> customerEndpoint m
      | None \<Rightarrow> (case find (human botSub) members of Some m \<Rightarrow> customerEndpoint m | None \<Rightarrow> zero_endpoint))"
  unfolding selectCustomerPeer_def by (simp add: select_loop_spec split: option.split)

text \<open>
  A grant for a bot whose dialog is already active is ignored: nothing but the order of the
  cache changes, so the schema is not restarted.
\<close>

lemma duplicate_grant_ignored:
  assumes "fresh_store cl ok view" "srv_ok ok view s"
    "view (is_conns s) (sessionID (bg_ThreadID m) (bg_Sub m)) = Some a" "\<not> IsSuspended (ih_conns s ! a)"
    "bg_ReleasedSub m \<in> {0, bg_Sub m}" "bg_Reason m \<noteq> BotControlReasonAgentHandback"
  shows "\<exists>c. handleBotControlGranted cl e m s = Some (None, s\<lparr>is_conns := c\<rparr>) \<and> view c = view (is_conns s)"
proof -
  obtain r s1 where g: "store_Get cl (sessionID (bg_ThreadID m) (bg_Sub m)) s = (r, s1)" by force
  have c: "conn_store cl ok view" using assms(1) by (rule fresh_store.axioms)
  note G = conn_store.store_Get_ok [OF c assms(2) g] and F = fresh_store.store_Get_fresh [OF assms(1,2) g]
  have "r = Some a" using F(1) assms(3) by simp
  moreover have "ih_conns s1 = ih_conns s" by (subst G(2)) simp
  moreover have "releasedID m = []" using assms(5) by (auto simp: releasedID_def)
  ultimately have "handleBotControlGranted cl e m s = Some (None, s1)"
    using g assms(4,6) by (simp add: handleBotControlGranted_def Let_def)
  then show ?thesis using G(2) F(2) by metis
qed

end
