(* ===== verification/Im_Runner.thy ===== *)
theory Im_Runner
  imports Im_Props Flow_Example
begin

text \<open>
  The goroutine that runs the schema of a dialog (\<open>routes/im/router.go\<close>) and the two places
  where it meets the listener: the park loop, which waits for a resume after the run was
  suspended, and the wait channel of \<open>receive\<close>, on which the listener hands over messages.
\<close>

section \<open>Running a schema\<close>

text \<open>
  What the runner sees of its connection when it comes to the head of the park loop: whether it
  is suspended, whether it is terminating at the check inside, and which branch the \<open>select\<close>
  takes, the resume token or the end of the connection's context.
\<close>

datatype park_branch = TokenTaken | LifeOver

record park_view =
  pv_suspended :: bool
  pv_terminating :: bool
  pv_branch :: park_branch

text \<open>What the runner does to its dialog besides running the flow.\<close>

datatype run_action = SetSchemaName string | CompleteControl string | ResumesParent | RunsDisconnected | StopsDialog

text \<open>
  The park loop over the views of the connection; the flag tells whether it was left through its
  condition.  \<open>None\<close>: a run of the flow does not return, or the given views are used up while
  the runner still waits.
\<close>

fun park_loop :: "'w env \<Rightarrow> nat \<Rightarrow> park_view list \<Rightarrow> flow \<Rightarrow> 'w \<Rightarrow> (bool \<times> flow \<times> 'w) option" where
  "park_loop e d [] i w = None"
| "park_loop e d (v # vs) i w =
     (if \<not> pv_suspended v then Some (True, i, w)
      else if pv_terminating v then Some (False, i, w)
      else case pv_branch v of
          LifeOver \<Rightarrow> Some (False, i, w)
        | TokenTaken \<Rightarrow>
            (case Route e (flow_request e d) (snd (RepeatInterrupted [''recvMessage'', ''interactiveMenu''] (ClearCancel i))) w of
               None \<Rightarrow> None
             | Some (i', w') \<Rightarrow> park_loop e d vs i' w'))"

record im_routing =
  rt_SchemaId :: int
  rt_Name :: string
  rt_Schema :: applications
  rt_Timezone :: string

definition routing_config :: "string \<Rightarrow> im_routing \<Rightarrow> config" where
  "routing_config cid r = \<lparr>cf_SchemaId = rt_SchemaId r, cf_Timezone = rt_Timezone r, cf_Name = rt_Name r, cf_Schema = rt_Schema r,
     cf_ConnId = Some cid\<rparr>"

text \<open>
  \<open>runSchema\<close>: \<open>route\<close> is the lookup of the schema, which returns no routing beside an error,
  \<open>vs\<close> are the views of the park loop, \<open>trm\<close> is the last check for termination and
  \<open>completeId\<close> the member to complete.
\<close>

definition runSchema ::
  "'w env \<Rightarrow> nat \<Rightarrow> (string \<Rightarrow> string option) \<Rightarrow> (int \<Rightarrow> im_routing option result) \<Rightarrow> string \<Rightarrow> int \<Rightarrow> park_view list \<Rightarrow> bool \<Rightarrow> string \<Rightarrow> 'w \<Rightarrow>
   (app_error option \<times> run_action list \<times> 'w) option" where
  "runSchema e d loc route cid shId vs trm completeId w =
     (case (if shId > 0 then route shId else Inr None) of
        Inr (Some r) \<Rightarrow>
          (let i = New loc (routing_config cid r) in
           case Route e (flow_request e d) i w of
             None \<Rightarrow> None
           | Some (i1, w1) \<Rightarrow>
               (case park_loop e d vs i1 w1 of
                  None \<Rightarrow> None
                | Some (left, i2, w2) \<Rightarrow>
                    if \<not> left \<or> trm then Some (None, [SetSchemaName (rt_Name r)], w2)
                    else (let acts = [SetSchemaName (rt_Name r)] @ (if completeId = [] then [] else [CompleteControl completeId]) @ [ResumesParent]
                          in case TriggerScope TriggerDisconnected i2 of
                               Inl _ \<Rightarrow> Some (None, acts, w2)
                             | Inr disc \<Rightarrow>
                                 (case Route e (flow_request e d) disc w2 of
                                    None \<Rightarrow> None
                                  | Some (_, w3) \<Rightarrow> Some (None, acts @ [RunsDisconnected], w3)))))
      | _ \<Rightarrow> Some (Some (NewAppError ''IM'' ''im.routing.not_found'' [] ''Not found routing schema'' 400), [], w))"

text \<open>\<open>handle\<close>: the dialog is stopped, whatever \<open>runSchema\<close> returned.\<close>

definition router_handle ::
  "'w env \<Rightarrow> nat \<Rightarrow> (string \<Rightarrow> string option) \<Rightarrow> (int \<Rightarrow> im_routing option result) \<Rightarrow> string \<Rightarrow> int \<Rightarrow> park_view list \<Rightarrow> bool \<Rightarrow> string \<Rightarrow> 'w \<Rightarrow>
   (run_action list \<times> 'w) option" where
  "router_handle e d loc route cid shId vs trm completeId w =
     map_option (\<lambda>(_, acts, w'). (acts @ [StopsDialog], w')) (runSchema e d loc route cid shId vs trm completeId w)"

section \<open>The runner beside the listener\<close>

text \<open>
  The control of the runner of the dialog at \<open>a\<close>, one step per read of the connection's state:
  inside \<open>Route\<close> with the context it was started with, at the head of the park loop, at the check
  inside the loop, in the \<open>select\<close>, at the last guard, and ended.  The flag tells whether
  \<open>Route\<close> returned because the schema was over (and not because its context was cancelled);
  \<open>Ended True\<close> is the natural end with \<open>Complete\<close> and \<open>ResumeParent\<close>.
\<close>

datatype run_pc = InRoute nat | LoopHead bool | ParkCheck bool | Parked | Guard bool | Ended bool bool

inductive run_step :: "nat \<Rightarrow> run_pc \<Rightarrow> im_heap \<Rightarrow> run_pc \<Rightarrow> im_heap \<Rightarrow> bool" for a where
  route_over: "run_step a (InRoute c) h (LoopHead True) h"
| route_cancelled: "ih_ctx h ! c \<Longrightarrow> run_step a (InRoute c) h (LoopHead False) h"
| loop_suspended: "IsSuspended (ih_conns h ! a) \<Longrightarrow> run_step a (LoopHead f) h (ParkCheck f) h"
| loop_left: "\<not> IsSuspended (ih_conns h ! a) \<Longrightarrow> run_step a (LoopHead f) h (Guard f) h"
| park_terminating: "IsTerminating (ih_conns h ! a) \<Longrightarrow> run_step a (ParkCheck f) h (Ended False f) h"
| park: "\<not> IsTerminating (ih_conns h ! a) \<Longrightarrow> run_step a (ParkCheck f) h Parked h"
| life_over: "ih_ctx h ! cn_ctx (ih_conns h ! a) \<Longrightarrow> run_step a Parked h (Ended False False) h"
| token: "0 < cn_resumeCh (ih_conns h ! a) \<Longrightarrow> run_step a Parked h (InRoute (cn_runCtx (ih_conns h ! a)))
    (upd_conn a (\<lambda>c. c\<lparr>cn_resumeCh := cn_resumeCh c - 1\<rparr>) h)"
| guard_terminating: "IsTerminating (ih_conns h ! a) \<Longrightarrow> run_step a (Guard f) h (Ended False f) h"
| guard_completes: "\<not> IsTerminating (ih_conns h ! a) \<Longrightarrow> run_step a (Guard f) h (Ended True f) h"

inductive_cases run_stepE: "run_step a pc h pc' h'"

text \<open>
  The listener and other runners beside it.  \<open>strict\<close> asks for two things the handlers do not
  all ensure: only a running dialog is suspended, and only a parked one is resumed.
\<close>

inductive run_beside :: "bool \<Rightarrow> nat \<Rightarrow> run_pc \<times> im_heap \<Rightarrow> run_pc \<times> im_heap \<Rightarrow> bool" for strict a where
  runs: "run_step a pc h pc' h' \<Longrightarrow> run_beside strict a (pc, h) (pc', h')"
| suspends: "(strict \<Longrightarrow> cn_state (ih_conns h ! a) = Running) \<Longrightarrow> run_beside strict a (pc, h) (pc, Suspend a h)"
| resumes: "IsSuspended (ih_conns h ! a) \<Longrightarrow> (strict \<Longrightarrow> pc = Parked) \<Longrightarrow> run_beside strict a (pc, h) (pc, Resume a h)"
| breaks: "run_beside strict a (pc, h) (pc, Break a h)"

fun run_inv :: "nat \<Rightarrow> run_pc \<times> im_heap \<Rightarrow> bool" where
  "run_inv a (pc, h) = (heap_ok h \<and> a < length (ih_conns h) \<and>
     (ih_ctx h ! cn_runCtx (ih_conns h ! a) \<longrightarrow> cn_state (ih_conns h ! a) \<noteq> Running) \<and>
     (case pc of InRoute i \<Rightarrow> i = cn_runCtx (ih_conns h ! a) | LoopHead f \<Rightarrow> f \<or> cn_state (ih_conns h ! a) \<noteq> Running
      | Guard f \<Rightarrow> f \<or> cn_state (ih_conns h ! a) = Terminating | Ended done f \<Rightarrow> done \<longrightarrow> f | _ \<Rightarrow> True))"

lemma only_at_len: "only_at a h h' \<Longrightarrow> length (ih_conns h') = length (ih_conns h)"
  by (simp add: only_at_def)

lemma take_token_ok:
  assumes "heap_ok h" "a < length (ih_conns h)"
  shows "heap_ok (upd_conn a (\<lambda>c. c\<lparr>cn_resumeCh := cn_resumeCh c - 1\<rparr>) h)"
  by (rule heap_ok_upd [OF assms]) (use heap_okD(1) [OF assms] in \<open>auto simp: conn_ok_def same_refs_def\<close>)

lemma run_inv_step:
  assumes "run_beside True a p p'" "run_inv a p"
  shows "run_inv a p'"
  using assms(1)
proof cases
  case (runs pc h pc' h')
  then have "heap_ok h" "a < length (ih_conns h)" using assms(2) by auto
  then show ?thesis
    using assms(2) runs take_token_ok [of h a]
    by (auto simp: IsSuspended_def IsTerminating_def elim!: run_stepE intro: conn_state.exhaust)
next
  case (suspends h pc)
  then have h: "heap_ok h" "a < length (ih_conns h)" using assms(2) by auto
  note S = Suspend_facts [OF h]
  show ?thesis using assms(2) suspends S only_at_len [OF S(2)] by (auto split: run_pc.splits)
next
  case (resumes h pc)
  then have h: "heap_ok h" "a < length (ih_conns h)" using assms(2) by auto
  note R = Resume_facts [OF h]
  show ?thesis using assms(2) resumes R only_at_len [OF R(2)] by simp
next
  case (breaks pc h)
  then have h: "heap_ok h" "a < length (ih_conns h)" using assms(2) by auto
  note B = Break_facts [OF h]
  show ?thesis using assms(2) breaks B only_at_len [OF B(2)] by (auto split: run_pc.splits)
qed

lemma run_inv_reach: "(run_beside True a)\<^sup>*\<^sup>* p q \<Longrightarrow> run_inv a p \<Longrightarrow> run_inv a q"
  by (induction rule: rtranclp_induct) (auto intro: run_inv_step)

section \<open>The wait channel\<close>

text \<open>
  The receiver registers a channel and waits on it; a timeout or an ended context makes it leave,
  and only then the deferred call clears the field.  The listener reads the field and then sends:
  on a channel without buffer the send ends when the receiver takes it, and not before.
\<close>

datatype listener_pc = Idle | Sending nat im_wrapper
datatype receiver_pc = NotWaiting | Waiting nat | Leaving

record wait_sys =
  ws_chan :: "nat option"
  ws_next :: nat
  ws_listener :: listener_pc
  ws_receiver :: receiver_pc
  ws_got :: "im_wrapper list"

inductive wait_step :: "wait_sys \<Rightarrow> wait_sys \<Rightarrow> bool" where
  register: "ws_receiver w = NotWaiting \<Longrightarrow> ws_chan w = None \<Longrightarrow>
    wait_step w (w\<lparr>ws_chan := Some (ws_next w), ws_receiver := Waiting (ws_next w), ws_next := Suc (ws_next w)\<rparr>)"
| read: "ws_listener w = Idle \<Longrightarrow> ws_chan w = Some ch \<Longrightarrow> wait_step w (w\<lparr>ws_listener := Sending ch m\<rparr>)"
| hand_over: "ws_listener w = Sending ch m \<Longrightarrow> ws_receiver w = Waiting ch \<Longrightarrow>
    wait_step w (w\<lparr>ws_listener := Idle, ws_receiver := Leaving, ws_got := ws_got w @ [m]\<rparr>)"
| give_up: "ws_receiver w = Waiting ch \<Longrightarrow> wait_step w (w\<lparr>ws_receiver := Leaving\<rparr>)"
| clear: "ws_receiver w = Leaving \<Longrightarrow> wait_step w (w\<lparr>ws_receiver := NotWaiting, ws_chan := None\<rparr>)"

definition wait_start :: wait_sys where
  "wait_start = \<lparr>ws_chan = None, ws_next = 0, ws_listener = Idle, ws_receiver = NotWaiting, ws_got = []\<rparr>"

definition stuck :: "nat \<Rightarrow> im_wrapper \<Rightarrow> wait_sys \<Rightarrow> bool" where
  "stuck ch m w = (ws_listener w = Sending ch m \<and> ws_receiver w \<noteq> Waiting ch \<and> ch < ws_next w)"

lemma stuck_step: "wait_step w w' \<Longrightarrow> stuck ch m w \<Longrightarrow> stuck ch m w'"
  by (auto simp: stuck_def elim!: wait_step.cases)

lemma stuck_reach: "wait_step\<^sup>*\<^sup>* w w' \<Longrightarrow> stuck ch m w \<Longrightarrow> stuck ch m w'"
  by (induction rule: rtranclp_induct) (auto intro: stuck_step)

section \<open>Properties\<close>

definition example_heap :: im_heap where
  "example_heap = snd (newConnection ''t.5'' (zero_endpoint\<lparr>ie_Sub := ''5''\<rparr>) (example_message [] ''t'' ''hi'') False
     \<lparr>ih_conns = [], ih_ctx = [], ih_chan = [], ih_waits = 0, ih_sent = []\<rparr>)"

lemma example_heap_facts:
  "heap_ok example_heap" "length (ih_conns example_heap) = 1" "cn_state (ih_conns example_heap ! 0) = Running"
  "cn_runCtx (ih_conns example_heap ! 0) = 1" "\<not> ih_ctx example_heap ! 1"
proof -
  have "heap_ok \<lparr>ih_conns = [], ih_ctx = [], ih_chan = [], ih_waits = 0, ih_sent = []\<rparr>" by (simp add: heap_ok_def)
  then show "heap_ok example_heap" unfolding example_heap_def
    by (rule newConnection_facts(2) [OF _ prod.collapse [symmetric]]) (simp add: example_message_def)
  show "length (ih_conns example_heap) = 1" "cn_state (ih_conns example_heap ! 0) = Running"
    "cn_runCtx (ih_conns example_heap ! 0) = 1" "\<not> ih_ctx example_heap ! 1"
    by (simp_all add: example_heap_def newConnection_def new_ctx_def Let_def set_nonempty_def set_var_def example_message_def)
qed

text \<open>
  C18: If only running dialogs are suspended and only parked ones resumed, a dialog whose run was
  cut off by a suspension is never completed: the runner reports the end of the schema (and gives
  control back to the parent) only when the schema is over.
\<close>

theorem completion_is_genuine:
  assumes "heap_ok h" "a < length (ih_conns h)" "\<not> ih_ctx h ! cn_runCtx (ih_conns h ! a)"
    "(run_beside True a)\<^sup>*\<^sup>* (InRoute (cn_runCtx (ih_conns h ! a)), h) (Ended True over, h')"
  shows over
  using run_inv_reach [OF assms(4)] assms(1-3) by simp

theorem completion_is_genuine_witness:
  "\<exists>over h'. (run_beside True 0)\<^sup>*\<^sup>* (InRoute 1, example_heap) (Ended True over, h') \<and> over"
proof -
  note F = example_heap_facts
  have "run_beside True 0 (InRoute 1, example_heap) (LoopHead True, example_heap)" by (intro run_beside.runs run_step.route_over)
  moreover have "run_beside True 0 (LoopHead True, example_heap) (Guard True, example_heap)"
    using F(3) by (intro run_beside.runs run_step.loop_left) (simp add: IsSuspended_def)
  moreover have "run_beside True 0 (Guard True, example_heap) (Ended True True, example_heap)"
    using F(3) by (intro run_beside.runs run_step.guard_completes) (simp add: IsTerminating_def)
  ultimately have r: "(run_beside True 0)\<^sup>*\<^sup>* (InRoute 1, example_heap) (Ended True True, example_heap)" by auto
  show ?thesis using r completion_is_genuine [of example_heap 0 True example_heap] F by (metis less_one)
qed

text \<open>
  A resume that comes before the suspended run has unwound is lost: the runner then finds its
  dialog neither suspended nor terminating and completes a schema that was cut off in the middle,
  although a resume token is buffered.
\<close>

lemma early_resume_completes_cut_schema:
  "\<exists>h. (run_beside False 0)\<^sup>*\<^sup>* (InRoute 1, example_heap) (Ended True False, h) \<and> cn_resumeCh (ih_conns h ! 0) = 1"
proof -
  note F = example_heap_facts
  let ?h1 = "Suspend 0 example_heap"
  let ?h2 = "Resume 0 ?h1"
  have z: "0 < length (ih_conns example_heap)" using F(2) by simp
  note S = Suspend_facts [OF F(1) z]
  have z1: "0 < length (ih_conns ?h1)" using z only_at_len [OF S(2)] by simp
  note R = Resume_facts [OF S(1) z1]
  have c: "ih_ctx ?h2 ! 1"
  proof -
    have "1 < length (ih_ctx ?h1)" using heap_okD(1) [OF S(1) z1] S(3) F(4) by (simp add: conn_ok_def)
    then have "ih_ctx ?h2 ! 1 = ih_ctx ?h1 ! 1" by (simp add: Resume_def new_ctx_def Let_def nth_append)
    then show ?thesis using S(4) F(4) by simp
  qed
  have "run_beside False 0 (InRoute 1, example_heap) (InRoute 1, ?h1)" by (rule run_beside.suspends) simp
  moreover have "run_beside False 0 (InRoute 1, ?h1) (InRoute 1, ?h2)" using S(3) by (intro run_beside.resumes) (simp_all add: IsSuspended_def)
  moreover have "run_beside False 0 (InRoute 1, ?h2) (LoopHead False, ?h2)" using c by (intro run_beside.runs run_step.route_cancelled)
  moreover have "run_beside False 0 (LoopHead False, ?h2) (Guard False, ?h2)"
    using R(3) by (intro run_beside.runs run_step.loop_left) (simp add: IsSuspended_def)
  moreover have "run_beside False 0 (Guard False, ?h2) (Ended True False, ?h2)"
    using R(3) by (intro run_beside.runs run_step.guard_completes) (simp add: IsTerminating_def)
  ultimately have "(run_beside False 0)\<^sup>*\<^sup>* (InRoute 1, example_heap) (Ended True False, ?h2)" by auto
  then show ?thesis using R(3) by auto
qed

text \<open>
  C19: The listener can block for ever: if the receiver times out between the moment the listener
  reads the wait channel and its send, no later step of either side lets the send end.  One
  listener serves all dialogs, so no further event of any thread is handled.
\<close>

theorem listener_can_block_forever:
  "\<exists>w. wait_step\<^sup>*\<^sup>* wait_start w \<and> ws_listener ` {w'. wait_step\<^sup>*\<^sup>* w w'} = {Sending 0 m}"
proof -
  let ?w1 = "wait_start\<lparr>ws_chan := Some 0, ws_receiver := Waiting 0, ws_next := 1\<rparr>"
  let ?w2 = "?w1\<lparr>ws_listener := Sending 0 m\<rparr>"
  let ?w3 = "?w2\<lparr>ws_receiver := Leaving\<rparr>"
  have "wait_step wait_start ?w1" using wait_step.register [of wait_start] by (simp add: wait_start_def)
  moreover have "wait_step ?w1 ?w2" by (rule wait_step.read) (simp_all add: wait_start_def)
  moreover have "wait_step ?w2 ?w3" by (rule wait_step.give_up [where ch = 0]) simp
  ultimately have "wait_step\<^sup>*\<^sup>* wait_start ?w3" by auto
  moreover have "stuck 0 m ?w3" by (simp add: stuck_def)
  moreover have "ws_listener w' = Sending 0 m" if "wait_step\<^sup>*\<^sup>* ?w3 w'" for w'
    using stuck_reach [OF that] \<open>stuck 0 m ?w3\<close> by (simp add: stuck_def)
  ultimately show ?thesis by (intro exI [of _ ?w3]) (auto intro!: image_eqI [of _ _ ?w3])
qed

text \<open>
  A dialog suspended while it waited for its customer asks again after the resume: when the
  run of a schema was cut off at \<open>recvMessage\<close> or \<open>interactiveMenu\<close>, the flow the park loop
  hands to \<open>Route\<close> is not cancelled and its next request is that very one.  The cancellation is
  taken to win the \<open>select\<close> before the application has changed the position of the flow.
\<close>

lemma resumed_run_repeats_receive:
  assumes "Route e (flow_request e d) (New loc conf) w = Some (i, w')" "\<And>w. env_select e w \<noteq> DoneLate"
    "fl_interrupted i = Some (c, k)" "rq_name (deref i (c, k)) \<in> {''recvMessage'', ''interactiveMenu''}"
  shows "let j = snd (RepeatInterrupted [''recvMessage'', ''interactiveMenu''] (ClearCancel i)) in
     wf_flow j \<and> \<not> fl_cancel j \<and> (\<exists>j'. NextRequest j = Some (Some (c, k), j') \<and> deref j' (c, k) = deref i (c, k))"
proof -
  let ?ns = "[''recvMessage'', ''interactiveMenu'']"
  have wf: "wf_flow i" using nested.Route_safe [OF New_wf assms(1)] by (simp add: run_keeps_def)
  have "resumable i" by (rule nested.Route_resumable [OF New_wf assms(2,1)])
  then have h: "handed_out (ClearCancel i) c k" using assms(3) by (simp add: resumable_def)
  have f: "fl_interrupted (ClearCancel i) = Some (c, k)" "deref (ClearCancel i) (c, k) = deref i (c, k)"
    using assms(3) by (simp_all add: ClearCancel_def deref_def)
  obtain g where g: "RepeatInterrupted ?ns (ClearCancel i) = (True, g)"
    using RepeatInterrupted_handed [OF h f(1), of ?ns] f(2) assms(4) by auto
  have "wf_flow (ClearCancel i)" using wf by (simp add: wf_flow_flags)
  note T = RepeatInterrupted_True [OF this g]
  moreover have "\<not> fl_cancel g" using g by (auto simp: RepeatInterrupted_def ClearCancel_def upd_node_def Let_def split: option.splits if_splits)
  ultimately show ?thesis using g f by (simp add: Let_def)
qed

definition example_receive :: flow where
  "example_receive = ex_new [app_log ''a'', [(''recvMessage'', GStr ''x'')]]"

text \<open>
  A second wait on a dialog whose receiver is already waiting fails, and by its deferred
  clean-up takes the channel away from the first: from then on messages of the customer reach
  neither of them.
\<close>

lemma second_receive_disconnects_first:
  assumes "a < length (ih_conns h)" "cn_waitMsgChan (ih_conns h ! a) = Some ch" "receive wt a h = (r, h')"
  shows "r = Inl (NewAppError ''Conversation.WaitMessage'' ''conv.timeout.msg'' [] ''Timeout'' 500) \<and>
     cn_waitMsgChan (ih_conns h' ! a) = None \<and> ih_sent (pushMessageToWaitMessageChan m a h') = ih_sent h"
  using assms by (auto simp: receive_def setStateWaitMessage_def Let_def pushMessageToWaitMessageChan_def)

end
