(* ===== verification/Flow_Basic.thy ===== *)
theory Flow_Basic
  imports Text_Subst Flow_Handlers Cache_Layer
begin

text \<open>
  The basic applications of the engine: variables (\<open>flow/set.go\<close>), strings (\<open>flow/string.go\<close>),
  arithmetic (\<open>flow/math.go\<close>), sleeping and the time zone (\<open>flow/sleep.go\<close>, \<open>flow/time.go\<close>).
  Digests, regular expressions and the script engine are arguments, as are the decoders; a
  connection is what its \<open>Get\<close> and \<open>Set\<close> make of it.
\<close>

section \<open>base64.StdEncoding\<close>

definition b64_alphabet :: string where
  "b64_alphabet = ''ABCDEFGHIJKLMNOPQRSTUVWXYZabcdefghijklmnopqrstuvwxyz0123456789+/''"

definition b64_char :: "nat \<Rightarrow> char" where
  "b64_char i = b64_alphabet ! i"

definition b64_val :: "char \<Rightarrow> nat option" where
  "b64_val c = (let n = (of_char c :: int) in
     if 65 \<le> n \<and> n \<le> 90 then Some (nat (n - 65)) else if 97 \<le> n \<and> n \<le> 122 then Some (nat (n - 71))
     else if 48 \<le> n \<and> n \<le> 57 then Some (nat (n + 4)) else if n = 43 then Some 62 else if n = 47 then Some 63 else None)"

fun b64_encode :: "nat list \<Rightarrow> string" where
  "b64_encode [] = []"
| "b64_encode [a] = [b64_char (a div 4), b64_char (a mod 4 * 16), CHR ''='', CHR ''='']"
| "b64_encode [a, b] = [b64_char (a div 4), b64_char (a mod 4 * 16 + b div 16), b64_char (b mod 16 * 4), CHR ''='']"
| "b64_encode (a # b # c # r) =
     [b64_char (a div 4), b64_char (a mod 4 * 16 + b div 16), b64_char (b mod 16 * 4 + c div 64), b64_char (c mod 64)] @ b64_encode r"

definition is_newline :: "char \<Rightarrow> bool" where
  "is_newline c = ((of_char c :: nat) \<in> {10, 13})"

text \<open>The bytes of two, three or four values of six bits.\<close>

fun b64_bytes :: "nat list \<Rightarrow> nat list" where
  "b64_bytes [i, j] = [i * 4 + j div 16]"
| "b64_bytes [i, j, k] = [i * 4 + j div 16, j mod 16 * 16 + k div 4]"
| "b64_bytes [i, j, k, l] = [i * 4 + j div 16, j mod 16 * 16 + k div 4, k mod 4 * 64 + l]"
| "b64_bytes _ = []"

text \<open>
  \<open>decodeQuantum\<close>: the rest of the text, the bytes, and whether it is corrupt.  A padding sign
  ends the text; what follows it is an error, but the bytes before it count.
\<close>

definition b64_padding :: "nat list \<Rightarrow> string \<Rightarrow> string \<times> nat list \<times> bool" where
  "b64_padding acc src =
     (if length acc < 2 then (src, [], True)
      else (let src1 = dropWhile is_newline src in
        if length acc = 2 \<and> (src1 = [] \<or> hd src1 \<noteq> CHR ''='') then (src1, [], True)
        else (let src3 = dropWhile is_newline (if length acc = 2 then tl src1 else src)
              in (src3, b64_bytes acc, src3 \<noteq> []))))"

fun b64_quantum :: "nat list \<Rightarrow> string \<Rightarrow> string \<times> nat list \<times> bool" where
  "b64_quantum acc [] = (if length acc = 4 then ([], b64_bytes acc, False) else ([], [], acc \<noteq> []))"
| "b64_quantum acc (c # cs) =
     (if length acc = 4 then (c # cs, b64_bytes acc, False)
      else case b64_val c of
          Some v \<Rightarrow> b64_quantum (acc @ [v]) cs
        | None \<Rightarrow> if is_newline c then b64_quantum acc cs
                  else if c \<noteq> CHR ''='' then (cs, [], True) else b64_padding acc cs)"

lemma dropWhile_length: "length (dropWhile P xs) \<le> length xs"
  by (rule length_dropWhile_le)

lemma b64_padding_length: "length (fst (b64_padding acc src)) \<le> length src"
proof -
  have "length (dropWhile is_newline (tl (dropWhile is_newline src))) \<le> length src"
    using length_dropWhile_le [of is_newline src] length_dropWhile_le [of is_newline "tl (dropWhile is_newline src)"] by simp
  then show ?thesis by (auto simp: b64_padding_def Let_def length_dropWhile_le)
qed

lemma b64_quantum_length: "length (fst (b64_quantum acc src)) \<le> length src"
proof (induction acc src rule: b64_quantum.induct)
  case (2 acc c cs)
  then show ?case using b64_padding_length [of acc cs] by (auto split: option.splits)
qed simp

lemma b64_quantum_less: "length acc < 4 \<Longrightarrow> src \<noteq> [] \<Longrightarrow> length (fst (b64_quantum acc src)) < length src"
  using b64_quantum_length b64_padding_length
  by (cases src) (auto simp: le_imp_less_Suc split: option.splits)

text \<open>\<open>DecodeString\<close> returns the bytes before the first error; \<open>base64Fn\<close> drops the error.\<close>

function b64_decode :: "string \<Rightarrow> nat list" where
  "b64_decode src =
     (if src = [] then []
      else (case b64_quantum [] src of (rest, bs, bad) \<Rightarrow> if bad then bs else bs @ b64_decode rest))"
  by pat_completeness auto
termination
  by (relation "measure length") (use b64_quantum_less [of "[]"] in \<open>auto, metis fst_conv\<close>)

declare b64_decode.simps [simp del]

lemma b64_decode_Nil [simp]: "b64_decode [] = []"
  by (simp add: b64_decode.simps)

definition base64Fn :: "string \<Rightarrow> string \<Rightarrow> string" where
  "base64Fn mode data =
     (if mode = ''encoder'' then b64_encode (map of_char data)
      else if mode = ''decoder'' then map char_of (b64_decode data) else [])"

text \<open>Encoding and decoding are inverse.\<close>

lemma b64_char_facts:
  assumes "i < 64"
  shows "b64_val (b64_char i) = Some i"
proof -
  have "list_all (\<lambda>i. b64_val (b64_char i) = Some i) [0..<64]" by code_simp
  then show ?thesis using assms by (simp add: list_all_iff)
qed

lemma b64_pad_char: "b64_val (CHR ''='') = None" "\<not> is_newline (CHR ''='')"
  by code_simp+

lemma six_bits:
  fixes a b c :: nat
  assumes "a < 256" "b < 256" "c < 256"
  shows "a div 4 < 64" "a mod 4 * 16 < 64" "a mod 4 * 16 + b div 16 < 64" "b mod 16 * 4 < 64" "b mod 16 * 4 + c div 64 < 64" "c mod 64 < 64"
proof -
  have d: "a div 4 < 64" "b div 16 < 16" "c div 64 < 4" using assms by (simp_all add: less_mult_imp_div_less)
  moreover have "a mod 4 < 4" "b mod 16 < 16" by simp_all
  ultimately show "a div 4 < 64" "a mod 4 * 16 < 64" "a mod 4 * 16 + b div 16 < 64" "b mod 16 * 4 < 64" "b mod 16 * 4 + c div 64 < 64"
    by linarith+
  show "c mod 64 < 64" by simp
qed

lemma digit_pair: "y < n \<Longrightarrow> (x * n + y) div n = x \<and> (x * n + y) mod n = y" for x y n :: nat
  by simp

lemma b64_three_bytes:
  fixes a b c :: nat
  assumes "b < 256" "c < 256"
  shows "a div 4 * 4 + (a mod 4 * 16 + b div 16) div 16 = a"
    "(a mod 4 * 16 + b div 16) mod 16 * 16 + (b mod 16 * 4 + c div 64) div 4 = b"
    "(b mod 16 * 4 + c div 64) mod 4 * 64 + c mod 64 = c"
proof -
  have d: "b div 16 < 16" "c div 64 < 4" using assms by (simp_all add: less_mult_imp_div_less)
  note p = digit_pair [OF d(1), of "a mod 4"] digit_pair [OF d(2), of "b mod 16"]
  show "a div 4 * 4 + (a mod 4 * 16 + b div 16) div 16 = a" using p(1) by simp
  show "(a mod 4 * 16 + b div 16) mod 16 * 16 + (b mod 16 * 4 + c div 64) div 4 = b" using p by simp
  show "(b mod 16 * 4 + c div 64) mod 4 * 64 + c mod 64 = c" using p(2) by simp
qed

lemma b64_round_trip: "\<forall>x\<in>set bs. x < 256 \<Longrightarrow> b64_decode (b64_encode bs) = bs"
proof (induction bs rule: b64_encode.induct)
  case (2 a)
  then show ?case using six_bits [of a 0 0] b64_three_bytes(1) [of 0 0 a] b64_pad_char
    by (subst b64_decode.simps) (simp add: b64_char_facts b64_padding_def Let_def)
next
  case (3 a b)
  then show ?case using six_bits [of a b 0] b64_three_bytes(1,2) [of b 0 a] b64_pad_char
    by (subst b64_decode.simps) (simp add: b64_char_facts b64_padding_def Let_def)
next
  case (4 a b c r)
  then have d: "b div 16 < 16" "c div 64 < 4" by (simp_all add: less_mult_imp_div_less)
  then have m: "b div 16 mod 16 = b div 16" "c div 64 mod 4 = c div 64" by simp_all
  have q: "b64_quantum [i, j, k, l] s = (s, b64_bytes [i, j, k, l], False)" for i j k l s by (cases s) simp_all
  show ?case using 4 six_bits [of a b c] b64_three_bytes(1,2) [of b c a] b64_three_bytes(3) [of b c]
    by (subst b64_decode.simps) (simp add: b64_char_facts q m d)
qed simp

section \<open>Strings (string.go)\<close>

text \<open>\<open>string(r)\<close>: the UTF-8 encoding of a code point; a stray byte has become U+FFFD.\<close>

definition rune_text :: "nat option \<times> string \<Rightarrow> string" where
  "rune_text r = (case fst r of Some _ \<Rightarrow> snd r | None \<Rightarrow> [CHR 0xEF, CHR 0xBF, CHR 0xBD])"

definition reverse :: "string \<Rightarrow> string" where
  "reverse s = concat (map rune_text (rev (runes s)))"

text \<open>Only the upper end is compared: a negative position is out of range and panics (\<open>None\<close>).\<close>

definition charAt :: "string \<Rightarrow> int \<Rightarrow> string option" where
  "charAt s pos =
     (if int (length s) > pos then (if pos < 0 then None else Some (byte_string (s ! nat pos))) else Some [])"

definition GetTopStringArg :: "(goval \<Rightarrow> string) \<Rightarrow> goval list \<Rightarrow> string" where
  "GetTopStringArg sprint args = (case args of x # _ \<Rightarrow> sprint x | [] \<Rightarrow> [])"

text \<open>\<open>Atoi\<close> returns zero for bad syntax and the nearest bound beyond the range.\<close>

definition Atoi_clamp :: "string \<Rightarrow> int" where
  "Atoi_clamp s = (case Atoi s of Some v \<Rightarrow> v | None \<Rightarrow>
     (let neg = (s \<noteq> [] \<and> hd s = CHR ''-''); ds = (if s \<noteq> [] \<and> hd s \<in> set ''+-'' then tl s else s)
      in if parse_digits ds = None then 0 else if neg then - (2 ^ 63) else 2 ^ 63 - 1))"

definition GetTopIntArg :: "(goval \<Rightarrow> string) \<Rightarrow> goval list \<Rightarrow> int" where
  "GetTopIntArg sprint args = (let str = GetTopStringArg sprint args in if str \<noteq> [] then Atoi_clamp str else 0)"

record string_args =
  sg_SetVar :: string
  sg_Fn :: string
  sg_Data :: string
  sg_Args :: "goval list"

text \<open>
  What string functions need from outside: digests in hexadecimal, the groups of a regular
  expression joined by commas (empty on a bad expression), the script engine with the name, the
  data and the arguments, and the text of a value.
\<close>

record string_env =
  se_md5 :: "string \<Rightarrow> string"
  se_sha256 :: "string \<Rightarrow> string"
  se_sha512 :: "string \<Rightarrow> string"
  se_match :: "string \<Rightarrow> string \<Rightarrow> string"
  se_script :: "string \<Rightarrow> string \<Rightarrow> goval list \<Rightarrow> string + string"
  se_sprint :: "goval \<Rightarrow> string"

text \<open>The value of a string function; \<open>None\<close> is a panic.\<close>

definition string_value :: "string_env \<Rightarrow> string_args \<Rightarrow> string result option" where
  "string_value se a =
     (if sg_Fn a = ''reverse'' then Some (Inr (reverse (sg_Data a)))
      else if sg_Fn a = ''charAt'' then map_option Inr (charAt (sg_Data a) (GetTopIntArg (se_sprint se) (sg_Args a)))
      else if sg_Fn a = ''base64'' then Some (Inr (base64Fn (GetTopStringArg (se_sprint se) (sg_Args a)) (sg_Data a)))
      else if sg_Fn a = ''MD5'' then Some (Inr (se_md5 se (sg_Data a)))
      else if sg_Fn a = ''length'' then Some (Inr (Itoa (int (length (sg_Data a)))))
      else if sg_Fn a = ''SHA-256'' then Some (Inr (se_sha256 se (sg_Data a)))
      else if sg_Fn a = ''SHA-512'' then Some (Inr (se_sha512 se (sg_Data a)))
      else if sg_Fn a = ''gomatch'' then Some (Inr (se_match se (sg_Data a) (GetTopStringArg (se_sprint se) (sg_Args a))))
      else Some (case se_script se (sg_Fn a) (sg_Data a) (sg_Args a) of
          Inl er \<Rightarrow> Inl (NewAppError ''Flow.String'' ''flow.app.string.error.args'' [] er 400)
        | Inr v \<Rightarrow> Inr v))"

definition stringApp ::
  "string_env \<Rightarrow> (goval \<Rightarrow> string_args result) \<Rightarrow> ((string \<times> goval) list \<Rightarrow> 'c \<Rightarrow> response result \<times> 'c) \<Rightarrow> goval \<Rightarrow> 'c \<Rightarrow>
   (response result \<times> 'c) option" where
  "stringApp se decode setv args c =
     (case decode args of
        Inl er \<Rightarrow> Some (Inl er, c)
      | Inr a \<Rightarrow>
          if sg_SetVar a = [] then Some (Inl (ErrorRequiredParameter ''string'' ''setVar''), c)
          else if sg_Fn a = [] then Some (Inl (ErrorRequiredParameter ''string'' ''fn''), c)
          else (case string_value se a of
              None \<Rightarrow> None
            | Some (Inl er) \<Rightarrow> Some (Inl er, c)
            | Some (Inr v) \<Rightarrow> Some (setv [(sg_SetVar a, GStr v)] c)))"

section \<open>Variables (set.go)\<close>

definition set_app :: "(goval \<Rightarrow> (string \<times> goval) list result) \<Rightarrow> ((string \<times> goval) list \<Rightarrow> 'c \<Rightarrow> response result \<times> 'c) \<Rightarrow> goval \<Rightarrow> 'c \<Rightarrow> response result \<times> 'c" where
  "set_app decode setv args c = (case decode args of Inl er \<Rightarrow> (Inl er, c) | Inr vars \<Rightarrow> setv vars c)"

definition unSet_app ::
  "(goval \<Rightarrow> string list result) \<Rightarrow> ('c \<Rightarrow> string \<Rightarrow> string \<times> bool) \<Rightarrow> ((string \<times> goval) list \<Rightarrow> 'c \<Rightarrow> response result \<times> 'c) \<Rightarrow> goval \<Rightarrow> 'c \<Rightarrow> response result \<times> 'c" where
  "unSet_app decode getv setv args c =
     (case decode args of
        Inl er \<Rightarrow> (Inl er, c)
      | Inr [] \<Rightarrow> (Inl (ErrorRequiredParameter ''UnSet'' ''unSet''), c)
      | Inr ks \<Rightarrow> setv (map (\<lambda>k. (k, GStr [])) (remdups (filter (\<lambda>k. snd (getv c k)) ks))) c)"

record global_var =
  gv_Value :: string
  gv_Encrypt :: bool

text \<open>\<open>global\<close> writes variables of the domain; the arguments are those of \<open>SetSchemaVariable\<close>.\<close>

definition global_app ::
  "(goval \<Rightarrow> (string \<times> global_var) list result) \<Rightarrow> (string \<Rightarrow> string + string) \<Rightarrow> (int \<Rightarrow> string \<Rightarrow> schema_variable \<Rightarrow> 'd \<Rightarrow> 'd) \<Rightarrow>
   int \<Rightarrow> goval \<Rightarrow> 'd \<Rightarrow> response result \<times> 'd" where
  "global_app decode enc setv domainId args db =
     (case decode args of
        Inl er \<Rightarrow> (Inl er, db)
      | Inr argv \<Rightarrow>
          (case SetSchemaVariable enc setv domainId (map (\<lambda>(k, v). (k, \<lparr>sv_Encrypt = gv_Encrypt v, sv_Value = gv_Value v\<rparr>)) argv) db of
             (Some er, db') \<Rightarrow> (Inl er, db')
           | (None, db') \<Rightarrow> (Inr CallResponseOK, db')))"

section \<open>Arithmetic (math.go), sleeping, time zone\<close>

record math_args =
  mg_Data :: "goval list"
  mg_SetVar :: string
  mg_Fn :: string

text \<open>\<open>n\<close> is the number \<open>rand.Int\<close> returns.\<close>

definition random :: "nat \<Rightarrow> goval list \<Rightarrow> goval" where
  "random n arr = (if arr = [] then GStr [] else arr ! (n mod length arr))"

definition Math ::
  "nat \<Rightarrow> (string \<Rightarrow> goval list \<Rightarrow> string + string) \<Rightarrow> (goval \<Rightarrow> string) \<Rightarrow> (math_args \<Rightarrow> goval \<Rightarrow> math_args result) \<Rightarrow>
   ((string \<times> goval) list \<Rightarrow> 'c \<Rightarrow> response result \<times> 'c) \<Rightarrow> goval \<Rightarrow> 'c \<Rightarrow> response result \<times> 'c" where
  "Math n script sprint decode setv args c =
     (case decode \<lparr>mg_Data = [], mg_SetVar = [], mg_Fn = ''random''\<rparr> args of
        Inl er \<Rightarrow> (Inl er, c)
      | Inr a \<Rightarrow>
          if mg_SetVar a = [] then (Inl (ErrorRequiredParameter ''math'' ''setVar''), c)
          else if mg_Fn a = ''random'' \<or> mg_Fn a = [] then setv [(mg_SetVar a, GStr (sprint (random n (mg_Data a))))] c
          else (case script (mg_Fn a) (mg_Data a) of
              Inl er \<Rightarrow> (Inl (NewAppError ''Flow.String'' ''flow.app.string.error.args'' [] er 400), c)
            | Inr v \<Rightarrow> setv [(mg_SetVar a, GStr v)] c))"

text \<open>\<open>done\<close> tells whether the context ends before the time is over.\<close>

definition sleep :: "(goval \<Rightarrow> int result) \<Rightarrow> bool \<Rightarrow> goval \<Rightarrow> response result" where
  "sleep decode done args =
     (case decode args of
        Inl er \<Rightarrow> Inl er
      | Inr timeout \<Rightarrow> if timeout > 0 \<and> done then Inr ResponseErr else Inr ResponseOK)"

definition SetTimezone ::
  "(goval \<Rightarrow> (string option \<times> int option) result) \<Rightarrow> (int \<Rightarrow> string option) \<Rightarrow> (string \<Rightarrow> string option) \<Rightarrow> goval \<Rightarrow> flow \<Rightarrow> response result \<times> flow" where
  "SetTimezone decode byId byName args scope =
     (case decode args of
        Inl er \<Rightarrow> (Inl er, scope)
      | Inr (name, idn) \<Rightarrow>
          (case (case idn of Some i \<Rightarrow> byId i | None \<Rightarrow> (case name of Some nm \<Rightarrow> byName nm | None \<Rightarrow> None)) of
             None \<Rightarrow> (Inr ResponseErr, scope)
           | Some loc \<Rightarrow> (Inr ResponseOK, scope\<lparr>fl_timezone := Some loc\<rparr>)))"

section \<open>The connection as a store of variables\<close>

lemma take_until_None: "x \<notin> set xs \<Longrightarrow> take_until x xs = None"
  by (induction xs) (auto split: option.splits)

locale variables =
  fixes get :: "'c \<Rightarrow> string \<Rightarrow> string \<times> bool"
    and put :: "(string \<times> goval) list \<Rightarrow> 'c \<Rightarrow> response result \<times> 'c"
  assumes get_put: "CHR ''.'' \<notin> set k \<Longrightarrow> get (snd (put [(k, GStr v)] c)) k = (v, True)"
    and put_ok: "\<exists>r. fst (put [(k, GStr v)] c) = Inr r"
begin

lemma string_readable:
  assumes "decode args = Inr a" "sg_SetVar a \<noteq> []" "CHR ''.'' \<notin> set (sg_SetVar a)" "sg_Fn a \<noteq> []" "string_value se a = Some (Inr v)"
  shows "\<exists>r c'. stringApp se decode put args c = Some (Inr r, c') \<and> get c' (sg_SetVar a) = (v, True)"
  using assms get_put [of "sg_SetVar a" v c] put_ok [of "sg_SetVar a" v c]
  by (cases "put [(sg_SetVar a, GStr v)] c") (auto simp: stringApp_def)

text \<open>
  The names with a dot are excluded: a connection reads them as a path into a document.  A text
  encoded into one variable and decoded from it into another comes back.
\<close>

lemma base64_through_variables:
  assumes "decode e = Inr \<lparr>sg_SetVar = x, sg_Fn = ''base64'', sg_Data = s, sg_Args = [GStr ''encoder'']\<rparr>" "x \<noteq> []" "CHR ''.'' \<notin> set x"
    "\<And>t. decode' t d = Inr \<lparr>sg_SetVar = y, sg_Fn = ''base64'', sg_Data = t, sg_Args = [GStr ''decoder'']\<rparr>" "y \<noteq> []" "CHR ''.'' \<notin> set y"
    "\<And>w. se_sprint se (GStr w) = w"
  shows "\<exists>r c1 r' c2. stringApp se decode put e c = Some (Inr r, c1) \<and>
     stringApp se (decode' (fst (get c1 x))) put d c1 = Some (Inr r', c2) \<and> get c2 y = (s, True)"
proof -
  let ?enc = "b64_encode (map of_char s)"
  let ?a = "\<lparr>sg_SetVar = x, sg_Fn = ''base64'', sg_Data = s, sg_Args = [GStr ''encoder'']\<rparr>"
  let ?b = "\<lparr>sg_SetVar = y, sg_Fn = ''base64'', sg_Data = ?enc, sg_Args = [GStr ''decoder'']\<rparr>"
  have "string_value se ?a = Some (Inr ?enc)"
    using assms(7) by (simp add: string_value_def base64Fn_def GetTopStringArg_def)
  then obtain r c1 where c1: "stringApp se decode put e c = Some (Inr r, c1)" "get c1 x = (?enc, True)"
    using string_readable [of decode e ?a se ?enc c] assms(1-3) by auto
  have "map char_of (b64_decode ?enc) = s" using b64_round_trip [of "map of_char s"] by (simp add: comp_def)
  then have "string_value se ?b = Some (Inr s)"
    using assms(7) by (simp add: string_value_def base64Fn_def GetTopStringArg_def)
  then obtain r' c2 where "stringApp se (decode' ?enc) put d c1 = Some (Inr r', c2)" "get c2 y = (s, True)"
    using string_readable [of "decode' ?enc" d ?b se s c1] assms(4-6) by auto
  with c1 show ?thesis by auto
qed

end

end
