(* ===== verification/Im_Apps_Laws.thy ===== *)
theory Im_Apps_Laws
  imports Im_Apps Im_Runner Flow_Basic
begin

text \<open>
  Laws of the instant-message applications: which branch a menu runs, that a command with a trigger
  never becomes the value of a variable, and that joining a queue is undone on every return.
\<close>

section \<open>Menus\<close>

definition all_buttons :: "menu_button interactive \<Rightarrow> menu_button list" where
  "all_buttons x = (case in_Markup x of None \<Rightarrow> [] | Some rows \<Rightarrow> concat (map kr_Buttons rows)) @
     (case in_ListReply x of None \<Rightarrow> [] | Some l \<Rightarrow> concat (map ks_Buttons (kl_Sections l)))"

lemma find_append: "find P (xs @ ys) = (case find P xs of Some x \<Rightarrow> Some x | None \<Rightarrow> find P ys)"
  by (induction xs) auto

lemma find_in_rows_concat: "find_in_rows i rows = find (\<lambda>b. kb_ID (mb_Button b) = i) (concat rows)"
  by (induction rows) (auto simp: find_append split: option.splits)

lemma clicked_button_first: "clicked_button i x = find (\<lambda>b. kb_ID (mb_Button b) = i) (all_buttons x)"
  by (simp add: clicked_button_def all_buttons_def find_in_rows_concat find_append split: option.splits)

text \<open>The actions a click leads to, if any.\<close>

definition chosen_branch :: "string \<Rightarrow> menu_args \<Rightarrow> goval list option" where
  "chosen_branch i req =
     (case find (\<lambda>b. kb_ID (mb_Button b) = i) (all_buttons (si_Interactive (ma_Request req))) of
        Some b \<Rightarrow> if mb_NextFlow b \<noteq> [] then Some (mb_NextFlow b) else ma_Default req
      | None \<Rightarrow> ma_Default req)"

section \<open>Receiving\<close>

definition command_in :: "flow \<Rightarrow> string \<Rightarrow> bool" where
  "command_in scope m = HasTrigger (TriggerCommandsName m) scope"

lemma CountTriggers_0: "CountTriggers f = 0 \<Longrightarrow> \<not> HasTrigger c f"
  by (simp add: CountTriggers_def HasTrigger_def)

lemma find_command:
  "(if CountTriggers scope > 0 then find (\<lambda>m. HasTrigger (TriggerCommandsName m) scope) msgs else None) =
     find (command_in scope) msgs"
proof (cases "CountTriggers scope > 0")
  case False
  then have "find (command_in scope) msgs = None" using CountTriggers_0 by (simp add: find_None_iff command_in_def)
  then show ?thesis using False by simp
qed (simp add: command_in_def [abs_def])

lemma conn_Set_var: "cn_variables (conn_Set ff [(k, GStr s)] c) k = Some s"
  by (simp add: conn_Set_def set_var_def)

section \<open>A dialog as a store of variables\<close>

interpretation im_vars: variables "conn_Get gj" "\<lambda>vars c. (Inr CallResponseOK, conn_Set ff vars c)" for gj ff
  by unfold_locales (simp_all add: conn_Get_def take_until_None conn_Set_var Let_def)

section \<open>Queues\<close>

definition passes :: "queue_obs \<Rightarrow> bool" where
  "passes ob = (case ob of QEvent ev _ \<Rightarrow> ev \<noteq> ''leaving'' | _ \<Rightarrow> False)"

lemma passes_simps [simp]: "passes (QEvent ev res) \<longleftrightarrow> ev \<noteq> ''leaving''" "\<not> passes QReturned" "\<not> passes QCtxDone"
  by (simp_all add: passes_def)

definition ends_with :: "(rat \<Rightarrow> string) \<Rightarrow> queue_obs \<Rightarrow> nat \<Rightarrow> 'a im_heap_scheme \<Rightarrow> 'a im_heap_scheme" where
  "ends_with ff ob a h = (case ob of
     QReturned \<Rightarrow> upd_conn a (conn_Set ff [(''cc_result'', GStr CCResultBot)]) h
   | QEvent _ res \<Rightarrow> if res \<noteq> [] then upd_conn a (conn_Set ff [(''cc_result'', GStr res)]) h else h
   | QCtxDone \<Rightarrow> h)"

lemma queue_loop_spec:
  "queue_loop ff obs a acts h =
     (case dropWhile (\<lambda>x. passes (snd x)) obs of
        [] \<Rightarrow> None
      | (rely, ob) # _ \<Rightarrow>
          Some (ok2, acts @ concat (map (\<lambda>x. if \<exists>r. snd x = QEvent ''bridged'' r then [CancelsTimers] else []) (takeWhile (\<lambda>x. passes (snd x)) obs)),
            ends_with ff ob a (rely (fold fst (takeWhile (\<lambda>x. passes (snd x)) obs) h))))"
proof (induction ff obs a acts h rule: queue_loop.induct)
  case (2 ff rely ob obs a acts h)
  show ?case
  proof (cases ob)
    case (QEvent ev res)
    then show ?thesis using 2(1) [OF refl QEvent] 2(2) [OF refl QEvent]
      by (cases "ev = ''bridged''"; cases "ev = ''leaving''") (simp_all add: ends_with_def set_vars_def del: dropWhile_eq_Nil_conv split: list.split)
  qed (simp_all add: ends_with_def set_vars_def)
qed simp

lemma queue_loop_result: "queue_loop ff obs a acts h = Some (r, acts', h') \<Longrightarrow>
    r = ok2 \<and> (\<exists>k. acts' = acts @ replicate k CancelsTimers)"
proof (induction ff obs a acts h rule: queue_loop.induct)
  case (2 ff rely ob obs a acts h)
  show ?case
  proof (cases ob)
    case (QEvent ev res)
    consider "ev = ''bridged''" | "ev = ''leaving''" | "ev \<noteq> ''bridged''" "ev \<noteq> ''leaving''" by blast
    then show ?thesis
    proof cases
      case 1
      then obtain k where "r = ok2" "acts' = (acts @ [CancelsTimers]) @ replicate k CancelsTimers"
        using 2(1) [OF refl QEvent] 2(3) QEvent by auto
      then show ?thesis by (auto intro: exI [of _ "Suc k"])
    qed (use 2(2) [OF refl QEvent] 2(3) QEvent in \<open>auto simp: set_vars_def Let_def intro: exI [of _ 0] split: if_splits\<close>)
  qed (use 2(3) in \<open>auto simp: set_vars_def intro: exI [of _ 0]\<close>)
qed simp

fun is_leave :: "queue_action \<Rightarrow> bool" where
  "is_leave (LeavesAttempt _) = True"
| "is_leave _ = False"

text \<open>Whether the dialog got into the queue.\<close>

fun joined_as :: "queue_services \<Rightarrow> queue_action list \<Rightarrow> int option" where
  "joined_as qs [] = None"
| "joined_as qs (Joins q # _) = (case qs_Join qs q of Inl _ \<Rightarrow> None | Inr (att, _) \<Rightarrow> Some att)"
| "joined_as qs (_ # acts) = joined_as qs acts"

lemma joined_as_timers: "joined_as qs (map StartsTimer ts @ acts) = joined_as qs acts"
  by (induction ts) simp_all

lemma joinQueue_cases:
  assumes "joinQueue qs ff decode delayed obs args a h = Some (r, acts, h')"
  shows "(acts = [] \<and> h' = h) \<or>
    (\<exists>ts q. acts = map StartsTimer ts @ [Joins q, CancelsTimers] \<and> h' = h \<and> joined_as qs acts = None) \<or>
    (\<exists>ts q att k h1. acts = map StartsTimer ts @ Joins q # replicate k CancelsTimers @ [LeavesAttempt att, CancelsTimers] \<and>
       joined_as qs acts = Some att \<and> h' = upd_conn a (\<lambda>c. snd (SetQueue None c)) (LeaveQueue a h1))"
proof -
  let ?c = "ih_conns h ! a"
  show ?thesis
  proof (cases "decode args")
    case (Inl err)
    then show ?thesis using assms by (simp add: joinQueue_def)
  next
    case (Inr q)
    let ?find = "if qj_QueueId q = 0 \<and> qj_QueueName q \<noteq> [] then qs_FindQueueByName qs (cn_domainId ?c) (qj_QueueName q) else Inr (qj_QueueId q)"
    show ?thesis
    proof (cases "(cn_nested ?c \<and> delayed) \<or> (\<exists>err. ?find = Inl err)")
      case True
      then show ?thesis using assms Inr by (auto simp: joinQueue_def Let_def split: if_splits)
    next
      case False
      then obtain queueId where f: "?find = Inr queueId" by (cases ?find) auto
      define ts where "ts = queue_timer_names (qj_Timers q)"
      define req where "req = join_request_of q queueId (sticky_agent qs (cn_domainId ?c) (qj_Agent q)) ?c"
      have nd: "\<not> (cn_nested ?c \<and> delayed)" using False by blast
      note eq = assms [unfolded joinQueue_def Let_def Inr sum.case f if_not_P [OF nd], folded ts_def req_def]
      show ?thesis
      proof (cases "qs_Join qs req")
        case (Inl err)
        then show ?thesis using eq joined_as_timers [of qs ts "[Joins req, CancelsTimers]"] by auto
      next
        case (Inr p)
        obtain att bridged where p: "p = (att, bridged)" by force
        from eq obtain acts' h1 where loop: "queue_loop ff obs a (map StartsTimer ts @ [Joins req] @ (if bridged then [CancelsTimers] else [])) (snd (EnterQueue a h)) = Some (r, acts', h1)"
          and fin: "acts = acts' @ [LeavesAttempt att, CancelsTimers]" "h' = upd_conn a (\<lambda>c. snd (SetQueue None c)) (LeaveQueue a h1)"
          by (auto simp: Inr p split: option.splits)
        from queue_loop_result [OF loop] obtain k where "acts' = map StartsTimer ts @ Joins req # replicate k CancelsTimers"
          by (cases bridged) (auto simp del: replicate_Suc simp: replicate_Suc [symmetric])
        then have "acts = map StartsTimer ts @ Joins req # replicate k CancelsTimers @ [LeavesAttempt att, CancelsTimers]"
          using fin(1) by simp
        then show ?thesis using fin(2) joined_as_timers [of qs ts] Inr p by auto
      qed
    qed
  qed
qed

section \<open>Properties\<close>

definition example_services :: "string im_services" where
  "example_services = \<lparr>sv_SendDocument = (\<lambda>_ _. Inr ()), sv_SendText = (\<lambda>_ _ _. Inr ()), sv_SendSystemMessage = (\<lambda>_ _. Inr ()),
     sv_SendInteractive = (\<lambda>_ _. Inr ()), sv_SetVariables = (\<lambda>_ _. Inr ()), sv_NewStruct = (\<lambda>_. Inr []), sv_NewValue = (\<lambda>_. Inr [])\<rparr>"

definition example_queue :: queue_services where
  "example_queue = \<lparr>qs_FindQueueByName = (\<lambda>_ _. Inr 7), qs_GetAgentIdByExtension = (\<lambda>_ _. None),
     qs_Join = (\<lambda>q. Inr (99, False)), qs_CancelAttempt = (\<lambda>_ _. None)\<rparr>"

definition example_join :: queue_join_arg where
  "example_join = \<lparr>qj_Priority = 0, qj_BucketId = 0, qj_QueueId = 0, qj_QueueName = ''sales'', qj_Agent = None,
     qj_Timers = [\<lparr>timer_args.tm_Name = [], tm_Interval = 5, tm_Tries = 1, tm_Offset = 0, tm_Actions = []\<rparr>]\<rparr>"

text \<open>
  C20: Whatever happens in the queue, \<open>joinQueue\<close> undoes what it did when it returns: a dialog that
  joined has left the queue, has no queue key and has given its attempt back exactly once; one
  that did not join is unchanged; and the timers it started are cancelled last.
\<close>

theorem joinQueue_undone:
  assumes "joinQueue qs ff decode delayed obs args a h = Some (r, acts, h')" "a < length (ih_conns h')"
  shows "(acts = [] \<or> last acts = CancelsTimers) \<and>
    filter is_leave acts = (case joined_as qs acts of None \<Rightarrow> [] | Some att \<Rightarrow> [LeavesAttempt att]) \<and>
    (if joined_as qs acts = None then h' = h
     else \<not> InQueue (ih_conns h' ! a) \<and> cn_queueKey (ih_conns h' ! a) = None)"
proof -
  have L: "filter is_leave (map StartsTimer ts) = []" for ts by (induction ts) simp_all
  have R: "filter is_leave (replicate k CancelsTimers) = []" for k by (induction k) simp_all
  from joinQueue_cases [OF assms(1)] show ?thesis using assms(2)
    by (elim disjE exE conjE) (auto simp: L R LeaveQueue_def InQueue_def SetQueue_def)
qed

theorem joinQueue_undone_witness:
  "\<exists>acts h'. joinQueue example_queue (\<lambda>_. []) (\<lambda>_. Inr example_join) False [(\<lambda>h. h, QEvent ''bridged'' []), (\<lambda>h. h, QEvent ''leaving'' ''abandoned'')] GNil 0 example_heap
     = Some (ok2, acts, h') \<and> filter is_leave acts = [LeavesAttempt 99] \<and> \<not> InQueue (ih_conns h' ! 0)"
proof -
  let ?j = "joinQueue example_queue (\<lambda>_. []) (\<lambda>_. Inr example_join) False [(\<lambda>h. h, QEvent ''bridged'' []), (\<lambda>h. h, QEvent ''leaving'' ''abandoned'')] GNil 0 example_heap"
  have "map_option (\<lambda>(r, acts, h'). (r, length (ih_conns h'), joined_as example_queue acts)) ?j = Some (ok2, 1, Some 99)"
    using example_heap_facts(2)
    by (simp add: joinQueue_def example_join_def example_queue_def Let_def EnterQueue_def LeaveQueue_def set_vars_def joined_as_timers enumerate_eq_zip queue_timer_names_def)
  then obtain acts h' where j: "?j = Some (ok2, acts, h')" "length (ih_conns h') = 1" "joined_as example_queue acts = Some 99" by auto
  with joinQueue_undone [OF j(1)] show ?thesis by auto
qed

text \<open>
  The wait in the queue ends with the first observation that is not an event other than leaving, and
  not before: then \<open>joinQueue\<close> returns, and the schema finds in \<open>cc_result\<close> the result of the
  attempt, or "bot" when the control was handed back to the bot.
\<close>

lemma joinQueue_result:
  assumes "decode args = Inr q" "\<not> (cn_nested (ih_conns h ! a) \<and> delayed)" "qj_QueueId q \<noteq> 0"
    "\<forall>req. \<exists>att bridged. qs_Join qs req = Inr (att, bridged)" "\<forall>x\<in>set ps. passes (snd x)" "\<not> passes ob"
  shows "joinQueue qs ff decode delayed ps args a h = None \<and>
    (\<exists>acts h'. joinQueue qs ff decode delayed (ps @ (rely, ob) # rest) args a h = Some (ok2, acts, h') \<and>
      (a < length (ih_conns h') \<longrightarrow>
        (ob = QReturned \<longrightarrow> cn_variables (ih_conns h' ! a) ''cc_result'' = Some ''bot'') \<and>
        (\<forall>res. res \<noteq> [] \<longrightarrow> ob = QEvent ''leaving'' res \<longrightarrow> cn_variables (ih_conns h' ! a) ''cc_result'' = Some res)))"
proof -
  have d: "dropWhile (\<lambda>x. passes (snd x)) ps = []" "dropWhile (\<lambda>x. passes (snd x)) (ps @ (rely, ob) # rest) = (rely, ob) # rest"
    "takeWhile (\<lambda>x. passes (snd x)) (ps @ (rely, ob) # rest) = ps"
    using assms(5,6) by (simp_all add: dropWhile_append takeWhile_append)
  let ?c = "ih_conns h ! a"
  let ?req = "join_request_of q (qj_QueueId q) (sticky_agent qs (cn_domainId ?c) (qj_Agent q)) ?c"
  obtain att bridged where j: "qs_Join qs ?req = Inr (att, bridged)" using assms(4) by blast
  define acts where "acts = map StartsTimer (queue_timer_names (qj_Timers q)) @ [Joins ?req] @ (if bridged then [CancelsTimers] else [])"
  have J: "joinQueue qs ff decode delayed obs args a h =
      (case queue_loop ff obs a acts (snd (EnterQueue a h)) of None \<Rightarrow> None
       | Some (r, acts', h1) \<Rightarrow> Some (r, acts' @ [LeavesAttempt att, CancelsTimers], upd_conn a (\<lambda>c. snd (SetQueue None c)) (LeaveQueue a h1)))" for obs
    unfolding joinQueue_def Let_def assms(1) sum.case if_not_P [OF assms(2)] using assms(3) j by (simp add: acts_def)
  have none: "queue_loop ff ps a acts (snd (EnterQueue a h)) = None" by (subst queue_loop_spec) (simp add: d(1) del: dropWhile_eq_Nil_conv)
  obtain acts' where some: "queue_loop ff (ps @ (rely, ob) # rest) a acts (snd (EnterQueue a h)) =
      Some (ok2, acts', ends_with ff ob a (rely (fold fst ps (snd (EnterQueue a h)))))"
    using queue_loop_spec [of ff "ps @ (rely, ob) # rest" a acts "snd (EnterQueue a h)"] unfolding d(2,3) by auto
  have S: "cn_variables (snd (SetQueue None c)) = cn_variables c" for c by (simp add: SetQueue_def)
  show ?thesis unfolding J none some
    by (auto simp: ends_with_def LeaveQueue_def CCResultBot_def conn_Set_var S)
qed

text \<open>
  After a menu was sent and answered, the branch that runs is that of the first button, in the order of the
  keyboard and then of the list, whose id is the answer and that has actions, and otherwise the
  default; the calling flow is cancelled behind it, and continues only when there is neither.
\<close>

lemma menu_runs_chosen_branch:
  assumes "parse args = Inr req" "SendInteractive sv (ConvertMenuRequestToStandard (ma_Request req)) (ih_conns h ! a) = (r, None)"
    "ReceiveMessage marshal ws (ma_Set req) (ma_MessageTimeout req) a h = Some (Inr (ev # evs), h1)"
  shows "MenuWithReceive sv marshal ff parse ws e rq scope args a h =
    (let h2 = upd_conn a (conn_Set ff [(ma_Set req, GStr (join_with '' '' (ev # evs)))]) h1 in
     case chosen_branch ev req of
       None \<Rightarrow> Some (ok2, scope, h2)
     | Some acts \<Rightarrow> map_option (\<lambda>(child, h3). (ok2, SetCancel (share_with child scope), h3))
         (Route e rq (Fork ev (ArrInterfaceToArrayApplication acts) scope) h2))"
  using assms
  by (simp add: MenuWithReceive_def set_vars_def Let_def chosen_branch_def clicked_button_first split: option.split)

definition example_menu :: menu_args where
  "example_menu = (let btn = (\<lambda>i acts. \<lparr>mb_Button = \<lparr>kb_ID = i, kb_Label = i, kb_Metadata = None, kb_URL = None, kb_Callback = None, kb_Request = None\<rparr>,
       mb_NextFlow = acts\<rparr>) in
     \<lparr>ma_Request = \<lparr>si_Interactive = \<lparr>in_Documents = None, in_Images = None, in_SingleUse = True,
          in_Markup = Some [\<lparr>kr_Buttons = [btn ''no'' [], btn ''hi'' [GMap [(''nothing'', GNil)]]]\<rparr>], in_ListReply = None,
          in_Placement = [], in_InputFieldState = []\<rparr>, si_Body = ''?'', si_Metadata = []\<rparr>,
      ma_Timeout = 10, ma_MessageTimeout = 0, ma_Set = ''answer'', ma_Default = None\<rparr>)"

definition heap_env :: "im_heap env" where
  "heap_env = \<lparr>env_get = (\<lambda>w v. ([], False)), env_vm = (\<lambda>s w. (Inr None, w)), env_decode_string = (\<lambda>v w. Inr []),
     env_app = (\<lambda>n. None), env_select = (\<lambda>w. ResultFirst), env_nanos = (\<lambda>w. 0), env_decode_execute = (\<lambda>v w. Inr ([], False)),
     env_decode_schema = (\<lambda>v w. Inr (0, False)), env_decode_list = (\<lambda>v w. Inl (NewInternalError ''decode'' ''list'')),
     env_schema = (\<lambda>i w. Inl (NewInternalError ''schema'' ''not found'')), env_list_check = (\<lambda>d i n w. Inr False),
     env_spawn = (\<lambda>f w. (False, w)), env_timer = (\<lambda>n w. (False, w))\<rparr>"

text \<open>The texts the dialog receives, one list for each round of waits, up to the first that fails.\<close>

fun received ::
  "(im_message \<Rightarrow> string option) \<Rightarrow> string \<Rightarrow> int \<Rightarrow> (('a im_heap_scheme \<Rightarrow> 'a im_heap_scheme) \<times> wait_outcome) list list \<Rightarrow> nat \<Rightarrow>
   'a im_heap_scheme \<Rightarrow> string list list" where
  "received marshal name mt [] a h = []"
| "received marshal name mt (ws # rounds) a h =
     (case ReceiveMessage marshal ws name mt a h of
        Some (Inr msgs, h1) \<Rightarrow> msgs # received marshal name mt rounds a h1
      | _ \<Rightarrow> [])"

lemma recvMessage_text:
  assumes "decode args = Inr argv" "ra_Set argv \<noteq> []"
  shows "recvMessage marshal ff decode rounds scope args a ss h = Some ((Some r, None), scope', ss', h') \<Longrightarrow>
    a < length (ih_conns h') \<Longrightarrow>
    \<exists>k new. k < length (received marshal (ra_Set argv) (ra_MessageTimeout argv) rounds a h) \<and>
      cn_variables (ih_conns h' ! a) (ra_Set argv) = Some (join_with (if ra_Delimiter argv \<noteq> [] then ra_Delimiter argv else '' '')
        (received marshal (ra_Set argv) (ra_MessageTimeout argv) rounds a h ! k)) \<and>
      (\<forall>m\<in>set (received marshal (ra_Set argv) (ra_MessageTimeout argv) rounds a h ! k). \<not> command_in scope' m) \<and>
      ss' = ss @ new \<and> length new = k \<and>
      (\<forall>j<k. \<exists>m\<in>set (received marshal (ra_Set argv) (ra_MessageTimeout argv) rounds a h ! j). \<exists>sc. TriggerScope (TriggerCommandsName m) sc = Inr (new ! j))"
proof (induction rounds arbitrary: scope ss h)
  case (Cons ws rounds)
  let ?d = "if ra_Delimiter argv \<noteq> [] then ra_Delimiter argv else '' ''"
  note eq = Cons.prems(1) [simplified recvMessage.simps assms Let_def find_command sum.case if_False]
  obtain out h1 where rm: "ReceiveMessage marshal ws (ra_Set argv) (ra_MessageTimeout argv) a h = Some (out, h1)"
    using eq by (auto split: option.splits)
  then obtain msgs where out: "out = Inr msgs" using eq by (cases out) auto
  let ?rs = "received marshal (ra_Set argv) (ra_MessageTimeout argv) rounds a h1"
  have rs: "received marshal (ra_Set argv) (ra_MessageTimeout argv) (ws # rounds) a h = msgs # ?rs" using rm out by simp
  show ?case
  proof (cases "find (command_in scope) msgs")
    case None
    then have h': "h' = upd_conn a (conn_Set ff [(ra_Set argv, GStr (join_with ?d msgs))]) h1" "scope' = scope" "ss' = ss"
      using eq rm out by (auto simp: set_vars_def)
    then have "cn_variables (ih_conns h' ! a) (ra_Set argv) = Some (join_with ?d msgs)"
      using Cons.prems(2) conn_Set_var by simp
    moreover have "\<forall>m\<in>set msgs. \<not> command_in scope' m" using None h'(2) by (simp add: find_None_iff)
    ultimately show ?thesis unfolding rs using h'(3) by (intro exI [of _ 0] exI [of _ "[]"]) simp
  next
    case (Some m)
    then have m: "m \<in> set msgs" "command_in scope m" by (auto simp: find_Some_iff)
    then obtain s where s: "TriggerScope (TriggerCommandsName m) scope = Inr s"
      by (auto simp: command_in_def HasTrigger_def TriggerScope_def)
    then have "recvMessage marshal ff decode rounds (share_with s scope) args a (ss @ [s]) h1 = Some ((Some r, None), scope', ss', h')"
      using eq rm out Some by simp
    from Cons.IH [OF this Cons.prems(2)] obtain k new where IH: "k < length ?rs"
      "cn_variables (ih_conns h' ! a) (ra_Set argv) = Some (join_with ?d (?rs ! k))" "\<forall>m\<in>set (?rs ! k). \<not> command_in scope' m"
      "ss' = (ss @ [s]) @ new" "length new = k" "\<forall>j<k. \<exists>m\<in>set (?rs ! j). \<exists>sc. TriggerScope (TriggerCommandsName m) sc = Inr (new ! j)" by blast
    have "\<exists>m\<in>set ((msgs # ?rs) ! j). \<exists>sc. TriggerScope (TriggerCommandsName m) sc = Inr ((s # new) ! j)" if "j < Suc k" for j
      using that IH(6) m(1) s by (cases j) auto
    then show ?thesis unfolding rs using IH by (intro exI [of _ "Suc k"] exI [of _ "s # new"]) simp
  qed
qed simp

text \<open>
  C21: A message that is a command with a trigger starts the trigger and is not taken for an answer: when
  \<open>recvMessage\<close> succeeds, the variable holds the texts received in some round, joined by the delimiter;
  none of these texts, each taken for itself, is a command of the schema, and each of the rounds before
  had a command, whose trigger was started, in order.
\<close>

theorem recvMessage_skips_commands:
  assumes "recvMessage marshal ff decode rounds scope args a [] h = Some ((Some r, None), scope', ss, h')"
    "decode args = Inr argv" "ra_Set argv \<noteq> []" "a < length (ih_conns h')"
  shows "let rs = received marshal (ra_Set argv) (ra_MessageTimeout argv) rounds a h in
    length ss < length rs \<and>
    cn_variables (ih_conns h' ! a) (ra_Set argv) = Some (join_with (if ra_Delimiter argv \<noteq> [] then ra_Delimiter argv else '' '') (rs ! length ss)) \<and>
    (\<forall>m\<in>set (rs ! length ss). \<not> command_in scope' m) \<and>
    (\<forall>j<length ss. \<exists>m\<in>set (rs ! j). \<exists>sc. TriggerScope (TriggerCommandsName m) sc = Inr (ss ! j))"
  using recvMessage_text [OF assms(2,3,1,4)] unfolding Let_def by auto

theorem recvMessage_skips_commands_witness:
  "let scope = ex_new [[(''trigger'', GMap [(''commands'', GMap [(''stop'', GArr [GMap (app_log ''s'')])])])]];
       arg = \<lparr>ra_Timeout = 10, ra_MessageTimeout = 0, ra_Delimiter = [], ra_Set = ''answer''\<rparr>;
       rounds = [[(\<lambda>h. h, Got (example_message [] ''t'' ''stop''))], [(\<lambda>h. h, Got (example_message [] ''t'' ''hi''))]]
   in \<exists>scope' s h'. recvMessage (\<lambda>_. None) (\<lambda>_. []) (\<lambda>_. Inr arg) rounds scope GNil 0 [] example_heap =
        Some ((Some CallResponseOK, None), scope', [s], h') \<and>
      received (\<lambda>_. None) ''answer'' 0 rounds 0 example_heap = [[''stop''], [''hi'']] \<and>
      cn_variables (ih_conns h' ! 0) ''answer'' = Some ''hi'' \<and> \<not> command_in scope' ''hi''"
proof -
  let ?scope = "ex_new [[(''trigger'', GMap [(''commands'', GMap [(''stop'', GArr [GMap (app_log ''s'')])])])]]"
  let ?arg = "\<lparr>ra_Timeout = 10, ra_MessageTimeout = 0, ra_Delimiter = [], ra_Set = ''answer''\<rparr>"
  let ?rounds = "[[(\<lambda>h :: im_heap. h, Got (example_message [] ''t'' ''stop''))], [(\<lambda>h. h, Got (example_message [] ''t'' ''hi''))]]"
  let ?r = "recvMessage (\<lambda>_. None) (\<lambda>_. []) (\<lambda>_. Inr ?arg) ?rounds ?scope GNil 0 [] example_heap"
  have "map_option (\<lambda>(r, sc, st, h'). (r, length st, length (ih_conns h'))) ?r = Some ((Some CallResponseOK, None), 1, 1)" by code_simp
  then obtain scope' s h' where r: "?r = Some ((Some CallResponseOK, None), scope', [s], h')" "length (ih_conns h') = 1"
    by (auto simp: length_Suc_conv)
  have rs: "received (\<lambda>_. None) ''answer'' 0 ?rounds 0 example_heap = [[''stop''], [''hi'']]" by code_simp
  have j: "join_with '' '' [''hi''] = ''hi''" by code_simp
  have "cn_variables (ih_conns h' ! 0) ''answer'' = Some ''hi'' \<and> \<not> command_in scope' ''hi''"
    using recvMessage_skips_commands [OF r(1) refl] r(2) rs j by (simp del: received.simps add: Let_def)
  then show ?thesis unfolding Let_def using r(1) rs by blast
qed

text \<open>
  The string application encodes a text into one variable of a dialog and decodes that variable into
  another: the second holds the text, whatever its bytes.
\<close>

lemma base64_through_dialog:
  assumes "decode e = Inr \<lparr>sg_SetVar = x, sg_Fn = ''base64'', sg_Data = s, sg_Args = [GStr ''encoder'']\<rparr>"
    "\<And>t. decode' t d = Inr \<lparr>sg_SetVar = y, sg_Fn = ''base64'', sg_Data = t, sg_Args = [GStr ''decoder'']\<rparr>"
    "x \<noteq> []" "CHR ''.'' \<notin> set x" "y \<noteq> []" "CHR ''.'' \<notin> set y" "\<And>w. se_sprint se (GStr w) = w"
  shows "let setv = (\<lambda>vars c. (Inr CallResponseOK, conn_Set ff vars c)) in \<exists>r c1 r' c2. stringApp se decode setv e c = Some (Inr r, c1) \<and>
     stringApp se (decode' (fst (conn_Get gj c1 x))) setv d c1 = Some (Inr r', c2) \<and> conn_Get gj c2 y = (s, True)"
  unfolding Let_def
  by (rule im_vars.base64_through_variables) (use assms in auto)

end
