(* ===== verification/Chat_Conversation.thy ===== *)
theory Chat_Conversation
  imports Im_Connection Lru_Cache
begin

text \<open>
  A chat conversation (\<open>providers/grpc/conversation.go\<close>): its variables, its message history, the
  bridge to an operator, the wait for messages and its end.

  Conversations are shared by pointer between the server, the table of active conversations and the
  running schema; a pointer is an index into \<open>cw_convs\<close>.  A bridge channel is an index into
  \<open>cw_bridges\<close>, which tells whether it is closed; closing a closed channel panics (\<open>None\<close>).  The
  requests to the chat service are recorded in \<open>cw_calls\<close> with the client they go through; the
  service's answers (\<open>chat_service\<close>) are an argument.
\<close>

section \<open>Data\<close>

record chat_proto_button =
  pb_Text :: string
  pb_Type :: string
  pb_Url :: string
  pb_Code :: string

record proto_file =
  pf_Id :: int
  pf_Url :: string
  pf_Mime :: string
  pf_Name :: string
  pf_Size :: int

text \<open>A message of the chat service; of a contact and of a sender only the text and the first name are read.\<close>

record proto_message =
  pm_Type :: string
  pm_Text :: string
  pm_Buttons :: "chat_proto_button list list"
  pm_Inline :: "chat_proto_button list list"
  pm_File :: "proto_file option"
  pm_NoInput :: bool
  pm_Kind :: string
  pm_Contact :: "string option"
  pm_From :: "string option"
  pm_Variables :: "(string \<times> string) list"

definition empty_message :: proto_message where
  "empty_message = \<lparr>pm_Type = [], pm_Text = [], pm_Buttons = [], pm_Inline = [], pm_File = None, pm_NoInput = False,
     pm_Kind = [], pm_Contact = None, pm_From = None, pm_Variables = []\<rparr>"

definition getChatButtons :: "chat_button list list \<Rightarrow> chat_proto_button list list" where
  "getChatButtons buttons =
     map (map (\<lambda>b. \<lparr>pb_Text = bt_Text b, pb_Type = bt_Type b, pb_Url = bt_Url b, pb_Code = bt_Code b\<rparr>)) buttons"

definition getFile :: "im_file option \<Rightarrow> proto_file option" where
  "getFile f = map_option (\<lambda>f. \<lparr>pf_Id = fi_Id f, pf_Url = fi_Url f, pf_Mime = fi_MimeType f, pf_Name = fi_Name f, pf_Size = fi_Size f\<rparr>) f"

record chat_message =
  cm_Text :: string
  cm_CreatedAt :: string
  cm_Type :: string
  cm_User :: string
  cm_IsInternal :: bool

definition pettyMessage :: "proto_message \<Rightarrow> chat_message" where
  "pettyMessage m =
     \<lparr>cm_Text = (if pm_Text m = [] then (case pm_Contact m of Some c \<Rightarrow> c | None \<Rightarrow> (case pm_File m of Some f \<Rightarrow> pf_Name f | None \<Rightarrow> [])) else pm_Text m),
      cm_CreatedAt = [], cm_Type = pm_Type m, cm_User = (case pm_From m of Some u \<Rightarrow> u | None \<Rightarrow> []), cm_IsInternal = True\<rparr>"

text \<open>A contact message without contact gives no text.\<close>

fun chat_messageToText :: "proto_message list \<Rightarrow> string list" where
  "chat_messageToText [] = []"
| "chat_messageToText (m # ms) =
     (if pm_Type m = ''contact'' then (case pm_Contact m of Some c \<Rightarrow> [c] | None \<Rightarrow> []) else [pm_Text m]) @ chat_messageToText ms"

datatype close_cause = NoCause | FlowEnd | ClientLeave | FlowErr

datatype api_call =
    SetVariablesCall string "string \<rightharpoonup> string"
  | SendMessageCall string proto_message
  | CloseConversationCall string close_cause
  | WaitMessageCall string string
  | InviteCall int int int "string \<rightharpoonup> string" string

fun is_close :: "api_call \<Rightarrow> bool" where
  "is_close (CloseConversationCall _ _) = True"
| "is_close _ = False"

text \<open>The answers of the service: an error text, or what the caller reads of the reply.\<close>

record chat_service =
  cs_SendMessage :: "string \<Rightarrow> string \<Rightarrow> proto_message \<Rightarrow> string option"
  cs_WaitMessage :: "string \<Rightarrow> string \<Rightarrow> string \<Rightarrow> string + proto_message list \<times> int"
  cs_Invite :: "string \<Rightarrow> api_call \<Rightarrow> string option"

text \<open>\<open>InQueueKey\<close>; keys are compared by pointer, the first component.\<close>

record in_queue_key =
  qk_ptr :: nat
  qk_AttemptId :: int
  qk_AppId :: string

record conversation =
  cv_id :: string
  cv_profileId :: int
  cv_schemaId :: int
  cv_domainId :: int
  cv_variables :: "string \<rightharpoonup> string"
  cv_client :: string
  cv_cancelled :: bool
  cv_storeMessages :: "string \<rightharpoonup> string"
  cv_chBridge :: "nat option"
  cv_breakCause :: string
  cv_confirmation :: "string \<rightharpoonup> nat"
  cv_exportVariables :: "string list"
  cv_nodeId :: string
  cv_userId :: int
  cv_queueKey :: "in_queue_key option"
  cv_messages :: "proto_message list"

definition NewConversation :: "string \<Rightarrow> string \<Rightarrow> int \<Rightarrow> int \<Rightarrow> int \<Rightarrow> int \<Rightarrow> conversation" where
  "NewConversation cli cid domainId profileId schemaId userId =
     \<lparr>cv_id = cid, cv_profileId = profileId, cv_schemaId = schemaId, cv_domainId = domainId, cv_variables = Map.empty, cv_client = cli,
      cv_cancelled = False, cv_storeMessages = Map.empty, cv_chBridge = None, cv_breakCause = [], cv_confirmation = Map.empty,
      cv_exportVariables = [], cv_nodeId = cli, cv_userId = userId, cv_queueKey = None, cv_messages = []\<rparr>"

record chat_world =
  cw_convs :: "conversation list"
  cw_bridges :: "bool list"
  cw_waits :: nat
  cw_table :: "(string, nat) lru"
  cw_consume :: "nat list"
  cw_calls :: "(string \<times> api_call) list"

definition upd_conv :: "nat \<Rightarrow> (conversation \<Rightarrow> conversation) \<Rightarrow> chat_world \<Rightarrow> chat_world" where
  "upd_conv a f w = w\<lparr>cw_convs := (cw_convs w)[a := f (cw_convs w ! a)]\<rparr>"

definition api :: "nat \<Rightarrow> api_call \<Rightarrow> chat_world \<Rightarrow> chat_world" where
  "api a call w = w\<lparr>cw_calls := cw_calls w @ [(cv_client (cw_convs w ! a), call)]\<rparr>"

section \<open>Variables\<close>

definition conv_Get :: "(string \<Rightarrow> string \<Rightarrow> string) \<Rightarrow> conversation \<Rightarrow> string \<Rightarrow> string \<times> bool" where
  "conv_Get gj c name =
     (let direct = (case cv_variables c name of Some v \<Rightarrow> (v, True) | None \<Rightarrow> ([], False)) in
      case take_until CHR ''.'' name of
        Some (nameRoot, path) \<Rightarrow>
          (if nameRoot = [] then direct
           else case cv_storeMessages c nameRoot of
               Some m \<Rightarrow> (gj m path, True)
             | None \<Rightarrow> (case cv_variables c nameRoot of Some v \<Rightarrow> (gj v path, True) | None \<Rightarrow> direct))
      | None \<Rightarrow> direct)"

definition conv_Set :: "(rat \<Rightarrow> string) \<Rightarrow> (string \<times> goval) list \<Rightarrow> conversation \<Rightarrow> conversation" where
  "conv_Set ff vars c = fold (\<lambda>(k, v) c. c\<lparr>cv_variables := (cv_variables c)(k \<mapsto> sprint_v ff v)\<rparr>) vars c"

text \<open>The values of the exported variables; nil, read as empty, when nothing is exported.\<close>

definition conv_DumpExportVariables :: "(string \<Rightarrow> string \<Rightarrow> string) \<Rightarrow> conversation \<Rightarrow> string \<rightharpoonup> string" where
  "conv_DumpExportVariables gj c = fold (\<lambda>v m. m(v \<mapsto> to_valid_utf8 (fst (conv_Get gj c v)))) (cv_exportVariables c) Map.empty"

definition transfer_vars :: "(string \<Rightarrow> string \<Rightarrow> string) \<Rightarrow> conversation \<Rightarrow> string list \<Rightarrow> string \<rightharpoonup> string" where
  "transfer_vars gj c vars = fold (\<lambda>v m. m(v \<mapsto> to_valid_utf8 (fst (conv_Get gj c v)))) vars Map.empty"

definition conv_Export ::
  "(string \<Rightarrow> string \<Rightarrow> string) \<Rightarrow> (rat \<Rightarrow> string) \<Rightarrow> string list \<Rightarrow> nat \<Rightarrow> chat_world \<Rightarrow> response result \<times> chat_world" where
  "conv_Export gj ff vars a w =
     (let c = cw_convs w ! a;
          ex = map (\<lambda>v. (''usr_'' @ v, GStr (to_valid_utf8 (fst (conv_Get gj c v))))) vars;
          w1 = upd_conv a (\<lambda>c. c\<lparr>cv_exportVariables := cv_exportVariables c @ vars\<rparr>) w
      in if 0 < length ex
         then (Inr CallResponseOK, upd_conv a (conv_Set ff ex) (api a (SetVariablesCall (cv_id c) (transfer_vars gj c vars)) w1))
         else (Inr CallResponseOK, w1))"

definition conv_UnSet :: "(rat \<Rightarrow> string) \<Rightarrow> string list \<Rightarrow> nat \<Rightarrow> chat_world \<Rightarrow> response result \<times> chat_world" where
  "conv_UnSet ff ks a w =
     (Inr CallResponseOK,
      upd_conv a (conv_Set ff (map (\<lambda>k. (k, GStr [])) ks))
        (api a (SetVariablesCall (cv_id (cw_convs w ! a)) (fold (\<lambda>k m. m(k \<mapsto> [])) ks Map.empty)) w))"

definition conv_SetQueue :: "in_queue_key option \<Rightarrow> conversation \<Rightarrow> bool \<times> conversation" where
  "conv_SetQueue key c =
     (if map_option qk_ptr (cv_queueKey c) = map_option qk_ptr key then (False, c) else (True, c\<lparr>cv_queueKey := key\<rparr>))"

definition actualizeClient :: "string \<Rightarrow> conversation \<Rightarrow> conversation" where
  "actualizeClient cli c = (if cli \<noteq> cv_client c then c\<lparr>cv_client := cli\<rparr> else c)"

section \<open>Break and transfer\<close>

definition BreakChatTransferCause :: string where "BreakChatTransferCause = ''TRANSFER''"

text \<open>
  \<open>strings.EqualFold\<close> with an ASCII word: a letter equals both its cases, and the letters s and k
  also equal U+017F and U+212A, which fold to them.
\<close>

definition lower_code :: "nat \<Rightarrow> nat" where
  "lower_code n = (if 65 \<le> n \<and> n \<le> 90 then n + 32 else n)"

definition rune_folds :: "nat option \<times> string \<Rightarrow> char \<Rightarrow> bool" where
  "rune_folds r c = (case fst r of None \<Rightarrow> False | Some n \<Rightarrow>
     (let m = lower_code (of_char c) in lower_code n = m \<or> (n = 0x17F \<and> m = 115) \<or> (n = 0x212A \<and> m = 107)))"

definition EqualFold :: "string \<Rightarrow> string \<Rightarrow> bool" where
  "EqualFold s word = list_all2 rune_folds (runes s) word"

definition IsTransfer :: "conversation \<Rightarrow> bool" where
  "IsTransfer c = (if cv_breakCause c = [] then False else EqualFold (cv_breakCause c) BreakChatTransferCause)"

definition setTransferVariable :: "(string \<Rightarrow> string \<Rightarrow> string) \<Rightarrow> (rat \<Rightarrow> string) \<Rightarrow> nat \<Rightarrow> chat_world \<Rightarrow> chat_world" where
  "setTransferVariable gj ff a w =
     (let c = cw_convs w ! a;
          w1 = (if IsTransfer c
                then api a (SetVariablesCall (cv_id c) ((conv_DumpExportVariables gj c)(''chat_transferred'' \<mapsto> ''true''))) w
                else w)
      in upd_conv a (conv_Set ff [(''chat_transferred'', GStr ''false'')]) w1)"

definition closeIfBreak :: "nat \<Rightarrow> chat_world \<Rightarrow> chat_world option" where
  "closeIfBreak a w =
     (case cv_chBridge (cw_convs w ! a) of
        None \<Rightarrow> Some w
      | Some ch \<Rightarrow>
          if cw_bridges w ! ch then None
          else Some (upd_conv a (\<lambda>c. c\<lparr>cv_chBridge := None\<rparr>) (w\<lparr>cw_bridges := (cw_bridges w)[ch := True]\<rparr>)))"

definition conv_Break :: "(string \<Rightarrow> string \<Rightarrow> string) \<Rightarrow> (rat \<Rightarrow> string) \<Rightarrow> string \<Rightarrow> nat \<Rightarrow> chat_world \<Rightarrow> chat_world option" where
  "conv_Break gj ff cause a w =
     map_option (\<lambda>w1. upd_conv a (\<lambda>c. c\<lparr>cv_cancelled := True\<rparr>)
       (setTransferVariable gj ff a (upd_conv a (\<lambda>c. c\<lparr>cv_breakCause := cause\<rparr>) w1))) (closeIfBreak a w)"

section \<open>Sending\<close>

definition contains :: "string \<Rightarrow> string \<Rightarrow> bool" where
  "contains s sub = list_ex (\<lambda>i. has_prefix (drop i s) sub) [0..<Suc (length s)]"

definition closed_mark :: string where
  "closed_mark = [CHR 0x22] @ ''id'' @ [CHR 0x22, CHR '':'', CHR 0x22] @ ''chat.send.channel.from.closed'' @ [CHR 0x22]"

definition saveMessages :: "proto_message list \<Rightarrow> nat \<Rightarrow> chat_world \<Rightarrow> chat_world" where
  "saveMessages msgs a w = upd_conv a (\<lambda>c. c\<lparr>cv_messages := cv_messages c @ msgs\<rparr>) w"

text \<open>Sends and remembers a message; an error that says the channel is closed ends the conversation.\<close>

definition conv_sendMessage ::
  "(string \<Rightarrow> string \<Rightarrow> string) \<Rightarrow> (rat \<Rightarrow> string) \<Rightarrow> chat_service \<Rightarrow> proto_message \<Rightarrow> nat \<Rightarrow> chat_world \<Rightarrow>
   (app_error option \<times> chat_world) option" where
  "conv_sendMessage gj ff sv m a w =
     (let c = cw_convs w ! a; w1 = api a (SendMessageCall (cv_id c) m) w in
      case cs_SendMessage sv (cv_client c) (cv_id c) m of
        None \<Rightarrow> Some (None, saveMessages [m] a w1)
      | Some textErr \<Rightarrow>
          map_option (\<lambda>w2. (Some (NewAppError ''Conversation.SendTextMessage'' ''conv.send_msg.app_err'' [] textErr 500), w2))
            (if contains textErr closed_mark then conv_Break gj ff ''error'' a (api a (CloseConversationCall (cv_id c) FlowErr) w1)
             else Some w1))"

definition send_as ::
  "string \<Rightarrow> string \<Rightarrow> (string \<Rightarrow> string \<Rightarrow> string) \<Rightarrow> (rat \<Rightarrow> string) \<Rightarrow> chat_service \<Rightarrow> proto_message \<Rightarrow> nat \<Rightarrow> chat_world \<Rightarrow>
   (response result \<times> chat_world) option" where
  "send_as whr eid gj ff sv m a w =
     map_option (\<lambda>(er, w'). (case er of Some er \<Rightarrow> Inl (NewAppError whr eid [] (AppError_Error er) 500) | None \<Rightarrow> Inr CallResponseOK, w'))
       (conv_sendMessage gj ff sv m a w)"

definition conv_SendMessage where
  "conv_SendMessage gj ff sv msg a w =
     send_as ''Conversation.SendMessage'' ''conv.send.any.app_err'' gj ff sv
       \<lparr>pm_Type = co_Type msg, pm_Text = co_Text msg, pm_Buttons = getChatButtons (co_Buttons msg), pm_Inline = getChatButtons (co_Inline msg),
        pm_File = getFile (co_File msg), pm_NoInput = co_NoInput msg, pm_Kind = co_Kind msg, pm_Contact = None, pm_From = None, pm_Variables = []\<rparr> a w"

definition conv_SendTextMessage where
  "conv_SendTextMessage gj ff sv text a w =
     send_as ''Conversation.SendTextMessage'' ''conv.send.text.app_err'' gj ff sv (empty_message\<lparr>pm_Type := ''text'', pm_Text := text\<rparr>) a w"

definition conv_SendMenu where
  "conv_SendMenu gj ff sv menu a w =
     send_as ''Conversation.SendMenu'' ''conv.send.menu.app_err'' gj ff sv
       (empty_message\<lparr>pm_Type := ''text'', pm_Text := mn_Text menu, pm_Buttons := getChatButtons (mn_Buttons menu),
          pm_NoInput := mn_NoInput menu, pm_Kind := mn_Kind menu\<rparr>) a w"

definition conv_SendImageMessage where
  "conv_SendImageMessage gj ff sv url name text kind a w =
     send_as ''Conversation.SendImageMessage'' ''conv.send.image.app_err'' gj ff sv
       (empty_message\<lparr>pm_Type := ''file'', pm_Text := text, pm_Kind := kind,
          pm_File := Some \<lparr>pf_Id = 0, pf_Url = url, pf_Mime = [], pf_Name = name, pf_Size = 0\<rparr>\<rparr>) a w"

definition conv_SendFile where
  "conv_SendFile gj ff sv text f kind a w =
     send_as ''Conversation.SendFile'' ''conv.send.file.app_err'' gj ff sv
       (empty_message\<lparr>pm_Type := ''file'', pm_Text := text, pm_Kind := kind, pm_File := getFile f\<rparr>) a w"

text \<open>The last messages; a negative limit panics.\<close>

definition conv_LastMessages :: "int \<Rightarrow> conversation \<Rightarrow> chat_message list option" where
  "conv_LastMessages limit c =
     (let cnt = int (length (cv_messages c)) in
      if cnt = 0 then Some []
      else (let limit' = (if cnt < limit then cnt else limit) in
            if limit' < 0 then None else Some (map pettyMessage (drop (nat (cnt - limit')) (cv_messages c)))))"

section \<open>Receiving\<close>

definition addConfirmationId :: "string \<Rightarrow> nat \<Rightarrow> nat \<Rightarrow> chat_world \<Rightarrow> chat_world" where
  "addConfirmationId i ch a w = upd_conv a (\<lambda>c. c\<lparr>cv_confirmation := (cv_confirmation c)(i \<mapsto> ch)\<rparr>) w"

definition deleteConfirmationId :: "string \<Rightarrow> nat \<Rightarrow> chat_world \<Rightarrow> chat_world" where
  "deleteConfirmationId i a w = upd_conv a (\<lambda>c. c\<lparr>cv_confirmation := (cv_confirmation c)(i := None)\<rparr>) w"

definition ChatErrWaitMessageTimeout :: app_error where
  "ChatErrWaitMessageTimeout = NewAppError ''Conversation.WaitMessage'' ''conv.timeout.msg'' [] ''Timeout'' 500"

text \<open>How a wait ends: the context of the conversation, the timer, or messages on the channel.\<close>

datatype chat_wait = WaitCancelled | WaitTimeout | WaitGot "proto_message list"

text \<open>
  One wait: the identifier \<open>NewId\<close> gives it, and, for a number of seconds to wait, what happens to
  the world during the wait and how it ends.
\<close>

type_synonym wait_round = "string \<times> (int \<Rightarrow> (chat_world \<Rightarrow> chat_world) \<times> chat_wait)"

definition chat_receive :: "chat_service \<Rightarrow> wait_round \<Rightarrow> int \<Rightarrow> nat \<Rightarrow> chat_world \<Rightarrow> proto_message list result \<times> chat_world" where
  "chat_receive sv r timeout a w =
     (let c = cw_convs w ! a; cid = cv_id c; i = fst r;
          w1 = api a (WaitMessageCall cid i) (addConfirmationId i (cw_waits w) a (w\<lparr>cw_waits := Suc (cw_waits w)\<rparr>))
      in case cs_WaitMessage sv (cv_client c) cid i of
           Inl er \<Rightarrow> (Inl (NewAppError ''Conversation.WaitMessage'' ''conv.wait.msg.app_err'' [] er 500), deleteConfirmationId i a w1)
         | Inr (msgs, secs) \<Rightarrow>
             if msgs \<noteq> [] then (Inr msgs, deleteConfirmationId i a w1)
             else (case snd r (if timeout = 0 then secs else timeout) of
                 (rely, WaitCancelled) \<Rightarrow>
                   (Inl (NewAppError ''Conversation.WaitMessage'' ''conv.timeout.msg.app_err'' [] ''Cancel'' 500), deleteConfirmationId i a (rely w1))
               | (rely, WaitTimeout) \<Rightarrow> (Inl ChatErrWaitMessageTimeout, deleteConfirmationId i a (rely w1))
               | (rely, WaitGot ms) \<Rightarrow> (Inr ms, deleteConfirmationId i a (rely w1))))"

text \<open>The loop that collects further messages until a wait fails; \<open>None\<close> where the rounds are used up.\<close>

fun chat_receive_more :: "chat_service \<Rightarrow> wait_round list \<Rightarrow> int \<Rightarrow> nat \<Rightarrow> proto_message list \<Rightarrow> chat_world \<Rightarrow> (proto_message list \<times> chat_world) option" where
  "chat_receive_more sv [] timeout a msgs w = None"
| "chat_receive_more sv (r # rs) timeout a msgs w =
     (case chat_receive sv r timeout a w of
        (Inl _, w1) \<Rightarrow> Some (msgs, w1)
      | (Inr m, w1) \<Rightarrow> chat_receive_more sv rs timeout a (msgs @ m) w1)"

definition conv_ReceiveMessage ::
  "(proto_message \<Rightarrow> string) \<Rightarrow> chat_service \<Rightarrow> wait_round list \<Rightarrow> string \<Rightarrow> int \<Rightarrow> int \<Rightarrow> nat \<Rightarrow> chat_world \<Rightarrow>
   (string list result \<times> chat_world) option" where
  "conv_ReceiveMessage marshal sv rounds name timeout messageTimeout a w =
     (case rounds of
        [] \<Rightarrow> None
      | r # rs \<Rightarrow>
          (case chat_receive sv r timeout a w of
             (Inl er, w1) \<Rightarrow> Some (Inl er, w1)
           | (Inr msgs, w1) \<Rightarrow>
               map_option (\<lambda>(msgs, w2).
                 (Inr (chat_messageToText msgs),
                  saveMessages msgs a
                    (if msgs \<noteq> [] \<and> name \<noteq> []
                     then upd_conv a (\<lambda>c. c\<lparr>cv_storeMessages := (cv_storeMessages c)(name \<mapsto> marshal (hd msgs))\<rparr>) w2 else w2)))
                 (if messageTimeout > 0 then chat_receive_more sv rs messageTimeout a msgs w1 else Some (msgs, w1))))"

section \<open>Bridge and end\<close>

text \<open>
  How a bridge ends: with an error, when its channel is closed, or not at all.  \<open>during\<close> is what
  others do while the invitation is under way, \<open>after\<close> what they do then: the receive reads the
  field \<open>chBridge\<close> only when the invitation has returned, and a receive from a nil channel waits for
  ever.
\<close>

datatype bridge_end = BridgeFails app_error | BridgeOver | BridgeBlocks

definition conv_Bridge ::
  "(string \<Rightarrow> string \<Rightarrow> string) \<Rightarrow> chat_service \<Rightarrow> (chat_world \<Rightarrow> chat_world) \<Rightarrow> (chat_world \<Rightarrow> chat_world) \<Rightarrow> int \<Rightarrow> int \<Rightarrow> nat \<Rightarrow>
   chat_world \<Rightarrow> bridge_end \<times> chat_world" where
  "conv_Bridge gj sv during after userId timeout a w =
     (let c = cw_convs w ! a in
      if cv_chBridge c \<noteq> None
      then (BridgeFails (NewAppError ''Conversation.Bridge'' ''conv.bridge.app_err'' [] ''Not allow two bridge'' 500), w)
      else (let ch = length (cw_bridges w);
                vars = fold (\<lambda>v m. case conv_Get gj c v of (val, ok) \<Rightarrow> if ok then m(v \<mapsto> val) else m) (cv_exportVariables c) Map.empty;
                call = InviteCall userId (cv_domainId c) timeout vars (cv_id c);
                w1 = api a call (upd_conv a (\<lambda>c. c\<lparr>cv_chBridge := Some ch\<rparr>) (w\<lparr>cw_bridges := cw_bridges w @ [False]\<rparr>))
            in case cs_Invite sv (cv_client c) call of
                 Some er \<Rightarrow> (BridgeFails (NewAppError ''Conversation.Bridge'' ''conv.bridge.app_err'' [] er 500), during w1)
               | None \<Rightarrow>
                   (let w2 = during w1; w3 = after w2 in
                    case cv_chBridge (cw_convs w2 ! a) of
                      None \<Rightarrow> (BridgeBlocks, w3)
                    | Some ch' \<Rightarrow> (if cw_bridges w3 ! ch' then BridgeOver else BridgeBlocks, w3))))"

definition conv_Stop :: "app_error option \<Rightarrow> close_cause \<Rightarrow> nat \<Rightarrow> chat_world \<Rightarrow> chat_world" where
  "conv_Stop er cause a w =
     (let c = cw_convs w ! a;
          cause' = (if er \<noteq> None then FlowErr else cause);
          w1 = (if cv_breakCause c = [] then api a (CloseConversationCall (cv_id c) cause') w else w)
      in w1\<lparr>cw_table := lru_Remove (cv_id c) (cw_table w1)\<rparr>)"

section \<open>Talking to a bot\<close>

fun replace_stars :: "string \<Rightarrow> string" where
  "replace_stars (x # y # s) = (if x = CHR ''*'' \<and> y = CHR ''*'' then CHR ''*'' # replace_stars s else x # replace_stars (y # s))"
| "replace_stars s = s"

text \<open>
  The loop over the answers of the bot: each is what the goroutine that forwards messages does
  meanwhile, and the text received (\<open>None\<close>: the stream fails, and the application ends).
\<close>

fun bot_loop ::
  "(string \<Rightarrow> string \<Rightarrow> string) \<Rightarrow> (rat \<Rightarrow> string) \<Rightarrow> chat_service \<Rightarrow> ((chat_world \<Rightarrow> chat_world) \<times> string option) list \<Rightarrow> nat \<Rightarrow> chat_world \<Rightarrow>
   (response \<times> chat_world) option" where
  "bot_loop gj ff sv [] a w = None"
| "bot_loop gj ff sv ((rely, ans) # rs) a w =
     (case ans of
        None \<Rightarrow> Some (CallResponseError, rely w)
      | Some text \<Rightarrow>
          if text = [] then bot_loop gj ff sv rs a (rely w)
          else (case conv_SendTextMessage gj ff sv (replace_stars text) a (rely w) of
              None \<Rightarrow> None
            | Some (_, w1) \<Rightarrow> bot_loop gj ff sv rs a w1))"

definition conv_Bot ::
  "(string \<Rightarrow> string \<Rightarrow> string) \<Rightarrow> (rat \<Rightarrow> string) \<Rightarrow> chat_service \<Rightarrow> bool \<Rightarrow> bool \<Rightarrow> ((chat_world \<Rightarrow> chat_world) \<times> string option) list \<Rightarrow> nat \<Rightarrow>
   chat_world \<Rightarrow> (response \<times> chat_world) option" where
  "conv_Bot gj ff sv opened configured answers a w =
     (if \<not> opened \<or> \<not> configured then Some (CallResponseError, w) else bot_loop gj ff sv answers a w)"

end
