(* ===== verification/Chat_Server.thy ===== *)
theory Chat_Server
  imports Chat_Conversation Flow_Nested Im_Runner
begin

text \<open>
  The chat server (\<open>providers/grpc/chat_server.go\<close>), which starts conversations and takes the events of
  the chat service, and the router that runs the schema of a conversation (\<open>routes/chat/router.go\<close>).
\<close>

section \<open>Requests\<close>

definition activeConversationCacheSize :: int where "activeConversationCacheSize = 50000"
definition maximumInactiveChat :: int where "maximumInactiveChat = 0"

datatype go_error = PlainErr string | AppErr app_error

definition NewChatApi :: chat_world where
  "NewChatApi = \<lparr>cw_convs = [], cw_bridges = [], cw_waits = 0, cw_table = NewLru activeConversationCacheSize, cw_consume = [], cw_calls = []\<rparr>"

definition compactHeaderValue :: "string list \<Rightarrow> string" where
  "compactHeaderValue src = (case src of x # _ \<Rightarrow> x | [] \<Rightarrow> [])"

text \<open>
  The client a request came from: the headers of the service name and id, if the request has
  metadata, name a connection of the pool, which answers with the connection or an error.
\<close>

type_synonym headers = "(string list \<times> string list) option"

definition getClientFromRequest :: "(string \<Rightarrow> string + string) \<Rightarrow> string \<Rightarrow> headers \<Rightarrow> string + string" where
  "getClientFromRequest pool notFound hdr =
     (case hdr of Some (svc, sid) \<Rightarrow> pool (compactHeaderValue svc @ ''-'' @ compactHeaderValue sid) | None \<Rightarrow> Inl notFound)"

record start_request =
  sr_ConversationId :: string
  sr_DomainId :: int
  sr_ProfileId :: int
  sr_SchemaId :: int
  sr_UserId :: int
  sr_Message :: "proto_message option"

definition ConversationStartMessageVariable :: string where "ConversationStartMessageVariable = ''start_message''"
definition ConversationSessionId :: string where "ConversationSessionId = ''uuid''"
definition ConversationProfileId :: string where "ConversationProfileId = ''wbt_profile_id''"

text \<open>The variables and history a conversation starts with.\<close>

definition start_conversation :: "(rat \<Rightarrow> string) \<Rightarrow> (proto_message \<Rightarrow> string) \<Rightarrow> string \<Rightarrow> start_request \<Rightarrow> conversation" where
  "start_conversation ff marshal cli req =
     (let c = NewConversation cli (sr_ConversationId req) (sr_DomainId req) (sr_ProfileId req) (sr_SchemaId req) (sr_UserId req);
          c1 = (case sr_Message req of
              None \<Rightarrow> c
            | Some m \<Rightarrow>
                (let stored = fold (\<lambda>(k, v) c. c\<lparr>cv_variables := (cv_variables c)(k \<mapsto> v)\<rparr>) (pm_Variables m) c;
                     named = conv_Set ff [(ConversationStartMessageVariable, GStr (join_with '' '' (chat_messageToText [m])))] stored
                 in named\<lparr>cv_storeMessages := (cv_storeMessages named)(ConversationStartMessageVariable \<mapsto> marshal m),
                          cv_messages := cv_messages named @ [m]\<rparr>))
      in conv_Set ff [(ConversationSessionId, GStr (cv_id c1)), (ConversationProfileId, GInt (cv_profileId c1))] c1)"

text \<open>\<open>Start\<close>: a conversation with the same id that is still active is replaced in the table.\<close>

definition chat_Start ::
  "(rat \<Rightarrow> string) \<Rightarrow> (proto_message \<Rightarrow> string) \<Rightarrow> (string \<Rightarrow> string + string) \<Rightarrow> string \<Rightarrow> int \<Rightarrow> headers \<Rightarrow> start_request \<Rightarrow>
   chat_world \<Rightarrow> (go_error + unit) \<times> chat_world" where
  "chat_Start ff marshal pool notFound now hdr req w =
     (let w0 = w\<lparr>cw_table := snd (lru_Get now (sr_ConversationId req) (cw_table w))\<rparr> in
      case getClientFromRequest pool notFound hdr of
        Inl er \<Rightarrow> (Inl (PlainErr er), w0)
      | Inr cli \<Rightarrow>
          (let a = length (cw_convs w0) in
           (Inr (), w0\<lparr>cw_convs := cw_convs w0 @ [start_conversation ff marshal cli req],
              cw_table := AddWithExpiresInSecs now (sr_ConversationId req) a maximumInactiveChat (cw_table w0),
              cw_consume := cw_consume w0 @ [a]\<rparr>)))"

definition getConversation :: "int \<Rightarrow> string \<Rightarrow> chat_world \<Rightarrow> nat result \<times> chat_world" where
  "getConversation now cid w =
     (case lru_Get now cid (cw_table w) of
        (r, t) \<Rightarrow> (case r of
            None \<Rightarrow> Inl (NewAppError ''Chat'' ''grpc.chat.conversation.not_found'' [] (''Conversation '' @ cid @ '' not found'') 404)
          | Some a \<Rightarrow> Inr a, w\<lparr>cw_table := t\<rparr>))"

definition getConversationFromRequest ::
  "(string \<Rightarrow> string + string) \<Rightarrow> string \<Rightarrow> int \<Rightarrow> headers \<Rightarrow> string \<Rightarrow> chat_world \<Rightarrow> nat result \<times> chat_world" where
  "getConversationFromRequest pool notFound now hdr cid w =
     (case getConversation now cid w of
        (Inl er, w1) \<Rightarrow> (Inl er, w1)
      | (Inr a, w1) \<Rightarrow>
          (case getClientFromRequest pool notFound hdr of
             Inl er \<Rightarrow> (Inl (NewAppError ''Chat'' ''grpc.chat.client.not_found'' [] er 404), w1)
           | Inr cli \<Rightarrow> (Inr a, upd_conv a (actualizeClient cli) w1)))"

definition chat_Break ::
  "(string \<Rightarrow> string \<Rightarrow> string) \<Rightarrow> (rat \<Rightarrow> string) \<Rightarrow> (string \<Rightarrow> string + string) \<Rightarrow> string \<Rightarrow> int \<Rightarrow> headers \<Rightarrow> string \<Rightarrow> string \<Rightarrow>
   chat_world \<Rightarrow> ((go_error + unit) \<times> chat_world) option" where
  "chat_Break gj ff pool notFound now hdr cid cause w =
     (case getConversationFromRequest pool notFound now hdr cid w of
        (Inl er, w1) \<Rightarrow> Some (Inl (AppErr er), w1)
      | (Inr a, w1) \<Rightarrow> map_option (\<lambda>w2. (Inr (), w2)) (conv_Break gj ff cause a w1))"

text \<open>
  \<open>ConfirmationMessage\<close> finds the channel of a waiting receiver, offers the messages on it for five seconds and
  answers with success in either case; the result is the channel.
\<close>

definition chat_ConfirmationMessage ::
  "(string \<Rightarrow> string + string) \<Rightarrow> string \<Rightarrow> int \<Rightarrow> headers \<Rightarrow> string \<Rightarrow> string \<Rightarrow> chat_world \<Rightarrow> (go_error + nat) \<times> chat_world" where
  "chat_ConfirmationMessage pool notFound now hdr cid confId w =
     (case getConversationFromRequest pool notFound now hdr cid w of
        (Inl er, w1) \<Rightarrow> (Inl (AppErr er), w1)
      | (Inr a, w1) \<Rightarrow>
          (case cv_confirmation (cw_convs w1 ! a) confId of
             None \<Rightarrow> (Inl (AppErr (NewAppError ''ConfirmationMessage'' ''chat.confirmation_message.not_found'' [] ''Not found'' 404)), w1)
           | Some ch \<Rightarrow> (Inr ch, w1)))"

definition chat_BreakBridge ::
  "(string \<Rightarrow> string \<Rightarrow> string) \<Rightarrow> (rat \<Rightarrow> string) \<Rightarrow> (string \<Rightarrow> string + string) \<Rightarrow> string \<Rightarrow> int \<Rightarrow> headers \<Rightarrow> string \<Rightarrow> string \<Rightarrow>
   chat_world \<Rightarrow> ((go_error + unit) \<times> chat_world) option" where
  "chat_BreakBridge gj ff pool notFound now hdr cid cause w =
     (case getConversationFromRequest pool notFound now hdr cid w of
        (Inl er, w1) \<Rightarrow> Some (Inl (AppErr er), w1)
      | (Inr a, w1) \<Rightarrow>
          (let isTransfer = EqualFold cause BreakChatTransferCause; br = cv_chBridge (cw_convs w1 ! a) in
           if br = None \<and> \<not> isTransfer then Some (Inl (PlainErr ''bridge not found''), w1)
           else map_option (\<lambda>w3. (Inr (), w3))
             (closeIfBreak a (if isTransfer then setTransferVariable gj ff a (upd_conv a (\<lambda>c. c\<lparr>cv_breakCause := cause\<rparr>) w1) else w1))))"

section \<open>The router\<close>

definition FlowSchemaNameVariable :: string where "FlowSchemaNameVariable = ''flow_schema_name''"

definition chat_Request :: "(string \<Rightarrow> (flow \<Rightarrow> app_args \<Rightarrow> 'w \<Rightarrow> 'w outcome) option) \<Rightarrow> flow \<Rightarrow> reqptr \<Rightarrow> 'w \<Rightarrow> 'w outcome" where
  "chat_Request apps = Router_Request (''Chat.Request'', ''chat.request.not_found'') apps"

definition chat_AddApplications :: "(string \<rightharpoonup> 'h) \<Rightarrow> (string \<rightharpoonup> 'h) \<Rightarrow> string \<rightharpoonup> 'h" where
  "chat_AddApplications added apps = apps ++ added"

record chat_routes =
  cr_schema :: "int \<Rightarrow> int \<Rightarrow> im_routing option result"
  cr_user :: "int \<Rightarrow> int \<Rightarrow> im_routing option result"
  cr_profile :: "int \<Rightarrow> int \<Rightarrow> im_routing option result"

definition chat_routing :: "chat_routes \<Rightarrow> conversation \<Rightarrow> im_routing option" where
  "chat_routing cr c =
     (case (if cv_schemaId c > 0 then cr_schema cr (cv_domainId c) (cv_schemaId c)
            else if cv_userId c > 0 then cr_user cr (cv_domainId c) (cv_userId c)
            else if cv_profileId c > 0 then cr_profile cr (cv_domainId c) (cv_profileId c)
            else Inr None) of
        Inl _ \<Rightarrow> None
      | Inr r \<Rightarrow> r)"

text \<open>
  \<open>handle\<close>: without a schema the conversation is stopped with an error; otherwise the schema runs, the
  conversation is stopped unless it was transferred, and the trigger \<open>disconnected\<close> runs.
\<close>

definition chat_handle ::
  "(rat \<Rightarrow> string) \<Rightarrow> chat_world env \<Rightarrow> nat \<Rightarrow> (string \<Rightarrow> string option) \<Rightarrow> chat_routes \<Rightarrow> nat \<Rightarrow> chat_world \<Rightarrow> chat_world option" where
  "chat_handle ff e d loc cr a w =
     (let c = cw_convs w ! a in
      case chat_routing cr c of
        None \<Rightarrow> Some (conv_Stop (Some (NewAppError ''Chat'' ''chat.routing.not_found'' [] ''Not found routing schema'' 400)) FlowErr a w)
      | Some r \<Rightarrow>
          (case Route e (flow_request e d) (New loc (routing_config (cv_id c) r))
                  (upd_conv a (conv_Set ff [(FlowSchemaNameVariable, GStr (rt_Name r))]) w) of
             None \<Rightarrow> None
           | Some (i, w1) \<Rightarrow>
               (let w2 = (if IsTransfer (cw_convs w1 ! a) then w1 else conv_Stop None FlowEnd a w1) in
                case TriggerScope TriggerDisconnected i of
                  Inl _ \<Rightarrow> Some w2
                | Inr disc \<Rightarrow> map_option snd (Route e (flow_request e d) disc w2))))"

end
