(* ===== verification/Chat_Laws.thy ===== *)
theory Chat_Laws
  imports Chat_Server Flow_Basic
begin

text \<open>
  Laws of chat conversations: the store of variables, the invariant of the server, the end of a
  conversation, bridges, and the message history.
\<close>

section \<open>Frames\<close>

lemma upd_conv_simps [simp]:
  "length (cw_convs (upd_conv a f w)) = length (cw_convs w)"
  "cw_bridges (upd_conv a f w) = cw_bridges w" "cw_waits (upd_conv a f w) = cw_waits w" "cw_table (upd_conv a f w) = cw_table w"
  "cw_consume (upd_conv a f w) = cw_consume w" "cw_calls (upd_conv a f w) = cw_calls w"
  "a < length (cw_convs w) \<Longrightarrow> cw_convs (upd_conv a f w) ! b = (if b = a then f (cw_convs w ! a) else cw_convs w ! b)"
  by (auto simp: upd_conv_def nth_list_update_if)

lemma api_simps [simp]:
  "cw_convs (api a call w) = cw_convs w" "cw_bridges (api a call w) = cw_bridges w" "cw_waits (api a call w) = cw_waits w"
  "cw_table (api a call w) = cw_table w" "cw_consume (api a call w) = cw_consume w"
  "cw_calls (api a call w) = cw_calls w @ [(cv_client (cw_convs w ! a), call)]"
  by (simp_all add: api_def)

lemma conv_Set_keeps [simp]:
  "cv_id (conv_Set ff vars c) = cv_id c" "cv_chBridge (conv_Set ff vars c) = cv_chBridge c"
  "cv_confirmation (conv_Set ff vars c) = cv_confirmation c" "cv_breakCause (conv_Set ff vars c) = cv_breakCause c"
  "cv_cancelled (conv_Set ff vars c) = cv_cancelled c" "cv_client (conv_Set ff vars c) = cv_client c"
  "cv_exportVariables (conv_Set ff vars c) = cv_exportVariables c" "cv_messages (conv_Set ff vars c) = cv_messages c"
  "cv_storeMessages (conv_Set ff vars c) = cv_storeMessages c" "cv_queueKey (conv_Set ff vars c) = cv_queueKey c"
  unfolding conv_Set_def by (induction vars arbitrary: c) auto

lemma conv_Set_var: "cv_variables (conv_Set ff [(k, GStr s)] c) = (cv_variables c)(k \<mapsto> s)"
  by (simp add: conv_Set_def)

lemma map_update_self [simp]: "(map g xs)[n := g (xs ! n)] = map g xs"
  by (metis list_update_id map_update)

text \<open>What the invariant of the server looks at.\<close>

definition shape :: "chat_world \<Rightarrow> string list \<times> nat option list \<times> (string \<rightharpoonup> nat) list \<times> bool list \<times> nat \<times> (string, nat) lru" where
  "shape w = (map cv_id (cw_convs w), map cv_chBridge (cw_convs w), map cv_confirmation (cw_convs w), cw_bridges w, cw_waits w, cw_table w)"

lemma shape_api [simp]: "shape (api a call w) = shape w"
  by (simp add: shape_def)

lemma shape_upd:
  assumes "\<And>c. cv_id (f c) = cv_id c" "\<And>c. cv_chBridge (f c) = cv_chBridge c" "\<And>c. cv_confirmation (f c) = cv_confirmation c"
  shows "shape (upd_conv a f w) = shape w"
  using assms by (simp add: shape_def upd_conv_def map_list_update_same)

lemma shape_ops [simp]:
  "shape (upd_conv a (conv_Set ff vars) w) = shape w"
  "shape (saveMessages ms a w) = shape w"
  "shape (setTransferVariable gj ff a w) = shape w"
  "shape (snd (conv_Export gj ff ks a w)) = shape w"
  "shape (snd (conv_UnSet ff ks a w)) = shape w"
  "shape (upd_conv a (actualizeClient cli) w) = shape w"
  "shape (upd_conv a (\<lambda>c. c\<lparr>cv_cancelled := True\<rparr>) w) = shape w"
  "shape (upd_conv a (\<lambda>c. c\<lparr>cv_breakCause := cause\<rparr>) w) = shape w"
  "shape (upd_conv a (\<lambda>c. snd (conv_SetQueue key c)) w) = shape w"
  by (simp_all add: shape_upd saveMessages_def setTransferVariable_def conv_Export_def conv_UnSet_def actualizeClient_def conv_SetQueue_def Let_def)

section \<open>A conversation as a store of variables\<close>

interpretation chat_vars: variables "conv_Get gj" "\<lambda>vars c. (Inr CallResponseOK, conv_Set ff vars c)" for gj ff
  by unfold_locales (simp_all add: conv_Get_def take_until_None conv_Set_var Let_def)

section \<open>The invariant of the server\<close>

text \<open>The table leads to conversations of the right id.\<close>

definition table_ok :: "string list \<Rightarrow> (string, nat) lru \<Rightarrow> bool" where
  "table_ok ids t = (lru_inv t \<and> (\<forall>cid b ex. content t cid = Some (b, ex) \<longrightarrow> b < length ids \<and> ids ! b = cid))"

text \<open>A conversation that is bridged has an open channel of its own.\<close>

definition bridges_ok :: "nat option list \<Rightarrow> bool list \<Rightarrow> bool" where
  "bridges_ok brs bs = ((\<forall>a < length brs. \<forall>ch. brs ! a = Some ch \<longrightarrow> ch < length bs \<and> \<not> bs ! ch) \<and>
     (\<forall>a < length brs. \<forall>b < length brs. \<forall>ch. brs ! a = Some ch \<and> brs ! b = Some ch \<longrightarrow> a = b))"

text \<open>No two waits share a channel.\<close>

definition waits_ok :: "(string \<rightharpoonup> nat) list \<Rightarrow> nat \<Rightarrow> bool" where
  "waits_ok cfs n = ((\<forall>a < length cfs. \<forall>i ch. (cfs ! a) i = Some ch \<longrightarrow> ch < n) \<and>
     (\<forall>a < length cfs. \<forall>b < length cfs. \<forall>i j ch. (cfs ! a) i = Some ch \<and> (cfs ! b) j = Some ch \<longrightarrow> a = b \<and> i = j))"

definition chat_inv :: "chat_world \<Rightarrow> bool" where
  "chat_inv w = (table_ok (map cv_id (cw_convs w)) (cw_table w) \<and> bridges_ok (map cv_chBridge (cw_convs w)) (cw_bridges w) \<and>
     waits_ok (map cv_confirmation (cw_convs w)) (cw_waits w))"

lemma chat_inv_shape: "shape w' = shape w \<Longrightarrow> chat_inv w' \<longleftrightarrow> chat_inv w"
  by (simp add: chat_inv_def shape_def)

lemma shape_length: "shape w' = shape w \<Longrightarrow> length (cw_convs w') = length (cw_convs w)"
  unfolding shape_def by (metis length_map prod.inject)

lemma bridges_ok_close:
  assumes "bridges_ok brs bs" "a < length brs" "brs ! a = Some ch"
  shows "bridges_ok (brs[a := None]) (bs[ch := True])"
  using assms unfolding bridges_ok_def by (auto simp: nth_list_update_if)

lemma bridges_ok_open:
  assumes "bridges_ok brs bs" "a < length brs"
  shows "bridges_ok (brs[a := Some (length bs)]) (bs @ [False])"
  using assms unfolding bridges_ok_def by (auto simp: nth_list_update_if nth_append)

lemma bridges_ok_new: "bridges_ok brs bs \<Longrightarrow> bridges_ok (brs @ [None]) bs"
  unfolding bridges_ok_def by (auto simp: nth_append)

lemma waits_ok_add:
  assumes "waits_ok cfs n" "a < length cfs"
  shows "waits_ok (cfs[a := (cfs ! a)(i \<mapsto> n)]) (Suc n)"
proof -
  have less: "(cfs ! b) j = Some ch \<Longrightarrow> b < length cfs \<Longrightarrow> ch < n" for b j ch using assms(1) by (simp add: waits_ok_def)
  then show ?thesis using assms unfolding waits_ok_def by (auto simp: nth_list_update_if less_SucI split: if_splits) metis+
qed

lemma waits_ok_del:
  assumes "waits_ok cfs n" "a < length cfs"
  shows "waits_ok (cfs[a := (cfs ! a)(i := None)]) n"
  using assms unfolding waits_ok_def by (auto simp: nth_list_update_if split: if_splits) metis+

lemma waits_ok_new: "waits_ok cfs n \<Longrightarrow> waits_ok (cfs @ [Map.empty]) n"
  unfolding waits_ok_def by (auto simp: nth_append split: if_splits)

lemma table_ok_Get:
  assumes "table_ok ids t" "lru_Get now cid t = (r, t')"
  shows "table_ok ids t'" "r = Some a \<Longrightarrow> a < length ids \<and> ids ! a = cid"
proof -
  have inv: "lru_inv t" using assms(1) by (simp add: table_ok_def)
  note f = lru_Get_facts [OF inv assms(2)]
  show "table_ok ids t'" using assms(1) f(1,3) by (auto simp: table_ok_def split: if_splits)
  show "a < length ids \<and> ids ! a = cid" if hit: "r = Some a"
  proof -
    obtain ex where "content t cid = Some (a, ex)" using f(2) hit by (auto split: option.splits if_splits)
    then show ?thesis using assms(1) unfolding table_ok_def by blast
  qed
qed

lemma table_ok_Add:
  assumes "table_ok ids t"
  shows "table_ok (ids @ [cid]) (AddWithExpiresInSecs now cid (length ids) secs t)"
proof -
  have inv: "lru_inv t" using assms by (simp add: table_ok_def)
  note f = lru_Add_facts [OF inv, of now cid "length ids" secs]
  let ?t = "AddWithExpiresInSecs now cid (length ids) secs t"
  have "b < length (ids @ [cid]) \<and> (ids @ [cid]) ! b = k" if "content ?t k = Some (b, ex)" for k b ex
  proof -
    have "((content t)(cid \<mapsto> (length ids, expires_at now secs))) k = Some (b, ex)" using f(4) that by (auto simp: map_le_def dom_def)
    then show ?thesis using assms by (auto simp: table_ok_def nth_append less_SucI split: if_splits)
  qed
  then show ?thesis using f(1) by (simp add: table_ok_def)
qed

lemma table_ok_Remove: "table_ok ids t \<Longrightarrow> table_ok ids (lru_Remove cid t)"
  using lru_Remove_facts [of t cid] by (auto simp: table_ok_def split: if_splits)

lemma closeIfBreak_ok:
  assumes "chat_inv w" "a < length (cw_convs w)"
  shows "\<exists>w'. closeIfBreak a w = Some w' \<and> chat_inv w' \<and> length (cw_convs w') = length (cw_convs w)"
proof (cases "cv_chBridge (cw_convs w ! a)")
  case None
  then show ?thesis using assms by (simp add: closeIfBreak_def)
next
  case (Some ch)
  then have "\<not> cw_bridges w ! ch" using assms by (simp add: chat_inv_def bridges_ok_def)
  moreover have "chat_inv (upd_conv a (\<lambda>c. c\<lparr>cv_chBridge := None\<rparr>) (w\<lparr>cw_bridges := (cw_bridges w)[ch := True]\<rparr>))"
    using assms bridges_ok_close [of "map cv_chBridge (cw_convs w)" "cw_bridges w" a ch] Some
    by (simp add: chat_inv_def upd_conv_def map_update)
  ultimately show ?thesis using Some by (simp add: closeIfBreak_def)
qed

text \<open>Every operation keeps the invariant, and none panics.\<close>

lemma conv_Break_ok:
  assumes "chat_inv w" "a < length (cw_convs w)"
  shows "\<exists>w'. conv_Break gj ff cause a w = Some w' \<and> chat_inv w' \<and> length (cw_convs w') = length (cw_convs w)"
proof -
  obtain w1 where w1: "closeIfBreak a w = Some w1" "chat_inv w1" "length (cw_convs w1) = length (cw_convs w)"
    using closeIfBreak_ok [OF assms] by blast
  let ?w = "upd_conv a (\<lambda>c. c\<lparr>cv_cancelled := True\<rparr>) (setTransferVariable gj ff a (upd_conv a (\<lambda>c. c\<lparr>cv_breakCause := cause\<rparr>) w1))"
  have sh: "shape ?w = shape w1" by simp
  show ?thesis using w1 chat_inv_shape [OF sh] shape_length [OF sh] by (simp add: conv_Break_def)
qed

lemma conv_sendMessage_ok:
  assumes "chat_inv w" "a < length (cw_convs w)"
  shows "\<exists>er w'. conv_sendMessage gj ff sv m a w = Some (er, w') \<and> chat_inv w' \<and> length (cw_convs w') = length (cw_convs w)"
proof -
  let ?c = "cw_convs w ! a"
  let ?sent = "api a (SendMessageCall (cv_id ?c) m) w"
  let ?closed = "api a (CloseConversationCall (cv_id ?c) FlowErr) ?sent"
  have "shape ?sent = shape w" "shape ?closed = shape w" "shape (saveMessages [m] a ?sent) = shape w" by simp_all
  then have inv: "chat_inv ?sent" "chat_inv ?closed" "chat_inv (saveMessages [m] a ?sent)" "length (cw_convs (saveMessages [m] a ?sent)) = length (cw_convs w)"
    using assms(1) chat_inv_shape shape_length by blast+
  show ?thesis
  proof (cases "cs_SendMessage sv (cv_client ?c) (cv_id ?c) m")
    case None
    then show ?thesis using inv by (simp add: conv_sendMessage_def Let_def)
  next
    case (Some textErr)
    then show ?thesis using conv_Break_ok [OF inv(2), of a gj ff "''error''"] inv assms(2)
      by (auto simp: conv_sendMessage_def Let_def)
  qed
qed

lemma getConversationFromRequest_ok:
  assumes "chat_inv w" "getConversationFromRequest pool nf now hdr cid w = (r, w')"
  shows "chat_inv w'" "length (cw_convs w') = length (cw_convs w)" "r = Inr a \<Longrightarrow> a < length (cw_convs w') \<and> cv_id (cw_convs w' ! a) = cid"
proof -
  obtain hit t where g: "lru_Get now cid (cw_table w) = (hit, t)" by force
  note tab = table_ok_Get [OF _ g, of "map cv_id (cw_convs w)"]
  have w1: "chat_inv (w\<lparr>cw_table := t\<rparr>)" using assms(1) tab(1) by (simp add: chat_inv_def)
  have hit: "b < length (cw_convs w) \<and> cv_id (cw_convs w ! b) = cid" if "hit = Some b" for b
    using tab(2) [of b] assms(1) that by (auto simp: chat_inv_def)
  have up: "shape (upd_conv b (actualizeClient cli) (w\<lparr>cw_table := t\<rparr>)) = shape (w\<lparr>cw_table := t\<rparr>)" for b cli by simp
  show "chat_inv w'" using assms(2) w1 chat_inv_shape [OF up] g
    by (auto simp: getConversationFromRequest_def getConversation_def split: option.splits sum.splits)
  show "length (cw_convs w') = length (cw_convs w)" using assms(2) g
    by (auto simp: getConversationFromRequest_def getConversation_def split: option.splits sum.splits)
  show "r = Inr a \<Longrightarrow> a < length (cw_convs w') \<and> cv_id (cw_convs w' ! a) = cid" using assms(2) g hit
    by (auto simp: getConversationFromRequest_def getConversation_def actualizeClient_def split: option.splits sum.splits)
qed

lemma chat_Break_ok:
  assumes "chat_inv w"
  shows "\<exists>r w'. chat_Break gj ff pool nf now hdr cid cause w = Some (r, w') \<and> chat_inv w'"
proof -
  obtain r w1 where g: "getConversationFromRequest pool nf now hdr cid w = (r, w1)" by force
  note f = getConversationFromRequest_ok [OF assms g]
  then show ?thesis using g conv_Break_ok [OF f(1), of _ gj ff cause]
    by (cases r) (force simp: chat_Break_def)+
qed

lemma chat_BreakBridge_ok:
  assumes "chat_inv w"
  shows "\<exists>r w'. chat_BreakBridge gj ff pool nf now hdr cid cause w = Some (r, w') \<and> chat_inv w'"
proof -
  obtain r w1 where g: "getConversationFromRequest pool nf now hdr cid w = (r, w1)" by force
  note f = getConversationFromRequest_ok [OF assms g]
  show ?thesis
  proof (cases r)
    case (Inr a)
    let ?w = "if EqualFold cause BreakChatTransferCause then setTransferVariable gj ff a (upd_conv a (\<lambda>c. c\<lparr>cv_breakCause := cause\<rparr>) w1) else w1"
    have sh: "shape ?w = shape w1" by simp
    then have "chat_inv ?w" "a < length (cw_convs ?w)" using f(1) f(3) [OF Inr] chat_inv_shape [OF sh] shape_length [OF sh] by auto
    from closeIfBreak_ok [OF this] show ?thesis using g Inr f(1) by (auto simp: chat_BreakBridge_def Let_def)
  qed (use g f(1) in \<open>simp add: chat_BreakBridge_def\<close>)
qed

lemma store_keeps [simp]:
  fixes c :: conversation and vs :: "(string \<times> string) list"
  defines "c' \<equiv> fold (\<lambda>(k, v) c. c\<lparr>cv_variables := (cv_variables c)(k \<mapsto> v)\<rparr>) vs c"
  shows "cv_id c' = cv_id c" "cv_chBridge c' = cv_chBridge c" "cv_confirmation c' = cv_confirmation c"
  unfolding c'_def by (induction vs arbitrary: c) auto

lemma start_conversation_fields [simp]:
  "cv_id (start_conversation ff marshal cli req) = sr_ConversationId req"
  "cv_chBridge (start_conversation ff marshal cli req) = None"
  "cv_confirmation (start_conversation ff marshal cli req) = Map.empty"
  by (simp_all add: start_conversation_def NewConversation_def Let_def split: option.splits)

lemma chat_Start_ok:
  assumes "chat_inv w"
  shows "chat_inv (snd (chat_Start ff marshal pool nf now hdr req w))"
proof -
  obtain hit t where g: "lru_Get now (sr_ConversationId req) (cw_table w) = (hit, t)" by force
  have t: "table_ok (map cv_id (cw_convs w)) t" using table_ok_Get(1) [OF _ g] assms by (simp add: chat_inv_def)
  show ?thesis
    using assms t g table_ok_Add [OF t, of "sr_ConversationId req" now maximumInactiveChat] bridges_ok_new waits_ok_new
    by (auto simp: chat_Start_def chat_inv_def Let_def split: sum.splits)
qed

end
