(* ===== verification/Chat_Props.thy ===== *)
theory Chat_Props
  imports Chat_Laws
begin

text \<open>
  Properties of the chat server: the transition system of its requests and of what running
  schemas do to their conversations, and the end of a conversation.
\<close>

section \<open>Transitions\<close>

inductive chat_step :: "chat_world \<Rightarrow> chat_world \<Rightarrow> bool" where
  starts: "chat_step w (snd (chat_Start ff marshal pool nf now hdr req w))"
| breaks: "chat_Break gj ff pool nf now hdr cid cause w = Some (r, w') \<Longrightarrow> chat_step w w'"
| breaks_bridge: "chat_BreakBridge gj ff pool nf now hdr cid cause w = Some (r, w') \<Longrightarrow> chat_step w w'"
| confirms: "chat_step w (snd (chat_ConfirmationMessage pool nf now hdr cid i w))"
| sends: "a < length (cw_convs w) \<Longrightarrow> conv_sendMessage gj ff sv m a w = Some (er, w') \<Longrightarrow> chat_step w w'"
| sets: "chat_step w (upd_conv a (conv_Set ff vars) w)"
| exports: "chat_step w (snd (conv_Export gj ff ks a w))"
| unsets: "chat_step w (snd (conv_UnSet ff ks a w))"
| queue: "chat_step w (upd_conv a (\<lambda>c. snd (conv_SetQueue key c)) w)"
| waits: "a < length (cw_convs w) \<Longrightarrow>
    chat_step w (api a (WaitMessageCall cid i) (addConfirmationId i (cw_waits w) a (w\<lparr>cw_waits := Suc (cw_waits w)\<rparr>)))"
| wait_ends: "a < length (cw_convs w) \<Longrightarrow> chat_step w (deleteConfirmationId i a w)"
| remembers: "chat_step w (saveMessages ms a w)"
| bridges: "a < length (cw_convs w) \<Longrightarrow> cv_chBridge (cw_convs w ! a) = None \<Longrightarrow>
    chat_step w (api a call (upd_conv a (\<lambda>c. c\<lparr>cv_chBridge := Some (length (cw_bridges w))\<rparr>) (w\<lparr>cw_bridges := cw_bridges w @ [False]\<rparr>)))"
| stops: "chat_step w (conv_Stop er cause a w)"

lemmas chat_inv_ops = shape_ops [THEN chat_inv_shape]

lemma chat_inv_step: "chat_step w w' \<Longrightarrow> chat_inv w \<Longrightarrow> chat_inv w'"
proof (induction rule: chat_step.induct)
  case (breaks gj ff pool nf now hdr cid cause w r w')
  then show ?case using chat_Break_ok [of w gj ff pool nf now hdr cid cause] by auto
next
  case (breaks_bridge gj ff pool nf now hdr cid cause w r w')
  then show ?case using chat_BreakBridge_ok [of w gj ff pool nf now hdr cid cause] by auto
next
  case (confirms w pool nf now hdr cid i)
  then show ?case using getConversationFromRequest_ok(1) [OF confirms]
    by (auto simp: chat_ConfirmationMessage_def split: prod.splits sum.splits option.splits)
next
  case (sends a w gj ff sv m er w')
  then show ?case using conv_sendMessage_ok [of w a gj ff sv m] by auto
next
  case (waits a w cid i)
  then show ?case using waits_ok_add [of "map cv_confirmation (cw_convs w)" "cw_waits w" a i]
    by (simp add: chat_inv_def addConfirmationId_def upd_conv_def map_update)
next
  case (wait_ends a w i)
  then show ?case using waits_ok_del [of "map cv_confirmation (cw_convs w)" "cw_waits w" a i]
    by (simp add: chat_inv_def deleteConfirmationId_def upd_conv_def map_update)
next
  case (bridges a w call)
  then show ?case using bridges_ok_open [of "map cv_chBridge (cw_convs w)" "cw_bridges w" a]
    by (simp add: chat_inv_def upd_conv_def map_update)
next
  case (stops w er cause a)
  then show ?case using table_ok_Remove by (simp add: chat_inv_def conv_Stop_def Let_def)
qed (simp_all add: chat_Start_ok chat_inv_ops)

lemma NewChatApi_inv: "chat_inv NewChatApi"
proof -
  have "NewLru n = NewLruWithParams n [] 0 []" for n by (simp add: NewLruWithParams_def NewLru_def)
  then have "table_ok [] (NewLru activeConversationCacheSize)"
    using NewLru_inv by (simp add: table_ok_def content_def) (simp add: NewLruWithParams_def NewLru_def)
  then show ?thesis by (simp add: chat_inv_def NewChatApi_def bridges_ok_def waits_ok_def)
qed

section \<open>Requests that overlap\<close>

text \<open>
  \<open>closeIfBreak\<close> tests, closes and clears the field in three steps.  \<open>Break\<close> runs them under the mutex of
  the conversation, \<open>BreakBridge\<close> takes the mutex only to read the field and to set the cause, and runs
  them without.  The two requests on one conversation \<open>a\<close>, step by step; a step that has to wait for
  the mutex leaves the state as it is.
\<close>

datatype close_pc = Checking | Closing | Clearing | CloseDone | ClosePanic

fun close_next :: "nat \<Rightarrow> close_pc \<times> chat_world \<Rightarrow> close_pc \<times> chat_world" where
  "close_next a (Checking, w) = (if cv_chBridge (cw_convs w ! a) = None then CloseDone else Closing, w)"
| "close_next a (Closing, w) =
     (case cv_chBridge (cw_convs w ! a) of
        None \<Rightarrow> (ClosePanic, w)
      | Some ch \<Rightarrow> if cw_bridges w ! ch then (ClosePanic, w) else (Clearing, w\<lparr>cw_bridges := (cw_bridges w)[ch := True]\<rparr>))"
| "close_next a (Clearing, w) = (CloseDone, upd_conv a (\<lambda>c. c\<lparr>cv_chBridge := None\<rparr>) w)"
| "close_next a (CloseDone, w) = (CloseDone, w)"
| "close_next a (ClosePanic, w) = (ClosePanic, w)"

datatype break_pc = BrkLock | BrkClose close_pc | BrkCause | BrkTransfer | BrkCancel | BrkOver

datatype bridge_pc = BbLock | BbRead | BbTest bool | BbLock2 | BbCause | BbTransfer | BbClose close_pc | BbOver bool

record overlap =
  ov_lock :: bool
  ov_break :: break_pc
  ov_bridge :: bridge_pc
  ov_world :: chat_world

definition break_next :: "(string \<Rightarrow> string \<Rightarrow> string) \<Rightarrow> (rat \<Rightarrow> string) \<Rightarrow> string \<Rightarrow> nat \<Rightarrow> overlap \<Rightarrow> overlap" where
  "break_next gj ff cause a s =
     (case ov_break s of
        BrkLock \<Rightarrow> if ov_lock s then s else s\<lparr>ov_lock := True, ov_break := BrkClose Checking\<rparr>
      | BrkClose CloseDone \<Rightarrow> s\<lparr>ov_break := BrkCause\<rparr>
      | BrkClose p \<Rightarrow> (case close_next a (p, ov_world s) of (p', w') \<Rightarrow> s\<lparr>ov_break := BrkClose p', ov_world := w'\<rparr>)
      | BrkCause \<Rightarrow> s\<lparr>ov_lock := False, ov_break := BrkTransfer, ov_world := upd_conv a (\<lambda>c. c\<lparr>cv_breakCause := cause\<rparr>) (ov_world s)\<rparr>
      | BrkTransfer \<Rightarrow> s\<lparr>ov_break := BrkCancel, ov_world := setTransferVariable gj ff a (ov_world s)\<rparr>
      | BrkCancel \<Rightarrow> s\<lparr>ov_break := BrkOver, ov_world := upd_conv a (\<lambda>c. c\<lparr>cv_cancelled := True\<rparr>) (ov_world s)\<rparr>
      | BrkOver \<Rightarrow> s)"

definition bridge_next :: "(string \<Rightarrow> string \<Rightarrow> string) \<Rightarrow> (rat \<Rightarrow> string) \<Rightarrow> string \<Rightarrow> nat \<Rightarrow> overlap \<Rightarrow> overlap" where
  "bridge_next gj ff cause a s =
     (let isTransfer = EqualFold cause BreakChatTransferCause in
      case ov_bridge s of
        BbLock \<Rightarrow> if ov_lock s then s else s\<lparr>ov_lock := True, ov_bridge := BbRead\<rparr>
      | BbRead \<Rightarrow> s\<lparr>ov_lock := False, ov_bridge := BbTest (cv_chBridge (cw_convs (ov_world s) ! a) = None)\<rparr>
      | BbTest nil \<Rightarrow> s\<lparr>ov_bridge := (if nil \<and> \<not> isTransfer then BbOver False else if isTransfer then BbLock2 else BbClose Checking)\<rparr>
      | BbLock2 \<Rightarrow> if ov_lock s then s else s\<lparr>ov_lock := True, ov_bridge := BbCause\<rparr>
      | BbCause \<Rightarrow> s\<lparr>ov_lock := False, ov_bridge := BbTransfer, ov_world := upd_conv a (\<lambda>c. c\<lparr>cv_breakCause := cause\<rparr>) (ov_world s)\<rparr>
      | BbTransfer \<Rightarrow> s\<lparr>ov_bridge := BbClose Checking, ov_world := setTransferVariable gj ff a (ov_world s)\<rparr>
      | BbClose CloseDone \<Rightarrow> s\<lparr>ov_bridge := BbOver True\<rparr>
      | BbClose p \<Rightarrow> (case close_next a (p, ov_world s) of (p', w') \<Rightarrow> s\<lparr>ov_bridge := BbClose p', ov_world := w'\<rparr>)
      | BbOver ok \<Rightarrow> s)"

text \<open>An element of the schedule says whether \<open>Break\<close> moves.\<close>

definition overlap_run :: "(string \<Rightarrow> string \<Rightarrow> string) \<Rightarrow> (rat \<Rightarrow> string) \<Rightarrow> string \<Rightarrow> string \<Rightarrow> nat \<Rightarrow> bool list \<Rightarrow> overlap \<Rightarrow> overlap" where
  "overlap_run gj ff cause cause' a = fold (\<lambda>b s. if b then break_next gj ff cause a s else bridge_next gj ff cause' a s)"

definition overlap_start :: "chat_world \<Rightarrow> overlap" where
  "overlap_start w = \<lparr>ov_lock = False, ov_break = BrkLock, ov_bridge = BbLock, ov_world = w\<rparr>"

lemma field_kept: "f c = f (xs ! a) \<Longrightarrow> f (xs[a := c] ! a) = f (xs ! a)"
  by (cases "a < length xs") (simp_all add: not_less list_update_beyond)

lemma chBridge_kept [simp]:
  "cv_chBridge (cw_convs (setTransferVariable gj ff a w) ! a) = cv_chBridge (cw_convs w ! a)"
  "cv_chBridge (cw_convs (upd_conv a (\<lambda>c. c\<lparr>cv_breakCause := x\<rparr>) w) ! a) = cv_chBridge (cw_convs w ! a)"
  "cw_bridges (setTransferVariable gj ff a w) = cw_bridges w"
  by (simp_all add: setTransferVariable_def upd_conv_def api_def Let_def field_kept)

text \<open>Alone, \<open>Break\<close> is \<open>conv_Break\<close>, and \<open>BreakBridge\<close> what \<open>chat_BreakBridge\<close> does after it has found the conversation.\<close>

lemma break_steps:
  "overlap_run gj ff cause cause' a (True # bs) s = overlap_run gj ff cause cause' a bs (break_next gj ff cause a s)"
  "overlap_run gj ff cause cause' a (False # bs) s = overlap_run gj ff cause cause' a bs (bridge_next gj ff cause' a s)"
  "overlap_run gj ff cause cause' a [] s = s"
  by (simp_all add: overlap_run_def)

lemma break_alone:
  assumes "conv_Break gj ff cause a w = Some w'"
  shows "ov_world (overlap_run gj ff cause cause' a (replicate 8 True) (overlap_start w)) = w'"
proof -
  have r: "replicate 8 True = [True, True, True, True, True, True, True, True]" by (simp add: eval_nat_numeral)
  show ?thesis
  proof (cases "cv_chBridge (cw_convs w ! a)")
    case None
    then show ?thesis using assms unfolding r overlap_start_def by (simp add: break_steps break_next_def conv_Break_def closeIfBreak_def)
  next
    case (Some ch)
    moreover have "\<not> cw_bridges w ! ch" using assms Some by (auto simp: conv_Break_def closeIfBreak_def)
    ultimately show ?thesis using assms unfolding r overlap_start_def by (simp add: break_steps break_next_def conv_Break_def closeIfBreak_def)
  qed
qed

lemma bridge_alone:
  assumes "getConversationFromRequest pool nf now hdr cid w = (Inr a, w1)" "chat_BreakBridge gj ff pool nf now hdr cid cause' w = Some (r, w')"
  shows "ov_world (overlap_run gj ff cause cause' a (replicate 10 False) (overlap_start w1)) = w'"
proof -
  have r: "replicate 10 False = [False, False, False, False, False, False, False, False, False, False]" by (simp add: eval_nat_numeral)
  define f where "f = EqualFold cause' BreakChatTransferCause"
  have w': "(if cv_chBridge (cw_convs w1 ! a) = None \<and> \<not> f then Some w1
      else closeIfBreak a (if f then setTransferVariable gj ff a (upd_conv a (\<lambda>c. c\<lparr>cv_breakCause := cause'\<rparr>) w1) else w1)) = Some w'"
    using assms by (auto simp: chat_BreakBridge_def Let_def f_def)
  show ?thesis
  proof (cases "cv_chBridge (cw_convs w1 ! a)")
    case None
    then show ?thesis using w' [symmetric] unfolding r overlap_start_def
      by (cases f) (simp_all add: break_steps bridge_next_def closeIfBreak_def Let_def flip: f_def)
  next
    case (Some ch)
    moreover have "\<not> cw_bridges w1 ! ch" using w' Some by (auto simp: closeIfBreak_def split: if_splits)
    ultimately show ?thesis using w' [symmetric] unfolding r overlap_start_def
      by (cases f) (simp_all add: break_steps bridge_next_def closeIfBreak_def Let_def flip: f_def)
  qed
qed

text \<open>Overlapping, the second request closes the channel again.\<close>

lemma overlap_panics:
  assumes "cv_chBridge (cw_convs w ! a) = Some ch" "ch < length (cw_bridges w)" "\<not> cw_bridges w ! ch"
  shows "\<exists>sched. ov_bridge (overlap_run gj ff cause cause' a sched (overlap_start w)) = BbClose ClosePanic"
proof (cases "EqualFold cause' BreakChatTransferCause")
  case True
  then show ?thesis using assms
    by (intro exI [of _ "[False, False, False, False, False, False, True, True, False, True, False]"])
       (simp add: break_steps overlap_start_def break_next_def bridge_next_def)
next
  case False
  then show ?thesis using assms
    by (intro exI [of _ "[False, False, False, True, True, False, True, False]"])
       (simp add: break_steps overlap_start_def break_next_def bridge_next_def)
qed

text \<open>
  C22: As long as the requests of the chat service are handled one after another, whatever they and the
  running schemas do, the table of conversations leads to the conversation of the id, a bridged
  conversation has an open channel of its own, waits have channels of their own, and breaking a
  conversation, breaking its bridge or sending a message panics on no channel.  But for every bridged
  conversation there is an overlap of \<open>Break\<close> and \<open>BreakBridge\<close> in which the channel is closed a second
  time, which panics, because \<open>BreakBridge\<close> closes it without the mutex.
\<close>

theorem chat_server_invariant:
  assumes "chat_step\<^sup>*\<^sup>* NewChatApi w"
  shows "chat_inv w \<and> chat_Break gj ff pool nf now hdr cid cause w \<noteq> None \<and> chat_BreakBridge gj ff pool nf now hdr cid cause w \<noteq> None \<and>
     (a < length (cw_convs w) \<longrightarrow> conv_sendMessage gj ff sv m a w \<noteq> None) \<and>
     (a < length (cw_convs w) \<and> cv_chBridge (cw_convs w ! a) \<noteq> None \<longrightarrow>
        (\<exists>sched. ov_bridge (overlap_run gj ff cause cause' a sched (overlap_start w)) = BbClose ClosePanic))"
proof -
  have inv: "chat_inv w" using assms by (induction rule: rtranclp_induct) (simp_all add: NewChatApi_inv chat_inv_step)
  moreover have "\<exists>sched. ov_bridge (overlap_run gj ff cause cause' a sched (overlap_start w)) = BbClose ClosePanic"
    if "a < length (cw_convs w)" "cv_chBridge (cw_convs w ! a) \<noteq> None"
    using inv that overlap_panics by (auto simp: chat_inv_def bridges_ok_def)
  ultimately show ?thesis
    using chat_Break_ok [of w gj ff pool nf now hdr cid cause] chat_BreakBridge_ok [of w gj ff pool nf now hdr cid cause]
      conv_sendMessage_ok [of w a gj ff sv m] by auto
qed

definition example_start :: "string \<Rightarrow> start_request" where
  "example_start cid = \<lparr>sr_ConversationId = cid, sr_DomainId = 1, sr_ProfileId = 7, sr_SchemaId = 5, sr_UserId = 0,
     sr_Message = Some (empty_message\<lparr>pm_Type := ''text'', pm_Text := ''hi'', pm_Variables := [(''uuid'', ''x'')]\<rparr>)\<rparr>"

definition example_chat :: chat_world where
  "example_chat = snd (chat_Start (\<lambda>_. []) (\<lambda>_. ''{}'') Inr [] 0 (Some ([''chat''], [''1''])) (example_start ''c1'') NewChatApi)"

definition example_bridged :: chat_world where
  "example_bridged = api 0 (InviteCall 1 1 30 Map.empty ''c1'')
     (upd_conv 0 (\<lambda>c. c\<lparr>cv_chBridge := Some (length (cw_bridges example_chat))\<rparr>) (example_chat\<lparr>cw_bridges := cw_bridges example_chat @ [False]\<rparr>))"

theorem chat_server_invariant_witness:
  "chat_inv example_bridged \<and> chat_Break (\<lambda>_ _. []) (\<lambda>_. []) Inr [] 1 (Some ([''chat''], [''2''])) ''c1'' ''TRANSFER'' example_bridged \<noteq> None \<and>
   (\<exists>sched. ov_bridge (overlap_run (\<lambda>_ _. []) (\<lambda>_. []) ''TRANSFER'' ''agent'' 0 sched (overlap_start example_bridged)) = BbClose ClosePanic)"
proof -
  have f: "length (cw_convs example_chat) = 1" "cv_chBridge (cw_convs example_chat ! 0) = None" by code_simp+
  have "chat_step NewChatApi example_chat" unfolding example_chat_def by (rule starts)
  moreover have "chat_step example_chat example_bridged" unfolding example_bridged_def by (rule bridges) (simp_all add: f)
  ultimately have r: "chat_step\<^sup>*\<^sup>* NewChatApi example_bridged" by auto
  have "0 < length (cw_convs example_bridged)" "cv_chBridge (cw_convs example_bridged ! 0) \<noteq> None" using f by (simp_all add: example_bridged_def)
  with chat_server_invariant [OF r] show ?thesis by blast
qed

section \<open>The end of a conversation\<close>

lemma closeIfBreak_frame:
  assumes "closeIfBreak a w = Some w'" "a < length (cw_convs w)"
  shows "cw_calls w' = cw_calls w" "length (cw_convs w') = length (cw_convs w)" "cw_convs w' ! a = (cw_convs w ! a)\<lparr>cv_chBridge := None\<rparr>"
    "cw_table w' = cw_table w"
  using assms by (auto simp: closeIfBreak_def split: option.splits if_splits)

lemma conv_Break_effect:
  assumes "conv_Break gj ff cause a w = Some w'" "a < length (cw_convs w)"
  shows "cv_cancelled (cw_convs w' ! a)" "cv_breakCause (cw_convs w' ! a) = cause" "cv_chBridge (cw_convs w' ! a) = None"
    "cv_variables (cw_convs w' ! a) = (cv_variables (cw_convs w ! a))(''chat_transferred'' \<mapsto> ''false'')"
    "length (cw_convs w') = length (cw_convs w)" "cw_table w' = cw_table w"
    "cv_client (cw_convs w' ! a) = cv_client (cw_convs w ! a)" "cv_id (cw_convs w' ! a) = cv_id (cw_convs w ! a)"
    "cw_calls w' = cw_calls w @ (if cause \<noteq> [] \<and> EqualFold cause BreakChatTransferCause
       then [(cv_client (cw_convs w ! a), SetVariablesCall (cv_id (cw_convs w ! a))
         ((conv_DumpExportVariables gj (cw_convs w ! a))(''chat_transferred'' \<mapsto> ''true'')))] else [])"
proof -
  obtain w1 where w1: "closeIfBreak a w = Some w1" using assms(1) by (auto simp: conv_Break_def)
  note f = closeIfBreak_frame [OF w1 assms(2)]
  have "conv_Get gj (c\<lparr>cv_chBridge := None, cv_breakCause := cause\<rparr>) v = conv_Get gj c v" for c v
    by (simp add: conv_Get_def Let_def split: option.split)
  then have dump: "conv_DumpExportVariables gj (c\<lparr>cv_chBridge := None, cv_breakCause := cause\<rparr>) = conv_DumpExportVariables gj c" for c
    by (simp add: conv_DumpExportVariables_def)
  note facts = assms w1 f dump
  show "cv_cancelled (cw_convs w' ! a)" "cv_breakCause (cw_convs w' ! a) = cause" "cv_chBridge (cw_convs w' ! a) = None"
    "cv_variables (cw_convs w' ! a) = (cv_variables (cw_convs w ! a))(''chat_transferred'' \<mapsto> ''false'')"
    "length (cw_convs w') = length (cw_convs w)" "cw_table w' = cw_table w"
    "cv_client (cw_convs w' ! a) = cv_client (cw_convs w ! a)" "cv_id (cw_convs w' ! a) = cv_id (cw_convs w ! a)"
    using facts by (auto simp: conv_Break_def setTransferVariable_def Let_def conv_Set_var)
  show "cw_calls w' = cw_calls w @ (if cause \<noteq> [] \<and> EqualFold cause BreakChatTransferCause
       then [(cv_client (cw_convs w ! a), SetVariablesCall (cv_id (cw_convs w ! a))
         ((conv_DumpExportVariables gj (cw_convs w ! a))(''chat_transferred'' \<mapsto> ''true'')))] else [])"
    using facts by (auto simp: conv_Break_def setTransferVariable_def Let_def IsTransfer_def)
qed

text \<open>
  A message that is refused because the channel is closed ends the conversation: its context is
  cancelled, the service is asked once to close it with the cause of an error, and the stop of the
  conversation that follows does not ask again.
\<close>

lemma closed_channel_ends_conversation:
  assumes "conv_sendMessage gj ff sv m a w = Some (er, w')" "a < length (cw_convs w)"
    "cs_SendMessage sv (cv_client (cw_convs w ! a)) (cv_id (cw_convs w ! a)) m = Some text" "contains text closed_mark"
  shows "cv_cancelled (cw_convs w' ! a) \<and> cv_breakCause (cw_convs w' ! a) = ''error'' \<and>
     filter (is_close \<circ> snd) (cw_calls (conv_Stop er' cause a w')) =
       filter (is_close \<circ> snd) (cw_calls w) @ [(cv_client (cw_convs w ! a), CloseConversationCall (cv_id (cw_convs w ! a)) FlowErr)]"
proof -
  let ?w1 = "api a (CloseConversationCall (cv_id (cw_convs w ! a)) FlowErr) (api a (SendMessageCall (cv_id (cw_convs w ! a)) m) w)"
  have b: "conv_Break gj ff ''error'' a ?w1 = Some w'" using assms by (auto simp: conv_sendMessage_def Let_def)
  have n: "\<not> EqualFold ''error'' BreakChatTransferCause" by code_simp
  note eff = conv_Break_effect [OF b]
  show ?thesis using eff(1,2,9) assms(2) n by (simp add: conv_Stop_def Let_def)
qed

definition refusing_service :: chat_service where
  "refusing_service = \<lparr>cs_SendMessage = (\<lambda>_ _ _. Some closed_mark), cs_WaitMessage = (\<lambda>_ _ _. Inl []), cs_Invite = (\<lambda>_ _. None)\<rparr>"

lemma example_chat_facts:
  "chat_inv example_chat" "length (cw_convs example_chat) = 1" "cw_calls example_chat = []"
  "cv_client (cw_convs example_chat ! 0) = ''chat-1''" "cv_id (cw_convs example_chat ! 0) = ''c1''"
  "cv_chBridge (cw_convs example_chat ! 0) = None"
proof -
  show "chat_inv example_chat" unfolding example_chat_def by (rule chat_Start_ok [OF NewChatApi_inv])
  show "length (cw_convs example_chat) = 1" "cv_client (cw_convs example_chat ! 0) = ''chat-1''"
    "cv_id (cw_convs example_chat ! 0) = ''c1''" "cv_chBridge (cw_convs example_chat ! 0) = None"
    by code_simp+
  show "cw_calls example_chat = []" by (simp add: example_chat_def chat_Start_def NewChatApi_def Let_def getClientFromRequest_def)
qed

lemma dump_fold:
  "fold (\<lambda>v m. m(v \<mapsto> g v)) vs m v = (if v \<in> set vs then Some (g v) else m v)"
  by (induction vs arbitrary: m) auto

text \<open>
  A conversation broken for a transfer hands its exported variables over: the service gets each with
  its current value, restricted to valid UTF-8, together with the mark \<open>chat_transferred\<close>, and
  nothing else is sent; in the conversation the mark is false, its context is over, and the
  router will not stop it.
\<close>

lemma transfer_hands_over_exports:
  assumes "conv_Break gj ff cause a w = Some w'" "a < length (cw_convs w)" "cause \<noteq> []" "EqualFold cause BreakChatTransferCause"
  shows "\<exists>m. cw_calls w' = cw_calls w @ [(cv_client (cw_convs w ! a), SetVariablesCall (cv_id (cw_convs w ! a)) m)] \<and>
     m ''chat_transferred'' = Some ''true'' \<and>
     (\<forall>v. v \<noteq> ''chat_transferred'' \<longrightarrow>
        m v = (if v \<in> set (cv_exportVariables (cw_convs w ! a)) then Some (to_valid_utf8 (fst (conv_Get gj (cw_convs w ! a) v))) else None)) \<and>
     conv_Get gj (cw_convs w' ! a) ''chat_transferred'' = (''false'', True) \<and> cv_cancelled (cw_convs w' ! a) \<and> IsTransfer (cw_convs w' ! a)"
proof -
  note eff = conv_Break_effect [OF assms(1,2)]
  let ?m = "(conv_DumpExportVariables gj (cw_convs w ! a))(''chat_transferred'' \<mapsto> ''true'')"
  have "?m v = (if v \<in> set (cv_exportVariables (cw_convs w ! a)) then Some (to_valid_utf8 (fst (conv_Get gj (cw_convs w ! a) v))) else None)"
    if "v \<noteq> ''chat_transferred''" for v using that by (simp add: conv_DumpExportVariables_def dump_fold)
  moreover have "conv_Get gj (cw_convs w' ! a) ''chat_transferred'' = (''false'', True)"
    using eff(4) by (simp add: conv_Get_def take_until_None Let_def)
  moreover have "IsTransfer (cw_convs w' ! a)" using assms(3,4) eff(2) by (simp add: IsTransfer_def)
  ultimately show ?thesis using eff(1,9) assms(3,4) by (intro exI [of _ ?m]) auto
qed

text \<open>
  A second start with the id of a running conversation replaces it in the table; when the schema of
  the first ends, its stop removes the entry of the second: requests no longer find it, although it
  is running.
\<close>

lemma restarted_conversation_is_lost:
  assumes "chat_inv w" "sr_ConversationId req = sr_ConversationId req'" "a = length (cw_convs w)"
    "chat_Start ff marshal pool nf now hdr req w = (Inr (), w1)" "chat_Start ff marshal pool nf now' hdr' req' w1 = (Inr (), w2)"
  shows "(\<exists>er. fst (getConversation later (sr_ConversationId req) (conv_Stop None FlowEnd a w2)) = Inl er) \<and>
     Suc a < length (cw_convs w2) \<and> cv_id (cw_convs w2 ! Suc a) = sr_ConversationId req \<and>
     Suc a \<in> set (cw_consume w2)"
proof -
  have w1: "chat_inv w1" "length (cw_convs w1) = Suc a" "cw_convs w1 ! a = start_conversation ff marshal (projr (getClientFromRequest pool nf hdr)) req"
    using chat_Start_ok [OF assms(1), of ff marshal pool nf now hdr req] assms(3,4)
    by (auto simp: chat_Start_def Let_def split: sum.splits)
  have w2: "chat_inv w2" "length (cw_convs w2) = Suc (Suc a)" "cw_convs w2 ! a = cw_convs w1 ! a"
    "cv_id (cw_convs w2 ! Suc a) = sr_ConversationId req" "Suc a \<in> set (cw_consume w2)"
    using chat_Start_ok [OF w1(1), of ff marshal pool nf now' hdr' req'] assms(2,5) w1(2)
    by (auto simp: chat_Start_def Let_def nth_append split: sum.splits)
  let ?s = "conv_Stop None FlowEnd a w2"
  have t: "cw_table ?s = lru_Remove (sr_ConversationId req) (cw_table w2)"
    using w1(3) w2(3) by (simp add: conv_Stop_def Let_def)
  have inv: "lru_inv (cw_table w2)" using w2(1) by (simp add: chat_inv_def table_ok_def)
  obtain r t' where g: "lru_Get later (sr_ConversationId req) (cw_table ?s) = (r, t')" by force
  have "r = None" using lru_Get_facts(2) [OF _ g] lru_Remove_facts [OF inv, of "sr_ConversationId req"] t by simp
  then show ?thesis using g w2 by (simp add: getConversation_def)
qed

section \<open>Bridges\<close>

text \<open>A failed invitation leaves the channel registered, so every later bridge is refused.\<close>

lemma failed_bridge_refuses_next:
  assumes "cv_chBridge (cw_convs w ! a) = None" "a < length (cw_convs w)" "\<And>cl call. cs_Invite sv cl call = Some er"
  shows "fst (conv_Bridge gj sv2 d2 f2 u2 t2 a (snd (conv_Bridge gj sv id after u t a w))) =
     BridgeFails (NewAppError ''Conversation.Bridge'' ''conv.bridge.app_err'' [] ''Not allow two bridge'' 500)"
  using assms by (simp add: conv_Bridge_def Let_def)

text \<open>
  A bridge ends when its channel is closed while the application already waits for it.  When the
  conversation is broken earlier, while the invitation is under way, the field is nil by the time it
  is read, and the application waits for ever, whatever happens afterwards.
\<close>

lemma bridge_broken_during_invitation_blocks:
  assumes "chat_inv w" "a < length (cw_convs w)" "cv_chBridge (cw_convs w ! a) = None" "\<And>cl call. cs_Invite sv cl call = None"
  shows "fst (conv_Bridge gj sv (\<lambda>w. the (conv_Break gj ff cause a w)) after u t a w) = BridgeBlocks \<and>
     fst (conv_Bridge gj sv id (\<lambda>w. the (conv_Break gj ff cause a w)) u t a w) = BridgeOver"
proof -
  define call where "call = InviteCall u (cv_domainId (cw_convs w ! a)) t
    (fold (\<lambda>v m. case conv_Get gj (cw_convs w ! a) v of (val, ok) \<Rightarrow> if ok then m(v \<mapsto> val) else m) (cv_exportVariables (cw_convs w ! a)) Map.empty)
    (cv_id (cw_convs w ! a))"
  let ?w1 = "api a call (upd_conv a (\<lambda>c. c\<lparr>cv_chBridge := Some (length (cw_bridges w))\<rparr>) (w\<lparr>cw_bridges := cw_bridges w @ [False]\<rparr>))"
  have "chat_step w ?w1" using assms(2,3) by (rule chat_step.bridges)
  then have inv: "chat_inv ?w1" using assms(1) by (rule chat_inv_step)
  then obtain w2 where b: "conv_Break gj ff cause a ?w1 = Some w2" using conv_Break_ok [OF inv, of a gj ff cause] assms(2) by auto
  have "cv_chBridge (cw_convs w2 ! a) = None" using conv_Break_effect(3) [OF b] assms(2) by simp
  moreover have "cw_bridges w2 ! length (cw_bridges w)"
  proof -
    obtain w3 where c: "closeIfBreak a ?w1 = Some w3" using b by (auto simp: conv_Break_def)
    have "cw_bridges w2 = cw_bridges w3" using b c by (auto simp: conv_Break_def setTransferVariable_def Let_def)
    moreover have "cw_bridges w3 = (cw_bridges w @ [False])[length (cw_bridges w) := True]"
      using c assms(2) by (auto simp: closeIfBreak_def split: if_splits)
    ultimately show ?thesis by simp
  qed
  ultimately show ?thesis using assms(2-4) b unfolding conv_Bridge_def Let_def by (simp flip: call_def)
qed

end
