(* ===== verification/Chat_Apps.thy ===== *)
theory Chat_Apps
  imports Chat_Laws Im_Apps
begin

text \<open>
  The applications of the chat router (\<open>routes/chat\<close>).  An application gets the address of its
  conversation and the chat world, and returns a response, an error, or both, with the new world;
  \<open>None\<close> is a panic, or a wait that goes on.  Decoders and the services of the flow manager are
  arguments.
\<close>

record chat_ctx =
  cx_gj :: "string \<Rightarrow> string \<Rightarrow> string"
  cx_ff :: "rat \<Rightarrow> string"
  cx_sv :: chat_service

definition res2 :: "response result \<Rightarrow> outcome2" where
  "res2 r = (case r of Inl er \<Rightarrow> (None, Some er) | Inr x \<Rightarrow> (Some x, None))"

definition fin2 :: "(response result \<times> chat_world) option \<Rightarrow> (outcome2 \<times> chat_world) option" where
  "fin2 = map_option (\<lambda>(r, w). (res2 r, w))"

definition fail2 :: "app_error \<Rightarrow> chat_world \<Rightarrow> (outcome2 \<times> chat_world) option" where
  "fail2 er w = Some ((None, Some er), w)"

definition set2 :: "chat_ctx \<Rightarrow> (string \<times> goval) list \<Rightarrow> nat \<Rightarrow> chat_world \<Rightarrow> (outcome2 \<times> chat_world) option" where
  "set2 cx vars a w = Some (ok2, upd_conv a (conv_Set (cx_ff cx) vars) w)"

section \<open>Sending (send.go, file.go, menu.go)\<close>

definition chat_sendMessage ::
  "chat_ctx \<Rightarrow> media_services \<Rightarrow> (goval \<Rightarrow> chat_message_outbound result) \<Rightarrow> goval \<Rightarrow> nat \<Rightarrow> chat_world \<Rightarrow> (outcome2 \<times> chat_world) option" where
  "chat_sendMessage cx ms decode args a w =
     (let dm = cv_domainId (cw_convs w ! a); send = (\<lambda>argv. fin2 (conv_SendMessage (cx_gj cx) (cx_ff cx) (cx_sv cx) argv a w)) in
      case decode args of
        Inl er \<Rightarrow> fail2 er w
      | Inr argv \<Rightarrow>
          (case co_File argv of
             None \<Rightarrow> send argv
           | Some f \<Rightarrow>
               if fi_Url f \<noteq> [] \<and> fi_Id f = 0 then send (argv\<lparr>co_File := Some (f\<lparr>fi_Id := 1\<rparr>)\<rparr>)
               else (let server = trim_slash (if fi_Server f \<noteq> [] then fi_Server f else co_Server argv) in
                 case fm_SearchMediaFile ms dm (fi_Id f) (fi_Name f) of
                   Inl er \<Rightarrow> fail2 er w
                 | Inr f1 \<Rightarrow>
                     (case fm_SetupPublicFileUrl ms f1 dm server ''media'' 604800 of
                        Inl er \<Rightarrow> fail2 er w
                      | Inr f2 \<Rightarrow> send (argv\<lparr>co_File := Some (f2\<lparr>fi_MimeType := fi_MimeType f2 @ '';source=media''\<rparr>), co_Type := ''file''\<rparr>)))))"

definition chat_sendText :: "chat_ctx \<Rightarrow> (goval \<Rightarrow> string result) \<Rightarrow> goval \<Rightarrow> nat \<Rightarrow> chat_world \<Rightarrow> (outcome2 \<times> chat_world) option" where
  "chat_sendText cx decode args a w =
     (case decode args of
        Inl er \<Rightarrow> fail2 er w
      | Inr s \<Rightarrow> fin2 (conv_SendTextMessage (cx_gj cx) (cx_ff cx) (cx_sv cx) s a w))"

definition chat_sendAction :: "(string \<Rightarrow> string \<Rightarrow> app_error option) \<Rightarrow> (goval \<Rightarrow> string result) \<Rightarrow> goval \<Rightarrow> nat \<Rightarrow> chat_world \<Rightarrow> (outcome2 \<times> chat_world) option" where
  "chat_sendAction send decode args a w =
     (case decode args of
        Inl er \<Rightarrow> fail2 er w
      | Inr action \<Rightarrow> (case send (cv_id (cw_convs w ! a)) action of
            Some er \<Rightarrow> Some ((Some CallResponseError, Some er), w) | None \<Rightarrow> Some (ok2, w)))"

record image_argv =
  ia_Url :: string
  ia_Name :: string
  ia_Text :: string
  ia_Kind :: string

text \<open>\<open>reencode\<close> parses an address and encodes its query again; \<open>None\<close> when it is no address.\<close>

definition chat_sendImage ::
  "chat_ctx \<Rightarrow> (string \<Rightarrow> string option) \<Rightarrow> (image_argv \<Rightarrow> goval \<Rightarrow> image_argv result) \<Rightarrow> goval \<Rightarrow> nat \<Rightarrow> chat_world \<Rightarrow> (outcome2 \<times> chat_world) option" where
  "chat_sendImage cx reencode decode args a w =
     (case decode \<lparr>ia_Url = [], ia_Name = ''empty'', ia_Text = [], ia_Kind = []\<rparr> args of
        Inl er \<Rightarrow> fail2 er w
      | Inr g \<Rightarrow>
          (case reencode (ia_Url g) of
             None \<Rightarrow> Some ((Some CallResponseError, Some (NewAppError ''sendImage'' ''chat.send_image.valid.url'' [] ''bad arguments'' 400)), w)
           | Some u \<Rightarrow> fin2 (conv_SendImageMessage (cx_gj cx) (cx_ff cx) (cx_sv cx) u (ia_Name g) (ia_Text g) (ia_Kind g) a w)))"

record file_message =
  fm_Id :: int
  fm_FileId :: int
  fm_FileName :: string
  fm_Text :: string
  fm_Source :: string
  fm_Expire :: int
  fm_Server :: string
  fm_Kind :: string

text \<open>The search may find no file (\<open>Inr None\<close>).\<close>

definition chat_sendFile ::
  "chat_ctx \<Rightarrow> (int \<Rightarrow> int \<Rightarrow> string \<Rightarrow> im_file option result) \<Rightarrow> (im_file \<Rightarrow> int \<Rightarrow> string \<Rightarrow> string \<Rightarrow> int \<Rightarrow> im_file result) \<Rightarrow>
   (goval \<Rightarrow> file_message result) \<Rightarrow> goval \<Rightarrow> nat \<Rightarrow> chat_world \<Rightarrow> (outcome2 \<times> chat_world) option" where
  "chat_sendFile cx search public decode args a w =
     (let dm = cv_domainId (cw_convs w ! a) in
      case decode args of
        Inl er \<Rightarrow> fail2 er w
      | Inr g \<Rightarrow>
          (let fid = (if fm_Id g > 0 \<and> fm_FileId g = 0 then fm_Id g else fm_FileId g); server = trim_slash (fm_Server g) in
           case search dm fid (fm_FileName g) of
             Inl er \<Rightarrow> fail2 er w
           | Inr None \<Rightarrow> Some ((Some CallResponseError, None), w)
           | Inr (Some f) \<Rightarrow>
               (case public f dm server (fm_Source g) (if fm_Expire g = 0 then 604800 else fm_Expire g) of
                  Inl er \<Rightarrow> fail2 er w
                | Inr f1 \<Rightarrow> fin2 (conv_SendFile (cx_gj cx) (cx_ff cx) (cx_sv cx) (fm_Text g)
                     (Some (f1\<lparr>fi_MimeType := fi_MimeType f1 @ '';source=media''\<rparr>)) (fm_Kind g) a w))))"

definition chat_Menu :: "chat_ctx \<Rightarrow> (chat_menu_args \<Rightarrow> goval \<Rightarrow> chat_menu_args result) \<Rightarrow> goval \<Rightarrow> nat \<Rightarrow> chat_world \<Rightarrow> (outcome2 \<times> chat_world) option" where
  "chat_Menu cx decode args a w =
     (case decode \<lparr>mn_Type = ''buttons'', mn_Buttons = [], mn_Inline = [], mn_Text = [], mn_NoInput = False, mn_Kind = []\<rparr> args of
        Inl er \<Rightarrow> fail2 er w
      | Inr argv \<Rightarrow>
          if mn_Type argv \<in> {''buttons'', ''inline''} then fin2 (conv_SendMenu (cx_gj cx) (cx_ff cx) (cx_sv cx) argv a w)
          else Some ((Some CallResponseError, None), w))"

section \<open>Speech, variables, contacts (tts.go, stt.go, export.go, unset.go, contacts.go, ai.go)\<close>

definition chat_sendTTS ::
  "chat_ctx \<Rightarrow> (string \<Rightarrow> int \<Rightarrow> int \<Rightarrow> string \<Rightarrow> string \<Rightarrow> string \<Rightarrow> string result) \<Rightarrow> (goval \<Rightarrow> tts_args result) \<Rightarrow> goval \<Rightarrow> nat \<Rightarrow> chat_world \<Rightarrow>
   (outcome2 \<times> chat_world) option" where
  "chat_sendTTS cx link decode args a w =
     (case decode args of
        Inl er \<Rightarrow> fail2 er w
      | Inr t \<Rightarrow>
          (case link (ta_Message t) (cv_domainId (cw_convs w ! a)) (ta_ProfileID t) (ta_TextType t) (ta_Voice t) (ta_Language t) of
             Inl er \<Rightarrow> Some ((Some CallResponseError, Some er), w)
           | Inr uri \<Rightarrow> fin2 (conv_SendFile (cx_gj cx) (cx_ff cx) (cx_sv cx) []
               (Some \<lparr>fi_Id = - 1, fi_Url = ta_Server t @ uri, fi_PublicUrl = [], fi_Name = ta_FileName t, fi_Size = 0,
                  fi_MimeType = ''audio/mpeg'', fi_ViewName = None, fi_Server = [], fi_Channel = []\<rparr>) (ta_Kind t) a w)))"

definition chat_STT ::
  "chat_ctx \<Rightarrow> (int \<Rightarrow> int \<Rightarrow> int \<Rightarrow> string \<Rightarrow> string result) \<Rightarrow> (goval \<Rightarrow> stt_args result) \<Rightarrow> goval \<Rightarrow> nat \<Rightarrow> chat_world \<Rightarrow> (outcome2 \<times> chat_world) option" where
  "chat_STT cx transcribe decode args a w =
     (let bad = (\<lambda>d. Some ((Some CallResponseError, Some (NewAppError [] ''chat_route.stt.check_args.error'' [] d 400)), w)) in
      case decode args of
        Inl er \<Rightarrow> fail2 er w
      | Inr s \<Rightarrow>
          if st_FileID s \<le> 0 then bad ''file id invalid''
          else if st_ProfileID s \<le> 0 then bad ''profile id invalid''
          else if st_Language s = [] then bad ''language empty''
          else if st_SetVar s = [] then bad ''set var empty''
          else (case transcribe (st_FileID s) (cv_domainId (cw_convs w ! a)) (st_ProfileID s) (st_Language s) of
              Inl er \<Rightarrow> Some ((Some CallResponseError, Some er), w)
            | Inr text \<Rightarrow> set2 cx [(st_SetVar s, GStr text)] a w))"

definition chat_export :: "chat_ctx \<Rightarrow> (goval \<Rightarrow> string list result) \<Rightarrow> goval \<Rightarrow> nat \<Rightarrow> chat_world \<Rightarrow> (outcome2 \<times> chat_world) option" where
  "chat_export cx decode args a w =
     (case decode args of Inl er \<Rightarrow> fail2 er w | Inr vars \<Rightarrow> fin2 (Some (conv_Export (cx_gj cx) (cx_ff cx) vars a w)))"

definition chat_UnSet :: "chat_ctx \<Rightarrow> (goval \<Rightarrow> string list result) \<Rightarrow> goval \<Rightarrow> nat \<Rightarrow> chat_world \<Rightarrow> (outcome2 \<times> chat_world) option" where
  "chat_UnSet cx decode args a w =
     (case decode args of
        Inl er \<Rightarrow> fail2 er w
      | Inr [] \<Rightarrow> fail2 (ErrorRequiredParameter ''UnSet'' ''unSet'') w
      | Inr ks \<Rightarrow> fin2 (Some (conv_UnSet (cx_ff cx) ks a w)))"

definition contactSearchVariable :: string where "contactSearchVariable = ''wbt_contact_search''"

record contact_query =
  cq_Qin :: "string list"
  cq_Q :: string

definition chat_searchContact ::
  "chat_ctx \<Rightarrow> (contact_query list \<Rightarrow> string) \<Rightarrow> (goval \<Rightarrow> contact_query list result) \<Rightarrow> goval \<Rightarrow> nat \<Rightarrow> chat_world \<Rightarrow> (outcome2 \<times> chat_world) option" where
  "chat_searchContact cx marshal decode args a w =
     (case decode args of
        Inl er \<Rightarrow> fail2 er w
      | Inr [] \<Rightarrow> fail2 (ErrorRequiredParameter ''searchContact'' ''query'') w
      | Inr qs \<Rightarrow>
          (let spec = marshal (filter (\<lambda>q. \<not> (cq_Q q = [] \<or> cq_Qin q = [])) qs) in
           fin2 (Some (conv_Export (cx_gj cx) (cx_ff cx) [contactSearchVariable] a
             (upd_conv a (conv_Set (cx_ff cx) [(contactSearchVariable, GStr spec)]) w)))))"

record chat_ai_answer =
  ca_HistoryLength :: int
  ca_Messages :: "chat_message list"
  ca_Response :: string
  ca_DefinedCategories :: string

text \<open>\<open>answer\<close> returns the response and the JSON text of the categories, or the text of an error.\<close>

definition chat_chatAi ::
  "chat_ctx \<Rightarrow> (int \<Rightarrow> chat_ai_answer \<Rightarrow> string + string \<times> string) \<Rightarrow> (goval \<Rightarrow> chat_ai_answer result) \<Rightarrow> goval \<Rightarrow> nat \<Rightarrow> chat_world \<Rightarrow>
   (outcome2 \<times> chat_world) option" where
  "chat_chatAi cx answer decode args a w =
     (let c = cw_convs w ! a in
      case decode args of
        Inl er \<Rightarrow> fail2 er w
      | Inr g0 \<Rightarrow>
          (let g = (if ca_HistoryLength g0 = 0 then g0\<lparr>ca_HistoryLength := 10\<rparr> else g0) in
           case conv_LastMessages (ca_HistoryLength g) c of
             None \<Rightarrow> None
           | Some msgs \<Rightarrow>
               (case answer (cv_domainId c) (g\<lparr>ca_Messages := msgs\<rparr>) of
                  Inl er \<Rightarrow> Some ((Some CallResponseError, Some (NewAppError ''chatAi'' ''chat.chat_ai.result'' [] er 500)), w)
                | Inr (text, cats) \<Rightarrow>
                    set2 cx ((if ca_Response g \<noteq> [] then [(ca_Response g, GStr text)] else []) @
                      (if ca_DefinedCategories g \<noteq> [] then [(ca_DefinedCategories g, GStr cats)] else [])) a w)))"

section \<open>Receiving (wait.go)\<close>

text \<open>As for dialogs: each element of \<open>rounds\<close> is one call of \<open>ReceiveMessage\<close>.\<close>

fun chat_recvMessage ::
  "chat_ctx \<Rightarrow> (proto_message \<Rightarrow> string) \<Rightarrow> (goval \<Rightarrow> receive_args result) \<Rightarrow> wait_round list list \<Rightarrow> flow \<Rightarrow> goval \<Rightarrow> nat \<Rightarrow> flow list \<Rightarrow>
   chat_world \<Rightarrow> (outcome2 \<times> flow \<times> flow list \<times> chat_world) option" where
  "chat_recvMessage cx marshal decode [] scope args a forks w = None"
| "chat_recvMessage cx marshal decode (ws # rounds) scope args a forks w =
     (case decode args of
        Inl er \<Rightarrow> Some ((None, Some er), scope, forks, w)
      | Inr argv \<Rightarrow>
          if ra_Set argv = [] then Some (ok2, scope, forks, w)
          else (let delimiter = (if ra_Delimiter argv \<noteq> [] then ra_Delimiter argv else '' '') in
            case conv_ReceiveMessage marshal (cx_sv cx) ws (ra_Set argv) (ra_Timeout argv) (ra_MessageTimeout argv) a w of
              None \<Rightarrow> None
            | Some (Inl er, w1) \<Rightarrow> Some ((None, Some er), scope, forks, upd_conv a (conv_Set (cx_ff cx) [(ra_Set argv, GStr [])]) w1)
            | Some (Inr msgs, w1) \<Rightarrow>
                (case (if CountTriggers scope > 0 then find (\<lambda>m. HasTrigger (TriggerCommandsName m) scope) msgs else None) of
                   Some m \<Rightarrow>
                     (case TriggerScope (TriggerCommandsName m) scope of
                        Inl _ \<Rightarrow> chat_recvMessage cx marshal decode rounds scope args a forks w1
                      | Inr s \<Rightarrow> chat_recvMessage cx marshal decode rounds (share_with s scope) args a (forks @ [s]) w1)
                 | None \<Rightarrow>
                     Some (ok2, scope, forks, upd_conv a (conv_Set (cx_ff cx) [(ra_Set argv, GStr (join_with delimiter msgs))]) w1))))"

section \<open>Bridge (bridge.go)\<close>

text \<open>\<open>None\<close>: the bridge goes on.\<close>

definition chat_bridge ::
  "chat_ctx \<Rightarrow> (chat_world \<Rightarrow> chat_world) \<Rightarrow> (chat_world \<Rightarrow> chat_world) \<Rightarrow> (goval \<Rightarrow> (int \<times> int) result) \<Rightarrow> goval \<Rightarrow> nat \<Rightarrow> chat_world \<Rightarrow>
   (outcome2 \<times> chat_world) option" where
  "chat_bridge cx during after decode args a w =
     (case decode args of
        Inl er \<Rightarrow> fail2 er w
      | Inr (userId, timeout) \<Rightarrow>
          (case conv_Bridge (cx_gj cx) (cx_sv cx) during after userId timeout a w of
             (BridgeFails er, w1) \<Rightarrow> fail2 er w1
           | (BridgeOver, w1) \<Rightarrow> Some (ok2, w1)
           | (BridgeBlocks, _) \<Rightarrow> None))"

section \<open>Queues (queue.go)\<close>

record chat_join_arg =
  cj_Priority :: int
  cj_BucketId :: int
  cj_QueueId :: int
  cj_QueueName :: string
  cj_Agent :: "(int option \<times> string option) option"
  cj_ExtraChatCount :: bool
  cj_Timers :: "timer_args list"
  cj_Offering :: "goval list"
  cj_Missed :: "goval list"
  cj_Bridged :: "goval list"

record chat_join_request =
  jc_ConversationId :: string
  jc_QueueId :: int
  jc_QueueName :: string
  jc_Priority :: int
  jc_BucketId :: int
  jc_Variables :: "string \<rightharpoonup> string"
  jc_DomainId :: int
  jc_StickyAgentId :: int
  jc_ExtraChatCount :: bool

text \<open>The messages of the queue's stream, with its end and its errors.\<close>

datatype queue_msg = QMJoined int string | QMOffering string int | QMMissed | QMBridged | QMLeaving string | QMOther | QMEof | QMError

text \<open>What the application starts and stops besides: timers, branches beside the schema, the common context.\<close>

datatype chat_queue_action = StartsChatTimer timer_args | StartsBranch flow | CancelsBranches

definition cancelQueue_chat :: "chat_ctx \<Rightarrow> (in_queue_key \<Rightarrow> string \<Rightarrow> app_error option) \<Rightarrow> nat \<Rightarrow> chat_world \<Rightarrow> (outcome2 \<times> chat_world) option" where
  "cancelQueue_chat cx cancelAttempt a w =
     (let c = cw_convs w ! a in
      case cv_queueKey c of
        None \<Rightarrow> Some ((Some CallResponseError, None), w)
      | Some key \<Rightarrow>
          (case cancelAttempt key ''cancel'' of
             Some er \<Rightarrow> fail2 er w
           | None \<Rightarrow> set2 cx [(''cc_cancel'', GStr (if fst (conv_SetQueue None c) then ''true'' else ''false''))] a
               (upd_conv a (\<lambda>c. snd (conv_SetQueue None c)) w)))"

text \<open>
  The loop over the stream; before each message others change the world.  A branch for an offer or a
  missed offer runs beside the schema, the branch of the bridge is run to its end; \<open>live\<close> tells
  whether the common context of timers and branches still has to be cancelled.  The \<open>break\<close> after
  a leaving message leaves only the \<open>switch\<close>.
\<close>

fun chat_queue_loop ::
  "chat_ctx \<Rightarrow> chat_world env \<Rightarrow> (flow \<Rightarrow> reqptr \<Rightarrow> chat_world \<Rightarrow> chat_world outcome) \<Rightarrow> chat_join_arg \<Rightarrow>
   ((chat_world \<Rightarrow> chat_world) \<times> queue_msg) list \<Rightarrow> nat \<Rightarrow> bool \<Rightarrow> flow \<Rightarrow> chat_queue_action list \<Rightarrow> chat_world \<Rightarrow>
   (outcome2 \<times> bool \<times> flow \<times> chat_queue_action list \<times> chat_world) option" where
  "chat_queue_loop cx e rq q [] a live scope acts w = None"
| "chat_queue_loop cx e rq q ((rely, m) # ms) a live scope acts w0 =
     (let w = rely w0;
          agent = (\<lambda>nm i. upd_conv a (conv_Set (cx_ff cx) [(''cc_agent_name'', nm), (''cc_agent_id'', i)]) w);
          branch = (\<lambda>nm acts'. Fork nm (ArrInterfaceToArrayApplication acts') scope)
      in case m of
           QMEof \<Rightarrow> Some (ok2, live, scope, acts, w)
         | QMError \<Rightarrow> Some ((Some CallResponseError, None), live, scope, acts, w)
         | QMJoined att app \<Rightarrow>
             chat_queue_loop cx e rq q ms a live scope acts
               (upd_conv a (\<lambda>c. snd (conv_SetQueue (Some \<lparr>qk_ptr = cw_waits w, qk_AttemptId = att, qk_AppId = app\<rparr>) c)) (w\<lparr>cw_waits := Suc (cw_waits w)\<rparr>))
         | QMOffering nm i \<Rightarrow>
             (if cj_Offering q = [] then chat_queue_loop cx e rq q ms a live scope acts (agent (GStr nm) (GInt i))
              else (let b = branch ''queue-offering'' (cj_Offering q)
                    in chat_queue_loop cx e rq q ms a live (share_with b scope) (acts @ [StartsBranch b]) (agent (GStr nm) (GInt i))))
         | QMMissed \<Rightarrow>
             (if cj_Missed q = [] then chat_queue_loop cx e rq q ms a live scope acts (agent (GStr []) (GStr []))
              else (let b = branch ''queue-missed'' (cj_Missed q)
                    in chat_queue_loop cx e rq q ms a live (share_with b scope) (acts @ [StartsBranch b]) (agent (GStr []) (GStr []))))
         | QMBridged \<Rightarrow>
             (let w1 = upd_conv a (\<lambda>c. snd (conv_SetQueue None c)) w; acts' = (if live then acts @ [CancelsBranches] else acts) in
              if cj_Bridged q = [] then chat_queue_loop cx e rq q ms a False scope acts' w1
              else (case Route e rq (branch ''queue-bridged'' (cj_Bridged q)) w1 of
                  None \<Rightarrow> None
                | Some (child, w2) \<Rightarrow> chat_queue_loop cx e rq q ms a False (share_with child scope) acts' w2))
         | QMLeaving res \<Rightarrow> chat_queue_loop cx e rq q ms a live scope acts (upd_conv a (conv_Set (cx_ff cx) [(''cc_result'', GStr res)]) w)
         | QMOther \<Rightarrow> chat_queue_loop cx e rq q ms a live scope acts w)"

record chat_queue_services =
  cqs_FindQueueByName :: "int \<Rightarrow> string \<Rightarrow> int result"
  cqs_GetAgentIdByExtension :: "int \<Rightarrow> string \<Rightarrow> int option"
  cqs_Join :: "chat_join_request \<Rightarrow> string option"

definition chat_sticky_agent :: "chat_queue_services \<Rightarrow> int \<Rightarrow> (int option \<times> string option) option \<Rightarrow> int" where
  "chat_sticky_agent qs domainId agent =
     (case agent of
        None \<Rightarrow> 0
      | Some (Some i, _) \<Rightarrow> i
      | Some (None, None) \<Rightarrow> 0
      | Some (None, Some ex) \<Rightarrow> (case cqs_GetAgentIdByExtension qs domainId ex of Some i \<Rightarrow> i | None \<Rightarrow> 0))"

definition chat_join_request_of :: "chat_ctx \<Rightarrow> chat_queue_services \<Rightarrow> chat_join_arg \<Rightarrow> int \<Rightarrow> conversation \<Rightarrow> chat_join_request" where
  "chat_join_request_of cx qs q queueId c =
     \<lparr>jc_ConversationId = cv_id c, jc_QueueId = queueId, jc_QueueName = cj_QueueName q, jc_Priority = cj_Priority q, jc_BucketId = cj_BucketId q,
      jc_Variables = conv_DumpExportVariables (cx_gj cx) c, jc_DomainId = cv_domainId c,
      jc_StickyAgentId = chat_sticky_agent qs (cv_domainId c) (cj_Agent q), jc_ExtraChatCount = cj_ExtraChatCount q\<rparr>"

definition chat_queue_id :: "chat_queue_services \<Rightarrow> chat_join_arg \<Rightarrow> int \<Rightarrow> int result" where
  "chat_queue_id qs q domainId =
     (if cj_QueueId q = 0 \<and> cj_QueueName q \<noteq> [] then cqs_FindQueueByName qs domainId (cj_QueueName q) else Inr (cj_QueueId q))"

definition joinQueue_chat ::
  "chat_ctx \<Rightarrow> chat_queue_services \<Rightarrow> chat_world env \<Rightarrow> (flow \<Rightarrow> reqptr \<Rightarrow> chat_world \<Rightarrow> chat_world outcome) \<Rightarrow> (goval \<Rightarrow> chat_join_arg result) \<Rightarrow>
   ((chat_world \<Rightarrow> chat_world) \<times> queue_msg) list \<Rightarrow> flow \<Rightarrow> goval \<Rightarrow> nat \<Rightarrow> chat_world \<Rightarrow>
   (outcome2 \<times> flow \<times> chat_queue_action list \<times> chat_world) option" where
  "joinQueue_chat cx qs e rq decode msgs scope args a w =
     (let c = cw_convs w ! a in
      case decode args of
        Inl er \<Rightarrow> Some ((None, Some er), scope, [CancelsBranches], w)
      | Inr q \<Rightarrow>
          (case chat_queue_id qs q (cv_domainId c) of
             Inl er \<Rightarrow> Some ((None, Some er), scope, [CancelsBranches], w)
           | Inr queueId \<Rightarrow>
               (let acts = map StartsChatTimer (queue_timer_names (cj_Timers q)) in
                case cqs_Join qs (chat_join_request_of cx qs q queueId c) of
                  Some _ \<Rightarrow> Some (ok2, scope, acts @ [CancelsBranches], w)
                | None \<Rightarrow>
                    (case chat_queue_loop cx e rq q msgs a True scope acts w of
                       None \<Rightarrow> None
                     | Some (r, live, scope', acts', w1) \<Rightarrow>
                         Some (r, scope', acts' @ (if live then [CancelsBranches] else []), upd_conv a (\<lambda>c. snd (conv_SetQueue None c)) w1)))))"

section \<open>Laws\<close>

lemma queue_timers_no_cancel: "CancelsBranches \<notin> set (map StartsChatTimer ts)"
  by auto

lemma chat_queue_loop_cancels:
  assumes "chat_queue_loop cx e rq q msgs a live scope acts w = Some (r, live', scope', acts', w')"
  shows "count_list acts' CancelsBranches + (if live' then 1 else 0) = count_list acts CancelsBranches + (if live then 1 else 0)"
  using assms
proof (induction msgs arbitrary: live scope acts w)
  case (Cons rm msgs)
  obtain rely m where rm: "rm = (rely, m)" by force
  show ?case
  proof (cases m)
    case QMBridged
    then show ?thesis using Cons.prems rm by (auto simp: Let_def split: option.splits if_splits dest!: Cons.IH)
  qed (use Cons.prems rm in \<open>auto simp: Let_def split: if_splits dest!: Cons.IH\<close>)
qed simp

lemma SetQueue_None: "cv_queueKey (snd (conv_SetQueue None c)) = None"
  by (simp add: conv_SetQueue_def)

text \<open>
  Whenever \<open>joinQueue\<close> of a chat returns, the context of its timers and branches is cancelled exactly once,
  whether or not an operator was bridged meanwhile, and once the conversation is in the queue it
  leaves without a queue key.
\<close>

lemma chat_joinQueue_undone:
  assumes "joinQueue_chat cx qs e rq decode msgs scope args a w = Some (r, scope', acts, w')"
  shows "count_list acts CancelsBranches = 1 \<and> (w' = w \<or> (a < length (cw_convs w') \<longrightarrow> cv_queueKey (cw_convs w' ! a) = None))"
proof (cases "decode args")
  case (Inl er)
  then show ?thesis using assms by (auto simp: joinQueue_chat_def)
next
  case q: (Inr q)
  let ?ts = "map StartsChatTimer (queue_timer_names (cj_Timers q))"
  have n: "count_list ?ts CancelsBranches = 0" using queue_timers_no_cancel count_list_0_iff by metis
  show ?thesis
  proof (cases "chat_queue_id qs q (cv_domainId (cw_convs w ! a))")
    case (Inl er)
    then show ?thesis using assms q by (auto simp: joinQueue_chat_def)
  next
    case (Inr queueId)
    show ?thesis
    proof (cases "cqs_Join qs (chat_join_request_of cx qs q queueId (cw_convs w ! a))")
      case None
      then obtain live sc acts' w1 where l: "chat_queue_loop cx e rq q msgs a True scope ?ts w = Some (r, live, sc, acts', w1)"
        "acts = acts' @ (if live then [CancelsBranches] else [])" "w' = upd_conv a (\<lambda>c. snd (conv_SetQueue None c)) w1"
        using assms q Inr by (auto simp: joinQueue_chat_def Let_def split: option.splits)
      then show ?thesis using chat_queue_loop_cancels [OF l(1)] n SetQueue_None by (simp split: if_splits)
    next
      case (Some er)
      then show ?thesis using assms q Inr n by (auto simp: joinQueue_chat_def Let_def)
    qed
  qed
qed

definition chat_example_join :: chat_join_arg where
  "chat_example_join = \<lparr>cj_Priority = 0, cj_BucketId = 0, cj_QueueId = 3, cj_QueueName = [], cj_Agent = None, cj_ExtraChatCount = False,
     cj_Timers = [], cj_Offering = [], cj_Missed = [], cj_Bridged = []\<rparr>"

definition example_cx :: chat_ctx where
  "example_cx = \<lparr>cx_gj = \<lambda>_ _. [], cx_ff = \<lambda>_. [], cx_sv = \<lparr>cs_SendMessage = \<lambda>_ _ _. None, cs_WaitMessage = \<lambda>_ _ _. Inl [], cs_Invite = \<lambda>_ _. None\<rparr>\<rparr>"

definition chat_example_queue :: chat_world where
  "chat_example_queue = \<lparr>cw_convs = [NewConversation ''chat-1'' ''c1'' 1 2 3 4], cw_bridges = [], cw_waits = 0, cw_table = NewLru 5, cw_consume = [], cw_calls = []\<rparr>"

end
