(* ===== verification/Chat_Manager.thy ===== *)
theory Chat_Manager
  imports Chat_Apps Cache_Layer
begin

text \<open>
  Messages to chats from outside a conversation: the client of the message service
  (\<open>providers/grpc/chat_manager.go\<close>), the applications \<open>broadcastChatMessage\<close> and \<open>chatHistory\<close>
  (\<open>flow/chat.go\<close>, \<open>flow/chat_history.go\<close>), the rendering of a history and the choice of the schema of
  a chat (\<open>app/chat.go\<close>).
\<close>

section \<open>Client\<close>

datatype input_file = InputUrl string | InputId string

definition inputFile :: "im_file option \<Rightarrow> input_file option" where
  "inputFile f = map_option (\<lambda>f. if fi_Url f \<noteq> [] then InputUrl (fi_Url f) else InputId (Itoa (fi_Id f))) f"

text \<open>Empty rows are dropped; no rows at all mean no keyboard.\<close>

definition inputKeyboard :: "chat_button list list \<Rightarrow> chat_button list list option" where
  "inputKeyboard btns = (if btns = [] then None else Some (filter (\<lambda>row. row \<noteq> []) btns))"

record broadcast_peer =
  bp_Id :: string
  bp_Type :: string
  bp_Via :: string

definition inputPeers :: "broadcast_peer list \<Rightarrow> broadcast_peer list" where
  "inputPeers ps = map (\<lambda>v. \<lparr>bp_Id = bp_Id v, bp_Type = bp_Type v, bp_Via = bp_Via v\<rparr>) ps"

record broadcast_chat =
  bc_ProfileId :: int
  bc_Peer :: "goval list"
  bc_Text :: string
  bc_File :: "im_file option"
  bc_Buttons :: "chat_button list list"
  bc_Variables :: "string \<rightharpoonup> string"
  bc_ResponseCode :: string
  bc_FailedReceivers :: string
  bc_Timeout :: int

record broadcast_request =
  bq_Text :: string
  bq_File :: "input_file option"
  bq_Keyboard :: "chat_button list list option"
  bq_Peers :: "broadcast_peer list"
  bq_Timeout :: int
  bq_Variables :: "string \<rightharpoonup> string"

record broadcast_response =
  br_Failed :: "(string \<times> string) list"
  br_Variables :: "(string \<times> string) list"

text \<open>
  \<open>client\<close> is a connection of the pool or an error; \<open>call\<close> sends the request with the deadline in
  milliseconds, if there is one beside that of the context.
\<close>

definition BroadcastMessage ::
  "(string + string) \<Rightarrow> (string \<Rightarrow> int option \<Rightarrow> broadcast_request \<Rightarrow> string + broadcast_response) \<Rightarrow> broadcast_chat \<Rightarrow> broadcast_peer list \<Rightarrow>
   string + broadcast_response" where
  "BroadcastMessage client call req peers =
     (case client of
        Inl er \<Rightarrow> Inl er
      | Inr cl \<Rightarrow> call cl (if bc_Timeout req \<noteq> 0 then Some (bc_Timeout req + 5) else None)
          \<lparr>bq_Text = bc_Text req, bq_File = inputFile (bc_File req), bq_Keyboard = inputKeyboard (bc_Buttons req),
           bq_Peers = inputPeers peers, bq_Timeout = bc_Timeout req, bq_Variables = bc_Variables req\<rparr>)"

definition BroadcastChatMessage ::
  "(string + string) \<Rightarrow> (string \<Rightarrow> int option \<Rightarrow> broadcast_request \<Rightarrow> string + broadcast_response) \<Rightarrow> broadcast_chat \<Rightarrow> broadcast_peer list \<Rightarrow>
   broadcast_response result" where
  "BroadcastChatMessage client call req peers =
     (case BroadcastMessage client call req peers of
        Inl er \<Rightarrow> Inl (NewAppError ''Chat'' ''chat.broadcast.error'' [] er 500)
      | Inr r \<Rightarrow> Inr r)"

datatype user_action = ActionTyping | ActionCancel

definition chat_SendAction :: "(string + string) \<Rightarrow> (string \<Rightarrow> string \<Rightarrow> user_action \<Rightarrow> string option) \<Rightarrow> string \<Rightarrow> string \<Rightarrow> string option" where
  "chat_SendAction client call channelId action =
     (case client of
        Inl er \<Rightarrow> Some er
      | Inr cl \<Rightarrow> call cl channelId (if action = ''cancel'' then ActionCancel else ActionTyping))"

definition SenChatAction :: "(string + string) \<Rightarrow> (string \<Rightarrow> string \<Rightarrow> user_action \<Rightarrow> string option) \<Rightarrow> string \<Rightarrow> string \<Rightarrow> app_error option" where
  "SenChatAction client call channelId action =
     map_option (\<lambda>er. NewAppError ''Chat'' ''chat.send_action.error'' [] er 500) (chat_SendAction client call channelId action)"

section \<open>Broadcast (flow/chat.go)\<close>

definition StringValueFromMap :: "(goval \<Rightarrow> string) \<Rightarrow> string \<Rightarrow> (string \<times> goval) list \<Rightarrow> string \<Rightarrow> string" where
  "StringValueFromMap sprint name params def =
     (case map_of params name of
        None \<Rightarrow> def
      | Some v \<Rightarrow> (case v of GMap _ \<Rightarrow> def | GArr _ \<Rightarrow> def | _ \<Rightarrow> sprint v))"

text \<open>A peer is an identifier or a map; anything else is skipped.  \<open>parse\<close> expands variables.\<close>

fun broadcast_peers :: "(goval \<Rightarrow> string) \<Rightarrow> (string \<Rightarrow> string) \<Rightarrow> string \<Rightarrow> int \<Rightarrow> goval list \<Rightarrow> broadcast_peer list" where
  "broadcast_peers sprint parse tp pid [] = []"
| "broadcast_peers sprint parse tp pid (v # vs) =
     (case v of
        GStr p \<Rightarrow> [\<lparr>bp_Id = p, bp_Type = tp, bp_Via = Itoa pid\<rparr>]
      | GMap m \<Rightarrow> [\<lparr>bp_Id = parse (StringValueFromMap sprint ''id'' m []), bp_Type = parse (StringValueFromMap sprint ''type'' m []),
                    bp_Via = parse (StringValueFromMap sprint ''via'' m [])\<rparr>]
      | _ \<Rightarrow> []) @ broadcast_peers sprint parse tp pid vs"

text \<open>The error of the profile lookup is dropped; the type is empty then.\<close>

definition broadcastChatMessage ::
  "(goval \<Rightarrow> string) \<Rightarrow> (string \<Rightarrow> string) \<Rightarrow> (int \<Rightarrow> int \<Rightarrow> string result) \<Rightarrow> (broadcast_chat \<Rightarrow> broadcast_peer list \<Rightarrow> broadcast_response result) \<Rightarrow>
   (broadcast_response \<Rightarrow> string) \<Rightarrow> ((string \<times> goval) list \<Rightarrow> 'c \<Rightarrow> response result \<times> 'c) \<Rightarrow> int \<Rightarrow> (goval \<Rightarrow> broadcast_chat result) \<Rightarrow> goval \<Rightarrow> 'c \<Rightarrow>
   response result \<times> 'c" where
  "broadcastChatMessage sprint parse profileType send marshal setv domainId decode args c =
     (case decode args of
        Inl er \<Rightarrow> (Inl er, c)
      | Inr argv \<Rightarrow>
          if bc_Peer argv = [] then (Inl (ErrorRequiredParameter ''broadcastChatMessage'' ''peer''), c)
          else (let tp = (if bc_ProfileId argv > 0 then (case profileType domainId (bc_ProfileId argv) of Inl _ \<Rightarrow> [] | Inr t \<Rightarrow> t) else []) in
            case send argv (broadcast_peers sprint parse tp (bc_ProfileId argv) (bc_Peer argv)) of
              Inl er \<Rightarrow> (Inl er, c)
            | Inr resp \<Rightarrow>
                (let report = (\<lambda>c. if br_Failed resp \<noteq> [] \<and> (bc_FailedReceivers argv \<noteq> [] \<or> bc_ResponseCode argv \<noteq> [])
                      then (case setv [(bc_ResponseCode argv, GStr (snd (hd (br_Failed resp))))] c of
                          (Inl er, c1) \<Rightarrow> (Inl er, c1)
                        | (Inr _, c1) \<Rightarrow> setv [(bc_FailedReceivers argv, GStr (marshal resp))] c1)
                      else (Inr CallResponseOK, c))
                 in case report c of
                      (Inl er, c1) \<Rightarrow> (Inl er, c1)
                    | (Inr _, c1) \<Rightarrow>
                        if br_Variables resp \<noteq> [] then setv (map (\<lambda>(k, v). (k, GStr v)) (br_Variables resp)) c1
                        else (Inr CallResponseOK, c1))))"

section \<open>History (flow/chat_history.go, app/chat.go)\<close>

text \<open>
  Templates are files: \<open>parse\<close> reads one, \<open>render\<close> fills it.  A type without template yields a nil
  template, and its use panics (\<open>None\<close>).
\<close>

record 't templates =
  tp_Path :: string
  tp_parse :: "string \<Rightarrow> string + 't"
  tp_render :: "'t \<Rightarrow> chat_message \<Rightarrow> string + string"
  tp_wrap :: "'t \<Rightarrow> string \<Rightarrow> string + string"

definition getMessageTemplateByType :: "'t templates \<Rightarrow> string \<Rightarrow> string \<Rightarrow> string \<Rightarrow> 't option result" where
  "getMessageTemplateByType tp messageType sender outputType =
     (let load = (\<lambda>suffix eid. case tp_parse tp (tp_Path tp @ ''/'' @ outputType @ ''/'' @ sender @ suffix @ ''.'' @ outputType) of
          Inl er \<Rightarrow> Inl (NewAppError ''Flow'' eid [] er 500)
        | Inr t \<Rightarrow> Inr (Some t))
      in if messageType = ''text'' then load [] ''flow_manager.parse_chat_messages.parse_template.fail''
         else if messageType = ''file'' then load ''_file'' ''flow_manager.parse_chat_messages.parse_file_template.fail''
         else Inr None)"

definition getChatMessageTemplate :: "'t templates \<Rightarrow> chat_message \<Rightarrow> string \<Rightarrow> bool \<Rightarrow> 't option result" where
  "getChatMessageTemplate tp m outputType isInternal =
     getMessageTemplateByType tp (cm_Type m) (if isInternal then ''agent'' else ''client'') outputType"

definition template_error :: "string \<Rightarrow> app_error" where
  "template_error er = NewAppError ''Flow'' ''flow_manager.parse_chat_messages.execute_template.fail'' [] er 500"

fun render_messages :: "'t templates \<Rightarrow> string \<Rightarrow> chat_message list \<Rightarrow> string \<Rightarrow> string result option" where
  "render_messages tp outp [] buf = Some (Inr buf)"
| "render_messages tp outp (m # ms) buf =
     (case getChatMessageTemplate tp m outp (cm_IsInternal m) of
        Inl er \<Rightarrow> Some (Inl er)
      | Inr None \<Rightarrow> None
      | Inr (Some t) \<Rightarrow>
          (case tp_render tp t m of
             Inl er \<Rightarrow> Some (Inl (template_error er))
           | Inr s \<Rightarrow> render_messages tp outp ms (buf @ s)))"

definition ParseChatMessages :: "'t templates \<Rightarrow> chat_message list \<Rightarrow> string \<Rightarrow> string result option" where
  "ParseChatMessages tp messages outp =
     (if messages = [] then Some (Inl (NewAppError ''Flow'' ''flow_manager.parse_chat_messages.invalid_args'' [] ''messages is nil or empty'' 400))
      else (case tp_parse tp (tp_Path tp @ ''/'' @ outp @ ''/wrapper.'' @ outp) of
          Inl er \<Rightarrow> Some (Inl (NewAppError ''Flow'' ''flow_manager.parse_chat_messages.parse_wrapper_template.fail'' [] er 500))
        | Inr wr \<Rightarrow>
            map_option (\<lambda>r. case r of Inl er \<Rightarrow> Inl er
              | Inr body \<Rightarrow> (case tp_wrap tp wr body of Inl er \<Rightarrow> Inl (template_error er) | Inr s \<Rightarrow> Inr s))
              (render_messages tp outp messages [])))"

record history_args =
  ha_ConversationId :: string
  ha_Variable :: string
  ha_Format :: string
  ha_Timeout :: int
  ha_Limit :: int

text \<open>\<open>messages\<close> is the store, with the time limit in milliseconds.\<close>

definition chatHistory ::
  "'t templates \<Rightarrow> (int \<Rightarrow> int \<Rightarrow> string \<Rightarrow> int \<Rightarrow> chat_message list result) \<Rightarrow> ((string \<times> goval) list \<Rightarrow> 'c \<Rightarrow> response result \<times> 'c) \<Rightarrow> int \<Rightarrow> string \<Rightarrow>
   (history_args \<Rightarrow> goval \<Rightarrow> history_args result) \<Rightarrow> goval \<Rightarrow> 'c \<Rightarrow> (response result \<times> 'c) option" where
  "chatHistory tp messages setv domainId connId decode args c =
     (case decode \<lparr>ha_ConversationId = connId, ha_Variable = [], ha_Format = [], ha_Timeout = 0, ha_Limit = 0\<rparr> args of
        Inl er \<Rightarrow> Some (Inl er, c)
      | Inr p \<Rightarrow>
          (let limit = (if ha_Limit p = 0 then 300 else ha_Limit p); timeout = (if ha_Timeout p = 0 then 3000 else ha_Timeout p) in
           case messages timeout domainId (ha_ConversationId p) limit of
             Inl er \<Rightarrow> Some (Inl er, c)
           | Inr ms \<Rightarrow>
               (case ParseChatMessages tp ms (ha_Format p) of
                  None \<Rightarrow> None
                | Some (Inl er) \<Rightarrow> Some (Inl er, c)
                | Some (Inr text) \<Rightarrow> Some (setv [(ha_Variable p, GStr text)] c))))"

section \<open>Routing (app/chat.go)\<close>

record routing_row =
  rr_SchemaId :: int
  rr_SchemaUpdatedAt :: int
  rr_TimezoneName :: string

definition routing_of :: "routing_row \<Rightarrow> schema_rec \<Rightarrow> im_routing" where
  "routing_of r s = \<lparr>rt_SchemaId = rr_SchemaId r, rt_Name = sc_Name s, rt_Schema = sc_Schema s, rt_Timezone = rr_TimezoneName r\<rparr>"

text \<open>The row comes from the store, by the profile or by the schema, and the schema through the cache.\<close>

definition GetChatRouteFromProfile ::
  "(int \<Rightarrow> int \<Rightarrow> routing_row result) \<Rightarrow> (int \<Rightarrow> int \<Rightarrow> app_error + schema_rec) \<Rightarrow> int \<Rightarrow> int \<Rightarrow> int \<Rightarrow> (int, schema_rec) lru \<Rightarrow>
   im_routing result \<times> (int, schema_rec) lru" where
  "GetChatRouteFromProfile row get now domainId profileId cache =
     (case row domainId profileId of
        Inl er \<Rightarrow> (Inl er, cache)
      | Inr r \<Rightarrow> (case GetSchema get now domainId (rr_SchemaId r) (rr_SchemaUpdatedAt r) cache of
            (Inl er, c1) \<Rightarrow> (Inl er, c1)
          | (Inr s, c1) \<Rightarrow> (Inr (routing_of r s), c1)))"

definition GetChatRouteFromSchemaId ::
  "(int \<Rightarrow> int \<Rightarrow> routing_row result) \<Rightarrow> (int \<Rightarrow> int \<Rightarrow> app_error + schema_rec) \<Rightarrow> int \<Rightarrow> int \<Rightarrow> int \<Rightarrow> (int, schema_rec) lru \<Rightarrow>
   im_routing result \<times> (int, schema_rec) lru" where
  "GetChatRouteFromSchemaId row get now domainId schemaId cache =
     (case row domainId schemaId of
        Inl er \<Rightarrow> (Inl er, cache)
      | Inr r \<Rightarrow> (case GetSchema get now domainId (rr_SchemaId r) (rr_SchemaUpdatedAt r) cache of
            (Inl er, c1) \<Rightarrow> (Inl er, c1)
          | (Inr s, c1) \<Rightarrow> (Inr (routing_of r s), c1)))"

definition GetChatRouteFromUserId :: "int \<Rightarrow> int \<Rightarrow> im_routing" where
  "GetChatRouteFromUserId domainId userId =
     \<lparr>rt_SchemaId = 0, rt_Name = ''transfer to user'', rt_Schema = [[(''bridge'', GMap [(''userId'', GInt userId)])]], rt_Timezone = []\<rparr>"

end
