(* ===== verification/Fs_Reader.thy ===== *)
theory Fs_Reader
  imports Text_Subst
begin

text \<open>
  The event socket of FreeSWITCH: the reader of MIME headers (\<open>providers/fs/fs_reader\<close>) and the
  connection that splits the stream into replies and events and renders commands
  (\<open>providers/fs/eventsocket\<close>).

  The stream is the string of the bytes still to come; its end is the end of the file.
\<close>

section \<open>Lines (reader.go)\<close>

definition NL :: char where "NL = CHR 0x0A"
definition CR :: char where "CR = CHR 0x0D"

definition is_ws :: "char \<Rightarrow> bool" where
  "is_ws c = (c = CHR '' '' \<or> c = CHR 0x09)"

text \<open>
  \<open>bufio.Reader.ReadLine\<close>: the line without its end, \<open>\n\<close> or \<open>\r\n\<close>, and the rest; \<open>None\<close> at the
  end of the stream.  A last line without end is returned as it is.
\<close>

definition readLineSlice :: "string \<Rightarrow> (string \<times> string) option" where
  "readLineSlice s =
     (if s = [] then None
      else (let l = takeWhile (\<lambda>c. c \<noteq> NL) s; r = dropWhile (\<lambda>c. c \<noteq> NL) s in
            if r = [] then Some (l, [])
            else Some (if l \<noteq> [] \<and> last l = CR then butlast l else l, tl r)))"

definition fs_trim :: "string \<Rightarrow> string" where
  "fs_trim s = rev (dropWhile is_ws (rev (dropWhile is_ws s)))"

lemma readLineSlice_length:
  assumes "readLineSlice s = Some (l, r)"
  shows "length r < length s"
proof -
  let ?r = "dropWhile (\<lambda>c. c \<noteq> NL) s"
  have "length ?r \<le> length s" by (rule length_dropWhile_le)
  moreover have "s \<noteq> []" using assms by (auto simp: readLineSlice_def)
  moreover have "r = tl ?r" using assms by (auto simp: readLineSlice_def Let_def simp del: dropWhile_eq_Nil_conv split: if_splits)
  ultimately show ?thesis by (cases ?r) auto
qed

text \<open>
  The loop over continuation lines, which start with white space; the number of skipped bytes decides
  whether there is another.
\<close>

function continue_lines :: "string \<Rightarrow> string \<Rightarrow> string \<times> string" where
  "continue_lines buf s =
     (let s1 = dropWhile is_ws s in
      if length s1 = length s then (buf, s)
      else (case readLineSlice s1 of
          None \<Rightarrow> (buf, s1)
        | Some (l, r) \<Rightarrow> continue_lines (buf @ '' '' @ fs_trim l) r))"
  by pat_completeness auto
termination
proof (relation "measure (\<lambda>(_, s). length s)")
  fix buf s s1 l r and x :: "string \<times> string"
  assume "s1 = dropWhile is_ws s" "readLineSlice s1 = Some x" "(l, r) = x"
  then have "length r < length s1" "length s1 \<le> length s"
    by (auto dest: readLineSlice_length simp: length_dropWhile_le)
  then show "((buf @ '' '' @ fs_trim l, r), buf, s) \<in> measure (\<lambda>(_, s). length s)" by simp
qed auto

declare continue_lines.simps [simp del]

lemma continue_lines_length: "length (snd (continue_lines buf s)) \<le> length s"
proof (induction buf s rule: continue_lines.induct)
  case (1 buf s)
  show ?case
  proof (cases "length (dropWhile is_ws s) = length s")
    case True
    then show ?thesis by (subst continue_lines.simps) (simp add: Let_def)
  next
    case False
    then show ?thesis using 1 [OF refl False] length_dropWhile_le [of is_ws s] readLineSlice_length [of "dropWhile is_ws s"]
      by (subst continue_lines.simps) (fastforce simp: Let_def split: option.splits)
  qed
qed

definition readContinuedLineSlice :: "string \<Rightarrow> (string \<times> string) option" where
  "readContinuedLineSlice s =
     (case readLineSlice s of
        None \<Rightarrow> None
      | Some (l, r) \<Rightarrow> if l = [] then Some (l, r) else Some (continue_lines (fs_trim l) r))"

lemma readContinuedLineSlice_length:
  assumes "readContinuedLineSlice s = Some (l, r)"
  shows "length r < length s"
proof -
  obtain l1 r1 where l1: "readLineSlice s = Some (l1, r1)" using assms by (auto simp: readContinuedLineSlice_def split: option.splits)
  then have "r = r1 \<or> r = snd (continue_lines (fs_trim l1) r1)"
    using assms by (auto simp: readContinuedLineSlice_def split: if_splits)
  then show ?thesis using readLineSlice_length [OF l1] continue_lines_length [of "fs_trim l1" r1] by auto
qed

section \<open>Headers\<close>

type_synonym mime_header = "string \<rightharpoonup> string list"

definition validHeaderFieldByte :: "char \<Rightarrow> bool" where
  "validHeaderFieldByte c =
     (let n = (of_char c :: nat) in (48 \<le> n \<and> n \<le> 57) \<or> (65 \<le> n \<and> n \<le> 90) \<or> (97 \<le> n \<and> n \<le> 122) \<or>
      c \<in> set ''!#$%&*+-.^_|~'' \<or> n = 39 \<or> n = 96)"

definition upper_byte :: "char \<Rightarrow> char" where
  "upper_byte c = (let n = (of_char c :: nat) in if 97 \<le> n \<and> n \<le> 122 then char_of (n - 32) else c)"

definition lower_byte :: "char \<Rightarrow> char" where
  "lower_byte c = (let n = (of_char c :: nat) in if 65 \<le> n \<and> n \<le> 90 then char_of (n + 32) else c)"

fun canonical_loop :: "bool \<Rightarrow> string \<Rightarrow> string" where
  "canonical_loop upper [] = []"
| "canonical_loop upper (c # cs) =
     (let c' = (if upper then upper_byte c else lower_byte c) in c' # canonical_loop (c' = CHR ''-'') cs)"

definition CanonicalMIMEHeaderKey :: "string \<Rightarrow> string" where
  "CanonicalMIMEHeaderKey s = (if list_all validHeaderFieldByte s then canonical_loop True s else s)"

definition mime_Get :: "mime_header \<Rightarrow> string \<Rightarrow> string" where
  "mime_Get h key = (case h (CanonicalMIMEHeaderKey key) of Some (v # _) \<Rightarrow> v | _ \<Rightarrow> [])"

datatype read_error = EOF | ProtocolError string

text \<open>The key of a header line ends before the colon and the blanks in front of it.\<close>

definition header_key :: "string \<Rightarrow> string" where
  "header_key k = rev (dropWhile (\<lambda>c. c = CHR '' '') (rev k))"

function header_loop :: "mime_header \<Rightarrow> string \<Rightarrow> mime_header \<times> read_error option \<times> string" where
  "header_loop m s =
     (case readContinuedLineSlice s of
        None \<Rightarrow> (m, Some EOF, [])
      | Some (kv, r) \<Rightarrow>
          if kv = [] then (m, None, r)
          else (case take_until CHR '':'' kv of
              None \<Rightarrow> (m, Some (ProtocolError (''malformed MIME header line: '' @ kv)), r)
            | Some (k, v) \<Rightarrow>
                (let key = header_key k; value = dropWhile is_ws v in
                 if key = [] then header_loop m r
                 else header_loop (m(key \<mapsto> (case m key of None \<Rightarrow> [value] | Some vv \<Rightarrow> vv @ [value]))) r)))"
  by pat_completeness auto
termination
  by (relation "measure (\<lambda>(_, s). length s)") (auto dest: readContinuedLineSlice_length)

declare header_loop.simps [simp del]

definition ReadMIMEHeader :: "string \<Rightarrow> mime_header \<times> read_error option \<times> string" where
  "ReadMIMEHeader s =
     (if s \<noteq> [] \<and> is_ws (hd s)
      then (case readLineSlice s of
          None \<Rightarrow> (Map.empty, Some EOF, [])
        | Some (l, r) \<Rightarrow> (Map.empty, Some (ProtocolError (''malformed MIME header initial line: '' @ l)), r))
      else header_loop Map.empty s)"

section \<open>Events (eventsocket.go)\<close>

record fs_event =
  ev_Header :: "string \<rightharpoonup> string"
  ev_Body :: string

definition ev_Get :: "fs_event \<Rightarrow> string \<Rightarrow> string" where
  "ev_Get e key = (case ev_Header e key of Some v \<Rightarrow> v | None \<Rightarrow> [])"

definition unhex :: "char \<Rightarrow> nat option" where
  "unhex c = (let n = (of_char c :: nat) in
     if 48 \<le> n \<and> n \<le> 57 then Some (n - 48) else if 97 \<le> n \<and> n \<le> 102 then Some (n - 87)
     else if 65 \<le> n \<and> n \<le> 70 then Some (n - 55) else None)"

fun QueryUnescape :: "string \<Rightarrow> string option" where
  "QueryUnescape [] = Some []"
| "QueryUnescape (c # cs) =
     (if c = CHR 0x25
      then (case cs of
          h # l # r \<Rightarrow> (case (unhex h, unhex l) of
              (Some x, Some y) \<Rightarrow> map_option (\<lambda>s. char_of (16 * x + y) # s) (QueryUnescape r)
            | _ \<Rightarrow> None)
        | _ \<Rightarrow> None)
      else map_option (\<lambda>s. (if c = CHR ''+'' then CHR '' '' else c) # s) (QueryUnescape cs))"

text \<open>The first value of each key, unescaped where that succeeds.\<close>

definition copyHeaders :: "bool \<Rightarrow> mime_header \<Rightarrow> string \<rightharpoonup> string" where
  "copyHeaders decode src k =
     map_option (\<lambda>vs. if decode then (case QueryUnescape (hd vs) of Some x \<Rightarrow> x | None \<Rightarrow> hd vs) else hd vs) (src k)"

datatype socket_error = ReadErr read_error | AtoiErr string | ShortBody | ReplyErr string

datatype read_out = ToErr socket_error | ToCmd fs_event | ToApi fs_event | ToEvt fs_event

text \<open>A body of the given length; \<open>make\<close> panics on a negative one.\<close>

datatype body_read = BodyPanic | BodyErr socket_error | BodyIs string string

definition read_body :: "mime_header \<Rightarrow> string \<Rightarrow> body_read" where
  "read_body hdr s =
     (let v = mime_Get hdr ''Content-Length'' in
      if v = [] then BodyIs [] s
      else (case Atoi v of
          None \<Rightarrow> BodyErr (AtoiErr v)
        | Some n \<Rightarrow> if n < 0 then BodyPanic else if int (length s) < n then BodyErr ShortBody else BodyIs (take (nat n) s) (drop (nat n) s)))"

text \<open>
  \<open>readOne\<close>: what it puts on which channel, if anything, whether the read loop goes on, and the rest of the
  stream; \<open>None\<close> when it panics or ends the process.  \<open>unmarshal\<close> reads the headers of a JSON event.
\<close>

definition plain_event :: "string \<Rightarrow> (read_out option \<times> bool) option" where
  "plain_event body =
     (case ReadMIMEHeader body of
        (hdr, Some _, _) \<Rightarrow> Some (None, False)
      | (hdr, None, rest) \<Rightarrow>
          (case read_body hdr rest of
             BodyPanic \<Rightarrow> None
           | BodyErr _ \<Rightarrow> Some (None, False)
           | BodyIs b _ \<Rightarrow> Some (Some (ToEvt \<lparr>ev_Header = copyHeaders True hdr, ev_Body = b\<rparr>), True)))"

definition readOne :: "(string \<Rightarrow> (string \<rightharpoonup> string) option) \<Rightarrow> string \<Rightarrow> (read_out option \<times> bool \<times> string) option" where
  "readOne unmarshal s =
     (case ReadMIMEHeader s of
        (hdr, Some er, rest) \<Rightarrow> Some (Some (ToErr (ReadErr er)), False, rest)
      | (hdr, None, rest) \<Rightarrow>
          (case read_body hdr rest of
             BodyPanic \<Rightarrow> None
           | BodyErr er \<Rightarrow> Some (Some (ToErr er), False, rest)
           | BodyIs body rest' \<Rightarrow>
               (let ct = mime_Get hdr ''Content-Type''; ev = (\<lambda>d. \<lparr>ev_Header = copyHeaders d hdr, ev_Body = body\<rparr>) in
                if ct = ''command/reply'' then
                  (let reply = mime_Get hdr ''Reply-Text'' in
                   if length reply < 2 then None
                   else if take 2 reply = ''-E'' then (if length reply < 5 then None else Some (Some (ToErr (ReplyErr (drop 5 reply))), True, rest'))
                   else Some (Some (ToCmd (ev (hd reply = CHR 0x25))), True, rest'))
                else if ct = ''api/response'' then
                  (if length body < 2 then None
                   else if take 2 body = ''-E'' then (if length body < 5 then None else Some (Some (ToErr (ReplyErr (drop 5 body))), True, rest'))
                   else Some (Some (ToApi (ev False)), True, rest'))
                else if ct = ''text/event-plain'' then map_option (\<lambda>(r, go). (r, go, rest')) (plain_event body)
                else if ct = ''text/event-json'' then
                  (case unmarshal body of
                     None \<Rightarrow> Some (None, False, rest')
                   | Some h \<Rightarrow> Some (Some (ToEvt \<lparr>ev_Header = h(''_body'' := None), ev_Body = (case h ''_body'' of Some b \<Rightarrow> b | None \<Rightarrow> [])\<rparr>), True, rest'))
                else if ct = ''text/disconnect-notice'' then Some (Some (ToEvt (ev False)), True, rest')
                else None)))"

text \<open>Commands; a line break is looked for with \<open>IndexAny\<close>, and found only behind the first byte.\<close>

definition line_break :: "char \<Rightarrow> bool" where
  "line_break c = (c = CR \<or> c = NL)"

definition bad_text :: "string \<Rightarrow> bool" where
  "bad_text s = (case s of [] \<Rightarrow> False | c # cs \<Rightarrow> \<not> line_break c \<and> list_ex line_break cs)"

fun msg_lines :: "(string \<times> string) list \<Rightarrow> string option" where
  "msg_lines [] = Some []"
| "msg_lines ((k, v) # m) =
     (if bad_text k then None
      else if v = [] then msg_lines m
      else if bad_text v then None
      else map_option (\<lambda>ls. k @ '': '' @ v @ [NL] @ ls) (msg_lines m))"

definition SendMsg_text :: "(string \<times> string) list \<Rightarrow> string \<Rightarrow> string \<Rightarrow> string option" where
  "SendMsg_text m uuid appData =
     (if uuid \<noteq> [] \<and> bad_text uuid then None
      else map_option (\<lambda>ls. ''sendmsg'' @ (if uuid = [] then [] else '' '' @ uuid) @ [NL] @ ls @ [NL] @
        (if (case map_of m ''content-length'' of Some v \<Rightarrow> v \<noteq> [] | None \<Rightarrow> False) \<and> appData \<noteq> [] then appData else [])) (msg_lines m))"

definition SendEvent_text :: "(string \<times> string) list \<Rightarrow> string \<Rightarrow> string option" where
  "SendEvent_text m name =
     (if name \<noteq> [] \<and> bad_text name then None
      else map_option (\<lambda>ls. ''sendevent'' @ (if name = [] then [] else '' '' @ name) @ [NL] @ ls @ [NL]) (msg_lines m))"

end
