(* ===== verification/Fs_Reader_Laws.thy ===== *)
theory Fs_Reader_Laws
  imports Fs_Reader
begin

text \<open>
  Laws of the event socket: what is written as headers is read back, an event comes through the
  reader as it was sent, and the lines of a command are those of its fields.
\<close>

section \<open>Reading back\<close>

definition header_line :: "string \<times> string \<Rightarrow> string" where
  "header_line kv = fst kv @ '': '' @ snd kv"

definition render_headers :: "(string \<times> string) list \<Rightarrow> string" where
  "render_headers kvs = concat (map (\<lambda>kv. header_line kv @ [NL]) kvs) @ [NL]"

definition line_ok :: "string \<times> string \<Rightarrow> bool" where
  "line_ok kv = (case kv of (k, v) \<Rightarrow> k \<noteq> [] \<and> CHR '':'' \<notin> set k \<and> NL \<notin> set k \<and> \<not> is_ws (hd k) \<and> \<not> is_ws (last k) \<and>
     NL \<notin> set v \<and> (v \<noteq> [] \<longrightarrow> \<not> is_ws (hd v) \<and> \<not> is_ws (last v) \<and> last v \<noteq> CR))"

lemma ws_facts [simp]: "is_ws (CHR '' '')" "\<not> is_ws (CHR '':'')" "\<not> is_ws NL" "CHR '' '' \<noteq> CR" "NL \<noteq> CHR '' ''" "NL \<noteq> CHR '':''"
  by code_simp+

lemma readLineSlice_line:
  assumes "NL \<notin> set l" "l = [] \<or> last l \<noteq> CR"
  shows "readLineSlice (l @ NL # r) = Some (l, r)"
proof -
  have "takeWhile (\<lambda>c. c \<noteq> NL) (l @ NL # r) = l" "dropWhile (\<lambda>c. c \<noteq> NL) (l @ NL # r) = NL # r"
    using assms(1) by (simp_all add: takeWhile_append dropWhile_append)
  then show ?thesis using assms(2) by (auto simp: readLineSlice_def Let_def)
qed

lemma continue_lines_none: "r = [] \<or> \<not> is_ws (hd r) \<Longrightarrow> continue_lines buf r = (buf, r)"
  by (cases r) (simp_all add: continue_lines.simps Let_def)

lemma dropWhile_hd: "xs = [] \<or> \<not> P (hd xs) \<Longrightarrow> dropWhile P xs = xs"
  by (cases xs) auto

lemma fs_trim_line:
  assumes "line_ok (k, v)"
  shows "fs_trim (header_line (k, v)) = k @ '':'' @ (if v = [] then [] else '' '' @ v)"
proof -
  have "dropWhile is_ws (k @ '': '' @ v) = k @ '': '' @ v" using assms by (intro dropWhile_hd) (auto simp: line_ok_def)
  moreover have "dropWhile is_ws (rev v @ '' :'' @ rev k) = (if v = [] then '':'' @ rev k else rev v @ '' :'' @ rev k)"
  proof (cases "v = []")
    case False
    then have "\<not> is_ws (hd (rev v @ '' :'' @ rev k))" using assms by (simp add: line_ok_def hd_append hd_rev)
    then show ?thesis using False by (simp add: dropWhile_hd)
  qed simp
  ultimately show ?thesis by (simp add: fs_trim_def header_line_def)
qed

lemma take_until_key: "c \<notin> set k \<Longrightarrow> take_until c (k @ c # v) = Some (k, v)"
  by (induction k) auto

lemma readContinued_line:
  assumes "line_ok (k, v)" "r = [] \<or> \<not> is_ws (hd r)"
  shows "readContinuedLineSlice (header_line (k, v) @ NL # r) = Some (k @ '':'' @ (if v = [] then [] else '' '' @ v), r)"
proof -
  have "last (header_line (k, v)) \<noteq> CR" using assms(1) by (auto simp: header_line_def line_ok_def)
  moreover have "NL \<notin> set (header_line (k, v))" using assms(1) by (auto simp: header_line_def line_ok_def)
  ultimately have "readLineSlice (header_line (k, v) @ NL # r) = Some (header_line (k, v), r)" by (intro readLineSlice_line) auto
  moreover have "header_line (k, v) \<noteq> []" by (simp add: header_line_def)
  ultimately show ?thesis using fs_trim_line [OF assms(1)] continue_lines_none [OF assms(2)]
    by (simp add: readContinuedLineSlice_def)
qed

definition add_value :: "string \<times> string \<Rightarrow> mime_header \<Rightarrow> mime_header" where
  "add_value kv m = m(fst kv \<mapsto> (case m (fst kv) of None \<Rightarrow> [snd kv] | Some vv \<Rightarrow> vv @ [snd kv]))"

lemma header_key_plain: "k \<noteq> [] \<Longrightarrow> \<not> is_ws (last k) \<Longrightarrow> header_key k = k"
  unfolding header_key_def by (subst dropWhile_hd) (auto simp: hd_rev)

lemma header_loop_line:
  assumes "line_ok (k, v)" "r = [] \<or> \<not> is_ws (hd r)"
  shows "header_loop m (header_line (k, v) @ NL # r) = header_loop (add_value (k, v) m) r"
proof -
  define w where "w = (if v = [] then [] else '' '' @ v)"
  have k: "k \<noteq> []" "CHR '':'' \<notin> set k" "header_key k = k" using assms(1) header_key_plain by (auto simp: line_ok_def)
  have v: "dropWhile is_ws w = v" using assms(1) by (auto simp: line_ok_def dropWhile_hd w_def)
  have "take_until CHR '':'' (k @ CHR '':'' # w) = Some (k, w)" using take_until_key [OF k(2)] by simp
  moreover have "readContinuedLineSlice (header_line (k, v) @ NL # r) = Some (k @ CHR '':'' # w, r)"
    using readContinued_line [OF assms] by (simp add: w_def)
  ultimately show ?thesis using k by (subst header_loop.simps) (cases "m k"; simp add: add_value_def Let_def v)
qed

lemma render_headers_hd: "list_all line_ok kvs \<Longrightarrow> \<not> is_ws (hd (render_headers kvs @ rest))"
  by (cases kvs) (auto simp: render_headers_def header_line_def line_ok_def hd_append)

lemma header_loop_render:
  assumes "list_all line_ok kvs"
  shows "header_loop m (render_headers kvs @ rest) = (fold add_value kvs m, None, rest)"
  using assms
proof (induction kvs arbitrary: m)
  case Nil
  have "readLineSlice (NL # rest) = Some ([], rest)" using readLineSlice_line [of "[]" rest] by simp
  then show ?case by (subst header_loop.simps) (simp add: render_headers_def readContinuedLineSlice_def)
next
  case (Cons kv kvs)
  obtain k v where kv: "kv = (k, v)" by force
  have "render_headers (kv # kvs) @ rest = header_line (k, v) @ NL # (render_headers kvs @ rest)" by (simp add: render_headers_def kv)
  then show ?case using Cons header_loop_line [of k v "render_headers kvs @ rest" m] render_headers_hd [of kvs rest] kv by simp
qed

lemma ReadMIMEHeader_render:
  assumes "list_all line_ok kvs"
  shows "ReadMIMEHeader (render_headers kvs @ rest) = (fold add_value kvs Map.empty, None, rest)"
  using header_loop_render [OF assms] render_headers_hd [OF assms, of rest] by (simp add: ReadMIMEHeader_def)

lemma fold_add_value:
  assumes "distinct (map fst kvs)"
  shows "fold add_value kvs m k = (case map_of kvs k of None \<Rightarrow> m k | Some v \<Rightarrow> Some (case m k of None \<Rightarrow> [v] | Some vv \<Rightarrow> vv @ [v]))"
  using assms
proof (induction kvs arbitrary: m)
  case (Cons kv kvs)
  then have "map_of kvs (fst kv) = None" by (simp add: map_of_eq_None_iff)
  then show ?case using Cons by (auto simp: add_value_def split: option.splits)
qed simp

lemma header_of_distinct: "distinct (map fst kvs) \<Longrightarrow> fold add_value kvs Map.empty = (\<lambda>k. map_option (\<lambda>v. [v]) (map_of kvs k))"
  by (auto simp: fold_add_value split: option.splits)

section \<open>Events\<close>

definition decoded :: "string \<Rightarrow> string" where
  "decoded v = (case QueryUnescape v of Some x \<Rightarrow> x | None \<Rightarrow> v)"

lemma read_body_none: "map_of kvs ''Content-Length'' = None \<Longrightarrow> read_body (\<lambda>k. map_option (\<lambda>v. [v]) (map_of kvs k)) s = BodyIs [] s"
proof -
  assume "map_of kvs ''Content-Length'' = None"
  moreover have "CanonicalMIMEHeaderKey ''Content-Length'' = ''Content-Length''" by code_simp
  ultimately show ?thesis by (simp add: read_body_def mime_Get_def)
qed

lemma plain_event_render:
  assumes "list_all line_ok kvs" "distinct (map fst kvs)" "map_of kvs ''Content-Length'' = None"
  shows "plain_event (render_headers kvs) = Some (Some (ToEvt \<lparr>ev_Header = (\<lambda>k. map_option decoded (map_of kvs k)), ev_Body = []\<rparr>), True)"
proof -
  have "ReadMIMEHeader (render_headers kvs) = (\<lambda>k. map_option (\<lambda>v. [v]) (map_of kvs k), None, [])"
    using ReadMIMEHeader_render [OF assms(1), of "[]"] header_of_distinct [OF assms(2)] by simp
  then show ?thesis
    by (simp add: plain_event_def read_body_none [OF assms(3)] copyHeaders_def decoded_def [abs_def] option.map_comp comp_def fun_eq_iff cong: option.case_cong)
qed

definition frame :: "string \<Rightarrow> string" where
  "frame body = render_headers [(''Content-Length'', Itoa (int (length body))), (''Content-Type'', ''text/event-plain'')] @ body"

lemma digit_not_blank: "d \<in> set (nat_digits n) \<Longrightarrow> \<not> is_ws d \<and> d \<noteq> NL \<and> d \<noteq> CR"
proof -
  assume "d \<in> set (nat_digits n)"
  then obtain i where "i < 10" "d = digit_char i" using nat_digits_set by blast
  moreover have "list_all (\<lambda>i. \<not> is_ws (digit_char i) \<and> digit_char i \<noteq> NL \<and> digit_char i \<noteq> CR) [0..<10]" by code_simp
  ultimately show ?thesis by (auto simp: list_all_iff)
qed

lemma readOne_frame:
  assumes "length body < 2 ^ 63"
  shows "readOne u (frame body @ rest) = map_option (\<lambda>(r, go). (r, go, rest)) (plain_event body)"
proof -
  let ?kvs = "[(''Content-Length'', Itoa (int (length body))), (''Content-Type'', ''text/event-plain'')]"
  have ne: "Itoa (int (length body)) \<noteq> []" by (simp add: Itoa_def nat_digits_ne)
  then have "line_ok (''Content-Length'', Itoa (int (length body)))"
    using digit_not_blank [of _ "length body"] by (auto simp: line_ok_def Itoa_def is_ws_def NL_def)
  moreover have "line_ok (''Content-Type'', ''text/event-plain'')" by (simp add: line_ok_def is_ws_def NL_def CR_def)
  ultimately have "list_all line_ok ?kvs" by simp
  then have hdr: "ReadMIMEHeader (frame body @ rest) = (\<lambda>k. map_option (\<lambda>v. [v]) (map_of ?kvs k), None, body @ rest)"
    using ReadMIMEHeader_render [of ?kvs "body @ rest"] header_of_distinct [of ?kvs] by (simp add: frame_def)
  have c: "CanonicalMIMEHeaderKey ''Content-Length'' = ''Content-Length''" "CanonicalMIMEHeaderKey ''Content-Type'' = ''Content-Type''" by code_simp+
  have "Atoi (Itoa (int (length body))) = Some (int (length body))" using assms by (intro Atoi_Itoa) auto
  then have body: "read_body (\<lambda>k. map_option (\<lambda>v. [v]) (map_of ?kvs k)) (body @ rest) = BodyIs body rest"
    using ne by (simp add: read_body_def mime_Get_def c Let_def)
  have ct: "mime_Get (\<lambda>k. map_option (\<lambda>v. [v]) (map_of ?kvs k)) ''Content-Type'' = ''text/event-plain''" by (simp add: mime_Get_def c)
  show ?thesis unfolding readOne_def hdr prod.case option.case body body_read.case ct by (simp add: Let_def)
qed

text \<open>
  C23: An event that the switch sends on the socket as a block of header lines, framed by its length and
  followed by whatever comes next, is delivered by the reader as one event with exactly those headers: the keys as they were
  sent, with no canonical form (although the comments on \<open>ReadMIMEHeader\<close> and \<open>copyHeaders\<close> promise one), each value unescaped where its escapes are
  well formed and left as it is otherwise; the reader goes on behind the frame.
\<close>

theorem event_round_trip:
  assumes "list_all line_ok kvs" "distinct (map fst kvs)" "map_of kvs ''Content-Length'' = None" "length (render_headers kvs) < 2 ^ 63"
  shows "readOne u (frame (render_headers kvs) @ rest) =
    Some (Some (ToEvt \<lparr>ev_Header = (\<lambda>k. map_option decoded (map_of kvs k)), ev_Body = []\<rparr>), True, rest)"
  using readOne_frame [OF assms(4)] plain_event_render [OF assms(1-3)] by simp

theorem event_round_trip_witness:
  "\<exists>ev. readOne (\<lambda>_. None) (frame (render_headers [(''Event-Name'', ''CHANNEL%5FPARK''), (''Bad'', ''50%'')]) @ ''Content-Type'') =
     Some (Some (ToEvt ev), True, ''Content-Type'') \<and> ev_Get ev ''Event-Name'' = ''CHANNEL_PARK'' \<and> ev_Get ev ''Bad'' = ''50%''"
proof -
  let ?kvs = "[(''Event-Name'', ''CHANNEL%5FPARK''), (''Bad'', ''50%'')] :: (string \<times> string) list"
  have "list_all line_ok ?kvs" by code_simp
  moreover have "decoded ''CHANNEL%5FPARK'' = ''CHANNEL_PARK''" "decoded ''50%'' = ''50%''" by code_simp+
  moreover have "readOne (\<lambda>_. None) (frame (render_headers ?kvs) @ ''Content-Type'') =
    Some (Some (ToEvt \<lparr>ev_Header = (\<lambda>k. map_option decoded (map_of ?kvs k)), ev_Body = []\<rparr>), True, ''Content-Type'')"
    using calculation(1) by (intro event_round_trip) (simp_all add: render_headers_def header_line_def)
  ultimately show ?thesis by (simp add: ev_Get_def)
qed

section \<open>Commands\<close>

text \<open>The lines of a command are the fields with a value, as long as none starts with a line break.\<close>

definition starts_clean :: "string \<Rightarrow> bool" where
  "starts_clean s = (s = [] \<or> \<not> line_break (hd s))"

definition msg_fields :: "(string \<times> string) list \<Rightarrow> (string \<times> string) list" where
  "msg_fields m = filter (\<lambda>kv. snd kv \<noteq> []) m"

lemma clean_text: "starts_clean s \<Longrightarrow> \<not> bad_text s \<Longrightarrow> NL \<notin> set s"
  by (cases s) (auto simp: starts_clean_def bad_text_def line_break_def list_ex_iff)

lemma split_on_line: "c \<notin> set l \<Longrightarrow> split_on c (l @ c # r) = l # split_on c r"
  by (induction l) auto

lemma msg_lines_fields:
  assumes "msg_lines m = Some ls" "list_all (\<lambda>kv. starts_clean (fst kv) \<and> starts_clean (snd kv)) m"
  shows "split_on NL ls = map header_line (msg_fields m) @ [[]]"
  using assms
proof (induction m arbitrary: ls rule: msg_lines.induct)
  case (2 k v m)
  show ?case
  proof (cases "v = []")
    case True
    then show ?thesis using 2 by (auto simp: msg_fields_def split: if_splits)
  next
    case False
    then obtain r where r: "msg_lines m = Some r" "ls = (k @ '': '' @ v) @ NL # r" "\<not> bad_text k" "\<not> bad_text v"
      using 2(3) by (auto split: if_splits)
    have "NL \<notin> set (k @ '': '' @ v)" using clean_text r(3,4) 2(4) by auto
    moreover have "split_on NL r = map header_line (msg_fields m) @ [[]]" using 2 False r by auto
    ultimately show ?thesis using r(2) False split_on_line [of NL "k @ '': '' @ v" r] by (simp add: msg_fields_def header_line_def)
  qed
qed (simp add: msg_fields_def)

text \<open>
  An accepted \<open>sendmsg\<close> whose identifier, keys and values do not begin with a line break is exactly the
  command line, one line for each field that has a value, and the empty line that ends it: no field can add a header
  or end the command early.
\<close>

lemma sendmsg_lines:
  assumes "SendMsg_text m uuid [] = Some t" "starts_clean uuid"
    "list_all (\<lambda>kv. starts_clean (fst kv) \<and> starts_clean (snd kv)) m"
  shows "split_on NL t = (''sendmsg'' @ (if uuid = [] then [] else '' '' @ uuid)) # map header_line (msg_fields m) @ [[], []]"
proof -
  obtain ls where ls: "msg_lines m = Some ls" "t = (''sendmsg'' @ (if uuid = [] then [] else '' '' @ uuid)) @ NL # ls @ [NL]"
    and u: "uuid = [] \<or> \<not> bad_text uuid"
    using assms(1) by (auto simp: SendMsg_text_def split: if_splits option.splits)
  define l where "l = ''sendmsg'' @ (if uuid = [] then [] else '' '' @ uuid)"
  have "NL \<notin> set l" unfolding l_def
    using u clean_text [OF assms(2)] by (auto simp: NL_def)
  moreover have "split_on NL (ls @ [NL]) = split_on NL ls @ [[]]"
    by (induction ls) (auto split: list.splits)
  ultimately show ?thesis
    using msg_lines_fields [OF ls(1) assms(3)] split_on_line [of NL l "ls @ [NL]"] unfolding ls(2) l_def [symmetric] by simp
qed

text \<open>
  A value that begins with a line break is accepted, because the position it is found at is compared with
  \<open>> 0\<close>, and the rest of it is read by the switch as headers of its own or as the end of the command.
\<close>

lemma sendmsg_injection:
  "SendMsg_text [(''execute-app-arg'', CHR 0x0A # ''call-command: hangup'')] [] [] = Some t \<Longrightarrow>
     split_on NL t = [''sendmsg'', ''execute-app-arg: '', ''call-command: hangup'', [], []]"
  by (auto simp: SendMsg_text_def bad_text_def line_break_def NL_def CR_def)

end
