(* ===== verification/Fs_Call.thy ===== *)
theory Fs_Call
  imports Fs_Reader Im_Connection Flow_Basic
begin

text \<open>
  A call on the event socket (\<open>providers/fs/connection.go\<close>, \<open>variables.go\<close>, \<open>server.go\<close>): what is read
  from the first event, its variables, the commands that run on the channel, the events that answer them, and
  the end of the connection.

  The goroutine that reads the socket and the flows that run commands share the call.  A command registers a
  buffered channel under a fresh identifier, sends itself, and waits; the reader answers it.  What happens on the
  socket and to the context while a command waits is the list \<open>fc_future\<close>.  \<open>None\<close> stands for a goroutine that
  blocks for ever or panics: on a send to a full or closed channel, or in a wait that nothing ends.

  The call has a read-write mutex.  What the code does under it (an event in \<open>setEvent\<close>, the registration of a
  command, the end of the connection) is one definition here, that is, one step between other steps; the waits for
  the mutex itself are the subject of \<open>Fs_Vars_Props\<close>.
\<close>

section \<open>Data\<close>

record call_endpoint =
  ce_Type :: string
  ce_Id :: string
  ce_Number :: string
  ce_Name :: string

text \<open>The channel of a waiting command; the answer is sent once and the channel is closed behind it.\<close>

datatype cb_chan = CbOpen | CbAnswered fs_event

text \<open>The channel of a hook: its goroutine waits, has been told, or has seen it closed.\<close>

datatype hook_chan = HookWaiting | HookFired | HookClosed

datatype happening = SockEvent fs_event | SockEOF | CtxDone

text \<open>What goes out for a call: to the switch, and the last one to the recognition service.\<close>

datatype fs_cmd = ExecCmd string string | LoopCmd string string | ApiCmd string | ExitCmd | SttUpdate string

record speech_message =
  sm_Question :: string
  sm_Answer :: string

record fs_call =
  fc_id :: string
  fc_nodeId :: string
  fc_nodeName :: string
  fc_transfer :: bool
  fc_transferFromId :: string
  fc_originateRequest :: bool
  fc_webCall :: string
  fc_dialPlan :: string
  fc_destination :: string
  fc_stopped :: bool
  fc_direction :: string
  fc_gatewayId :: int
  fc_domainId :: int
  fc_domainName :: string
  fc_from :: call_endpoint
  fc_to :: "call_endpoint option"
  fc_schemaId :: "int option"
  fc_resample :: int
  fc_transferSchema :: int
  fc_transferQueue :: int
  fc_transferAgent :: int
  fc_isBlindTransferQueue :: bool
  fc_userId :: int
  fc_meetingId :: string
  fc_lastEvent :: fs_event
  fc_callbacks :: "string list"
  fc_chans :: "string \<rightharpoonup> cb_chan"
  fc_variables :: "string \<rightharpoonup> string"
  fc_hangupCause :: string
  fc_exportVariables :: "string list"
  fc_cancelled :: bool
  fc_hookBridged :: "nat option"
  fc_hooks :: "nat \<rightharpoonup> hook_chan"
  fc_cancelQueue :: bool
  fc_queueCancelled :: nat
  fc_speechMessages :: "speech_message list"
  fc_playBackground :: int
  fc_sent :: "fs_cmd list"
  fc_seq :: nat
  fc_future :: "happening list"

section \<open>The first event\<close>

definition getDirection :: "string \<Rightarrow> string" where
  "getDirection str = (if str = ''outbound'' \<or> str = ''internal'' then ''outbound'' else ''inbound'')"

definition getIntFromStr :: "string \<Rightarrow> int" where
  "getIntFromStr str = Atoi_value str"

definition initIvrQueue :: "fs_event \<Rightarrow> fs_call \<Rightarrow> fs_call" where
  "initIvrQueue e c =
     (let s = ev_Get e ''variable_cc_queue_id'' in
      if s \<noteq> [] \<and> ev_Get e ''variable_cc_queue_type'' = ''ivr''
      then (case Atoi s of Some i \<Rightarrow> c\<lparr>fc_schemaId := Some i\<rparr> | None \<Rightarrow> c) else c)"

definition initTransferSchema :: "fs_event \<Rightarrow> fs_call \<Rightarrow> fs_call" where
  "initTransferSchema e c = c\<lparr>fc_transferSchema := Atoi_value (ev_Get e ''variable_transfer_to_schema_id'')\<rparr>"

definition initTransferQueue :: "fs_event \<Rightarrow> fs_call \<Rightarrow> fs_call" where
  "initTransferQueue e c = c\<lparr>fc_transferQueue := Atoi_value (ev_Get e ''variable_wbt_bt_queue_id''),
     fc_transferAgent := Atoi_value (ev_Get e ''variable_wbt_bt_agent_id''),
     fc_isBlindTransferQueue := (ev_Get e ''variable_wbt_bt_queue'' = ''true'')\<rparr>"

definition TransferSchemaId :: "fs_call \<Rightarrow> int option" where
  "TransferSchemaId c =
     (if (fc_dialPlan c = ''default'' \<or> fc_webCall c \<noteq> []) \<and> fc_transferSchema c \<noteq> 0 then Some (fc_transferSchema c) else None)"

definition SetTransferFromId :: "fs_call \<Rightarrow> fs_call" where
  "SetTransferFromId c = c\<lparr>fc_transferFromId := ev_Get (fc_lastEvent c) ''variable_last_bridge_to''\<rparr>"

definition call_IsTransfer :: "fs_call \<Rightarrow> bool" where
  "call_IsTransfer c = (fc_transfer c \<or> fc_webCall c \<noteq> [])"

definition initDestination :: "fs_event \<Rightarrow> fs_call \<Rightarrow> fs_call" where
  "initDestination e c =
     (let d = ev_Get e ''Channel-Destination-Number''; d1 = ev_Get e ''Caller-Destination-Number'' in
      c\<lparr>fc_destination := (if d \<noteq> [] then d else if d1 \<noteq> [] then d1 else ev_Get e ''variable_destination_number'')\<rparr>)"

definition GetVariable :: "string \<Rightarrow> fs_call \<Rightarrow> string" where
  "GetVariable name c = ev_Get (fc_lastEvent c) name"

definition no_endpoint :: call_endpoint where
  "no_endpoint = \<lparr>ce_Type = [], ce_Id = [], ce_Number = [], ce_Name = []\<rparr>"

text \<open>
  The transfer, the web call, the meeting and the destination; the destination of an originated call is read
  and then replaced by the usual one.
\<close>

definition call_marks :: "fs_event \<Rightarrow> fs_call \<Rightarrow> fs_call" where
  "call_marks e c = c\<lparr>fc_transfer := (ev_Get e ''variable_transfer_source'' \<noteq> []), fc_webCall := ev_Get e ''variable_wbt_web_call'',
     fc_meetingId := GetVariable ''variable_sip_h_X-Webitel-Meeting'' c,
     fc_originateRequest := (fc_originateRequest c \<or>
       (ev_Get e ''variable_sip_h_X-Webitel-Origin'' = ''request'' \<and> ev_Get e ''variable_grpc_originate_success'' = ''true''))\<rparr>"

definition call_destination :: "fs_event \<Rightarrow> fs_call \<Rightarrow> fs_call" where
  "call_destination e c =
     initDestination e
       (if ev_Get e ''variable_sip_h_X-Webitel-Display-Direction'' \<noteq> []
        then c\<lparr>fc_destination := ev_Get e ''variable_effective_callee_id_number''\<rparr> else initDestination e c)"

definition call_endpoints :: "fs_event \<Rightarrow> fs_call \<Rightarrow> fs_call" where
  "call_endpoints e c =
     (let number = ev_Get e ''Caller-Caller-ID-Number''; name = ev_Get e ''Caller-Caller-ID-Name'' in
      if fc_gatewayId c \<noteq> 0 \<and> fc_userId c = 0
      then c\<lparr>fc_from := \<lparr>ce_Type = ''dest'', ce_Id = [], ce_Number = number, ce_Name = name\<rparr>,
             fc_to := Some \<lparr>ce_Type = ''gateway'', ce_Id = ev_Get e ''variable_sip_h_X-Webitel-Gateway-Id'',
               ce_Number = number, ce_Name = ev_Get e ''variable_sip_h_X-Webitel-Gateway''\<rparr>\<rparr>
      else if fc_userId c \<noteq> 0
      then c\<lparr>fc_from := \<lparr>ce_Type = ''user'', ce_Id = Itoa (fc_userId c), ce_Number = number, ce_Name = name\<rparr>\<rparr>
      else if fc_webCall c \<noteq> [] \<and> fc_transferSchema c \<noteq> 0
      then c\<lparr>fc_from := no_endpoint, fc_to := Some \<lparr>ce_Type = ''dest'', ce_Id = [],
             ce_Number = ev_Get e ''Caller-Orig-Caller-ID-Number'', ce_Name = ev_Get e ''Caller-Orig-Caller-ID-Name''\<rparr>\<rparr>
      else c\<lparr>fc_from := no_endpoint\<lparr>ce_Type := ''unknown''\<rparr>\<rparr>)"

definition setCallInfo :: "fs_event \<Rightarrow> fs_call \<Rightarrow> fs_call" where
  "setCallInfo e c = call_endpoints e (call_destination e (call_marks e c))"

definition updateVariablesFromEvent :: "fs_event \<Rightarrow> fs_call \<Rightarrow> fs_call" where
  "updateVariablesFromEvent e c = c\<lparr>fc_variables := fc_variables c ++ ev_Header e\<rparr>"

definition fs_newConnection :: "happening list \<Rightarrow> fs_event \<Rightarrow> fs_call" where
  "fs_newConnection future e =
     updateVariablesFromEvent e (setCallInfo e (initTransferQueue e (initTransferSchema e (initIvrQueue e
       \<lparr>fc_id = ev_Get e ''Unique-ID'', fc_nodeId = ev_Get e ''Core-UUID'', fc_nodeName = ev_Get e ''FreeSWITCH-Switchname'',
        fc_transfer = False, fc_transferFromId = [], fc_originateRequest = False, fc_webCall = [],
        fc_dialPlan = ev_Get e ''Channel-Context'', fc_destination = [], fc_stopped = False,
        fc_direction = getDirection (ev_Get e ''variable_sip_h_X-Webitel-Direction''),
        fc_gatewayId = getIntFromStr (ev_Get e ''variable_sip_h_X-Webitel-Gateway-Id''),
        fc_domainId = getIntFromStr (ev_Get e ''variable_sip_h_X-Webitel-Domain-Id''), fc_domainName = [],
        fc_from = no_endpoint, fc_to = None, fc_schemaId = None, fc_resample = 0, fc_transferSchema = 0, fc_transferQueue = 0,
        fc_transferAgent = 0, fc_isBlindTransferQueue = False,
        fc_userId = getIntFromStr (ev_Get e ''variable_sip_h_X-Webitel-User-Id''), fc_meetingId = [], fc_lastEvent = e,
        fc_callbacks = [], fc_chans = Map.empty, fc_variables = Map.empty, fc_hangupCause = [], fc_exportVariables = [],
        fc_cancelled = False, fc_hookBridged = None, fc_hooks = Map.empty, fc_cancelQueue = False, fc_queueCancelled = 0,
        fc_speechMessages = [], fc_playBackground = 0, fc_sent = [], fc_seq = 0, fc_future = future\<rparr>))))"

section \<open>Variables\<close>

definition mapVariables :: "(string \<times> string) list" where
  "mapVariables =
     [(''state'', ''Channel-State''), (''state_number'', ''Channel-State-Number''), (''channel_name'', ''Channel-Name''),
      (''uuid'', ''Unique-ID''), (''direction'', ''Call-Direction''), (''read_codec'', ''Channel-Read-Codec-Name''),
      (''read_rate'', ''Channel-Read-Codec-Rate''), (''write_codec'', ''Channel-Write-Codec-Name''),
      (''write_rate'', ''Channel-Write-Codec-Rate''), (''username'', ''Caller-Username''), (''dialplan'', ''Caller-Dialplan''),
      (''caller_id_name'', ''Caller-Caller-ID-Name''), (''caller_id_number'', ''Caller-Caller-ID-Number''), (''ani'', ''Caller-ANI''),
      (''aniii'', ''Caller-Ani-II''), (''network_addr'', ''Caller-Network-Addr''), (''destination_number'', ''Caller-Destination-Number''),
      (''source'', ''Caller-Source''), (''context'', ''Caller-Context''), (''rdnis'', ''Caller-Rdnis''),
      (''profile_index'', ''Caller-Profile-Index''), (''created_time'', ''Caller-Channel-Created-Time''),
      (''answered_time'', ''Caller-Channel-Answered-Time''), (''hangup_time'', ''Caller-Channel-Hangup-Time''),
      (''transfer_time'', ''Caller-Channel-Transfer-Time''), (''screen_bit'', ''Caller-Screen-Bit''),
      (''privacy_hide_name'', ''Caller-Privacy-Hide-Name''), (''privacy_hide_number'', ''Caller-Privacy-Hide-Number''),
      (''profile_created'', ''Caller-Profile-Created-Time''), (''sip_h_p-key-flags'', ''variable_sip_h_P-Key-Flags''),
      (''sip_h_referred-by'', ''variable_sip_h_Referred-By'')]"

text \<open>A name of the table above is found even when it has no value.\<close>

definition call_get :: "string \<Rightarrow> fs_call \<Rightarrow> string \<times> bool" where
  "call_get key c =
     (case (if fc_stopped c then fc_variables c key else None) of
        Some v \<Rightarrow> (v, True)
      | None \<Rightarrow>
          (let e = fc_lastEvent c; v = ev_Get e (''variable_'' @ key); mk = map_of mapVariables key;
               v1 = (if v = [] then (case mk of Some k \<Rightarrow> ev_Get e k | None \<Rightarrow> []) else v);
               v2 = (if v1 = [] then ev_Get e key else v1)
           in (v2, (v = [] \<and> mk \<noteq> None) \<or> v2 \<noteq> [])))"

definition call_Get :: "(string \<Rightarrow> string \<Rightarrow> string) \<Rightarrow> string \<Rightarrow> fs_call \<Rightarrow> string \<times> bool" where
  "call_Get gj key c =
     (if key = ''strepoch()'' then (''${'' @ key @ ''}'', True)
      else (case take_until CHR ''.'' key of
          Some (rt, path) \<Rightarrow>
            (if rt = [] then call_get key c
             else (case call_get rt c of (v, True) \<Rightarrow> (gj v path, True) | (v, False) \<Rightarrow> call_get key c))
        | None \<Rightarrow> call_get key c))"

definition GetContactId :: "(string \<Rightarrow> string \<Rightarrow> string) \<Rightarrow> fs_call \<Rightarrow> int" where
  "GetContactId gj c = (case call_Get gj ''wbt_contact_id'' c of (v, True) \<Rightarrow> Atoi_value v | _ \<Rightarrow> 0)"

definition call_DumpExportVariables :: "(string \<Rightarrow> string \<Rightarrow> string) \<Rightarrow> fs_call \<Rightarrow> string \<rightharpoonup> string" where
  "call_DumpExportVariables gj c = fold (\<lambda>v m. m(v \<mapsto> fst (call_Get gj v c))) (fc_exportVariables c) Map.empty"

definition ClearExportVariables :: "fs_call \<Rightarrow> fs_call" where
  "ClearExportVariables c = c\<lparr>fc_exportVariables := []\<rparr>"

definition setDisconnectedVariables :: "(rat \<Rightarrow> string) \<Rightarrow> (string \<times> goval) list \<Rightarrow> fs_call \<Rightarrow> fs_call" where
  "setDisconnectedVariables ff vars c = fold (\<lambda>(k, v) c. c\<lparr>fc_variables := (fc_variables c)(k \<mapsto> sprint_v ff v)\<rparr>) vars c"

text \<open>
  Values of a \<open>multiset\<close>: the separator and the quote are escaped unless a backslash stands before them; the
  first rune is never escaped.  The code goes over the runes of the value, so that each byte that belongs to no code
  point becomes U+FFFD; after that the runes it compares are single bytes.
\<close>

fun escape_from :: "char option \<Rightarrow> string \<Rightarrow> string" where
  "escape_from prev [] = []"
| "escape_from prev (c # cs) =
     (let bare = (prev \<noteq> None \<and> prev \<noteq> Some (CHR 0x5C)) in
      (if c = CHR ''~'' \<and> bare then [CHR 0x5C, c] else if c = CHR 0x27 \<and> bare then [CHR 0x5C, CHR 0x5C, c] else [c])
      @ escape_from (Some c) cs)"

definition escapeFsMultiset :: "string \<Rightarrow> string" where
  "escapeFsMultiset src = escape_from None (concat (map rune_text (runes src)))"

definition multiset_text :: "(rat \<Rightarrow> string) \<Rightarrow> string \<Rightarrow> (string \<times> goval) list \<Rightarrow> string" where
  "multiset_text ff pref vars =
     ''^^'' @ concat (map (\<lambda>(k, v). CHR ''~'' # CHR 0x27 # pref @ k @ [CHR 0x27, CHR ''=''] @ escapeFsMultiset (sprint_v ff v)) vars)"

section \<open>Events\<close>

text \<open>The answer of a command: its channel is taken out of the table, gets the event and is closed.\<close>

definition cb_answer :: "string \<Rightarrow> fs_event \<Rightarrow> fs_call \<Rightarrow> fs_call option" where
  "cb_answer g e c =
     (case fc_chans c g of
        Some CbOpen \<Rightarrow> Some (c\<lparr>fc_callbacks := removeAll g (fc_callbacks c), fc_chans := (fc_chans c)(g \<mapsto> CbAnswered e)\<rparr>)
      | _ \<Rightarrow> None)"

definition setHookBridged :: "nat \<Rightarrow> fs_call \<Rightarrow> fs_call" where
  "setHookBridged h c = (if fc_hookBridged c = None then c\<lparr>fc_hookBridged := Some h\<rparr> else c)"

definition closeHookBridge :: "fs_call \<Rightarrow> fs_call option" where
  "closeHookBridge c =
     (case fc_hookBridged c of
        None \<Rightarrow> Some c
      | Some h \<Rightarrow>
          (case fc_hooks c h of
             Some HookClosed \<Rightarrow> None
           | Some HookWaiting \<Rightarrow> Some (c\<lparr>fc_hookBridged := None, fc_hooks := (fc_hooks c)(h \<mapsto> HookClosed)\<rparr>)
           | _ \<Rightarrow> Some (c\<lparr>fc_hookBridged := None\<rparr>)))"

text \<open>The hook's channel has no buffer: the send waits for the goroutine of the hook.\<close>

definition sendHookBridged :: "fs_call \<Rightarrow> fs_call option" where
  "sendHookBridged c =
     (case fc_hookBridged c of
        None \<Rightarrow> Some c
      | Some h \<Rightarrow>
          (if fc_hooks c h = Some HookWaiting then closeHookBridge (c\<lparr>fc_hooks := (fc_hooks c)(h \<mapsto> HookFired)\<rparr>) else None))"

definition EVENT_EXECUTE_COMPLETE :: string where "EVENT_EXECUTE_COMPLETE = ''CHANNEL_EXECUTE_COMPLETE''"
definition EVENT_HANGUP_COMPLETE :: string where "EVENT_HANGUP_COMPLETE = ''CHANNEL_HANGUP_COMPLETE''"
definition EVENT_BRIDGE :: string where "EVENT_BRIDGE = ''CHANNEL_BRIDGE''"

text \<open>
  An event, under the mutex of the call.  On a hangup the command \<open>exit\<close> is sent, still under the mutex, and its
  reply is awaited for at most 20 seconds; the reply, or that there is none, is not looked at.
\<close>

definition setEvent :: "fs_event \<Rightarrow> fs_call \<Rightarrow> fs_call option" where
  "setEvent e c =
     (let name = ev_Get e ''Event-Name''; c1 = updateVariablesFromEvent e (c\<lparr>fc_lastEvent := e\<rparr>);
          app = ev_Get e ''Application-UUID''; ev = ev_Get e ''Event-UUID'' in
      if name = [] then Some c
      else if name = EVENT_EXECUTE_COMPLETE then
        (if app \<in> set (fc_callbacks c) then cb_answer app e c1
         else if ev \<in> set (fc_callbacks c) then cb_answer ev e c1 else Some c1)
      else if name = EVENT_HANGUP_COMPLETE then
        Some (c1\<lparr>fc_hangupCause := ev_Get e ''variable_hangup_cause'', fc_cancelled := True, fc_sent := fc_sent c1 @ [ExitCmd], fc_stopped := True\<rparr>)
      else if name = EVENT_BRIDGE then sendHookBridged c1
      else Some c1)"

definition HangupCause :: "fs_call \<Rightarrow> string" where
  "HangupCause c =
     (case (if fc_hangupCause c = [] then fc_variables c ''Hangup-Cause'' else None) of
        Some v \<Rightarrow> if v \<noteq> [] then v else fc_hangupCause c | None \<Rightarrow> fc_hangupCause c)"

text \<open>What the goroutine of the connection defers: every waiting command is answered with an empty event.\<close>

definition no_event :: fs_event where
  "no_event = \<lparr>ev_Header = Map.empty, ev_Body = []\<rparr>"

fun answer_all :: "string list \<Rightarrow> fs_call \<Rightarrow> fs_call option" where
  "answer_all [] c = Some c"
| "answer_all (g # gs) c = Option.bind (cb_answer g no_event c) (answer_all gs)"

definition end_connection :: "fs_call \<Rightarrow> fs_call option" where
  "end_connection c =
     Option.bind (closeHookBridge c) (\<lambda>c1. map_option (\<lambda>c2. c2\<lparr>fc_cancelled := True\<rparr>) (answer_all (fc_callbacks c1) c1))"

section \<open>Commands\<close>

text \<open>
  The generator of identifiers and the socket, asked with the number of the command.  \<open>fe_cancelFirst\<close> is the choice
  of the \<open>select\<close> of the command when both its answer and the end of its context are there.
\<close>

record fs_env =
  fe_uuid :: "nat \<Rightarrow> string + string"
  fe_send :: "nat \<Rightarrow> string option"
  fe_cancelFirst :: "nat \<Rightarrow> bool"

text \<open>
  The context a command is run with: that of the flow, which ends with the context of the call, or
  \<open>context.Background()\<close>, which never ends.
\<close>

datatype cmd_ctx = Background | CallCtx bool

definition flow_ctx :: "fs_env \<Rightarrow> fs_call \<Rightarrow> cmd_ctx" where
  "flow_ctx env c = CallCtx (fe_cancelFirst env (fc_seq c))"

definition errExecuteAfterHangup :: app_error where
  "errExecuteAfterHangup = NewAppError ''FreeSWITCH'' ''provider.fs.execute.after_hangup'' [] ''not allow after hangup'' 400"

definition exec_error :: "string \<Rightarrow> app_error" where
  "exec_error d = NewAppError ''FreeSWITCH'' ''provider.fs.execute.app_error'' [] d 500"

definition errInvalidCommand :: string where
  "errInvalidCommand = ''Invalid command contains '' @ [CHR 0x5C] @ ''r or '' @ [CHR 0x5C] @ ''n''"

text \<open>The first part of \<open>executeWithContext\<close>, up to the wait: the identifier it waits for.\<close>

definition exec_begin :: "fs_env \<Rightarrow> string \<Rightarrow> string \<Rightarrow> fs_call \<Rightarrow> (app_error + string) \<times> fs_call" where
  "exec_begin env app args c =
     (if fc_stopped c then (Inl errExecuteAfterHangup, c)
      else (case fe_uuid env (fc_seq c) of
          Inl er \<Rightarrow> (Inl (NewAppError ''FreeSWITCH'' ''provider.fs.execute.gen_uuid'' [] er 500), c\<lparr>fc_seq := fc_seq c + 1\<rparr>)
        | Inr g \<Rightarrow>
            (let c1 = c\<lparr>fc_seq := fc_seq c + 1, fc_callbacks := g # removeAll g (fc_callbacks c), fc_chans := (fc_chans c)(g \<mapsto> CbOpen)\<rparr> in
             case SendMsg_text [(''call-command'', ''execute''), (''execute-app-name'', app), (''execute-app-arg'', args),
                    (''event-lock'', ''false''), (''Event-UUID'', g)] [] [] of
               None \<Rightarrow> (Inl (exec_error errInvalidCommand), c1)
             | Some _ \<Rightarrow>
                 (case fe_send env (fc_seq c) of
                    Some er \<Rightarrow> (Inl (exec_error er), c1)
                  | None \<Rightarrow> (Inr g, c1\<lparr>fc_sent := fc_sent c1 @ [ExecCmd app args]\<rparr>)))))"

definition cb_ready :: "string \<Rightarrow> fs_call \<Rightarrow> bool" where
  "cb_ready g c = (case fc_chans c g of Some (CbAnswered _) \<Rightarrow> True | _ \<Rightarrow> False)"

definition settled :: "cmd_ctx \<Rightarrow> string \<Rightarrow> fs_call \<Rightarrow> response result option" where
  "settled x g c =
     (case x of
        Background \<Rightarrow> if cb_ready g c then Some (Inr CallResponseOK) else None
      | CallCtx b \<Rightarrow>
          if fc_cancelled c \<and> (b \<or> \<not> cb_ready g c) then Some (Inl (exec_error ''cancel''))
          else if cb_ready g c then Some (Inr CallResponseOK) else None)"

text \<open>
  The wait.  After a hangup event, and after the end of the socket, the connection ends, which answers what still
  waits with an empty event.  \<open>CtxDone\<close> ends the context of the flow alone.
\<close>

fun await :: "cmd_ctx \<Rightarrow> string \<Rightarrow> happening list \<Rightarrow> fs_call \<Rightarrow> (response result \<times> fs_call) option" where
  "await x g [] c = map_option (\<lambda>r. (r, c\<lparr>fc_future := []\<rparr>)) (settled x g c)"
| "await x g (h # hs) c =
     (case settled x g c of
        Some r \<Rightarrow> Some (r, c\<lparr>fc_future := h # hs\<rparr>)
      | None \<Rightarrow>
          (case h of
             CtxDone \<Rightarrow> if x = Background then await x g hs c else Some (Inl (exec_error ''cancel''), c\<lparr>fc_future := hs\<rparr>)
           | SockEOF \<Rightarrow> Option.bind (end_connection c) (await x g hs)
           | SockEvent e \<Rightarrow>
               (case setEvent e c of
                  None \<Rightarrow> None
                | Some c1 \<Rightarrow> if fc_stopped c1 then Option.bind (end_connection c1) (await x g hs) else await x g hs c1)))"

definition execute_ctx :: "cmd_ctx \<Rightarrow> fs_env \<Rightarrow> string \<Rightarrow> string \<Rightarrow> fs_call \<Rightarrow> (response result \<times> fs_call) option" where
  "execute_ctx x env app args c =
     (case exec_begin env app args c of
        (Inl er, c1) \<Rightarrow> Some (Inl er, c1)
      | (Inr g, c1) \<Rightarrow> await x g (fc_future c1) c1)"

text \<open>With the context of a flow, as the applications of the call run it.\<close>

definition executeWithContext :: "fs_env \<Rightarrow> string \<Rightarrow> string \<Rightarrow> fs_call \<Rightarrow> (response result \<times> fs_call) option" where
  "executeWithContext env app args c = execute_ctx (flow_ctx env c) env app args c"

definition executeLoop :: "fs_env \<Rightarrow> string \<Rightarrow> string \<Rightarrow> fs_call \<Rightarrow> app_error option \<times> fs_call" where
  "executeLoop env app args c =
     (let err = (\<lambda>d. NewAppError ''FreeSWITCH'' ''provider.fs.execute_loop.app_error'' [] d 500); c1 = c\<lparr>fc_seq := fc_seq c + 1\<rparr> in
      case SendMsg_text [(''call-command'', ''execute''), (''execute-app-name'', app), (''execute-app-arg'', args),
             (''event-lock'', ''true''), (''loop'', ''-1'')] [] [] of
        None \<Rightarrow> (Some (err errInvalidCommand), c1)
      | Some _ \<Rightarrow> (case fe_send env (fc_seq c) of
            Some er \<Rightarrow> (Some (err er), c1) | None \<Rightarrow> (None, c1\<lparr>fc_sent := fc_sent c1 @ [LoopCmd app args]\<rparr>)))"

text \<open>An \<open>api\<close> command is answered on the socket; only whether it failed is used.\<close>

definition call_Api :: "fs_env \<Rightarrow> string \<Rightarrow> fs_call \<Rightarrow> string option \<times> fs_call" where
  "call_Api env cmd c =
     (case fe_send env (fc_seq c) of
        Some er \<Rightarrow> (Some er, c\<lparr>fc_seq := fc_seq c + 1\<rparr>)
      | None \<Rightarrow> (None, c\<lparr>fc_seq := fc_seq c + 1, fc_sent := fc_sent c @ [ApiCmd cmd]\<rparr>))"

section \<open>Setting variables\<close>

definition setChannelVariables ::
  "cmd_ctx \<Rightarrow> fs_env \<Rightarrow> (rat \<Rightarrow> string) \<Rightarrow> string \<Rightarrow> (string \<times> goval) list \<Rightarrow> fs_call \<Rightarrow> (response result \<times> fs_call) option" where
  "setChannelVariables x env ff pref vars c = execute_ctx x env ''multiset'' (multiset_text ff pref vars) c"

definition setInternal :: "fs_env \<Rightarrow> (rat \<Rightarrow> string) \<Rightarrow> (string \<times> goval) list \<Rightarrow> fs_call \<Rightarrow> (response result \<times> fs_call) option" where
  "setInternal env ff vars c =
     (if fc_stopped c then Some (Inl (NewAppError ''Call.setInternal'' ''call.app.set_internal.stopped'' [] ''bad request'' 400), c)
      else setChannelVariables (flow_ctx env c) env ff [] vars c)"

text \<open>
  The applications of the call set variables with the context of the flow; those of the flow package for math,
  strings, calendars and HTTP requests do it with \<open>context.Background()\<close>.
\<close>

definition call_Set_ctx :: "cmd_ctx \<Rightarrow> fs_env \<Rightarrow> (rat \<Rightarrow> string) \<Rightarrow> (string \<times> goval) list \<Rightarrow> fs_call \<Rightarrow> (response result \<times> fs_call) option" where
  "call_Set_ctx x env ff vars c =
     (if vars = [] then Some (Inl (NewAppError ''Call.Set'' ''call.app.set.valid.args'' [] ''bad request'' 400), c)
      else if fc_stopped c then Some (Inr CallResponseOK, setDisconnectedVariables ff vars c)
      else setChannelVariables x env ff [] vars c)"

definition call_Set :: "fs_env \<Rightarrow> (rat \<Rightarrow> string) \<Rightarrow> (string \<times> goval) list \<Rightarrow> fs_call \<Rightarrow> (response result \<times> fs_call) option" where
  "call_Set env ff vars c = call_Set_ctx (flow_ctx env c) env ff vars c"

text \<open>One \<open>export\<close> for each variable; the first failure ends the loop.\<close>

fun export_each :: "fs_env \<Rightarrow> string list \<Rightarrow> fs_call \<Rightarrow> (response result \<times> fs_call) option" where
  "export_each env [] c = Some (Inr CallResponseOK, c)"
| "export_each env (t # ts) c =
     (case executeWithContext env ''export'' t c of
        None \<Rightarrow> None
      | Some (Inl er, c1) \<Rightarrow> Some (Inl er, c1)
      | Some (Inr _, c1) \<Rightarrow> export_each env ts c1)"

definition quoted :: "string \<Rightarrow> string" where
  "quoted s = CHR 0x27 # s @ [CHR 0x27]"

definition SetAll :: "fs_env \<Rightarrow> (rat \<Rightarrow> string) \<Rightarrow> (string \<times> goval) list \<Rightarrow> fs_call \<Rightarrow> (response result \<times> fs_call) option" where
  "SetAll env ff vars c = export_each env (map (\<lambda>(k, v). quoted k @ ''='' @ quoted (sprint_v ff v)) vars) c"

definition SetNoLocal :: "fs_env \<Rightarrow> (rat \<Rightarrow> string) \<Rightarrow> (string \<times> goval) list \<Rightarrow> fs_call \<Rightarrow> (response result \<times> fs_call) option" where
  "SetNoLocal env ff vars c = export_each env (map (\<lambda>(k, v). ''nolocal:'' @ quoted k @ ''='' @ quoted (sprint_v ff v)) vars) c"

definition call_Push_ctx :: "cmd_ctx \<Rightarrow> fs_env \<Rightarrow> string \<Rightarrow> string \<Rightarrow> fs_call \<Rightarrow> (response result \<times> fs_call) option" where
  "call_Push_ctx x env name tag c = execute_ctx x env ''push'' (name @ ''='' @ tag) c"

definition call_Push :: "fs_env \<Rightarrow> string \<Rightarrow> string \<Rightarrow> fs_call \<Rightarrow> (response result \<times> fs_call) option" where
  "call_Push env name tag c = call_Push_ctx (flow_ctx env c) env name tag c"

definition SetSchemaId :: "fs_env \<Rightarrow> int \<Rightarrow> fs_call \<Rightarrow> (app_error option \<times> fs_call) option" where
  "SetSchemaId env i c =
     map_option (\<lambda>(r, c1). (case r of Inl er \<Rightarrow> Some er | Inr _ \<Rightarrow> None, c1)) (call_Push_ctx Background env ''wbt_schema_ids'' (Itoa i) c)"

section \<open>The queue\<close>

definition SetQueueCancel :: "bool \<Rightarrow> fs_call \<Rightarrow> bool \<times> fs_call" where
  "SetQueueCancel fn c = (True, c\<lparr>fc_cancelQueue := fn\<rparr>)"

definition CancelQueue :: "fs_call \<Rightarrow> bool \<times> fs_call" where
  "CancelQueue c =
     (if \<not> fc_cancelQueue c then (False, c)
      else (True, c\<lparr>fc_cancelQueue := False, fc_queueCancelled := fc_queueCancelled c + 1\<rparr>))"

section \<open>The server\<close>

text \<open>
  The greeting: the channel's data, lingering, the filter and the subscription; a failed command ends it.
  \<open>send\<close> is what the socket answers to a command.
\<close>

definition handleConnection ::
  "(string \<Rightarrow> string + fs_event) \<Rightarrow> int \<Rightarrow> happening list \<Rightarrow> fs_call option" where
  "handleConnection send resample future =
     (case send ''connect'' of
        Inl _ \<Rightarrow> None
      | Inr e \<Rightarrow>
          (case send ''linger 30'' of Inl _ \<Rightarrow> None | Inr _ \<Rightarrow>
          (case send (''filter unique-id '' @ ev_Get e ''Unique-ID'') of Inl _ \<Rightarrow> None | Inr _ \<Rightarrow>
          (case send (''events plain '' @ EVENT_HANGUP_COMPLETE @ '' '' @ EVENT_EXECUTE_COMPLETE @ '' CHANNEL_ANSWER '' @ EVENT_BRIDGE) of
             Inl _ \<Rightarrow> None
           | Inr _ \<Rightarrow> Some ((fs_newConnection future e)\<lparr>fc_resample := resample\<rparr>)))))"

text \<open>The read loop, until the call has stopped or the socket ends, and what it defers.\<close>

fun read_loop :: "happening list \<Rightarrow> fs_call \<Rightarrow> fs_call option" where
  "read_loop [] c = (if fc_stopped c then end_connection c else None)"
| "read_loop (h # hs) c =
     (if fc_stopped c then end_connection c
      else (case h of
          SockEOF \<Rightarrow> end_connection c
        | SockEvent e \<Rightarrow> Option.bind (setEvent e c) (read_loop hs)
        | CtxDone \<Rightarrow> read_loop hs c))"

end
