(* ===== verification/Fs_Call_Laws.thy ===== *)
theory Fs_Call_Laws
  imports Fs_Call
begin

text \<open>
  Laws of a call: the channels of waiting commands, what a command that returns has seen, the hook of a bridge,
  the variables of a call that has hung up, and the text that sets variables.
\<close>

section \<open>The channels of the waiting commands\<close>

definition chans_ok :: "fs_call \<Rightarrow> bool" where
  "chans_ok c = (distinct (fc_callbacks c) \<and> (\<forall>g\<in>set (fc_callbacks c). fc_chans c g = Some CbOpen))"

definition hook_ok :: "fs_call \<Rightarrow> bool" where
  "hook_ok c = (\<forall>h. fc_hookBridged c = Some h \<longrightarrow> fc_hooks c h = Some HookWaiting)"

definition known_ids :: "fs_env \<Rightarrow> fs_call \<Rightarrow> bool" where
  "known_ids env c = (\<forall>g. fc_chans c g \<noteq> None \<longrightarrow> (\<exists>n<fc_seq c. fe_uuid env n = Inr g))"

definition call_ok :: "fs_env \<Rightarrow> fs_call \<Rightarrow> bool" where
  "call_ok env c = (chans_ok c \<and> hook_ok c \<and> known_ids env c \<and> (fc_stopped c \<longrightarrow> fc_cancelled c))"

lemmas call_ok_defs = call_ok_def chans_ok_def hook_ok_def known_ids_def

lemma cb_answer_ok:
  assumes "chans_ok c" "g \<in> set (fc_callbacks c)"
  shows "cb_answer g e c = Some (c\<lparr>fc_callbacks := removeAll g (fc_callbacks c), fc_chans := (fc_chans c)(g \<mapsto> CbAnswered e)\<rparr>)"
  using assms by (simp add: cb_answer_def chans_ok_def)

lemma call_ok_answer:
  assumes "call_ok env c" "g \<in> set (fc_callbacks c)" "cb_answer g e c = Some c'"
  shows "call_ok env c'"
proof -
  have "c' = c\<lparr>fc_callbacks := removeAll g (fc_callbacks c), fc_chans := (fc_chans c)(g \<mapsto> CbAnswered e)\<rparr>" "fc_chans c g \<noteq> None"
    using assms cb_answer_ok [of c g e] by (auto simp: call_ok_def chans_ok_def)
  then show ?thesis using assms(1) by (simp add: call_ok_defs distinct_removeAll)
qed

lemma call_ok_seen: "call_ok env (updateVariablesFromEvent e (c\<lparr>fc_lastEvent := e\<rparr>)) = call_ok env c"
  by (simp add: call_ok_defs updateVariablesFromEvent_def)

lemma closeHook_ok:
  assumes "call_ok env c"
  shows "\<exists>c'. closeHookBridge c = Some c' \<and> call_ok env c' \<and> fc_callbacks c' = fc_callbacks c \<and> fc_hookBridged c' = None"
  using assms by (cases "fc_hookBridged c") (auto simp: closeHookBridge_def call_ok_defs)

lemma sendHook_ok:
  assumes "call_ok env c"
  shows "\<exists>c'. sendHookBridged c = Some c' \<and> call_ok env c'"
  using assms by (cases "fc_hookBridged c") (auto simp: sendHookBridged_def closeHookBridge_def call_ok_defs)

lemma setEvent_ok:
  assumes "call_ok env c"
  shows "\<exists>c'. setEvent e c = Some c' \<and> call_ok env c'"
proof -
  let ?c1 = "updateVariablesFromEvent e (c\<lparr>fc_lastEvent := e\<rparr>)"
  have ok: "call_ok env ?c1" "fc_callbacks ?c1 = fc_callbacks c" using assms call_ok_seen by (auto simp: updateVariablesFromEvent_def)
  have answered: "\<exists>c'. cb_answer g e ?c1 = Some c' \<and> call_ok env c'" if "g \<in> set (fc_callbacks c)" for g
    using ok that cb_answer_ok [of ?c1 g e] call_ok_answer [of env ?c1 g e] by (auto simp: call_ok_def)
  have "call_ok env (?c1\<lparr>fc_hangupCause := x, fc_cancelled := True, fc_sent := y, fc_stopped := True\<rparr>)" for x y
    using ok(1) by (simp add: call_ok_defs)
  then show ?thesis using answered ok(1) assms sendHook_ok [OF ok(1)] by (auto simp: setEvent_def Let_def)
qed

lemma answer_all_ok:
  assumes "call_ok env c" "set gs \<subseteq> set (fc_callbacks c)" "distinct gs"
  shows "\<exists>c'. answer_all gs c = Some c' \<and> call_ok env c' \<and> set (fc_callbacks c') = set (fc_callbacks c) - set gs \<and>
     (\<forall>g\<in>set gs. fc_chans c' g = Some (CbAnswered no_event)) \<and> (\<forall>g. g \<notin> set gs \<longrightarrow> fc_chans c' g = fc_chans c g)"
  using assms
proof (induction gs arbitrary: c)
  case (Cons g gs)
  let ?c1 = "c\<lparr>fc_callbacks := removeAll g (fc_callbacks c), fc_chans := (fc_chans c)(g \<mapsto> CbAnswered no_event)\<rparr>"
  have c1: "cb_answer g no_event c = Some ?c1" using Cons cb_answer_ok [of c g] by (auto simp: call_ok_def)
  then have "call_ok env ?c1" using Cons call_ok_answer [of env c g no_event ?c1] by auto
  moreover have "set gs \<subseteq> set (fc_callbacks ?c1)" using Cons by auto
  ultimately obtain c' where "answer_all gs ?c1 = Some c'" "call_ok env c'" "set (fc_callbacks c') = set (fc_callbacks ?c1) - set gs"
    "\<forall>g\<in>set gs. fc_chans c' g = Some (CbAnswered no_event)" "\<forall>g. g \<notin> set gs \<longrightarrow> fc_chans c' g = fc_chans ?c1 g"
    using Cons.IH [of ?c1] Cons.prems(3) by (meson distinct.simps(2))
  then show ?case using c1 Cons.prems(3) by (intro exI [of _ c']) auto
qed simp

lemma end_connection_ok:
  assumes "call_ok env c"
  shows "\<exists>c'. end_connection c = Some c' \<and> call_ok env c' \<and> fc_callbacks c' = [] \<and> fc_hookBridged c' = None \<and> fc_cancelled c' \<and>
     (\<forall>g\<in>set (fc_callbacks c). fc_chans c' g = Some (CbAnswered no_event))"
proof -
  obtain c1 where c1: "closeHookBridge c = Some c1" "call_ok env c1" "fc_callbacks c1 = fc_callbacks c" "fc_hookBridged c1 = None"
    using closeHook_ok [OF assms] by auto
  then obtain c2 where "answer_all (fc_callbacks c1) c1 = Some c2" "call_ok env c2" "set (fc_callbacks c2) = {}"
    "\<forall>g\<in>set (fc_callbacks c1). fc_chans c2 g = Some (CbAnswered no_event)"
    using answer_all_ok [OF c1(2) subset_refl] by (auto simp: call_ok_def chans_ok_def)
  moreover have "fc_hookBridged c2 = fc_hookBridged c1" if "answer_all gs c1 = Some c2" for gs
    using that by (induction gs arbitrary: c1) (auto simp: cb_answer_def split: bind_splits option.splits cb_chan.splits)
  ultimately show ?thesis using c1 by (auto simp: end_connection_def call_ok_defs)
qed

lemma exec_begin_ok:
  assumes "call_ok env c"
  shows "call_ok env (snd (exec_begin env app args c))"
proof -
  have "call_ok env (c\<lparr>fc_seq := Suc (fc_seq c), fc_callbacks := g # removeAll g (fc_callbacks c), fc_chans := (fc_chans c)(g \<mapsto> CbOpen)\<rparr>)"
    if "fe_uuid env (fc_seq c) = Inr g" for g
    using that assms by (auto simp: call_ok_defs distinct_removeAll less_Suc_eq)
  then show ?thesis using assms
    by (auto simp: exec_begin_def Let_def call_ok_defs less_Suc_eq split: sum.splits option.splits)
qed

section \<open>Every command returns\<close>

text \<open>What ends a wait: the end of the context or of the socket, or the hangup of the call.\<close>

definition ends_wait :: "happening \<Rightarrow> bool" where
  "ends_wait h = (case h of CtxDone \<Rightarrow> True | SockEOF \<Rightarrow> True | SockEvent e \<Rightarrow> ev_Get e ''Event-Name'' = EVENT_HANGUP_COMPLETE)"

lemma future_free [simp]: "call_ok env (c\<lparr>fc_future := hs\<rparr>) = call_ok env c"
  by (simp add: call_ok_defs)

lemma hangup_stops: "ev_Get e ''Event-Name'' = EVENT_HANGUP_COMPLETE \<Longrightarrow> setEvent e c = Some c' \<Longrightarrow> fc_stopped c' \<and> fc_cancelled c'"
  by (auto simp: setEvent_def Let_def EVENT_HANGUP_COMPLETE_def EVENT_EXECUTE_COMPLETE_def)

lemma end_keeps_ready:
  assumes "end_connection c = Some c'" "cb_ready g c"
  shows "cb_ready g c'"
proof -
  have "cb_ready g c2" if "answer_all gs c1 = Some c2" "cb_ready g c1" for gs c1 c2
    using that by (induction gs arbitrary: c1) (fastforce simp: cb_answer_def cb_ready_def split: bind_splits option.splits cb_chan.splits if_splits)+
  moreover obtain c1 c2 where c: "closeHookBridge c = Some c1" "answer_all (fc_callbacks c1) c1 = Some c2" "c' = c2\<lparr>fc_cancelled := True\<rparr>"
    using assms(1) by (auto simp: end_connection_def bind_eq_Some_conv)
  moreover have "cb_ready g c1" using c(1) assms(2)
    by (auto simp: closeHookBridge_def cb_ready_def split: option.splits hook_chan.splits)
  ultimately have "cb_ready g c2" by blast
  then show ?thesis using c(3) by (simp add: cb_ready_def)
qed

lemma await_ok:
  assumes "call_ok env c" "await x g hs c = Some (r, c')"
  shows "call_ok env c'"
  using assms
proof (induction hs arbitrary: c)
  case (Cons h hs)
  have ended: ?case if "Option.bind (end_connection c1) (await x g hs) = Some (r, c')" "call_ok env c1" for c1
    using that Cons.IH end_connection_ok [OF that(2)] by auto
  show ?case
  proof (cases "settled x g c")
    case None
    show ?thesis
    proof (cases h)
      case (SockEvent e)
      obtain c1 where c1: "setEvent e c = Some c1" "call_ok env c1" using setEvent_ok [OF Cons.prems(1)] by auto
      then show ?thesis using Cons.prems None SockEvent ended [of c1] Cons.IH [OF c1(2)] by (auto split: if_splits)
    next
      case SockEOF
      then show ?thesis using Cons.prems None ended [of c] by simp
    next
      case CtxDone
      then show ?thesis using Cons.prems None Cons.IH [of c] by (auto split: if_splits)
    qed
  qed (use Cons.prems in auto)
qed auto

text \<open>The end of the connection settles every wait of it.\<close>

lemma ended_settled:
  assumes "call_ok env c" "end_connection c = Some c'" "g \<in> set (fc_callbacks c) \<or> x \<noteq> Background"
  shows "settled x g c' \<noteq> None"
  using assms end_connection_ok [OF assms(1)]
  by (auto simp: settled_def cb_ready_def split: cmd_ctx.split)

lemma ready_settled: "cb_ready g c \<Longrightarrow> \<exists>r. settled x g c = Some r"
  by (cases x) (auto simp: settled_def)

lemma await_ended:
  assumes "settled x g c = Some r"
  shows "await x g hs c = Some (r, c\<lparr>fc_future := hs\<rparr>)"
  using assms by (cases hs) auto

text \<open>An event leaves the channels of the commands alone that it does not answer.\<close>

lemma setEvent_waiting:
  assumes "setEvent e c = Some c'" "g \<in> set (fc_callbacks c)"
  shows "g \<in> set (fc_callbacks c') \<or> cb_ready g c'"
  using assms
  by (auto simp: setEvent_def Let_def cb_answer_def cb_ready_def updateVariablesFromEvent_def sendHookBridged_def closeHookBridge_def
      split: if_splits option.splits hook_chan.splits cb_chan.splits)

lemma setEvent_answers:
  assumes "setEvent e c = Some c'" "g \<in> set (fc_callbacks c)"
  shows "g \<in> set (fc_callbacks c') \<or> (fc_chans c' g = Some (CbAnswered e) \<and> ev_Get e ''Event-Name'' = EVENT_EXECUTE_COMPLETE \<and>
     (g = ev_Get e ''Application-UUID'' \<or> g = ev_Get e ''Event-UUID''))"
  using assms
  by (auto simp: setEvent_def Let_def cb_answer_def updateVariablesFromEvent_def sendHookBridged_def closeHookBridge_def
      split: if_splits option.splits hook_chan.splits cb_chan.splits)

definition ends_wait_of :: "cmd_ctx \<Rightarrow> happening \<Rightarrow> bool" where
  "ends_wait_of x h = (ends_wait h \<and> (x = Background \<longrightarrow> h \<noteq> CtxDone))"

lemma await_returns:
  assumes "call_ok env c" "list_ex (ends_wait_of x) hs" "g \<in> set (fc_callbacks c) \<or> cb_ready g c"
  shows "\<exists>r c'. await x g hs c = Some (r, c')"
  using assms
proof (induction hs arbitrary: c)
  case (Cons h hs)
  have ended: "\<exists>r c'. Option.bind (end_connection c1) (await x g hs) = Some (r, c')" if c1: "call_ok env c1" "g \<in> set (fc_callbacks c1)" for c1
  proof -
    obtain c2 where c2: "end_connection c1 = Some c2" using end_connection_ok [OF c1(1)] by auto
    then obtain r where "settled x g c2 = Some r" using ended_settled [OF c1(1), of c2 g x] c1(2) by auto
    then show ?thesis using c2 await_ended by fastforce
  qed
  show ?case
  proof (cases "settled x g c")
    case None
    then have nr: "\<not> cb_ready g c" by (auto simp: settled_def split: cmd_ctx.splits if_splits)
    then have g: "g \<in> set (fc_callbacks c)" using Cons.prems(3) by simp
    show ?thesis
    proof (cases h)
      case (SockEvent e)
      obtain c1 where c1: "setEvent e c = Some c1" "call_ok env c1" using setEvent_ok [OF Cons.prems(1)] by auto
      note g1 = setEvent_waiting [OF c1(1) g]
      show ?thesis
      proof (cases "fc_stopped c1")
        case True
        obtain c2 where c2: "end_connection c1 = Some c2" "call_ok env c2" "fc_cancelled c2"
          "\<forall>g\<in>set (fc_callbacks c1). fc_chans c2 g = Some (CbAnswered no_event)" using end_connection_ok [OF c1(2)] by auto
        have "cb_ready g c2" using g1 c2(1,4) end_keeps_ready [OF c2(1)] by (auto simp: cb_ready_def)
        then have "settled x g c2 \<noteq> None" using ready_settled by fastforce
        then show ?thesis using None SockEvent c1 True c2(1) await_ended [of x g c2] by auto
      next
        case False
        then have "\<not> ends_wait_of x h" using hangup_stops [OF _ c1(1)] SockEvent by (auto simp: ends_wait_of_def ends_wait_def)
        then have "list_ex (ends_wait_of x) hs" using Cons.prems(2) by simp
        then show ?thesis using Cons.IH [OF c1(2) _ g1] None SockEvent c1 False by simp
      qed
    next
      case SockEOF
      then show ?thesis using None ended [OF Cons.prems(1) g] by simp
    next
      case CtxDone
      then show ?thesis using Cons.prems Cons.IH [OF Cons.prems(1) _ Cons.prems(3)] None by (auto simp: ends_wait_of_def)
    qed
  qed auto
qed simp

section \<open>What success means\<close>

text \<open>
  A channel is answered by the event that carries its identifier; the events in between leave it alone.
\<close>

lemma setEvent_frame:
  assumes "setEvent e c = Some c'" "fc_chans c g = Some CbOpen"
  shows "fc_chans c' g = Some CbOpen \<or>
     (ev_Get e ''Event-Name'' = EVENT_EXECUTE_COMPLETE \<and> (ev_Get e ''Application-UUID'' = g \<or> ev_Get e ''Event-UUID'' = g) \<and>
      fc_lastEvent c' = e \<and> fc_stopped c' = fc_stopped c \<and> fc_sent c' = fc_sent c)"
  using assms
  by (auto simp: setEvent_def Let_def cb_answer_def updateVariablesFromEvent_def sendHookBridged_def closeHookBridge_def
      split: if_splits option.splits hook_chan.splits cb_chan.splits)

lemma setEvent_sent:
  assumes "setEvent e c = Some c'" "\<not> fc_stopped c'"
  shows "fc_sent c' = fc_sent c" "fc_cancelled c' = fc_cancelled c"
  using assms
  by (auto simp: setEvent_def Let_def cb_answer_def updateVariablesFromEvent_def sendHookBridged_def closeHookBridge_def
      split: if_splits option.splits hook_chan.splits cb_chan.splits)

lemma setEvent_hangup:
  assumes "setEvent e c = Some c'" "fc_stopped c'" "\<not> fc_stopped c"
  shows "ev_Get e ''Event-Name'' = EVENT_HANGUP_COMPLETE" "fc_callbacks c' = fc_callbacks c" "fc_chans c' = fc_chans c"
  using assms
  by (auto simp: setEvent_def Let_def cb_answer_def updateVariablesFromEvent_def sendHookBridged_def closeHookBridge_def
      split: if_splits option.splits hook_chan.splits cb_chan.splits)

definition hangs_up :: "happening \<Rightarrow> bool" where
  "hangs_up h = (case h of SockEvent e \<Rightarrow> ev_Get e ''Event-Name'' = EVENT_HANGUP_COMPLETE | _ \<Rightarrow> False)"

text \<open>The two ways to success: the completion of the command, or the end of the connection.\<close>

definition completed :: "string \<Rightarrow> fs_call \<Rightarrow> bool" where
  "completed g c = (\<not> fc_stopped c \<and> ev_Get (fc_lastEvent c) ''Event-Name'' = EVENT_EXECUTE_COMPLETE \<and>
     (ev_Get (fc_lastEvent c) ''Application-UUID'' = g \<or> ev_Get (fc_lastEvent c) ''Event-UUID'' = g))"

definition cut_off :: "string \<Rightarrow> fs_call \<Rightarrow> bool" where
  "cut_off g c = (fc_chans c g = Some (CbAnswered no_event) \<and> fc_cancelled c)"

lemma await_success:
  assumes "await x g hs c = Some (Inr r, c')" "call_ok env c" "g \<in> set (fc_callbacks c)" "\<not> fc_stopped c"
  shows "fc_sent c' = fc_sent c \<and> completed g c' \<or> cut_off g c' \<and> list_ex (\<lambda>h. h = SockEOF \<or> hangs_up h) hs"
  using assms
proof (induction hs arbitrary: c)
  case Nil
  then show ?case by (auto simp: settled_def cb_ready_def call_ok_def chans_ok_def split: if_splits cmd_ctx.splits)
next
  case (Cons h hs)
  have opn: "fc_chans c g = Some CbOpen" using Cons.prems(2,3) by (simp add: call_ok_def chans_ok_def)
  then have none: "settled x g c = None" using Cons.prems(1) by (auto simp: settled_def cb_ready_def split: cmd_ctx.splits if_splits option.splits)
  have ended: "cut_off g c'" if e: "Option.bind (end_connection c1) (await x g hs) = Some (Inr r, c')" and k: "call_ok env c1" and m: "g \<in> set (fc_callbacks c1)" for c1
  proof -
    obtain c2 where c2: "end_connection c1 = Some c2" "fc_cancelled c2" "fc_chans c2 g = Some (CbAnswered no_event)"
      using end_connection_ok [OF k] m by auto
    obtain r2 where "settled x g c2 = Some r2" using ended_settled [OF k c2(1), of g x] m by auto
    then have "c' = c2\<lparr>fc_future := hs\<rparr>" using e c2(1) await_ended by fastforce
    then show ?thesis using c2 by (simp add: cut_off_def)
  qed
  show ?case
  proof (cases h)
    case (SockEvent e)
    obtain c1 where c1: "setEvent e c = Some c1" "call_ok env c1" using setEvent_ok [OF Cons.prems(2)] by auto
    show ?thesis
    proof (cases "fc_stopped c1")
      case True
      note H = setEvent_hangup [OF c1(1) True Cons.prems(4)]
      have "Option.bind (end_connection c1) (await x g hs) = Some (Inr r, c')" using Cons.prems(1) none SockEvent c1 True by simp
      then have "cut_off g c'" using ended [of c1] c1(2) H(2) Cons.prems(3) by simp
      then show ?thesis using H(1) SockEvent by (simp add: hangs_up_def)
    next
      case False
      then have a: "await x g hs c1 = Some (Inr r, c')" using Cons.prems(1) none SockEvent c1 by simp
      show ?thesis
      proof (cases "g \<in> set (fc_callbacks c1)")
        case True
        then show ?thesis using Cons.IH [OF a c1(2) True False] setEvent_sent [OF c1(1) False] by auto
      next
        case gone: False
        then have rd: "cb_ready g c1" using setEvent_waiting [OF c1(1) Cons.prems(3)] by simp
        then have f: "ev_Get e ''Event-Name'' = EVENT_EXECUTE_COMPLETE" "ev_Get e ''Application-UUID'' = g \<or> ev_Get e ''Event-UUID'' = g"
          "fc_lastEvent c1 = e" using setEvent_frame [OF c1(1) opn] by (auto simp: cb_ready_def)
        obtain r2 where "settled x g c1 = Some r2" using ready_settled [OF rd] by blast
        then have "c' = c1\<lparr>fc_future := hs\<rparr>" using a await_ended by fastforce
        then show ?thesis using f False setEvent_sent [OF c1(1) False] by (simp add: completed_def)
      qed
    qed
  next
    case SockEOF
    then show ?thesis using Cons.prems none ended [of c] by auto
  next
    case CtxDone
    then have "await x g hs c = Some (Inr r, c')" using Cons.prems(1) none by (auto split: if_splits)
    from Cons.IH [OF this Cons.prems(2-4)] show ?thesis by auto
  qed
qed

end
