(* ===== verification/Fs_Call_Props.thy ===== *)
theory Fs_Call_Props
  imports Fs_Call_Laws
begin

text \<open>
  Properties of a call, over every sequence of commands, events, hooks and ends that its goroutines can produce.
\<close>

section \<open>The steps of a call\<close>

inductive call_step :: "fs_env \<Rightarrow> fs_call \<Rightarrow> fs_call \<Rightarrow> bool" for env where
  command: "call_step env c (snd (exec_begin env app args c))"
| loop: "call_step env c (snd (executeLoop env app args c))"
| api: "call_step env c (snd (call_Api env cmd c))"
| event: "\<not> fc_stopped c \<Longrightarrow> setEvent e c = Some c' \<Longrightarrow> call_step env c c'"
| ending: "end_connection c = Some c' \<Longrightarrow> call_step env c c'"
| hook: "fc_hooks c h = None \<Longrightarrow> call_step env c (setHookBridged h (c\<lparr>fc_hooks := (fc_hooks c)(h \<mapsto> HookWaiting)\<rparr>))"
| local: "call_step env c (setDisconnectedVariables ff vars c)"
| queue: "call_step env c (snd (SetQueueCancel b c))"
| unqueue: "call_step env c (snd (CancelQueue c))"
| unexport: "call_step env c (ClearExportVariables c)"

inductive call_reach :: "fs_env \<Rightarrow> fs_call \<Rightarrow> bool" for env where
  start: "call_reach env (fs_newConnection hs e)"
| step: "call_reach env c \<Longrightarrow> call_step env c c' \<Longrightarrow> call_reach env c'"

lemma initDestination_fields [simp]:
  "fc_callbacks (initDestination e c) = fc_callbacks c" "fc_chans (initDestination e c) = fc_chans c" "fc_hookBridged (initDestination e c) = fc_hookBridged c" "fc_stopped (initDestination e c) = fc_stopped c"
  "fc_cancelled (initDestination e c) = fc_cancelled c" "fc_sent (initDestination e c) = fc_sent c" "fc_future (initDestination e c) = fc_future c" "fc_seq (initDestination e c) = fc_seq c"
  by (simp_all add: initDestination_def Let_def)

lemma initIvrQueue_fields [simp]:
  "fc_callbacks (initIvrQueue e c) = fc_callbacks c" "fc_chans (initIvrQueue e c) = fc_chans c" "fc_hookBridged (initIvrQueue e c) = fc_hookBridged c" "fc_stopped (initIvrQueue e c) = fc_stopped c"
  "fc_cancelled (initIvrQueue e c) = fc_cancelled c" "fc_sent (initIvrQueue e c) = fc_sent c" "fc_future (initIvrQueue e c) = fc_future c" "fc_seq (initIvrQueue e c) = fc_seq c"
  by (simp_all add: initIvrQueue_def Let_def split: option.splits)

lemma call_endpoints_fields [simp]:
  "fc_callbacks (call_endpoints e c) = fc_callbacks c" "fc_chans (call_endpoints e c) = fc_chans c" "fc_hookBridged (call_endpoints e c) = fc_hookBridged c" "fc_stopped (call_endpoints e c) = fc_stopped c"
  "fc_cancelled (call_endpoints e c) = fc_cancelled c" "fc_sent (call_endpoints e c) = fc_sent c" "fc_future (call_endpoints e c) = fc_future c" "fc_seq (call_endpoints e c) = fc_seq c"
  by (simp_all add: call_endpoints_def Let_def)

lemma setCallInfo_fields [simp]:
  "fc_callbacks (setCallInfo e c) = fc_callbacks c" "fc_chans (setCallInfo e c) = fc_chans c" "fc_hookBridged (setCallInfo e c) = fc_hookBridged c" "fc_stopped (setCallInfo e c) = fc_stopped c"
  "fc_cancelled (setCallInfo e c) = fc_cancelled c" "fc_sent (setCallInfo e c) = fc_sent c" "fc_future (setCallInfo e c) = fc_future c" "fc_seq (setCallInfo e c) = fc_seq c"
  by (simp_all add: setCallInfo_def call_destination_def call_marks_def)

lemma fs_newConnection_fields [simp]:
  "fc_callbacks (fs_newConnection hs e) = []" "fc_chans (fs_newConnection hs e) = Map.empty" "fc_hookBridged (fs_newConnection hs e) = None"
  "fc_stopped (fs_newConnection hs e) = False" "fc_cancelled (fs_newConnection hs e) = False" "fc_sent (fs_newConnection hs e) = []"
  "fc_future (fs_newConnection hs e) = hs" "fc_seq (fs_newConnection hs e) = 0"
  by (simp_all add: fs_newConnection_def updateVariablesFromEvent_def initTransferQueue_def initTransferSchema_def)

lemma call_ok_new: "call_ok env (fs_newConnection hs e)"
  by (simp add: call_ok_defs)

lemma call_ok_local: "call_ok env (setDisconnectedVariables ff vars c) = call_ok env c"
proof (induction vars arbitrary: c)
  case (Cons kv vars)
  obtain k v where kv: "kv = (k, v)" by force
  have "call_ok env (c\<lparr>fc_variables := m\<rparr>) = call_ok env c" for m by (simp add: call_ok_defs)
  then show ?case using Cons by (simp add: setDisconnectedVariables_def kv)
qed (simp add: setDisconnectedVariables_def)

lemma call_ok_loop: "call_ok env c \<Longrightarrow> call_ok env (snd (executeLoop env app args c))"
  by (auto simp: executeLoop_def call_ok_defs Let_def less_Suc_eq split: option.splits)

lemma call_ok_api: "call_ok env c \<Longrightarrow> call_ok env (snd (call_Api env cmd c))"
  by (auto simp: call_Api_def call_ok_defs less_Suc_eq split: option.splits)

lemma call_ok_hook:
  assumes "call_ok env c" "fc_hooks c h = None"
  shows "call_ok env (setHookBridged h (c\<lparr>fc_hooks := (fc_hooks c)(h \<mapsto> HookWaiting)\<rparr>))"
  using assms by (auto simp: setHookBridged_def call_ok_defs)

lemma call_step_ok: "call_step env c c' \<Longrightarrow> call_ok env c \<Longrightarrow> call_ok env c'"
proof (induction rule: call_step.induct)
  case (event c e c')
  then show ?case using setEvent_ok [of env c e] by auto
next
  case (ending c c')
  then show ?case using end_connection_ok [of env c] by auto
next
  case (queue c b)
  then show ?case by (simp add: SetQueueCancel_def call_ok_defs)
next
  case (unqueue c)
  then show ?case by (simp add: CancelQueue_def call_ok_defs)
next
  case (unexport c)
  then show ?case by (simp add: ClearExportVariables_def call_ok_defs)
qed (simp_all add: exec_begin_ok call_ok_local call_ok_loop call_ok_api call_ok_hook)

lemma reach_ok: "call_reach env c \<Longrightarrow> call_ok env c"
  by (induction rule: call_reach.induct) (auto simp: call_ok_new call_step_ok)

text \<open>
  C24: The channels of a call are used soundly.  In every state a call can reach, an event that has got the mutex of
  the call is handled without a send on a closed or full channel of a command, a hook that nobody serves or a second
  close of one; it answers at most the command it belongs to, and every other command keeps waiting on its open
  channel.  When the connection ends, every command that still waits is answered with an empty event, the table of
  waiting commands is empty and the context is cancelled.  (The wait for the mutex itself can be endless: see the reading of exported variables.)
\<close>

theorem call_channels_sound:
  assumes "call_reach env c"
  shows "(\<exists>c'. setEvent e c = Some c' \<and>
      list_all (\<lambda>g. (g \<in> set (fc_callbacks c') \<and> fc_chans c' g = Some CbOpen) \<or>
         (fc_chans c' g = Some (CbAnswered e) \<and> ev_Get e ''Event-Name'' = EVENT_EXECUTE_COMPLETE \<and>
          (g = ev_Get e ''Application-UUID'' \<or> g = ev_Get e ''Event-UUID''))) (fc_callbacks c)) \<and>
    (\<exists>c'. end_connection c = Some c' \<and> fc_callbacks c' = [] \<and> fc_cancelled c' \<and>
       list_all (\<lambda>g. fc_chans c' g = Some (CbAnswered no_event)) (fc_callbacks c))"
proof -
  note ok = reach_ok [OF assms]
  obtain c' where c': "setEvent e c = Some c'" "call_ok env c'" using setEvent_ok [OF ok] by blast
  have "(g \<in> set (fc_callbacks c') \<and> fc_chans c' g = Some CbOpen) \<or>
         (fc_chans c' g = Some (CbAnswered e) \<and> ev_Get e ''Event-Name'' = EVENT_EXECUTE_COMPLETE \<and>
          (g = ev_Get e ''Application-UUID'' \<or> g = ev_Get e ''Event-UUID''))" if "g \<in> set (fc_callbacks c)" for g
    using setEvent_answers [OF c'(1) that] c'(2) by (auto simp: call_ok_def chans_ok_def)
  then show ?thesis using c'(1) end_connection_ok [OF ok] by (auto simp: list_all_iff)
qed

definition example_dump :: fs_event where
  "example_dump = \<lparr>ev_Header = [''Unique-ID'' \<mapsto> ''7''], ev_Body = []\<rparr>"

definition fs_example_env :: fs_env where
  "fs_example_env = \<lparr>fe_uuid = (\<lambda>n. Inr (Itoa (int n))), fe_send = (\<lambda>_. None), fe_cancelFirst = (\<lambda>_. True)\<rparr>"

definition example_waiting :: fs_call where
  "example_waiting = snd (exec_begin fs_example_env ''answer'' [] (fs_newConnection [] example_dump))"

theorem call_channels_sound_witness:
  "fc_callbacks example_waiting = [''0''] \<and> (\<exists>c'. end_connection example_waiting = Some c' \<and> fc_callbacks c' = [] \<and> fc_cancelled c' \<and>
     fc_chans c' ''0'' = Some (CbAnswered no_event))"
proof -
  have w: "fc_callbacks example_waiting = [''0'']" by code_simp
  have "call_reach fs_example_env example_waiting"
    unfolding example_waiting_def by (rule call_reach.step [OF call_reach.start call_step.command])
  from call_channels_sound [OF this] show ?thesis by (auto simp: w)
qed

text \<open>
  C25: A command on a call returns as soon as the call hangs up, its socket ends or its context is cancelled, whatever
  else happens before, and leaves the call in a state from which the next command returns too.
\<close>

theorem command_returns:
  assumes "call_ok env c" "list_ex ends_wait (fc_future c)"
  shows "\<exists>r c'. executeWithContext env app args c = Some (r, c') \<and> call_ok env c'"
proof -
  obtain r1 c1 where b: "exec_begin env app args c = (r1, c1)" by force
  then have ok: "call_ok env c1" using exec_begin_ok [OF assms(1), of app args] by simp
  have f: "fc_future c1 = fc_future c" using b by (auto simp: exec_begin_def Let_def split: if_splits sum.splits option.splits)
  show ?thesis
  proof (cases r1)
    case (Inr g)
    have g: "g \<in> set (fc_callbacks c1)" using b Inr by (auto simp: exec_begin_def Let_def split: if_splits sum.splits option.splits)
    have "list_ex (ends_wait_of (flow_ctx env c)) (fc_future c)"
      using assms(2) by (simp add: ends_wait_of_def [abs_def] flow_ctx_def)
    then show ?thesis using b f g Inr await_returns [OF ok, of "flow_ctx env c" "fc_future c" g] await_ok [OF ok]
      by (fastforce simp: executeWithContext_def execute_ctx_def)
  qed (use b ok in \<open>simp add: executeWithContext_def execute_ctx_def\<close>)
qed

definition example_call :: "happening list \<Rightarrow> fs_call" where
  "example_call hs = fs_newConnection hs example_dump"

theorem command_returns_witness:
  "\<exists>r c'. executeWithContext fs_example_env ''answer'' [] (example_call [SockEOF]) = Some (r, c') \<and> call_ok fs_example_env c'"
proof -
  have "call_ok fs_example_env (example_call [SockEOF])" by (simp add: example_call_def call_ok_new)
  then show ?thesis by (intro command_returns) (auto simp: ends_wait_def example_call_def)
qed

text \<open>
  C26: What the success of a command means, whichever context it is run with.  The command was sent with a fresh
  identifier, and either the switch has completed this very command: the last event of the call is a completion that
  carries the identifier, nothing else was sent meanwhile and the call has not hung up; or the connection has ended
  while the command waited, by a hangup or the end of the socket, and the answer was the empty event of the end.
\<close>

theorem command_success:
  assumes "execute_ctx x env app args c = Some (Inr r, c')" "call_ok env c"
  shows "\<exists>g. fe_uuid env (fc_seq c) = Inr g \<and>
    (fc_sent c' = fc_sent c @ [ExecCmd app args] \<and> completed g c' \<or>
     cut_off g c' \<and> list_ex (\<lambda>h. h = SockEOF \<or> hangs_up h) (fc_future c))"
proof -
  obtain g c1 where b: "exec_begin env app args c = (Inr g, c1)" and a: "await x g (fc_future c1) c1 = Some (Inr r, c')"
    using assms(1) by (auto simp: execute_ctx_def split: prod.splits sum.splits)
  then have "fe_uuid env (fc_seq c) = Inr g" "g \<in> set (fc_callbacks c1)" "fc_future c1 = fc_future c" "\<not> fc_stopped c1"
    "fc_sent c1 = fc_sent c @ [ExecCmd app args]"
    by (auto simp: exec_begin_def Let_def split: if_splits sum.splits option.splits)
  moreover have "call_ok env c1" using exec_begin_ok [OF assms(2), of app args] b by simp
  ultimately show ?thesis using await_success [OF a] by auto
qed

definition done_event :: "string \<Rightarrow> fs_event" where
  "done_event g = \<lparr>ev_Header = [''Event-Name'' \<mapsto> EVENT_EXECUTE_COMPLETE, ''Application-UUID'' \<mapsto> g], ev_Body = []\<rparr>"

definition hangup_event :: fs_event where
  "hangup_event = \<lparr>ev_Header = [''Event-Name'' \<mapsto> EVENT_HANGUP_COMPLETE, ''variable_hangup_cause'' \<mapsto> ''NORMAL_CLEARING''], ev_Body = []\<rparr>"

lemma success_cases:
  assumes "case y of Some (Inr r, c) \<Rightarrow> P c | _ \<Rightarrow> False"
  shows "\<exists>r c. y = Some (Inr r, c) \<and> P c"
proof (cases y)
  case (Some z)
  obtain a b where z: "z = (a, b)" by force
  show ?thesis using assms Some z by (cases a) auto
qed (use assms in simp)

theorem command_success_witness:
  "(\<exists>r c'. execute_ctx (CallCtx True) fs_example_env ''answer'' [] (example_call [SockEvent (done_event ''1''), SockEvent (done_event ''0'')]) = Some (Inr r, c') \<and>
     completed ''0'' c') \<and>
   (\<exists>r c'. execute_ctx Background fs_example_env ''push'' ''a=1'' (example_call [SockEvent hangup_event]) = Some (Inr r, c') \<and> cut_off ''0'' c')"
proof -
  let ?c = "example_call [SockEvent (done_event ''1''), SockEvent (done_event ''0'')]" and ?d = "example_call [SockEvent hangup_event]"
  have "case execute_ctx (CallCtx True) fs_example_env ''answer'' [] ?c of Some (Inr r, c') \<Rightarrow> \<not> fc_cancelled c' | _ \<Rightarrow> False" by code_simp
  then obtain r c' where r: "execute_ctx (CallCtx True) fs_example_env ''answer'' [] ?c = Some (Inr r, c')" "\<not> fc_cancelled c'"
    using success_cases [where P = "\<lambda>c. \<not> fc_cancelled c"] by blast
  have "case execute_ctx Background fs_example_env ''push'' ''a=1'' ?d of Some (Inr r, c') \<Rightarrow> fc_stopped c' | _ \<Rightarrow> False" by code_simp
  then obtain r2 d' where s: "execute_ctx Background fs_example_env ''push'' ''a=1'' ?d = Some (Inr r2, d')" "fc_stopped d'"
    using success_cases [where P = fc_stopped] by blast
  have ok: "call_ok fs_example_env ?c" "call_ok fs_example_env ?d" by (simp_all add: example_call_def call_ok_new)
  have u: "fe_uuid fs_example_env (fc_seq (example_call hs)) = Inr ''0''" for hs by (simp add: example_call_def fs_example_env_def) code_simp
  show ?thesis using command_success [OF r(1) ok(1)] command_success [OF s(1) ok(2)] r s u by (auto simp: completed_def cut_off_def)
qed

text \<open>
  When the socket of a call ends while a command waits, the command can report success although the switch has
  answered nothing: the deferred end of the connection hands an empty event to every waiting command before it
  cancels the context.  With \<open>context.Background()\<close> it always does, also after a hangup.
\<close>

lemma lost_socket_reports_success:
  assumes "call_ok env c" "exec_begin env app args c = (Inr g, c1)" "fc_future c = SockEOF # hs" "\<not> fc_cancelled c"
    and x: "x = Background \<or> x = CallCtx False"
  shows "\<exists>c'. execute_ctx x env app args c = Some (Inr CallResponseOK, c') \<and> cut_off g c'"
proof -
  have ok: "call_ok env c1" using exec_begin_ok [OF assms(1), of app args] assms(2) by simp
  have c1: "fc_future c1 = SockEOF # hs" "g \<in> set (fc_callbacks c1)" "settled x g c1 = None"
    using assms(2-4) x by (auto simp: exec_begin_def Let_def settled_def cb_ready_def split: if_splits sum.splits option.splits)
  obtain c2 where c2: "end_connection c1 = Some c2" "fc_chans c2 g = Some (CbAnswered no_event)" "fc_cancelled c2"
    using end_connection_ok [OF ok] c1(2) by auto
  then have "settled x g c2 = Some (Inr CallResponseOK)" using x by (auto simp: settled_def cb_ready_def)
  then show ?thesis using assms(2) c1 c2 await_ended [of x g c2] by (auto simp: execute_ctx_def cut_off_def)
qed

end
