(* ===== verification/Fs_Vars_Props.thy ===== *)
theory Fs_Vars_Props
  imports Fs_Call_Props
begin

text \<open>
  The hook of a bridge, the variables of a call after its end, the text of a \<open>multiset\<close>, and the lock under
  which the exported variables are read.
\<close>

section \<open>The hook of a bridge\<close>

definition bridge_event :: fs_event where
  "bridge_event = \<lparr>ev_Header = [''Event-Name'' \<mapsto> EVENT_BRIDGE], ev_Body = []\<rparr>"

text \<open>
  A bridge that ends without a bridge event leaves its hook on the call.  The hook of the next bridge is then
  ignored: when that bridge is answered the applications of the first bridge run, and the goroutine of the new
  hook waits for a channel that the call no longer knows.
\<close>

lemma stale_bridge_hook:
  assumes "fc_hookBridged c = Some h0" "fc_hooks c h0 = Some HookWaiting" "fc_hooks c h = None"
    "ev_Get e ''Event-Name'' = EVENT_BRIDGE"
  shows "\<exists>c'. setEvent e (setHookBridged h (c\<lparr>fc_hooks := (fc_hooks c)(h \<mapsto> HookWaiting)\<rparr>)) = Some c' \<and>
    fc_hooks c' h0 = Some HookFired \<and> fc_hooks c' h = Some HookWaiting \<and> fc_hookBridged c' = None"
proof -
  have "h \<noteq> h0" using assms by auto
  then show ?thesis using assms
    by (simp add: setEvent_def setHookBridged_def Let_def EVENT_BRIDGE_def EVENT_HANGUP_COMPLETE_def EVENT_EXECUTE_COMPLETE_def
        updateVariablesFromEvent_def sendHookBridged_def closeHookBridge_def)
qed

section \<open>After the hangup\<close>

lemma setDisconnected_one: "setDisconnectedVariables ff [(k, v)] c = c\<lparr>fc_variables := (fc_variables c)(k \<mapsto> sprint_v ff v)\<rparr>"
  by (simp add: setDisconnectedVariables_def)

text \<open>
  After the hangup a call is local.  A command is refused and nothing reaches the switch; a variable that the
  disconnected schema sets reads back as it was written, and the other variables keep what the last events left
  in them.  (A name with a dot is a path, and \<open>strepoch()\<close> is left to the switch.)
\<close>

lemma hung_up_call_is_local:
  assumes "fc_stopped c" "CHR ''.'' \<notin> set k" "k \<noteq> ''strepoch()''"
  shows "executeWithContext env app args c = Some (Inl errExecuteAfterHangup, c) \<and>
    (\<exists>c'. call_Set env ff [(k, v)] c = Some (Inr CallResponseOK, c') \<and> fc_sent c' = fc_sent c \<and> fc_stopped c' \<and>
       call_Get gj k c' = (sprint_v ff v, True) \<and> (k2 \<noteq> k \<and> CHR ''.'' \<notin> set k2 \<longrightarrow> call_Get gj k2 c' = call_Get gj k2 c))"
proof -
  have none: "take_until (CHR ''.'') s = None" if "CHR ''.'' \<notin> set s" for s using that by (induction s) auto
  show ?thesis using assms none [of k] none [of k2]
    by (auto simp: executeWithContext_def execute_ctx_def exec_begin_def call_Set_def call_Set_ctx_def setDisconnected_one call_Get_def call_get_def cong: option.case_cong)
qed

section \<open>The text that sets variables\<close>

text \<open>A separator or quote of the escaped text without a backslash before it.\<close>

fun no_bare :: "char \<Rightarrow> char \<Rightarrow> string \<Rightarrow> bool" where
  "no_bare x p [] = True"
| "no_bare x p (c # cs) = ((c = x \<longrightarrow> p = CHR 0x5C) \<and> no_bare x c cs)"

lemma escape_no_bare:
  assumes "x \<in> {CHR ''~'', CHR 0x27}"
  shows "no_bare x q (escape_from (Some q) s)"
  using assms by (induction s arbitrary: q) (auto simp: Let_def)

text \<open>
  Behind its first byte an escaped value has no separator and no quote without a backslash before it, so that none of
  them can end the value there.  The first byte itself is never escaped, and a backslash at the end of a value is left
  as it is, in front of the separator that follows.
\<close>

lemma escaped_inside:
  assumes "x \<in> {CHR ''~'', CHR 0x27}" "escapeFsMultiset s = c # cs"
  shows "no_bare x c cs"
proof -
  obtain d ds where d: "concat (map rune_text (runes s)) = d # ds" using assms(2) by (cases "concat (map rune_text (runes s))") (auto simp: escapeFsMultiset_def)
  then have "c = d \<and> cs = escape_from (Some d) ds" using assms(2) by (auto simp: escapeFsMultiset_def Let_def)
  then show ?thesis using escape_no_bare [OF assms(1)] by simp
qed

lemma multiset_value_breaks_out:
  "escapeFsMultiset ''~b=1'' = ''~b=1''" "escapeFsMultiset [CHR ''x'', CHR 0x5C] = [CHR ''x'', CHR 0x5C]"
  by code_simp+

section \<open>The lock of the exported variables\<close>

text \<open>
  \<open>DumpExportVariables\<close> holds the read lock of the call while it reads each variable, and reading one takes the
  read lock again (\<open>Stopped\<close>), except for the name \<open>strepoch()\<close>, which is left to the switch.  An event takes the
  write lock.  As with \<open>sync.RWMutex\<close>, a waiting writer keeps new readers out.  The variables still to be read are
  kept in the state of the reader.
\<close>

datatype dump_pc = DumpStart | DumpOuter "string list" | DumpInner "string list" | DumpDone
datatype event_pc = EventIdle | EventWaiting | EventHolding | EventDone

definition no_reader :: "dump_pc \<Rightarrow> bool" where
  "no_reader d = (d = DumpStart \<or> d = DumpDone)"

definition no_writer :: "event_pc \<Rightarrow> bool" where
  "no_writer w = (w = EventIdle \<or> w = EventDone)"

inductive dump_step :: "fs_call \<Rightarrow> dump_pc \<times> event_pc \<Rightarrow> dump_pc \<times> event_pc \<Rightarrow> bool" for c where
  rlock: "no_writer w \<Longrightarrow> dump_step c (DumpStart, w) (DumpOuter (fc_exportVariables c), w)"
| epoch: "dump_step c (DumpOuter (''strepoch()'' # vs), w) (DumpOuter vs, w)"
| rlock_again: "v \<noteq> ''strepoch()'' \<Longrightarrow> no_writer w \<Longrightarrow> dump_step c (DumpOuter (v # vs), w) (DumpInner vs, w)"
| runlock_inner: "dump_step c (DumpInner vs, w) (DumpOuter vs, w)"
| runlock: "dump_step c (DumpOuter [], w) (DumpDone, w)"
| lock_call: "dump_step c (d, EventIdle) (d, EventWaiting)"
| lock_get: "no_reader d \<Longrightarrow> dump_step c (d, EventWaiting) (d, EventHolding)"
| lock_release: "dump_step c (d, EventHolding) (d, EventDone)"

inductive_cases dump_step_outer: "dump_step c (DumpOuter (v # vs), EventWaiting) s"

lemma dump_reaches:
  assumes "v \<in> set vs" "v \<noteq> ''strepoch()''"
  shows "\<exists>u us. u \<noteq> ''strepoch()'' \<and> (dump_step c)\<^sup>*\<^sup>* (DumpOuter vs, EventIdle) (DumpOuter (u # us), EventIdle)"
  using assms(1)
proof (induction vs)
  case (Cons w ws)
  show ?case
  proof (cases "w = ''strepoch()''")
    case True
    then obtain u us where "u \<noteq> ''strepoch()''" "(dump_step c)\<^sup>*\<^sup>* (DumpOuter ws, EventIdle) (DumpOuter (u # us), EventIdle)"
      using Cons assms(2) by auto
    then show ?thesis using True dump_step.epoch [of c ws EventIdle] by (meson converse_rtranclp_into_rtranclp)
  next
    case False
    then show ?thesis by blast
  qed
qed simp

text \<open>With nothing but \<open>strepoch()\<close> the inner lock is never taken, and something can always move.\<close>

lemma dump_epochs:
  assumes "(dump_step c)\<^sup>*\<^sup>* (DumpStart, EventIdle) (d, w)" "set (fc_exportVariables c) \<subseteq> {''strepoch()''}"
  shows "case d of DumpOuter vs \<Rightarrow> set vs \<subseteq> {''strepoch()''} | DumpInner _ \<Rightarrow> False | _ \<Rightarrow> True"
  using assms(1)
proof (induction "(d, w)" arbitrary: d w rule: rtranclp_induct)
  case (step s)
  obtain d0 w0 where s: "s = (d0, w0)" by force
  from step(2) [unfolded s] step(3) [OF s] assms(2) show ?case by (cases rule: dump_step.cases) auto
qed simp

text \<open>
  C27: Reading the exported variables of a call can block the call for ever: when an event arrives while they are
  read, the event waits for the reader to release the lock and the reader, which takes the lock a second time for the
  next variable, waits for the event.  From there neither can take a step.  This happens exactly for the calls that
  export a variable other than \<open>strepoch()\<close>.
\<close>

theorem export_dump_deadlock:
  "(\<exists>d. (dump_step c)\<^sup>*\<^sup>* (DumpStart, EventIdle) (d, EventWaiting) \<and> \<not> (\<exists>s. dump_step c (d, EventWaiting) s))
   \<longleftrightarrow> \<not> set (fc_exportVariables c) \<subseteq> {''strepoch()''}"
proof
  assume "\<not> set (fc_exportVariables c) \<subseteq> {''strepoch()''}"
  then obtain v where v: "v \<in> set (fc_exportVariables c)" "v \<noteq> ''strepoch()''" by auto
  obtain u us where u: "u \<noteq> ''strepoch()''" "(dump_step c)\<^sup>*\<^sup>* (DumpOuter (fc_exportVariables c), EventIdle) (DumpOuter (u # us), EventIdle)"
    using dump_reaches [OF v] by blast
  have "dump_step c (DumpStart, EventIdle) (DumpOuter (fc_exportVariables c), EventIdle)" by (rule dump_step.rlock) (simp add: no_writer_def)
  moreover have "dump_step c (DumpOuter (u # us), EventIdle) (DumpOuter (u # us), EventWaiting)" by (rule dump_step.lock_call)
  ultimately have "(dump_step c)\<^sup>*\<^sup>* (DumpStart, EventIdle) (DumpOuter (u # us), EventWaiting)"
    using u(2) by (meson converse_rtranclp_into_rtranclp rtranclp.rtrancl_into_rtrancl)
  moreover have "\<not> dump_step c (DumpOuter (u # us), EventWaiting) s" for s
    using u(1) by (auto simp: no_writer_def no_reader_def elim: dump_step_outer)
  ultimately show "\<exists>d. (dump_step c)\<^sup>*\<^sup>* (DumpStart, EventIdle) (d, EventWaiting) \<and> \<not> (\<exists>s. dump_step c (d, EventWaiting) s)" by blast
next
  assume "\<exists>d. (dump_step c)\<^sup>*\<^sup>* (DumpStart, EventIdle) (d, EventWaiting) \<and> \<not> (\<exists>s. dump_step c (d, EventWaiting) s)"
  then obtain d where d: "(dump_step c)\<^sup>*\<^sup>* (DumpStart, EventIdle) (d, EventWaiting)" "\<And>s. \<not> dump_step c (d, EventWaiting) s" by blast
  show "\<not> set (fc_exportVariables c) \<subseteq> {''strepoch()''}"
  proof
    assume "set (fc_exportVariables c) \<subseteq> {''strepoch()''}"
    note E = dump_epochs [OF d(1) this]
    show False
    proof (cases d)
      case (DumpOuter vs)
      then show ?thesis using E d(2) dump_step.epoch [of c "tl vs" EventWaiting] dump_step.runlock [of c EventWaiting] by (cases vs) auto
    qed (use E d(2) dump_step.lock_get [of d c] in \<open>auto simp: no_reader_def\<close>)
  qed
qed

end
