(* ===== verification/Fs_Control.thy ===== *)
theory Fs_Control
  imports Fs_Call Sql_Store Im_Apps Flow_Basic
begin

text \<open>
  The commands of a call (\<open>providers/fs/control.go\<close>): each builds a text, mostly from the state of the call,
  and runs it with \<open>executeWithContext\<close> or sends it as an \<open>api\<close> command.

  The result is a response or an error with the call after it; \<open>None\<close> is a panic or a wait that nothing ends.
\<close>

type_synonym call_run = "(response result \<times> fs_call) option"

record fs_ctx =
  fx_env :: fs_env
  fx_gj :: "string \<Rightarrow> string \<Rightarrow> string"
  fx_ff :: "rat \<Rightarrow> string"
  fx_f6 :: "rat \<Rightarrow> string"
  fx_newId :: "nat \<Rightarrow> nat \<Rightarrow> string"

definition run_app :: "fs_ctx \<Rightarrow> string \<Rightarrow> string \<Rightarrow> fs_call \<Rightarrow> call_run" where
  "run_app cx app args c = executeWithContext (fx_env cx) app args c"

definition call_then :: "call_run \<Rightarrow> (fs_call \<Rightarrow> call_run) \<Rightarrow> call_run" where
  "call_then r k = (case r of None \<Rightarrow> None | Some (Inl er, c) \<Rightarrow> Some (Inl er, c) | Some (Inr _, c) \<Rightarrow> k c)"

text \<open>A call whose result is dropped.\<close>

definition call_anyway :: "call_run \<Rightarrow> (fs_call \<Rightarrow> 'r option) \<Rightarrow> 'r option" where
  "call_anyway r k = (case r of None \<Rightarrow> None | Some (_, c) \<Rightarrow> k c)"

section \<open>Plain commands\<close>

definition fs_Answer :: "fs_ctx \<Rightarrow> fs_call \<Rightarrow> call_run" where
  "fs_Answer cx = run_app cx ''answer'' []"

definition fs_PreAnswer :: "fs_ctx \<Rightarrow> fs_call \<Rightarrow> call_run" where
  "fs_PreAnswer cx = run_app cx ''pre_answer'' []"

definition fs_RingReady :: "fs_ctx \<Rightarrow> fs_call \<Rightarrow> call_run" where
  "fs_RingReady cx = run_app cx ''ring_ready'' []"

definition fs_Hangup :: "fs_ctx \<Rightarrow> string \<Rightarrow> fs_call \<Rightarrow> call_run" where
  "fs_Hangup cx cause = run_app cx ''hangup'' cause"

definition fs_HangupNoRoute :: "fs_ctx \<Rightarrow> fs_call \<Rightarrow> call_run" where
  "fs_HangupNoRoute cx = run_app cx ''hangup'' ''NO_ROUTE_DESTINATION''"

definition fs_HangupAppErr :: "fs_ctx \<Rightarrow> fs_call \<Rightarrow> call_run" where
  "fs_HangupAppErr cx = run_app cx ''hangup'' ''NORMAL_TEMPORARY_FAILURE''"

definition fs_Sleep :: "fs_ctx \<Rightarrow> int \<Rightarrow> fs_call \<Rightarrow> call_run" where
  "fs_Sleep cx timeout = run_app cx ''sleep'' (Itoa timeout)"

definition fs_Echo :: "fs_ctx \<Rightarrow> int \<Rightarrow> fs_call \<Rightarrow> call_run" where
  "fs_Echo cx delay = (if delay = 0 then run_app cx ''echo'' [] else run_app cx ''delay_echo'' (Itoa delay))"

definition fs_Conference :: "fs_ctx \<Rightarrow> string \<Rightarrow> string \<Rightarrow> string \<Rightarrow> string list \<Rightarrow> fs_call \<Rightarrow> call_run" where
  "fs_Conference cx name profile pin tags c =
     run_app cx ''conference''
       (name @ ''_'' @ Itoa (fc_domainId c) @ ''@'' @ profile @ (if pin \<noteq> [] then ''+'' @ pin else []) @
        (if 0 < length tags then ''+flags{'' @ join_with ''|'' tags @ ''}'' else [])) c"

definition fs_FlushDTMF :: "fs_ctx \<Rightarrow> fs_call \<Rightarrow> call_run" where
  "fs_FlushDTMF cx = run_app cx ''flush_dtmf'' []"

definition fs_StartDTMF :: "fs_ctx \<Rightarrow> fs_call \<Rightarrow> call_run" where
  "fs_StartDTMF cx = run_app cx ''start_dtmf'' []"

definition fs_StopDTMF :: "fs_ctx \<Rightarrow> fs_call \<Rightarrow> call_run" where
  "fs_StopDTMF cx = run_app cx ''stop_dtmf'' []"

definition fs_Queue :: "fs_ctx \<Rightarrow> string \<Rightarrow> fs_call \<Rightarrow> call_run" where
  "fs_Queue cx ringFile = run_app cx ''wbt_queue'' ringFile"

definition fs_Intercept :: "fs_ctx \<Rightarrow> string \<Rightarrow> fs_call \<Rightarrow> call_run" where
  "fs_Intercept cx i c =
     Some (Inr CallResponseOK, snd (call_Api (fx_env cx) (''uuid_transfer '' @ fc_id c @ '' intercept:'' @ i @ '' inline'') c))"

definition fs_Park :: "fs_ctx \<Rightarrow> string \<Rightarrow> bool \<Rightarrow> string \<Rightarrow> string \<Rightarrow> fs_call \<Rightarrow> call_run" where
  "fs_Park cx name inn lotFrom lotTo c =
     run_app cx ''valet_park'' (fc_domainName c @ ''@'' @ name @ '' '' @ (if inn then ''in'' else ''out'') @ '' '' @ lotFrom @ '' '' @ lotTo) c"

definition fs_Redirect :: "fs_ctx \<Rightarrow> string list \<Rightarrow> fs_call \<Rightarrow> call_run" where
  "fs_Redirect cx uri c =
     (let tmp = GetVariable ''Caller-Channel-Answered-Time'' c in
      run_app cx (if tmp = ''0'' \<or> tmp = [] then ''redirect'' else ''deflect'') (join_with '','' uri) c)"

definition fs_UnSet :: "fs_ctx \<Rightarrow> string \<Rightarrow> fs_call \<Rightarrow> call_run" where
  "fs_UnSet cx name = run_app cx ''unset'' name"

definition fs_ScheduleHangup :: "fs_ctx \<Rightarrow> int \<Rightarrow> string \<Rightarrow> fs_call \<Rightarrow> call_run" where
  "fs_ScheduleHangup cx sec cause = run_app cx ''sched_hangup'' (''+'' @ Itoa sec @ '' '' @ cause)"

definition fs_AmdML :: "fs_ctx \<Rightarrow> string list \<Rightarrow> fs_call \<Rightarrow> call_run" where
  "fs_AmdML cx tags = run_app cx ''wbt_amd'' (join_with '','' tags)"

definition PickupHash :: "string \<Rightarrow> fs_call \<Rightarrow> string" where
  "PickupHash name c = name @ ''@'' @ Itoa (fc_domainId c)"

definition fs_Pickup :: "fs_ctx \<Rightarrow> string \<Rightarrow> fs_call \<Rightarrow> call_run" where
  "fs_Pickup cx name c = run_app cx ''pickup'' (name @ ''@'' @ Itoa (fc_domainId c)) c"

definition fs_Say :: "fs_ctx \<Rightarrow> string \<Rightarrow> fs_call \<Rightarrow> call_run" where
  "fs_Say cx val = run_app cx ''say'' val"

definition fs_Bot :: "fs_ctx \<Rightarrow> string \<Rightarrow> int \<Rightarrow> string \<Rightarrow> fs_call \<Rightarrow> call_run" where
  "fs_Bot cx conn rate i = run_app cx ''wbt_voice_bot'' (conn @ '' '' @ Itoa rate @ '' '' @ i)"

definition fs_Update :: "fs_ctx \<Rightarrow> fs_call \<Rightarrow> call_run" where
  "fs_Update cx = run_app cx ''wbt_update_call'' []"

definition RefreshVars :: "fs_ctx \<Rightarrow> fs_call \<Rightarrow> call_run" where
  "RefreshVars cx = run_app cx ''dump'' []"

definition PlaybackUrl :: "fs_ctx \<Rightarrow> string \<Rightarrow> fs_call \<Rightarrow> call_run" where
  "PlaybackUrl cx url = run_app cx ''playback'' url"

definition SetTransferAfterBridge :: "fs_ctx \<Rightarrow> int \<Rightarrow> fs_call \<Rightarrow> call_run" where
  "SetTransferAfterBridge cx schemaId c =
     call_Set (fx_env cx) (fx_ff cx) [(''transfer_to_schema_id'', GStr (Itoa schemaId)),
       (''transfer_after_bridge'', GStr (fc_destination c @ '':XML:default''))] c"

definition fs_SetSounds :: "fs_ctx \<Rightarrow> string \<Rightarrow> string \<Rightarrow> fs_call \<Rightarrow> call_run" where
  "fs_SetSounds cx lang voice c =
     (let s = split_on CHR ''_'' (ToLower lang) in
      setInternal (fx_env cx) (fx_ff cx) [(''sound_prefix'', GStr (''/$${sounds_dir}/'' @ join_with ''/'' s @ ''/'' @ voice)),
        (''default_language'', GStr (hd s))] c)"

text \<open>The three steps of \<open>UpdateCid\<close>; each changes the call only when its command succeeded.\<close>

definition fs_UpdateCid :: "fs_ctx \<Rightarrow> string option \<Rightarrow> string option \<Rightarrow> string option \<Rightarrow> fs_call \<Rightarrow>
  ((response option \<times> app_error option) \<times> fs_call) option" where
  "fs_UpdateCid cx name number destination c =
     (let step = (\<lambda>key v upd st.
            case st of
              Some ((res, None), c) \<Rightarrow>
                (case v of
                   None \<Rightarrow> Some ((res, None), c)
                 | Some s \<Rightarrow>
                     (case run_app cx ''set_profile_var'' (key @ ''='' @ s) c of
                        None \<Rightarrow> None
                      | Some (Inl er, c1) \<Rightarrow> Some ((None, Some er), c1)
                      | Some (Inr r, c1) \<Rightarrow> Some ((Some r, None), upd s c1)))
            | _ \<Rightarrow> st)
      in step ''destination'' destination (\<lambda>s c. c\<lparr>fc_destination := s\<rparr>)
           (step ''caller_id_number'' number (\<lambda>s c. c\<lparr>fc_from := (fc_from c)\<lparr>ce_Number := s\<rparr>\<rparr>)
             (step ''caller_id_name'' name (\<lambda>s c. c\<lparr>fc_from := (fc_from c)\<lparr>ce_Name := s\<rparr>\<rparr>) (Some ((None, None), c)))))"

section \<open>Export\<close>

definition fs_Export :: "fs_ctx \<Rightarrow> string list \<Rightarrow> fs_call \<Rightarrow> call_run" where
  "fs_Export cx vars c =
     (let vs = filter (\<lambda>v. v \<noteq> []) vars;
          ex = map (\<lambda>v. (''usr_'' @ v, GStr (fst (call_Get (fx_gj cx) v c)))) vs;
          c1 = c\<lparr>fc_exportVariables := fc_exportVariables c @ vs\<rparr>
      in if 0 < length ex then call_Set (fx_env cx) (fx_ff cx) ex c1 else Some (Inr CallResponseOK, c1))"

section \<open>Speech settings (model/tts.go)\<close>

record tts_background =
  tb_FileUri :: string
  tb_Volume :: rat
  tb_FadeIn :: int
  tb_FadeOut :: int

record tts_settings =
  ts_ProfileId :: int
  ts_Language :: string
  ts_Voice :: string
  ts_Text :: string
  ts_TextType :: string
  ts_VoiceSettings :: "(string \<times> goval) list"
  ts_Format :: string
  ts_Static :: bool
  ts_SpeakingRate :: string
  ts_Pitch :: string
  ts_VolumeGainDb :: string
  ts_EffectsProfileId :: string
  ts_KeyLocation :: string
  ts_Background :: "tts_background option"

definition opt_param :: "bool \<Rightarrow> string \<Rightarrow> string \<Rightarrow> string" where
  "opt_param b key v = (if b then ''&'' @ key @ ''='' @ v else [])"

definition QueryParams :: "fs_ctx \<Rightarrow> tts_settings \<Rightarrow> int \<Rightarrow> string" where
  "QueryParams cx t domainId =
     ''domain_id='' @ Itoa domainId @ ''&profile_id='' @ Itoa (ts_ProfileId t) @ ''&text='' @
     UrlEncoded (map (\<lambda>ch. if ch = CHR ''!'' then CHR ''.'' else ch) (ts_Text t)) @
     concat (map (\<lambda>(k, v). ''&'' @ k @ ''='' @ sprint_v (fx_ff cx) v) (sort_key fst (ts_VoiceSettings t))) @
     opt_param (ts_TextType t \<noteq> []) ''text_type'' (ts_TextType t) @
     opt_param (ts_Language t \<noteq> []) ''language'' (ts_Language t) @
     opt_param (ts_Voice t \<noteq> []) ''voice'' (ts_Voice t) @
     (case ts_Background t of
        None \<Rightarrow> []
      | Some b \<Rightarrow>
          if tb_FileUri b = [] then []
          else ''&bg_url='' @ tb_FileUri b @ opt_param (tb_Volume b > 0) ''bg_vol'' (fx_f6 cx (tb_Volume b)) @
               opt_param (tb_FadeIn b > 0) ''bg_fin'' (Itoa (tb_FadeIn b)) @ opt_param (tb_FadeOut b > 0) ''bg_fout'' (Itoa (tb_FadeOut b))) @
     opt_param (ts_SpeakingRate t \<noteq> []) ''speakingRate'' (ts_SpeakingRate t) @
     opt_param (ts_SpeakingRate t \<noteq> []) ''pitch'' (ts_Pitch t) @
     opt_param (ts_SpeakingRate t \<noteq> []) ''volumeGainDb'' (ts_VolumeGainDb t) @
     opt_param (ts_SpeakingRate t \<noteq> []) ''effectsProfileId'' (ts_EffectsProfileId t) @
     opt_param (ts_KeyLocation t \<noteq> []) ''keyLocation'' (UrlEncoded (ts_KeyLocation t))"

section \<open>Files\<close>

record http_file_args =
  hf_Url :: string
  hf_FileType :: string
  hf_Method :: string
  hf_Headers :: "(string \<times> string) list"

text \<open>The arguments of a file are kept as they decode; \<open>None\<close> when they do not.\<close>

record playback_file =
  pl_Type :: "string option"
  pl_Id :: "int option"
  pl_Name :: "string option"
  pl_Args :: "http_file_args option option"
  pl_TTS :: "tts_settings option"

definition ttsGetCodecSettings :: "string \<Rightarrow> string \<times> string" where
  "ttsGetCodecSettings writeRateVar =
     (if writeRateVar = [] then (''8000'', ''mp3'')
      else (case Atoi writeRateVar of
          None \<Rightarrow> (''8000'', ''mp3'')
        | Some i \<Rightarrow> if i = 8000 \<or> i = 16000 then (''8000'', ''wav'') else if i \<ge> 22050 then (''22050'', ''mp3'') else (''8000'', ''mp3'')))"

definition IsPlayBackground :: "fs_call \<Rightarrow> bool" where
  "IsPlayBackground c = (fc_playBackground c > 0)"

text \<open>The identifier of a call is cut to five bytes; a shorter one panics.\<close>

definition ttsUri :: "fs_ctx \<Rightarrow> nat \<Rightarrow> tts_settings option \<Rightarrow> string \<Rightarrow> bool \<Rightarrow> fs_call \<Rightarrow> (string \<times> bool) option" where
  "ttsUri cx k tts startQ prepare c =
     (case tts of
        None \<Rightarrow> Some ([], False)
      | Some t \<Rightarrow>
          (let q = startQ @ QueryParams cx t (fc_domainId c);
               (rate, format0) = ttsGetCodecSettings (GetVariable ''variable_write_rate'' c);
               format = (if ts_Format t = ''ulaw'' then ts_Format t else format0);
               bg = IsPlayBackground c \<and> \<not> ts_Static t;
               protocol = (if prepare
                 then ''{call_id='' @ fc_id c @ '',id='' @ take 8 (fx_newId cx (fc_seq c) k) @ (if bg then '',skip_cache=true'' else []) @
                      ''}wbt_prepare://http://$${cdr_url}/sys/tts''
                 else if format = ''mp3'' then ''shout://$${cdr_url}/sys/tts''
                 else (if bg then ''{refresh=true}'' else []) @ ''http_cache://http://$${cdr_url}/sys/tts'')
           in if \<not> ts_Static t \<and> length (fc_id c) < 5 then None
              else Some (protocol @ q @ (if ts_Static t then [] else ''&r='' @ take 5 (fc_id c)) @ ''&format='' @ format @
                     (if rate \<noteq> [] then ''&rate='' @ rate else []) @ ''&.'' @ format, True)))"

definition media_link :: "string \<Rightarrow> string \<Rightarrow> int option \<Rightarrow> fs_call \<Rightarrow> string \<times> bool" where
  "media_link protocol ext i c =
     (case i of
        None \<Rightarrow> ([], False)
      | Some i \<Rightarrow> (protocol @ ''$${cdr_url}/sys/media/'' @ Itoa i @ ''/stream?domain_id='' @ Itoa (fc_domainId c) @ ''&.'' @ ext, True))"

text \<open>\<open>mime\<close> is the table of file types of the library \<open>filetype\<close>.\<close>

definition http_audio_link :: "(string \<Rightarrow> string) \<Rightarrow> http_file_args \<Rightarrow> string \<times> bool" where
  "http_audio_link mime a =
     (let add = (\<lambda>(k, v) q. if map_of q k = None then q @ [(k, [v])] else map (\<lambda>(k', vs). (k', if k' = k then vs @ [v] else vs)) q);
          q = fold add (hf_Headers a) (add (''method'', hf_Method a) [(''url'', [hf_Url a])]);
          url = ''$${cdr_url}/sys/redirect/playback?'' @ Values_Encode q; tp = mime (hf_FileType a)
      in if tp \<in> {''audio/wav'', ''audio/x-wav''} then (''http_cache://https://'' @ url, True)
         else if tp \<in> {''audio/mp3'', ''audio/mpeg''} then (''shout://'' @ url, True) else ([], False))"

definition buildFileLink :: "fs_ctx \<Rightarrow> (string \<Rightarrow> string) \<Rightarrow> playback_file option \<Rightarrow> fs_call \<Rightarrow> (string \<times> bool) option" where
  "buildFileLink cx mime file c =
     (case file of
        None \<Rightarrow> Some ([], False)
      | Some f \<Rightarrow>
          (case pl_Type f of
             None \<Rightarrow> Some ([], False)
           | Some t \<Rightarrow>
               if t \<in> {''audio/mp3'', ''audio/mpeg''} then Some (media_link ''shout://'' ''mp3'' (pl_Id f) c)
               else if t \<in> {''audio/wav'', ''audio/ogg'', ''audio/x-wav''} then Some (media_link ''http_cache://http://'' ''wav'' (pl_Id f) c)
               else if t = ''video/mp4'' then Some (media_link ''http_cache://http://'' ''mp4'' (pl_Id f) c)
               else if t = ''tone'' then Some (case pl_Name f of None \<Rightarrow> ([], False) | Some n \<Rightarrow> (''tone_stream://'' @ n, True))
               else if t = ''silence'' then Some (''silence_stream://'' @ (case pl_Name f of None \<Rightarrow> ''-1'' | Some n \<Rightarrow> n), True)
               else if t = ''http_audio'' then
                 Some (case pl_Args f of Some (Some a) \<Rightarrow> http_audio_link mime a | _ \<Rightarrow> ([], False))
               else if t = ''local'' then Some (case pl_Name f of None \<Rightarrow> ([], False) | Some n \<Rightarrow> (n, True))
               else if t = ''tts'' then ttsUri cx 0 (pl_TTS f) ''?'' False c
               else Some ([], False)))"

text \<open>A text-to-speech file is played twice: once to prepare it, once to play it.\<close>

fun file_strings :: "fs_ctx \<Rightarrow> (string \<Rightarrow> string) \<Rightarrow> nat \<Rightarrow> playback_file list \<Rightarrow> fs_call \<Rightarrow> string list option" where
  "file_strings cx mime k [] c = Some []"
| "file_strings cx mime k (v # vs) c =
     (case (if pl_Type v = Some ''tts'' \<and> pl_TTS v \<noteq> None then map_option (\<lambda>(s, _). [s]) (ttsUri cx k (pl_TTS v) ''?'' True c) else Some []) of
        None \<Rightarrow> None
      | Some p \<Rightarrow>
          (case buildFileLink cx mime (Some v) c of
             None \<Rightarrow> None
           | Some (s, ok) \<Rightarrow> map_option (\<lambda>rest. p @ (if ok then [s] else []) @ rest) (file_strings cx mime (Suc k) vs c)))"

definition getFileString :: "fs_ctx \<Rightarrow> (string \<Rightarrow> string) \<Rightarrow> playback_file list \<Rightarrow> fs_call \<Rightarrow> (string \<times> bool) option" where
  "getFileString cx mime files c =
     map_option (\<lambda>fs. case fs of [] \<Rightarrow> ([], False) | [s] \<Rightarrow> (s, True) | _ \<Rightarrow> (''file_string://'' @ join_with ''!'' fs, True))
       (file_strings cx mime 0 files c)"

definition file_error :: app_error where
  "file_error = NewAppError ''FS'' ''fs.control.playback.err'' [] ''not found file'' 400"

definition fs_Playback :: "fs_ctx \<Rightarrow> (string \<Rightarrow> string) \<Rightarrow> playback_file list \<Rightarrow> fs_call \<Rightarrow> call_run" where
  "fs_Playback cx mime files c =
     (case getFileString cx mime files c of
        None \<Rightarrow> None
      | Some (s, ok) \<Rightarrow> if ok then run_app cx ''playback'' s c else Some (Inl file_error, c))"

record playback_digits =
  pd_SetVar :: "string option"
  pd_Min :: "int option"
  pd_Max :: "int option"
  pd_Tries :: "int option"
  pd_Timeout :: "int option"
  pd_Regexp :: "string option"
  pd_DigitTimeout :: "int option"
  pd_Terminators :: string

definition or_else :: "'a option \<Rightarrow> 'a \<Rightarrow> 'a" where
  "or_else x d = (case x of Some v \<Rightarrow> v | None \<Rightarrow> d)"

definition PlaybackUrlAndGetDigits :: "fs_ctx \<Rightarrow> string \<Rightarrow> playback_digits \<Rightarrow> fs_call \<Rightarrow> call_run" where
  "PlaybackUrlAndGetDigits cx s p c =
     run_app cx ''play_and_get_digits''
       (Itoa (or_else (pd_Min p) 1) @ '' '' @ Itoa (or_else (pd_Max p) 1) @ '' '' @ Itoa (or_else (pd_Tries p) 1) @ '' '' @
        Itoa (or_else (pd_Timeout p) 3000) @ '' '' @ (if pd_Terminators p = [] then ''#'' else pd_Terminators p) @ '' '' @ s @
        '' silence_stream://250 '' @ or_else (pd_SetVar p) ''MyVar'' @ '' '' @ or_else (pd_Regexp p) ''.*'' @
        (case pd_DigitTimeout p of None \<Rightarrow> [] | Some i \<Rightarrow> '' '' @ Itoa i)) c"

definition PlaybackAndGetDigits :: "fs_ctx \<Rightarrow> (string \<Rightarrow> string) \<Rightarrow> playback_file list \<Rightarrow> playback_digits \<Rightarrow> fs_call \<Rightarrow> call_run" where
  "PlaybackAndGetDigits cx mime files p c =
     (case getFileString cx mime files c of
        None \<Rightarrow> None
      | Some (s, ok) \<Rightarrow> if ok then PlaybackUrlAndGetDigits cx s p c else Some (Inl file_error, c))"

definition play_url :: "fs_ctx \<Rightarrow> string \<Rightarrow> playback_digits option \<Rightarrow> fs_call \<Rightarrow> call_run" where
  "play_url cx url digits c = (case digits of Some p \<Rightarrow> PlaybackUrlAndGetDigits cx url p c | None \<Rightarrow> PlaybackUrl cx url c)"

definition fs_TTS :: "fs_ctx \<Rightarrow> string \<Rightarrow> tts_settings \<Rightarrow> playback_digits option \<Rightarrow> int \<Rightarrow> fs_call \<Rightarrow> call_run" where
  "fs_TTS cx path t digits timeout c =
     (case (ttsUri cx 0 (Some t) path True c, ttsUri cx 0 (Some t) path False c) of
        (Some (a, _), Some (b, _)) \<Rightarrow>
          play_url cx (''file_string://'' @ join_with ''!'' ([a, b] @ (if timeout > 0 then [''silence_stream://'' @ Itoa timeout] else []))) digits c
      | _ \<Rightarrow> None)"

definition fs_TTSOpus :: "fs_ctx \<Rightarrow> string \<Rightarrow> playback_digits option \<Rightarrow> int \<Rightarrow> fs_call \<Rightarrow> call_run" where
  "fs_TTSOpus cx path digits timeout c =
     (let tmp = ''http_cache://http://$${cdr_url}/sys/tts''; p = path @ ''&format=opus'' in
      play_url cx (if timeout > 0 then ''file_string://'' @ tmp @ p @ ''.opus!silence_stream://'' @ Itoa timeout else tmp @ p @ ''&.opus'') digits c)"

definition fs_Ringback :: "fs_ctx \<Rightarrow> (string \<Rightarrow> string) \<Rightarrow> bool \<Rightarrow> playback_file option \<Rightarrow> playback_file option \<Rightarrow> playback_file option \<Rightarrow> fs_call \<Rightarrow> call_run" where
  "fs_Ringback cx mime export call hold transfer c =
     (let link = (\<lambda>name f. map_option (\<lambda>(s, ok). if ok then [(name, GStr s)] else []) (buildFileLink cx mime f c)) in
      case (link ''ringback'' call, link ''hold_music'' hold, link ''transfer_ringback'' transfer) of
        (Some a, Some b, Some t) \<Rightarrow>
          call_Set (fx_env cx) (fx_ff cx)
            (a @ b @ t @ (if export then [(''bridge_export_vars'', GStr ''hold_music,ringback,transfer_ringback'')] else [])) c
      | _ \<Rightarrow> None)"

definition BackgroundPlayback :: "fs_ctx \<Rightarrow> (string \<Rightarrow> string) \<Rightarrow> playback_file option \<Rightarrow> string \<Rightarrow> int \<Rightarrow> fs_call \<Rightarrow> (outcome2 \<times> fs_call) option" where
  "BackgroundPlayback cx mime file name volumeReduction c =
     (case buildFileLink cx mime file c of
        None \<Rightarrow> None
      | Some (s, ok) \<Rightarrow>
          if \<not> ok then Some ((Some CallResponseError, Some (NewAppError ''FS'' ''fs.control.backgroundPlayback'' [] ''bad file'' 500)), c)
          else (case run_app cx ''wbt_background'' (''start '' @ s @ '' '' @ Itoa volumeReduction @ '' '' @ take 10 name) c of
              None \<Rightarrow> None
            | Some (Inl er, c1) \<Rightarrow> Some ((None, Some er), c1)
            | Some (Inr r, c1) \<Rightarrow> Some ((Some r, None), c1\<lparr>fc_playBackground := fc_playBackground c1 + 1\<rparr>)))"

definition BackgroundPlaybackStop :: "fs_ctx \<Rightarrow> string \<Rightarrow> fs_call \<Rightarrow> call_run" where
  "BackgroundPlaybackStop cx name c =
     call_then (run_app cx ''wbt_background'' (''stop '' @ take 10 name) c)
       (\<lambda>c1. Some (Inr CallResponseOK, c1\<lparr>fc_playBackground := fc_playBackground c1 - 1\<rparr>))"

end
