(* ===== verification/Fs_Media.thy ===== *)
theory Fs_Media
  imports Fs_Control
begin

text \<open>
  The remaining commands of \<open>providers/fs/control.go\<close>: recordings, speech recognition, the answers of the assistant
  service, and the bridge with its dial string.
\<close>

section \<open>Recordings\<close>

definition IsSetResample :: "fs_call \<Rightarrow> bool" where
  "IsSetResample c = (GetVariable ''variable_record_sample_rate'' c \<noteq> [])"

text \<open>The sample rate is set first, and a failure of that is ignored.\<close>

definition with_resample :: "fs_ctx \<Rightarrow> fs_call \<Rightarrow> (fs_call \<Rightarrow> 'r option) \<Rightarrow> 'r option" where
  "with_resample cx c k =
     (if fc_resample c \<noteq> 0 \<and> \<not> IsSetResample c
      then call_anyway (call_Set (fx_env cx) (fx_ff cx) [(''record_sample_rate'', GInt (fc_resample c))] c) k else k c)"

definition recording_url :: "string \<Rightarrow> string \<Rightarrow> fs_call \<Rightarrow> string" where
  "recording_url name format c =
     ''http_cache://http://$${cdr_url}/sys/recordings?domain='' @ Itoa (fc_domainId c) @ ''&id='' @ fc_id c @ ''&name='' @ name @ ''.'' @ format @ ''&.'' @ format"

definition RecordFile :: "fs_ctx \<Rightarrow> string \<Rightarrow> string \<Rightarrow> int \<Rightarrow> int \<Rightarrow> int \<Rightarrow> fs_call \<Rightarrow> call_run" where
  "RecordFile cx name format maxSec silenceThresh silenceHits c =
     with_resample cx c (\<lambda>c1. run_app cx ''record''
       (recording_url name format c1 @ '' '' @ Itoa maxSec @ '' '' @ Itoa silenceThresh @ '' '' @ Itoa silenceHits) c1)"

record record_session_args =
  rs_Name :: string
  rs_Format :: string
  rs_MinSec :: int
  rs_Stereo :: bool
  rs_Bridged :: bool
  rs_FollowTransfer :: bool
  rs_Force :: bool
  rs_PathVar :: string

definition buildRecordSessionPath :: "record_session_args \<Rightarrow> fs_call \<Rightarrow> string" where
  "buildRecordSessionPath a c = recording_url (rs_Name a) (rs_Format a) c"

definition path_error :: "string \<Rightarrow> app_error" where
  "path_error w = NewAppError w ''fs.control.record_session.get_path'' [] ''finding recording path in FS variables'' 404"

text \<open>The path goes through the switch: it is set as a variable and read back from the event that answers.\<close>

definition fs_RecordSession :: "fs_ctx \<Rightarrow> record_session_args \<Rightarrow> fs_call \<Rightarrow> call_run" where
  "fs_RecordSession cx a c =
     (let vars = [(''RECORD_MIN_SEC'', GInt (rs_MinSec a)), (''RECORD_STEREO'', GBool (rs_Stereo a)), (''RECORD_BRIDGE_REQ'', GBool (rs_Bridged a)),
            (''media_bug_answer_req'', GBool (rs_Bridged a)), (''recording_follow_transfer'', GBool (rs_FollowTransfer a)),
            (rs_PathVar a, GStr (buildRecordSessionPath a c))] @
            (if fc_resample c \<noteq> 0 \<and> \<not> IsSetResample c then [(''record_sample_rate'', GInt (fc_resample c))] else [])
      in call_then (setInternal (fx_env cx) (fx_ff cx) vars c)
           (\<lambda>c1. case call_Get (fx_gj cx) (rs_PathVar a) c1 of (path, ok) \<Rightarrow>
              if \<not> ok \<or> TrimSpace path = [] then Some (Inl (path_error ''RecordSession''), c1)
              else run_app cx ''wbt_record_session'' (path @ (if rs_Force a then '' {force=true}'' else [])) c1))"

definition fs_RecordSessionStop :: "fs_ctx \<Rightarrow> string \<Rightarrow> fs_call \<Rightarrow> call_run" where
  "fs_RecordSessionStop cx pathVar c =
     (case call_Get (fx_gj cx) pathVar c of (path, ok) \<Rightarrow>
        if \<not> ok \<or> TrimSpace path = [] then Some (Inl (path_error ''RecordSessionStop''), c)
        else run_app cx ''stop_record_session'' path c)"

section \<open>Speech recognition\<close>

record speech_background =
  sb_Name :: string
  sb_File :: "playback_file option"
  sb_VolumeReduction :: int

record get_speech =
  gs_Background :: "speech_background option"
  gs_SetVar :: string
  gs_Timeout :: int
  gs_VadTimeout :: int
  gs_DisableBreakFinal :: bool
  gs_BreakFinalOnTimeout :: bool
  gs_MinWords :: int
  gs_MaxWords :: int
  gs_BreakStability :: rat
  gs_Version :: string
  gs_Model :: string
  gs_Uri :: string
  gs_Recognizer :: string
  gs_Lang :: string
  gs_Interim :: bool
  gs_SingleUtterance :: bool
  gs_SeparateRecognition :: bool
  gs_MaxAlternatives :: int
  gs_ProfanityFilter :: bool
  gs_WordTime :: bool
  gs_Punctuation :: bool
  gs_Enhanced :: bool
  gs_Hints :: string
  gs_AlternativeLang :: "string list"
  gs_SampleRate :: int
  gs_Question :: string
  gs_ProfileId :: int
  gs_ExtraParams :: "(string \<times> string) list"

definition bool_text :: "bool \<Rightarrow> string" where
  "bool_text b = (if b then ''true'' else ''false'')"

definition google_vars :: "get_speech \<Rightarrow> (string \<times> goval) list" where
  "google_vars g =
     [(''GOOGLE_SPEECH_CLOUD_SERVICES_VERSION'', GStr ''v2''), (''GOOGLE_SPEECH_RECOGNIZER_PARENT'', GStr (gs_Recognizer g)),
      (''GOOGLE_SPEECH_TO_TEXT_URI'', GStr (gs_Uri g)), (''RECOGNIZING_VAD_TIMEOUT'', GStr (Itoa (gs_VadTimeout g))),
      (''GOOGLE_DISABLE_BREAK'', GStr (bool_text (gs_DisableBreakFinal g))), (''GOOGLE_MIN_RESPONSE_WORDS'', GStr (Itoa (gs_MinWords g))),
      (''GOOGLE_MAX_RESPONSE_WORDS'', GStr (Itoa (gs_MaxWords g))), (''GOOGLE_BREAK_ON_TIMEOUT'', GStr (bool_text (gs_BreakFinalOnTimeout g))),
      (''GOOGLE_BREAK_STABILITY'', GFloat (gs_BreakStability g))] @
     (if gs_AlternativeLang g \<noteq> [] then [(''GOOGLE_SPEECH_ALTERNATIVE_LANGUAGE_CODES'', GStr (join_with '','' (gs_AlternativeLang g)))] else [])"

definition api_result :: "string \<Rightarrow> string option \<times> fs_call \<Rightarrow> response result \<times> fs_call" where
  "api_result code r = (case r of (Some er, c) \<Rightarrow> (Inl (NewAppError ''FS'' code [] er 400), c) | (None, c) \<Rightarrow> (Inr CallResponseOK, c))"

definition GoogleTranscribe :: "fs_ctx \<Rightarrow> get_speech \<Rightarrow> fs_call \<Rightarrow> call_run" where
  "GoogleTranscribe cx g c =
     (let lang = (if gs_Lang g \<noteq> [] then gs_Lang g else (let l = fst (call_get ''GOOGLE_SPEECH_LANG'' c) in if l = [] then ''en-US'' else l));
          rate = (if gs_SampleRate g = 0 then 8000 else gs_SampleRate g); b = (\<lambda>x. '' '' @ bool_text x)
      in if gs_Version g = ''v2''
         then call_anyway (call_Set (fx_env cx) (fx_ff cx) (google_vars g) c)
           (\<lambda>c1. Some (api_result ''fs.control.GoogleTranscribe.err'' (call_Api (fx_env cx)
              (''uuid_google_transcribe2 '' @ fc_id c1 @ '' start '' @ lang @ b (gs_Interim g) @ b (gs_SingleUtterance g) @ b (gs_SeparateRecognition g) @
               '' '' @ Itoa (gs_MaxAlternatives g) @ b (gs_ProfanityFilter g) @ b (gs_WordTime g) @ b (gs_Punctuation g) @ '' '' @ Itoa rate @
               '' '' @ gs_Model g @ '' '' @ b (gs_Enhanced g) @ '' '' @ gs_Hints g) c1)))
         else Some (api_result ''fs.control.GoogleTranscribe.err''
           (call_Api (fx_env cx) (''uuid_google_transcribe '' @ fc_id c @ '' start '' @ lang @ '' interim'') c)))"

definition GoogleTranscribeStop :: "fs_ctx \<Rightarrow> fs_call \<Rightarrow> call_run" where
  "GoogleTranscribeStop cx c =
     Some (api_result ''fs.control.GoogleTranscribeStop.err'' (call_Api (fx_env cx) (''uuid_google_transcribe '' @ fc_id c @ '' stop'') c))"

definition StartRecognize :: "fs_ctx \<Rightarrow> string \<Rightarrow> string \<Rightarrow> int \<Rightarrow> int \<Rightarrow> fs_call \<Rightarrow> call_run" where
  "StartRecognize cx conn dialogId rate vadTimeout c =
     Some (api_result ''fs.control.stt.start'' (call_Api (fx_env cx)
       (''uuid_wbt_stt '' @ fc_id c @ '' start '' @ conn @ '' '' @ Itoa rate @ '' '' @ dialogId @ '' '' @ Itoa vadTimeout) c))"

definition StopRecognize :: "fs_ctx \<Rightarrow> fs_call \<Rightarrow> call_run" where
  "StopRecognize cx c = Some (api_result ''fs.control.stt.stop'' (call_Api (fx_env cx) (''uuid_wbt_stt '' @ fc_id c @ '' stop'') c))"

section \<open>The conversation with the assistant\<close>

definition PushSpeechMessage :: "speech_message \<Rightarrow> fs_call \<Rightarrow> fs_call" where
  "PushSpeechMessage m c = c\<lparr>fc_speechMessages := fc_speechMessages c @ [m]\<rparr>"

text \<open>A negative limit panics when there are messages.\<close>

definition SpeechMessages :: "int \<Rightarrow> fs_call \<Rightarrow> speech_message list option" where
  "SpeechMessages limit c =
     (let cnt = length (fc_speechMessages c); l = (if int cnt < limit then int cnt else limit) in
      if cnt = 0 then Some [] else if l < 0 then None else Some (drop (cnt - nat l) (fc_speechMessages c)))"

definition b64_url :: "string \<Rightarrow> string" where
  "b64_url s = map (\<lambda>ch. if ch = CHR ''+'' then CHR ''-'' else if ch = CHR ''/'' then CHR ''_'' else ch) (b64_encode (map of_char s))"

text \<open>The history the assistant gets: question and answer in turn, empty ones left out.\<close>

definition speech_history :: "speech_message list \<Rightarrow> (string \<times> string) list" where
  "speech_history ms = concat (map (\<lambda>m.
     (if sm_Question m \<noteq> [] then [(sm_Question m, ''human'')] else []) @ (if sm_Answer m \<noteq> [] then [(sm_Answer m, ''ai'')] else [])) ms)"

text \<open>\<open>strings.Index\<close>.\<close>

fun index_of :: "string \<Rightarrow> string \<Rightarrow> nat option" where
  "index_of p [] = (if p = [] then Some 0 else None)"
| "index_of p (ch # s) = (if has_prefix (ch # s) p then Some 0 else map_option Suc (index_of p s))"

record ai_service =
  as_marshal :: "(string \<times> string) list \<Rightarrow> string"
  as_get :: "string \<Rightarrow> string + int \<times> string"
  as_unmarshal :: "string \<Rightarrow> string + (string \<times> goval) list"

definition ai_metadata :: "ai_service \<Rightarrow> string \<Rightarrow> app_error + (string \<times> goval) list" where
  "ai_metadata sv url =
     (case as_get sv url of
        Inl er \<Rightarrow> Inl (NewAppError ''FS'' ''fs.control.ai.err'' [] er 500)
      | Inr (status, body) \<Rightarrow>
          if status \<noteq> 200 then Inl (NewAppError ''FS'' ''fs.control.ai.err'' [] body 500)
          else (case as_unmarshal sv body of Inl er \<Rightarrow> Inl (NewAppError ''FS'' ''fs.control.ai.parse'' [] er 500) | Inr vars \<Rightarrow> Inr vars))"

text \<open>The address of the recording server is cut out of the data of the application that recorded.\<close>

definition cdr_address :: "string \<Rightarrow> string" where
  "cdr_address url = (case index_of ''/sys/recordings/ai'' (drop 13 url) of Some i \<Rightarrow> if i > 1 then take i (drop 13 url) else url | None \<Rightarrow> url)"

definition ai_field :: "(rat \<Rightarrow> string) \<Rightarrow> (string \<times> goval) list \<Rightarrow> string \<Rightarrow> string" where
  "ai_field ff vars k = sprint_v ff (case map_of vars k of Some v \<Rightarrow> v | None \<Rightarrow> GNil)"

definition SendFileToAi ::
  "fs_ctx \<Rightarrow> ai_service \<Rightarrow> string \<Rightarrow> (string \<times> string) list \<Rightarrow> string \<Rightarrow> int \<Rightarrow> int \<Rightarrow> int \<Rightarrow> fs_call \<Rightarrow> (outcome2 \<times> fs_call) option" where
  "SendFileToAi cx sv url m format maxSec silenceThresh silenceHits c =
     with_resample cx c (\<lambda>c1.
       case SpeechMessages 20 c1 of
         None \<Rightarrow> None
       | Some ms \<Rightarrow>
           (let s = concat (map (\<lambda>(k, v). ''&'' @ k @ ''='' @ b64_url v) m) @ ''&url='' @ url @ ''&chat_history='' @ b64_url (as_marshal sv (speech_history ms));
                i = fx_newId cx (fc_seq c1) 0;
                rec = ''http_cache://http://$${cdr_url}/sys/recordings/ai/'' @ i @ ''?domain='' @ Itoa (fc_domainId c1) @ s @ ''&id='' @ i @ ''&.'' @ format @
                  '' '' @ Itoa maxSec @ '' '' @ Itoa silenceThresh @ '' '' @ Itoa silenceHits;
                fail = (\<lambda>er c. Some ((Some CallResponseError, Some er), c))
            in case run_app cx ''record'' rec c1 of
                 None \<Rightarrow> None
               | Some (Inl er, c2) \<Rightarrow> Some ((None, Some er), c2)
               | Some (Inr _, c2) \<Rightarrow>
                   (let data = fst (call_Get (fx_gj cx) ''Application-Data'' c2) in
                    if length data < 15 then fail (NewAppError ''FS'' ''fs.control.ai.cdr_url'' [] ''not found Application-Data url'' 500) c2
                    else (case ai_metadata sv (cdr_address data @ ''/sys/recordings/ai/'' @ i @ ''/metadata'') of
                        Inl er \<Rightarrow> fail er c2
                      | Inr vars \<Rightarrow>
                          (case call_Set (fx_env cx) (fx_ff cx) vars c2 of
                             None \<Rightarrow> None
                           | Some (Inl er, c3) \<Rightarrow> Some ((None, Some er), c3)
                           | Some (Inr _, c3) \<Rightarrow>
                               (case run_app cx ''playback'' (''http_cache://http://$${cdr_url}/sys/recordings/ai/'' @ i @ ''?.wav'')
                                  (PushSpeechMessage \<lparr>sm_Question = ai_field (fx_ff cx) vars ''ai_human'', sm_Answer = ai_field (fx_ff cx) vars ''ai_answer''\<rparr> c3) of
                                  None \<Rightarrow> None
                                | Some (Inl er, c4) \<Rightarrow> Some ((None, Some er), c4)
                                | Some (Inr r, c4) \<Rightarrow> Some ((Some r, None), c4)))))))"

section \<open>The bridge\<close>

record call_dest =
  ep_Id :: "int option"
  ep_Name :: "string option"
  ep_TypeName :: string
  ep_Dnd :: "bool option"
  ep_Destination :: "string option"
  ep_Number :: "string option"
  ep_Variables :: "string list"
  ep_HasPush :: "bool option"

definition ToStringVariables :: "call_dest \<Rightarrow> string" where
  "ToStringVariables e =
     ''wbt_to_type='' @ ep_TypeName e @ '','' @
     join_with '','' (ep_Variables e @ (case ep_Id e of Some i \<Rightarrow> [''wbt_to_id='' @ Itoa i] | None \<Rightarrow> []) @
       (case ep_Name e of Some n \<Rightarrow> [''wbt_to_name='' @ quoted n] | None \<Rightarrow> []) @
       (case ep_Number e of Some n \<Rightarrow> [''wbt_to_number='' @ quoted n]
        | None \<Rightarrow> (case ep_Destination e of Some d \<Rightarrow> [''wbt_to_number='' @ quoted d] | None \<Rightarrow> [])))"

definition fixName :: "string \<Rightarrow> string" where
  "fixName n = filter (\<lambda>ch. ch \<noteq> CHR 0x27 \<and> ch \<noteq> CHR 0x22 \<and> ch \<noteq> CHR '','') n"

text \<open>One leg; a gateway is shown as a plain destination.\<close>

definition dial_leg :: "fs_call \<Rightarrow> call_dest \<Rightarrow> string list" where
  "dial_leg c e =
     (if ep_TypeName e = ''gateway'' then
        (case ep_Destination e of
           None \<Rightarrow> [''error/UNALLOCATED_NUMBER'']
         | Some d \<Rightarrow>
             if ep_Dnd e = Some True then [''error/GATEWAY_DOWN'']
             else (let tmp = GetVariable ''variable_sip_to_display'' c;
                       name = (if tmp \<noteq> [] \<and> fc_direction c = ''outbound'' then Some tmp else if ep_Name e = None then ep_Number e else ep_Name e)
                   in [''['' @ ToStringVariables (e\<lparr>ep_Id := None, ep_Name := name, ep_TypeName := ''dest''\<rparr>) @ '']sofia/sip/'' @ d]))
      else if ep_TypeName e = ''user'' then
        (case ep_Destination e of
           None \<Rightarrow> [''error/UNALLOCATED_NUMBER'']
         | Some d \<Rightarrow>
             if ep_Dnd e = Some True then [''error/USER_BUSY'']
             else [''['' @ ToStringVariables e @ '']sofia/sip/'' @ d @ ''@'' @ fc_domainName c])
      else [])"

definition dial_separator :: "string \<Rightarrow> string" where
  "dial_separator strategy =
     (if strategy = ''failover'' then ''|'' else if strategy \<noteq> [] \<and> strategy \<noteq> ''multiple'' then '':_:'' else '','')"

definition dial_vars :: "fs_ctx \<Rightarrow> (string \<times> string) list \<Rightarrow> string list option \<Rightarrow> fs_call \<Rightarrow> string" where
  "dial_vars cx vars codecs c =
     (let from = fc_from c; name = fixName (ce_Name from) in
      ''<sip_route_uri=sip:$${outbound_sip_proxy},sip_copy_custom_headers=false,sip_h_X-Webitel-Domain-Id='' @ Itoa (fc_domainId c) @
      '',sip_h_X-Webitel-Origin=flow,wbt_parent_id='' @ fc_id c @ '',wbt_from_type='' @ ce_Type from @ '',wbt_from_id='' @ ce_Id from @
      '',wbt_destination='' @ quoted (fc_destination c) @ '',wbt_from_number='' @ quoted (ce_Number from) @ '',wbt_from_name='' @ quoted name @
      '',effective_caller_id_name='' @ quoted name @ '',effective_caller_id_number='' @ quoted (ce_Number from) @
      concat (map (\<lambda>(k, v). '','' @ quoted k @ ''='' @ quoted v) vars) @
      (if fc_transferFromId c \<noteq> [] then '',wbt_transfer_from='' @ fc_transferFromId c else []) @
      (case codecs of None \<Rightarrow> [] | Some cs \<Rightarrow> '',absolute_codec_string='' @ quoted (join_with '','' cs)) @
      concat (map (\<lambda>v. case call_Get (fx_gj cx) v c of (x, True) \<Rightarrow> '','' @ quoted (''usr_'' @ v) @ ''='' @ quoted x | _ \<Rightarrow> []) (fc_exportVariables c)) @
      (if fc_meetingId c \<noteq> [] then '',sip_h_X-Webitel-Meeting='' @ quoted (fc_meetingId c) else []) @ ''>'')"

definition dial_string ::
  "fs_ctx \<Rightarrow> string \<Rightarrow> (string \<times> string) list \<Rightarrow> call_dest list \<Rightarrow> string list option \<Rightarrow> string \<Rightarrow> fs_call \<Rightarrow> string" where
  "dial_string cx strategy vars endpoints codecs pickup c =
     dial_vars cx vars codecs c @ (if pickup \<noteq> [] then ''pickup/'' @ PickupHash pickup c @ '':_:'' else []) @
     join_with (dial_separator strategy) (concat (map (dial_leg c) endpoints))"

text \<open>A hook is a fresh channel with its waiting goroutine.\<close>

definition fs_Bridge ::
  "fs_ctx \<Rightarrow> string \<Rightarrow> (string \<times> string) list \<Rightarrow> call_dest list \<Rightarrow> string list option \<Rightarrow> nat option \<Rightarrow> string \<Rightarrow> fs_call \<Rightarrow> call_run" where
  "fs_Bridge cx strategy vars endpoints codecs hook pickup c =
     run_app cx ''bridge'' (dial_string cx strategy vars endpoints codecs pickup c)
       (case hook of None \<Rightarrow> c | Some h \<Rightarrow> setHookBridged h c)"

end
