(* ===== verification/Call_Apps.thy ===== *)
theory Call_Apps
  imports Fs_Media
begin

text \<open>
  The applications of the call router (\<open>routes/call\<close>) that act on the call alone: they decode their arguments,
  check them and run commands.  An application returns a response, an error, or both, with the call after it;
  \<open>None\<close> is a panic or a wait that nothing ends.  Decoders and the services of the flow manager are arguments.
\<close>

type_synonym app_run = "(outcome2 \<times> fs_call) option"

definition as2 :: "call_run \<Rightarrow> app_run" where
  "as2 r = map_option (\<lambda>(x, c). (case x of Inl er \<Rightarrow> (None, Some er) | Inr y \<Rightarrow> (Some y, None), c)) r"

definition refuse :: "app_error \<Rightarrow> fs_call \<Rightarrow> app_run" where
  "refuse er c = Some ((None, Some er), c)"

definition refuse_response :: "app_error \<Rightarrow> fs_call \<Rightarrow> app_run" where
  "refuse_response er c = Some ((Some CallResponseError, Some er), c)"

text \<open>\<open>Decode\<close>, and the application on what was decoded.\<close>

definition with_args :: "(goval \<Rightarrow> 'a result) \<Rightarrow> goval \<Rightarrow> ('a \<Rightarrow> fs_call \<Rightarrow> app_run) \<Rightarrow> fs_call \<Rightarrow> app_run" where
  "with_args decode args k c = (case decode args of Inl er \<Rightarrow> refuse er c | Inr a \<Rightarrow> k a c)"

definition set_call :: "fs_ctx \<Rightarrow> (string \<times> goval) list \<Rightarrow> fs_call \<Rightarrow> call_run" where
  "set_call cx vars = call_Set (fx_env cx) (fx_ff cx) vars"

section \<open>Answer, hang up, wait\<close>

definition call_ringReady :: "fs_ctx \<Rightarrow> fs_call \<Rightarrow> app_run" where
  "call_ringReady cx c = as2 (fs_RingReady cx c)"

definition call_preAnswer :: "fs_ctx \<Rightarrow> fs_call \<Rightarrow> app_run" where
  "call_preAnswer cx c = as2 (fs_PreAnswer cx c)"

definition call_answer :: "fs_ctx \<Rightarrow> fs_call \<Rightarrow> app_run" where
  "call_answer cx c = as2 (fs_Answer cx c)"

definition call_hangup :: "fs_ctx \<Rightarrow> (goval \<Rightarrow> string result) \<Rightarrow> goval \<Rightarrow> fs_call \<Rightarrow> app_run" where
  "call_hangup cx decode args = with_args decode args (\<lambda>cause c. as2 (fs_Hangup cx cause c))"

definition call_sleep :: "fs_ctx \<Rightarrow> (goval \<Rightarrow> int result) \<Rightarrow> goval \<Rightarrow> fs_call \<Rightarrow> app_run" where
  "call_sleep cx decode args = with_args decode args (\<lambda>timeout c. as2 (fs_Sleep cx timeout c))"

definition call_echo :: "fs_ctx \<Rightarrow> (goval \<Rightarrow> int result) \<Rightarrow> goval \<Rightarrow> fs_call \<Rightarrow> app_run" where
  "call_echo cx decode args = with_args decode args (\<lambda>delay c. as2 (fs_Echo cx delay c))"

definition call_say :: "fs_ctx \<Rightarrow> goval \<Rightarrow> fs_call \<Rightarrow> app_run" where
  "call_say cx args c = as2 (fs_Say cx (case as_string args of Some s \<Rightarrow> s | None \<Rightarrow> []) c)"

definition call_dtmfFlush :: "fs_ctx \<Rightarrow> fs_call \<Rightarrow> app_run" where
  "call_dtmfFlush cx c = as2 (fs_FlushDTMF cx c)"

definition call_inBandDTMF :: "fs_ctx \<Rightarrow> (goval \<Rightarrow> string result) \<Rightarrow> goval \<Rightarrow> fs_call \<Rightarrow> app_run" where
  "call_inBandDTMF cx decode args =
     with_args decode args (\<lambda>conf c. as2 (if conf = ''stop'' then fs_StopDTMF cx c else fs_StartDTMF cx c))"

record conference_args =
  cf_Name :: string
  cf_Profile :: string
  cf_Tags :: "string list"
  cf_Pin :: string

definition call_conference :: "fs_ctx \<Rightarrow> (conference_args \<Rightarrow> goval \<Rightarrow> conference_args result) \<Rightarrow> goval \<Rightarrow> fs_call \<Rightarrow> app_run" where
  "call_conference cx decode args =
     with_args (decode \<lparr>cf_Name = ''global'', cf_Profile = ''default'', cf_Tags = [], cf_Pin = []\<rparr>) args
       (\<lambda>a c. as2 (fs_Conference cx (cf_Name a) (cf_Profile a) (cf_Pin a) (cf_Tags a) c))"

definition call_ScheduleHangup :: "fs_ctx \<Rightarrow> (int \<times> string \<Rightarrow> goval \<Rightarrow> (int \<times> string) result) \<Rightarrow> goval \<Rightarrow> fs_call \<Rightarrow> app_run" where
  "call_ScheduleHangup cx decode args = with_args (decode (2, [])) args (\<lambda>(sec, cause) c. as2 (fs_ScheduleHangup cx sec cause c))"

definition call_SipRedirect :: "fs_ctx \<Rightarrow> (goval \<Rightarrow> string list result) \<Rightarrow> goval \<Rightarrow> fs_call \<Rightarrow> app_run" where
  "call_SipRedirect cx decode args = with_args decode args (\<lambda>uri c. as2 (fs_Redirect cx uri c))"

definition call_amdMl :: "fs_ctx \<Rightarrow> (goval \<Rightarrow> string list result) \<Rightarrow> goval \<Rightarrow> fs_call \<Rightarrow> app_run" where
  "call_amdMl cx decode args = with_args decode args (\<lambda>tags c. as2 (fs_AmdML cx tags c))"

definition call_pickup :: "fs_ctx \<Rightarrow> (goval \<Rightarrow> string result) \<Rightarrow> goval \<Rightarrow> fs_call \<Rightarrow> app_run" where
  "call_pickup cx decode args =
     with_args decode args (\<lambda>name c. if name = [] then refuse_response (ErrorRequiredParameter ''pickup'' ''name'') c else as2 (fs_Pickup cx name c))"

record voice_bot =
  vb_Connection :: string
  vb_Rate :: string
  vb_InitialAiMessage :: string

definition call_voiceBot :: "fs_ctx \<Rightarrow> (goval \<Rightarrow> voice_bot result) \<Rightarrow> goval \<Rightarrow> fs_call \<Rightarrow> app_run" where
  "call_voiceBot cx decode args =
     with_args decode args (\<lambda>a c.
       let rate = (if vb_Rate a = ''8kHz'' then 8000 else if vb_Rate a = ''16kHz'' then 16000 else 0) in
       if vb_Connection a = [] then refuse_response (ErrorRequiredParameter ''voiceBot'' ''connection'') c
       else as2 (fs_Bot cx (vb_Connection a) rate (vb_InitialAiMessage a) c))"

section \<open>Variables\<close>

definition args_error :: "(rat \<Rightarrow> string) \<Rightarrow> goval \<Rightarrow> app_error" where
  "args_error ff args = NewAppError ''Call.SetAll'' ''router.call.set_all.valid.args'' [] (''bad arguments '' @ sprint_v ff args) 400"

definition call_setAll :: "fs_ctx \<Rightarrow> goval \<Rightarrow> fs_call \<Rightarrow> app_run" where
  "call_setAll cx args c =
     (case as_map args of Some vars \<Rightarrow> as2 (SetAll (fx_env cx) (fx_ff cx) vars c) | None \<Rightarrow> refuse (args_error (fx_ff cx) args) c)"

definition call_setNoLocal :: "fs_ctx \<Rightarrow> goval \<Rightarrow> fs_call \<Rightarrow> app_run" where
  "call_setNoLocal cx args c =
     (case as_map args of Some vars \<Rightarrow> as2 (SetNoLocal (fx_env cx) (fx_ff cx) vars c) | None \<Rightarrow> refuse (args_error (fx_ff cx) args) c)"

fun unset_each :: "fs_ctx \<Rightarrow> string list \<Rightarrow> fs_call \<Rightarrow> app_run" where
  "unset_each cx [] c = Some (ok2, c)"
| "unset_each cx (v # vs) c =
     (case fs_UnSet cx v c of None \<Rightarrow> None | Some (Inl er, c1) \<Rightarrow> refuse er c1 | Some (Inr _, c1) \<Rightarrow> unset_each cx vs c1)"

definition call_unSet :: "fs_ctx \<Rightarrow> (goval \<Rightarrow> string list result) \<Rightarrow> goval \<Rightarrow> fs_call \<Rightarrow> app_run" where
  "call_unSet cx decode args =
     with_args decode args (\<lambda>vs c. if vs = [] then refuse (ErrorRequiredParameter ''unSet'' ''value'') c else unset_each cx vs c)"

definition call_export :: "fs_ctx \<Rightarrow> (goval \<Rightarrow> string list result) \<Rightarrow> goval \<Rightarrow> fs_call \<Rightarrow> app_run" where
  "call_export cx decode args = with_args decode args (\<lambda>vs c. as2 (fs_Export cx vs c))"

definition MarkIVR :: "fs_ctx \<Rightarrow> (goval \<Rightarrow> (string \<times> string) result) \<Rightarrow> goval \<Rightarrow> fs_call \<Rightarrow> app_run" where
  "MarkIVR cx decode args =
     with_args decode args (\<lambda>(name, value) c.
       if name = [] \<or> value = [] then refuse (ErrorRequiredParameter ''MarkIVR'' ''name or value'') c
       else as2 (call_Push (fx_env cx) (''usr_'' @ filter (\<lambda>ch. ch \<noteq> CHR 0x27) name) value c))"

definition call_getString :: "(rat \<Rightarrow> string) \<Rightarrow> string \<Rightarrow> (string \<times> goval) list \<Rightarrow> string \<Rightarrow> string" where
  "call_getString ff name params def =
     (case map_of params name of
        None \<Rightarrow> def
      | Some v \<Rightarrow> (case v of GMap _ \<Rightarrow> def | GArr _ \<Rightarrow> def | _ \<Rightarrow> sprint_v ff v))"

text \<open>\<open>parse\<close> is the substitution of the connection.\<close>

definition call_park :: "fs_ctx \<Rightarrow> (fs_call \<Rightarrow> string \<Rightarrow> string) \<Rightarrow> goval \<Rightarrow> fs_call \<Rightarrow> app_run" where
  "call_park cx parse args c =
     (case as_map args of
        None \<Rightarrow> Some ((Some CallResponseError, None), c)
      | Some ps \<Rightarrow>
          (let name = call_getString (fx_ff cx) ''name'' ps []; lot = call_getString (fx_ff cx) ''lot'' ps [];
               auto = call_getString (fx_ff cx) ''auto'' ps ''in''; lots = split_on CHR ''-'' lot
           in if name = [] then refuse_response (ErrorRequiredParameter ''park'' ''name'') c
              else if lot = [] then refuse_response (ErrorRequiredParameter ''park'' ''lot'') c
              else as2 (fs_Park cx name (parse c auto = ''in'') (if lots \<noteq> [] then parse c (hd lots) else [])
                     (if length lots > 1 then parse c (lots ! 1) else []) c)))"

section \<open>The caller and the owner of the call\<close>

text \<open>\<open>store\<close> writes the call's row; the result is an error or nothing.\<close>

definition call_UpdateCid ::
  "fs_ctx \<Rightarrow> (string \<Rightarrow> string option \<Rightarrow> string option \<Rightarrow> string option \<Rightarrow> app_error option) \<Rightarrow> (goval \<Rightarrow> (string \<times> string \<times> string) result) \<Rightarrow> goval \<Rightarrow> fs_call \<Rightarrow> app_run" where
  "call_UpdateCid cx store decode args =
     with_args decode args (\<lambda>(name, number, dest) c.
       let opt = (\<lambda>s. if s = [] then None else Some s) in
       if name = [] \<and> number = [] \<and> dest = [] then refuse (ErrorRequiredParameter ''UpdateCid'' ''name and number'') c
       else (case fs_UpdateCid cx (opt name) (opt number) (opt dest) c of
           None \<Rightarrow> None
         | Some ((_, Some er), c1) \<Rightarrow> refuse er c1
         | Some ((_, None), c1) \<Rightarrow>
             (case store (fc_id c1) (opt name) (opt number) (opt dest) of Some er \<Rightarrow> refuse er c1 | None \<Rightarrow> Some (ok2, c1))))"

definition call_update :: "fs_ctx \<Rightarrow> (goval \<Rightarrow> (string \<times> goval) list result) \<Rightarrow> goval \<Rightarrow> fs_call \<Rightarrow> app_run" where
  "call_update cx decode args =
     with_args decode args (\<lambda>vars c.
       if fc_userId c = 0 then refuse_response (NewRequestError ''call.update'' ''this call is not an outbound'') c
       else if vars = [] then as2 (fs_Update cx c)
       else (case set_call cx (map (\<lambda>(k, v). (if has_prefix k ''wbt_'' then k else ''usr_'' @ k, v)) vars) c of
           None \<Rightarrow> None
         | Some (Inl er, c1) \<Rightarrow> refuse er c1
         | Some (Inr _, c1) \<Rightarrow> as2 (fs_Update cx c1)))"

definition call_SetGrantee :: "fs_ctx \<Rightarrow> (int \<Rightarrow> string \<Rightarrow> int \<Rightarrow> app_error option) \<Rightarrow> (goval \<Rightarrow> int result) \<Rightarrow> goval \<Rightarrow> fs_call \<Rightarrow> app_run" where
  "call_SetGrantee cx store decode args =
     with_args decode args (\<lambda>i c.
       if i < 1 then refuse (ErrorRequiredParameter ''SetGrantee'' ''id'') c
       else (case store (fc_domainId c) (fc_id c) i of
           Some er \<Rightarrow> refuse er c
         | None \<Rightarrow> as2 (set_call cx [(''wbt_grantee_id'', GInt i)] c)))"

text \<open>On success neither a response nor an error is returned.\<close>

definition call_SetUser :: "(int \<Rightarrow> string \<Rightarrow> int \<Rightarrow> app_error option) \<Rightarrow> (goval \<Rightarrow> int result) \<Rightarrow> goval \<Rightarrow> fs_call \<Rightarrow> app_run" where
  "call_SetUser store decode args =
     with_args decode args (\<lambda>i c.
       if i = 0 then refuse (ErrorRequiredParameter ''SetUser'' ''id'') c
       else (case store (fc_domainId c) (fc_id c) i of Some er \<Rightarrow> refuse er c | None \<Rightarrow> Some ((None, None), c)))"

section \<open>Recordings\<close>

record record_file_arg =
  rf_Name :: string
  rf_Type :: string
  rf_MaxSec :: int
  rf_SilenceThresh :: int
  rf_SilenceHits :: int
  rf_Terminators :: string
  rf_VoiceMail :: bool

definition normalizeRecordName :: "string \<Rightarrow> string" where
  "normalizeRecordName s = map (\<lambda>ch. if ch = CHR '' '' then CHR ''_'' else ch) s"

definition call_recordFile :: "fs_ctx \<Rightarrow> (record_file_arg \<Rightarrow> goval \<Rightarrow> record_file_arg result) \<Rightarrow> goval \<Rightarrow> fs_call \<Rightarrow> app_run" where
  "call_recordFile cx decode args =
     with_args (decode \<lparr>rf_Name = ''recordFile_${strepoch()}'', rf_Type = ''mp3'', rf_MaxSec = 60, rf_SilenceThresh = 200, rf_SilenceHits = 5,
         rf_Terminators = [], rf_VoiceMail = False\<rparr>) args
       (\<lambda>a c. as2 (call_then (if rf_Terminators a \<noteq> [] then set_call cx [(''playback_terminators'', GStr (rf_Terminators a))] c else Some (Inr CallResponseOK, c))
          (\<lambda>c1. call_anyway (if rf_VoiceMail a then call_Push (fx_env cx) ''wbt_tags'' ''vm'' c1 else Some (Inr CallResponseOK, c1))
             (\<lambda>c2. RecordFile cx (normalizeRecordName (rf_Name a)) (rf_Type a) (rf_MaxSec a) (rf_SilenceThresh a) (rf_SilenceHits a) c2))))"

record record_session_arg =
  ra_Action :: string
  ra_Name :: string
  ra_Type :: string
  ra_Stereo :: bool
  ra_Bridged :: bool
  ra_MinSec :: int
  ra_FollowTransfer :: bool
  ra_Force :: bool
  ra_SetVar :: string

definition recordSessionTemplate :: string where
  "recordSessionTemplate = ''${strepoch()}_${caller_id_number}_${destination_number}''"

definition Normalize :: "record_session_arg \<Rightarrow> record_session_arg" where
  "Normalize a = a\<lparr>ra_Type := (if TrimSpace (ra_Type a) = [] then ''mp3'' else ra_Type a),
     ra_Name := normalizeRecordName (if TrimSpace (ra_Name a) = [] then recordSessionTemplate else ra_Name a)\<rparr>"

definition IsStop :: "record_session_arg \<Rightarrow> bool" where
  "IsStop a = (TrimSpace (ra_Action a) = ''stop'')"

definition PathVar :: "record_session_arg \<Rightarrow> string" where
  "PathVar a = (if TrimSpace (ra_SetVar a) \<noteq> [] then TrimSpace (ra_SetVar a) else ''wbt_record_session_path'')"

definition ToRequest :: "record_session_arg \<Rightarrow> record_session_args" where
  "ToRequest a = \<lparr>rs_Name = ra_Name a, rs_Format = ra_Type a, rs_MinSec = ra_MinSec a, rs_Stereo = ra_Stereo a, rs_Bridged = ra_Bridged a,
     rs_FollowTransfer = ra_FollowTransfer a, rs_Force = ra_Force a, rs_PathVar = PathVar a\<rparr>"

definition call_recordSession :: "fs_ctx \<Rightarrow> (record_session_arg \<Rightarrow> goval \<Rightarrow> record_session_arg result) \<Rightarrow> goval \<Rightarrow> fs_call \<Rightarrow> app_run" where
  "call_recordSession cx decode args =
     with_args (decode \<lparr>ra_Action = [], ra_Name = [], ra_Type = [], ra_Stereo = False, ra_Bridged = False, ra_MinSec = 2,
         ra_FollowTransfer = False, ra_Force = False, ra_SetVar = []\<rparr>) args
       (\<lambda>a0 c. let a = Normalize a0 in
          as2 (if IsStop a then fs_RecordSessionStop cx (PathVar a) c else fs_RecordSession cx (ToRequest a) c))"

definition startRecordAllCalls :: "fs_ctx \<Rightarrow> fs_call \<Rightarrow> call_run" where
  "startRecordAllCalls cx c =
     fs_RecordSession cx \<lparr>rs_Name = recordSessionTemplate, rs_Format = ''mp3'', rs_MinSec = 2, rs_Stereo = True, rs_Bridged = (fc_schemaId c = None),
       rs_FollowTransfer = True, rs_Force = False, rs_PathVar = ''wbt_record_all_calls_path''\<rparr> c"

end
