(* ===== verification/Call_Media.thy ===== *)
theory Call_Media
  imports Call_Apps
begin

text \<open>
  The applications of \<open>routes/call\<close> that play, speak and recognise: \<open>playback\<close>, \<open>tts\<close>, \<open>ringback\<close>, background files, sounds
  and the assistant.
\<close>

record media_store =
  mst_files :: "int \<Rightarrow> playback_file list \<Rightarrow> playback_file list result"
  mst_opt_files :: "int \<Rightarrow> playback_file option list \<Rightarrow> playback_file option list result"
  mst_file :: "int \<Rightarrow> playback_file \<Rightarrow> playback_file option"
  mst_mime :: "string \<Rightarrow> string"

definition silence_file :: "int \<Rightarrow> playback_file" where
  "silence_file n = \<lparr>pl_Type = Some ''silence'', pl_Id = None, pl_Name = Some (Itoa n), pl_Args = None, pl_TTS = None\<rparr>"

section \<open>Recognition around a playback (playback.go)\<close>

text \<open>Without a final result the rest of the time is filled with silence.\<close>

definition doStopStt :: "fs_ctx \<Rightarrow> media_store \<Rightarrow> get_speech \<Rightarrow> string \<Rightarrow> string \<Rightarrow> string \<Rightarrow> fs_call \<Rightarrow> call_run" where
  "doStopStt cx ms gs vSleepTimeout vStatus vFinal c =
     (if gs_Timeout gs > 0 \<and> gs_BreakFinalOnTimeout gs
      then (let wbtError = fst (call_Get (fx_gj cx) ''wbt_stt_error'' c) in
            if wbtError \<noteq> [] then Some (Inl (NewAppError ''Playback.Stt'' ''call.stt.error'' [] wbtError 500), c)
            else call_anyway (set_call cx [(vSleepTimeout, GStr ''true'')] c)
              (\<lambda>c1. if fst (call_Get (fx_gj cx) vStatus c1) \<noteq> vFinal then fs_Playback cx (mst_mime ms) [silence_file (gs_Timeout gs)] c1
                     else Some (Inr CallResponseOK, c1)))
      else Some (Inr CallResponseOK, c))"

definition setSttVar :: "fs_ctx \<Rightarrow> string \<Rightarrow> fs_call \<Rightarrow> call_run" where
  "setSttVar cx varName c = set_call cx [(if varName = [] then ''google_refresh_vars'' else varName, GStr ''${google_transcript}'')] c"

text \<open>The recognition service answers with an error or with the session it opened, if any; without one the code panics.\<close>

definition aiBridgeStt ::
  "fs_ctx \<Rightarrow> media_store \<Rightarrow> (int \<Rightarrow> string \<Rightarrow> get_speech \<Rightarrow> string + (string \<times> string \<times> int) option) \<Rightarrow> get_speech \<Rightarrow> playback_file list \<Rightarrow> fs_call \<Rightarrow> call_run" where
  "aiBridgeStt cx ms stt gs0 files c =
     (let gs = (if gs_SetVar gs0 = [] then gs0\<lparr>gs_SetVar := ''wbt_stt_text''\<rparr> else gs0) in
      case stt (fc_domainId c) (fc_id c) gs of
        Inl er \<Rightarrow> Some (Inl (NewAppError ''stt'' ''stt.ai_bridge'' [] er 500), c)
      | Inr None \<Rightarrow> None
      | Inr (Some (conn, dialogId, rate)) \<Rightarrow>
          call_then (StartRecognize cx conn dialogId rate (gs_VadTimeout gs) c) (\<lambda>c1.
          call_then (fs_Playback cx (mst_mime ms) files c1) (\<lambda>c2.
          let c3 = (if gs_Timeout gs > 0 \<and> gs_BreakFinalOnTimeout gs \<and> gs_DisableBreakFinal gs then c2\<lparr>fc_sent := fc_sent c2 @ [SttUpdate dialogId]\<rparr> else c2) in
          call_then (doStopStt cx ms gs ''wbt_play_sleep_timeout'' ''wbt_stt_final'' ''true'' c3) (\<lambda>c4.
          StopRecognize cx c4))))"

definition googleStt :: "fs_ctx \<Rightarrow> media_store \<Rightarrow> get_speech \<Rightarrow> playback_file list \<Rightarrow> fs_call \<Rightarrow> call_run" where
  "googleStt cx ms gs files c =
     call_then (GoogleTranscribe cx gs c) (\<lambda>c1.
     call_then (fs_Playback cx (mst_mime ms) files c1) (\<lambda>c2.
     call_then (doStopStt cx ms gs ''google_play_sleep_timeout'' ''google_final'' ''true'' c2) (\<lambda>c3.
     call_then (GoogleTranscribeStop cx c3) (\<lambda>c4.
     call_anyway (setSttVar cx (gs_SetVar gs) c4) (\<lambda>c5. Some (Inr CallResponseOK, c5))))))"

text \<open>
  A background file is started before, whatever comes of it, and stopped at every return; its name is random.
\<close>

definition with_background :: "fs_ctx \<Rightarrow> media_store \<Rightarrow> speech_background option \<Rightarrow> fs_call \<Rightarrow> (fs_call \<Rightarrow> app_run) \<Rightarrow> app_run" where
  "with_background cx ms bg c body =
     (case bg of
        None \<Rightarrow> body c
      | Some b \<Rightarrow>
          (case sb_File b of
             None \<Rightarrow> body c
           | Some f \<Rightarrow>
               (let name = take 6 (fx_newId cx (fc_seq c) 0) in
                case BackgroundPlayback cx (mst_mime ms) (mst_file ms (fc_domainId c) f) name (sb_VolumeReduction b) c of
                  None \<Rightarrow> None
                | Some (_, c1) \<Rightarrow>
                    (case body c1 of
                       None \<Rightarrow> None
                     | Some (r, c2) \<Rightarrow> map_option (\<lambda>(_, c3). (r, c3)) (BackgroundPlaybackStop cx name c2)))))"

record playback_args =
  pa_Files :: "playback_file list option"
  pa_GetDigits :: "playback_digits option"
  pa_GetSpeech :: "get_speech option"

definition call_Playback ::
  "fs_ctx \<Rightarrow> media_store \<Rightarrow> (int \<Rightarrow> string \<Rightarrow> get_speech \<Rightarrow> string + (string \<times> string \<times> int) option) \<Rightarrow> (goval \<Rightarrow> playback_args result) \<Rightarrow> goval \<Rightarrow> fs_call \<Rightarrow> app_run" where
  "call_Playback cx ms stt decode args =
     with_args decode args (\<lambda>a c.
       case pa_Files a of
         None \<Rightarrow> refuse (ErrorRequiredParameter ''playback'' ''files'') c
       | Some files0 \<Rightarrow>
           (case mst_files ms (fc_domainId c) files0 of
              Inl er \<Rightarrow> refuse er c
            | Inr files \<Rightarrow>
                (case pa_GetSpeech a of
                   Some gs \<Rightarrow>
                     with_background cx ms (gs_Background gs) c (\<lambda>c1.
                       let fs = files @ (if gs_Timeout gs > 0 \<and> \<not> gs_BreakFinalOnTimeout gs then [silence_file (gs_Timeout gs)] else []) in
                       as2 (call_then (if gs_Version gs = ''v3'' then aiBridgeStt cx ms stt gs fs c1 else googleStt cx ms gs fs c1)
                              (\<lambda>c2. Some (Inr CallResponseOK, c2))))
                 | None \<Rightarrow>
                     (case pa_GetDigits a of
                        Some d \<Rightarrow> as2 (PlaybackAndGetDigits cx (mst_mime ms) files d c)
                      | None \<Rightarrow> as2 (fs_Playback cx (mst_mime ms) files c)))))"

section \<open>Speech (tts.go)\<close>

record tts_app_args =
  tt_Settings :: tts_settings
  tt_Key :: string
  tt_Token :: string
  tt_Provider :: string
  tt_Region :: string
  tt_GetDigits :: "playback_digits option"
  tt_GetSpeech :: "get_speech option"

definition tts_query :: "tts_app_args \<Rightarrow> string" where
  "tts_query a =
     (if tt_Provider a \<in> {''polly'', ''microsoft'', ''yandex'', ''webitel'', ''google''} then ''/'' @ tt_Provider a @ ''?'' else ''/?'') @
     (if tt_Key a \<noteq> [] then ''&key='' @ UrlEncoded (tt_Key a) else []) @ (if tt_Token a \<noteq> [] then ''&token='' @ UrlEncoded (tt_Token a) else []) @
     (if tt_Region a \<noteq> [] then ''&region='' @ tt_Region a else []) @ ''&''"

text \<open>The recognition around the speech; its error carries a response when the recogniser failed.\<close>

definition tts_speech :: "fs_ctx \<Rightarrow> media_store \<Rightarrow> tts_app_args \<Rightarrow> get_speech \<Rightarrow> fs_call \<Rightarrow> app_run" where
  "tts_speech cx ms a gs c =
     (let q = tts_query a; timeout = (if gs_Timeout gs > 0 \<and> \<not> gs_BreakFinalOnTimeout gs then gs_Timeout gs else 0);
          finish = (\<lambda>c. as2 (call_then (GoogleTranscribeStop cx c) (\<lambda>c1.
            call_anyway (setSttVar cx (gs_SetVar gs) c1) (\<lambda>c2.
              Some (Inr CallResponseOK, if gs_Question gs \<noteq> []
                then PushSpeechMessage \<lparr>sm_Question = gs_Question gs, sm_Answer = GetVariable ''variable_google_transcript'' c2\<rparr> c2 else c2)))))
      in case call_then (GoogleTranscribe cx gs c) (\<lambda>c1. fs_TTS cx q (tt_Settings a) (tt_GetDigits a) timeout c1) of
           None \<Rightarrow> None
         | Some (Inl er, c2) \<Rightarrow> refuse er c2
         | Some (Inr _, c2) \<Rightarrow>
             if gs_Timeout gs > 0 \<and> gs_BreakFinalOnTimeout gs
             then (let wbtError = fst (call_Get (fx_gj cx) ''wbt_stt_error'' c2) in
                   if wbtError \<noteq> [] then refuse_response (NewAppError ''Playback.Stt'' ''call.stt.error'' [] wbtError 500) c2
                   else call_anyway (set_call cx [(''google_play_sleep_timeout'', GStr ''true'')] c2) (\<lambda>c3.
                     if fst (call_Get (fx_gj cx) ''google_final'' c3) \<noteq> ''true''
                     then (case fs_Playback cx (mst_mime ms) [silence_file (gs_Timeout gs)] c3 of
                         None \<Rightarrow> None | Some (Inl er, c4) \<Rightarrow> refuse er c4 | Some (Inr _, c4) \<Rightarrow> finish c4)
                     else finish c3))
             else finish c2)"

definition call_TTS ::
  "fs_ctx \<Rightarrow> media_store \<Rightarrow> (goval \<Rightarrow> tts_app_args result) \<Rightarrow> (tts_settings \<Rightarrow> goval \<Rightarrow> tts_settings result) \<Rightarrow> goval \<Rightarrow> fs_call \<Rightarrow> app_run" where
  "call_TTS cx ms decode decodeSettings args =
     with_args decode args (\<lambda>a0.
     with_args (decodeSettings (tt_Settings a0)) args (\<lambda>t c.
       let a = a0\<lparr>tt_Settings := t\<rparr> in
       if ts_Text t = [] then refuse_response (ErrorRequiredParameter ''tts'' ''text'') c
       else (case tt_GetSpeech a of
           Some gs \<Rightarrow> with_background cx ms (gs_Background gs) c (tts_speech cx ms a gs)
         | None \<Rightarrow>
             if tt_Provider a = ''yandex'' then as2 (fs_TTSOpus cx (tts_query a) (tt_GetDigits a) 0 c)
             else as2 (fs_TTS cx (tts_query a) t (tt_GetDigits a) 0 c))))"

section \<open>Ringback, background, sounds\<close>

record ring_back_args =
  rb_All :: bool
  rb_Call :: "playback_file option"
  rb_Hold :: "playback_file option"
  rb_Transfer :: "playback_file option"

text \<open>The result of the store is read at three places; a shorter one panics.\<close>

definition call_RingBack :: "fs_ctx \<Rightarrow> media_store \<Rightarrow> (goval \<Rightarrow> ring_back_args result) \<Rightarrow> goval \<Rightarrow> fs_call \<Rightarrow> app_run" where
  "call_RingBack cx ms decode args =
     with_args decode args (\<lambda>a c.
       case mst_opt_files ms (fc_domainId c) [rb_Call a, rb_Hold a, rb_Transfer a] of
         Inl er \<Rightarrow> refuse er c
       | Inr (x # y # z # _) \<Rightarrow> as2 (fs_Ringback cx (mst_mime ms) (rb_All a) x y z c)
       | Inr _ \<Rightarrow> None)"

definition call_backgroundPlayback ::
  "fs_ctx \<Rightarrow> media_store \<Rightarrow> (goval \<Rightarrow> (string \<times> playback_file option \<times> int) result) \<Rightarrow> goval \<Rightarrow> fs_call \<Rightarrow> app_run" where
  "call_backgroundPlayback cx ms decode args =
     with_args decode args (\<lambda>(name, file, volume) c.
       case mst_opt_files ms (fc_domainId c) [file] of
         Inl er \<Rightarrow> refuse er c
       | Inr (f # _) \<Rightarrow> BackgroundPlayback cx (mst_mime ms) f name volume c
       | Inr [] \<Rightarrow> None)"

definition call_backgroundPlaybackStop :: "fs_ctx \<Rightarrow> (goval \<Rightarrow> string result) \<Rightarrow> goval \<Rightarrow> fs_call \<Rightarrow> app_run" where
  "call_backgroundPlaybackStop cx decode args = with_args decode args (\<lambda>name c. as2 (BackgroundPlaybackStop cx name c))"

definition call_SetSounds :: "fs_ctx \<Rightarrow> (goval \<Rightarrow> (string \<times> string) result) \<Rightarrow> goval \<Rightarrow> fs_call \<Rightarrow> app_run" where
  "call_SetSounds cx decode args =
     with_args decode args (\<lambda>(voice, lang) c.
       if lang = [] then refuse (ErrorRequiredParameter ''setSounds'' ''lang'') c
       else if voice = [] then refuse (ErrorRequiredParameter ''setSounds'' ''voice'') c
       else as2 (fs_SetSounds cx lang voice c))"

section \<open>The assistant (speech.go)\<close>

record speech_ai_args =
  sa_HistoryLength :: int
  sa_Response :: string
  sa_DefinedCategories :: string

text \<open>
  The service gets the last messages, question and answer in turn with their users, and answers with a text and the
  JSON of the categories.
\<close>

definition call_speechAi ::
  "fs_ctx \<Rightarrow> (int \<Rightarrow> speech_ai_args \<Rightarrow> (string \<times> string) list \<Rightarrow> string + string \<times> string) \<Rightarrow> (goval \<Rightarrow> speech_ai_args result) \<Rightarrow> goval \<Rightarrow> fs_call \<Rightarrow> app_run" where
  "call_speechAi cx answer decode args =
     with_args decode args (\<lambda>a0 c.
       let a = (if sa_HistoryLength a0 = 0 then a0\<lparr>sa_HistoryLength := 10\<rparr> else a0) in
       case SpeechMessages (sa_HistoryLength a) c of
         None \<Rightarrow> None
       | Some ms \<Rightarrow>
           (case answer (fc_domainId c) a (concat (map (\<lambda>m. [(sm_Question m, []), (sm_Answer m, ''client'')]) ms)) of
              Inl er \<Rightarrow> refuse_response (NewAppError ''speechAi'' ''call.speech_ai.result'' [] er 500) c
            | Inr (text, categories) \<Rightarrow>
                as2 (set_call cx
                  ((if sa_DefinedCategories a \<noteq> [] then AList.update (sa_DefinedCategories a) (GStr categories) else id)
                   (if sa_Response a \<noteq> [] then [(sa_Response a, GStr text)] else [])) c)))"

record speech_ai_v2 =
  sv_File :: record_file_arg
  sv_Connection :: string
  sv_Context :: string
  sv_Addresses :: string

text \<open>The context and the addresses are kept as the JSON texts they are sent as.\<close>

definition call_speechAiV2 :: "fs_ctx \<Rightarrow> ai_service \<Rightarrow> (goval \<Rightarrow> speech_ai_v2 result) \<Rightarrow> goval \<Rightarrow> fs_call \<Rightarrow> app_run" where
  "call_speechAiV2 cx sv decode args =
     with_args decode args (\<lambda>a c.
       case SendFileToAi cx sv (sv_Connection a) [(''context'', sv_Context a), (''addresses'', sv_Addresses a)] (rf_Type (sv_File a))
              (rf_MaxSec (sv_File a)) (rf_SilenceThresh (sv_File a)) (rf_SilenceHits (sv_File a)) c of
         None \<Rightarrow> None
       | Some ((_, Some er), c1) \<Rightarrow> call_anyway (set_call cx [(''ai_error'', GStr (AppError_Error er))] c1) (refuse er)
       | Some ((_, None), c1) \<Rightarrow> Some (ok2, c1))"

end
