(* ===== verification/Call_Queue.thy ===== *)
theory Call_Queue
  imports Call_Media Chat_Apps
begin

text \<open>
  The applications of the call router that involve other parties (\<open>routes/call/bridge.go\<close>, \<open>queue.go\<close>,
  \<open>agent.go\<close>, \<open>queue_outbound.go\<close>, \<open>contacts.go\<close>): the endpoints of a bridge, the stream of a queue with the branches
  run beside it, and the link to a contact.  The stores and the queue service are arguments.
\<close>

section \<open>Bridge (bridge.go)\<close>

text \<open>\<open>fmt.Sprintf("%s", v)\<close> of a value decoded from JSON: what is not a string is printed as an error.\<close>

fun sprint_s :: "(rat \<Rightarrow> string) \<Rightarrow> goval \<Rightarrow> string" where
  "sprint_s ff GNil = ''%!s(<nil>)''"
| "sprint_s ff (GBool b) = ''%!s(bool='' @ bool_text b @ '')''"
| "sprint_s ff (GInt i) = ''%!s(int='' @ Itoa i @ '')''"
| "sprint_s ff (GFloat q) = ''%!s(float64='' @ ff q @ '')''"
| "sprint_s ff (GStr s) = s"
| "sprint_s ff (GArr xs) = ''['' @ join_with '' '' (map (sprint_s ff) xs) @ '']''"
| "sprint_s ff (GMap m) = ''map['' @ join_with '' '' (map (\<lambda>(k, s). k @ '':'' @ s)
     (sort_key fst (map (\<lambda>(k, v). (k, sprint_s ff v)) m))) @ '']''"
| "sprint_s ff (GObj m) = ''map['' @ join_with '' '' (map (\<lambda>(k, s). k @ '':'' @ s)
     (sort_key fst (map (\<lambda>(k, v). (k, sprint_s ff v)) m))) @ '']''"

definition getVars :: "(rat \<Rightarrow> string) \<Rightarrow> app_object \<Rightarrow> string list \<Rightarrow> string list" where
  "getVars ff src res =
     (case map_of src ''parameters'' of
        Some (GMap m) \<Rightarrow> res @ map (\<lambda>(k, v). quoted k @ ''='' @ quoted (sprint_s ff v)) m
      | _ \<Rightarrow> res)"

text \<open>Without a string among the elements the slice stays nil.\<close>

definition getArrayStringFromMap :: "string \<Rightarrow> (string \<times> goval) list \<Rightarrow> string list option \<times> bool" where
  "getArrayStringFromMap name params =
     (case map_of params name of
        Some (GArr xs) \<Rightarrow> (let res = List.map_filter as_string xs in (if res = [] then None else Some res, True))
      | _ \<Rightarrow> (None, False))"

definition bridge_endpoints_error :: "string \<Rightarrow> app_error" where
  "bridge_endpoints_error d = NewAppError ''Bridge'' ''call.bridge.valid.endpoints'' [] d 400"

text \<open>The endpoints are substituted in their JSON text, which is decoded again.\<close>

definition replaceBridgeRequest ::
  "(goval \<Rightarrow> string option) \<Rightarrow> (string \<Rightarrow> app_object list option) \<Rightarrow> (string \<Rightarrow> string) \<Rightarrow> goval \<Rightarrow> app_object list result" where
  "replaceBridgeRequest marshal unmarshal parse arr =
     (case marshal arr of
        None \<Rightarrow> Inl (bridge_endpoints_error ''bad arguments'')
      | Some data \<Rightarrow> (case unmarshal (parse data) of None \<Rightarrow> Inl (bridge_endpoints_error ''bad arguments'') | Some res \<Rightarrow> Inr res))"

definition remote_gateway :: "(rat \<Rightarrow> string) \<Rightarrow> app_object \<Rightarrow> call_dest \<Rightarrow> call_dest" where
  "remote_gateway ff src e =
     (let e1 = (case ep_Destination e of
            None \<Rightarrow> e
          | Some d \<Rightarrow>
              (let number = call_getString ff ''dialString'' src [] in
               e\<lparr>ep_Number := Some number, ep_Name := Some (call_getString ff ''displayName'' src number), ep_Destination := Some (number @ ''@'' @ d)\<rparr>))
      in e1\<lparr>ep_Variables := getVars ff src (ep_Variables e1)\<rparr>)"

definition remote_user :: "(rat \<Rightarrow> string) \<Rightarrow> fs_call \<Rightarrow> app_object \<Rightarrow> call_dest \<Rightarrow> call_dest" where
  "remote_user ff c src e =
     (let contact = GetVariable ''variable_wbt_contact_id'' c; hide = GetVariable ''variable_wbt_hide_contact'' c in
      e\<lparr>ep_Variables := getVars ff src (ep_Variables e)
          @ (if ep_HasPush e = Some True then [''execute_on_originate=wbt_send_hook''] else [])
          @ (if contact \<noteq> [] \<and> \<not> (fc_userId c > 0 \<and> fc_direction c = ''outbound'') then [''wbt_contact_id='' @ contact] else [])
          @ (if hide \<noteq> [] then [''wbt_hide_contact='' @ hide] else [])\<rparr>)"

text \<open>
  The loop over the rows of the store.  It stops at rows beyond the requested endpoints, but compares with \<open>>\<close>: the
  first of them still reads the endpoint that is not there, which panics when its type is known.
\<close>

fun remote_endpoints :: "(rat \<Rightarrow> string) \<Rightarrow> fs_call \<Rightarrow> app_object list \<Rightarrow> nat \<Rightarrow> call_dest list \<Rightarrow> call_dest list option" where
  "remote_endpoints ff c eps key [] = Some []"
| "remote_endpoints ff c eps key (e # es) =
     (if key > length eps then Some (e # es)
      else if ep_TypeName e = ''gateway'' \<or> ep_TypeName e = ''user'' then
        (if key = length eps then None
         else map_option (\<lambda>es'. (if ep_TypeName e = ''gateway'' then remote_gateway ff (eps ! key) e else remote_user ff c (eps ! key) e) # es')
                (remote_endpoints ff c eps (Suc key) es))
      else map_option (\<lambda>es'. e # es') (remote_endpoints ff c eps (Suc key) es))"

definition getRemoteEndpoints ::
  "(int \<Rightarrow> app_object list \<Rightarrow> call_dest list result) \<Rightarrow> (rat \<Rightarrow> string) \<Rightarrow> fs_call \<Rightarrow> app_object list \<Rightarrow> call_dest list result option" where
  "getRemoteEndpoints store ff c eps =
     (case store (fc_domainId c) eps of
        Inl er \<Rightarrow> Some (Inl er)
      | Inr rows \<Rightarrow> map_option Inr (remote_endpoints ff c eps 0 rows))"

text \<open>A map keeps one value for a key: the first place it was given.\<close>

definition bridge_vars :: "(rat \<Rightarrow> string) \<Rightarrow> int \<Rightarrow> (string \<times> goval) list \<Rightarrow> (string \<times> string) list" where
  "bridge_vars ff schemaId props =
     fold (\<lambda>(k, v) m. AList.update k v m)
       ((''wbt_schema_ids'', Itoa schemaId) #
        (case map_of props ''sendOnAnswer'' of
           Some (GStr s) \<Rightarrow> [(''execute_on_answer'', ''send_dtmf '' @ filter (\<lambda>ch. ch \<noteq> CHR 0x27) s)] | _ \<Rightarrow> []) @
        (case map_of props ''parameters'' of Some (GMap m) \<Rightarrow> map (\<lambda>(k, v). (k, sprint_v ff v)) m | _ \<Rightarrow> [])) []"

text \<open>After the bridge the schema is left when the call was transferred, eof, or redirected.\<close>

definition bridge_cancels :: "string \<Rightarrow> fs_call \<Rightarrow> bool" where
  "bridge_cancels t c =
     (let v = (\<lambda>n. GetVariable n c); after = v ''variable_hangup_after_bridge'' in
      (t \<noteq> v ''variable_transfer_history'' \<and> (after = [] \<or> after = ''true'')) \<or>
      ((v ''variable_bridge_hangup_cause'' = ''NORMAL_CLEARING'' \<or> v ''variable_last_bridge_hangup_cause'' = ''NORMAL_CLEARING'') \<and> after = ''true'') \<or>
      (v ''variable_last_bridge_hangup_cause'' = ''ORIGINATOR_CANCEL'' \<and> v ''variable_originate_disposition'' = ''ORIGINATOR_CANCEL'' \<and>
       v ''variable_sip_redirect_dialstring'' \<noteq> [] \<and> v ''variable_webitel_detect_redirect'' \<noteq> ''false''))"

record bridge_services =
  brs_marshal :: "goval \<Rightarrow> string option"
  brs_unmarshal :: "string \<Rightarrow> app_object list option"
  brs_endpoints :: "int \<Rightarrow> app_object list \<Rightarrow> call_dest list result"
  brs_parse :: "fs_call \<Rightarrow> string \<Rightarrow> string"

text \<open>
  \<open>h\<close> is the channel of the hook, a new one.  The result has the branch that the hook started, if it was told
  before the bridge returned.
\<close>

definition bridge_run ::
  "fs_ctx \<Rightarrow> bridge_services \<Rightarrow> nat \<Rightarrow> flow \<Rightarrow> (string \<times> goval) list \<Rightarrow> call_dest list \<Rightarrow> fs_call \<Rightarrow> (outcome2 \<times> flow \<times> flow list \<times> fs_call) option" where
  "bridge_run cx bs h scope props e c =
     (let t = GetVariable ''variable_transfer_history'' c;
          hook = Option.bind (map_of props ''bridged'') as_arr;
          c1 = (case hook of None \<Rightarrow> c | Some _ \<Rightarrow> c\<lparr>fc_hooks := (fc_hooks c)(h \<mapsto> HookWaiting)\<rparr>);
          pickup = call_getString (fx_ff cx) ''pickup'' props []
      in case fs_Bridge cx (call_getString (fx_ff cx) ''strategy'' props []) (bridge_vars (fx_ff cx) (fl_schemaId scope) props) e
                (fst (getArrayStringFromMap ''codecs'' props)) (case hook of None \<Rightarrow> None | Some _ \<Rightarrow> Some h)
                (if pickup \<noteq> [] then brs_parse bs c pickup else []) c1 of
           None \<Rightarrow> None
         | Some (Inl er, c2) \<Rightarrow> Some ((None, Some er), scope, [], c2)
         | Some (Inr _, c2) \<Rightarrow>
             (let branches = (case hook of Some acts \<Rightarrow> if fc_hooks c2 h = Some HookFired then [Fork ''hook-bridged'' (ArrInterfaceToArrayApplication acts) scope] else []
                              | None \<Rightarrow> [])
              in Some (ok2, if bridge_cancels t c2 then SetCancel scope else scope, branches, c2)))"

definition call_bridge ::
  "fs_ctx \<Rightarrow> bridge_services \<Rightarrow> nat \<Rightarrow> flow \<Rightarrow> goval \<Rightarrow> fs_call \<Rightarrow> (outcome2 \<times> flow \<times> flow list \<times> fs_call) option" where
  "call_bridge cx bs h scope args c =
     (let bad = (\<lambda>er. Some ((Some CallResponseError, Some er), scope, [], c)) in
      case as_map args of
        None \<Rightarrow> bad (NewAppError ''Bridge'' ''call.bridge.valid.args'' [] ''bad arguments'' 400)
      | Some props \<Rightarrow>
          (case map_of props ''endpoints'' of
             None \<Rightarrow> bad (bridge_endpoints_error ''bad arguments'')
           | Some arr \<Rightarrow>
               (case replaceBridgeRequest (brs_marshal bs) (brs_unmarshal bs) (brs_parse bs c) arr of
                  Inl er \<Rightarrow> bad (bridge_endpoints_error (AppError_Error er))
                | Inr [] \<Rightarrow> bad (bridge_endpoints_error ''bad arguments'')
                | Inr eps \<Rightarrow>
                    (case getRemoteEndpoints (brs_endpoints bs) (fx_ff cx) c eps of
                       None \<Rightarrow> None
                     | Some (Inl er) \<Rightarrow> bad er
                     | Some (Inr e) \<Rightarrow> bridge_run cx bs h scope props e c))))"

section \<open>Queues (queue.go)\<close>

definition go_int32 :: "int \<Rightarrow> int" where
  "go_int32 i = (i + 2 ^ 31) mod 2 ^ 32 - 2 ^ 31"

datatype call_queue_msg =
    CQJoined int | CQOffering string string int | CQBridged int | CQLeaving string | CQOther | CQEof | CQError

record call_join_arg =
  qa_Priority :: int
  qa_QueueId :: int
  qa_QueueName :: string
  qa_BucketId :: int
  qa_Bucket :: int
  qa_Agent :: "(int option \<times> string option) option"
  qa_StickyAgentId :: int
  qa_RingtoneId :: "int option"
  qa_RingtoneName :: "string option"
  qa_Waiting :: "goval list"
  qa_Reporting :: "goval list"
  qa_Offering :: "goval list"
  qa_Bridged :: "goval list"
  qa_Timers :: "timer_args list"
  qa_TransferAfterBridge :: "int option option"

record call_join_request =
  jq_MemberCallId :: string
  jq_QueueId :: int
  jq_QueueName :: string
  jq_WaitingMusic :: "(int \<times> string) option"
  jq_Priority :: int
  jq_BucketId :: int
  jq_Variables :: "string \<rightharpoonup> string"
  jq_DomainId :: int
  jq_StickyAgentId :: int
  jq_IsTransfer :: bool

definition call_cancelQueue :: "fs_ctx \<Rightarrow> fs_call \<Rightarrow> app_run" where
  "call_cancelQueue cx c = (case CancelQueue c of (b, c1) \<Rightarrow> as2 (set_call cx [(''cc_cancel'', GStr (bool_text b))] c1))"

text \<open>The music of the wait; a file with a type and without an identifier panics.\<close>

definition call_ringtone :: "media_store \<Rightarrow> int \<Rightarrow> int option \<Rightarrow> string option \<Rightarrow> (int \<times> string) option result option" where
  "call_ringtone ms domainId i name =
     (if i = None \<and> name = None then Some (Inr None)
      else (case mst_opt_files ms domainId [Some \<lparr>pl_Type = None, pl_Id = i, pl_Name = name, pl_Args = None, pl_TTS = None\<rparr>] of
          Inl er \<Rightarrow> Some (Inl er)
        | Inr (Some f # _) \<Rightarrow>
            (case pl_Type f of
               None \<Rightarrow> Some (Inr None)
             | Some t \<Rightarrow> map_option (\<lambda>j. Inr (Some (go_int32 j, t))) (pl_Id f))
        | Inr _ \<Rightarrow> Some (Inr None)))"

record call_queue_services =
  kqs_GetAgentIdByExtension :: "int \<Rightarrow> string \<Rightarrow> int option"
  kqs_Join :: "call_join_request \<Rightarrow> string option"

definition call_sticky_agent :: "call_queue_services \<Rightarrow> int \<Rightarrow> call_join_arg \<Rightarrow> int" where
  "call_sticky_agent qs domainId q =
     (case qa_Agent q of
        None \<Rightarrow> qa_StickyAgentId q
      | Some (i, ex) \<Rightarrow>
          (case (case (i, ex) of (None, Some x) \<Rightarrow> kqs_GetAgentIdByExtension qs domainId x | _ \<Rightarrow> i) of Some j \<Rightarrow> j | None \<Rightarrow> 0))"

definition queue_variables :: "fs_ctx \<Rightarrow> fs_call \<Rightarrow> string \<rightharpoonup> string" where
  "queue_variables cx c =
     (let vars = call_DumpExportVariables (fx_gj cx) c; cid = GetContactId (fx_gj cx) c;
          vars1 = (if cid \<noteq> 0 then vars(''wbt_contact_id'' \<mapsto> Itoa cid) else vars)
      in if fc_meetingId c \<noteq> [] then vars1(''sip_h_X-Webitel-Meeting'' \<mapsto> fc_meetingId c) else vars1)"

definition call_join_request_of :: "fs_ctx \<Rightarrow> call_queue_services \<Rightarrow> call_join_arg \<Rightarrow> (int \<times> string) option \<Rightarrow> fs_call \<Rightarrow> call_join_request" where
  "call_join_request_of cx qs q music c =
     \<lparr>jq_MemberCallId = fc_id c, jq_QueueId = go_int32 (qa_QueueId q), jq_QueueName = qa_QueueName q, jq_WaitingMusic = music,
      jq_Priority = qa_Priority q, jq_BucketId = (if qa_BucketId q > 0 \<and> qa_Bucket q = 0 then qa_BucketId q else qa_Bucket q),
      jq_Variables = queue_variables cx c, jq_DomainId = fc_domainId c, jq_StickyAgentId = call_sticky_agent qs (fc_domainId c) q,
      jq_IsTransfer = (fc_transferQueue c > 0 \<and> \<not> fc_isBlindTransferQueue c)\<rparr>"

text \<open>A branch of the queue that the application runs to its end.\<close>

definition queue_branch ::
  "fs_call env \<Rightarrow> (flow \<Rightarrow> reqptr \<Rightarrow> fs_call \<Rightarrow> fs_call outcome) \<Rightarrow> string \<Rightarrow> goval list \<Rightarrow> flow \<Rightarrow> fs_call \<Rightarrow> (flow \<times> fs_call) option" where
  "queue_branch e rq name acts scope c =
     (if acts = [] then Some (scope, c)
      else map_option (\<lambda>(child, c1). (share_with child scope, c1)) (Route e rq (Fork name (ArrInterfaceToArrayApplication acts) scope) c))"

text \<open>
  The loop over the stream; before each message others act on the call.  \<open>live\<close> tells whether the context of the
  waiting branch and the timers still has to be cancelled.  The \<open>break\<close> after a leaving message leaves only the \<open>switch\<close>.
\<close>

fun call_queue_loop ::
  "fs_ctx \<Rightarrow> fs_call env \<Rightarrow> (flow \<Rightarrow> reqptr \<Rightarrow> fs_call \<Rightarrow> fs_call outcome) \<Rightarrow> call_join_arg \<Rightarrow>
   ((fs_call \<Rightarrow> fs_call) \<times> call_queue_msg) list \<Rightarrow> bool \<Rightarrow> flow \<Rightarrow> chat_queue_action list \<Rightarrow> fs_call \<Rightarrow>
   (bool \<times> bool \<times> flow \<times> chat_queue_action list \<times> fs_call) option" where
  "call_queue_loop cx e rq q [] live scope acts c = None"
| "call_queue_loop cx e rq q ((rely, m) # ms) live scope acts c0 =
     (let c = rely c0 in
      case m of
        CQEof \<Rightarrow> Some (True, live, scope, acts, c)
      | CQError \<Rightarrow> Some (False, live, scope, acts, c)
      | CQOffering nm callId i \<Rightarrow>
          (if qa_Offering q = [] then call_queue_loop cx e rq q ms live scope acts c
           else (case set_call cx [(''cc_agent_name'', GStr nm), (''cc_agent_call_id'', GStr callId), (''cc_agent_id'', GStr (Itoa i))] c of
               None \<Rightarrow> None
             | Some (_, c1) \<Rightarrow>
                 (case queue_branch e rq ''queue-offering'' (qa_Offering q) scope c1 of
                    None \<Rightarrow> None | Some (scope1, c2) \<Rightarrow> call_queue_loop cx e rq q ms live scope1 acts c2)))
      | CQBridged _ \<Rightarrow>
          (let c1 = snd (SetQueueCancel False c) in
           if \<not> live then call_queue_loop cx e rq q ms live scope acts c1
           else (case queue_branch e rq ''queue-bridged'' (qa_Bridged q) scope c1 of
               None \<Rightarrow> None | Some (scope1, c2) \<Rightarrow> call_queue_loop cx e rq q ms False scope1 (acts @ [CancelsBranches]) c2))
      | CQLeaving res \<Rightarrow>
          (case set_call cx [(''cc_result'', GStr res)] c of
             None \<Rightarrow> None
           | Some (_, c1) \<Rightarrow>
               (case queue_branch e rq ''queue-reporting'' (qa_Reporting q) scope c1 of
                  None \<Rightarrow> None | Some (scope1, c2) \<Rightarrow> call_queue_loop cx e rq q ms live scope1 acts c2))
      | _ \<Rightarrow> call_queue_loop cx e rq q ms live scope acts c)"

text \<open>From the checks of the call to the end of the stream, after the branches were started.\<close>

definition queue_join ::
  "fs_ctx \<Rightarrow> call_queue_services \<Rightarrow> fs_call env \<Rightarrow> (flow \<Rightarrow> reqptr \<Rightarrow> fs_call \<Rightarrow> fs_call outcome) \<Rightarrow> call_join_arg \<Rightarrow>
   ((fs_call \<Rightarrow> fs_call) \<times> call_queue_msg) list \<Rightarrow> (int \<times> string) option \<Rightarrow> flow \<Rightarrow> chat_queue_action list \<Rightarrow> fs_call \<Rightarrow>
   (outcome2 \<times> flow \<times> chat_queue_action list \<times> fs_call) option" where
  "queue_join cx qs e rq q msgs music scope acts c =
     (let t = GetVariable ''variable_transfer_history'' c; fin = (\<lambda>r. Some (r, scope, acts @ [CancelsBranches], c)) in
      if fc_stopped c then fin (Some CallResponseError, None)
      else if HangupCause c \<noteq> [] then fin (None, Some (NewAppError ''Call'' ''call.queue.join.hangup'' [] ''Call is down'' 500))
      else (case kqs_Join qs (call_join_request_of cx qs q music c) of
          Some _ \<Rightarrow> fin ok2
        | None \<Rightarrow>
            (case call_queue_loop cx e rq q msgs True scope acts (snd (SetQueueCancel True c)) of
               None \<Rightarrow> None
             | Some (eof, live, scope1, acts1, c1) \<Rightarrow>
                 Some (if eof then ok2 else (Some CallResponseError, None),
                       if eof \<and> t \<noteq> GetVariable ''variable_transfer_history'' c1 then SetCancel scope1 else scope1,
                       acts1 @ (if live then [CancelsBranches] else []), snd (SetQueueCancel False c1)))))"

definition call_queue ::
  "fs_ctx \<Rightarrow> media_store \<Rightarrow> call_queue_services \<Rightarrow> fs_call env \<Rightarrow> (flow \<Rightarrow> reqptr \<Rightarrow> fs_call \<Rightarrow> fs_call outcome) \<Rightarrow> (goval \<Rightarrow> call_join_arg result) \<Rightarrow>
   ((fs_call \<Rightarrow> fs_call) \<times> call_queue_msg) list \<Rightarrow> flow \<Rightarrow> goval \<Rightarrow> fs_call \<Rightarrow> (outcome2 \<times> flow \<times> chat_queue_action list \<times> fs_call) option" where
  "call_queue cx ms qs e rq decode msgs scope args c =
     (if fc_cancelQueue c then Some ((None, Some (NewInternalError ''call.queue.in_queue'' ''call is in queue'')), scope, [], c)
      else (case decode args of
          Inl er \<Rightarrow> Some ((None, Some er), scope, [], c)
        | Inr q \<Rightarrow>
            (let b = Fork ''queue-waiting'' (ArrInterfaceToArrayApplication (qa_Waiting q)) scope; waits = qa_Waiting q \<noteq> [];
                 scope1 = (if waits then share_with b scope else scope);
                 acts = (if waits then [StartsBranch b] else []) @ map StartsChatTimer (queue_timer_names (qa_Timers q))
             in case (case qa_TransferAfterBridge q of Some (Some i) \<Rightarrow> SetTransferAfterBridge cx i c | _ \<Rightarrow> Some (Inr CallResponseOK, c)) of
                  None \<Rightarrow> None
                | Some (Inl er, c1) \<Rightarrow> Some ((None, Some er), scope1, acts @ [CancelsBranches], c1)
                | Some (Inr _, c1) \<Rightarrow>
                    (case call_ringtone ms (fc_domainId c1) (qa_RingtoneId q) (qa_RingtoneName q) of
                       None \<Rightarrow> None
                     | Some (Inl er) \<Rightarrow> Some ((None, Some er), scope1, acts @ [CancelsBranches], c1)
                     | Some (Inr music) \<Rightarrow> queue_join cx qs e rq q msgs music scope1 acts c1))))"

section \<open>Agents (agent.go) and outbound queues (queue_outbound.go)\<close>

record prolongation =
  prl_Enabled :: bool
  prl_RepeatsNumber :: int
  prl_ProlongationTimeSec :: int
  prl_IsTimeoutRetry :: bool

record processing =
  prc_Enabled :: bool
  prc_Autosave :: bool
  prc_RenewalSec :: int
  prc_Sec :: int
  prc_Form :: int
  prc_WithoutAnswer :: bool
  prc_Prolongation :: "prolongation option"

record join_agent_args =
  jaa_Agent :: "(int option \<times> string option) option"
  jaa_Processing :: "processing option"
  jaa_RingtoneId :: "int option"
  jaa_RingtoneName :: "string option"
  jaa_Bridged :: "goval list"
  jaa_Timeout :: int
  jaa_QueueName :: string
  jaa_CancelDistribute :: bool

record agent_processing =
  apr_Autosave :: bool
  apr_RenewalSec :: int
  apr_Sec :: int
  apr_Form :: "int option"
  apr_Prolongation :: "prolongation option"

record join_agent_request =
  jr_DomainId :: int
  jr_MemberCallId :: string
  jr_AgentId :: int
  jr_WaitingMusic :: "(int \<times> string) option"
  jr_Timeout :: int
  jr_Variables :: "string \<rightharpoonup> string"
  jr_QueueName :: string
  jr_CancelDistribute :: bool
  jr_IsTransfer :: bool
  jr_Processing :: "agent_processing option"

definition enabled_prolongation :: "prolongation option \<Rightarrow> prolongation option" where
  "enabled_prolongation p = (case p of Some x \<Rightarrow> if prl_Enabled x then Some x else None | None \<Rightarrow> None)"

definition agent_processing_of :: "processing option \<Rightarrow> agent_processing option" where
  "agent_processing_of p =
     (case p of
        Some x \<Rightarrow>
          (if prc_Enabled x
           then Some \<lparr>apr_Autosave = prc_Autosave x, apr_RenewalSec = prc_RenewalSec x, apr_Sec = prc_Sec x,
                  apr_Form = (if prc_Form x > 0 then Some (prc_Form x) else None), apr_Prolongation = enabled_prolongation (prc_Prolongation x)\<rparr>
           else None)
      | None \<Rightarrow> None)"

fun agent_loop ::
  "fs_ctx \<Rightarrow> join_agent_args \<Rightarrow> ((fs_call \<Rightarrow> fs_call) \<times> call_queue_msg) list \<Rightarrow> flow \<Rightarrow> flow list \<Rightarrow> fs_call \<Rightarrow>
   (bool \<times> flow \<times> flow list \<times> fs_call) option" where
  "agent_loop cx a [] scope forks c = None"
| "agent_loop cx a ((rely, m) # ms) scope forks c0 =
     (let c = rely c0 in
      case m of
        CQEof \<Rightarrow> Some (True, scope, forks, c)
      | CQError \<Rightarrow> Some (False, scope, forks, c)
      | CQJoined att \<Rightarrow> call_anyway (set_call cx [(''attempt_id'', GInt att)] c) (agent_loop cx a ms scope forks)
      | CQBridged i \<Rightarrow>
          (if jaa_Bridged a = [] then agent_loop cx a ms scope forks c
           else (let b = Fork ''agent-bridged'' (ArrInterfaceToArrayApplication (jaa_Bridged a)) scope in
                 call_anyway (set_call cx [(''agent_id'', GInt i), (''agent_extension'', GStr (GetVariable ''Caller-Caller-ID-Number'' c))] c)
                   (agent_loop cx a ms (share_with b scope) (forks @ [b]))))
      | CQLeaving res \<Rightarrow> call_anyway (set_call cx [(''cc_result'', GStr res)] c) (agent_loop cx a ms scope forks)
      | _ \<Rightarrow> agent_loop cx a ms scope forks c)"

definition call_joinAgent ::
  "fs_ctx \<Rightarrow> media_store \<Rightarrow> (int \<Rightarrow> string \<Rightarrow> int option) \<Rightarrow> (join_agent_request \<Rightarrow> string option) \<Rightarrow> (goval \<Rightarrow> join_agent_args result) \<Rightarrow>
   ((fs_call \<Rightarrow> fs_call) \<times> call_queue_msg) list \<Rightarrow> flow \<Rightarrow> goval \<Rightarrow> fs_call \<Rightarrow> (outcome2 \<times> flow \<times> flow list \<times> fs_call) option" where
  "call_joinAgent cx ms byExtension join decode msgs scope args c =
     (let missing = Some ((Some CallResponseError, Some (ErrorRequiredParameter ''joinAgent'' ''agent'')), scope, [], c);
          t = GetVariable ''variable_transfer_history'' c
      in case decode args of
           Inl er \<Rightarrow> Some ((None, Some er), scope, [], c)
         | Inr a \<Rightarrow>
             (case jaa_Agent a of
                None \<Rightarrow> missing
              | Some (i, ex) \<Rightarrow>
                  (case (case (i, ex) of (None, Some x) \<Rightarrow> byExtension (fc_domainId c) x | _ \<Rightarrow> i) of
                     None \<Rightarrow> missing
                   | Some agentId \<Rightarrow>
                       (case call_ringtone ms (fc_domainId c) (jaa_RingtoneId a) (jaa_RingtoneName a) of
                          None \<Rightarrow> None
                        | Some (Inl er) \<Rightarrow> Some ((None, Some er), scope, [], c)
                        | Some (Inr music) \<Rightarrow>
                            (case join \<lparr>jr_DomainId = fc_domainId c, jr_MemberCallId = fc_id c, jr_AgentId = agentId, jr_WaitingMusic = music,
                                    jr_Timeout = jaa_Timeout a, jr_Variables = call_DumpExportVariables (fx_gj cx) c, jr_QueueName = jaa_QueueName a,
                                    jr_CancelDistribute = jaa_CancelDistribute a, jr_IsTransfer = (fc_transferAgent c > 0),
                                    jr_Processing = agent_processing_of (jaa_Processing a)\<rparr> of
                               Some _ \<Rightarrow> Some (ok2, scope, [], c)
                             | None \<Rightarrow>
                                 map_option (\<lambda>(eof, scope1, forks, c1).
                                     (if eof then ok2 else (Some CallResponseError, None),
                                      if eof \<and> t \<noteq> GetVariable ''variable_transfer_history'' c1 then SetCancel scope1 else scope1, forks, c1))
                                   (agent_loop cx a msgs scope [] c))))))"

record outbound_args =
  oa_QueueName :: string
  oa_CancelDistribute :: bool
  oa_Processing :: processing

record outbound_request =
  or_CallId :: string
  or_Timeout :: int
  or_UserId :: int
  or_DomainId :: int
  or_Variables :: "string \<rightharpoonup> string"
  or_Processing :: processing
  or_QueueName :: string
  or_CancelDistribute :: bool

text \<open>The answer of the queue has an attempt; both variables get it.\<close>

definition ccOutbound ::
  "fs_ctx \<Rightarrow> (outbound_request \<Rightarrow> string + int) \<Rightarrow> (goval \<Rightarrow> outbound_args result) \<Rightarrow> goval \<Rightarrow> fs_call \<Rightarrow> app_run" where
  "ccOutbound cx outbound decode args c =
     (if fc_direction c \<noteq> ''outbound'' then refuse (NewRequestError ''call.cc_outbound'' ''this call is not an outbound'') c
      else if fc_userId c = 0 then refuse (NewRequestError ''call.cc_outbound'' ''call originated from a non-user source'') c
      else with_args decode args (\<lambda>a c.
        let vars = call_DumpExportVariables (fx_gj cx) c; cid = GetContactId (fx_gj cx) c; p = oa_Processing a in
        if fc_stopped c then Some ((Some CallResponseError, None), c)
        else if HangupCause c \<noteq> [] then refuse (NewAppError ''Call'' ''call.cc_put.join.hangup'' [] ''Call is down'' 500) c
        else (case outbound \<lparr>or_CallId = fc_id c, or_Timeout = 10, or_UserId = fc_userId c, or_DomainId = fc_domainId c,
                   or_Variables = (if cid \<noteq> 0 then vars(''wbt_contact_id'' \<mapsto> Itoa cid) else vars),
                   or_Processing = p\<lparr>prc_Prolongation := enabled_prolongation (prc_Prolongation p)\<rparr>,
                   or_QueueName = oa_QueueName a, or_CancelDistribute = oa_CancelDistribute a\<rparr> of
            Inl _ \<Rightarrow> Some (ok2, c)
          | Inr attempt \<Rightarrow> as2 (set_call cx [(''cc_attempt_id'', GInt attempt), (''cc_agent_id'', GInt attempt)] c))) c)"

section \<open>Contacts (contacts.go)\<close>

text \<open>What the router writes elsewhere.\<close>

datatype route_action =
    SetsContact int string int
  | Notifies int string "int option"
  | SetsBlindTransfer int string string
  | StoresVariables string "string \<rightharpoonup> string"
  | StoresLog int string "step_log list"

text \<open>
  \<open>search\<close> looks a number up among the phones of the contacts, at most two of them; only a single one is linked.
\<close>

definition linkContact ::
  "fs_ctx \<Rightarrow> (int \<Rightarrow> string \<Rightarrow> string list result) \<Rightarrow> fs_call \<Rightarrow> (route_action list \<times> fs_call) option" where
  "linkContact cx search c =
     (if GetContactId (fx_gj cx) c \<noteq> 0 then Some ([], c)
      else (case search (fc_domainId c) (if fc_direction c = ''outbound'' then fc_destination c else ce_Number (fc_from c)) of
          Inl _ \<Rightarrow> Some ([], c)
        | Inr found \<Rightarrow>
            (let userId = Atoi_value (fst (call_Get (fx_gj cx) ''sip_h_X-Webitel-User-Id'' c));
                 note = (\<lambda>i c. if userId > 0 then [Notifies userId (fc_id c) i] else [])
             in case found of
                  [cid] \<Rightarrow>
                    call_anyway (set_call cx [(''wbt_contact_id'', GStr cid)] c)
                      (\<lambda>c1. Some (SetsContact (fc_domainId c1) (fc_id c1) (Atoi_value cid) # note (Some (Atoi_value cid)) c1, c1))
                | _ \<Rightarrow> Some (note None c, c))))"

end
