(* ===== verification/Call_Router.thy ===== *)
theory Call_Router
  imports Call_Queue
begin

text \<open>
  The router of calls (\<open>routes/call/router.go\<close>, \<open>call.go\<close>, \<open>app/call_routings.go\<close>): the choice of the schema from
  what the first event says, the substitution of the groups of an outbound pattern, and the life of a
  routed call.  The tables of routings, the schemas and the engine of regular expressions are arguments.
\<close>

section \<open>Outbound patterns (call.go)\<close>

text \<open>\<open>submatch\<close> compiles a pattern and matches a text: the whole match and its groups, or nothing.\<close>

definition getOutboundReg :: "(string \<Rightarrow> string \<Rightarrow> string + string list) \<Rightarrow> string \<Rightarrow> string \<Rightarrow> (string \<rightharpoonup> string) result" where
  "getOutboundReg submatch pattern destination =
     (case submatch pattern destination of
        Inl er \<Rightarrow> Inl (NewAppError ''Call'' ''call.router.valid.outbound_pattern'' [] er 400)
      | Inr groups \<Rightarrow> Inr (map_of (map (\<lambda>(k, v). (Itoa (int k), v)) (enumerate 0 groups))))"

definition is_decimal :: "char \<Rightarrow> bool" where
  "is_decimal ch = (digit_val ch \<noteq> None)"

text \<open>\<open>$\<close> with the digits behind it is a group of the pattern; a group that is not there vanishes.\<close>

function out_groups :: "(string \<rightharpoonup> string) \<Rightarrow> string \<Rightarrow> string" where
  "out_groups out [] = []"
| "out_groups out (ch # cs) =
     (let ds = takeWhile is_decimal cs in
      if ch = CHR ''$'' \<and> ds \<noteq> [] then (case out ds of Some v \<Rightarrow> v | None \<Rightarrow> []) @ out_groups out (dropWhile is_decimal cs)
      else ch # out_groups out cs)"
  by pat_completeness auto
termination
  by (relation "measure (length \<circ> snd)") (auto simp: le_imp_less_Suc length_dropWhile_le)

text \<open>The connection of a call returns a text as it is (\<open>Connection.ParseText\<close>); the parser of the router hands it the expanded text.\<close>

definition fs_ParseText :: "string \<Rightarrow> parse_option list \<Rightarrow> string" where
  "fs_ParseText text ops = text"

definition callParser_ParseText :: "(string \<Rightarrow> string \<times> bool) \<Rightarrow> (string \<rightharpoonup> string) option \<Rightarrow> string \<Rightarrow> parse_option list \<Rightarrow> string" where
  "callParser_ParseText get outboundVars text ops =
     (let txt = ParseText get text ops;
          txt1 = (case outboundVars of None \<Rightarrow> txt | Some out \<Rightarrow> out_groups out txt)
      in fs_ParseText txt1 [])"

section \<open>Routings (app/call_routings.go)\<close>

record call_routing =
  kr_SourceData :: string
  kr_DomainName :: string
  kr_Timezone :: string
  kr_SchemaId :: int
  kr_SchemaUpdatedAt :: int
  kr_Name :: string
  kr_Schema :: applications

text \<open>Rows of the tables, without the schema, and the schemas: a name and the applications.\<close>

record call_routes =
  krs_gateway :: "int \<Rightarrow> int \<Rightarrow> call_routing result"
  krs_destination :: "int \<Rightarrow> string \<Rightarrow> call_routing result"
  krs_queue :: "int \<Rightarrow> int \<Rightarrow> call_routing result"
  krs_transferred :: "int \<Rightarrow> int \<Rightarrow> call_routing result"
  krs_schema :: "int \<Rightarrow> int \<Rightarrow> int \<Rightarrow> (string \<times> applications) result"

definition with_schema :: "call_routes \<Rightarrow> int \<Rightarrow> call_routing result \<Rightarrow> call_routing result" where
  "with_schema rs domainId row =
     (case row of
        Inl er \<Rightarrow> Inl er
      | Inr r \<Rightarrow>
          (case krs_schema rs domainId (kr_SchemaId r) (kr_SchemaUpdatedAt r) of
             Inl er \<Rightarrow> Inl er
           | Inr (name, apps) \<Rightarrow> Inr (r\<lparr>kr_Name := name, kr_Schema := apps\<rparr>)))"

definition GetRoutingFromDestToGateway :: "call_routes \<Rightarrow> int \<Rightarrow> int \<Rightarrow> call_routing result" where
  "GetRoutingFromDestToGateway rs domainId gatewayId = with_schema rs domainId (krs_gateway rs domainId gatewayId)"

definition SearchOutboundToDestinationRouting :: "call_routes \<Rightarrow> int \<Rightarrow> string \<Rightarrow> call_routing result" where
  "SearchOutboundToDestinationRouting rs domainId dest = with_schema rs domainId (krs_destination rs domainId dest)"

definition SearchOutboundFromQueueRouting :: "call_routes \<Rightarrow> int \<Rightarrow> int \<Rightarrow> call_routing result" where
  "SearchOutboundFromQueueRouting rs domainId queueId = with_schema rs domainId (krs_queue rs domainId queueId)"

definition SearchTransferredRouting :: "call_routes \<Rightarrow> int \<Rightarrow> int \<Rightarrow> call_routing result" where
  "SearchTransferredRouting rs domainId schemaId = with_schema rs domainId (krs_transferred rs domainId schemaId)"

definition transfer_routing :: "string \<Rightarrow> applications \<Rightarrow> call_routing" where
  "transfer_routing name apps =
     \<lparr>kr_SourceData = ''transfer'', kr_DomainName = [], kr_Timezone = [], kr_SchemaId = 0, kr_SchemaUpdatedAt = 0, kr_Name = name, kr_Schema = apps\<rparr>"

definition TransferQueueRouting :: "int \<Rightarrow> call_routing" where
  "TransferQueueRouting queueId =
     transfer_routing ''transfer queue''
       [[(''sleep'', GInt 500)], [(''unSet'', GArr [GStr ''wbt_bt_queue_id'', GStr ''wbt_bt_queue''])],
        [(''joinQueue'', GMap [(''queue'', GMap [(''id'', GInt queueId)])])], [(''hangup'', GNil)]]"

definition TransferAgentRouting :: "int \<Rightarrow> call_routing" where
  "TransferAgentRouting agentId =
     transfer_routing ''transfer agent''
       [[(''unSet'', GArr [GStr ''wbt_bt_agent_id''])], [(''set'', GMap [(''ignore_display_updates'', GBool True)])],
        [(''joinAgent'', GMap [(''agent'', GMap [(''id'', GInt agentId)]), (''queue_name'', GStr ''transfer'')])], [(''hangup'', GNil)]]"

section \<open>The choice of the schema (router.go)\<close>

definition IntId :: "call_endpoint \<Rightarrow> int option" where
  "IntId e = Atoi (ce_Id e)"

definition ErrNotFoundRoute :: app_error where
  "ErrNotFoundRoute = NewAppError ''Route'' ''app.route.not_found'' [] ''not found route'' 404"

text \<open>
  What the router found: the call ends at once with a cause, an error, no routing, or a routing with the groups of
  its pattern.
\<close>

datatype route_choice = EndsNow string | Fails app_error | NoRouting | Runs call_routing "(string \<rightharpoonup> string) option"

definition choice_of :: "call_routing result \<Rightarrow> route_choice" where
  "choice_of r = (case r of Inl er \<Rightarrow> Fails er | Inr x \<Rightarrow> Runs x None)"

definition outbound_choice :: "call_routes \<Rightarrow> (string \<Rightarrow> string \<Rightarrow> string + string list) \<Rightarrow> fs_call \<Rightarrow> route_choice" where
  "outbound_choice rs submatch c =
     (case SearchOutboundToDestinationRouting rs (fc_domainId c) (fc_destination c) of
        Inl er \<Rightarrow> Fails er
      | Inr r \<Rightarrow>
          (case getOutboundReg submatch (kr_SourceData r) (fc_destination c) of Inl er \<Rightarrow> Fails er | Inr out \<Rightarrow> Runs r (Some out)))"

definition direct_choice :: "call_routes \<Rightarrow> (string \<Rightarrow> string \<Rightarrow> string + string list) \<Rightarrow> fs_call \<Rightarrow> route_choice" where
  "direct_choice rs submatch c =
     (if fc_direction c = ''inbound'' then
        (case fc_to c of
           None \<Rightarrow> EndsNow ''NORMAL_TEMPORARY_FAILURE''
         | Some to \<Rightarrow>
             (if ce_Type (fc_from c) = ''dest'' then
                (case IntId to of
                   None \<Rightarrow> EndsNow ''NO_ROUTE_DESTINATION''
                 | Some i \<Rightarrow> choice_of (GetRoutingFromDestToGateway rs (fc_domainId c) i))
              else NoRouting))
      else if fc_direction c = ''outbound'' then
        (if ce_Type (fc_from c) = ''user'' then outbound_choice rs submatch c else NoRouting)
      else Fails (NewAppError ''Call.Handle'' ''call.router.valid.direction'' [] (''no handler direction '' @ fc_direction c) 500))"

definition ccXfer :: "fs_call \<Rightarrow> bool" where
  "ccXfer c =
     (has_suffix (GetVariable ''variable_transfer_history'' c) ('':bl_xfer:'' @ fc_destination c @ ''/default/XML'') \<and>
      GetVariable ''variable_cc_app_id'' c \<noteq> [])"

definition call_route ::
  "call_routes \<Rightarrow> (string \<Rightarrow> string \<Rightarrow> string + string list) \<Rightarrow> fs_call \<Rightarrow> route_choice \<times> route_action list \<times> fs_call" where
  "call_route rs submatch c =
     (let isTransfer = call_IsTransfer c in
      case (if isTransfer then TransferSchemaId c else None) of
        Some i \<Rightarrow> (choice_of (SearchTransferredRouting rs (fc_domainId c) i), [], c)
      | None \<Rightarrow>
          (if fc_transferQueue c \<noteq> 0 \<and> isTransfer then (Runs (TransferQueueRouting (fc_transferQueue c)) None, [], c)
           else if fc_transferAgent c \<noteq> 0 \<and> isTransfer then (Runs (TransferAgentRouting (fc_transferAgent c)) None, [], c)
           else if isTransfer \<and> fc_schemaId c = None \<and> (ccXfer c \<or> \<not> fc_originateRequest c) then
             (outbound_choice rs submatch c, [SetsBlindTransfer (fc_domainId c) (fc_id c) (fc_destination c)],
              if fc_direction c = ''inbound'' then SetTransferFromId c else c)
           else (case fc_schemaId c of
               Some q \<Rightarrow> (choice_of (SearchOutboundFromQueueRouting rs (fc_domainId c) q), [], c)
             | None \<Rightarrow> (direct_choice rs submatch c, [], c))))"

section \<open>The life of a call\<close>

definition call_Request :: "(string \<Rightarrow> (flow \<Rightarrow> app_args \<Rightarrow> 'w \<Rightarrow> 'w outcome) option) \<Rightarrow> flow \<Rightarrow> reqptr \<Rightarrow> 'w \<Rightarrow> 'w outcome" where
  "call_Request apps = Router_Request (''Call.Request'', ''call.request.not_found'') apps"

definition call_AddApplications :: "(string \<rightharpoonup> 'h) \<Rightarrow> (string \<rightharpoonup> 'h) \<Rightarrow> string \<rightharpoonup> 'h" where
  "call_AddApplications added apps = apps ++ added"

text \<open>
  The result of an application that only touches the call; with neither a response nor an error it is the nil
  response, at which the engine panics.
\<close>

definition callHandlerMiddleware :: "(goval \<Rightarrow> fs_call \<Rightarrow> app_run) \<Rightarrow> flow \<Rightarrow> app_args \<Rightarrow> fs_call \<Rightarrow> fs_call outcome" where
  "callHandlerMiddleware h scope args c =
     (case h (case args of ArgVal v \<Rightarrow> v | _ \<Rightarrow> GNil) c of
        None \<Rightarrow> None
      | Some ((_, Some er), c1) \<Rightarrow> Some (Inl er, scope, c1)
      | Some ((r, None), c1) \<Rightarrow> Some (Inr r, scope, c1))"

definition call_config :: "fs_call \<Rightarrow> call_routing \<Rightarrow> config" where
  "call_config c r = \<lparr>cf_SchemaId = kr_SchemaId r, cf_Timezone = kr_Timezone r, cf_Name = kr_Name r, cf_Schema = kr_Schema r, cf_ConnId = Some (fc_id c)\<rparr>"

text \<open>The settings of the domain, the search of contacts and the meetings.\<close>

record call_services =
  ksv_autoLink :: "int \<Rightarrow> bool"
  ksv_recordAll :: "int \<Rightarrow> bool result"
  ksv_contacts :: "int \<Rightarrow> string \<Rightarrow> string list result"
  ksv_meeting :: "string \<Rightarrow> (string \<times> string) list result"

text \<open>The wait for the end of the connection, while its events are read.\<close>

definition wait_done :: "fs_call \<Rightarrow> fs_call option" where
  "wait_done c = (if fc_cancelled c then Some c else read_loop (fc_future c) (c\<lparr>fc_future := []\<rparr>))"

text \<open>What is done before the schema runs; failures are only logged.\<close>

definition prepare_call :: "fs_ctx \<Rightarrow> call_services \<Rightarrow> call_routing \<Rightarrow> fs_call \<Rightarrow> fs_call option" where
  "prepare_call cx sv r c =
     Option.bind (if ksv_recordAll sv (fc_domainId c) = Inr True then map_option snd (startRecordAllCalls cx c) else Some c) (\<lambda>c1.
     Option.bind (SetSchemaId (fx_env cx) (kr_SchemaId r) (c1\<lparr>fc_domainName := kr_DomainName r\<rparr>)) (\<lambda>(_, c2).
     if fc_meetingId c2 = [] then Some c2
     else (case ksv_meeting sv (fc_meetingId c2) of
         Inl _ \<Rightarrow> Some c2
       | Inr vars \<Rightarrow> map_option snd (set_call cx (map (\<lambda>(k, v). (k, GStr v)) vars) c2))))"

definition store_variables :: "fs_ctx \<Rightarrow> fs_call \<Rightarrow> route_action list" where
  "store_variables cx c = (if fc_exportVariables c = [] then [] else [StoresVariables (fc_id c) (call_DumpExportVariables (fx_gj cx) c)])"

definition store_log :: "flow \<Rightarrow> fs_call \<Rightarrow> route_action list" where
  "store_log i c = (case flow_Logs i of None \<Rightarrow> [] | Some l \<Rightarrow> [StoresLog (fl_schemaId i) (fc_id c) l])"

text \<open>
  The schema, the end of the connection, the trigger \<open>disconnected\<close> on the stopped call, and what is stored.
  \<open>e\<close> and \<open>rq\<close> are the engine's environment and its requests for the groups of the pattern.
\<close>

definition run_call ::
  "fs_ctx \<Rightarrow> fs_call env \<Rightarrow> (flow \<Rightarrow> reqptr \<Rightarrow> fs_call \<Rightarrow> fs_call outcome) \<Rightarrow> flow \<Rightarrow> fs_call \<Rightarrow> (route_action list \<times> fs_call) option" where
  "run_call cx e rq i0 c =
     (case Route e rq i0 c of
        None \<Rightarrow> None
      | Some (i, c1) \<Rightarrow>
          (case wait_done c1 of
             None \<Rightarrow> None
           | Some c2 \<Rightarrow>
               (case TriggerScope TriggerDisconnected i of
                  Inl _ \<Rightarrow> Some (store_log i c2, c2)
                | Inr d \<Rightarrow>
                    map_option (\<lambda>(_, c3). (store_variables cx c3 @ store_log i c3, c3)) (Route e rq d (ClearExportVariables c2)))))"

definition call_hang :: "fs_ctx \<Rightarrow> string \<Rightarrow> fs_call \<Rightarrow> fs_call option" where
  "call_hang cx cause c = map_option snd (run_app cx ''hangup'' cause c)"

definition failure_cause :: "app_error \<Rightarrow> string" where
  "failure_cause er = (if er = ErrNotFoundRoute then ''NO_ROUTE_DESTINATION'' else ''NORMAL_TEMPORARY_FAILURE'')"

definition call_handle ::
  "fs_ctx \<Rightarrow> ((string \<rightharpoonup> string) option \<Rightarrow> fs_call env) \<Rightarrow> ((string \<rightharpoonup> string) option \<Rightarrow> flow \<Rightarrow> reqptr \<Rightarrow> fs_call \<Rightarrow> fs_call outcome) \<Rightarrow>
   (string \<Rightarrow> string option) \<Rightarrow> call_services \<Rightarrow> call_routes \<Rightarrow> (string \<Rightarrow> string \<Rightarrow> string + string list) \<Rightarrow> fs_call \<Rightarrow>
   (route_action list \<times> fs_call) option" where
  "call_handle cx e rq loc sv rs submatch c0 =
     (case call_route rs submatch c0 of (choice, acts, c) \<Rightarrow>
        (case choice of
           EndsNow cause \<Rightarrow> map_option (\<lambda>c1. (acts, c1)) (call_hang cx cause c)
         | _ \<Rightarrow>
             (case (if ksv_autoLink sv (fc_domainId c) then linkContact cx (ksv_contacts sv) c else Some ([], c)) of
                None \<Rightarrow> None
              | Some (acts1, c1) \<Rightarrow>
                  (case choice of
                     Fails er \<Rightarrow> map_option (\<lambda>c2. (acts @ acts1, c2)) (call_hang cx (failure_cause er) c1)
                   | Runs r out \<Rightarrow>
                       (case prepare_call cx sv r c1 of
                          None \<Rightarrow> None
                        | Some c2 \<Rightarrow>
                            map_option (\<lambda>(acts2, c3). (acts @ acts1 @ acts2, c3)) (run_call cx (e out) (rq out) (New loc (call_config c0 r)) c2))
                   | _ \<Rightarrow> map_option (\<lambda>c2. (acts @ acts1, c2)) (call_hang cx ''NO_ROUTE_DESTINATION'' c1)))))"

end
