(* ===== verification/Call_Props.thy ===== *)
theory Call_Props
  imports Call_Router Fs_Call_Props Fs_Reader_Laws
begin

text \<open>
  Properties of the router of calls and its applications: what a command leaves alone, the fate of a call without a
  schema, the queue, the groups of an outbound pattern and the endpoints of a bridge.
\<close>

section \<open>What a command leaves alone\<close>

text \<open>Commands and events keep the queue's cancel function, and what was sent stays sent.\<close>

definition grown :: "fs_call \<Rightarrow> fs_call \<Rightarrow> bool" where
  "grown c c' = (fc_cancelQueue c' = fc_cancelQueue c \<and> set (fc_sent c) \<subseteq> set (fc_sent c'))"

lemma grown_refl [simp, intro]: "grown c c"
  by (simp add: grown_def)

lemma grown_trans [trans]: "grown a b \<Longrightarrow> grown b c \<Longrightarrow> grown a c"
  by (auto simp: grown_def)

lemma grown_future [simp]: "grown c (c'\<lparr>fc_future := hs\<rparr>) = grown c c'" "grown (c\<lparr>fc_future := hs\<rparr>) c' = grown c c'"
  by (simp_all add: grown_def)

lemma cb_answer_grown: "cb_answer g e c = Some c' \<Longrightarrow> grown c c'"
  by (auto simp: cb_answer_def grown_def split: option.splits cb_chan.splits)

lemma closeHook_grown: "closeHookBridge c = Some c' \<Longrightarrow> grown c c'"
  by (auto simp: closeHookBridge_def grown_def split: option.splits hook_chan.splits)

lemma sendHook_grown: "sendHookBridged c = Some c' \<Longrightarrow> grown c c'"
  by (auto simp: sendHookBridged_def grown_def split: option.splits if_splits dest!: closeHook_grown)

lemma setEvent_grown:
  assumes "setEvent e c = Some c'"
  shows "grown c c'"
proof -
  have seen: "grown c (updateVariablesFromEvent e (c\<lparr>fc_lastEvent := e\<rparr>))" by (simp add: grown_def updateVariablesFromEvent_def)
  have "c' = c \<or> grown (updateVariablesFromEvent e (c\<lparr>fc_lastEvent := e\<rparr>)) c'"
    using assms
    by (auto simp: setEvent_def Let_def split: if_splits dest: cb_answer_grown sendHook_grown)
      (auto simp: grown_def)
  then show ?thesis using seen grown_trans by blast
qed

lemma answer_all_grown: "answer_all gs c = Some c' \<Longrightarrow> grown c c'"
  by (induction gs arbitrary: c) (auto simp: bind_eq_Some_conv dest: cb_answer_grown intro: grown_trans)

lemma end_connection_grown: "end_connection c = Some c' \<Longrightarrow> grown c c'"
proof -
  assume "end_connection c = Some c'"
  then obtain c1 c2 where "closeHookBridge c = Some c1" "answer_all (fc_callbacks c1) c1 = Some c2" "c' = c2\<lparr>fc_cancelled := True\<rparr>"
    by (auto simp: end_connection_def bind_eq_Some_conv)
  moreover from this have "grown c c2" using closeHook_grown answer_all_grown grown_trans by blast
  ultimately show "grown c c'" by (simp add: grown_def)
qed

lemma await_grown: "await x g hs c = Some (r, c') \<Longrightarrow> grown c c'"
proof (induction hs arbitrary: c)
  case (Cons h hs)
  have ended: "grown c1 c'" if "Option.bind (end_connection c1) (await x g hs) = Some (r, c')" for c1
    using that Cons.IH by (auto simp: bind_eq_Some_conv dest: end_connection_grown intro: grown_trans)
  show ?case
  proof (cases "settled x g c")
    case None
    show ?thesis
    proof (cases h)
      case (SockEvent e)
      obtain c1 where c1: "setEvent e c = Some c1" using Cons.prems None SockEvent by (auto split: option.splits)
      have "grown c1 c'" using Cons.prems None SockEvent c1 ended [of c1] Cons.IH [of c1] by (auto split: if_splits)
      then show ?thesis using setEvent_grown [OF c1] grown_trans by blast
    next
      case SockEOF
      then show ?thesis using Cons.prems None ended by simp
    next
      case CtxDone
      then show ?thesis using Cons.prems None Cons.IH by (auto split: if_splits)
    qed
  qed (use Cons.prems in auto)
qed auto

lemma exec_begin_grown: "grown c (snd (exec_begin env app args c))"
  by (auto simp: exec_begin_def Let_def grown_def split: sum.splits option.splits)

lemma execute_grown:
  assumes "execute_ctx x env app args c = Some (r, c')"
  shows "grown c c'"
  using assms exec_begin_grown [of c env app args]
  by (auto simp: execute_ctx_def split: prod.splits sum.splits intro: grown_trans dest: await_grown)

lemma call_Set_grown: "call_Set env ff vars c = Some (r, c') \<Longrightarrow> grown c c'"
proof -
  have "fc_cancelQueue (setDisconnectedVariables ff vs c) = fc_cancelQueue c \<and> fc_sent (setDisconnectedVariables ff vs c) = fc_sent c" for vs c
  proof (induction vs arbitrary: c)
    case (Cons kv vs)
    obtain k v where kv: "kv = (k, v)" by force
    show ?case using Cons.IH [of "c\<lparr>fc_variables := (fc_variables c)(k \<mapsto> sprint_v ff v)\<rparr>"] by (simp add: setDisconnectedVariables_def kv)
  qed (simp add: setDisconnectedVariables_def)
  then have "grown c (setDisconnectedVariables ff vs c)" for vs by (simp add: grown_def)
  then show "call_Set env ff vars c = Some (r, c') \<Longrightarrow> grown c c'"
    by (auto simp: call_Set_def call_Set_ctx_def setChannelVariables_def split: if_splits dest: execute_grown)
qed

text \<open>An environment in which identifiers are made and commands go out.\<close>

definition sends :: "fs_env \<Rightarrow> bool" where
  "sends env = (\<forall>n. (\<exists>g. fe_uuid env n = Inr g \<and> \<not> bad_text g) \<and> fe_send env n = None)"

section \<open>Calls without a schema\<close>

lemma hangup_text:
  assumes "\<not> bad_text g" "cause \<in> {''NO_ROUTE_DESTINATION'', ''NORMAL_TEMPORARY_FAILURE''}"
  shows "SendMsg_text [(''call-command'', ''execute''), (''execute-app-name'', ''hangup''), (''execute-app-arg'', cause),
    (''event-lock'', ''false''), (''Event-UUID'', g)] [] [] \<noteq> None"
proof -
  have "\<not> bad_text ''call-command''" "\<not> bad_text ''execute''" "\<not> bad_text ''execute-app-name''" "\<not> bad_text ''hangup''" "\<not> bad_text ''execute-app-arg''"
    "\<not> bad_text ''event-lock''" "\<not> bad_text ''false''" "\<not> bad_text ''Event-UUID''" "\<not> bad_text ''NO_ROUTE_DESTINATION''"
    "\<not> bad_text ''NORMAL_TEMPORARY_FAILURE''"
    by code_simp+
  then show ?thesis using assms by (auto simp: SendMsg_text_def)
qed

lemma hang_sends:
  assumes "sends env" "executeWithContext env ''hangup'' cause c = Some (r, c')" "cause \<in> {''NO_ROUTE_DESTINATION'', ''NORMAL_TEMPORARY_FAILURE''}"
  shows "fc_stopped c' \<or> ExecCmd ''hangup'' cause \<in> set (fc_sent c')"
proof (cases "fc_stopped c")
  case True
  then show ?thesis using assms(2) by (auto simp: executeWithContext_def execute_ctx_def exec_begin_def)
next
  case False
  obtain g where g: "fe_uuid env (fc_seq c) = Inr g" "\<not> bad_text g" "fe_send env (fc_seq c) = None"
    using assms(1) by (auto simp: sends_def)
  obtain c1 where c1: "exec_begin env ''hangup'' cause c = (Inr g, c1)" "ExecCmd ''hangup'' cause \<in> set (fc_sent c1)"
    using False g hangup_text [OF g(2) assms(3)] by (auto simp: exec_begin_def Let_def)
  then have "await (flow_ctx env c) g (fc_future c1) c1 = Some (r, c')" using assms(2) by (simp add: executeWithContext_def execute_ctx_def)
  then show ?thesis using c1(2) await_grown grown_def by blast
qed

text \<open>The cause a call without a schema is hung up with.\<close>

fun hang_cause :: "route_choice \<Rightarrow> string option" where
  "hang_cause (EndsNow cause) = Some cause"
| "hang_cause (Fails er) = Some (failure_cause er)"
| "hang_cause NoRouting = Some ''NO_ROUTE_DESTINATION''"
| "hang_cause (Runs r out) = None"

lemma call_route_ends:
  assumes "call_route rs submatch c = (EndsNow cause, acts, c1)"
  shows "cause \<in> {''NO_ROUTE_DESTINATION'', ''NORMAL_TEMPORARY_FAILURE''}"
  using assms
  by (auto simp: call_route_def Let_def choice_of_def outbound_choice_def direct_choice_def split: if_splits option.splits sum.splits)

text \<open>
  C28: A call for which the router finds no schema, because nothing matches, a lookup fails or the caller is not one
  that is routed, is hung up with the cause of the failure, or has already ended; no application of any schema
  runs for it.  Identifiers are made and commands go out, which is assumed.
\<close>

theorem unrouted_call_is_hung_up:
  assumes "sends (fx_env cx)" "call_route rs submatch c = (choice, acts1, c1)" "hang_cause choice = Some cause"
    "call_handle cx e rq loc sv rs submatch c = Some (acts, c')"
  shows "(fc_stopped c' \<or> ExecCmd ''hangup'' cause \<in> set (fc_sent c')) \<and> call_handle cx e' rq' loc sv rs submatch c = Some (acts, c')"
proof -
  have hang: "fc_stopped d \<or> ExecCmd ''hangup'' cause \<in> set (fc_sent d)" if "call_hang cx cause b = Some d" for b d
    using that assms(2,3) hang_sends [OF assms(1), of cause b _ d] call_route_ends [of rs submatch c cause acts1 c1]
    by (cases choice) (auto simp: call_hang_def run_app_def failure_cause_def split: if_splits)
  show ?thesis
    using assms(2-4) hang by (cases choice) (auto simp: call_handle_def split: option.splits prod.splits)
qed

definition example_ctx :: fs_ctx where
  "example_ctx = \<lparr>fx_env = fs_example_env, fx_gj = \<lambda>_ _. [], fx_ff = \<lambda>_. [], fx_f6 = \<lambda>_. [], fx_newId = \<lambda>_ _. []\<rparr>"

definition no_routes :: call_routes where
  "no_routes = \<lparr>krs_gateway = \<lambda>_ _. Inl ErrNotFoundRoute, krs_destination = \<lambda>_ _. Inl ErrNotFoundRoute, krs_queue = \<lambda>_ _. Inl ErrNotFoundRoute,
     krs_transferred = \<lambda>_ _. Inl ErrNotFoundRoute, krs_schema = \<lambda>_ _ _. Inl ErrNotFoundRoute\<rparr>"

definition no_services :: call_services where
  "no_services = \<lparr>ksv_autoLink = \<lambda>_. False, ksv_recordAll = \<lambda>_. Inr False, ksv_contacts = \<lambda>_ _. Inr [], ksv_meeting = \<lambda>_. Inr []\<rparr>"

definition user_dump :: fs_event where
  "user_dump = \<lparr>ev_Header = [''Unique-ID'' \<mapsto> ''call-1'', ''variable_sip_h_X-Webitel-Direction'' \<mapsto> ''outbound'',
     ''variable_sip_h_X-Webitel-User-Id'' \<mapsto> ''7'', ''Caller-Destination-Number'' \<mapsto> ''100''], ev_Body = []\<rparr>"

lemma example_sends: "sends fs_example_env"
proof -
  have "\<not> bad_text (nat_digits n)" for n
    using digit_not_blank [of _ n] by (cases "nat_digits n") (auto simp: bad_text_def list_ex_iff line_break_def)
  then show ?thesis by (simp add: sends_def fs_example_env_def Itoa_def)
qed

theorem unrouted_call_is_hung_up_witness:
  "\<exists>acts c'. call_handle example_ctx undefined undefined undefined no_services no_routes (\<lambda>_ _. Inr []) (fs_newConnection [CtxDone] user_dump) = Some (acts, c') \<and>
     (fc_stopped c' \<or> ExecCmd ''hangup'' ''NO_ROUTE_DESTINATION'' \<in> set (fc_sent c'))"
proof -
  let ?c = "fs_newConnection [CtxDone] user_dump" and ?h = "call_handle example_ctx undefined undefined undefined no_services no_routes (\<lambda>_ _. Inr [])"
  have r: "case call_route no_routes (\<lambda>_ _. Inr []) ?c of (Fails er, _, _) \<Rightarrow> er = ErrNotFoundRoute | _ \<Rightarrow> False" by code_simp
  then obtain acts1 c1 where c1: "call_route no_routes (\<lambda>_ _. Inr []) ?c = (Fails ErrNotFoundRoute, acts1, c1)"
    by (auto split: prod.splits route_choice.splits)
  have "case call_route no_routes (\<lambda>_ _. Inr []) ?c of (_, _, c1) \<Rightarrow> (case call_hang example_ctx ''NO_ROUTE_DESTINATION'' c1 of Some _ \<Rightarrow> True | None \<Rightarrow> False)"
    by code_simp
  then obtain c' where "call_hang example_ctx ''NO_ROUTE_DESTINATION'' c1 = Some c'" using c1 by (auto split: option.splits)
  then have h: "?h ?c = Some (acts1, c')" using c1 by (simp add: call_handle_def no_services_def failure_cause_def)
  have "sends (fx_env example_ctx)" using example_sends by (simp add: example_ctx_def)
  from unrouted_call_is_hung_up [OF this c1 _ h] h show ?thesis by (auto simp: failure_cause_def)
qed

section \<open>Queues\<close>

lemma call_queue_loop_cancels:
  assumes "call_queue_loop cx e rq q msgs live scope acts c = Some (r, live', scope', acts', c')"
  shows "count_list acts' CancelsBranches + (if live' then 1 else 0) = count_list acts CancelsBranches + (if live then 1 else 0)"
  using assms
proof (induction msgs arbitrary: live scope acts c)
  case (Cons rm msgs)
  obtain rely m where rm: "rm = (rely, m)" by force
  have "(live' = live \<and> acts' = acts) \<or> (\<exists>sc d. call_queue_loop cx e rq q msgs live sc acts d = Some (r, live', scope', acts', c')) \<or>
      (live \<and> (\<exists>sc d. call_queue_loop cx e rq q msgs False sc (acts @ [CancelsBranches]) d = Some (r, live', scope', acts', c')))"
    using Cons.prems rm by (cases m) (auto simp: Let_def split: option.splits if_splits)
  then show ?case using Cons.IH by fastforce
qed simp

lemma queue_join_undone:
  assumes "queue_join cx qs e rq q msgs music scope acts c = Some (r, scope', acts', c')" "count_list acts CancelsBranches = 0" "\<not> fc_cancelQueue c"
  shows "count_list acts' CancelsBranches = 1 \<and> \<not> fc_cancelQueue c'"
  using assms call_queue_loop_cancels [of cx e rq q msgs True scope acts "snd (SetQueueCancel True c)"]
  by (auto simp: queue_join_def Let_def SetQueueCancel_def split: if_splits option.splits)

text \<open>
  C29: Whenever \<open>joinQueue\<close> of a call that is in no queue returns, on every path, the context of its waiting branch and
  its timers was cancelled exactly once, and the call is in no queue: it can join the next one.
\<close>

theorem call_queue_undone:
  assumes "call_queue cx ms qs e rq decode msgs scope args c = Some (r, scope', acts, c')" "\<not> fc_cancelQueue c" "decode args = Inr q"
  shows "count_list acts CancelsBranches = 1 \<and> \<not> fc_cancelQueue c'"
proof -
  let ?b = "Fork ''queue-waiting'' (ArrInterfaceToArrayApplication (qa_Waiting q)) scope" and ?ts = "map StartsChatTimer (queue_timer_names (qa_Timers q))"
  let ?acts = "(if qa_Waiting q \<noteq> [] then [StartsBranch ?b] else []) @ ?ts"
  have n: "count_list ?acts CancelsBranches = 0" using queue_timers_no_cancel count_list_0_iff by fastforce
  define t where "t = (case qa_TransferAfterBridge q of Some (Some i) \<Rightarrow> SetTransferAfterBridge cx i c | _ \<Rightarrow> Some (Inr CallResponseOK, c))"
  obtain x c1 where c1: "t = Some (x, c1)"
    using assms by (cases t) (auto simp: call_queue_def Let_def t_def)
  then have q1: "\<not> fc_cancelQueue c1"
    using assms(2) by (auto simp: t_def SetTransferAfterBridge_def grown_def split: option.splits dest!: call_Set_grown)
  have "(\<exists>er. r = er \<and> acts = ?acts @ [CancelsBranches] \<and> c' = c1) \<or>
      (\<exists>music sc. queue_join cx qs e rq q msgs music sc ?acts c1 = Some (r, scope', acts, c'))"
    using assms c1 unfolding call_queue_def Let_def t_def
    by (auto split: sum.splits option.splits if_splits)
  then show ?thesis using queue_join_undone n q1 by fastforce
qed

definition example_join :: call_join_arg where
  "example_join = \<lparr>qa_Priority = 0, qa_QueueId = 3, qa_QueueName = [], qa_BucketId = 0, qa_Bucket = 0, qa_Agent = None, qa_StickyAgentId = 0,
     qa_RingtoneId = None, qa_RingtoneName = None, qa_Waiting = [], qa_Reporting = [], qa_Offering = [], qa_Bridged = [], qa_Timers = [],
     qa_TransferAfterBridge = None\<rparr>"

theorem call_queue_undone_witness:
  "\<exists>r scope' acts c'. call_queue example_ctx undefined \<lparr>kqs_GetAgentIdByExtension = \<lambda>_ _. None, kqs_Join = \<lambda>_. None\<rparr> undefined undefined
       (\<lambda>_. Inr example_join) [(id, CQBridged 7), (id, CQEof)] undefined GNil (example_call []) = Some (r, scope', acts, c') \<and>
     acts = [CancelsBranches] \<and> count_list acts CancelsBranches = 1 \<and> \<not> fc_cancelQueue c'"
proof -
  have c: "fc_cancelQueue (example_call []) = False" "HangupCause (example_call []) = []" "fc_stopped (example_call []) = False" by code_simp+
  obtain r scope' acts c' where h: "call_queue example_ctx undefined \<lparr>kqs_GetAgentIdByExtension = \<lambda>_ _. None, kqs_Join = \<lambda>_. None\<rparr> undefined undefined
       (\<lambda>_. Inr example_join) [(id, CQBridged 7), (id, CQEof)] undefined GNil (example_call []) = Some (r, scope', acts, c')" "acts = [CancelsBranches]"
    using c by (simp add: call_queue_def queue_join_def example_join_def Let_def call_ringtone_def queue_timer_names_def queue_branch_def SetQueueCancel_def)
  from call_queue_undone [OF h(1)] h c(1) show ?thesis by simp
qed

section \<open>The endpoints of a bridge\<close>

lemma remote_endpoints_panic:
  "key \<le> length eps \<Longrightarrow> remote_endpoints ff c eps key rows = None \<longleftrightarrow>
     length eps - key < length rows \<and> ep_TypeName (rows ! (length eps - key)) \<in> {''gateway'', ''user''}"
proof (induction rows arbitrary: key)
  case (Cons e rows)
  show ?case
  proof (cases "key = length eps")
    case True
    have "remote_endpoints ff c eps (Suc (length eps)) rows \<noteq> None" by (cases rows) auto
    then show ?thesis using True by auto
  next
    case False
    then have "length eps - key = Suc (length eps - Suc key)" "Suc key \<le> length eps" using Cons.prems by auto
    then show ?thesis using Cons.IH [of "Suc key"] False by auto
  qed
qed simp

text \<open>
  Preparing the endpoints of a bridge panics exactly when the store returns more rows than endpoints were asked
  for and the first row too many is a gateway or a user: the guard against such rows compares with the wrong
  operator.
\<close>

lemma bridge_extra_row_panics:
  "getRemoteEndpoints (\<lambda>_ _. Inr rows) ff c eps = None \<longleftrightarrow>
     length eps < length rows \<and> ep_TypeName (rows ! length eps) \<in> {''gateway'', ''user''}"
  using remote_endpoints_panic [of 0 eps ff c rows] by (auto simp: getRemoteEndpoints_def)

section \<open>Results without a response\<close>

text \<open>
  \<open>setUser\<close> panics when it succeeds: it returns neither a response nor an error, and the engine prints the
  response.  The process ends, since nothing recovers.
\<close>

lemma setUser_success_panics:
  assumes "apps ''setUser'' = Some (callHandlerMiddleware (call_SetUser store decode))"
    and "rq_name (deref f p) = ''setUser''" "rq_args (deref f p) = ArgVal v" "rq_limiter (deref f p) = None" "\<not> fl_cancel f"
    and "decode v = Inr i" "i \<noteq> 0" "store (fc_domainId c) (fc_id c) i = None" "env_select e c = ResultFirst"
  shows "route_round e (call_Request apps) f p c = None"
  using assms
  by (simp add: route_round_def route_select_def call_Request_def Router_Request_def callHandlerMiddleware_def call_SetUser_def with_args_def)

definition setUser_flow :: flow where
  "setUser_flow = New (\<lambda>_. None) \<lparr>cf_SchemaId = 1, cf_Timezone = [], cf_Name = [], cf_Schema = [[(''setUser'', GInt 5)]], cf_ConnId = None\<rparr>"

section \<open>Groups of an outbound pattern\<close>

lemma enumerate_group:
  "map_of (map (\<lambda>(k, v). (Itoa (int k), v)) (enumerate n groups)) (Itoa (int k)) = (if n \<le> k \<and> k < n + length groups then Some (groups ! (k - n)) else None)"
proof (induction groups arbitrary: n)
  case (Cons g gs)
  have "Itoa (int k) = Itoa (int n) \<longleftrightarrow> k = n" using Itoa_inj [of "int k" "int n"] by auto
  then show ?case using Cons.IH [of "Suc n"] by (auto simp: nth_Cons')
qed simp

lemma nat_digits_decimal: "list_all is_decimal (nat_digits k)"
proof -
  have "list_all (\<lambda>d. is_decimal (digit_char d)) [0..<10]" by code_simp
  then have "is_decimal (digit_char d)" if "d < 10" for d using that by (auto simp: list_all_iff)
  then show ?thesis using nat_digits_set [of _ k] by (auto simp: list_all_iff)
qed

lemma digits_span:
  assumes "list_all is_decimal ds" "rest = [] \<or> \<not> is_decimal (hd rest)"
  shows "takeWhile is_decimal (ds @ rest) = ds" "dropWhile is_decimal (ds @ rest) = rest"
  using assms by (auto simp: list_all_iff takeWhile_append2 dropWhile_append2 takeWhile_eq_Nil_iff dropWhile_eq_self_iff)

text \<open>
  In the texts of an outbound call, \<open>$k\<close> stands for the \<open>k\<close>-th group of the pattern that matched the destination, with
  \<open>$0\<close> for the whole match, and for nothing when the pattern has no such group; the digits are taken greedily.
\<close>

lemma outbound_group:
  assumes "submatch pattern dest = Inr groups" "rest = [] \<or> \<not> is_decimal (hd rest)"
  shows "\<exists>out. getOutboundReg submatch pattern dest = Inr out \<and>
    out_groups out (''$'' @ Itoa (int k) @ rest) = (if k < length groups then groups ! k else []) @ out_groups out rest"
proof -
  have I: "Itoa (int k) = nat_digits k" by (simp add: Itoa_def)
  show ?thesis
    using assms(1) enumerate_group [of 0 groups k] digits_span [OF nat_digits_decimal assms(2), of k]
    by (simp add: getOutboundReg_def I)
qed

end
