(* ===== verification/Call_Events.thy ===== *)
theory Call_Events
  imports Fs_Call
begin

text \<open>
  The events of calls that arrive over the message queue, and the table they are written to (\<open>app/call.go\<close>,
  the events of \<open>model/call.go\<close>, \<open>store/pg_store/call_store.go\<close>).  Every event is handled in a goroutine of its own, so events of
  one call reach the table in any order.

  A statement is a function on the tables; one that fails changes nothing and is only logged.  JSON objects are maps,
  times are milliseconds, \<open>now\<close> is the time of the transaction.  Triggers of the database and the procedure behind
  \<open>SetBridged\<close> are not part of the repository: \<open>trg\<close> stands for the former, applied to each row that is written.
\<close>

type_synonym json_object = "string \<rightharpoonup> goval"

section \<open>Events (model/call.go)\<close>

record call_action =
  ca_Id :: string
  ca_AppId :: string
  ca_DomainId :: int
  ca_Timestamp :: int
  ca_Event :: string

record queue_info =
  qi_QueueId :: "int option"
  qi_AttemptId :: int
  qi_TeamId :: "int option"
  qi_AgentId :: "int option"
  qi_MemberId :: "int option"

record ringing_event = call_action +
  rg_GatewayId :: "int option"
  rg_UserId :: "int option"
  rg_Direction :: string
  rg_Destination :: string
  rg_DestinationName :: "string option"
  rg_From :: "call_endpoint option"
  rg_To :: "call_endpoint option"
  rg_ParentId :: "string option"
  rg_Queue :: "queue_info option"
  rg_GranteeId :: "int option"
  rg_SipId :: "string option"
  rg_UserAgent :: string
  rg_Heartbeat :: int
  rg_Video :: string
  rg_MeetingId :: string
  rg_ContactId :: "int option"
  rg_HideNumber :: "bool option"
  rg_IsConsultToQueue :: "bool option"

record bridged_event = call_action +
  bg_BridgedId :: string
  bg_ToName :: string

record hangup_event = call_action +
  hu_Cause :: string
  hu_Payload :: "json_object option"
  hu_SipCode :: "int option"
  hu_HangupBy :: "string option"
  hu_Tags :: "string list option"
  hu_AmdResult :: "string option"
  hu_AmdCause :: "string option"
  hu_RecordStart :: "int option"
  hu_RecordStop :: "int option"
  hu_TalkSec :: "rat option"
  hu_AmdAiResult :: "string option"
  hu_AmdAiResultLog :: "string list option"
  hu_AmdAiPositive :: "bool option"
  hu_CDR :: "bool option"
  hu_SchemaIds :: "int list option"
  hu_HangupPhrase :: "string option"
  hu_TransferFrom :: "string option"

record progress_event = call_action +
  pg_UserAgent :: string

definition GetQueueId :: "ringing_event \<Rightarrow> int option" where
  "GetQueueId r = Option.bind (rg_Queue r) qi_QueueId"

definition GetAttemptId :: "ringing_event \<Rightarrow> int option" where
  "GetAttemptId r = map_option qi_AttemptId (rg_Queue r)"

definition GetTeamId :: "ringing_event \<Rightarrow> int option" where
  "GetTeamId r = Option.bind (rg_Queue r) qi_TeamId"

definition GetAgentId :: "ringing_event \<Rightarrow> int option" where
  "GetAgentId r = Option.bind (rg_Queue r) qi_AgentId"

definition GetMemberIdId :: "ringing_event \<Rightarrow> int option" where
  "GetMemberIdId r = Option.bind (rg_Queue r) (\<lambda>q. case qi_MemberId q of Some m \<Rightarrow> if m \<noteq> 0 then Some m else None | None \<Rightarrow> None)"

definition set_when :: "bool \<Rightarrow> string \<Rightarrow> goval \<Rightarrow> json_object \<Rightarrow> json_object" where
  "set_when b k v m = (if b then m(k \<mapsto> v) else m)"

definition set_some :: "('a \<Rightarrow> goval) \<Rightarrow> string \<Rightarrow> 'a option \<Rightarrow> json_object \<Rightarrow> json_object" where
  "set_some f k x m = (case x of Some v \<Rightarrow> m(k \<mapsto> f v) | None \<Rightarrow> m)"

definition GetParams :: "ringing_event \<Rightarrow> json_object" where
  "GetParams r =
     set_when (rg_UserAgent r \<noteq> []) ''ua'' (GStr (rg_UserAgent r))
       (set_some GBool ''is_consult_to_queue'' (rg_IsConsultToQueue r)
       (set_some GBool ''hide_number'' (rg_HideNumber r)
       (set_when (rg_MeetingId r \<noteq> []) ''meeting_id'' (GStr (rg_MeetingId r))
       (set_when (rg_Video r \<noteq> []) ''video'' (GStr (rg_Video r))
       (set_when (rg_Heartbeat r > 0) ''heartbeat'' (GInt (rg_Heartbeat r))
         [''sip_id'' \<mapsto> GStr (case rg_SipId r of Some s \<Rightarrow> s | None \<Rightarrow> ca_Id r)])))))"

definition VariablesToJson :: "hangup_event \<Rightarrow> json_object" where
  "VariablesToJson h = (case hu_Payload h of Some m \<Rightarrow> m | None \<Rightarrow> Map.empty)"

definition hangup_Parameters :: "hangup_event \<Rightarrow> json_object" where
  "hangup_Parameters h =
     set_some GStr ''amd_cause'' (hu_AmdCause h) (set_some GInt ''record_start'' (hu_RecordStart h)
       (set_some GInt ''record_stop'' (hu_RecordStop h) Map.empty))"

definition AmdJson :: "hangup_event \<Rightarrow> json_object option" where
  "AmdJson h =
     (let m = set_some GBool ''positive'' (hu_AmdAiPositive h) (set_some (GArr \<circ> map GStr) ''log'' (hu_AmdAiResultLog h)
        (set_some GStr ''result'' (hu_AmdAiResult h) (set_some GStr ''cause'' (hu_AmdCause h)
        (set_some GStr ''result'' (hu_AmdResult h) Map.empty))))
      in if hu_AmdAiPositive h = None \<and> hu_AmdAiResultLog h = None \<and> hu_AmdAiResult h = None \<and> hu_AmdCause h = None \<and> hu_AmdResult h = None
         then None else Some m)"

definition UserAgentOrNil :: "progress_event \<Rightarrow> string option" where
  "UserAgentOrNil p = (if pg_UserAgent p = [] then None else Some (pg_UserAgent p))"

definition ToMapJson :: "json_object option \<Rightarrow> json_object" where
  "ToMapJson v = (case v of Some m \<Rightarrow> m | None \<Rightarrow> Map.empty)"

datatype call_event =
    EvRinging ringing_event | EvActive | EvHold | EvHeartbeat | EvBridge bridged_event | EvHangup hangup_event | EvTranscript goval
  | EvStats goval | EvProgress progress_event | EvOther goval

definition zero_ringing :: "call_action \<Rightarrow> ringing_event" where
  "zero_ringing a = call_action.extend a (ringing_event.fields None None [] [] None None None None None None None [] 0 [] [] None None None)"

definition zero_hangup :: "call_action \<Rightarrow> hangup_event" where
  "zero_hangup a = call_action.extend a (hangup_event.fields [] None None None None None None None None None None None None None None None None)"

definition zero_event :: "call_action \<Rightarrow> call_event option" where
  "zero_event a =
     (let n = ca_Event a in
      if n = ''ringing'' then Some (EvRinging (zero_ringing a))
      else if n = ''active'' then Some EvActive
      else if n = ''hold'' then Some EvHold
      else if n = ''heartbeat'' then Some EvHeartbeat
      else if n = ''bridge'' then Some (EvBridge (call_action.extend a (bridged_event.fields [] [])))
      else if n = ''hangup'' then Some (EvHangup (zero_hangup a))
      else if n = ''transcript'' then Some (EvTranscript GNil)
      else if n = ''stats'' then Some (EvStats GNil)
      else if n = ''progress'' then Some (EvProgress (call_action.extend a (progress_event.fields [])))
      else None)"

text \<open>
  The data are decoded into what was made for the name; \<open>unmarshal\<close> is the decoder, which keeps what it has read before an
  error, and gives nothing for the JSON text \<open>null\<close>.
\<close>

definition GetEvent :: "(string \<Rightarrow> call_event option \<Rightarrow> call_event option) \<Rightarrow> call_action \<Rightarrow> string option \<Rightarrow> call_event option" where
  "GetEvent unmarshal a data = (case data of None \<Rightarrow> zero_event a | Some t \<Rightarrow> unmarshal t (zero_event a))"

section \<open>The table (store/pg_store/call_store.go)\<close>

record row_endpoint =
  re_type :: "string option"
  re_name :: "string option"
  re_number :: "string option"
  re_id :: "string option"

definition endpoint_columns :: "call_endpoint option \<Rightarrow> row_endpoint" where
  "endpoint_columns e = \<lparr>re_type = map_option ce_Type e, re_name = map_option ce_Name e, re_number = map_option ce_Number e, re_id = map_option ce_Id e\<rparr>"

record call_row =
  cl_direction :: "string option"
  cl_destination :: "string option"
  cl_parent_id :: "string option"
  cl_timestamp :: int
  cl_state :: string
  cl_app_id :: string
  cl_from :: row_endpoint
  cl_to :: row_endpoint
  cl_payload :: "json_object option"
  cl_domain_id :: int
  cl_created_at :: "int option"
  cl_gateway_id :: "int option"
  cl_user_id :: "int option"
  cl_queue_id :: "int option"
  cl_agent_id :: "int option"
  cl_team_id :: "int option"
  cl_attempt_id :: "int option"
  cl_member_id :: "int option"
  cl_grantee_id :: "int option"
  cl_params :: "json_object option"
  cl_heartbeat :: "int option"
  cl_destination_name :: "string option"
  cl_contact_id :: "int option"
  cl_cause :: "string option"
  cl_sip_code :: "int option"
  cl_hangup_by :: "string option"
  cl_tags :: "string list option"
  cl_amd_result :: "string option"
  cl_talk_sec :: "int option"
  cl_amd_ai_result :: "string option"
  cl_amd_ai_logs :: "string list option"
  cl_amd_ai_positive :: "bool option"
  cl_schema_ids :: "int list option"
  cl_hangup_phrase :: "string option"
  cl_transfer_from :: "string option"
  cl_transfer_to :: "string option"
  cl_bridged_id :: "string option"
  cl_hangup_at :: "int option"
  cl_blind_transfer :: "string option"
  cl_blind_transfers :: "(string \<times> int) list option"

definition new_row :: "call_action \<Rightarrow> call_row" where
  "new_row a =
     \<lparr>cl_direction = None, cl_destination = None, cl_parent_id = None, cl_timestamp = ca_Timestamp a, cl_state = ca_Event a, cl_app_id = ca_AppId a,
      cl_from = endpoint_columns None, cl_to = endpoint_columns None, cl_payload = None, cl_domain_id = ca_DomainId a, cl_created_at = None, cl_gateway_id = None, cl_user_id = None,
      cl_queue_id = None, cl_agent_id = None, cl_team_id = None, cl_attempt_id = None, cl_member_id = None, cl_grantee_id = None, cl_params = None,
      cl_heartbeat = None, cl_destination_name = None, cl_contact_id = None, cl_cause = None, cl_sip_code = None, cl_hangup_by = None, cl_tags = None,
      cl_amd_result = None, cl_talk_sec = None, cl_amd_ai_result = None, cl_amd_ai_logs = None, cl_amd_ai_positive = None, cl_schema_ids = None,
      cl_hangup_phrase = None, cl_transfer_from = None, cl_transfer_to = None, cl_bridged_id = None, cl_hangup_at = None, cl_blind_transfer = None,
      cl_blind_transfers = None\<rparr>"

definition coalesce :: "'a option \<Rightarrow> 'a option \<Rightarrow> 'a option" where
  "coalesce x y = (case x of Some v \<Rightarrow> Some v | None \<Rightarrow> y)"

type_synonym call_table = "string \<rightharpoonup> call_row"

text \<open>
  \<open>insert ... on conflict (id) do update\<close>: a new row, or the columns of \<open>set\<close> on the old one.  A condition behind the conflict
  target, as in \<open>on conflict (id) where p do update\<close>, only selects the unique index; \<open>Save\<close> has none, so the index is not
  partial, and the condition decides nothing.
\<close>

definition upsert :: "(call_row option \<Rightarrow> call_row \<Rightarrow> call_row) \<Rightarrow> string \<Rightarrow> call_row \<Rightarrow> (call_row \<Rightarrow> call_row) \<Rightarrow> call_table \<Rightarrow> call_table" where
  "upsert trg i new upd t = (case t i of None \<Rightarrow> t(i \<mapsto> trg None new) | Some r \<Rightarrow> t(i \<mapsto> trg (Some r) (upd r)))"

definition update_call :: "(call_row option \<Rightarrow> call_row \<Rightarrow> call_row) \<Rightarrow> string \<Rightarrow> (call_row \<Rightarrow> bool) \<Rightarrow> (call_row \<Rightarrow> call_row) \<Rightarrow> call_table \<Rightarrow> call_table" where
  "update_call trg i p upd t = (case t i of Some r \<Rightarrow> if p r then t(i \<mapsto> trg (Some r) (upd r)) else t | None \<Rightarrow> t)"

text \<open>What a ringing event says of a call; the payload of the event is not stored.\<close>

definition ringing_columns :: "int \<Rightarrow> ringing_event \<Rightarrow> call_row \<Rightarrow> call_row" where
  "ringing_columns now r row = row\<lparr>cl_created_at := Some (ca_Timestamp r), cl_direction := Some (rg_Direction r), cl_destination := Some (rg_Destination r),
     cl_parent_id := rg_ParentId r, cl_from := endpoint_columns (rg_From r), cl_to := endpoint_columns (rg_To r), cl_gateway_id := rg_GatewayId r, cl_user_id := rg_UserId r, cl_payload := None,
     cl_queue_id := GetQueueId r, cl_agent_id := GetAgentId r, cl_team_id := GetTeamId r, cl_attempt_id := GetAttemptId r, cl_member_id := GetMemberIdId r,
     cl_grantee_id := rg_GranteeId r, cl_params := Some (GetParams r), cl_heartbeat := (if rg_Heartbeat r > 0 then Some now else None),
     cl_destination_name := rg_DestinationName r, cl_contact_id := rg_ContactId r\<rparr>"

definition call_Save :: "(call_row option \<Rightarrow> call_row \<Rightarrow> call_row) \<Rightarrow> int \<Rightarrow> ringing_event \<Rightarrow> call_table \<Rightarrow> call_table" where
  "call_Save trg now r = upsert trg (ca_Id r) (ringing_columns now r (new_row (call_action.truncate r))) (ringing_columns now r)"

definition call_SetState :: "(call_row option \<Rightarrow> call_row \<Rightarrow> call_row) \<Rightarrow> call_action \<Rightarrow> call_table \<Rightarrow> call_table" where
  "call_SetState trg a = upsert trg (ca_Id a) (new_row a) (\<lambda>r. r\<lparr>cl_state := ca_Event a, cl_timestamp := ca_Timestamp a\<rparr>)"

definition merge_json :: "json_object option \<Rightarrow> json_object \<Rightarrow> json_object option" where
  "merge_json old new = Some ((case old of Some m \<Rightarrow> m | None \<Rightarrow> Map.empty) ++ new)"

definition hangup_columns :: "int \<Rightarrow> hangup_event \<Rightarrow> call_row \<Rightarrow> call_row" where
  "hangup_columns talk h row = row\<lparr>cl_state := ca_Event h, cl_cause := Some (hu_Cause h), cl_sip_code := hu_SipCode h, cl_hangup_by := hu_HangupBy h,
     cl_tags := hu_Tags h, cl_amd_result := hu_AmdResult h, cl_talk_sec := Some talk, cl_timestamp := ca_Timestamp h, cl_amd_ai_result := hu_AmdAiResult h,
     cl_amd_ai_logs := hu_AmdAiResultLog h, cl_amd_ai_positive := hu_AmdAiPositive h, cl_schema_ids := hu_SchemaIds h, cl_hangup_phrase := hu_HangupPhrase h\<rparr>"

text \<open>\<open>cast\<close> is the conversion of the seconds to an integer by the database; it may refuse the statement.\<close>

definition call_SetHangup :: "(call_row option \<Rightarrow> call_row \<Rightarrow> call_row) \<Rightarrow> (rat \<Rightarrow> int option) \<Rightarrow> hangup_event \<Rightarrow> call_table \<Rightarrow> call_table" where
  "call_SetHangup trg cast h t =
     (case (case hu_TalkSec h of Some s \<Rightarrow> cast s | None \<Rightarrow> Some 0) of
        None \<Rightarrow> t
      | Some talk \<Rightarrow>
          upsert trg (ca_Id h)
            (hangup_columns talk h (new_row (call_action.truncate h))\<lparr>cl_payload := Some (VariablesToJson h), cl_params := Some (hangup_Parameters h), cl_transfer_from := hu_TransferFrom h\<rparr>)
            (\<lambda>r. (hangup_columns talk h r)\<lparr>cl_payload := merge_json (cl_payload r) (VariablesToJson h), cl_params := merge_json (cl_params r) (hangup_Parameters h),
                 cl_transfer_from := coalesce (cl_transfer_from r) (hu_TransferFrom h)\<rparr>) t)"

definition call_Delete :: "string \<Rightarrow> call_table \<Rightarrow> call_table" where
  "call_Delete i t = t(i := None)"

definition call_UpdateFrom :: "(call_row option \<Rightarrow> call_row \<Rightarrow> call_row) \<Rightarrow> string \<Rightarrow> string option \<Rightarrow> string option \<Rightarrow> string option \<Rightarrow> call_table \<Rightarrow> call_table" where
  "call_UpdateFrom trg i name number destination =
     update_call trg i (\<lambda>_. True) (\<lambda>r. r\<lparr>
       cl_from := (cl_from r)\<lparr>re_number := coalesce number (re_number (cl_from r)), re_name := coalesce name (re_name (cl_from r))\<rparr>,
       cl_destination := coalesce destination (cl_destination r)\<rparr>)"

definition call_SetGranteeId :: "(call_row option \<Rightarrow> call_row \<Rightarrow> call_row) \<Rightarrow> int \<Rightarrow> string \<Rightarrow> int \<Rightarrow> call_table \<Rightarrow> call_table" where
  "call_SetGranteeId trg domainId i granteeId = update_call trg i (\<lambda>r. cl_domain_id r = domainId) (\<lambda>r. r\<lparr>cl_grantee_id := Some granteeId\<rparr>)"

definition call_SetUserId :: "(call_row option \<Rightarrow> call_row \<Rightarrow> call_row) \<Rightarrow> int \<Rightarrow> string \<Rightarrow> int \<Rightarrow> call_table \<Rightarrow> call_table" where
  "call_SetUserId trg domainId i userId = update_call trg i (\<lambda>r. cl_domain_id r = domainId) (\<lambda>r. r\<lparr>cl_user_id := Some userId\<rparr>)"

definition call_SetBlindTransfer :: "(call_row option \<Rightarrow> call_row \<Rightarrow> call_row) \<Rightarrow> int \<Rightarrow> int \<Rightarrow> string \<Rightarrow> string \<Rightarrow> call_table \<Rightarrow> call_table" where
  "call_SetBlindTransfer trg now domainId i destination =
     update_call trg i (\<lambda>r. cl_domain_id r = domainId) (\<lambda>r. r\<lparr>cl_blind_transfer := Some destination,
       cl_blind_transfers := Some ((case cl_blind_transfers r of Some l \<Rightarrow> l | None \<Rightarrow> []) @ [(destination, now)])\<rparr>)"

text \<open>Only whole seconds are ever written under the key.\<close>

definition heartbeat_sec :: "call_row \<Rightarrow> int option" where
  "heartbeat_sec r = (case Option.bind (cl_params r) (\<lambda>m. m ''heartbeat'') of Some (GInt n) \<Rightarrow> Some n | _ \<Rightarrow> None)"

definition call_SetHeartbeat :: "(call_row option \<Rightarrow> call_row \<Rightarrow> call_row) \<Rightarrow> int \<Rightarrow> string \<Rightarrow> call_table \<Rightarrow> call_table" where
  "call_SetHeartbeat trg now i = update_call trg i (\<lambda>_. True) (\<lambda>r. r\<lparr>cl_heartbeat := map_option (\<lambda>n. now + 1000 * n) (heartbeat_sec r)\<rparr>)"

definition call_SaveProgress :: "(call_row option \<Rightarrow> call_row \<Rightarrow> call_row) \<Rightarrow> progress_event \<Rightarrow> call_table \<Rightarrow> call_table" where
  "call_SaveProgress trg p =
     update_call trg (ca_Id p) (\<lambda>_. True) (\<lambda>r. r\<lparr>cl_params := merge_json (cl_params r) (set_some GStr ''ua'' (UserAgentOrNil p) Map.empty)\<rparr>)"

section \<open>History\<close>

text \<open>A call of the history: its row, and what is gathered from the calls related to it.\<close>

record history_row =
  hr_row :: call_row
  hr_user_ids :: "int list option"
  hr_agent_ids :: "int list option"
  hr_gateway_ids :: "int list option"
  hr_queue_ids :: "int list option"
  hr_team_ids :: "int list option"
  hr_attempt_ids :: "int list option"
  hr_search_number :: "string option"

record call_db =
  db_calls :: call_table
  db_history :: "string \<rightharpoonup> history_row"
  db_transcripts :: "(string \<times> goval) list"
  db_stats :: "string \<times> int \<rightharpoonup> goval"

text \<open>
  What the database brings: its rows in the order of the time of the hangup, the rows other transactions have
  locked, the attempts that still run, the aggregate of JSON objects and the order of texts.
\<close>

record db_view =
  dv_now :: int
  dv_scan :: "string list"
  dv_locked :: "string \<Rightarrow> bool"
  dv_attempt :: "int \<Rightarrow> bool"
  dv_concat :: "json_object list \<Rightarrow> json_object option"
  dv_collate :: "string list \<Rightarrow> string list"

definition rows :: "db_view \<Rightarrow> call_table \<Rightarrow> (string \<times> call_row) list" where
  "rows dv t = List.map_filter (\<lambda>i. map_option (Pair i) (t i)) (dv_scan dv)"

definition lost_heartbeat :: "int \<Rightarrow> call_row \<Rightarrow> bool" where
  "lost_heartbeat now r =
     (cl_hangup_at r = None \<and> cl_cause r = None \<and>
      (case (cl_heartbeat r, heartbeat_sec r) of (Some h, Some n) \<Rightarrow> h < now - 3000 * n | _ \<Rightarrow> False))"

definition media_timeout :: "int \<Rightarrow> call_row \<Rightarrow> call_row" where
  "media_timeout now r = r\<lparr>cl_state := ''hangup'', cl_sip_code := Some 604, cl_hangup_at := Some (now - 2000), cl_hangup_by := Some ''service'',
     cl_cause := Some ''MEDIA_TIMEOUT''\<rparr>"

text \<open>A child waits until its parent is gone, a parent until its children have ended.\<close>

definition movable :: "db_view \<Rightarrow> call_table \<Rightarrow> string \<Rightarrow> call_row \<Rightarrow> bool" where
  "movable dv t i r =
     ((case cl_hangup_at r of Some h \<Rightarrow> h < dv_now dv - 1000 | None \<Rightarrow> False) \<and> cl_direction r \<noteq> None \<and>
      \<not> list_ex (\<lambda>(j, s). case cl_parent_id r of Some p \<Rightarrow> j = p | None \<Rightarrow> cl_parent_id s = Some i \<and> cl_hangup_at s = None) (rows dv t) \<and>
      (case cl_attempt_id r of Some att \<Rightarrow> \<not> dv_attempt dv att | None \<Rightarrow> True))"

definition moved_batch :: "db_view \<Rightarrow> call_table \<Rightarrow> (string \<times> call_row) list" where
  "moved_batch dv t = take 1000 (filter (\<lambda>(i, r). movable dv t i r \<and> \<not> dv_locked dv i) (rows dv t))"

definition related :: "db_view \<Rightarrow> call_table \<Rightarrow> string \<Rightarrow> call_row \<Rightarrow> call_row list" where
  "related dv t i r =
     map snd (filter (\<lambda>(j, s). cl_parent_id s = Some i \<or> cl_bridged_id r = Some j \<or> cl_transfer_to s = Some i \<or> cl_transfer_from s = Some i) (rows dv t))"

text \<open>\<open>array_agg(distinct ...)\<close>, behind the value of the call itself; no values give no array.\<close>

definition gathered :: "(call_row \<Rightarrow> int option) \<Rightarrow> call_row \<Rightarrow> call_row list \<Rightarrow> int list option" where
  "gathered sel r chs =
     (let xs = (if cl_parent_id r = None then sort (remdups (List.map_filter sel chs)) else []) in
      case sel r of Some x \<Rightarrow> Some (x # xs) | None \<Rightarrow> if xs = [] then None else Some xs)"

definition search_number :: "db_view \<Rightarrow> call_row \<Rightarrow> call_row list \<Rightarrow> string option" where
  "search_number dv r chs =
     (let ns = remdups (filter (\<lambda>n. n \<noteq> []) (concat (map (\<lambda>s. List.map_filter id [re_number (cl_from s), re_number (cl_to s), cl_destination s]) (r # chs)))) in
      if ns = [] then None else Some (join_with ''|'' (dv_collate dv ns)))"

definition history_of :: "db_view \<Rightarrow> call_table \<Rightarrow> string \<Rightarrow> call_row \<Rightarrow> history_row" where
  "history_of dv t i r =
     (let chs = related dv t i r in
      \<lparr>hr_row = r\<lparr>cl_payload := merge_json (dv_concat dv (List.map_filter cl_payload chs)) (case cl_payload r of Some m \<Rightarrow> m | None \<Rightarrow> Map.empty)\<rparr>,
       hr_user_ids = gathered cl_user_id r chs, hr_agent_ids = gathered cl_agent_id r chs, hr_gateway_ids = gathered cl_gateway_id r chs,
       hr_queue_ids = gathered cl_queue_id r chs, hr_team_ids = gathered cl_team_id r chs, hr_attempt_ids = gathered cl_attempt_id r chs,
       hr_search_number = search_number dv r chs\<rparr>)"

text \<open>All parts of the statement read the table as it was before; the missed calls are those of users nobody talked to.\<close>

definition MoveToHistory :: "(call_row option \<Rightarrow> call_row \<Rightarrow> call_row) \<Rightarrow> db_view \<Rightarrow> call_db \<Rightarrow> (string \<times> int \<times> int) list \<times> call_db" where
  "MoveToHistory trg dv db =
     (let t = db_calls db; moved = moved_batch dv t;
          t1 = (\<lambda>i. map_option (\<lambda>r. if lost_heartbeat (dv_now dv) r then trg (Some r) (media_timeout (dv_now dv) r) else r) (t i)) in
      (List.map_filter (\<lambda>(i, r). if cl_bridged_id r = None \<and> cl_parent_id r \<noteq> None then map_option (\<lambda>u. (i, u, cl_domain_id r)) (cl_user_id r) else None) moved,
       db\<lparr>db_calls := t1 |` (- fst ` set moved), db_history := db_history db ++ map_of (map (\<lambda>(i, r). (i, history_of dv t i r)) moved)\<rparr>))"

definition history_contact :: "int \<Rightarrow> string \<Rightarrow> int \<Rightarrow> call_db \<Rightarrow> call_db" where
  "history_contact domainId i contactId db =
     (case db_history db i of
        Some h \<Rightarrow>
          (if cl_domain_id (hr_row h) = domainId
           then db\<lparr>db_history := (db_history db)(i \<mapsto> h\<lparr>hr_row := (hr_row h)\<lparr>cl_contact_id := Some contactId\<rparr>\<rparr>)\<rparr> else db)
      | None \<Rightarrow> db)"

definition call_SetContactId :: "(call_row option \<Rightarrow> call_row \<Rightarrow> call_row) \<Rightarrow> int \<Rightarrow> string \<Rightarrow> int \<Rightarrow> call_db \<Rightarrow> call_db" where
  "call_SetContactId trg domainId i contactId db =
     (case db_calls db i of
        Some r \<Rightarrow>
          (if cl_domain_id r = domainId then db\<lparr>db_calls := (db_calls db)(i \<mapsto> trg (Some r) (r\<lparr>cl_contact_id := Some contactId\<rparr>))\<rparr>
           else history_contact domainId i contactId db)
      | None \<Rightarrow> history_contact domainId i contactId db)"

definition call_SetVariables :: "(call_row option \<Rightarrow> call_row \<Rightarrow> call_row) \<Rightarrow> string \<Rightarrow> json_object option \<Rightarrow> call_db \<Rightarrow> call_db" where
  "call_SetVariables trg i vars db =
     db\<lparr>db_calls := update_call trg i (\<lambda>_. True) (\<lambda>r. r\<lparr>cl_payload := merge_json (cl_payload r) (ToMapJson vars)\<rparr>) (db_calls db),
        db_history := (case db_history db i of
          Some h \<Rightarrow> (db_history db)(i \<mapsto> h\<lparr>hr_row := (hr_row h)\<lparr>cl_payload := merge_json (cl_payload (hr_row h)) (ToMapJson vars)\<rparr>\<rparr>)
        | None \<Rightarrow> db_history db)\<rparr>"

definition SaveTranscript :: "string \<Rightarrow> goval \<Rightarrow> call_db \<Rightarrow> call_db" where
  "SaveTranscript i v db = db\<lparr>db_transcripts := db_transcripts db @ [(i, v)]\<rparr>"

section \<open>The handler of events (app/call.go)\<close>

text \<open>What the store needs besides: the triggers, the cast, the procedure of a bridge and the identifier in media statistics.\<close>

record event_env =
  ee_trg :: "call_row option \<Rightarrow> call_row \<Rightarrow> call_row"
  ee_cast :: "rat \<Rightarrow> int option"
  ee_bridged :: "bridged_event \<Rightarrow> call_table \<Rightarrow> call_table"
  ee_sip_id :: "goval \<Rightarrow> string"
  ee_unmarshal :: "string \<Rightarrow> call_event option \<Rightarrow> call_event option"

definition SaveMediaStats :: "event_env \<Rightarrow> int \<Rightarrow> goval \<Rightarrow> call_db \<Rightarrow> call_db" where
  "SaveMediaStats ee domainId v db = db\<lparr>db_stats := (db_stats db)((ee_sip_id ee v, domainId) \<mapsto> v)\<rparr>"

definition accepts_event :: "call_action \<Rightarrow> bool" where
  "accepts_event a = (\<not> (ca_DomainId a = 0 \<and> ca_Event a \<noteq> ''stats''))"

definition on_calls :: "(call_table \<Rightarrow> call_table) \<Rightarrow> call_db \<Rightarrow> call_db" where
  "on_calls f db = db\<lparr>db_calls := f (db_calls db)\<rparr>"

text \<open>Events without a case of their own set the state, four kinds aside.\<close>

definition handleCallAction :: "event_env \<Rightarrow> int \<Rightarrow> call_action \<Rightarrow> string option \<Rightarrow> call_db \<Rightarrow> call_db" where
  "handleCallAction ee now a data db =
     (let trg = ee_trg ee in
      case GetEvent (ee_unmarshal ee) a data of
        Some (EvRinging r) \<Rightarrow> on_calls (call_Save trg now r) db
      | Some (EvBridge b) \<Rightarrow> on_calls (ee_bridged ee b) db
      | Some (EvTranscript v) \<Rightarrow> SaveTranscript (ca_Id a) v db
      | Some EvHeartbeat \<Rightarrow> on_calls (call_SetHeartbeat trg now (ca_Id a)) db
      | Some (EvHangup h) \<Rightarrow> on_calls (if hu_CDR h = Some False then call_Delete (ca_Id h) else call_SetHangup trg (ee_cast ee) h) db
      | Some (EvStats v) \<Rightarrow> SaveMediaStats ee (ca_DomainId a) v db
      | Some (EvProgress p) \<Rightarrow> on_calls (call_SaveProgress trg p) db
      | _ \<Rightarrow> if ca_Event a \<in> {''eavesdrop'', ''dtmf'', ''update'', ''transcript''} then db else on_calls (call_SetState trg a) db)"

text \<open>The listener passes accepted events on; here in the order in which their goroutines get to the store.\<close>

definition listenCallEvents :: "event_env \<Rightarrow> (int \<times> call_action \<times> string option) list \<Rightarrow> call_db \<Rightarrow> call_db" where
  "listenCallEvents ee evs db = fold (\<lambda>(now, a, data). if accepts_event a then handleCallAction ee now a data else id) evs db"

definition storeHangupCalls :: "event_env \<Rightarrow> db_view \<Rightarrow> call_db \<Rightarrow> (string \<times> int \<times> int) list \<times> call_db" where
  "storeHangupCalls ee dv db = MoveToHistory (ee_trg ee) dv db"

end
