(* ===== verification/Call_Events_Props.thy ===== *)
theory Call_Events_Props
  imports Call_Events
begin

text \<open>
  Properties of the table of calls over the orders in which events can reach it, and of the move to the history.
  \<open>columns_kept\<close> is what is assumed of the triggers: they do not change the columns the statements write.
\<close>

definition columns_kept :: "(call_row option \<Rightarrow> call_row \<Rightarrow> call_row) \<Rightarrow> bool" where
  "columns_kept trg = (\<forall>old new. cl_state (trg old new) = cl_state new \<and> cl_timestamp (trg old new) = cl_timestamp new \<and> cl_cause (trg old new) = cl_cause new \<and>
     cl_payload (trg old new) = cl_payload new \<and> cl_params (trg old new) = cl_params new \<and> cl_direction (trg old new) = cl_direction new)"

lemma columns_kept_sel [simp]:
  assumes "columns_kept trg"
  shows "cl_state (trg old new) = cl_state new" "cl_timestamp (trg old new) = cl_timestamp new" "cl_cause (trg old new) = cl_cause new"
    "cl_payload (trg old new) = cl_payload new" "cl_params (trg old new) = cl_params new" "cl_direction (trg old new) = cl_direction new"
  using assms by (simp_all add: columns_kept_def)

section \<open>Events out of order\<close>

text \<open>
  An event that sets the state, handled after the hangup of its call although it is older, overwrites the state and turns
  the time of the row back before the triggers see it; only the cause remains.  The condition that should prevent it
  stands behind the conflict target, where it selects an index.
\<close>

lemma late_event_overwrites_hangup:
  assumes "ca_Event a \<in> {''active'', ''hold''}" "db_calls db (ca_Id a) = Some r" "cl_state r = ''hangup''" "cl_cause r = Some cause"
    "ca_Timestamp a < cl_timestamp r"
  shows "\<exists>new. db_calls (handleCallAction ee now a None db) (ca_Id a) = Some (ee_trg ee (Some r) new) \<and> cl_state new = ca_Event a \<and>
    cl_timestamp new < cl_timestamp r \<and> cl_cause new = Some cause"
  using assms by (auto simp: handleCallAction_def GetEvent_def zero_event_def on_calls_def call_SetState_def upsert_def)

definition example_action :: "string \<Rightarrow> int \<Rightarrow> call_action" where
  "example_action event time = \<lparr>ca_Id = ''c1'', ca_AppId = ''fs'', ca_DomainId = 1, ca_Timestamp = time, ca_Event = event\<rparr>"

definition empty_db :: call_db where
  "empty_db = \<lparr>db_calls = Map.empty, db_history = Map.empty, db_transcripts = [], db_stats = Map.empty\<rparr>"

text \<open>
  A ringing event and the hangup of the same call give the same state, cause and direction in either order, so that a
  hangup which overtakes the ringing event is not forgotten; but the variables and the parameters of the hangup are
  dropped in that order.
\<close>

lemma late_ringing_drops_variables:
  assumes "columns_kept trg" "t (ca_Id r) = None" "ca_Id h = ca_Id r" "hu_TalkSec h = None"
  shows "\<exists>x y. call_SetHangup trg cast h (call_Save trg now r t) (ca_Id r) = Some x \<and> call_Save trg now r (call_SetHangup trg cast h t) (ca_Id r) = Some y \<and>
    cl_state x = cl_state y \<and> cl_cause x = cl_cause y \<and> cl_cause y = Some (hu_Cause h) \<and> cl_direction x = cl_direction y \<and>
    cl_payload x = Some (VariablesToJson h) \<and> cl_params x = Some (GetParams r ++ hangup_Parameters h) \<and>
    cl_payload y = None \<and> cl_params y = Some (GetParams r)"
  using assms
  by (simp add: call_SetHangup_def call_Save_def upsert_def hangup_columns_def ringing_columns_def merge_json_def new_row_def)

section \<open>The history\<close>

lemma rows_iff: "(i, r) \<in> set (rows dv t) \<longleftrightarrow> i \<in> set (dv_scan dv) \<and> t i = Some r"
  by (force simp: rows_def map_filter_def)

lemma moved_iff:
  assumes "(i, r) \<in> set (moved_batch dv t)"
  shows "i \<in> set (dv_scan dv)" "t i = Some r" "movable dv t i r"
  using assms rows_iff [of i r dv t] by (auto simp: moved_batch_def dest: in_set_takeD)

text \<open>
  What makes a call ready for the history: it ended more than a second ago and has a direction, its attempt is over, and, when
  it names a parent, the parent is not in the table, else no call that names it as the parent is still running.
\<close>

definition ready :: "db_view \<Rightarrow> call_table \<Rightarrow> string \<Rightarrow> call_row \<Rightarrow> bool" where
  "ready dv t i r =
     ((\<exists>h. cl_hangup_at r = Some h \<and> h < dv_now dv - 1000) \<and> cl_direction r \<noteq> None \<and> (\<forall>att. cl_attempt_id r = Some att \<longrightarrow> \<not> dv_attempt dv att) \<and>
      (\<forall>p. cl_parent_id r = Some p \<longrightarrow> t p = None) \<and>
      (cl_parent_id r = None \<longrightarrow> (\<forall>j s. t j = Some s \<and> cl_parent_id s = Some i \<longrightarrow> cl_hangup_at s \<noteq> None)))"

lemma movable_ready:
  assumes "set (dv_scan dv) = dom t"
  shows "movable dv t i r \<longleftrightarrow> ready dv t i r"
proof -
  have row: "(j, s) \<in> set (rows dv t) \<longleftrightarrow> t j = Some s" for j s using assms rows_iff [of j s dv t] by auto
  have "(\<not> list_ex (\<lambda>(j, s). case cl_parent_id r of Some p \<Rightarrow> j = p | None \<Rightarrow> cl_parent_id s = Some i \<and> cl_hangup_at s = None) (rows dv t)) \<longleftrightarrow>
      (\<forall>p. cl_parent_id r = Some p \<longrightarrow> t p = None) \<and>
      (cl_parent_id r = None \<longrightarrow> (\<forall>j s. t j = Some s \<and> cl_parent_id s = Some i \<longrightarrow> cl_hangup_at s \<noteq> None))"
  proof (cases "cl_parent_id r")
    case None
    then show ?thesis using row by (force simp: list_ex_iff)
  next
    case (Some p)
    have "(\<forall>x\<in>set (rows dv t). fst x \<noteq> p) \<longleftrightarrow> t p = None" using row by (cases "t p") force+
    then show ?thesis using Some by (simp add: list_ex_iff case_prod_beta)
  qed
  then show ?thesis by (auto simp: movable_def ready_def split: option.splits)
qed

lemma moved_ready:
  assumes "set (dv_scan dv) = dom t"
  shows "(i, r) \<in> set (moved_batch dv t) \<Longrightarrow> t i = Some r \<and> ready dv t i r \<and> \<not> dv_locked dv i"
    and "length (moved_batch dv t) < 1000 \<Longrightarrow> t i = Some r \<Longrightarrow> ready dv t i r \<Longrightarrow> \<not> dv_locked dv i \<Longrightarrow> (i, r) \<in> set (moved_batch dv t)"
  using rows_iff [of i r dv t] assms by (auto simp: moved_batch_def movable_ready dest!: in_set_takeD)

text \<open>
  C30: The move to the history loses no call and copies none: every call is afterwards in the table or in the
  history, and the moved ones are no longer in the table; the history has of each the row with what is gathered of its
  relatives.  Moved are only calls that ended more than a second ago, have a direction, are not locked, whose attempt is over, and
  which either name a parent that is not in the table or name none and have no running child; and all of these, when they are fewer than a thousand.
\<close>

theorem history_keeps_calls:
  assumes "set (dv_scan dv) = dom (db_calls db)" "MoveToHistory trg dv db = (missed, db')" "moved = moved_batch dv (db_calls db)"
  shows "dom (db_calls db') \<union> dom (db_history db') = dom (db_calls db) \<union> dom (db_history db) \<and>
    dom (db_calls db') = dom (db_calls db) - fst ` set moved \<and>
    (\<forall>(i, r)\<in>set moved. db_history db' i = Some (history_of dv (db_calls db) i r)) \<and>
    (\<forall>(i, r)\<in>set moved. db_calls db i = Some r \<and> ready dv (db_calls db) i r \<and> \<not> dv_locked dv i) \<and>
    (length moved < 1000 \<longrightarrow> (\<forall>i r. db_calls db i = Some r \<and> ready dv (db_calls db) i r \<and> \<not> dv_locked dv i \<longrightarrow> (i, r) \<in> set moved))"
proof -
  note m = moved_ready [OF assms(1), folded assms(3)]
  have sub: "fst ` set moved \<subseteq> dom (db_calls db)" using m(1) by force
  let ?h = "map_of (map (\<lambda>(i, r). (i, history_of dv (db_calls db) i r)) moved)"
  have dh: "dom ?h = fst ` set moved" by (force simp: dom_map_of_conv_image_fst)
  have h': "db_history db' = db_history db ++ ?h" using assms(2,3) by (auto simp: MoveToHistory_def Let_def)
  then have h: "dom (db_history db') = fst ` set moved \<union> dom (db_history db)" using dh by simp
  have "dom ((\<lambda>i. map_option f (db_calls db i)) |` (- A)) = dom (db_calls db) - A" for f A by (auto simp: restrict_map_def split: if_splits)
  moreover have "db' = snd (MoveToHistory trg dv db)" using assms(2) by simp
  ultimately have d: "dom (db_calls db') = dom (db_calls db) - fst ` set moved" unfolding MoveToHistory_def Let_def assms(3) by simp
  have s: "db_history db' i = Some (history_of dv (db_calls db) i r)" if "(i, r) \<in> set moved" for i r
  proof -
    have "i \<in> fst ` set moved" using that by force
    then obtain v where v: "?h i = Some v" unfolding dh [symmetric] by blast
    then obtain r' where "(i, r') \<in> set moved" "v = history_of dv (db_calls db) i r'" by (auto dest!: map_of_SomeD)
    then show ?thesis using v h' m(1) [OF that] m(1) [of i r'] by simp
  qed
  have u: "dom (db_calls db') \<union> dom (db_history db') = dom (db_calls db) \<union> dom (db_history db)" using d h sub by blast
  have "\<forall>(i, r)\<in>set moved. db_history db' i = Some (history_of dv (db_calls db) i r)" using s by auto
  moreover have "\<forall>(i, r)\<in>set moved. db_calls db i = Some r \<and> ready dv (db_calls db) i r \<and> \<not> dv_locked dv i" using m(1) by auto
  ultimately show ?thesis using u d m(2) by simp
qed

definition example_moved :: "db_view \<times> call_db" where
  "example_moved =
     (\<lparr>dv_now = 5000, dv_scan = [''c1''], dv_locked = \<lambda>_. False, dv_attempt = \<lambda>_. False, dv_concat = \<lambda>_. None, dv_collate = id\<rparr>,
      empty_db\<lparr>db_calls := [''c1'' \<mapsto> (new_row (example_action ''hangup'' 9))\<lparr>cl_direction := Some ''inbound'', cl_hangup_at := Some 10\<rparr>]\<rparr>)"

theorem history_keeps_calls_witness:
  "(case example_moved of (dv, db) \<Rightarrow> set (dv_scan dv) = dom (db_calls db) \<and> map fst (moved_batch dv (db_calls db)) = [''c1''] \<and>
     dom (db_calls (snd (MoveToHistory (\<lambda>_ r. r) dv db))) = {} \<and>
     dom (db_calls (snd (MoveToHistory (\<lambda>_ r. r) dv db))) \<union> dom (db_history (snd (MoveToHistory (\<lambda>_ r. r) dv db))) = {''c1''})"
proof -
  obtain dv db where e: "example_moved = (dv, db)" by force
  have s: "set (dv_scan dv) = dom (db_calls db)" "dom (db_calls db) = {''c1''}" "dom (db_history db) = {}" using e by (auto simp: example_moved_def empty_db_def split: if_splits)
  have "map fst (moved_batch (fst example_moved) (db_calls (snd example_moved))) = [''c1'']" by code_simp
  then have m: "map fst (moved_batch dv (db_calls db)) = [''c1'']" unfolding e fst_conv snd_conv .
  then have f: "fst ` set (moved_batch dv (db_calls db)) = {''c1''}" by (metis list.set_map list.simps(15) list.set(1))
  obtain missed db' where mv: "MoveToHistory (\<lambda>_ r. r) dv db = (missed, db')" by force
  note H = history_keeps_calls [OF s(1) mv refl]
  have "dom (db_calls db') = {}" using conjunct1 [OF conjunct2 [OF H]] s(2) f by simp
  moreover have "dom (db_calls db') \<union> dom (db_history db') = {''c1''}" using conjunct1 [OF H] s(2,3) by simp
  ultimately show ?thesis using s(1) m unfolding e prod.case mv snd_conv by simp
qed

end
