(* ===== verification/Form_Conn.thy ===== *)
theory Form_Conn
  imports Chat_Server Flow_Basic
begin

text \<open>
  Form processing (\<open>providers/grpc/processing_connection.go\<close>, \<open>processing_server.go\<close>,
  \<open>pkg/processing/model.go\<close>): a schema shows a form to the user of a web page and waits for the user's action.

  The goroutine of the schema (\<open>PushForm\<close>) and the requests of the page (\<open>FormAction\<close>) meet on a channel
  without a buffer, which the connection holds in a field that both read and write without a lock.  Each is modelled as a
  sequence of atomic steps: every read and write of a shared field and every operation on a channel is one step, and the steps of
  different goroutines interleave in any order.  A channel is an index into \<open>pro_closed\<close>, which tells whether it is
  closed.
\<close>

section \<open>Data (pkg/processing/model.go)\<close>

text \<open>\<open>None\<close> is a nil map of fields.\<close>

record form_action =
  pfa_Name :: string
  pfa_Fields :: "(string \<times> goval) list option"

record select_option =
  pso_Id :: int
  pso_Name :: string
  pso_Value :: string
  pso_Initial :: bool
  pso_Final :: bool

text \<open>The fields of a view that are only passed on to the page are together in \<open>pvw_rest\<close>.\<close>

record form_view =
  pvw_Component :: string
  pvw_Label :: string
  pvw_Hint :: string
  pvw_InitialValue :: string
  pvw_Options :: "select_option list"
  pvw_Token :: string
  pvw_ServiceId :: int
  pvw_rest :: "(string \<times> goval) list"

record form_component =
  pcm_Id :: string
  pcm_View :: "form_view option"
  pcm_Value :: goval

record form_file =
  pff_Id :: string
  pff_View :: "(string \<times> goval) list"
  pff_Value :: goval

text \<open>
  The function of an output is a closure over the applications of the output and the flow the table was declared
  in.
\<close>

record form_table =
  ptb_Id :: string
  ptb_OutputsFn :: "(string \<times> applications) list"
  ptb_scope :: flow
  ptb_View :: "(string \<times> goval) list option"

record status_component =
  pst_Id :: string
  pst_View :: form_view
  pst_Value :: goval

text \<open>What \<open>SetComponent\<close> stores as \<open>any\<close>.\<close>

datatype form_part = PartComponent form_component | PartFile form_file | PartTable form_table | PartStatus status_component

record form_action_elem =
  pae_Id :: string
  pae_View :: "(string \<times> goval) list option"

record form_elem =
  pel_Id :: string
  pel_Title :: string
  pel_Actions :: "form_action_elem option list"
  pel_Body :: "form_part list"

section \<open>The connection\<close>

record processing_conn =
  pro_id :: string
  pro_variables :: "string \<rightharpoonup> string"
  pro_exportVariables :: "string list"
  pro_domainId :: int
  pro_schemaId :: int
  pro_formId :: string
  pro_forms :: "form_elem list"
  pro_formAction :: "nat option"
  pro_closed :: "bool list"
  pro_finished :: bool
  pro_components :: "string \<rightharpoonup> form_part"
  pro_cancelled :: bool
  pro_appId :: string

text \<open>\<open>newId\<close> is the fresh identifier; a nil map of variables is the empty one.\<close>

definition NewProcessingConnection :: "string \<Rightarrow> int \<Rightarrow> int \<Rightarrow> (string \<rightharpoonup> string) \<Rightarrow> processing_conn" where
  "NewProcessingConnection newId domainId schemaId vars =
     (let attemptId = (case vars ''attempt_id'' of Some t \<Rightarrow> Atoi_clamp t | None \<Rightarrow> 0) in
      \<lparr>pro_id = Itoa attemptId @ ''-'' @ newId, pro_variables = vars, pro_exportVariables = [], pro_domainId = domainId,
       pro_schemaId = schemaId, pro_formId = [], pro_forms = [], pro_formAction = None, pro_closed = [], pro_finished = False,
       pro_components = Map.empty, pro_cancelled = False, pro_appId = []\<rparr>)"

definition SetComponent :: "string \<Rightarrow> form_part \<Rightarrow> processing_conn \<Rightarrow> processing_conn" where
  "SetComponent name part p = p\<lparr>pro_components := (pro_components p)(name \<mapsto> part)\<rparr>"

definition GetComponentByName :: "string \<Rightarrow> processing_conn \<Rightarrow> form_part option" where
  "GetComponentByName name p = pro_components p name"

definition form_Export :: "string list \<Rightarrow> processing_conn \<Rightarrow> processing_conn" where
  "form_Export vars p = p\<lparr>pro_exportVariables := pro_exportVariables p @ vars\<rparr>"

text \<open>\<open>gj\<close> is the query of a JSON text by a path.\<close>

definition form_Get :: "(string \<Rightarrow> string \<Rightarrow> string) \<Rightarrow> processing_conn \<Rightarrow> string \<Rightarrow> string \<times> bool" where
  "form_Get gj p key =
     (let direct = (case pro_variables p key of Some v \<Rightarrow> (v, True) | None \<Rightarrow> ([], False)) in
      case take_until CHR ''.'' key of
        Some (nameRoot, path) \<Rightarrow>
          (if nameRoot = [] then direct
           else case pro_variables p nameRoot of Some v \<Rightarrow> (gj v path, True) | None \<Rightarrow> direct)
      | None \<Rightarrow> direct)"

text \<open>The exported values; nil when nothing is exported.\<close>

definition form_DumpExportVariables :: "(string \<Rightarrow> string \<Rightarrow> string) \<Rightarrow> processing_conn \<Rightarrow> (string \<times> string) list option" where
  "form_DumpExportVariables gj p =
     (if pro_exportVariables p = [] then None
      else Some (fold (\<lambda>v m. AList.update v (to_valid_utf8 (fst (form_Get gj p v))) m) (pro_exportVariables p) []))"

definition form_Set :: "(rat \<Rightarrow> string) \<Rightarrow> (string \<times> goval) list \<Rightarrow> processing_conn \<Rightarrow> processing_conn" where
  "form_Set ff vars p = fold (\<lambda>(k, v) p. p\<lparr>pro_variables := (pro_variables p)(k \<mapsto> sprint_v ff v)\<rparr>) vars p"

definition form_Close :: "processing_conn \<Rightarrow> processing_conn" where
  "form_Close p = p\<lparr>pro_cancelled := True\<rparr>"

text \<open>\<open>Finish\<close> closes the channel \<open>finished\<close>; a second close panics.\<close>

definition form_Finish :: "processing_conn \<Rightarrow> processing_conn option" where
  "form_Finish p = (if pro_finished p then None else Some (form_Close (p\<lparr>pro_finished := True\<rparr>)))"

definition VariablesFromStringMap :: "(string \<times> string) list \<Rightarrow> (string \<times> goval) list" where
  "VariablesFromStringMap m = map (\<lambda>(k, v). (k, GStr v)) m"

section \<open>Showing a form\<close>

text \<open>The arguments of \<open>generateForm\<close> and the form they describe; a name without a component is left out.\<close>

record generate_args =
  pge_Id :: string
  pge_Title :: string
  pge_Actions :: "form_action_elem option list"
  pge_Body :: "string list"

definition generateForm_form :: "generate_args \<Rightarrow> processing_conn \<Rightarrow> form_elem" where
  "generateForm_form a p =
     \<lparr>pel_Id = pge_Id a, pel_Title = pge_Title a, pel_Actions = pge_Actions a,
      pel_Body = List.map_filter (\<lambda>v. GetComponentByName v p) (pge_Body a)\<rparr>"

text \<open>What \<open>generateForm\<close> does with the action: the name of the action becomes the variable of the form.\<close>

definition generateForm_end :: "(rat \<Rightarrow> string) \<Rightarrow> form_action \<Rightarrow> string \<Rightarrow> processing_conn \<Rightarrow> processing_conn" where
  "generateForm_end ff a i p =
     (let fields = (case pfa_Fields a of Some m \<Rightarrow> m | None \<Rightarrow> []) in
      form_Set ff (if i \<noteq> [] then AList.update i (GStr (pfa_Name a)) fields else fields) p)"

definition two_forms :: app_error where
  "two_forms = NewAppError ''Processing.PushForm'' ''processing.form.push.app_err'' [] ''Not allow two form'' 500"

definition no_action :: app_error where
  "no_action = NewAppError ''Processing.PushForm'' ''processing.form.push.action'' [] ''Form no send action'' 500"

text \<open>
  Where a goroutine is in \<open>generateForm\<close>: before the check for another form, before the id of the form is set,
  before the form is offered, before the channel is made, before it is read for the \<open>select\<close>, in the
  \<open>select\<close>, before the fields are stored, and at its end.  The string is the id the arguments name.
\<close>

datatype push_pc =
    PushEnter string form_elem
  | PushSetId string form_elem
  | PushSend string form_elem
  | PushMake string
  | PushSelect string
  | PushWait string "nat option"
  | PushGot string form_action
  | PushDone "response result"

text \<open>The channel \<open>forms\<close> has room for five forms.  A step that has to wait is \<open>None\<close>.\<close>

fun PushForm :: "(rat \<Rightarrow> string) \<Rightarrow> push_pc \<Rightarrow> processing_conn \<Rightarrow> (push_pc \<times> processing_conn) option" where
  "PushForm ff (PushEnter i f) p = Some (if pro_formAction p \<noteq> None then PushDone (Inl two_forms) else PushSetId i f, p)"
| "PushForm ff (PushSetId i f) p = Some (PushSend i f, p\<lparr>pro_formId := pel_Id f\<rparr>)"
| "PushForm ff (PushSend i f) p = (if length (pro_forms p) < 5 then Some (PushMake i, p\<lparr>pro_forms := pro_forms p @ [f]\<rparr>) else None)"
| "PushForm ff (PushMake i) p = Some (PushSelect i, p\<lparr>pro_closed := pro_closed p @ [False], pro_formAction := Some (length (pro_closed p))\<rparr>)"
| "PushForm ff (PushSelect i) p = Some (PushWait i (pro_formAction p), p)"
| "PushForm ff (PushWait i ch) p = (case ch of Some c \<Rightarrow> if pro_closed p ! c then Some (PushDone (Inl no_action), p) else None | None \<Rightarrow> None)"
| "PushForm ff (PushGot i a) p = Some (PushDone (Inr CallResponseOK), generateForm_end ff a i p)"
| "PushForm ff (PushDone r) p = None"

section \<open>Answering a form\<close>

definition no_active_form :: app_error where
  "no_active_form = NewAppError ''Processing.FillForm'' ''processing.form.fill.app_err'' [] ''Not found active form'' 500"

text \<open>
  Where a request \<open>FormAction\<close> is: before the check for a form, before the channel is read for the send, in the
  send, before the channel is closed, before the field is cleared, before the id of the form is cleared, in
  \<open>waitForm\<close>, and at its end: with an error, with the next form, or with the end of the schema; or it has panicked,
  which ends the whole process.
\<close>

datatype act_pc =
    ActEnter form_action
  | ActSend form_action
  | ActSending "nat option" form_action
  | ActClose
  | ActReset
  | ActSetId
  | ActWait
  | ActDone "form_elem option result"
  | ActPanic

text \<open>
  \<open>close(c.formAction)\<close> reads the field once more: closing a nil or closed channel panics, and so does a send on a
  closed one.
\<close>

fun FormAction :: "act_pc \<Rightarrow> processing_conn \<Rightarrow> (act_pc \<times> processing_conn) option" where
  "FormAction (ActEnter a) p = Some (if pro_formAction p = None then ActDone (Inl no_active_form) else ActSend a, p)"
| "FormAction (ActSend a) p = Some (ActSending (pro_formAction p) a, p)"
| "FormAction (ActSending ch a) p = (case ch of Some c \<Rightarrow> if pro_closed p ! c then Some (ActPanic, p) else None | None \<Rightarrow> None)"
| "FormAction ActClose p =
     Some (case pro_formAction p of
         None \<Rightarrow> (ActPanic, p)
       | Some c \<Rightarrow> if pro_closed p ! c then (ActPanic, p) else (ActReset, p\<lparr>pro_closed := (pro_closed p)[c := True]\<rparr>))"
| "FormAction ActReset p = Some (ActSetId, p\<lparr>pro_formAction := None\<rparr>)"
| "FormAction ActSetId p = Some (ActWait, p\<lparr>pro_formId := []\<rparr>)"
| "FormAction ActWait p = None"
| "FormAction (ActDone r) p = None"
| "FormAction ActPanic p = None"

text \<open>
  The ways \<open>waitForm\<close> can return: after twenty seconds, when the schema is finished, when the context has ended, or with
  the next form.  The request closes the connection on an error.
\<close>

datatype wait_branch = WaitTimeout | WaitFinished | WaitCancelled | WaitForm

definition waitForm :: "wait_branch \<Rightarrow> processing_conn \<Rightarrow> (form_elem option result \<times> processing_conn) option" where
  "waitForm br p =
     (case br of
        WaitTimeout \<Rightarrow> Some (Inl (NewAppError ''Processing'' ''processing.connection.form.timeout'' [] ''Timeout'' 400), form_Close p)
      | WaitFinished \<Rightarrow> if pro_finished p then Some (Inr None, p) else None
      | WaitCancelled \<Rightarrow>
          if pro_cancelled p then Some (Inl (NewAppError ''Processing'' ''processing.connection.form.cancel'' [] ''Context cancel'' 400), form_Close p)
          else None
      | WaitForm \<Rightarrow> (case pro_forms p of [] \<Rightarrow> None | f # fs \<Rightarrow> Some (Inr (Some f), p\<lparr>pro_forms := fs\<rparr>)))"

section \<open>Actions of a component\<close>

definition form_error :: "string \<Rightarrow> app_error" where
  "form_error msg = NewInternalError ''processing.form.app_err'' msg"

text \<open>
  \<open>ComponentAction\<close> of a table stores the variables and runs the applications of the output in a fork of the flow that
  declared the table, before it answers (\<open>sync\<close>) or in a goroutine of its own.
\<close>

definition form_ComponentAction ::
  "(rat \<Rightarrow> string) \<Rightarrow> string \<Rightarrow> string \<Rightarrow> string \<Rightarrow> (string \<times> string) list \<Rightarrow> processing_conn \<Rightarrow> flow result \<times> processing_conn" where
  "form_ComponentAction ff formId componentId action vars p =
     (if pro_formAction p = None then (Inl (form_error ''not found active form''), p)
      else if pro_formId p \<noteq> formId then (Inl (form_error ''invalid form id''), p)
      else (case GetComponentByName componentId p of
          None \<Rightarrow> (Inl (form_error (''component '' @ componentId @ '' not found'')), p)
        | Some (PartTable t) \<Rightarrow>
            (case map_of (ptb_OutputsFn t) action of
               None \<Rightarrow> (Inl (form_error (''component '' @ componentId @ '' does not have output '' @ action)), p)
             | Some apps \<Rightarrow> (Inr (Fork (''component-'' @ action) apps (ptb_scope t)), form_Set ff (VariablesFromStringMap vars) p))
        | Some _ \<Rightarrow> (Inl (form_error (''component '' @ componentId @ '' does not have outputs'')), p)))"

section \<open>A connection with its goroutines\<close>

record form_sys =
  fsy_conn :: processing_conn
  fsy_push :: "push_pc list"
  fsy_act :: "act_pc list"

text \<open>The pending request of \<open>StartProcessing\<close> is already in \<open>waitForm\<close>.\<close>

definition new_form_sys :: "processing_conn \<Rightarrow> form_sys" where
  "new_form_sys p = \<lparr>fsy_conn = p, fsy_push = [], fsy_act = [ActWait]\<rparr>"

text \<open>
  One step: an application of the schema changes the components, the exports or the variables; \<open>generateForm\<close>, a
  request or the action of a component begins; a goroutine makes a step of its own; the send of an action meets a
  \<open>select\<close>; a \<open>select\<close> or \<open>waitForm\<close> takes another branch; the connection is closed.
\<close>

inductive form_step :: "(rat \<Rightarrow> string) \<Rightarrow> form_sys \<Rightarrow> form_sys \<Rightarrow> bool" for ff where
  sets_component: "form_step ff s (s\<lparr>fsy_conn := SetComponent name part (fsy_conn s)\<rparr>)"
| exports: "form_step ff s (s\<lparr>fsy_conn := form_Export vars (fsy_conn s)\<rparr>)"
| sets_variables: "form_step ff s (s\<lparr>fsy_conn := form_Set ff vs (fsy_conn s)\<rparr>)"
| generates: "form_step ff s (s\<lparr>fsy_push := fsy_push s @ [PushEnter (pge_Id a) (generateForm_form a (fsy_conn s))]\<rparr>)"
| answers: "form_step ff s (s\<lparr>fsy_act := fsy_act s @ [ActEnter act]\<rparr>)"
| component: "form_ComponentAction ff formId componentId action args (fsy_conn s) = (r, p) \<Longrightarrow> form_step ff s (s\<lparr>fsy_conn := p\<rparr>)"
| pushes: "i < length (fsy_push s) \<Longrightarrow> PushForm ff (fsy_push s ! i) (fsy_conn s) = Some (pc, p) \<Longrightarrow>
    form_step ff s (s\<lparr>fsy_conn := p, fsy_push := (fsy_push s)[i := pc]\<rparr>)"
| acts: "j < length (fsy_act s) \<Longrightarrow> FormAction (fsy_act s ! j) (fsy_conn s) = Some (apc, p) \<Longrightarrow>
    form_step ff s (s\<lparr>fsy_conn := p, fsy_act := (fsy_act s)[j := apc]\<rparr>)"
| hands_over: "i < length (fsy_push s) \<Longrightarrow> j < length (fsy_act s) \<Longrightarrow> fsy_push s ! i = PushWait fid (Some c) \<Longrightarrow>
    fsy_act s ! j = ActSending (Some c) act \<Longrightarrow> \<not> pro_closed (fsy_conn s) ! c \<Longrightarrow>
    form_step ff s (s\<lparr>fsy_push := (fsy_push s)[i := PushGot fid act], fsy_act := (fsy_act s)[j := ActClose]\<rparr>)"
| gives_up: "i < length (fsy_push s) \<Longrightarrow> fsy_push s ! i = PushWait fid ch \<Longrightarrow>
    form_step ff s (s\<lparr>fsy_push := (fsy_push s)[i := PushDone (Inl no_action)]\<rparr>)"
| waits: "j < length (fsy_act s) \<Longrightarrow> fsy_act s ! j = ActWait \<Longrightarrow> waitForm br (fsy_conn s) = Some (r, p) \<Longrightarrow>
    form_step ff s (s\<lparr>fsy_conn := p, fsy_act := (fsy_act s)[j := ActDone r]\<rparr>)"
| closes: "form_step ff s (s\<lparr>fsy_conn := form_Close (fsy_conn s)\<rparr>)"

section \<open>The server (processing_server.go)\<close>

definition activeProcessingCacheSize :: int where "activeProcessingCacheSize = 10000"

record form_world =
  fwo_sys :: "form_sys list"
  fwo_table :: "(string, nat) lru"
  fwo_node :: string

definition NewProcessingApi :: "string \<Rightarrow> form_world" where
  "NewProcessingApi node = \<lparr>fwo_sys = [], fwo_table = NewLru activeProcessingCacheSize, fwo_node = node\<rparr>"

text \<open>\<open>StartProcessing\<close> up to \<open>waitForm\<close>: the connection goes into the table and to the router.\<close>

definition StartProcessing :: "int \<Rightarrow> string \<Rightarrow> int \<Rightarrow> int \<Rightarrow> (string \<rightharpoonup> string) \<Rightarrow> form_world \<Rightarrow> form_world" where
  "StartProcessing now newId domainId schemaId vars w =
     (let p = NewProcessingConnection newId domainId schemaId vars in
      w\<lparr>fwo_sys := fwo_sys w @ [new_form_sys (p\<lparr>pro_appId := ''workflow-'' @ fwo_node w\<rparr>)],
        fwo_table := AddWithDefaultExpires now (pro_id p) (length (fwo_sys w)) (fwo_table w)\<rparr>)"

definition getProcessingById :: "int \<Rightarrow> string \<Rightarrow> form_world \<Rightarrow> nat result \<times> form_world" where
  "getProcessingById now pid w =
     (case lru_Get now pid (fwo_table w) of
        (r, t) \<Rightarrow> (case r of
            None \<Rightarrow> Inl (NewAppError ''Processing.Get'' ''processing.form.get.not_found'' [] ''Not found'' 404)
          | Some n \<Rightarrow> Inr n, w\<lparr>fwo_table := t\<rparr>))"

definition upd_sys :: "nat \<Rightarrow> (form_sys \<Rightarrow> form_sys) \<Rightarrow> form_world \<Rightarrow> form_world" where
  "upd_sys n f w = w\<lparr>fwo_sys := (fwo_sys w)[n := f (fwo_sys w ! n)]\<rparr>"

text \<open>A request for a connection that is not in the table is answered with the error at once.\<close>

definition on_processing :: "int \<Rightarrow> string \<Rightarrow> (form_sys \<Rightarrow> 'a result \<times> form_sys) \<Rightarrow> form_world \<Rightarrow> 'a result \<times> form_world" where
  "on_processing now pid f w =
     (case getProcessingById now pid w of
        (Inl er, w1) \<Rightarrow> (Inl er, w1)
      | (Inr n, w1) \<Rightarrow> (case f (fwo_sys w1 ! n) of (r, s) \<Rightarrow> (r, upd_sys n (\<lambda>_. s) w1)))"

definition api_FormAction :: "int \<Rightarrow> string \<Rightarrow> string \<Rightarrow> (string \<times> string) list \<Rightarrow> form_world \<Rightarrow> unit result \<times> form_world" where
  "api_FormAction now pid action vars =
     on_processing now pid (\<lambda>s. (Inr (), s\<lparr>fsy_act := fsy_act s @
       [ActEnter \<lparr>pfa_Name = action, pfa_Fields = Some (VariablesFromStringMap vars)\<rparr>]\<rparr>))"

definition api_ComponentAction ::
  "(rat \<Rightarrow> string) \<Rightarrow> int \<Rightarrow> string \<Rightarrow> string \<Rightarrow> string \<Rightarrow> string \<Rightarrow> (string \<times> string) list \<Rightarrow> form_world \<Rightarrow> flow result \<times> form_world" where
  "api_ComponentAction ff now pid formId componentId action vars =
     on_processing now pid (\<lambda>s. case form_ComponentAction ff formId componentId action vars (fsy_conn s) of
       (r, p) \<Rightarrow> (r, s\<lparr>fsy_conn := p\<rparr>))"

definition CancelProcessing :: "int \<Rightarrow> string \<Rightarrow> form_world \<Rightarrow> unit result \<times> form_world" where
  "CancelProcessing now pid = on_processing now pid (\<lambda>s. (Inr (), s\<lparr>fsy_conn := form_Close (fsy_conn s)\<rparr>))"

text \<open>The goroutine of a connection removes it from the table when its context has ended.\<close>

inductive server_step :: "(rat \<Rightarrow> string) \<Rightarrow> form_world \<Rightarrow> form_world \<Rightarrow> bool" for ff where
  starts: "server_step ff w (StartProcessing now newId domainId schemaId vars w)"
| form_action: "api_FormAction now pid action vs w = (r, w') \<Longrightarrow> server_step ff w w'"
| component_action: "api_ComponentAction ff now pid formId componentId action vs w = (cr, w') \<Longrightarrow> server_step ff w w'"
| cancels: "CancelProcessing now pid w = (r, w') \<Longrightarrow> server_step ff w w'"
| goes_on: "n < length (fwo_sys w) \<Longrightarrow> form_step ff (fwo_sys w ! n) s \<Longrightarrow> server_step ff w (upd_sys n (\<lambda>_. s) w)"
| removes: "n < length (fwo_sys w) \<Longrightarrow> pro_cancelled (fsy_conn (fwo_sys w ! n)) \<Longrightarrow>
    server_step ff w (w\<lparr>fwo_table := lru_Remove (pro_id (fsy_conn (fwo_sys w ! n))) (fwo_table w)\<rparr>)"

end
