(* ===== verification/Form_Apps.thy ===== *)
theory Form_Apps
  imports Form_Conn
begin

text \<open>
  The applications of a form schema and their router (\<open>routes/processing\<close>).  An application returns its result and the
  connection after it; \<open>None\<close> is a panic.  Decoders, the parser of JSON texts, and the services of cases and of the call
  centre are arguments.  \<open>generateForm\<close> waits for the page and is modelled with its goroutine, in
  \<open>Form_Conn\<close>.
\<close>

type_synonym form_run = "(response result \<times> processing_conn) option"

definition form_ok :: "processing_conn \<Rightarrow> form_run" where
  "form_ok p = Some (Inr CallResponseOK, p)"

definition form_refuse :: "app_error \<Rightarrow> processing_conn \<Rightarrow> form_run" where
  "form_refuse er p = Some (Inl er, p)"

definition form_args :: "(goval \<Rightarrow> 'a result) \<Rightarrow> goval \<Rightarrow> ('a \<Rightarrow> processing_conn \<Rightarrow> form_run) \<Rightarrow> processing_conn \<Rightarrow> form_run" where
  "form_args decode args k p = (case decode args of Inl er \<Rightarrow> form_refuse er p | Inr a \<Rightarrow> k a p)"

section \<open>Values (file_form.go)\<close>

text \<open>\<open>unmarshal\<close> parses a JSON text; a text in braces that parses is an object, one in brackets an array.\<close>

definition setToJson :: "(string \<Rightarrow> goval option) \<Rightarrow> string \<Rightarrow> goval" where
  "setToJson unmarshal src =
     (if length src < 2 then GStr src
      else if hd src = CHR ''{'' \<and> last src = CHR ''}'' \<or> hd src = CHR ''['' \<and> last src = CHR '']'' then
        (case unmarshal src of Some v \<Rightarrow> v | None \<Rightarrow> GStr src)
      else GStr src)"

definition formFile :: "(string \<Rightarrow> string \<Rightarrow> string) \<Rightarrow> (string \<Rightarrow> goval option) \<Rightarrow> (goval \<Rightarrow> form_file result) \<Rightarrow> goval \<Rightarrow> processing_conn \<Rightarrow> form_run" where
  "formFile gj unmarshal decode args =
     form_args decode args (\<lambda>a p.
       let val = fst (form_Get gj p (pff_Id a)) in
       if pff_Id a = [] then form_refuse (ErrorRequiredParameter ''formComponent'' ''name'') p
       else form_ok (SetComponent (pff_Id a) (PartFile (a\<lparr>pff_Value := (if val = [] then GArr [] else setToJson unmarshal val)\<rparr>)) p))"

section \<open>The statuses of a case (component.go, form_select_case_status.go)\<close>

text \<open>
  What the service of cases answers, or an error text: the catalogue of a service, the status dictionary linked to a
  catalogue (nothing when there is no service, catalogue or dictionary), and the conditions of a dictionary.
\<close>

record status_condition =
  pcn_Id :: int
  pcn_Name :: string
  pcn_Initial :: bool
  pcn_Final :: bool

record case_services =
  pcs_LocateService :: "int \<Rightarrow> string \<Rightarrow> string + int option"
  pcs_LocateCatalog :: "int \<Rightarrow> string \<Rightarrow> string + int option"
  pcs_ListStatusConditions :: "int \<Rightarrow> int \<Rightarrow> string \<Rightarrow> string + status_condition list"

definition status_options :: "status_condition list \<Rightarrow> select_option list" where
  "status_options items =
     map (\<lambda>x. \<lparr>pso_Id = pcn_Id x, pso_Name = pcn_Name x, pso_Value = [], pso_Initial = pcn_Initial x, pso_Final = pcn_Final x\<rparr>) items"

text \<open>Service, catalogue, dictionary, conditions; \<open>app\<close> names the application in the errors.\<close>

definition locate_statuses :: "case_services \<Rightarrow> string \<Rightarrow> string \<Rightarrow> int \<Rightarrow> select_option list result" where
  "locate_statuses cs app token serviceId =
     (let fail = (\<lambda>idn msg status. Inl (NewAppError app idn [] msg status)) in
      if serviceId = 0 then Inl (ErrorRequiredParameter app ''serviceId'')
      else if token = [] then Inl (ErrorRequiredParameter app ''token'')
      else (case pcs_LocateService cs serviceId token of
          Inl er \<Rightarrow> fail ''locate_service_failed'' er 500
        | Inr None \<Rightarrow> fail ''service_not_found'' ''service not found'' 404
        | Inr (Some catalogId) \<Rightarrow>
            (if catalogId = 0 then fail ''catalog_not_found'' ''service has no catalog'' 404
             else (case pcs_LocateCatalog cs catalogId token of
                 Inl er \<Rightarrow> fail ''locate_catalog_failed'' er 500
               | Inr status \<Rightarrow>
                   (if status = None \<or> status = Some 0 then fail ''status_not_linked'' ''catalog has no linked status dictionary'' 404
                    else (case pcs_ListStatusConditions cs (the status) 100 token of
                        Inl er \<Rightarrow> fail ''list_status_conditions_failed'' er 500
                      | Inr items \<Rightarrow> Inr (status_options items)))))))"

definition casesStatusOptions :: "case_services \<Rightarrow> string \<Rightarrow> int \<Rightarrow> select_option list result" where
  "casesStatusOptions cs token serviceId = locate_statuses cs ''formComponent'' token serviceId"

text \<open>A component without a view panics.\<close>

definition formComponent ::
  "(string \<Rightarrow> string \<Rightarrow> string) \<Rightarrow> (string \<Rightarrow> goval option) \<Rightarrow> case_services \<Rightarrow> (goval \<Rightarrow> form_component result) \<Rightarrow> goval \<Rightarrow> processing_conn \<Rightarrow> form_run" where
  "formComponent gj unmarshal cs decode args =
     form_args decode args (\<lambda>a p.
       let val = fst (form_Get gj p (pcm_Id a)); put = (\<lambda>a. form_ok (SetComponent (pcm_Id a) (PartComponent a) p)) in
       if pcm_Id a = [] then form_refuse (ErrorRequiredParameter ''formComponent'' ''name'') p
       else (case pcm_View a of
           None \<Rightarrow> None
         | Some view \<Rightarrow>
             (if pvw_Component view = ''wt-input'' then put (a\<lparr>pcm_Value := GStr val\<rparr>)
              else if pvw_Component view = ''form-select-case-status'' then
                (case casesStatusOptions cs (pvw_Token view) (pvw_ServiceId view) of
                   Inl er \<Rightarrow> form_refuse er p
                 | Inr options \<Rightarrow> put (a\<lparr>pcm_View := Some (view\<lparr>pvw_Options := options\<rparr>), pcm_Value := setToJson unmarshal val\<rparr>))
              else put (a\<lparr>pcm_Value := setToJson unmarshal val\<rparr>))))"

record case_status_args =
  pca_Id :: string
  pca_ServiceId :: int
  pca_Token :: string
  pca_Label :: string
  pca_Hint :: string
  pca_InitialValue :: string

definition formSelectCaseStatus ::
  "(string \<Rightarrow> string \<Rightarrow> string) \<Rightarrow> (string \<Rightarrow> goval option) \<Rightarrow> case_services \<Rightarrow> (goval \<Rightarrow> case_status_args result) \<Rightarrow> goval \<Rightarrow> processing_conn \<Rightarrow> form_run" where
  "formSelectCaseStatus gj unmarshal cs decode args =
     form_args decode args (\<lambda>a p.
       if pca_Id a = [] then form_refuse (ErrorRequiredParameter ''formSelectCaseStatus'' ''id'') p
       else (case locate_statuses cs ''formSelectCaseStatus'' (pca_Token a) (pca_ServiceId a) of
           Inl er \<Rightarrow> form_refuse er p
         | Inr options \<Rightarrow>
             form_ok (SetComponent (pca_Id a) (PartStatus
               \<lparr>pst_Id = pca_Id a,
                pst_View = \<lparr>pvw_Component = ''form-select-case-status'', pvw_Label = pca_Label a, pvw_Hint = pca_Hint a,
                  pvw_InitialValue = pca_InitialValue a, pvw_Options = options, pvw_Token = [], pvw_ServiceId = 0, pvw_rest = []\<rparr>,
                pst_Value = setToJson unmarshal (fst (form_Get gj p (pca_Id a)))\<rparr>) p)))"

section \<open>Tables (table_component.go)\<close>

text \<open>\<open>outputs\<close> that are missing or no object panic; an output that is no array is left out.\<close>

definition parseOutputs :: "(rat \<Rightarrow> string) \<Rightarrow> goval \<Rightarrow> (string \<times> applications) list result option" where
  "parseOutputs ff v =
     (case as_map v of
        None \<Rightarrow> Some (Inl (NewAppError ''Processing.Parse'' ''processing.valid.props'' [] (''bad arguments '' @ sprint_v ff v) 400))
      | Some props \<Rightarrow>
          map_option (\<lambda>outputs. Inr (List.map_filter (\<lambda>(k, x). map_option (\<lambda>apps. (k, ArrInterfaceToArrayApplication apps)) (as_arr x)) outputs))
            (as_map (map_get props ''outputs'')))"

definition formTable ::
  "(rat \<Rightarrow> string) \<Rightarrow> (goval \<Rightarrow> (string \<times> (string \<times> goval) list option) result) \<Rightarrow> flow \<Rightarrow> goval \<Rightarrow> processing_conn \<Rightarrow> form_run" where
  "formTable ff decode scope args =
     form_args decode args (\<lambda>(i, view) p.
       if i = [] then form_refuse (ErrorRequiredParameter ''tableComponent'' ''name'') p
       else (case parseOutputs ff args of
           None \<Rightarrow> None
         | Some (Inl er) \<Rightarrow> form_refuse er p
         | Some (Inr outputs) \<Rightarrow>
             form_ok (SetComponent i (PartTable \<lparr>ptb_Id = i, ptb_OutputsFn = outputs, ptb_scope = scope, ptb_View = view\<rparr>) p)))"

section \<open>Exports and attempts (export.go, processing.go)\<close>

definition form_export :: "(goval \<Rightarrow> string list result) \<Rightarrow> goval \<Rightarrow> processing_conn \<Rightarrow> form_run" where
  "form_export decode args = form_args decode args (\<lambda>vars p. form_ok (form_Export vars p))"

record attempt_result =
  pat_Id :: int
  pat_Status :: string
  pat_Description :: string
  pat_ReadyAt :: "int option"
  pat_ExpiredAt :: "int option"
  pat_Variables :: "(string \<times> string) list option"
  pat_StickyDisplay :: bool
  pat_AgentId :: int
  pat_Redial :: bool
  pat_ExcludeCurrentCommunication :: bool
  pat_AddCommunications :: "goval list"
  pat_WaitBetweenRetries :: "int option"

text \<open>The result that is reported: the id of the attempt is the connection's, exported variables win.\<close>

definition attempt_report :: "(string \<Rightarrow> string \<Rightarrow> string) \<Rightarrow> processing_conn \<Rightarrow> attempt_result \<Rightarrow> attempt_result" where
  "attempt_report gj p a =
     (let a1 = a\<lparr>pat_Id := Atoi_clamp (fst (form_Get gj p ''attempt_id''))\<rparr> in
      case form_DumpExportVariables gj p of
        None \<Rightarrow> a1
      | Some ex \<Rightarrow> a1\<lparr>pat_Variables := Some (fold (\<lambda>(k, v) m. AList.update k v m) ex (case pat_Variables a of Some m \<Rightarrow> m | None \<Rightarrow> []))\<rparr>)"

definition attemptResult ::
  "(string \<Rightarrow> string \<Rightarrow> string) \<Rightarrow> (attempt_result \<Rightarrow> app_error option) \<Rightarrow> (goval \<Rightarrow> attempt_result result) \<Rightarrow> goval \<Rightarrow> processing_conn \<Rightarrow> form_run" where
  "attemptResult gj report decode args =
     form_args decode args (\<lambda>a p. case report (attempt_report gj p a) of Some er \<Rightarrow> form_refuse er p | None \<Rightarrow> form_ok p)"

text \<open>The attempt that the call centre is asked to resume; its error is only logged.\<close>

definition resumed_attempt :: "(string \<Rightarrow> string \<Rightarrow> string) \<Rightarrow> int \<Rightarrow> processing_conn \<Rightarrow> int \<times> int" where
  "resumed_attempt gj i p = (if i = 0 then Atoi_clamp (fst (form_Get gj p ''attempt_id'')) else i, pro_domainId p)"

definition resumeAttempt :: "(int \<times> int \<Rightarrow> string option) \<Rightarrow> (string \<Rightarrow> string \<Rightarrow> string) \<Rightarrow> (goval \<Rightarrow> int result) \<Rightarrow> goval \<Rightarrow> processing_conn \<Rightarrow> form_run" where
  "resumeAttempt resume gj decode args =
     form_args decode args (\<lambda>i p. let logged = resume (resumed_attempt gj i p) in form_ok p)"

section \<open>The router (router.go)\<close>

definition form_Request :: "(string \<Rightarrow> (flow \<Rightarrow> app_args \<Rightarrow> 'w \<Rightarrow> 'w outcome) option) \<Rightarrow> flow \<Rightarrow> reqptr \<Rightarrow> 'w \<Rightarrow> 'w outcome" where
  "form_Request apps = Router_Request (''Form.Request'', ''form.request.not_found'') apps"

definition form_AddApplications :: "(string \<rightharpoonup> 'h) \<Rightarrow> (string \<rightharpoonup> 'h) \<Rightarrow> string \<rightharpoonup> 'h" where
  "form_AddApplications added apps = apps ++ added"

definition processingHandlerMiddleware :: "(flow \<Rightarrow> goval \<Rightarrow> processing_conn \<Rightarrow> form_run) \<Rightarrow> flow \<Rightarrow> app_args \<Rightarrow> processing_conn \<Rightarrow> processing_conn outcome" where
  "processingHandlerMiddleware h scope args p =
     map_option (\<lambda>(r, p1). (map_sum id Some r, scope, p1)) (h scope (case args of ArgVal v \<Rightarrow> v | _ \<Rightarrow> GNil) p)"

text \<open>
  \<open>handle\<close>: a schema that is not found closes the connection; otherwise the schema runs and then the connection is
  closed.  \<open>Finish\<close> is not called.
\<close>

definition form_handle ::
  "processing_conn env \<Rightarrow> (flow \<Rightarrow> reqptr \<Rightarrow> processing_conn \<Rightarrow> processing_conn outcome) \<Rightarrow> (string \<Rightarrow> string option) \<Rightarrow>
   (int \<Rightarrow> int \<Rightarrow> (string \<times> applications) result) \<Rightarrow> processing_conn \<Rightarrow> processing_conn option" where
  "form_handle e rq loc schemaById p =
     (case schemaById (pro_domainId p) (pro_schemaId p) of
        Inl _ \<Rightarrow> Some (form_Close p)
      | Inr (name, apps) \<Rightarrow>
          map_option (\<lambda>(_, p1). form_Close p1)
            (Route e rq (New loc \<lparr>cf_SchemaId = 0, cf_Timezone = [], cf_Name = name, cf_Schema = apps, cf_ConnId = Some (pro_id p)\<rparr>) p))"

end
