(* ===== verification/Form_Props.thy ===== *)
theory Form_Props
  imports Form_Apps Chat_Laws
begin

text \<open>
  Properties of form processing: what holds for a page that sends one action at a time, what two actions at a time do, and
  what holds of the table of connections.
\<close>

section \<open>Helpers\<close>

lemma form_Set_fields [simp]:
  "pro_id (form_Set ff vs p) = pro_id p" "pro_formAction (form_Set ff vs p) = pro_formAction p"
  "pro_closed (form_Set ff vs p) = pro_closed p" "pro_finished (form_Set ff vs p) = pro_finished p"
  "pro_forms (form_Set ff vs p) = pro_forms p"
  unfolding form_Set_def by (induction vs arbitrary: p; simp split: prod.splits)+

lemma form_field_simps [simp]:
  "pro_id (generateForm_end ff a i p) = pro_id p" "pro_formAction (generateForm_end ff a i p) = pro_formAction p"
  "pro_closed (generateForm_end ff a i p) = pro_closed p" "pro_finished (generateForm_end ff a i p) = pro_finished p"
  "pro_forms (generateForm_end ff a i p) = pro_forms p"
  "pro_id (SetComponent n c p) = pro_id p" "pro_formAction (SetComponent n c p) = pro_formAction p"
  "pro_closed (SetComponent n c p) = pro_closed p" "pro_finished (SetComponent n c p) = pro_finished p"
  "pro_id (form_Export ex p) = pro_id p" "pro_formAction (form_Export ex p) = pro_formAction p"
  "pro_closed (form_Export ex p) = pro_closed p" "pro_finished (form_Export ex p) = pro_finished p"
  "pro_id (form_Close p) = pro_id p" "pro_formAction (form_Close p) = pro_formAction p"
  "pro_closed (form_Close p) = pro_closed p" "pro_finished (form_Close p) = pro_finished p"
  by (simp_all add: generateForm_end_def SetComponent_def form_Export_def form_Close_def Let_def)

text \<open>What the operations leave of the fields on which the goroutines meet.\<close>

definition same_channel :: "processing_conn \<Rightarrow> processing_conn \<Rightarrow> bool" where
  "same_channel p q = (pro_id q = pro_id p \<and> pro_formAction q = pro_formAction p \<and> pro_closed q = pro_closed p \<and> pro_finished q = pro_finished p)"

lemma ComponentAction_channel: "form_ComponentAction ff fi ci action vs p = (r, q) \<Longrightarrow> same_channel p q"
  by (auto simp: form_ComponentAction_def same_channel_def split: if_splits option.splits form_part.splits)

lemma waitForm_channel: "waitForm br p = Some (r, q) \<Longrightarrow> same_channel p q \<and> (r = Inr None \<longrightarrow> pro_finished p)"
  by (auto simp: waitForm_def same_channel_def split: wait_branch.splits if_splits list.splits)

lemma PushForm_fields: "PushForm ff pc p = Some (pc', q) \<Longrightarrow> pro_id q = pro_id p \<and> pro_finished q = pro_finished p"
  by (cases "(ff, pc, p)" rule: PushForm.cases) (auto split: if_splits option.splits)

lemma FormAction_fields: "FormAction pc p = Some (pc', q) \<Longrightarrow> pro_id q = pro_id p \<and> pro_finished q = pro_finished p \<and> pc' \<noteq> ActDone (Inr None)"
  by (cases "(pc, p)" rule: FormAction.cases) (auto split: if_splits option.splits)

section \<open>The table of connections\<close>

text \<open>A connection that is not finished, of which no request was answered with the end of the schema.\<close>

definition unfinished :: "form_sys \<Rightarrow> bool" where
  "unfinished s = (\<not> pro_finished (fsy_conn s) \<and> ActDone (Inr None) \<notin> set (fsy_act s))"

lemma unfinished_step:
  assumes "form_step ff s s'" "unfinished s"
  shows "unfinished s' \<and> pro_id (fsy_conn s') = pro_id (fsy_conn s)"
  using assms
proof (induction rule: form_step.induct)
  case (component fi ci action args s r p)
  then show ?case using ComponentAction_channel [OF component(1)] by (auto simp: unfinished_def same_channel_def)
next
  case (pushes i s pc p)
  then show ?case using PushForm_fields [OF pushes(2)] by (auto simp: unfinished_def)
next
  case (acts j s apc p)
  then show ?case using FormAction_fields [OF acts(2)] set_update_subset_insert [of "fsy_act s" j apc]
    by (auto simp: unfinished_def)
next
  case (waits j s br r p)
  then show ?case using waitForm_channel [OF waits(3)] set_update_subset_insert [of "fsy_act s" j "ActDone r"]
    by (auto simp: unfinished_def same_channel_def)
next
  case (hands_over i s j fid c act)
  then show ?case using set_update_subset_insert [of "fsy_act s" j ActClose] by (auto simp: unfinished_def)
qed (auto simp: unfinished_def)

definition forms_inv :: "form_world \<Rightarrow> bool" where
  "forms_inv w = (table_ok (map (pro_id \<circ> fsy_conn) (fwo_sys w)) (fwo_table w) \<and> (\<forall>s\<in>set (fwo_sys w). unfinished s))"

lemma forms_inv_upd:
  assumes "forms_inv w" "n < length (fwo_sys w)" "unfinished s" "pro_id (fsy_conn s) = pro_id (fsy_conn (fwo_sys w ! n))"
  shows "forms_inv (upd_sys n (\<lambda>_. s) w)"
proof -
  have "map (pro_id \<circ> fsy_conn) ((fwo_sys w)[n := s]) = map (pro_id \<circ> fsy_conn) (fwo_sys w)"
    using assms(2,4) by (simp add: map_update list_update_same_conv)
  then show ?thesis using assms set_update_subset_insert [of "fwo_sys w" n s] by (auto simp: forms_inv_def upd_sys_def)
qed

lemma on_processing_inv:
  assumes "forms_inv w" "on_processing now pid f w = (r, w')"
    and keep: "\<And>s r s'. unfinished s \<Longrightarrow> f s = (r, s') \<Longrightarrow> unfinished s' \<and> pro_id (fsy_conn s') = pro_id (fsy_conn s)"
  shows "forms_inv w'"
proof -
  obtain hit t where g: "lru_Get now pid (fwo_table w) = (hit, t)" by fastforce
  note tab = table_ok_Get [OF _ g, of "map (pro_id \<circ> fsy_conn) (fwo_sys w)"]
  have w1: "forms_inv (w\<lparr>fwo_table := t\<rparr>)" using assms(1) tab(1) by (simp add: forms_inv_def)
  show ?thesis
  proof (cases hit)
    case None
    then show ?thesis using assms(2) g w1 by (simp add: on_processing_def getProcessingById_def)
  next
    case (Some n)
    then have n: "n < length (fwo_sys w)" using tab(2) [of n] assms(1) by (simp add: forms_inv_def)
    obtain r1 s1 where s1: "f (fwo_sys w ! n) = (r1, s1)" by fastforce
    have "unfinished (fwo_sys w ! n)" using assms(1) n by (simp add: forms_inv_def)
    then have "forms_inv (upd_sys n (\<lambda>_. s1) (w\<lparr>fwo_table := t\<rparr>))" using keep [OF _ s1] forms_inv_upd [OF w1] n by simp
    then show ?thesis using assms(2) g Some s1 by (simp add: on_processing_def getProcessingById_def)
  qed
qed

lemma forms_inv_step: "server_step ff w w' \<Longrightarrow> forms_inv w \<Longrightarrow> forms_inv w'"
proof (induction rule: server_step.induct)
  case (starts w now newId domainId schemaId vars)
  let ?p = "NewProcessingConnection newId domainId schemaId vars" and ?ids = "map (pro_id \<circ> fsy_conn) (fwo_sys w)"
  have "table_ok ?ids (fwo_table w)" using starts by (simp add: forms_inv_def)
  then have "table_ok (?ids @ [pro_id ?p]) (AddWithDefaultExpires now (pro_id ?p) (length ?ids) (fwo_table w))"
    unfolding AddWithDefaultExpires_def by (rule table_ok_Add)
  then show ?case using starts
    by (auto simp: forms_inv_def StartProcessing_def Let_def new_form_sys_def unfinished_def NewProcessingConnection_def)
next
  case (form_action now pid action vs w r w')
  show ?case by (rule on_processing_inv [OF form_action(2) form_action(1) [unfolded api_FormAction_def]]) (auto simp: unfinished_def)
next
  case (component_action now pid fi ci action vs w cr w')
  show ?case
    by (rule on_processing_inv [OF component_action(2) component_action(1) [unfolded api_ComponentAction_def]])
      (auto simp: unfinished_def same_channel_def split: prod.splits dest!: ComponentAction_channel)
next
  case (cancels now pid w r w')
  show ?case by (rule on_processing_inv [OF cancels(2) cancels(1) [unfolded CancelProcessing_def]]) (auto simp: unfinished_def)
next
  case (goes_on n w s)
  then show ?case using unfinished_step [OF goes_on(2)] by (intro forms_inv_upd) (auto simp: forms_inv_def)
next
  case (removes n w)
  then show ?case using table_ok_Remove by (simp add: forms_inv_def)
qed

lemma NewProcessingApi_inv: "forms_inv (NewProcessingApi node)"
proof -
  have "table_ok [] (NewLru activeProcessingCacheSize)"
    using NewLru_inv [of activeProcessingCacheSize]
    by (simp add: table_ok_def content_def activeProcessingCacheSize_def) (simp add: NewLruWithParams_def NewLru_def)
  then show ?thesis by (simp add: NewProcessingApi_def forms_inv_def)
qed


section \<open>One action at a time\<close>





























section \<open>Runs\<close>

lemma act_at:
  assumes "FormAction y p = Some (y', q)"
  shows "form_step ff \<lparr>fsy_conn = p, fsy_push = ps, fsy_act = as @ y # zs\<rparr> \<lparr>fsy_conn = q, fsy_push = ps, fsy_act = as @ y' # zs\<rparr>"
  using acts [of "length as" "\<lparr>fsy_conn = p, fsy_push = ps, fsy_act = as @ y # zs\<rparr>" y' q ff] assms by simp

lemma push_at:
  assumes "PushForm ff x p = Some (x', q)"
  shows "form_step ff \<lparr>fsy_conn = p, fsy_push = ps @ x # xs, fsy_act = as\<rparr> \<lparr>fsy_conn = q, fsy_push = ps @ x' # xs, fsy_act = as\<rparr>"
  using pushes [of "length ps" "\<lparr>fsy_conn = p, fsy_push = ps @ x # xs, fsy_act = as\<rparr>" ff x' q] assms by simp

lemma hand_at:
  assumes "\<not> pro_closed p ! c"
  shows "form_step ff \<lparr>fsy_conn = p, fsy_push = ps @ PushWait fid (Some c) # xs, fsy_act = as @ ActSending (Some c) a # zs\<rparr>
    \<lparr>fsy_conn = p, fsy_push = ps @ PushGot fid a # xs, fsy_act = as @ ActClose # zs\<rparr>"
  using hands_over [of "length ps" "\<lparr>fsy_conn = p, fsy_push = ps @ PushWait fid (Some c) # xs, fsy_act = as @ ActSending (Some c) a # zs\<rparr>"
      "length as" fid c a ff] assms by simp

lemma run_step: "form_step ff a b \<Longrightarrow> (form_step ff)\<^sup>*\<^sup>* b c \<Longrightarrow> (form_step ff)\<^sup>*\<^sup>* a c"
  by (rule converse_rtranclp_into_rtranclp)

lemma two_steps: "form_step ff a b \<Longrightarrow> form_step ff b c \<Longrightarrow> (form_step ff)\<^sup>*\<^sup>* a c"
  by (meson r_into_rtranclp run_step)

text \<open>A form that is shown: the goroutine of the schema waits on the open channel in the field.\<close>

definition shown :: "processing_conn \<Rightarrow> nat \<Rightarrow> bool" where
  "shown p c = (pro_formAction p = Some c \<and> c < length (pro_closed p) \<and> \<not> pro_closed p ! c)"

text \<open>A request up to the send, and behind it.\<close>

lemma request_sends:
  assumes "shown p c"
  shows "(form_step ff)\<^sup>*\<^sup>* \<lparr>fsy_conn = p, fsy_push = ps, fsy_act = as @ ActEnter a # zs\<rparr>
    \<lparr>fsy_conn = p, fsy_push = ps, fsy_act = as @ ActSending (Some c) a # zs\<rparr>"
proof (rule two_steps)
  show "form_step ff \<lparr>fsy_conn = p, fsy_push = ps, fsy_act = as @ ActEnter a # zs\<rparr>
      \<lparr>fsy_conn = p, fsy_push = ps, fsy_act = as @ ActSend a # zs\<rparr>" using assms by (intro act_at) (simp add: shown_def)
  show "form_step ff \<lparr>fsy_conn = p, fsy_push = ps, fsy_act = as @ ActSend a # zs\<rparr>
      \<lparr>fsy_conn = p, fsy_push = ps, fsy_act = as @ ActSending (Some c) a # zs\<rparr>" using assms by (intro act_at) (simp add: shown_def)
qed

lemma request_closes:
  assumes "shown p c"
  shows "(form_step ff)\<^sup>*\<^sup>* \<lparr>fsy_conn = p, fsy_push = ps @ PushWait fid (Some c) # xs, fsy_act = as @ ActSending (Some c) a # zs\<rparr>
    \<lparr>fsy_conn = p\<lparr>pro_closed := (pro_closed p)[c := True]\<rparr>, fsy_push = ps @ PushGot fid a # xs, fsy_act = as @ ActReset # zs\<rparr>"
proof (rule two_steps)
  show "form_step ff \<lparr>fsy_conn = p, fsy_push = ps @ PushWait fid (Some c) # xs, fsy_act = as @ ActSending (Some c) a # zs\<rparr>
      \<lparr>fsy_conn = p, fsy_push = ps @ PushGot fid a # xs, fsy_act = as @ ActClose # zs\<rparr>" using assms by (intro hand_at) (simp add: shown_def)
  show "form_step ff \<lparr>fsy_conn = p, fsy_push = ps @ PushGot fid a # xs, fsy_act = as @ ActClose # zs\<rparr>
      \<lparr>fsy_conn = p\<lparr>pro_closed := (pro_closed p)[c := True]\<rparr>, fsy_push = ps @ PushGot fid a # xs, fsy_act = as @ ActReset # zs\<rparr>"
    using assms by (intro act_at) (simp add: shown_def)
qed


lemma request_resets:
  "(form_step ff)\<^sup>*\<^sup>* \<lparr>fsy_conn = p, fsy_push = ps, fsy_act = as @ ActReset # zs\<rparr>
    \<lparr>fsy_conn = p\<lparr>pro_formAction := None, pro_formId := []\<rparr>, fsy_push = ps, fsy_act = as @ ActWait # zs\<rparr>"
proof (rule two_steps)
  show "form_step ff \<lparr>fsy_conn = p, fsy_push = ps, fsy_act = as @ ActReset # zs\<rparr>
      \<lparr>fsy_conn = p\<lparr>pro_formAction := None\<rparr>, fsy_push = ps, fsy_act = as @ ActSetId # zs\<rparr>" by (intro act_at) simp
  show "form_step ff \<lparr>fsy_conn = p\<lparr>pro_formAction := None\<rparr>, fsy_push = ps, fsy_act = as @ ActSetId # zs\<rparr>
      \<lparr>fsy_conn = p\<lparr>pro_formAction := None, pro_formId := []\<rparr>, fsy_push = ps, fsy_act = as @ ActWait # zs\<rparr>" by (intro act_at) simp
qed


text \<open>A form that is pushed while no other is shown, up to the wait for its answer.\<close>

definition pushed :: "form_elem \<Rightarrow> processing_conn \<Rightarrow> processing_conn" where
  "pushed f p = p\<lparr>pro_formId := pel_Id f, pro_forms := pro_forms p @ [f], pro_closed := pro_closed p @ [False], pro_formAction := Some (length (pro_closed p))\<rparr>"

lemma form_pushed:
  assumes "pro_formAction p = None" "length (pro_forms p) < 5"
  shows "(form_step ff)\<^sup>*\<^sup>* \<lparr>fsy_conn = p, fsy_push = ps @ PushEnter i f # xs, fsy_act = as\<rparr>
    \<lparr>fsy_conn = pushed f p, fsy_push = ps @ PushWait i (Some (length (pro_closed p))) # xs, fsy_act = as\<rparr>"
proof -
  let ?s = "\<lambda>p x. \<lparr>fsy_conn = p, fsy_push = ps @ x # xs, fsy_act = as\<rparr>"
  let ?p1 = "p\<lparr>pro_formId := pel_Id f\<rparr>" and ?p2 = "p\<lparr>pro_formId := pel_Id f, pro_forms := pro_forms p @ [f]\<rparr>"
  have "form_step ff (?s p (PushEnter i f)) (?s p (PushSetId i f))" by (rule push_at) (simp add: assms)
  moreover have "form_step ff (?s p (PushSetId i f)) (?s ?p1 (PushSend i f))" by (rule push_at) simp
  moreover have "form_step ff (?s ?p1 (PushSend i f)) (?s ?p2 (PushMake i))" by (rule push_at) (simp add: assms)
  moreover have "form_step ff (?s ?p2 (PushMake i)) (?s (pushed f p) (PushSelect i))" by (rule push_at) (simp add: pushed_def)
  moreover have "form_step ff (?s (pushed f p) (PushSelect i)) (?s (pushed f p) (PushWait i (Some (length (pro_closed p)))))"
    by (rule push_at) (simp add: pushed_def)
  ultimately show ?thesis by (meson run_step rtranclp.rtrancl_refl)
qed

text \<open>A new connection up to the first form, which the page has received.\<close>

lemma first_form:
  assumes p0: "p0 = NewProcessingConnection newId domainId schemaId vars" and f: "f = generateForm_form g p0"
  shows "\<exists>p. (form_step ff)\<^sup>*\<^sup>* (new_form_sys p0) \<lparr>fsy_conn = p, fsy_push = [PushWait (pge_Id g) (Some 0)], fsy_act = [ActDone (Inr (Some f))]\<rparr> \<and>
    shown p 0 \<and> pro_forms p = []"
proof (intro exI conjI)
  let ?p = "(pushed f p0)\<lparr>pro_forms := []\<rparr>" and ?ps = "[PushWait (pge_Id g) (Some 0)]"
  have z: "pro_formAction p0 = None" "pro_forms p0 = []" "pro_closed p0 = []" by (simp_all add: p0 NewProcessingConnection_def Let_def)
  have "form_step ff (new_form_sys p0) \<lparr>fsy_conn = p0, fsy_push = [PushEnter (pge_Id g) f], fsy_act = [ActWait]\<rparr>"
    using generates [of ff "new_form_sys p0" g] by (simp add: new_form_sys_def f)
  moreover have "(form_step ff)\<^sup>*\<^sup>* \<lparr>fsy_conn = p0, fsy_push = [PushEnter (pge_Id g) f], fsy_act = [ActWait]\<rparr>
      \<lparr>fsy_conn = pushed f p0, fsy_push = ?ps, fsy_act = [ActWait]\<rparr>"
    using form_pushed [of p0 ff "[]" "pge_Id g" f "[]" "[ActWait]"] z by simp
  moreover have "form_step ff \<lparr>fsy_conn = pushed f p0, fsy_push = ?ps, fsy_act = [ActWait]\<rparr> \<lparr>fsy_conn = ?p, fsy_push = ?ps, fsy_act = [ActDone (Inr (Some f))]\<rparr>"
    using waits [of 0 "\<lparr>fsy_conn = pushed f p0, fsy_push = ?ps, fsy_act = [ActWait]\<rparr>" WaitForm "Inr (Some f)" ?p ff]
    by (simp add: waitForm_def pushed_def z)
  ultimately show "(form_step ff)\<^sup>*\<^sup>* (new_form_sys p0) \<lparr>fsy_conn = ?p, fsy_push = ?ps, fsy_act = [ActDone (Inr (Some f))]\<rparr>"
    by (meson run_step rtranclp.rtrancl_into_rtrancl)
  show "shown ?p 0" "pro_forms ?p = []" by (simp_all add: shown_def pushed_def z)
qed

text \<open>The first form is answered, and the request has closed the channel but not yet cleared the field.\<close>

lemma first_answer:
  fixes g :: generate_args and a :: form_action and ff :: "rat \<Rightarrow> string"
  assumes p0: "p0 = NewProcessingConnection newId domainId schemaId vars"
  shows "\<exists>p d. (form_step ff)\<^sup>*\<^sup>* (new_form_sys p0) \<lparr>fsy_conn = p, fsy_push = [PushDone (Inr CallResponseOK)], fsy_act = [d, ActReset]\<rparr> \<and>
    pro_formAction p = Some 0 \<and> pro_forms p = []"
proof -
  let ?d = "ActDone (Inr (Some (generateForm_form g p0)))" and ?w = "PushWait (pge_Id g) (Some 0)"
  obtain p where p: "(form_step ff)\<^sup>*\<^sup>* (new_form_sys p0) \<lparr>fsy_conn = p, fsy_push = [?w], fsy_act = [?d]\<rparr>" "shown p 0" "pro_forms p = []"
    using first_form [OF p0 refl] by blast
  let ?q = "p\<lparr>pro_closed := (pro_closed p)[0 := True]\<rparr>"
  let ?r = "generateForm_end ff a (pge_Id g) ?q"
  have "form_step ff \<lparr>fsy_conn = p, fsy_push = [?w], fsy_act = [?d]\<rparr> \<lparr>fsy_conn = p, fsy_push = [?w], fsy_act = [?d, ActEnter a]\<rparr>"
    using answers [of ff "\<lparr>fsy_conn = p, fsy_push = [?w], fsy_act = [?d]\<rparr>" a] by simp
  moreover have "(form_step ff)\<^sup>*\<^sup>* \<lparr>fsy_conn = p, fsy_push = [?w], fsy_act = [?d, ActEnter a]\<rparr>
      \<lparr>fsy_conn = ?q, fsy_push = [PushGot (pge_Id g) a], fsy_act = [?d, ActReset]\<rparr>"
    using request_sends [OF p(2), of ff "[?w]" "[?d]" a "[]"] request_closes [OF p(2), of ff "[]" "pge_Id g" "[]" "[?d]" a "[]"] by simp
  moreover have "form_step ff \<lparr>fsy_conn = ?q, fsy_push = [PushGot (pge_Id g) a], fsy_act = [?d, ActReset]\<rparr>
      \<lparr>fsy_conn = ?r, fsy_push = [PushDone (Inr CallResponseOK)], fsy_act = [?d, ActReset]\<rparr>"
    using push_at [of ff "PushGot (pge_Id g) a" ?q "PushDone (Inr CallResponseOK)" ?r "[]" "[]" "[?d, ActReset]"] by simp
  ultimately have "(form_step ff)\<^sup>*\<^sup>* (new_form_sys p0) \<lparr>fsy_conn = ?r, fsy_push = [PushDone (Inr CallResponseOK)], fsy_act = [?d, ActReset]\<rparr>"
    using p(1) by (meson rtranclp.rtrancl_into_rtrancl rtranclp_trans)
  then show ?thesis using p(2,3) by (intro exI [of _ ?r] exI [of _ ?d]) (simp add: shown_def)
qed

text \<open>
  The next form of the schema, pushed between the two writes of the request that answered the last one, is shown without its id, so that
  an action of its components is refused.
\<close>

lemma form_id_lost:
  fixes g2 :: generate_args
  assumes p0: "p0 = NewProcessingConnection newId domainId schemaId vars"
  shows "\<exists>s. (form_step ff)\<^sup>*\<^sup>* (new_form_sys p0) s \<and> fsy_push s = [PushDone (Inr CallResponseOK), PushWait (pge_Id g2) (pro_formAction (fsy_conn s))] \<and>
    map pel_Id (pro_forms (fsy_conn s)) = [pge_Id g2] \<and> pro_formId (fsy_conn s) = []"
proof -
  obtain p d where p: "(form_step ff)\<^sup>*\<^sup>* (new_form_sys p0) \<lparr>fsy_conn = p, fsy_push = [PushDone (Inr CallResponseOK)], fsy_act = [d, ActReset]\<rparr>"
    "pro_formAction p = Some 0" "pro_forms p = []" using first_answer [OF p0] by blast
  let ?ok = "PushDone (Inr CallResponseOK)" and ?p1 = "p\<lparr>pro_formAction := None\<rparr>"
  let ?f = "generateForm_form g2 ?p1" and ?n = "Some (length (pro_closed p))"
  have "form_step ff \<lparr>fsy_conn = p, fsy_push = [?ok], fsy_act = [d, ActReset]\<rparr> \<lparr>fsy_conn = ?p1, fsy_push = [?ok], fsy_act = [d, ActSetId]\<rparr>"
    using act_at [of ActReset p ActSetId ?p1 ff "[?ok]" "[d]" "[]"] by simp
  moreover have "form_step ff \<lparr>fsy_conn = ?p1, fsy_push = [?ok], fsy_act = [d, ActSetId]\<rparr>
      \<lparr>fsy_conn = ?p1, fsy_push = [?ok, PushEnter (pge_Id g2) ?f], fsy_act = [d, ActSetId]\<rparr>"
    using generates [of ff "\<lparr>fsy_conn = ?p1, fsy_push = [?ok], fsy_act = [d, ActSetId]\<rparr>" g2] by simp
  moreover have "(form_step ff)\<^sup>*\<^sup>* \<lparr>fsy_conn = ?p1, fsy_push = [?ok, PushEnter (pge_Id g2) ?f], fsy_act = [d, ActSetId]\<rparr>
      \<lparr>fsy_conn = pushed ?f ?p1, fsy_push = [?ok, PushWait (pge_Id g2) ?n], fsy_act = [d, ActSetId]\<rparr>"
    using form_pushed [of ?p1 ff "[?ok]" "pge_Id g2" ?f "[]" "[d, ActSetId]"] p(3) by simp
  moreover have "form_step ff \<lparr>fsy_conn = pushed ?f ?p1, fsy_push = [?ok, PushWait (pge_Id g2) ?n], fsy_act = [d, ActSetId]\<rparr>
      \<lparr>fsy_conn = (pushed ?f ?p1)\<lparr>pro_formId := []\<rparr>, fsy_push = [?ok, PushWait (pge_Id g2) ?n], fsy_act = [d, ActWait]\<rparr>"
    using act_at [of ActSetId "pushed ?f ?p1" ActWait _ ff "[?ok, PushWait (pge_Id g2) ?n]" "[d]" "[]"] by simp
  ultimately have "(form_step ff)\<^sup>*\<^sup>* (new_form_sys p0)
      \<lparr>fsy_conn = (pushed ?f ?p1)\<lparr>pro_formId := []\<rparr>, fsy_push = [?ok, PushWait (pge_Id g2) ?n], fsy_act = [d, ActWait]\<rparr>"
    using p(1) by (meson rtranclp.rtrancl_into_rtrancl rtranclp_trans)
  then show ?thesis using p(3) by (intro exI conjI) (auto simp: pushed_def generateForm_form_def)
qed

section \<open>A request on its way to the schema\<close>


















definition example_forms :: form_world where
  "example_forms = StartProcessing 0 ''n'' 1 2 Map.empty (NewProcessingApi ''a'')"

lemma example_forms_hit: "fst (getProcessingById 5 ''0-n'' example_forms) = Inr 0"
  by code_simp

section \<open>Properties\<close>

text \<open>
  C33: In every state of the form server a request finds under an id only the connection of that id, and no request is ever answered with
  the end of the schema: nothing closes the channel \<open>finished\<close>, so that the page learns of a schema that ends only from the
  error of a cancelled context.
\<close>

theorem form_server_invariant:
  assumes "(server_step ff)\<^sup>*\<^sup>* (NewProcessingApi node) w"
  shows "(\<forall>now pid n. fst (getProcessingById now pid w) = Inr n \<longrightarrow> n < length (fwo_sys w) \<and> pro_id (fsy_conn (fwo_sys w ! n)) = pid) \<and>
    (\<forall>s\<in>set (fwo_sys w). waitForm WaitFinished (fsy_conn s) = None \<and> ActDone (Inr None) \<notin> set (fsy_act s))"
proof -
  have inv: "forms_inv w" using assms by (induction rule: rtranclp_induct) (auto intro: NewProcessingApi_inv forms_inv_step)
  have "n < length (fwo_sys w) \<and> pro_id (fsy_conn (fwo_sys w ! n)) = pid" if r: "fst (getProcessingById now pid w) = Inr n" for now pid n
  proof -
    obtain hit t where g: "lru_Get now pid (fwo_table w) = (hit, t)" by fastforce
    then have "hit = Some n" using r by (simp add: getProcessingById_def split: option.splits)
    then show ?thesis using table_ok_Get(2) [OF _ g] inv by (force simp: forms_inv_def)
  qed
  then show ?thesis using inv by (auto simp: forms_inv_def unfinished_def waitForm_def)
qed

theorem form_server_invariant_witness:
  "fst (getProcessingById 5 ''0-n'' example_forms) = Inr 0 \<and> pro_id (fsy_conn (fwo_sys example_forms ! 0)) = ''0-n'' \<and>
   waitForm WaitFinished (fsy_conn (fwo_sys example_forms ! 0)) = None"
proof -
  have "(server_step (\<lambda>_. []))\<^sup>*\<^sup>* (NewProcessingApi ''a'') example_forms" unfolding example_forms_def by (rule r_into_rtranclp) (rule starts)
  note inv = form_server_invariant [OF this]
  show ?thesis using inv example_forms_hit by (meson nth_mem)
qed



text \<open>
  C32: When the page sends two actions for one form (a double click), the second request can crash the process: both pass the check
  for a form, the first delivers its action and closes the channel, and the second sends on the closed channel.
\<close>

theorem double_click_panics:
  "\<exists>s. (form_step ff)\<^sup>*\<^sup>* (new_form_sys (NewProcessingConnection newId domainId schemaId vars)) s \<and>
    fsy_push s = [PushGot (pge_Id g) a1] \<and> fsy_act s = [ActDone (Inr (Some (generateForm_form g (NewProcessingConnection newId domainId schemaId vars)))), ActReset, ActPanic]"
proof -
  let ?p0 = "NewProcessingConnection newId domainId schemaId vars" and ?w = "PushWait (pge_Id g) (Some 0)"
  let ?d = "ActDone (Inr (Some (generateForm_form g ?p0)))"
  obtain p where p: "(form_step ff)\<^sup>*\<^sup>* (new_form_sys ?p0) \<lparr>fsy_conn = p, fsy_push = [?w], fsy_act = [?d]\<rparr>" "shown p 0"
    using first_form [OF refl refl] by blast
  let ?s = "\<lambda>acts. \<lparr>fsy_conn = p, fsy_push = [?w], fsy_act = ?d # acts\<rparr>"
  let ?q = "p\<lparr>pro_closed := (pro_closed p)[0 := True]\<rparr>"
  have "form_step ff (?s []) (?s [ActEnter a1])" "form_step ff (?s [ActEnter a1]) (?s [ActEnter a1, ActEnter a2])"
    using answers [of ff "?s []" a1] answers [of ff "?s [ActEnter a1]" a2] by simp_all
  moreover have "(form_step ff)\<^sup>*\<^sup>* (?s [ActEnter a1, ActEnter a2]) (?s [ActSending (Some 0) a1, ActEnter a2])"
    using request_sends [OF p(2), of ff "[?w]" "[?d]" a1 "[ActEnter a2]"] by simp
  moreover have "(form_step ff)\<^sup>*\<^sup>* (?s [ActSending (Some 0) a1, ActEnter a2]) (?s [ActSending (Some 0) a1, ActSending (Some 0) a2])"
    using request_sends [OF p(2), of ff "[?w]" "[?d, ActSending (Some 0) a1]" a2 "[]"] by simp
  moreover have "(form_step ff)\<^sup>*\<^sup>* (?s [ActSending (Some 0) a1, ActSending (Some 0) a2])
      \<lparr>fsy_conn = ?q, fsy_push = [PushGot (pge_Id g) a1], fsy_act = [?d, ActReset, ActSending (Some 0) a2]\<rparr>"
    using request_closes [OF p(2), of ff "[]" "pge_Id g" "[]" "[?d]" a1 "[ActSending (Some 0) a2]"] by simp
  moreover have "form_step ff \<lparr>fsy_conn = ?q, fsy_push = [PushGot (pge_Id g) a1], fsy_act = [?d, ActReset, ActSending (Some 0) a2]\<rparr>
      \<lparr>fsy_conn = ?q, fsy_push = [PushGot (pge_Id g) a1], fsy_act = [?d, ActReset, ActPanic]\<rparr>"
    using act_at [of "ActSending (Some 0) a2" ?q ActPanic ?q ff "[PushGot (pge_Id g) a1]" "[?d, ActReset]" "[]"] p(2) by (simp add: shown_def)
  ultimately have "(form_step ff)\<^sup>*\<^sup>* (new_form_sys ?p0)
      \<lparr>fsy_conn = ?q, fsy_push = [PushGot (pge_Id g) a1], fsy_act = [?d, ActReset, ActPanic]\<rparr>"
    using p(1) by (meson rtranclp.rtrancl_into_rtrancl rtranclp_trans)
  then show ?thesis by fastforce
qed

text \<open>
  A page that sends one action at a time can lose the next form: the schema is awake before the request that woke it has cleared
  the field, so that the next \<open>generateForm\<close> is refused as a second form, while the request waits for a form that was never
  offered.
\<close>

lemma next_form_refused:
  "\<exists>s. (form_step ff)\<^sup>*\<^sup>* (new_form_sys (NewProcessingConnection newId domainId schemaId vars)) s \<and>
    fsy_push s = [PushDone (Inr CallResponseOK), PushDone (Inl two_forms)] \<and> last (fsy_act s) = ActWait \<and>
    pro_formAction (fsy_conn s) = None \<and> waitForm WaitForm (fsy_conn s) = None"
proof -
  let ?p0 = "NewProcessingConnection newId domainId schemaId vars" and ?ok = "PushDone (Inr CallResponseOK)"
  obtain p d where p: "(form_step ff)\<^sup>*\<^sup>* (new_form_sys ?p0) \<lparr>fsy_conn = p, fsy_push = [?ok], fsy_act = [d, ActReset]\<rparr>"
    "pro_formAction p = Some 0" "pro_forms p = []" using first_answer [OF refl] by blast
  let ?f = "generateForm_form g2 p" and ?acts = "[d, ActReset]"
  have "form_step ff \<lparr>fsy_conn = p, fsy_push = [?ok], fsy_act = ?acts\<rparr> \<lparr>fsy_conn = p, fsy_push = [?ok, PushEnter (pge_Id g2) ?f], fsy_act = ?acts\<rparr>"
    using generates [of ff "\<lparr>fsy_conn = p, fsy_push = [?ok], fsy_act = ?acts\<rparr>" g2] by simp
  moreover have "form_step ff \<lparr>fsy_conn = p, fsy_push = [?ok, PushEnter (pge_Id g2) ?f], fsy_act = ?acts\<rparr>
      \<lparr>fsy_conn = p, fsy_push = [?ok, PushDone (Inl two_forms)], fsy_act = ?acts\<rparr>"
    using push_at [of ff "PushEnter (pge_Id g2) ?f" p _ p "[?ok]" "[]" ?acts] p(2) by simp
  moreover have "(form_step ff)\<^sup>*\<^sup>* \<lparr>fsy_conn = p, fsy_push = [?ok, PushDone (Inl two_forms)], fsy_act = ?acts\<rparr>
      \<lparr>fsy_conn = p\<lparr>pro_formAction := None, pro_formId := []\<rparr>, fsy_push = [?ok, PushDone (Inl two_forms)], fsy_act = [d, ActWait]\<rparr>"
    using request_resets [of ff p "[?ok, PushDone (Inl two_forms)]" "[d]" "[]"] by simp
  ultimately have "(form_step ff)\<^sup>*\<^sup>* (new_form_sys ?p0)
      \<lparr>fsy_conn = p\<lparr>pro_formAction := None, pro_formId := []\<rparr>, fsy_push = [?ok, PushDone (Inl two_forms)], fsy_act = [d, ActWait]\<rparr>"
    using p(1) by (meson rtranclp.rtrancl_into_rtrancl rtranclp_trans)
  then show ?thesis using p(3) by (intro exI conjI) (auto simp: waitForm_def)
qed

end
