(* ===== verification/Flow_Http.thy ===== *)
theory Flow_Http
  imports Chat_Manager Cache_Laws
begin

text \<open>
  The application \<open>httpRequest\<close> (\<open>flow/http.go\<close>): the request it builds from its arguments, the cookies it keeps in
  the memory cache, and the variables it takes from the response.

  The network, the parser of URLs, MD5, JSON, \<open>gjson\<close> and \<open>xmlpath\<close> are arguments (\<open>http_ops\<close>), and so are the
  variables of the connection (\<open>http_conn\<close>), whose types differ between the providers.
\<close>

section \<open>Texts\<close>

text \<open>\<open>strconv.ParseBool\<close>, with an error read as false.\<close>

definition ParseBool :: "string \<Rightarrow> bool" where
  "ParseBool s = (s \<in> {''1'', ''t'', ''T'', ''TRUE'', ''true'', ''True''})"

text \<open>\<open>int(f)\<close> truncates towards zero.\<close>

definition IntValueFromMap :: "string \<Rightarrow> (string \<times> goval) list \<Rightarrow> int \<Rightarrow> int" where
  "IntValueFromMap name params def =
     (case map_of params name of
        Some (GInt i) \<Rightarrow> i
      | Some (GFloat q) \<Rightarrow> (if q < 0 then - \<lfloor>- q\<rfloor> else \<lfloor>q\<rfloor>)
      | Some (GStr s) \<Rightarrow> (case Atoi s of Some i \<Rightarrow> i | None \<Rightarrow> def)
      | _ \<Rightarrow> def)"

definition upper_char :: "char \<Rightarrow> char" where
  "upper_char c = (let n = (of_char c :: nat) in if 97 \<le> n \<and> n \<le> 122 then char_of (n - 32) else c)"

definition encodeURIComponent :: "string \<Rightarrow> string" where
  "encodeURIComponent str = replace_all ''+'' [CHR 0x25, CHR ''2'', CHR ''0''] (QueryEscape str)"

text \<open>\<open>\<dollar>{name}\<close> with a name that is not empty; a name without a value stays.\<close>

definition rawSubstitute :: "string \<Rightarrow> (string \<times> string) list \<Rightarrow> string" where
  "rawSubstitute template vars =
     ReplaceAllStringFunc [op_var] (CHR 0x7D)
       (\<lambda>st op name. (case (if name = [] then None else map_of vars name) of Some v \<Rightarrow> v | None \<Rightarrow> op @ name @ [CHR 0x7D], st)) () template"

section \<open>Queries (net/url)\<close>

text \<open>\<open>url.Values\<close>: keys with their values, each key once.\<close>

type_synonym url_values = "(string \<times> string list) list"

definition hex_val :: "char \<Rightarrow> nat option" where
  "hex_val c = (let n = (of_char c :: nat) in
     if 48 \<le> n \<and> n \<le> 57 then Some (n - 48) else if 65 \<le> n \<and> n \<le> 70 then Some (n - 55) else if 97 \<le> n \<and> n \<le> 102 then Some (n - 87) else None)"

fun QueryUnescape :: "string \<Rightarrow> string option" where
  "QueryUnescape [] = Some []"
| "QueryUnescape (c # cs) =
     (if c = CHR 0x25 then
        (case cs of
           h # l # r \<Rightarrow>
             (case (hex_val h, hex_val l) of
                (Some a, Some b) \<Rightarrow> map_option (\<lambda>t. char_of (16 * a + b) # t) (QueryUnescape r)
              | _ \<Rightarrow> None)
         | _ \<Rightarrow> None)
      else map_option (\<lambda>t. (if c = CHR ''+'' then CHR '' '' else c) # t) (QueryUnescape cs))"

definition values_Add :: "string \<Rightarrow> string \<Rightarrow> url_values \<Rightarrow> url_values" where
  "values_Add k v m = AList.update k ((case map_of m k of Some vs \<Rightarrow> vs | None \<Rightarrow> []) @ [v]) m"

text \<open>One piece between ampersands; empty pieces, pieces with a semicolon and bad escapes are skipped.\<close>

definition query_piece :: "string \<Rightarrow> url_values \<Rightarrow> url_values" where
  "query_piece s m =
     (if s = [] \<or> CHR '';'' \<in> set s then m
      else (case (case take_until CHR ''='' s of Some (k, v) \<Rightarrow> (QueryUnescape k, QueryUnescape v) | None \<Rightarrow> (QueryUnescape s, Some [])) of
          (Some k, Some v) \<Rightarrow> values_Add k v m
        | _ \<Rightarrow> m))"

definition ParseQuery :: "string \<Rightarrow> url_values" where
  "ParseQuery q = fold query_piece (split_on CHR ''&'' q) []"

text \<open>The pairs in the order of the keys, escaped by \<open>esc\<close>.\<close>

definition encode_with :: "(string \<Rightarrow> string) \<Rightarrow> url_values \<Rightarrow> string" where
  "encode_with esc v =
     join_with ''&'' (concat (map (\<lambda>(k, vs). map (\<lambda>x. esc k @ ''='' @ esc x) vs) (sort_key fst v)))"

definition encode :: "url_values \<Rightarrow> string" where
  "encode v = encode_with encodeURIComponent v"

definition values_Encode :: "url_values \<Rightarrow> string" where
  "values_Encode v = encode_with QueryEscape v"

section \<open>The request\<close>

record http_request =
  hq_method :: string
  hq_url :: string
  hq_body :: string
  hq_headers :: "(string \<times> string) list"

datatype renegotiation = RenegotiateNever | RenegotiateOnceAsClient | RenegotiateFreelyAsClient

text \<open>The time limit in milliseconds and the TLS settings, if the default transport is not used.\<close>

record http_client =
  hk_timeout :: int
  hk_tls :: "(bool \<times> renegotiation) option"

text \<open>
  A response: the values of \<open>Set-Cookie\<close>, if the header is there, and the time each cookie expires at, in seconds;
  \<open>Inl\<close> of the body is an error while it is read.
\<close>

record http_response =
  hp_StatusCode :: int
  hp_SetCookie :: "string list option"
  hp_expires :: "int list"
  hp_ContentLength :: int
  hp_ContentType :: string
  hp_Body :: "string + string"

record ('u, 'x) http_ops =
  hop_ff :: "rat \<Rightarrow> string"
  hop_md5 :: "string \<Rightarrow> string"
  hop_parse :: "string \<Rightarrow> string + 'u"
  hop_rawQuery :: "'u \<Rightarrow> string"
  hop_setRawQuery :: "string \<Rightarrow> 'u \<Rightarrow> 'u"
  hop_string :: "'u \<Rightarrow> string"
  hop_newRequest :: "string \<Rightarrow> string \<Rightarrow> string option"
  hop_marshal :: "goval \<Rightarrow> string + string"
  hop_do :: "http_client \<Rightarrow> http_request \<Rightarrow> string + http_response"
  hop_gjson :: "string \<Rightarrow> string \<Rightarrow> string + string"
  hop_compact :: "string \<Rightarrow> string + string"
  hop_xml :: "string + string \<Rightarrow> string + 'x"
  hop_xpath :: "string \<Rightarrow> 'x \<Rightarrow> string option"

definition hop_sprint :: "('u, 'x) http_ops \<Rightarrow> goval \<Rightarrow> string" where
  "hop_sprint ops v = sprint_v (hop_ff ops) v"

text \<open>The connection: its variables, global variables, its domain, and the decoder of the headers.\<close>

record 'c http_conn =
  hcn_get :: "'c \<Rightarrow> string \<Rightarrow> string \<times> bool"
  hcn_set :: "(string \<times> goval) list \<Rightarrow> 'c \<Rightarrow> app_error option \<times> 'c"
  hcn_global :: "string \<Rightarrow> string"
  hcn_domainId :: int
  hcn_headers :: "goval \<Rightarrow> (string \<times> string) list"

definition http_error :: "string \<Rightarrow> string \<Rightarrow> app_error" where
  "http_error what detail = NewAppError ''Flow.HttpRequest'' (''flow.app.http_request.'' @ what) [] detail 400"

definition parseMapValue :: "('u, 'x) http_ops \<Rightarrow> 'c http_conn \<Rightarrow> 'c \<Rightarrow> goval \<Rightarrow> string" where
  "parseMapValue ops cn c v =
     (let str = hop_sprint ops v in
      if has_suffix str [CHR 0x7D] then
        (if has_prefix str op_global then hcn_global cn (slice str 3 (length str - 1))
         else if has_prefix str op_var then fst (hcn_get cn c (slice str 2 (length str - 1)))
         else str)
      else str)"

definition contentTypeFromHeaders :: "(string \<times> string) list \<Rightarrow> string" where
  "contentTypeFromHeaders headers =
     (case find (\<lambda>(k, v). EqualFold k ''content-type'') headers of Some (_, v) \<Rightarrow> v | None \<Rightarrow> ''application/json'')"

definition buildHttpClient :: "('u, 'x) http_ops \<Rightarrow> (string \<times> goval) list \<Rightarrow> http_client" where
  "buildHttpClient ops props =
     (let skipVerify = (StringValueFromMap (hop_sprint ops) ''insecureSkipVerify'' props [] = ''true'');
          r = StringValueFromMap (hop_sprint ops) ''renegotiation'' props []
      in \<lparr>hk_timeout = IntValueFromMap ''timeout'' props 1000,
          hk_tls = (if skipVerify \<or> r \<noteq> [] then
            Some (skipVerify, if r = ''renegotiateOnceAsClient'' then RenegotiateOnceAsClient
              else if r = ''renegotiateFreelyAsClient'' then RenegotiateFreelyAsClient else RenegotiateNever) else None)\<rparr>)"

definition request_url :: "('u, 'x) http_ops \<Rightarrow> 'c http_conn \<Rightarrow> 'c \<Rightarrow> (string \<times> goval) list \<Rightarrow> string \<Rightarrow> 'u result" where
  "request_url ops cn c props rawUrl =
     (let parse = (\<lambda>t. ParseText (hcn_get cn c) t []) in
      case as_map (map_get props ''path'') of
        Some m \<Rightarrow>
          (case hop_parse ops (parse (rawSubstitute rawUrl (map (\<lambda>(k, v). (k, parseMapValue ops cn c v)) m))) of
             Inl er \<Rightarrow> Inl (http_error ''parse_path.args'' er)
           | Inr u \<Rightarrow> Inr (if hop_rawQuery ops u \<noteq> [] then hop_setRawQuery ops (encode (ParseQuery (hop_rawQuery ops u))) u else u))
      | None \<Rightarrow> (case hop_parse ops (parse rawUrl) of Inl er \<Rightarrow> Inl (http_error ''err.args'' er) | Inr u \<Rightarrow> Inr u))"

definition request_body :: "('u, 'x) http_ops \<Rightarrow> 'c http_conn \<Rightarrow> 'c \<Rightarrow> string \<Rightarrow> goval option \<Rightarrow> string result" where
  "request_body ops cn c contentType data =
     (let parse = (\<lambda>t. ParseText (hcn_get cn c) t []) in
      case data of
        None \<Rightarrow> Inr []
      | Some d \<Rightarrow>
          (if contains contentType ''text/xml'' \<or> contains contentType ''application/soap+xml'' then
             Inr (case d of GStr s \<Rightarrow> parse s | _ \<Rightarrow> [])
           else if has_prefix contentType ''application/x-www-form-urlencoded'' then
             Inr (case d of
                 GMap m \<Rightarrow> values_Encode (fold (\<lambda>(k, v) q. AList.update k [parseMapValue ops cn c v] q) m [])
               | GStr s \<Rightarrow> s
               | _ \<Rightarrow> [])
           else (case d of
               GStr s \<Rightarrow> Inr (parse s)
             | _ \<Rightarrow>
                 (case hop_marshal ops d of
                    Inl er \<Rightarrow> Inl (http_error ''valid.args'' er)
                  | Inr b \<Rightarrow> Inr (ParseTextWithConfig (hcn_get cn c) b [ParseOptionJson] [Some (parseGlobalVariables (hcn_global cn))])))))"

definition buildRequest :: "('u, 'x) http_ops \<Rightarrow> 'c http_conn \<Rightarrow> 'c \<Rightarrow> (string \<times> goval) list \<Rightarrow> http_request result" where
  "buildRequest ops cn c props =
     (let rawUrl = StringValueFromMap (hop_sprint ops) ''url'' props [] in
      if rawUrl = [] then Inl (http_error ''valid.args'' ''url is required'')
      else (case request_url ops cn c props (trim_char CHR '' '' rawUrl) of
          Inl er \<Rightarrow> Inl er
        | Inr u \<Rightarrow>
            (let h = (case map_of props ''headers'' of Some v \<Rightarrow> hcn_headers cn v | None \<Rightarrow> []);
                 headers = AList.update ''content-type'' (contentTypeFromHeaders h) h;
                 mthd = map upper_char (StringValueFromMap (hop_sprint ops) ''method'' props ''POST'')
             in case request_body ops cn c (contentTypeFromHeaders h) (map_of props ''data'') of
                  Inl er \<Rightarrow> Inl er
                | Inr body \<Rightarrow>
                    (case hop_newRequest ops mthd (hop_string ops u) of
                       Some er \<Rightarrow> Inl (http_error ''valid.args'' er)
                     | None \<Rightarrow> Inr \<lparr>hq_method = mthd, hq_url = hop_string ops u, hq_body = body, hq_headers = headers\<rparr>))))"

section \<open>The response\<close>

text \<open>The variables from a JSON text; an object or array is written without white space.\<close>

fun json_exports :: "('u, 'x) http_ops \<Rightarrow> (string \<times> goval) list \<Rightarrow> string \<Rightarrow> (string \<times> goval) list \<Rightarrow> (string \<times> goval) list result" where
  "json_exports ops all body [] = Inr []"
| "json_exports ops all body ((k, v) # m) =
     (case (case hop_gjson ops body (StringValueFromMap (hop_sprint ops) k all []) of Inl raw \<Rightarrow> hop_compact ops raw | Inr s \<Rightarrow> Inr s) of
        Inl er \<Rightarrow> Inl (http_error ''json.err'' er)
      | Inr s \<Rightarrow> (case json_exports ops all body m of Inl er \<Rightarrow> Inl er | Inr vars \<Rightarrow> Inr ((k, GStr s) # vars)))"

fun xml_exports :: "('u, 'x) http_ops \<Rightarrow> 'c http_conn \<Rightarrow> (string \<times> goval) list \<Rightarrow> 'x \<Rightarrow> (string \<times> goval) list \<Rightarrow> 'c \<Rightarrow> outcome2 \<times> 'c" where
  "xml_exports ops cn all x [] c = (ok2, c)"
| "xml_exports ops cn all x ((k, v) # m) c =
     (case hop_xpath ops (StringValueFromMap (hop_sprint ops) k all []) x of
        None \<Rightarrow> xml_exports ops cn all x m c
      | Some s \<Rightarrow>
          (case hcn_set cn [(k, GStr s)] c of
             (Some er, c1) \<Rightarrow> ((None, Some er), c1)
           | (None, c1) \<Rightarrow> xml_exports ops cn all x m c1))"

definition parseHttpResponse ::
  "('u, 'x) http_ops \<Rightarrow> 'c http_conn \<Rightarrow> string \<Rightarrow> string + string \<Rightarrow> (string \<times> goval) list \<Rightarrow> 'c \<Rightarrow> outcome2 \<times> 'c" where
  "parseHttpResponse ops cn contentType body exps c =
     (if contains contentType ''application/json'' then
        (if exps = [] then (ok2, c)
         else (case body of
             Inl er \<Rightarrow> ((None, Some (http_error ''parse.err'' er)), c)
           | Inr b \<Rightarrow>
               (case json_exports ops exps b exps of
                  Inl er \<Rightarrow> ((Some CallResponseError, Some er), c)
                | Inr vars \<Rightarrow>
                    (case hcn_set cn vars c of
                       (Some er, c1) \<Rightarrow> ((Some CallResponseError, Some er), c1)
                     | (None, c1) \<Rightarrow> (ok2, c1)))))
      else if contains contentType ''text/xml'' then
        (if exps = [] then (ok2, c)
         else (case hop_xml ops body of
             Inl er \<Rightarrow> ((None, Some (http_error ''parse.err'' er)), c)
           | Inr x \<Rightarrow> xml_exports ops cn exps x exps c))
      else ((Some CallResponseError, Some (http_error ''parse.err''
          (case body of Inl er \<Rightarrow> er | Inr _ \<Rightarrow> ''no support parse content-type '' @ contentType))), c))"

section \<open>Cookies and the application\<close>

text \<open>The shortest time until a cookie expires, less an hour; zero when none lasts longer than an hour.\<close>

definition cookie_expiry :: "int \<Rightarrow> int list \<Rightarrow> int" where
  "cookie_expiry now expires =
     fold (\<lambda>e best. let after = e - now - 3600 in if after > 0 \<and> (best = 0 \<or> after < best) then after else best) expires 0"

text \<open>\<open>%v\<close> of a pointer to a cache value, whose method \<open>String\<close> is not that of \<open>fmt.Stringer\<close>.\<close>

definition cache_value_text :: "(goval \<Rightarrow> string) \<Rightarrow> CacheValue \<Rightarrow> string" where
  "cache_value_text sprint v = [CHR 0x26, CHR 0x7B] @ sprint (cv_value v) @ [CHR 0x7D]"

definition export_cookie ::
  "'r redis_ops \<Rightarrow> 'c http_conn \<Rightarrow> int \<Rightarrow> string \<Rightarrow> string \<Rightarrow> bool \<Rightarrow> http_response \<Rightarrow> 'r caches \<Rightarrow> 'c \<Rightarrow> app_error option \<times> 'r caches \<times> 'c" where
  "export_cookie ro cn now cacheKey name cacheEnabled res fm c =
     (case (if name = [] then None else hp_SetCookie res) of
        None \<Rightarrow> (None, fm, c)
      | Some cookies \<Rightarrow>
          (let cookie = join_with '';'' cookies in
           case hcn_set cn [(name, GStr cookie)] c of
             (Some er, c1) \<Rightarrow> (Some er, fm, c1)
           | (None, c1) \<Rightarrow>
               (if cacheEnabled then
                  (case CacheSetValue ro now ''memory'' (hcn_domainId cn) cacheKey (GStr cookie) (cookie_expiry now (hp_expires res)) fm of
                     (er, fm1) \<Rightarrow> (er, fm1, c1))
                else (None, fm, c1))))"

text \<open>From the response to the exported variables.\<close>

definition take_response ::
  "'r redis_ops \<Rightarrow> ('u, 'x) http_ops \<Rightarrow> 'c http_conn \<Rightarrow> int \<Rightarrow> string \<Rightarrow> string \<Rightarrow> bool \<Rightarrow> (string \<times> goval) list \<Rightarrow> http_response \<Rightarrow> 'r caches \<Rightarrow> 'c \<Rightarrow>
   outcome2 \<times> 'r caches \<times> 'c" where
  "take_response ro ops cn now cacheKey name cacheEnabled props res fm c =
     (let code = StringValueFromMap (hop_sprint ops) ''responseCode'' props [];
          c1 = (if code \<noteq> [] then snd (hcn_set cn [(code, GStr (Itoa (hp_StatusCode res)))] c) else c)
      in case export_cookie ro cn now cacheKey name cacheEnabled res fm c1 of
           (Some er, fm1, c2) \<Rightarrow> ((None, Some er), fm1, c2)
         | (None, fm1, c2) \<Rightarrow>
             (if hp_ContentLength res = 0 then (ok2, fm1, c2)
              else (let p = StringValueFromMap (hop_sprint ops) ''parser'' props []; t = (if p = [] then hp_ContentType res else p)
                    in case as_map (map_get props ''exportVariables'') of
                         Some exps \<Rightarrow> (case parseHttpResponse ops cn t (hp_Body res) exps c2 of (r, c3) \<Rightarrow> (r, fm1, c3))
                       | None \<Rightarrow> (ok2, fm1, c2))))"

definition httpRequest ::
  "'r redis_ops \<Rightarrow> ('u, 'x) http_ops \<Rightarrow> 'c http_conn \<Rightarrow> int \<Rightarrow> goval \<Rightarrow> 'r caches \<Rightarrow> 'c \<Rightarrow> outcome2 \<times> 'r caches \<times> 'c" where
  "httpRequest ro ops cn now args fm c =
     (case as_map args of
        None \<Rightarrow> ((None, Some (http_error ''valid.args'' (''bad arguments '' @ hop_sprint ops args))), fm, c)
      | Some props \<Rightarrow>
          (let uri = StringValueFromMap (hop_sprint ops) ''url'' props [];
               name = StringValueFromMap (hop_sprint ops) ''exportCookie'' props [];
               cacheEnabled = ParseBool (StringValueFromMap (hop_sprint ops) ''cacheCookie'' props []);
               cacheKey = hop_md5 ops uri @ ''.'' @ name;
               (hit, fm0) = (if name \<noteq> [] \<and> cacheEnabled then
                   (case CacheGetValue ro now ''memory'' (hcn_domainId cn) cacheKey fm of (Inr v, fm1) \<Rightarrow> (Some v, fm1) | (Inl _, fm1) \<Rightarrow> (None, fm1))
                 else (None, fm))
           in if uri = [] then ((None, Some (http_error ''valid.args'' ''url is required'')), fm, c)
              else (case hit of
                  Some v \<Rightarrow>
                    (case hcn_set cn [(name, GStr (cache_value_text (hop_sprint ops) v))] c of
                       (Some er, c1) \<Rightarrow> ((None, Some er), fm0, c1)
                     | (None, c1) \<Rightarrow> (ok2, fm0, c1))
                | None \<Rightarrow>
                    (case buildRequest ops cn c props of
                       Inl er \<Rightarrow> ((None, Some er), fm0, c)
                     | Inr req \<Rightarrow>
                         (case hop_do ops (buildHttpClient ops props) req of
                            Inl er \<Rightarrow> ((None, Some (http_error ''valid.args'' er)), fm0, c)
                          | Inr res \<Rightarrow> take_response ro ops cn now cacheKey name cacheEnabled props res fm0 c)))))"

end
