(* ===== verification/Flow_Http_Props.thy ===== *)
theory Flow_Http_Props
  imports Flow_Http Text_Laws
begin

text \<open>
  Properties of \<open>httpRequest\<close>: the query that it writes again keeps every parameter, and what becomes of a cached
  cookie.
\<close>

section \<open>Queries\<close>

text \<open>What both escapings promise: the text comes back, and the characters that structure a query do not occur.\<close>

locale query_escaping =
  fixes esc :: "string \<Rightarrow> string"
  assumes unescape: "QueryUnescape (esc s) = Some s"
    and plain: "c \<in> {CHR ''&'', CHR ''='', CHR '';''} \<Longrightarrow> c \<notin> set (esc s)"
begin

lemma plain_simps [simp]: "CHR ''&'' \<notin> set (esc s)" "CHR ''='' \<notin> set (esc s)" "CHR '';'' \<notin> set (esc s)"
  by (rule plain; simp)+

lemma piece: "query_piece (esc k @ CHR ''='' # esc x) m = values_Add k x m"
  by (simp add: query_piece_def take_until_at unescape)

lemma pieces_of_key:
  "k \<notin> fst ` set m \<Longrightarrow> fold query_piece (map (\<lambda>x. esc k @ CHR ''='' # esc x) vs) (m @ [(k, us)]) = m @ [(k, us @ vs)]"
proof (induction vs arbitrary: us)
  case (Cons x vs)
  have new: "map_of m k = None" using Cons.prems by (simp add: map_of_eq_None_iff)
  then have "AList.update k w (m @ [(k, us)]) = m @ [(k, w)]" for w using Cons.prems by (induction m) auto
  then have "values_Add k x (m @ [(k, us)]) = m @ [(k, us @ [x])]" using new by (simp add: values_Add_def map_add_def)
  then show ?case using Cons.IH [of "us @ [x]"] Cons.prems by (simp add: piece)
qed simp

lemma pieces_of_new_key:
  assumes "k \<notin> fst ` set m" "vs \<noteq> []"
  shows "fold query_piece (map (\<lambda>x. esc k @ CHR ''='' # esc x) vs) m = m @ [(k, vs)]"
proof -
  obtain x us where vs: "vs = x # us" using assms(2) by (cases vs) auto
  have new: "map_of m k = None" using assms(1) by (simp add: map_of_eq_None_iff)
  have "AList.update k [x] m = m @ [(k, [x])]" using assms(1) by (induction m) auto
  then have "values_Add k x m = m @ [(k, [x])]" using new by (simp add: values_Add_def)
  then show ?thesis using pieces_of_key [OF assms(1), of us "[x]"] by (simp add: vs piece)
qed

lemma all_pieces:
  "distinct (map fst v) \<Longrightarrow> \<forall>(k, vs)\<in>set v. vs \<noteq> [] \<Longrightarrow> fst ` set m \<inter> fst ` set v = {} \<Longrightarrow>
   fold query_piece (concat (map (\<lambda>(k, vs). map (\<lambda>x. esc k @ CHR ''='' # esc x) vs) v)) m = m @ v"
proof (induction v arbitrary: m)
  case (Cons kv v)
  obtain k vs where kv: "kv = (k, vs)" by force
  then have "fold query_piece (map (\<lambda>x. esc k @ CHR ''='' # esc x) vs) m = m @ [(k, vs)]"
    using Cons.prems by (intro pieces_of_new_key) auto
  moreover have "fold query_piece (concat (map (\<lambda>(k, vs). map (\<lambda>x. esc k @ CHR ''='' # esc x) vs) v)) (m @ [(k, vs)]) = (m @ [(k, vs)]) @ v"
    using Cons.prems kv by (intro Cons.IH) auto
  ultimately show ?case by (simp add: kv)
qed simp

lemma split_join_amp: "xs \<noteq> [] \<Longrightarrow> \<forall>x\<in>set xs. CHR ''&'' \<notin> set x \<Longrightarrow> split_on CHR ''&'' (join_with ''&'' xs) = xs"
proof (induction xs)
  case (Cons x xs)
  show ?case
  proof (cases xs)
    case Nil
    then show ?thesis using Cons.prems by (simp add: join_with_def split_on_no_sep)
  next
    case (Cons y ys)
    then have "join_with ''&'' (x # xs) = x @ CHR ''&'' # join_with ''&'' xs" by (simp add: join_with_def)
    then show ?thesis using Cons.IH Cons.prems \<open>xs = y # ys\<close> by (simp add: split_on_append_sep)
  qed
qed simp

lemma parse_encoded:
  assumes "distinct (map fst v)" "\<forall>(k, vs)\<in>set v. vs \<noteq> []"
  shows "ParseQuery (encode_with esc v) = sort_key fst v"
proof (cases "v = []")
  case True
  then show ?thesis by (simp add: ParseQuery_def encode_with_def join_with_def query_piece_def)
next
  case False
  let ?s = "sort_key fst v"
  let ?ps = "concat (map (\<lambda>(k, vs). map (\<lambda>x. esc k @ CHR ''='' # esc x) vs) ?s)"
  have s: "distinct (map fst ?s)" "\<forall>(k, vs)\<in>set ?s. vs \<noteq> []" "?s \<noteq> []"
    using assms False by (simp_all add: distinct_map) (metis length_0_conv length_sort)
  have "?ps \<noteq> []" using s(2,3) by (cases ?s) (auto split: prod.splits)
  moreover have "\<forall>x\<in>set ?ps. CHR ''&'' \<notin> set x" by auto
  ultimately have "split_on CHR ''&'' (join_with ''&'' ?ps) = ?ps" by (rule split_join_amp)
  moreover have "encode_with esc v = join_with ''&'' ?ps" by (simp add: encode_with_def)
  ultimately show ?thesis using all_pieces [OF s(1,2), of "[]"] by (simp add: ParseQuery_def)
qed

end

lemma hex_val_upper: "d < 16 \<Longrightarrow> hex_val (hex_upper d) = Some d"
  by (simp add: hex_upper_def hex_val_def Let_def)

lemma structural_byte: "c \<in> {CHR ''&'', CHR ''='', CHR '';'', CHR ''+'', CHR 0x25} \<Longrightarrow> \<not> is_alnum c \<and> c \<notin> set ''-_.~''"
proof -
  have "list_all (\<lambda>c. \<not> is_alnum c \<and> c \<notin> set ''-_.~'') [CHR ''&'', CHR ''='', CHR '';'', CHR ''+'', CHR 0x25]" by code_simp
  then show "c \<in> {CHR ''&'', CHR ''='', CHR '';'', CHR ''+'', CHR 0x25} \<Longrightarrow> \<not> is_alnum c \<and> c \<notin> set ''-_.~''" by auto
qed

lemma kept_byte: "is_alnum c \<or> c \<in> set ''-_.~'' \<Longrightarrow> c \<noteq> CHR 0x25 \<and> c \<noteq> CHR ''+'' \<and> c \<notin> {CHR ''&'', CHR ''='', CHR '';''}"
  using structural_byte [of c] by blast

text \<open>One escaped byte in front of a query; a blank is written as a plus sign or in hexadecimal.\<close>

definition escape_byte :: "string \<Rightarrow> char \<Rightarrow> string" where
  "escape_byte blank c = (if c = CHR '' '' then blank else query_escape_byte c)"

lemma unescape_byte:
  assumes "blank \<in> {''+'', [CHR 0x25, CHR ''2'', CHR ''0'']}"
  shows "QueryUnescape (escape_byte blank c @ r) = map_option (\<lambda>t. c # t) (QueryUnescape r)"
proof -
  have b: "hex_val (CHR ''2'') = Some 2" "hex_val (CHR ''0'') = Some 0" by code_simp+
  have sp: "CHR '' '' = (char_of (32 :: nat) :: char)" by code_simp
  consider "c = CHR '' ''" | "c \<noteq> CHR '' ''" "is_alnum c \<or> c \<in> set ''-_.~''" | "c \<noteq> CHR '' ''" "\<not> (is_alnum c \<or> c \<in> set ''-_.~'')" by blast
  then show ?thesis
  proof cases
    case 1
    then show ?thesis using assms b sp by (auto simp: escape_byte_def)
  next
    case 2
    then show ?thesis using kept_byte [of c] by (simp add: escape_byte_def query_escape_byte_def)
  next
    case 3
    have "char_of (16 * (of_char c div 16) + of_char c mod 16 :: nat) = c" by simp
    then show ?thesis using 3 hex_val_upper [OF byte_less(1), of c] hex_val_upper [OF byte_less(2), of c]
      by (simp add: escape_byte_def query_escape_byte_def)
  qed
qed

lemma unescape_bytes:
  "blank \<in> {''+'', [CHR 0x25, CHR ''2'', CHR ''0'']} \<Longrightarrow> QueryUnescape (concat (map (escape_byte blank) s)) = Some s"
  by (induction s) (simp_all add: unescape_byte)

lemma escaped_plain:
  assumes "blank \<in> {''+'', [CHR 0x25, CHR ''2'', CHR ''0'']}" "c \<in> {CHR ''&'', CHR ''='', CHR '';''}"
  shows "c \<notin> set (concat (map (escape_byte blank) s))"
proof -
  have c: "\<not> is_alnum c" "c \<notin> set ''-_.~''" "c \<notin> {CHR ''+'', CHR 0x25, CHR ''2'', CHR ''0''}" using structural_byte [of c] assms(2) by auto
  have "c \<notin> set (escape_byte blank d)" for d
  proof (cases "d = CHR '' ''")
    case True
    then show ?thesis using assms(1) c(3) by (auto simp: escape_byte_def)
  next
    case False
    have "hex_upper (of_char d div 16) \<noteq> c" "hex_upper (of_char d mod 16) \<noteq> c"
      using hex_upper_facts(3) [OF byte_less(1), of d] hex_upper_facts(3) [OF byte_less(2), of d] c(1) by auto
    then have "c \<notin> set (query_escape_byte d)" if "\<not> (is_alnum d \<or> d \<in> set ''-_.~'')"
      using False c(3) unfolding query_escape_byte_def if_not_P [OF that] by simp
    moreover have "c \<notin> set (query_escape_byte d)" if k: "is_alnum d \<or> d \<in> set ''-_.~''"
      using k c(1,2) unfolding query_escape_byte_def if_P [OF k] by (metis empty_iff list.set(1) set_ConsD)
    ultimately show ?thesis using False unfolding escape_byte_def by (metis (full_types))
  qed
  then show ?thesis by simp
qed

lemma QueryEscape_bytes: "QueryEscape s = concat (map (escape_byte ''+'') s)"
  unfolding QueryEscape_def by (rule arg_cong [where f = concat]) (simp add: escape_byte_def query_escape_byte_def is_alnum_def)

lemma encodeURIComponent_bytes: "encodeURIComponent s = concat (map (escape_byte [CHR 0x25, CHR ''2'', CHR ''0'']) s)"
proof -
  have tk: "list_all token (map query_escape_byte s)" by (simp add: list_all_iff query_escape_token)
  have "swap_token ''+'' [CHR 0x25, CHR ''2'', CHR ''0''] (query_escape_byte c) = escape_byte [CHR 0x25, CHR ''2'', CHR ''0''] c" for c
    using kept_byte [of c] by (auto simp: swap_token_def escape_byte_def query_escape_byte_def is_alnum_def)
  then show ?thesis
    using replace_all_forms(1) [OF tk, of "[CHR 0x25, CHR ''2'', CHR ''0'']"] by (simp add: encodeURIComponent_def QueryEscape_def comp_def)
qed

text \<open>What a parsed query looks like.\<close>

definition values_ok :: "url_values \<Rightarrow> bool" where
  "values_ok v = (distinct (map fst v) \<and> (\<forall>(k, vs)\<in>set v. vs \<noteq> []))"

lemma update_entry: "(k', w) \<in> set (AList.update k v m) \<Longrightarrow> (k', w) = (k, v) \<or> (k', w) \<in> set m"
  by (induction m) (auto split: if_splits)

lemma values_Add_ok: "values_ok m \<Longrightarrow> values_ok (values_Add k x m)"
  by (auto simp: values_ok_def values_Add_def distinct_update dest!: update_entry)

lemma query_piece_ok: "values_ok m \<Longrightarrow> values_ok (query_piece s m)"
  by (auto simp: query_piece_def values_Add_ok split: option.splits prod.splits)

lemma ParseQuery_ok: "values_ok (ParseQuery q)"
proof -
  have "values_ok m \<Longrightarrow> values_ok (fold query_piece ps m)" for ps m by (induction ps arbitrary: m) (auto intro: query_piece_ok)
  moreover have "values_ok []" by (simp add: values_ok_def)
  ultimately show ?thesis unfolding ParseQuery_def by blast
qed

interpretation form: query_escaping QueryEscape
  by unfold_locales (simp add: QueryEscape_bytes unescape_bytes, simp only: QueryEscape_bytes, rule escaped_plain, simp_all)

interpretation component: query_escaping encodeURIComponent
  by unfold_locales (simp add: encodeURIComponent_bytes unescape_bytes, simp only: encodeURIComponent_bytes, rule escaped_plain, simp_all)


section \<open>Cookies\<close>

lemma cookie_expiry_0: "\<forall>e\<in>set expires. e \<le> now + 3600 \<Longrightarrow> cookie_expiry now expires = 0"
proof -
  have "\<forall>e\<in>set es. e \<le> now + 3600 \<Longrightarrow>
      fold (\<lambda>e best. let after = e - now - 3600 in if after > 0 \<and> (best = 0 \<or> after < best) then after else best) es 0 = 0" for es
    by (induction es) (auto simp: Let_def)
  then show "\<forall>e\<in>set expires. e \<le> now + 3600 \<Longrightarrow> cookie_expiry now expires = 0" unfolding cookie_expiry_def by blast
qed

text \<open>A request whose cookie is in the cache.\<close>

lemma cached_request:
  fixes ops :: "('u, 'x) http_ops"
  assumes "uri \<noteq> []" "name \<noteq> []" "ParseBool (StringValueFromMap (hop_sprint ops) ''cacheCookie'' props [])"
    "StringValueFromMap (hop_sprint ops) ''url'' props [] = uri" "StringValueFromMap (hop_sprint ops) ''exportCookie'' props [] = name"
    "CacheGetValue ro now ''memory'' (hcn_domainId cn) (hop_md5 ops uri @ ''.'' @ name) fm = (Inr \<lparr>cv_value = GStr cookie\<rparr>, fm1)"
    "hcn_set cn [(name, GStr (''&{'' @ cookie @ ''}''))] c = (None, c1)"
  shows "httpRequest ro ops cn now (GMap props) fm c = (ok2, fm1, c1)"
  using assms by (simp add: httpRequest_def as_map_def cache_value_text_def hop_sprint_def)

text \<open>An example: a connection that records what is set, and a response with a session cookie.\<close>

definition example_http_ops :: "(unit, unit) http_ops" where
  "example_http_ops = \<lparr>hop_ff = (\<lambda>_. []), hop_md5 = id, hop_parse = (\<lambda>_. Inr ()), hop_rawQuery = (\<lambda>_. []), hop_setRawQuery = (\<lambda>_ u. u),
     hop_string = (\<lambda>_. []), hop_newRequest = (\<lambda>_ _. None), hop_marshal = (\<lambda>_. Inr []), hop_do = (\<lambda>_ _. Inl ''no network''),
     hop_gjson = (\<lambda>_ _. Inr []), hop_compact = Inr, hop_xml = (\<lambda>_. Inr ()), hop_xpath = (\<lambda>_ _. None)\<rparr>"

definition example_http_conn :: "(string \<times> goval) list http_conn" where
  "example_http_conn = \<lparr>hcn_get = (\<lambda>_ _. ([], False)), hcn_set = (\<lambda>vs c. (None, vs @ c)), hcn_global = (\<lambda>_. []), hcn_domainId = 1, hcn_headers = (\<lambda>_. [])\<rparr>"

definition example_session_response :: http_response where
  "example_session_response = \<lparr>hp_StatusCode = 200, hp_SetCookie = Some [''sid=7''], hp_expires = [- 62135596800], hp_ContentLength = 0,
     hp_ContentType = [], hp_Body = Inr []\<rparr>"

definition example_http_args :: "(string \<times> goval) list" where
  "example_http_args = [(''url'', GStr ''http://a''), (''exportCookie'', GStr ''ck''), (''cacheCookie'', GBool True)]"

definition example_redis :: "unit redis_ops" where
  "example_redis = \<lparr>rd_get = (\<lambda>_ s. (Inl [], s)), rd_set = (\<lambda>_ _ _ s. (None, s)), rd_del = (\<lambda>_ s. (None, s))\<rparr>"

definition example_http_caches :: "unit caches" where
  "example_http_caches = \<lparr>fc_memory = NewMemoryCache 10 0, fc_redis = None\<rparr>"

section \<open>Properties\<close>

text \<open>
  C34: The query of the URL that \<open>httpRequest\<close> writes again, and a form that it sends, have exactly the parameters they had: parsing
  gives each key with all its values in their order, whatever bytes they consist of, and only the keys are sorted.
\<close>

theorem query_survives_encoding:
  "ParseQuery (encode (ParseQuery q)) = sort_key fst (ParseQuery q) \<and> ParseQuery (values_Encode (ParseQuery q)) = sort_key fst (ParseQuery q)"
  using ParseQuery_ok [of q] component.parse_encoded [of "ParseQuery q"] form.parse_encoded [of "ParseQuery q"]
  by (simp add: values_ok_def encode_def values_Encode_def)

text \<open>
  A cookie that does not last for more than an hour, such as a session cookie, is cached for ever: after its response is
  stored, every later request with the same URL and variable, however late, sends nothing and succeeds, and it sets the variable not to the
  cookie but to the text of a Go pointer, the cookie between \<open>&{\<close> and \<open>}\<close>.
\<close>

lemma short_cookie_cached_for_ever:
  fixes ops :: "('u, 'x) http_ops"
  assumes "lru_inv (fc_memory fm)" "1 \<le> lru_size (fc_memory fm)"
    and "StringValueFromMap (hop_sprint ops) ''url'' props [] = uri" "uri \<noteq> []"
    and "StringValueFromMap (hop_sprint ops) ''exportCookie'' props [] = name" "name \<noteq> []"
    and "ParseBool (StringValueFromMap (hop_sprint ops) ''cacheCookie'' props [])"
    and "hp_SetCookie res = Some cookies" "\<forall>e\<in>set (hp_expires res). e \<le> now + 3600"
    and "export_cookie ro cn now (hop_md5 ops uri @ ''.'' @ name) name True res fm c = (r, fm1, c1)"
    and sets: "hcn_set cn [(name, GStr (join_with '';'' cookies))] c = (None, c1)"
      "hcn_set cn [(name, GStr (''&{'' @ join_with '';'' cookies @ ''}''))] c2 = (None, c3)"
  shows "\<exists>fm2. httpRequest ro ops cn later (GMap props) fm1 c2 = (ok2, fm2, c3)"
proof -
  let ?key = "hop_md5 ops uri @ ''.'' @ name" and ?cookie = "join_with '';'' cookies"
  have "CacheSetValue ro now ''memory'' (hcn_domainId cn) ?key (GStr ?cookie) 0 fm = (r, fm1)"
    using assms by (auto simp: export_cookie_def cookie_expiry_0 Let_def split: prod.splits)
  then obtain fm2 where "CacheGetValue ro later ''memory'' (hcn_domainId cn) ?key fm1 = (Inr \<lparr>cv_value = GStr ?cookie\<rparr>, fm2)"
    using cache_get_after_set [of "''memory''", OF _ assms(1,2), of ro now "hcn_domainId cn" ?key ?cookie 0 r fm1 later] by auto
  then show ?thesis using cached_request [of uri name ops props ro later cn fm1 ?cookie fm2 c2 c3] assms by blast
qed

end
