(* ===== verification/Flow_Mail.thy ===== *)
theory Flow_Mail
  imports Flow_Http
begin

text \<open>
  Mail and payments: \<open>sendEmail\<close> and \<open>getEmail\<close> (\<open>flow/email.go\<close>) and the invoices of a bank
  (\<open>flow/monopay.go\<close>).  The mail server, the bank, the stores and the services of files are arguments.  An application returns a
  response, an error or both, and the connection; \<open>None\<close> is a panic.
\<close>

text \<open>What the applications use of a connection; \<open>Set\<close> returns a response, an error or both.\<close>

record 'c app_conn =
  acn_set :: "(string \<times> goval) list \<Rightarrow> 'c \<Rightarrow> outcome2 \<times> 'c"
  acn_get :: "'c \<Rightarrow> string \<Rightarrow> string \<times> bool"
  acn_id :: string
  acn_domainId :: int

definition svc_args :: "(goval \<Rightarrow> 'a result) \<Rightarrow> goval \<Rightarrow> ('a \<Rightarrow> 'c \<Rightarrow> outcome2 \<times> 'c) \<Rightarrow> 'c \<Rightarrow> outcome2 \<times> 'c" where
  "svc_args decode args k c = (case decode args of Inl er \<Rightarrow> ((None, Some er), c) | Inr a \<Rightarrow> k a c)"

text \<open>A result that is ignored.\<close>

definition set_quietly :: "'c app_conn \<Rightarrow> (string \<times> goval) list \<Rightarrow> 'c \<Rightarrow> 'c" where
  "set_quietly cn vars c = snd (acn_set cn vars c)"

section \<open>Sending mail (email.go)\<close>

record smtp_settings =
  sms_Id :: int
  sms_Server :: string
  sms_Port :: int
  sms_User :: string
  sms_Password :: string
  sms_Tls :: bool
  sms_AuthType :: string

record email_args =
  ema_Cc :: "string list"
  ema_From :: string
  ema_Message :: string
  ema_ReplyToId :: string
  ema_Type :: string
  ema_Profile :: "(int option \<times> string option) option"
  ema_Smtp :: smtp_settings
  ema_Subject :: string
  ema_To :: "string list"
  ema_ContactIds :: "int list"
  ema_OwnerId :: "int option"
  ema_Async :: bool
  ema_Files :: "int list"
  ema_RetryCount :: int
  ema_Store :: bool
  ema_Set :: "(string \<times> string) list"

text \<open>A message: its headers, the type and text of its body, and its attachments, whose encoded names are left out.\<close>

record mail_message =
  mmm_headers :: "(string \<times> string list) list"
  mmm_body :: "string \<times> string"
  mmm_files :: "im_file list"

record mail_dialer =
  mdl_server :: string
  mdl_port :: int
  mdl_user :: string
  mdl_password :: string
  mdl_bearer :: "string option"
  mdl_skipVerify :: bool

record stored_email =
  ste_Direction :: string
  ste_MessageId :: string
  ste_Subject :: string
  ste_ProfileId :: int
  ste_From :: "string list"
  ste_To :: "string list"
  ste_InReplyTo :: string
  ste_CC :: "string list"
  ste_Body :: string
  ste_Attachments :: "im_file list"
  ste_OwnerId :: "int option"
  ste_ContactIds :: "int list"

text \<open>
  The services: the settings of a profile, the files, a token, a fresh message id, the mail server (the error of the
  attempt with a number) and the store, which gives the row its id.
\<close>

record mail_services =
  mse_settings :: "int \<Rightarrow> int option \<times> string option \<Rightarrow> smtp_settings result"
  mse_files :: "int \<Rightarrow> int list \<Rightarrow> im_file list result"
  mse_token :: "smtp_settings \<Rightarrow> string result"
  mse_id :: "string + string"
  mse_dial :: "mail_dialer \<Rightarrow> mail_message \<Rightarrow> nat \<Rightarrow> string option"
  mse_save :: "int \<Rightarrow> stored_email \<Rightarrow> app_error option \<times> int"

text \<open>\<open>ReplyToId[1:len-1]\<close> panics on a text of one byte.\<close>

definition inner_text :: "string \<Rightarrow> string option" where
  "inner_text s = (if length s = 1 then None else Some (slice s 1 (length s - 1)))"

definition mail_headers :: "email_args \<Rightarrow> string \<Rightarrow> (string \<times> string list) list option" where
  "mail_headers a from =
     (case (if ema_ReplyToId a = [] then Some [] else inner_text (ema_ReplyToId a)) of
        None \<Rightarrow> None
      | Some reply \<Rightarrow>
          Some ([(''To'', ema_To a)] @ (if from \<noteq> [] then [(''From'', [from])] else []) @
            (if ema_Subject a \<noteq> [] then [(''Subject'', [ema_Subject a])] else []) @
            (if ema_ReplyToId a \<noteq> [] then [(''In-Reply-To'', [reply])] else []) @
            (if ema_Cc a \<noteq> [] then [(''Cc'', ema_Cc a)] else [])))"

definition mail_with :: "(string \<times> string list) list \<Rightarrow> email_args \<Rightarrow> string \<Rightarrow> im_file list \<Rightarrow> mail_message" where
  "mail_with headers a mid files =
     \<lparr>mmm_headers = headers @ [(''Message-Id'', [mid])], mmm_body = (ema_Type a, ema_Message a), mmm_files = files\<rparr>"

definition mail_from :: "email_args \<Rightarrow> string" where
  "mail_from a = (if ema_From a = [] \<and> sms_User (ema_Smtp a) \<noteq> [] then sms_User (ema_Smtp a) else ema_From a)"

definition mail_dialer_of :: "mail_services \<Rightarrow> smtp_settings \<Rightarrow> mail_dialer result" where
  "mail_dialer_of ms s =
     (if sms_AuthType s = ''oauth2'' then
        (case mse_token ms s of
           Inl er \<Rightarrow> Inl er
         | Inr t \<Rightarrow> Inr \<lparr>mdl_server = sms_Server s, mdl_port = sms_Port s, mdl_user = sms_User s, mdl_password = [], mdl_bearer = Some t, mdl_skipVerify = sms_Tls s\<rparr>)
      else Inr \<lparr>mdl_server = sms_Server s, mdl_port = sms_Port s, mdl_user = sms_User s, mdl_password = sms_Password s, mdl_bearer = None, mdl_skipVerify = sms_Tls s\<rparr>)"

text \<open>
  The variable \<open>err\<close> of \<open>sendEmailFn\<close> keeps the error of the file service unless a token is fetched after it.
  The loop \<open>retry\<close>: \<open>n\<close> further attempts, number \<open>k\<close> comes next, \<open>err\<close> is the variable that the deferred function
  reads.
\<close>

fun send_retry :: "(nat \<Rightarrow> string option) \<Rightarrow> nat \<Rightarrow> nat \<Rightarrow> app_error option \<Rightarrow> string option \<times> app_error option" where
  "send_retry dial n k err =
     (case dial k of
        None \<Rightarrow> (None, err)
      | Some e \<Rightarrow> (case n of 0 \<Rightarrow> (Some e, err) | Suc m \<Rightarrow> send_retry dial m (Suc k) (Some (NewInternalError ''Email'' e))))"

declare send_retry.simps [simp del]

definition email_row :: "email_args \<Rightarrow> string \<Rightarrow> string \<Rightarrow> im_file list \<Rightarrow> stored_email" where
  "email_row a from mid files =
     \<lparr>ste_Direction = ''outbound'', ste_MessageId = mid, ste_Subject = ema_Subject a, ste_ProfileId = sms_Id (ema_Smtp a), ste_From = [from], ste_To = ema_To a,
      ste_InReplyTo = (if ema_ReplyToId a \<noteq> [] then slice (ema_ReplyToId a) 1 (length (ema_ReplyToId a) - 1) else []), ste_CC = ema_Cc a, ste_Body = ema_Message a,
      ste_Attachments = files, ste_OwnerId = (case ema_OwnerId a of Some i \<Rightarrow> if i > 0 then Some i else None | None \<Rightarrow> None), ste_ContactIds = ema_ContactIds a\<rparr>"

text \<open>The deferred function: the id of the message, the id of the stored row and the text of \<open>err\<close>.\<close>

definition mail_report :: "'c app_conn \<Rightarrow> email_args \<Rightarrow> string \<Rightarrow> int option \<Rightarrow> app_error option \<Rightarrow> 'c \<Rightarrow> 'c" where
  "mail_report cn a mid row err c =
     (let put = (\<lambda>key v c. case (map_of (ema_Set a) key, v) of (Some name, Some x) \<Rightarrow> set_quietly cn [(name, GStr x)] c | _ \<Rightarrow> c)
      in put ''error'' (map_option AppError_Error err) (put ''id'' (map_option Itoa row) (put ''message_id'' (Some mid) c)))"

definition sendEmailFn :: "mail_services \<Rightarrow> 'c app_conn \<Rightarrow> email_args \<Rightarrow> 'c \<Rightarrow> (outcome2 \<times> 'c) option" where
  "sendEmailFn ms cn a c =
     (let from = mail_from a;
          files = (if ema_Files a = [] then [] else (case mse_files ms (acn_domainId cn) (ema_Files a) of Inr fs \<Rightarrow> fs | Inl _ \<Rightarrow> []))
      in case mail_headers a from of
           None \<Rightarrow> None
         | Some headers \<Rightarrow>
             Some (case mail_dialer_of ms (ema_Smtp a) of
                 Inl er \<Rightarrow> ((Some CallResponseError, Some er), c)
               | Inr dialer \<Rightarrow>
                   (case mse_id ms of
                      Inl er \<Rightarrow> ((Some CallResponseError, Some (NewAppError ''Email'' ''flow.email.gen_id.app_err'' [] er 500)), c)
                    | Inr mid \<Rightarrow>
                        (let mail = mail_with headers a mid files
                         in case send_retry (mse_dial ms dialer mail) (nat (ema_RetryCount a)) 0
                              (if ema_Files a = [] \<or> mdl_bearer dialer \<noteq> None then None
                               else (case mse_files ms (acn_domainId cn) (ema_Files a) of Inr _ \<Rightarrow> None | Inl er \<Rightarrow> Some er)) of
                              (Some e, err) \<Rightarrow>
                                ((None, Some (NewAppError ''Email'' ''flow.email.send.app_err'' [] e 500)), mail_report cn a mid None err c)
                            | (None, err) \<Rightarrow>
                                (if ema_Store a \<and> sms_Id (ema_Smtp a) > 0 then
                                   (case mse_save ms (acn_domainId cn) (email_row a from mid files) of
                                      (Some er, i) \<Rightarrow> ((None, Some er), mail_report cn a mid (Some i) (Some er) c)
                                    | (None, i) \<Rightarrow> (ok2, mail_report cn a mid (Some i) None c))
                                 else (ok2, mail_report cn a mid None err c))))))"

text \<open>\<open>sendEmail\<close>; an asynchronous mail is sent later by a goroutine, given by its arguments.\<close>

definition sendEmail ::
  "mail_services \<Rightarrow> (goval \<Rightarrow> email_args result) \<Rightarrow> 'c app_conn \<Rightarrow> goval \<Rightarrow> 'c \<Rightarrow> (outcome2 \<times> email_args option \<times> 'c) option" where
  "sendEmail ms decode cn args c =
     (let refuse = (\<lambda>er. Some ((None, Some er), None, c)) in
      case decode args of
        Inl er \<Rightarrow> refuse er
      | Inr a0 \<Rightarrow>
          (if ema_Message a0 = [] then refuse (ErrorRequiredParameter ''sendEmail'' ''message'')
           else if ema_To a0 = [] then refuse (ErrorRequiredParameter ''sendEmail'' ''to'')
           else (let a = (case ema_Profile a0 of
                     Some (i, n) \<Rightarrow>
                       (if i \<noteq> None \<or> n \<noteq> None then
                          (case mse_settings ms (acn_domainId cn) (i, n) of Inr s \<Rightarrow> a0\<lparr>ema_Smtp := s\<rparr> | Inl _ \<Rightarrow> a0)
                        else a0)
                   | None \<Rightarrow> a0)
                 in if ema_Async a then Some (ok2, Some a, c)
                    else map_option (\<lambda>(r, c1). (r, None, c1)) (sendEmailFn ms cn a c))))"

section \<open>Reading mail\<close>

record email_query =
  emq_Email :: "(int option \<times> string option) option"
  emq_Set :: "(string \<times> goval) list option"

definition MailCidKey :: string where "MailCidKey = ''__cid''"

text \<open>The images of a mail: each \<open>cid:name\<close> in the text becomes a link, one name after the other.\<close>

definition replace_cids :: "(string \<times> string) list \<Rightarrow> string \<Rightarrow> string" where
  "replace_cids links html = fold (\<lambda>(name, link) h. replace_all (''cid:'' @ name) link h) links html"

text \<open>
  \<open>query\<close> reads the properties, \<open>minify\<close> shortens the text and \<open>links\<close> makes the links of files, one for each.
\<close>

definition getEmail ::
  "(rat \<Rightarrow> string) \<Rightarrow> (goval \<Rightarrow> email_query result) \<Rightarrow> (int \<Rightarrow> int option \<times> string option \<Rightarrow> (string \<times> goval) list \<Rightarrow> (string \<times> goval) list result) \<Rightarrow>
   (string \<Rightarrow> string + string) \<Rightarrow> (int \<Rightarrow> int list \<Rightarrow> string list result) \<Rightarrow> 'c app_conn \<Rightarrow> goval \<Rightarrow> 'c \<Rightarrow> outcome2 \<times> 'c" where
  "getEmail ff decode query minify links cn args =
     svc_args decode args (\<lambda>q c.
       case (emq_Email q, emq_Set q) of
         (None, _) \<Rightarrow> ((None, Some (ErrorRequiredParameter ''GetEmailInfo'' ''email'')), c)
       | (_, None) \<Rightarrow> ((None, Some (ErrorRequiredParameter ''GetEmailInfo'' ''set'')), c)
       | (Some e, Some vars) \<Rightarrow>
           (case query (acn_domainId cn) e vars of
              Inl er \<Rightarrow> ((None, Some er), c)
            | Inr res \<Rightarrow>
                (let tags = map fst (filter (\<lambda>(k, v). v = GStr ''html'') vars);
                     htmlTag = (if tags = [] then [] else last tags);
                     res1 = (if fst (acn_get cn c ''wbt_disable_htmlmin'') = ''true'' \<or> tags = [] then res
                             else (case map_of res (hd tags) of
                                 None \<Rightarrow> res
                               | Some v \<Rightarrow> (case minify (sprint_v ff v) of Inl _ \<Rightarrow> res | Inr m \<Rightarrow> AList.update (hd tags) (GStr m) res)));
                     res2 = (case map_get res1 MailCidKey of
                         GNil \<Rightarrow> res1
                       | cid \<Rightarrow>
                           (let rest = AList.delete MailCidKey res1;
                                html = (case map_get rest htmlTag of GStr s \<Rightarrow> s | _ \<Rightarrow> []);
                                m = (case as_map cid of Some m \<Rightarrow> m | None \<Rightarrow> []);
                                ids = map (\<lambda>(k, v). case v of GFloat q \<Rightarrow> if q < 0 then - \<lfloor>- q\<rfloor> else \<lfloor>q\<rfloor> | _ \<Rightarrow> 0) m
                            in case links (acn_domainId cn) ids of
                                 Inl _ \<Rightarrow> rest
                               | Inr ls \<Rightarrow>
                                   (if length ls = length m then AList.update htmlTag (GStr (replace_cids (zip (map fst m) ls) html)) rest else rest)))
                 in acn_set cn res2 c)))"


section \<open>Invoices (monopay.go)\<close>

record create_body =
  mcb_Amount :: int
  mcb_Ccy :: int
  mcb_PaymentType :: string
  mcb_RedirectUrl :: string
  mcb_ValidFor :: int
  mcb_WebHookUrl :: string
  mcb_SetVar :: string

record cancel_body =
  mxb_InvoiceId :: string
  mxb_ExtRef :: string
  mxb_Amount :: int
  mxb_SetVar :: string

text \<open>The bodies of a status and of a payment information are an invoice and a variable, that of an invalidation an invoice.\<close>

datatype mono_body = CreateBody create_body | CancelBody cancel_body | InvalidateBody string | GetStatusBody string string | GetSuccessfulPaymentInfoBody string string

definition defaultValidity :: int where "defaultValidity = 3600"

definition mono_error :: "string \<Rightarrow> string \<Rightarrow> app_error" where
  "mono_error what msg = NewAppError [] (''flow.monopay.'' @ what @ ''.check_arg.error'') [] (''mono: '' @ msg) 400"

fun Normalize_mono :: "mono_body \<Rightarrow> mono_body result" where
  "Normalize_mono (CreateBody b) =
     (let b1 = (if mcb_ValidFor b = 0 then b\<lparr>mcb_ValidFor := defaultValidity\<rparr> else b) in
      if mcb_SetVar b1 = [] then Inl (mono_error ''create'' ''setVar not set'')
      else if mcb_PaymentType b1 \<in> {''debit'', ''hold''} then Inr (CreateBody b1)
      else Inl (mono_error ''create'' ''unknown payment type''))"
| "Normalize_mono (GetStatusBody i v) =
     (if v = [] then Inl (mono_error ''status'' ''setVar not set'') else if i = [] then Inl (mono_error ''status'' ''invoice id empty'') else Inr (GetStatusBody i v))"
| "Normalize_mono (InvalidateBody i) = (if i = [] then Inl (mono_error ''invalidate'' ''invoice id empty'') else Inr (InvalidateBody i))"
| "Normalize_mono (CancelBody b) =
     (if mxb_InvoiceId b = [] then Inl (mono_error ''cancel'' ''invoice id empty'')
      else if mxb_SetVar b = [] then Inl (mono_error ''cancel'' ''setVar not set'') else Inr (CancelBody b))"
| "Normalize_mono (GetSuccessfulPaymentInfoBody i v) =
     (if i = [] then Inl (mono_error ''payment_info'' ''invoice id empty'') else if v = [] then Inl (mono_error ''payment_info'' ''setVar not set'')
      else Inr (GetSuccessfulPaymentInfoBody i v))"

definition mono_url :: "string \<Rightarrow> string" where
  "mono_url what = ''https://api.monobank.ua/api/merchant/invoice/'' @ what"

record mono_request =
  mrq_method :: string
  mrq_url :: string
  mrq_headers :: "(string \<times> string) list"
  mrq_query :: "(string \<times> string) list"
  mrq_body :: string

text \<open>\<open>parse\<close> reads the code and the text of an error from a reply; both are empty when it has none.\<close>

definition FormatMonoError :: "string \<Rightarrow> string \<Rightarrow> string" where
  "FormatMonoError code txt = ''mono: Code='' @ code @ '', Error: '' @ txt"

definition GetMonoRequestResults :: "(string \<Rightarrow> string + string \<times> string) \<Rightarrow> string \<Rightarrow> string + string" where
  "GetMonoRequestResults parse body =
     (case parse body of Inl er \<Rightarrow> Inl er | Inr (code, txt) \<Rightarrow> if code \<noteq> [] then Inl (FormatMonoError code txt) else Inr body)"

text \<open>An error is valid only with a code and a text.\<close>

definition mono_error_IsValid :: "string \<Rightarrow> string \<Rightarrow> bool" where
  "mono_error_IsValid code txt = (code \<noteq> [] \<and> txt \<noteq> [])"

text \<open>The bank: a body as JSON, an answer to a request (an error text or the bytes of the reply), and \<open>parse\<close>.\<close>

record mono_bank =
  mbk_marshal :: "mono_body \<Rightarrow> string + string"
  mbk_do :: "mono_request \<Rightarrow> string + string"
  mbk_parse :: "string \<Rightarrow> string + string \<times> string"

definition mono_send :: "mono_bank \<Rightarrow> mono_request \<Rightarrow> string + string" where
  "mono_send bk req = (case mbk_do bk req of Inl er \<Rightarrow> Inl er | Inr b \<Rightarrow> GetMonoRequestResults (mbk_parse bk) b)"

definition CreatePayment :: "mono_bank \<Rightarrow> mono_body \<Rightarrow> string \<Rightarrow> string + string" where
  "CreatePayment bk body token =
     (case mbk_marshal bk body of
        Inl er \<Rightarrow> Inl er
      | Inr s \<Rightarrow> mono_send bk \<lparr>mrq_method = ''POST'', mrq_url = mono_url ''create'',
          mrq_headers = [(''X-Token'', token), (''X-Cms'', ''Webitel''), (''Content-Type'', ''application/json'')], mrq_query = [], mrq_body = s\<rparr>)"

definition CancelPayment :: "mono_bank \<Rightarrow> mono_body \<Rightarrow> string \<Rightarrow> string + string" where
  "CancelPayment bk body token =
     (case mbk_marshal bk body of
        Inl er \<Rightarrow> Inl er
      | Inr s \<Rightarrow> mono_send bk \<lparr>mrq_method = ''POST'', mrq_url = mono_url ''cancel'', mrq_headers = [(''X-Token'', token)], mrq_query = [], mrq_body = s\<rparr>)"

definition InvalidatePayment :: "mono_bank \<Rightarrow> mono_body \<Rightarrow> string \<Rightarrow> string option" where
  "InvalidatePayment bk body token =
     (case mbk_marshal bk body of
        Inl er \<Rightarrow> Some er
      | Inr s \<Rightarrow>
          (case mbk_do bk \<lparr>mrq_method = ''POST'', mrq_url = mono_url ''remove'', mrq_headers = [(''X-Token'', token)], mrq_query = [], mrq_body = s\<rparr> of
             Inl er \<Rightarrow> Some er
           | Inr b \<Rightarrow>
               (case mbk_parse bk b of
                  Inl er \<Rightarrow> Some er
                | Inr (code, txt) \<Rightarrow> if mono_error_IsValid code txt then Some (FormatMonoError code txt) else None)))"

definition GetPaymentState :: "mono_bank \<Rightarrow> string \<Rightarrow> string \<Rightarrow> string + string" where
  "GetPaymentState bk invoice token =
     mono_send bk \<lparr>mrq_method = ''GET'', mrq_url = mono_url ''status'', mrq_headers = [(''X-Token'', token)], mrq_query = [(''invoiceId'', invoice)], mrq_body = []\<rparr>"

definition GetSuccesfulPaymentInfo :: "mono_bank \<Rightarrow> string \<Rightarrow> string \<Rightarrow> string \<Rightarrow> string + string" where
  "GetSuccesfulPaymentInfo bk invoice setVar token =
     (case mbk_marshal bk (GetSuccessfulPaymentInfoBody invoice setVar) of
        Inl er \<Rightarrow> Inl er
      | Inr s \<Rightarrow> mono_send bk \<lparr>mrq_method = ''GET'', mrq_url = mono_url ''payment-info'', mrq_headers = [(''X-Token'', token)],
          mrq_query = [(''invoiceId'', invoice)], mrq_body = s\<rparr>)"

text \<open>A reply into a variable, or the error of the operation.\<close>

definition mono_store :: "'c app_conn \<Rightarrow> string \<Rightarrow> string \<Rightarrow> string + string \<Rightarrow> 'c \<Rightarrow> outcome2 \<times> 'c" where
  "mono_store cn what setVar res c =
     (case res of
        Inl er \<Rightarrow> ((Some CallResponseError, Some (NewAppError [] (''flow.monopay.monopay_handler.'' @ what @ ''.error'') [] er 500)), c)
      | Inr b \<Rightarrow> acn_set cn [(setVar, GStr b)] c)"

text \<open>
  The decoded arguments are the token, the action and the body; \<open>decode_body\<close> reads the body for an action.  The body of
  \<open>payment_info\<close> is not checked.
\<close>

definition monopayHandler ::
  "mono_bank \<Rightarrow> (goval \<Rightarrow> (string \<times> string \<times> (string \<times> string) list) result) \<Rightarrow> (string \<Rightarrow> (string \<times> string) list \<Rightarrow> mono_body result) \<Rightarrow>
   'c app_conn \<Rightarrow> goval \<Rightarrow> 'c \<Rightarrow> outcome2 \<times> 'c" where
  "monopayHandler bk decode decode_body cn args c =
     (let bad = (\<lambda>er. ((Some CallResponseError, Some er), c));
          check = (\<lambda>msg. NewAppError [] ''flow.monopay.monopay_handler.check_args.error'' [] msg 400)
      in case decode args of
           Inl er \<Rightarrow> bad er
         | Inr (token, action, raw) \<Rightarrow>
             (if token = [] then bad (check ''mono: token is empty'')
              else if action \<notin> {''create'', ''remove'', ''cancel'', ''status'', ''payment_info''} then bad (check ''unknown operation type'')
              else (case decode_body action raw of
                  Inl er \<Rightarrow> bad er
                | Inr body \<Rightarrow>
                    (case (if action = ''payment_info'' then Inr body else Normalize_mono body) of
                       Inl er \<Rightarrow> bad er
                     | Inr (CreateBody b) \<Rightarrow> mono_store cn ''create_payment'' (mcb_SetVar b) (CreatePayment bk (CreateBody b) token) c
                     | Inr (InvalidateBody i) \<Rightarrow>
                         (case InvalidatePayment bk (InvalidateBody i) token of
                            Some er \<Rightarrow> bad (NewAppError [] ''flow.monopay.monopay_handler.invalidate_payment.error'' [] er 500)
                          | None \<Rightarrow> (ok2, c))
                     | Inr (CancelBody b) \<Rightarrow> mono_store cn ''cancel_payment'' (mxb_SetVar b) (CancelPayment bk (CancelBody b) token) c
                     | Inr (GetStatusBody i v) \<Rightarrow> mono_store cn ''payment_status'' v (GetPaymentState bk i token) c
                     | Inr (GetSuccessfulPaymentInfoBody i v) \<Rightarrow> mono_store cn ''cancel_payment'' v (GetSuccesfulPaymentInfo bk i v token) c))))"

section \<open>Properties\<close>

lemma send_retry_simps:
  "dial k = None \<Longrightarrow> send_retry dial n k err = (None, err)"
  "dial k = Some e \<Longrightarrow> send_retry dial 0 k err = (Some e, err)"
  "dial k = Some e \<Longrightarrow> send_retry dial (Suc n) k err = send_retry dial n (Suc k) (Some (NewInternalError ''Email'' e))"
  by (subst send_retry.simps; simp)+

lemma send_retry_keeps: "snd (send_retry dial n k (Some er)) \<noteq> None"
  by (induction n arbitrary: k er; case_tac "dial k"; simp add: send_retry_simps)

lemma send_retry_error: "snd (send_retry dial n k None) \<noteq> None \<longleftrightarrow> dial k \<noteq> None \<and> 0 < n"
  using send_retry_keeps [of dial "n - 1" "Suc k"] by (cases n; cases "dial k") (simp_all add: send_retry_simps)

lemma send_retry_sent: "fst (send_retry dial n k err) = None \<longleftrightarrow> (\<exists>j\<le>n. dial (k + j) = None)"
proof (induction n arbitrary: k err)
  case 0
  show ?case by (subst send_retry.simps) (simp split: option.splits)
next
  case (Suc n)
  show ?case
  proof (cases "dial k")
    case None
    then show ?thesis by (auto simp: send_retry_simps intro: exI [of _ 0])
  next
    case (Some e)
    have "(\<exists>j\<le>Suc n. dial (k + j) = None) \<longleftrightarrow> (\<exists>j\<le>n. dial (Suc k + j) = None)"
    proof
      assume "\<exists>j\<le>Suc n. dial (k + j) = None"
      then obtain j where j: "j \<le> Suc n" "dial (k + j) = None" by blast
      then have "j \<noteq> 0" using Some by (cases j) auto
      then show "\<exists>j\<le>n. dial (Suc k + j) = None" using j by (intro exI [of _ "j - 1"]) auto
    next
      assume "\<exists>j\<le>n. dial (Suc k + j) = None"
      then obtain j where "j \<le> n" "dial (Suc k + j) = None" by blast
      then show "\<exists>j\<le>Suc n. dial (k + j) = None" by (intro exI [of _ "Suc j"]) auto
    qed
    then show ?thesis using Some Suc.IH [of "Suc k"] by (simp add: send_retry_simps)
  qed
qed


text \<open>An example: a server that fails once, and a connection that records what is set.\<close>

definition example_smtp :: smtp_settings where
  "example_smtp = \<lparr>sms_Id = 0, sms_Server = ''s'', sms_Port = 25, sms_User = ''u'', sms_Password = ''p'', sms_Tls = False, sms_AuthType = []\<rparr>"

definition example_email :: email_args where
  "example_email = \<lparr>ema_Cc = [], ema_From = ''me'', ema_Message = ''hi'', ema_ReplyToId = [], ema_Type = ''text/html'', ema_Profile = None, ema_Smtp = example_smtp,
     ema_Subject = [], ema_To = [''you''], ema_ContactIds = [], ema_OwnerId = None, ema_Async = False, ema_Files = [], ema_RetryCount = 1, ema_Store = False,
     ema_Set = [(''error'', ''mail_error'')]\<rparr>"

definition example_mail_services :: mail_services where
  "example_mail_services = \<lparr>mse_settings = (\<lambda>_ _. Inr example_smtp), mse_files = (\<lambda>_ _. Inr []), mse_token = (\<lambda>_. Inr []), mse_id = Inr ''<1>'',
     mse_dial = (\<lambda>_ _ k. if k = 0 then Some ''timeout'' else None), mse_save = (\<lambda>_ _. (None, 1))\<rparr>"

definition example_app_conn :: "(string \<times> goval) list app_conn" where
  "example_app_conn = \<lparr>acn_set = (\<lambda>vs c. (ok2, vs @ c)), acn_get = (\<lambda>_ _. ([], False)), acn_id = ''c'', acn_domainId = 1\<rparr>"

text \<open>
  The variable for the error of a mail does not tell whether the mail was sent: without attachments and storing it is set exactly when
  the first attempt failed and a retry was allowed, while the mail is sent exactly when one of the allowed attempts succeeds.
  A mail that is sent by a retry reports an error, and one that fails without retries reports none.
\<close>

lemma mail_error_variable:
  assumes "sendEmailFn ms cn a c = Some (r, c')" "mail_headers a (mail_from a) = Some headers" "mail_dialer_of ms (ema_Smtp a) = Inr dialer" "mse_id ms = Inr mid"
    and "ema_Files a = []" "\<not> ema_Store a"
  shows "\<exists>err. c' = mail_report cn a mid None err c \<and>
    (err \<noteq> None \<longleftrightarrow> mse_dial ms dialer (mail_with headers a mid []) 0 \<noteq> None \<and> 0 < ema_RetryCount a) \<and>
    (r = ok2 \<longleftrightarrow> (\<exists>j\<le>nat (ema_RetryCount a). mse_dial ms dialer (mail_with headers a mid []) j = None))"
proof -
  let ?dial = "mse_dial ms dialer (mail_with headers a mid [])" and ?n = "nat (ema_RetryCount a)"
  obtain e err where s: "send_retry ?dial ?n 0 None = (e, err)" by fastforce
  have "c' = mail_report cn a mid None err c" "r = ok2 \<longleftrightarrow> e = None"
    using assms s by (auto simp: sendEmailFn_def Let_def ok2_def split: option.splits)
  moreover have "err \<noteq> None \<longleftrightarrow> ?dial 0 \<noteq> None \<and> 0 < ema_RetryCount a"
    using send_retry_error [of ?dial ?n 0] s by simp
  moreover have "e = None \<longleftrightarrow> (\<exists>j\<le>?n. ?dial j = None)" using send_retry_sent [of ?dial ?n 0 None] s by simp
  ultimately show ?thesis by blast
qed

text \<open>
  The links of images depend on the order in which Go ranges over the names: with the names \<open>1\<close> and \<open>10\<close> the image \<open>cid:10\<close> gets its own
  link in one order and the link of the other image, with a zero behind it, in the other.
\<close>

lemma image_links_depend_on_order:
  "replace_cids [(''10'', ''B''), (''1'', ''A'')] ''cid:10'' = ''B''" "replace_cids [(''1'', ''A''), (''10'', ''B'')] ''cid:10'' = ''A0''"
  by code_simp+

end
