(* ===== verification/Flow_Services.thy ===== *)
theory Flow_Services
  imports Flow_Mail
begin

text \<open>
  The applications of the flow router that decode their arguments, check them, call a service and keep its answer in a variable:
  calendars, calls, queues, members and users (\<open>flow/calendar.go\<close>, \<open>call.go\<close>, \<open>last_bridged.go\<close>, \<open>callback_queue.go\<close>, \<open>member.go\<close>,
  \<open>queue.go\<close>, \<open>user.go\<close>).
  Decoders and services are arguments; a service that only acts is a function from what it is asked to its error.
\<close>

type_synonym 'c svc_run = "outcome2 \<times> 'c"

definition svc_fail :: "app_error \<Rightarrow> 'c \<Rightarrow> 'c svc_run" where
  "svc_fail er c = ((None, Some er), c)"

definition svc_bad :: "app_error \<Rightarrow> 'c \<Rightarrow> 'c svc_run" where
  "svc_bad er c = ((Some CallResponseError, Some er), c)"

text \<open>The answer of a service into variables.\<close>

definition svc_set :: "'c app_conn \<Rightarrow> (string \<times> goval) list result \<Rightarrow> 'c \<Rightarrow> 'c svc_run" where
  "svc_set cn res c = (case res of Inl er \<Rightarrow> svc_fail er c | Inr vars \<Rightarrow> acn_set cn vars c)"

definition in_var :: "string \<Rightarrow> ('a \<Rightarrow> goval) \<Rightarrow> 'a result \<Rightarrow> (string \<times> goval) list result" where
  "in_var name f res = (case res of Inl er \<Rightarrow> Inl er | Inr x \<Rightarrow> Inr [(name, f x)])"

section \<open>Calendars and calls (calendar.go, call.go, last_bridged.go)\<close>

record calendar_args =
  cal_Name :: "string option"
  cal_Id :: "int option"
  cal_SetVar :: string
  cal_Extended :: bool

record calendar =
  cld_Name :: string
  cld_Excepted :: "string option"
  cld_Accept :: bool
  cld_Expire :: bool

definition calendar_value :: "bool \<Rightarrow> calendar \<Rightarrow> string" where
  "calendar_value extended k =
     (if cld_Accept k \<and> \<not> cld_Expire k \<and> cld_Excepted k = None then ''true''
      else if \<not> extended then ''false''
      else if cld_Expire k then ''expire''
      else (case cld_Excepted k of Some e \<Rightarrow> if e \<noteq> [] then e else ''false'' | None \<Rightarrow> ''false''))"

definition Calendar :: "(int \<Rightarrow> int option \<Rightarrow> string option \<Rightarrow> calendar result) \<Rightarrow> (goval \<Rightarrow> calendar_args result) \<Rightarrow> 'c app_conn \<Rightarrow> goval \<Rightarrow> 'c \<Rightarrow> 'c svc_run" where
  "Calendar check decode cn args =
     svc_args decode args (\<lambda>a c.
       if cal_SetVar a = [] then svc_fail (ErrorRequiredParameter ''calendar'' ''setVar'') c
       else svc_set cn (in_var (cal_SetVar a) (\<lambda>k. GStr (calendar_value (cal_Extended a) k)) (check (acn_domainId cn) (cal_Id a) (cal_Name a))) c)"

record call_endpoint_arg =
  cea_AppId :: string
  cea_Type :: string
  cea_Id :: int
  cea_Extension :: string

record outbound_call =
  obc_From :: "call_endpoint_arg option"
  obc_To :: "call_endpoint_arg option"
  obc_Destination :: string
  obc_Params :: "(string \<times> goval) list option"
  obc_DomainID :: int

text \<open>The two decoders of \<open>makeCall\<close> read the request and the name of the variable.\<close>

definition makeCall ::
  "(outbound_call \<Rightarrow> string result) \<Rightarrow> (goval \<Rightarrow> outbound_call result) \<Rightarrow> (goval \<Rightarrow> string result) \<Rightarrow> 'c app_conn \<Rightarrow> goval \<Rightarrow> 'c \<Rightarrow> 'c svc_run" where
  "makeCall call decode decode_set cn args =
     svc_args decode args (\<lambda>a0. svc_args decode_set args (\<lambda>setVar c.
       let a = a0\<lparr>obc_DomainID := acn_domainId cn\<rparr> in
       if (case obc_From a of None \<Rightarrow> True | Some f \<Rightarrow> cea_Id f = 0 \<and> cea_Extension f = []) then svc_fail (ErrorRequiredParameter ''makeCall'' ''from'') c
       else if obc_Destination a = [] then svc_fail (ErrorRequiredParameter ''makeCall'' ''destination'') c
       else (case call a of
           Inl er \<Rightarrow> svc_bad er c
         | Inr i \<Rightarrow> if setVar \<noteq> [] then acn_set cn [(setVar, GStr i)] c else (ok2, c))))"

record last_bridged_filter =
  lbf_Dialer :: "string option"
  lbf_Inbound :: "string option"
  lbf_Outbound :: "string option"
  lbf_QueueIds :: "int list"

record last_bridged =
  lbr_Calls :: "last_bridged_filter option"
  lbr_Filter :: last_bridged_filter
  lbr_Hours :: string
  lbr_Number :: string
  lbr_Set :: "(string \<times> goval) list"

text \<open>\<open>isChat\<close> is the type of the connection.\<close>

definition lastBridged ::
  "(int \<Rightarrow> string \<Rightarrow> string \<Rightarrow> int list \<Rightarrow> (string \<times> goval) list \<Rightarrow> (string \<times> goval) list result) \<Rightarrow>
   (int \<Rightarrow> string \<Rightarrow> string \<Rightarrow> last_bridged_filter \<Rightarrow> (string \<times> goval) list \<Rightarrow> (string \<times> goval) list result) \<Rightarrow>
   (goval \<Rightarrow> last_bridged result) \<Rightarrow> bool \<Rightarrow> 'c app_conn \<Rightarrow> goval \<Rightarrow> 'c \<Rightarrow> 'c svc_run" where
  "lastBridged chat call decode isChat cn args =
     svc_args decode args (\<lambda>a c.
       let f = (case lbr_Calls a of Some f \<Rightarrow> f | None \<Rightarrow> lbr_Filter a) in
       if lbr_Set a = [] then svc_fail (ErrorRequiredParameter ''lastBridged'' ''setVar'') c
       else svc_set cn (if isChat then chat (acn_domainId cn) (lbr_Number a) (lbr_Hours a) (lbf_QueueIds f) (lbr_Set a)
                        else call (acn_domainId cn) (lbr_Number a) (lbr_Hours a) f (lbr_Set a)) c)"

section \<open>Members and queues (callback_queue.go, member.go, queue.go)\<close>

record search_entity =
  sen_Id :: "int option"
  sen_Name :: "string option"

record callback_communication =
  cbc_Destination :: string
  cbc_Description :: "string option"
  cbc_TypeId :: "int option"
  cbc_Type :: search_entity
  cbc_ResourceId :: "int option"
  cbc_Display :: "string option"
  cbc_Priority :: "int option"

record callback_member =
  cbm_Name :: string
  cbm_Variables :: "(string \<times> goval) list option"
  cbm_TimezoneId :: "int option"
  cbm_BucketId :: "int option"
  cbm_Priority :: int
  cbm_Communication :: callback_communication
  cbm_Queue :: search_entity
  cbm_AgentId :: "int option"
  cbm_ExpireAt :: "int option"
  cbm_StopCause :: "string option"

text \<open>Deprecated fields fill the new ones; an empty cause is none; the name becomes valid UTF-8.\<close>

definition normal_member :: "callback_member \<Rightarrow> callback_member" where
  "normal_member m =
     (let comm = cbm_Communication m;
          comm1 = (if cbc_TypeId comm \<noteq> None \<and> sen_Id (cbc_Type comm) = None then comm\<lparr>cbc_Type := (cbc_Type comm)\<lparr>sen_Id := cbc_TypeId comm\<rparr>\<rparr> else comm)
      in m\<lparr>cbm_Communication := comm1, cbm_StopCause := (if cbm_StopCause m = Some [] then None else cbm_StopCause m), cbm_Name := to_valid_utf8 (cbm_Name m)\<rparr>)"

definition callbackQueue ::
  "(int \<Rightarrow> int \<Rightarrow> int \<Rightarrow> callback_member \<Rightarrow> app_error option) \<Rightarrow> (goval \<Rightarrow> (int \<times> int) result) \<Rightarrow> (goval \<Rightarrow> callback_member result) \<Rightarrow> 'c app_conn \<Rightarrow> goval \<Rightarrow> 'c \<Rightarrow> 'c svc_run" where
  "callbackQueue create decode decode_member cn args =
     svc_args decode args (\<lambda>(queueId, holdSec). svc_args decode_member args (\<lambda>m c.
       let q = (case sen_Id (cbm_Queue m) of Some i \<Rightarrow> i | None \<Rightarrow> queueId) in
       case create (acn_domainId cn) q holdSec (normal_member m) of Some er \<Rightarrow> svc_fail er c | None \<Rightarrow> (ok2, c)))"

definition QueueCallPosition :: "(string \<Rightarrow> int result) \<Rightarrow> (goval \<Rightarrow> string result) \<Rightarrow> 'c app_conn \<Rightarrow> goval \<Rightarrow> 'c \<Rightarrow> 'c svc_run" where
  "QueueCallPosition position decode cn args =
     svc_args decode args (\<lambda>setVar c.
       if setVar = [] then svc_fail (ErrorRequiredParameter ''queueCallPosition'' ''SET'') c
       else svc_set cn (in_var setVar GInt (position (acn_id cn))) c)"

text \<open>A search and the variables to set, both nil when they are missing.\<close>

definition search_into ::
  "string \<Rightarrow> string \<Rightarrow> (int \<Rightarrow> 'q \<Rightarrow> (string \<times> goval) list \<Rightarrow> (string \<times> goval) list result) \<Rightarrow> (goval \<Rightarrow> ('q option \<times> (string \<times> goval) list option) result) \<Rightarrow>
   'c app_conn \<Rightarrow> goval \<Rightarrow> 'c \<Rightarrow> 'c svc_run" where
  "search_into app what search decode cn args =
     svc_args decode args (\<lambda>(q, vars) c.
       case (q, vars) of
         (None, _) \<Rightarrow> svc_fail (ErrorRequiredParameter app what) c
       | (_, None) \<Rightarrow> svc_fail (ErrorRequiredParameter app ''set'') c
       | (Some x, Some vs) \<Rightarrow> svc_set cn (search (acn_domainId cn) x vs) c)"

definition GetMember ::
  "(int \<Rightarrow> 'q \<Rightarrow> (string \<times> goval) list \<Rightarrow> (string \<times> goval) list result) \<Rightarrow> (goval \<Rightarrow> ('q option \<times> (string \<times> goval) list option) result) \<Rightarrow>
   'c app_conn \<Rightarrow> goval \<Rightarrow> 'c \<Rightarrow> 'c svc_run" where
  "GetMember search decode cn args = search_into ''GetMember'' ''member'' search decode cn args"

definition GetUser ::
  "(int \<Rightarrow> 'q \<Rightarrow> (string \<times> goval) list \<Rightarrow> (string \<times> goval) list result) \<Rightarrow> (goval \<Rightarrow> ('q option \<times> (string \<times> goval) list option) result) \<Rightarrow>
   'c app_conn \<Rightarrow> goval \<Rightarrow> 'c \<Rightarrow> 'c svc_run" where
  "GetUser search decode cn args = search_into ''GetUser'' ''user'' search decode cn args"

record patch_member =
  pmm_Name :: "string option"
  pmm_Priority :: "int option"
  pmm_BucketId :: "int option"
  pmm_Bucket :: "search_entity option"
  pmm_ReadyAtDep :: "int option"
  pmm_ReadyAt :: "int option"
  pmm_StopCauseDep :: "string option"
  pmm_StopCause :: "string option"
  pmm_Variables :: "(string \<times> goval) list option"
  pmm_Communications :: "goval list"
  pmm_QueueId :: "int option"

definition normal_patch :: "patch_member \<Rightarrow> patch_member" where
  "normal_patch p =
     p\<lparr>pmm_StopCause := (if pmm_StopCause p = None then pmm_StopCauseDep p else pmm_StopCause p),
       pmm_ReadyAt := (if pmm_ReadyAt p = None then pmm_ReadyAtDep p else pmm_ReadyAt p)\<rparr>"

definition PatchMembers :: "(int \<Rightarrow> 'q \<Rightarrow> patch_member \<Rightarrow> int result) \<Rightarrow> (goval \<Rightarrow> ('q option \<times> patch_member option) result) \<Rightarrow> 'c app_conn \<Rightarrow> goval \<Rightarrow> 'c \<Rightarrow> 'c svc_run" where
  "PatchMembers patch decode cn args =
     svc_args decode args (\<lambda>(m, p) c.
       case (m, p) of
         (None, _) \<Rightarrow> svc_fail (ErrorRequiredParameter ''PatchMembers'' ''member'') c
       | (_, None) \<Rightarrow> svc_fail (ErrorRequiredParameter ''PatchMembers'' ''patch'') c
       | (Some x, Some y) \<Rightarrow> (case patch (acn_domainId cn) x (normal_patch y) of Inl er \<Rightarrow> svc_fail er c | Inr _ \<Rightarrow> (ok2, c)))"

record ewt_call =
  ewt_SetVar :: string
  ewt_QueueIds :: "int list"
  ewt_BucketIds :: "int list"
  ewt_Strategy :: string
  ewt_Min :: int

text \<open>\<open>fmt\<close> prints a float with six decimals.\<close>

definition EWTCall :: "(rat \<Rightarrow> string) \<Rightarrow> (int \<Rightarrow> string \<Rightarrow> int \<Rightarrow> int list \<Rightarrow> int list \<Rightarrow> rat result) \<Rightarrow> (goval \<Rightarrow> ewt_call result) \<Rightarrow> 'c app_conn \<Rightarrow> goval \<Rightarrow> 'c \<Rightarrow> 'c svc_run" where
  "EWTCall fmt ewt decode cn args =
     svc_args decode args (\<lambda>a c.
       if ewt_SetVar a = [] then svc_fail (ErrorRequiredParameter ''EWTCall'' ''setVar'') c
       else (case ewt (acn_domainId cn) (acn_id cn) (if ewt_Min a = 0 then 60 else ewt_Min a) (ewt_QueueIds a) (ewt_BucketIds a) of
           Inl er \<Rightarrow> svc_bad er c
         | Inr x \<Rightarrow> acn_set cn [(ewt_SetVar a, GStr (fmt x))] c))"

definition getQueueInfo ::
  "(int \<Rightarrow> search_entity \<Rightarrow> (string \<times> goval) list \<Rightarrow> (string \<times> goval) list result) \<Rightarrow> (goval \<Rightarrow> (search_entity option \<times> (string \<times> goval) list) result) \<Rightarrow>
   'c app_conn \<Rightarrow> goval \<Rightarrow> 'c \<Rightarrow> 'c svc_run" where
  "getQueueInfo query decode cn args =
     svc_args decode args (\<lambda>(q, vars) c.
       case q of
         None \<Rightarrow> svc_bad (ErrorRequiredParameter ''getQueueInfo'' ''queue'') c
       | Some x \<Rightarrow> if vars = [] then svc_bad (ErrorRequiredParameter ''getQueueInfo'' ''set'') c else svc_set cn (query (acn_domainId cn) x vars) c)"

record queue_metrics =
  qmx_Bucket :: "search_entity option"
  qmx_Queue :: "search_entity option"
  qmx_Metric :: string
  qmx_LastMinutes :: int
  qmx_Set :: string
  qmx_Field :: string
  qmx_Calls :: string
  qmx_SlSec :: int

record queue_statistics_request =
  qsr_QueueId :: "int option"
  qsr_QueueName :: "string option"
  qsr_BucketId :: "int option"
  qsr_BucketName :: "string option"
  qsr_LastMinutes :: int
  qsr_Metric :: string
  qsr_Field :: string
  qsr_SlSec :: int

text \<open>Statistics exist for complete calls and every metric but \<open>count\<close>; otherwise the variable is zero.\<close>

definition getQueueMetrics :: "(int \<Rightarrow> queue_statistics_request \<Rightarrow> rat result) \<Rightarrow> (goval \<Rightarrow> queue_metrics result) \<Rightarrow> 'c app_conn \<Rightarrow> goval \<Rightarrow> 'c \<Rightarrow> 'c svc_run" where
  "getQueueMetrics history decode cn args =
     svc_args decode args (\<lambda>a c.
       case qmx_Queue a of
         None \<Rightarrow> svc_bad (ErrorRequiredParameter ''getQueueMetrics'' ''queue'') c
       | Some q \<Rightarrow>
           (if qmx_Set a = [] then svc_bad (ErrorRequiredParameter ''getQueueMetrics'' ''set'') c
            else svc_set cn (in_var (qmx_Set a) GFloat
              (if qmx_Calls a = ''complete'' \<and> qmx_Metric a \<noteq> ''count'' then
                 history (acn_domainId cn) \<lparr>qsr_QueueId = sen_Id q, qsr_QueueName = sen_Name q, qsr_BucketId = Option.bind (qmx_Bucket a) sen_Id,
                   qsr_BucketName = Option.bind (qmx_Bucket a) sen_Name, qsr_LastMinutes = qmx_LastMinutes a, qsr_Metric = qmx_Metric a, qsr_Field = qmx_Field a,
                   qsr_SlSec = qmx_SlSec a\<rparr>
               else Inr 0)) c))"

text \<open>The default channel is that of the flow.\<close>

definition getQueueAgents ::
  "(int \<Rightarrow> int \<Rightarrow> string \<Rightarrow> (string \<times> goval) list \<Rightarrow> (string \<times> goval) list result) \<Rightarrow> (string \<Rightarrow> goval \<Rightarrow> (string \<times> search_entity option \<times> (string \<times> goval) list) result) \<Rightarrow>
   string \<Rightarrow> 'c app_conn \<Rightarrow> goval \<Rightarrow> 'c \<Rightarrow> 'c svc_run" where
  "getQueueAgents query decode channelType cn args =
     svc_args (decode channelType) args (\<lambda>(channel, q, vars) c.
       case Option.bind q sen_Id of
         None \<Rightarrow> svc_bad (ErrorRequiredParameter ''getQueueAgent'' ''queue'') c
       | Some i \<Rightarrow> (case query (acn_domainId cn) i channel vars of Inl er \<Rightarrow> svc_bad er c | Inr res \<Rightarrow> acn_set cn res c))"

end
