(* ===== verification/Flow_Tasks.thy ===== *)
theory Flow_Tasks
  imports Flow_Services Flow_Date
begin

text \<open>
  More applications of the flow router: tasks of agents, contacts and cases (\<open>flow/task.go\<close>, \<open>contacts.go\<close>, \<open>cases.go\<close>).
\<close>

section \<open>Tasks (task.go)\<close>

record task_prolongation =
  tpr_Enabled :: bool
  tpr_RepeatsNumber :: int
  tpr_ProlongationTimeSec :: int
  tpr_IsTimeoutRetry :: bool

record task_processing =
  tpc_Enabled :: bool
  tpc_RenewalSec :: int
  tpc_Sec :: int
  tpc_FormId :: int
  tpc_Autosave :: bool
  tpc_Prolongation :: "task_prolongation option"

record join_task_args =
  jta_Agent :: "(int option \<times> string option) option"
  jta_Communication :: callback_communication
  jta_Processing :: "task_processing option"
  jta_Bridged :: "goval list"
  jta_Timeout :: int
  jta_QueueName :: string
  jta_CancelDistribute :: bool

text \<open>The processing of a request: renewal, seconds, autosave, the form and the prolongation.\<close>

record task_request =
  tkr_DomainId :: int
  tkr_AgentId :: int
  tkr_Timeout :: int
  tkr_QueueName :: string
  tkr_CancelDistribute :: bool
  tkr_Destination :: "string \<times> int \<times> string \<times> string"
  tkr_Processing :: "(int \<times> int \<times> bool \<times> int option \<times> task_prolongation option) option"

text \<open>The conversion \<open>int32(i)\<close>.\<close>

definition int32 :: "int \<Rightarrow> int" where
  "int32 i = sint (word_of_int i :: 32 word)"

definition task_agent :: "(int \<Rightarrow> string \<Rightarrow> int option) \<Rightarrow> int \<Rightarrow> (int option \<times> string option) option \<Rightarrow> int option" where
  "task_agent byExtension domainId agent =
     (case agent of
        None \<Rightarrow> None
      | Some (None, Some ext) \<Rightarrow> byExtension domainId ext
      | Some (i, _) \<Rightarrow> i)"

definition task_request_of :: "int \<Rightarrow> int \<Rightarrow> join_task_args \<Rightarrow> task_request" where
  "task_request_of domainId agentId a =
     (let comm = jta_Communication a; zero = (\<lambda>x. case x of Some i \<Rightarrow> int32 i | None \<Rightarrow> 0); empty = (\<lambda>x. case x of Some s \<Rightarrow> s | None \<Rightarrow> []) in
      \<lparr>tkr_DomainId = domainId, tkr_AgentId = agentId, tkr_Timeout = jta_Timeout a, tkr_QueueName = jta_QueueName a, tkr_CancelDistribute = jta_CancelDistribute a,
       tkr_Destination = (cbc_Destination comm, zero (sen_Id (cbc_Type comm)), empty (sen_Name (cbc_Type comm)), empty (cbc_Description comm)),
       tkr_Processing = (case jta_Processing a of
           Some p \<Rightarrow>
             (if tpc_Enabled p then
                Some (tpc_RenewalSec p, tpc_Sec p, tpc_Autosave p, if tpc_FormId p > 0 then Some (tpc_FormId p) else None,
                      case tpc_Prolongation p of Some g \<Rightarrow> if tpr_Enabled g then Some g else None | None \<Rightarrow> None)
              else None)
         | None \<Rightarrow> None)\<rparr>)"

datatype task_event = TaskJoined int | TaskBridged int | TaskLeaving string | TaskOther

definition task_event_vars :: "bool \<Rightarrow> task_event \<Rightarrow> (string \<times> goval) list" where
  "task_event_vars bridged ev =
     (case ev of
        TaskJoined i \<Rightarrow> [(''attempt_id'', GInt i)]
      | TaskBridged i \<Rightarrow> if bridged then [(''agent_id'', GInt i)] else []
      | TaskLeaving r \<Rightarrow> [(''cc_result'', GStr r)]
      | TaskOther \<Rightarrow> [])"

text \<open>
  \<open>join\<close> answers with an error or with the events of the stream and its end: \<open>True\<close> for the end of the stream, \<open>False\<close> for an
  error.  Both errors are only logged.
\<close>

definition joinAgentToTask ::
  "(int \<Rightarrow> string \<Rightarrow> int option) \<Rightarrow> (task_request \<Rightarrow> string + task_event list \<times> bool) \<Rightarrow> (goval \<Rightarrow> join_task_args result) \<Rightarrow> 'c app_conn \<Rightarrow> goval \<Rightarrow> 'c \<Rightarrow> 'c svc_run" where
  "joinAgentToTask byExtension join decode cn args =
     svc_args decode args (\<lambda>a c.
       case task_agent byExtension (acn_domainId cn) (jta_Agent a) of
         None \<Rightarrow> svc_bad (ErrorRequiredParameter ''joinAgentToTask'' ''agent'') c
       | Some agentId \<Rightarrow>
           (case join (task_request_of (acn_domainId cn) agentId a) of
              Inl _ \<Rightarrow> (ok2, c)
            | Inr (evs, eof) \<Rightarrow>
                (let c1 = fold (\<lambda>ev c. case task_event_vars (jta_Bridged a \<noteq> []) ev of [] \<Rightarrow> c | vs \<Rightarrow> set_quietly cn vs c) evs c
                 in if eof then (ok2, c1) else ((Some CallResponseError, None), c1))))"

section \<open>Contacts (contacts.go)\<close>

text \<open>
  The common shape: the name of the variable and the token are checked, the request is decoded from the same arguments, and
  the answer is kept as JSON (\<open>json\<close>).
\<close>

definition contact_call ::
  "('b \<Rightarrow> string) \<Rightarrow> (goval \<Rightarrow> (string \<times> string) result) \<Rightarrow> (goval \<Rightarrow> 'a result) \<Rightarrow> (string \<Rightarrow> 'a \<Rightarrow> 'b result) \<Rightarrow> 'c app_conn \<Rightarrow> goval \<Rightarrow> 'c \<Rightarrow> 'c svc_run" where
  "contact_call json decode decode_request service cn args =
     svc_args decode args (\<lambda>(setVar, token) c.
       if setVar = [] then svc_bad (ErrorRequiredParameter ''getContact'' ''setVar'') c
       else if token = [] then svc_bad (ErrorRequiredParameter ''getContact'' ''token'') c
       else svc_args decode_request args (\<lambda>req. svc_set cn (in_var setVar (\<lambda>x. GStr (json x)) (service token req))) c)"

definition mergeContactPhones ::
  "('b \<Rightarrow> string) \<Rightarrow> (goval \<Rightarrow> (string \<times> string) result) \<Rightarrow> (goval \<Rightarrow> 'a result) \<Rightarrow> (string \<Rightarrow> 'a \<Rightarrow> 'b result) \<Rightarrow> 'c app_conn \<Rightarrow> goval \<Rightarrow> 'c \<Rightarrow> 'c svc_run" where
  "mergeContactPhones = contact_call"

definition mergeContactVariables ::
  "('b \<Rightarrow> string) \<Rightarrow> (goval \<Rightarrow> (string \<times> string) result) \<Rightarrow> (goval \<Rightarrow> 'a result) \<Rightarrow> (string \<Rightarrow> 'a \<Rightarrow> 'b result) \<Rightarrow> 'c app_conn \<Rightarrow> goval \<Rightarrow> 'c \<Rightarrow> 'c svc_run" where
  "mergeContactVariables = contact_call"

definition findContact ::
  "('b \<Rightarrow> string) \<Rightarrow> (goval \<Rightarrow> (string \<times> string) result) \<Rightarrow> (goval \<Rightarrow> 'a result) \<Rightarrow> (string \<Rightarrow> 'a \<Rightarrow> 'b result) \<Rightarrow> 'c app_conn \<Rightarrow> goval \<Rightarrow> 'c \<Rightarrow> 'c svc_run" where
  "findContact = contact_call"

definition updateContact ::
  "('b \<Rightarrow> string) \<Rightarrow> (goval \<Rightarrow> (string \<times> string) result) \<Rightarrow> (goval \<Rightarrow> 'a result) \<Rightarrow> (string \<Rightarrow> 'a \<Rightarrow> 'b result) \<Rightarrow> 'c app_conn \<Rightarrow> goval \<Rightarrow> 'c \<Rightarrow> 'c svc_run" where
  "updateContact = contact_call"

definition addContact ::
  "('b \<Rightarrow> string) \<Rightarrow> (goval \<Rightarrow> (string \<times> string) result) \<Rightarrow> (goval \<Rightarrow> 'a result) \<Rightarrow> (string \<Rightarrow> 'a \<Rightarrow> 'b result) \<Rightarrow> 'c app_conn \<Rightarrow> goval \<Rightarrow> 'c \<Rightarrow> 'c svc_run" where
  "addContact = contact_call"

text \<open>The arguments also have an id, which is the etag when the request has none; \<open>fields\<close> are the other fields of the request.\<close>

definition getContact ::
  "('b \<Rightarrow> string) \<Rightarrow> (goval \<Rightarrow> (string \<times> string \<times> string) result) \<Rightarrow> (goval \<Rightarrow> (string \<times> 'f) result) \<Rightarrow> (string \<Rightarrow> string \<times> 'f \<Rightarrow> 'b result) \<Rightarrow> 'c app_conn \<Rightarrow> goval \<Rightarrow> 'c \<Rightarrow> 'c svc_run" where
  "getContact json decode decode_request service cn args =
     svc_args decode args (\<lambda>(setVar, token, i) c.
       if setVar = [] then svc_bad (ErrorRequiredParameter ''getContact'' ''setVar'') c
       else if token = [] then svc_bad (ErrorRequiredParameter ''getContact'' ''token'') c
       else svc_args decode_request args (\<lambda>(etag0, others) c.
         let etag = (if etag0 = [] then i else etag0) in
         if etag = [] then svc_bad (ErrorRequiredParameter ''getContact'' ''etag'') c
         else svc_set cn (in_var setVar (\<lambda>x. GStr (json x)) (service token (etag, others))) c) c)"

datatype link_channel = LinkCall | LinkChat | LinkEmail | LinkOther

record link_contact_args =
  lca_SessionId :: string
  lca_ContactId :: int
  lca_ContactIds :: "int list"
  lca_Channel :: string

record link_services =
  lks_call :: "int \<Rightarrow> string \<Rightarrow> int \<Rightarrow> app_error option"
  lks_chat :: "string \<Rightarrow> string \<Rightarrow> app_error option"
  lks_email :: "int \<Rightarrow> string \<Rightarrow> int list \<Rightarrow> app_error option"

definition link_channel_of :: "link_channel \<Rightarrow> string \<Rightarrow> link_channel" where
  "link_channel_of own name =
     (if name = ''call'' then LinkCall else if name = ''email'' then LinkEmail else if name = ''chat'' then LinkChat else own)"

definition flow_linkContact :: "link_services \<Rightarrow> (goval \<Rightarrow> link_contact_args result) \<Rightarrow> link_channel \<Rightarrow> 'c app_conn \<Rightarrow> goval \<Rightarrow> 'c \<Rightarrow> 'c svc_run" where
  "flow_linkContact ls decode own cn args =
     svc_args decode args (\<lambda>a c.
       let contacts = (if lca_ContactId a \<noteq> 0 then [lca_ContactId a] else lca_ContactIds a);
           session = (if lca_SessionId a = [] then acn_id cn else lca_SessionId a);
           channel = link_channel_of own (lca_Channel a)
       in if contacts = [] then svc_bad (ErrorRequiredParameter ''linkContact'' ''Contact'') c
          else if channel = LinkOther then svc_bad (NewAppError ''flow'' ''flow.todo'' [] [] 500) c
          else (case (case channel of
                  LinkCall \<Rightarrow> lks_call ls (acn_domainId cn) session (hd contacts)
                | LinkChat \<Rightarrow> lks_chat ls session (Itoa (hd contacts))
                | _ \<Rightarrow> lks_email ls (acn_domainId cn) session contacts) of
              Some er \<Rightarrow> svc_fail er c
            | None \<Rightarrow> acn_set cn [(''wbt_contact_id'', GStr (Itoa (hd contacts)))] c))"

section \<open>Cases (cases.go)\<close>

definition checkRequiredFields :: "string \<Rightarrow> string \<Rightarrow> string \<Rightarrow> app_error option" where
  "checkRequiredFields token setVar funcName =
     (if token = [] then Some (ErrorRequiredParameter funcName ''token'')
      else if setVar = [] then Some (ErrorRequiredParameter funcName ''setVar'') else None)"

text \<open>An empty object, array or string is stored as an empty text.\<close>

definition setResponse :: "'c app_conn \<Rightarrow> ('b \<Rightarrow> string + string) \<Rightarrow> string \<Rightarrow> 'b \<Rightarrow> 'c \<Rightarrow> 'c svc_run" where
  "setResponse cn marshal setVar res c =
     (case marshal res of
        Inl er \<Rightarrow> svc_fail (NewAppError ''json_encode_failed'' ''json_encode_failed'' [] er 500) c
      | Inr str \<Rightarrow> acn_set cn [(setVar, GStr (if str \<in> {''{}'', ''[]'', [CHR 0x22, CHR 0x22]} then [] else str))] c)"

definition case_call ::
  "string \<Rightarrow> string \<Rightarrow> ('b \<Rightarrow> string + string) \<Rightarrow> (goval \<Rightarrow> ('a \<times> string \<times> string) result) \<Rightarrow> ('a \<Rightarrow> string \<Rightarrow> string + 'b) \<Rightarrow> 'c app_conn \<Rightarrow> goval \<Rightarrow> 'c \<Rightarrow> 'c svc_run" where
  "case_call func failed marshal decode service cn args =
     svc_args decode args (\<lambda>(req, token, setVar) c.
       case checkRequiredFields token setVar func of
         Some er \<Rightarrow> svc_fail er c
       | None \<Rightarrow>
           (case service req token of
              Inl er \<Rightarrow> svc_fail (NewAppError func failed [] er 500) c
            | Inr res \<Rightarrow> setResponse cn marshal setVar res c))"

type_synonym ('a, 'b, 'c) case_app =
  "('b \<Rightarrow> string + string) \<Rightarrow> (goval \<Rightarrow> ('a \<times> string \<times> string) result) \<Rightarrow> ('a \<Rightarrow> string \<Rightarrow> string + 'b) \<Rightarrow> 'c app_conn \<Rightarrow> goval \<Rightarrow> 'c \<Rightarrow> 'c svc_run"

definition getCases :: "('a, 'b, 'c) case_app" where "getCases = case_call ''getCases'' ''get_cases_failed''"
definition locateCase :: "('a, 'b, 'c) case_app" where "locateCase = case_call ''locateCase'' ''locate_case_failed''"
definition createCase :: "('a, 'b, 'c) case_app" where "createCase = case_call ''createCase'' ''create_case_failed''"
definition updateCase :: "('a, 'b, 'c) case_app" where "updateCase = case_call ''updateCase'' ''update_case_failed''"
definition linkCommunication :: "('a, 'b, 'c) case_app" where "linkCommunication = case_call ''linkCommunication'' ''link_communication_failed''"
definition getServiceCatalogs :: "('a, 'b, 'c) case_app" where "getServiceCatalogs = case_call ''getServiceCatalogs'' ''get_service_catalogs_failed''"
definition publishComment :: "('a, 'b, 'c) case_app" where "publishComment = case_call ''publishComment'' ''publish_comment_failed''"
definition createLink :: "('a, 'b, 'c) case_app" where "createLink = case_call ''createLink'' ''create_link_failed''"
definition deleteLink :: "('a, 'b, 'c) case_app" where "deleteLink = case_call ''deleteLink'' ''delete_link_failed''"
definition locateService :: "('a, 'b, 'c) case_app" where "locateService = case_call ''locateService'' ''locate_service_failed''"
definition createRelatedCase :: "('a, 'b, 'c) case_app" where "createRelatedCase = case_call ''createRelatedCase'' ''create_related_case_failed''"
definition listCaseFiles :: "('a, 'b, 'c) case_app" where "listCaseFiles = case_call ''listCaseFiles'' ''list_case_files_failed''"

end
