(* ===== verification/Flow_Scripts.thy ===== *)
theory Flow_Scripts
  imports Flow_Tasks Fs_Call Chat_Conversation
begin

text \<open>
  The last group of applications of the flow router: links to files, meetings, messages to the queue and to users, topics, the
  classifier and scripts (\<open>flow/file.go\<close>, \<open>meeting.go\<close>, \<open>mq.go\<close>, \<open>notification.go\<close>, \<open>open_link.go\<close>, \<open>topic_extraction.go\<close>,
  \<open>classifier.go\<close>, \<open>javascript.go\<close>, \<open>log.go\<close>, \<open>app/open_link.go\<close>, \<open>app/notification.go\<close>).  Decoders, services and libraries are
  arguments.
\<close>

definition flow_Error :: "string \<Rightarrow> string \<Rightarrow> app_error" where
  "flow_Error appId er = NewAppError ''Error'' (''flow.app.'' @ appId) [] er 400"

section \<open>Files and meetings (file.go, meeting.go)\<close>

record feedback_args =
  fba_Source :: string
  fba_SourceId :: string
  fba_Payload :: "(string \<times> string) list"
  fba_SetVar :: string

definition feedback ::
  "(int \<Rightarrow> string \<Rightarrow> string \<Rightarrow> (string \<times> string) list \<Rightarrow> string result) \<Rightarrow> (feedback_args \<Rightarrow> goval \<Rightarrow> feedback_args result) \<Rightarrow> 'c app_conn \<Rightarrow> goval \<Rightarrow> 'c \<Rightarrow> 'c svc_run" where
  "feedback GenerateFeedback decode cn args =
     svc_args (decode \<lparr>fba_Source = ''email'', fba_SourceId = [], fba_Payload = [], fba_SetVar = []\<rparr>) args (\<lambda>a c.
       if fba_SetVar a = [] then svc_bad (ErrorRequiredParameter ''feedback'' ''setVar'') c
       else svc_set cn (in_var (fba_SetVar a) GStr (GenerateFeedback (acn_domainId cn) (fba_SourceId a) (fba_Source a) (fba_Payload a))) c)"

record link_args =
  lka_Server :: string
  lka_Expire :: int
  lka_Set :: string
  lka_Source :: string
  lka_File_Id :: string
  lka_Query :: "string \<rightharpoonup> string"

text \<open>A bad number is 0 or the nearest bound; the product of the seconds wraps around.\<close>

definition generateLink ::
  "(string \<Rightarrow> string \<Rightarrow> int \<Rightarrow> int \<Rightarrow> (string \<rightharpoonup> string) \<Rightarrow> string result) \<Rightarrow> (goval \<Rightarrow> link_args result) \<Rightarrow> 'c app_conn \<Rightarrow> goval \<Rightarrow> 'c \<Rightarrow> 'c svc_run" where
  "generateLink signature decode cn args =
     svc_args decode args (\<lambda>a c.
       if lka_Set a = [] then svc_fail (ErrorRequiredParameter ''GenerateLink'' ''set'') c
       else
         let server = (if has_suffix (lka_Server a) ''/'' then butlast (lka_Server a) else lka_Server a);
             i = (if lka_File_Id a \<noteq> [] then lka_File_Id a else acn_id cn);
             source = (if lka_Source a = [] then ''media'' else lka_Source a);
             query = (lka_Query a)(''expires'' \<mapsto> Itoa (wrap64 (lka_Expire a * 1000)))
         in svc_set cn (in_var (lka_Set a) (\<lambda>link. GStr (server @ link)) (signature ''download'' source (Atoi_clamp i) (acn_domainId cn) query)) c)"

definition printFile :: "(goval \<Rightarrow> 'f result) \<Rightarrow> goval \<Rightarrow> 'c \<Rightarrow> 'c svc_run" where
  "printFile decode args = svc_args decode args (\<lambda>_ c. (ok2, c))"

record meeting_args =
  mta_SetVar :: string
  mta_Title :: string
  mta_ExpireSec :: int
  mta_BasePath :: string
  mta_Variables :: "(string \<times> string) list"

definition createMeeting ::
  "(int \<Rightarrow> string \<Rightarrow> int \<Rightarrow> string \<Rightarrow> (string \<times> string) list \<Rightarrow> string result) \<Rightarrow> (goval \<Rightarrow> meeting_args result) \<Rightarrow> 'c app_conn \<Rightarrow> goval \<Rightarrow> 'c \<Rightarrow> 'c svc_run" where
  "createMeeting CreateMeeting decode cn args c =
     (case decode args of
        Inl er \<Rightarrow> svc_bad er c
      | Inr a \<Rightarrow>
          if mta_SetVar a = [] then svc_bad (ErrorRequiredParameter ''createMeeting'' ''setVar'') c
          else (case CreateMeeting (acn_domainId cn) (mta_Title a) (mta_ExpireSec a) (mta_BasePath a) (mta_Variables a) of
                  Inl er \<Rightarrow> svc_bad er c
                | Inr url \<Rightarrow> acn_set cn [(mta_SetVar a, GStr url)] c))"

section \<open>Messages (mq.go, notification.go, open_link.go)\<close>

record mq_args =
  mqa_Exchange :: string
  mqa_Topic :: string
  mqa_Body :: goval
  mqa_SetErr :: string

definition set_error :: "'c app_conn \<Rightarrow> string \<Rightarrow> string \<Rightarrow> 'c \<Rightarrow> 'c" where
  "set_error cn name er c = (if name = [] then c else set_quietly cn [(name, GStr er)] c)"

text \<open>\<open>ParseText\<close> runs over the whole text of the body, as JSON.\<close>

definition mq ::
  "(goval \<Rightarrow> string + string) \<Rightarrow> (string \<Rightarrow> string \<Rightarrow> string \<Rightarrow> app_error option) \<Rightarrow> (goval \<Rightarrow> mq_args result) \<Rightarrow> 'c app_conn \<Rightarrow> goval \<Rightarrow> 'c \<Rightarrow> 'c svc_run" where
  "mq marshal SendMQJson decode cn args =
     svc_args decode args (\<lambda>a c.
       if mqa_Exchange a = [] then svc_fail (ErrorRequiredParameter ''mq'' ''exchange'') c
       else if mqa_Topic a = [] then svc_fail (ErrorRequiredParameter ''mq'' ''topic'') c
       else case marshal (mqa_Body a) of
              Inl er \<Rightarrow> svc_bad (NewAppError ''Flow'' ''flow.app.mq.valid.body'' [] er 500) (set_error cn (mqa_SetErr a) er c)
            | Inr data \<Rightarrow>
                (case SendMQJson (mqa_Exchange a) (mqa_Topic a) (ParseText (acn_get cn c) data []) of
                   Some er \<Rightarrow> svc_fail er (set_error cn (mqa_SetErr a) (AppError_Error er) c)
                 | None \<Rightarrow> (ok2, c)))"

record notification =
  ntf_DomainId :: int
  ntf_Action :: string
  ntf_CreatedAt :: int
  ntf_ForUsers :: "int list"
  ntf_SockID :: string
  ntf_Body :: "(string \<times> goval) list"

text \<open>
  What goes to the message queue: the exchange, the routing key and the notification.  A message the queue refuses is only
  logged, so the state keeps what was handed over.
\<close>

type_synonym notices = "(string \<times> string \<times> notification) list"

definition UserNotification :: "notification \<Rightarrow> notices \<Rightarrow> notices" where
  "UserNotification n out = out @ [(''engine'', ''notification.'' @ Itoa (ntf_DomainId n), n)]"

record notification_args =
  nta_UserIds :: "int list"
  nta_Message :: string
  nta_Timeout :: int
  nta_Type :: string

definition notification_app :: "int \<Rightarrow> (goval \<Rightarrow> notification_args result) \<Rightarrow> 'c app_conn \<Rightarrow> goval \<Rightarrow> notices \<Rightarrow> notices svc_run" where
  "notification_app now decode cn args =
     svc_args decode args (\<lambda>a out.
       (ok2, UserNotification
          \<lparr>ntf_DomainId = acn_domainId cn, ntf_Action = ''show_message'', ntf_CreatedAt = now, ntf_ForUsers = nta_UserIds a, ntf_SockID = [],
           ntf_Body = [(''message'', GStr (nta_Message a)), (''timeout'', GInt (nta_Timeout a)), (''type'', GStr (nta_Type a))]\<rparr> out))"

definition OpenLink ::
  "(int \<Rightarrow> int \<Rightarrow> string \<Rightarrow> string result) \<Rightarrow> int \<Rightarrow> int \<Rightarrow> string \<Rightarrow> int \<Rightarrow> string \<Rightarrow> string \<Rightarrow> notices \<Rightarrow> app_error option \<times> notices" where
  "OpenLink session now domainId sockId userId message url out =
     (case (if sockId = [] then session userId domainId ''desc_track'' else Inr sockId) of
        Inl er \<Rightarrow> (Some (NewAppError ''open_link'' ''store.open_link.error'' [] (AppError_Error er) 500), out)
      | Inr sock \<Rightarrow>
          (None, UserNotification
             \<lparr>ntf_DomainId = domainId, ntf_Action = ''open_link'', ntf_CreatedAt = now, ntf_ForUsers = [userId], ntf_SockID = sock,
              ntf_Body = [(''url'', GStr url), (''message'', GStr message)]\<rparr> out))"

definition openLink ::
  "(int \<Rightarrow> int \<Rightarrow> string \<Rightarrow> string result) \<Rightarrow> int \<Rightarrow> (goval \<Rightarrow> (int \<times> string \<times> string) result) \<Rightarrow> 'c app_conn \<Rightarrow> 'c \<Rightarrow> goval \<Rightarrow> notices \<Rightarrow> notices svc_run" where
  "openLink session now decode cn c args =
     svc_args decode args (\<lambda>(userId, message, url) out.
       let user = (if userId = 0 then (case acn_get cn c ''user_id'' of (uid, ok) \<Rightarrow> if ok then Atoi_clamp uid else 0) else userId);
           sock = fst (acn_get cn c ''wbt_sock_id'')
       in case OpenLink session now (acn_domainId cn) sock user message url out of
            (Some er, out') \<Rightarrow> svc_fail er out'
          | (None, out') \<Rightarrow> (ok2, out'))"

section \<open>Topics (topic_extraction.go)\<close>

record topic_message =
  tms_Sender :: string
  tms_Message :: string

record topic_args =
  tpa_Connection :: string
  tpa_PossibleTopics :: "string list"
  tpa_Limit :: int
  tpa_Messages :: "topic_message list"
  tpa_Score :: string
  tpa_DefinedTopic :: string

text \<open>The kinds of connection: the messages of a call, those of a conversation, any other.\<close>

datatype topic_source = CallTopics "int \<Rightarrow> speech_message list" | ChatTopics "int \<Rightarrow> chat_message list" | OtherTopics

definition topic_messages :: "topic_source \<Rightarrow> topic_args \<Rightarrow> topic_message list" where
  "topic_messages src a =
     (case src of
        CallTopics speech \<Rightarrow> concat (map (\<lambda>v.
          (if sm_Question v \<noteq> [] then [\<lparr>tms_Sender = ''operator'', tms_Message = sm_Question v\<rparr>] else []) @
          [\<lparr>tms_Sender = ''user'', tms_Message = sm_Answer v\<rparr>]) (speech (tpa_Limit a)))
      | ChatTopics last_messages \<Rightarrow>
          map (\<lambda>v. \<lparr>tms_Sender = (if cm_User v = [] then ''operator'' else ''user''), tms_Message = cm_Text v\<rparr>) (last_messages (tpa_Limit a))
      | OtherTopics \<Rightarrow> tpa_Messages a)"

definition topic_vars :: "topic_args \<Rightarrow> string list \<times> string \<Rightarrow> (string \<rightharpoonup> goval)" where
  "topic_vars a res =
     (let (topics, confidence) = res;
          set0 = (if tpa_Score a \<noteq> [] then [tpa_Score a \<mapsto> GStr confidence] else Map.empty)
      in if tpa_DefinedTopic a \<noteq> [] then set0(tpa_DefinedTopic a \<mapsto> GStr (case topics of [] \<Rightarrow> [] | t # _ \<Rightarrow> t)) else set0)"

text \<open>
  \<open>post\<close> writes the request as JSON, sends it and reads the answer, any of which may fail; the confidence comes as its text.
  \<open>set_map\<close> is \<open>Set\<close> for a map of variables.
\<close>

definition topicExtraction ::
  "(string \<Rightarrow> string list \<Rightarrow> topic_message list \<Rightarrow> string + string list \<times> string) \<Rightarrow> ((string \<rightharpoonup> goval) \<Rightarrow> 'c \<Rightarrow> 'c svc_run) \<Rightarrow>
   topic_source \<Rightarrow> (int \<Rightarrow> goval \<Rightarrow> topic_args result) \<Rightarrow> goval \<Rightarrow> 'c \<Rightarrow> 'c svc_run" where
  "topicExtraction post set_map src decode args =
     svc_args (decode 4) args (\<lambda>a c.
       if tpa_Connection a = [] then svc_bad (ErrorRequiredParameter ''topicExtraction'' ''connection'') c
       else if tpa_PossibleTopics a = [] then svc_bad (ErrorRequiredParameter ''topicExtraction'' ''possibleTopics'') c
       else if topic_messages src a = [] then svc_bad (ErrorRequiredParameter ''topicExtraction'' ''messages'') c
       else case post (tpa_Connection a) (tpa_PossibleTopics a) (topic_messages src a) of
              Inl er \<Rightarrow> svc_bad (flow_Error ''topicExtraction'' er) c
            | Inr res \<Rightarrow> set_map (topic_vars a res) c)"

section \<open>The classifier (classifier.go)\<close>

definition inArr :: "string \<Rightarrow> string \<Rightarrow> string list \<Rightarrow> bool" where
  "inArr val matchType tokens =
     (let matchFunc = (if matchType = ''part'' then contains else (\<lambda>str sub. str = sub))
      in list_ex (\<lambda>v. matchFunc v val) tokens \<or> matchFunc (join_with '' '' tokens) val)"

definition phrase_found :: "(string \<Rightarrow> string) \<Rightarrow> (string \<Rightarrow> string list) \<Rightarrow> string \<Rightarrow> string \<Rightarrow> bool \<Rightarrow> string \<Rightarrow> bool" where
  "phrase_found lower tokenize userInput matchType phraseSearch phrase =
     (if phraseSearch then inArr (lower userInput) (lower matchType) [lower phrase]
      else inArr (lower phrase) (lower matchType) (tokenize (lower userInput)))"

text \<open>The clusters in the order the range over the map visits them.\<close>

fun findInCluster :: "(string \<Rightarrow> string) \<Rightarrow> (string \<Rightarrow> string list) \<Rightarrow> (string \<times> string list) list \<Rightarrow> string \<Rightarrow> string \<Rightarrow> bool \<Rightarrow> string" where
  "findInCluster lower tokenize [] userInput matchType phraseSearch = []"
| "findInCluster lower tokenize ((cluster, elems) # rest) userInput matchType phraseSearch =
     (if list_ex (phrase_found lower tokenize userInput matchType phraseSearch) elems then cluster
      else findInCluster lower tokenize rest userInput matchType phraseSearch)"

record classifier_args =
  cla_Cluster :: "(string \<times> string list) list"
  cla_Input :: string
  cla_Set :: string
  cla_PhraseSearch :: bool
  cla_MatchType :: string

definition classifierHandler ::
  "(string \<Rightarrow> string) \<Rightarrow> (string \<Rightarrow> string list) \<Rightarrow> (goval \<Rightarrow> classifier_args result) \<Rightarrow> 'c app_conn \<Rightarrow> goval \<Rightarrow> 'c \<Rightarrow> 'c svc_run" where
  "classifierHandler lower tokenize decode cn args =
     svc_args decode args (\<lambda>a. acn_set cn
       [(cla_Set a, GStr (findInCluster lower tokenize (cla_Cluster a) (cla_Input a) (cla_MatchType a) (cla_PhraseSearch a)))])"

section \<open>Scripts (javascript.go)\<close>

definition js_call :: "string \<Rightarrow> string \<Rightarrow> string" where
  "js_call f body = f @ CHR ''('' # CHR 0x22 # body @ CHR 0x22 # '')''"

definition js_source :: "string \<Rightarrow> string" where
  "js_source data =
     ReplaceAllStringFunc [op_var] (CHR 0x7D) (\<lambda>st op body. (js_call ''_getChannelVar'' body, st)) ()
       (ReplaceAllStringFunc [op_global] (CHR 0x7D) (\<lambda>st op body. (js_call ''_getGlobalVar'' body, st)) () data)"

text \<open>
  How the run of a script ends: with a result within the second; by itself after it, with no statement left; or stopped by a
  function of the channel \<open>Interrupt\<close>, which the interpreter looks at before each statement.  The channel has room for one
  function; the state is whether it holds one.
\<close>

datatype js_end = JsDone "string + goval" | JsLate | JsStopped

text \<open>A full channel blocks the sender: \<open>None\<close>.  A stopped run has taken a function, and one more is sent.\<close>

definition js_interrupt :: "bool \<Rightarrow> js_end \<Rightarrow> bool option" where
  "js_interrupt waiting e =
     (case e of
        JsDone _ \<Rightarrow> Some waiting
      | JsLate \<Rightarrow> if waiting then None else Some True
      | JsStopped \<Rightarrow> Some waiting)"

definition js_timeout :: app_error where
  "js_timeout = NewAppError ''Flow.Js'' ''flow.js.runtime_err'' [] ''timeout'' 400"

definition Js ::
  "(bool \<Rightarrow> string \<Rightarrow> js_end) \<Rightarrow> (goval \<Rightarrow> (string \<times> string) result) \<Rightarrow> 'c app_conn \<Rightarrow> goval \<Rightarrow> bool \<times> 'c \<Rightarrow> (outcome2 \<times> bool \<times> 'c) option" where
  "Js run decode cn args st =
     (case st of (waiting, c) \<Rightarrow>
       (case decode args of
          Inl er \<Rightarrow> Some ((None, Some er), waiting, c)
        | Inr (data, setVar) \<Rightarrow>
            (let js = js_source data; e = run waiting js in
             case js_interrupt waiting e of
               None \<Rightarrow> None
             | Some waiting' \<Rightarrow>
                 (case e of
                    JsDone (Inl er) \<Rightarrow> Some ((None, Some (NewAppError ''Flow.Js'' ''flow.js.runtime_err'' [] (er @ '' js: '' @ js) 400)), waiting', c)
                  | JsDone (Inr v) \<Rightarrow> (case acn_set cn [(setVar, v)] c of (r, c') \<Rightarrow> Some (r, waiting', c'))
                  | _ \<Rightarrow> Some ((None, Some js_timeout), waiting', c)))))"

definition Log :: "(goval \<Rightarrow> string result) \<Rightarrow> goval \<Rightarrow> 'c \<times> string list \<Rightarrow> ('c \<times> string list) svc_run" where
  "Log decode args = svc_args decode args (\<lambda>log st. (ok2, fst st, snd st @ [log]))"

section \<open>Lemmas\<close>

text \<open>The answer of the classifier is a cluster with a phrase that matches, the first in the order of the range.\<close>

lemma findInCluster_first:
  "findInCluster lower tokenize cl inp mt ps =
     (case List.find (\<lambda>(_, elems). list_ex (phrase_found lower tokenize inp mt ps) elems) cl of None \<Rightarrow> [] | Some (k, _) \<Rightarrow> k)"
  by (induction cl) auto

text \<open>Go visits a map in any order: with two clusters that match, the answer depends on it; with one it does not.\<close>

lemma classifier_depends_on_order:
  assumes "k1 \<noteq> k2" and "list_ex (phrase_found lower tokenize inp mt ps) e1" and "list_ex (phrase_found lower tokenize inp mt ps) e2"
  shows "findInCluster lower tokenize [(k1, e1), (k2, e2)] inp mt ps \<noteq> findInCluster lower tokenize [(k2, e2), (k1, e1)] inp mt ps"
  using assms by simp

lemma classifier_single_match:
  assumes "(k, e) \<in> set cl" and "list_ex (phrase_found lower tokenize inp mt ps) e"
    and "\<And>k' e'. (k', e') \<in> set cl \<Longrightarrow> list_ex (phrase_found lower tokenize inp mt ps) e' \<Longrightarrow> k' = k"
  shows "findInCluster lower tokenize cl inp mt ps = k"
  using assms
proof (induction cl)
  case (Cons p cl)
  obtain k' e' where p: "p = (k', e')" by fastforce
  show ?case
  proof (cases "list_ex (phrase_found lower tokenize inp mt ps) e'")
    case True
    with Cons.prems(3) [of k' e'] p show ?thesis by simp
  next
    case False
    with Cons.prems(1,2) p have "(k, e) \<in> set cl" by auto
    then have "findInCluster lower tokenize cl inp mt ps = k"
      by (rule Cons.IH [OF _ Cons.prems(2)]) (blast intro: Cons.prems(3) list.set_intros(2))
    with p False show ?thesis by simp
  qed
qed simp

text \<open>
  A script whose last statement ends after the second leaves its interrupt in the channel.  From then on every script of the flow
  times out, whatever it computes, and the channel stays full: each call takes the function of the one before and leaves its own.
\<close>

lemma late_script_stays:
  assumes otto: "\<And>js. run True js = JsStopped" and "decode args = Inr (data, setVar)"
  shows "Js run decode cn args (True, c) = Some ((None, Some js_timeout), True, c)"
  using assms by (simp add: Js_def js_interrupt_def)

lemma late_script_stops_later_scripts:
  assumes otto: "\<And>js. run True js = JsStopped" and "decode args1 = Inr (data1, v1)" and "run False (js_source data1) = JsLate"
    and "decode args2 = Inr (data2, v2)"
  shows "\<exists>w. Js run decode cn args1 (False, c) = Some ((None, Some js_timeout), w, c) \<and>
             Js run decode cn args2 (w, c) = Some ((None, Some js_timeout), w, c)"
  using assms by (intro exI [of _ True]) (simp add: Js_def js_interrupt_def)

text \<open>Until a script is late, a script that ends in time sets its variable and leaves the channel empty.\<close>

lemma script_in_time:
  assumes "decode args = Inr (data, setVar)" and "run False (js_source data) = JsDone (Inr v)"
  shows "Js run decode cn args (False, c) = Some (fst (acn_set cn [(setVar, v)] c), False, snd (acn_set cn [(setVar, v)] c))"
  using assms by (simp add: Js_def js_interrupt_def split: prod.splits)

end
