(* ===== verification/Bot_Bridge.thy ===== *)
theory Bot_Bridge
  imports Flow_Scripts Flow_Basic Lru_Cache
begin

text \<open>
  The bots of calls and chats (\<open>flow/ai_bridge.go\<close>) and the table of their callbacks (\<open>app/callback.go\<close>).  An application sends the
  description of a bot to a service, binds the dialog to its connection, registers a callback for the functions of the bot, and gives
  the connection to it.  The service, the connection and the caches of the library \<open>expirable\<close> are arguments; \<open>None\<close> is a panic.
\<close>

section \<open>Callbacks (app/callback.go)\<close>

text \<open>An expirable LRU cache of the library.\<close>

record ('v, 's) exp_lru =
  xl_Add :: "string \<Rightarrow> 'v \<Rightarrow> 's \<Rightarrow> 's"
  xl_Remove :: "string \<Rightarrow> 's \<Rightarrow> bool \<times> 's"
  xl_Get :: "string \<Rightarrow> 's \<Rightarrow> 'v option \<times> 's"

text \<open>Its promise: entries may vanish at any time, but a lookup finds only the last entry of its key.\<close>

locale exp_store =
  fixes xl :: "('v, 's) exp_lru" and ok :: "'s \<Rightarrow> bool" and view :: "'s \<Rightarrow> string \<rightharpoonup> 'v"
  assumes get_law: "ok c \<Longrightarrow> xl_Get xl k c = (r, c') \<Longrightarrow> ok c' \<and> view c' \<subseteq>\<^sub>m view c \<and> (\<forall>a. r = Some a \<longrightarrow> view c k = Some a)"
    and add_law: "ok c \<Longrightarrow> ok (xl_Add xl k a c) \<and> view (xl_Add xl k a c) \<subseteq>\<^sub>m (view c)(k \<mapsto> a)"
    and remove_law: "ok c \<Longrightarrow> ok (snd (xl_Remove xl k c)) \<and> view (snd (xl_Remove xl k c)) \<subseteq>\<^sub>m (view c)(k := None)"
begin

lemma get_view:
  assumes "ok c" and "fst (xl_Get xl k c) = Some a"
  shows "view c k = Some a"
proof -
  obtain r c' where g: "xl_Get xl k c = (r, c')" by fastforce
  with get_law [OF assms(1) g] assms(2) show ?thesis by simp
qed

lemma removed_is_gone:
  assumes "ok c"
  shows "fst (xl_Get xl k (snd (xl_Remove xl k c))) = None"
proof (rule ccontr)
  let ?c = "snd (xl_Remove xl k c)"
  have ok: "ok ?c" and le: "view ?c \<subseteq>\<^sub>m (view c)(k := None)" using remove_law [OF assms] by simp_all
  assume "fst (xl_Get xl k ?c) \<noteq> None"
  then obtain a where "view ?c k = Some a" using get_view [OF ok] by blast
  with le have "((view c)(k := None)) k = Some a" unfolding map_le_def by (metis domI)
  then show False by simp
qed

lemma added_or_gone:
  assumes "ok c"
  shows "fst (xl_Get xl k (xl_Add xl k a c)) \<in> {None, Some a}"
proof (cases "fst (xl_Get xl k (xl_Add xl k a c))")
  case (Some b)
  let ?c = "xl_Add xl k a c"
  have ok: "ok ?c" and le: "view ?c \<subseteq>\<^sub>m (view c)(k \<mapsto> a)" using add_law [OF assms] by simp_all
  from get_view [OF ok Some] have "view ?c k = Some b" .
  with le have "((view c)(k \<mapsto> a)) k = Some b" unfolding map_le_def by (metis domI)
  with Some show ?thesis by simp
qed simp

end

record ('d, 'f) callbacks =
  cbk_cb :: 'f
  cbk_dialogByCall :: 'd

definition Register :: "('v, 'f) exp_lru \<Rightarrow> string \<Rightarrow> 'v \<Rightarrow> ('d, 'f) callbacks \<Rightarrow> ('d, 'f) callbacks" where
  "Register xf i fn r = r\<lparr>cbk_cb := xl_Add xf i fn (cbk_cb r)\<rparr>"

definition Unregister :: "('v, 'f) exp_lru \<Rightarrow> string \<Rightarrow> ('d, 'f) callbacks \<Rightarrow> string option \<times> ('d, 'f) callbacks" where
  "Unregister xf i r =
     (case xl_Remove xf i (cbk_cb r) of (found, t) \<Rightarrow> (if found then None else Some ''callback not found'', r\<lparr>cbk_cb := t\<rparr>))"

definition Callback :: "('v, 'f) exp_lru \<Rightarrow> string \<Rightarrow> ('d, 'f) callbacks \<Rightarrow> (string + 'v) \<times> ('d, 'f) callbacks" where
  "Callback xf i r =
     (case xl_Get xf i (cbk_cb r) of (fn, t) \<Rightarrow> (case fn of None \<Rightarrow> Inl ''callback not found'' | Some f \<Rightarrow> Inr f, r\<lparr>cbk_cb := t\<rparr>))"

definition BindDialog :: "(string, 'd) exp_lru \<Rightarrow> string \<Rightarrow> string \<Rightarrow> ('d, 'f) callbacks \<Rightarrow> ('d, 'f) callbacks" where
  "BindDialog xd callId dialogId r = r\<lparr>cbk_dialogByCall := xl_Add xd callId dialogId (cbk_dialogByCall r)\<rparr>"

definition UnbindDialog :: "(string, 'd) exp_lru \<Rightarrow> string \<Rightarrow> ('d, 'f) callbacks \<Rightarrow> ('d, 'f) callbacks" where
  "UnbindDialog xd callId r = r\<lparr>cbk_dialogByCall := snd (xl_Remove xd callId (cbk_dialogByCall r))\<rparr>"

definition DialogByCall :: "(string, 'd) exp_lru \<Rightarrow> string \<Rightarrow> ('d, 'f) callbacks \<Rightarrow> string option \<times> ('d, 'f) callbacks" where
  "DialogByCall xd callId r = (case xl_Get xd callId (cbk_dialogByCall r) of (x, t) \<Rightarrow> (x, r\<lparr>cbk_dialogByCall := t\<rparr>))"

section \<open>Parameters of a bot\<close>

record bot_timeout =
  bti_Actions :: applications
  bti_Sec :: int

record bot_function =
  bfn_Actions :: applications
  bfn_Behavior :: string
  bfn_Name :: string
  bfn_Description :: string
  bfn_Idempotent :: bool
  bfn_TimeoutMs :: int
  bfn_Parameters :: goval

text \<open>Nil maps and lists are \<open>None\<close>.\<close>

record bot_params =
  bop_ProfileId :: int
  bop_Timeout :: "(string \<times> bot_timeout) list option"
  bop_Functions :: "bot_function list option"
  bop_TranscribeVar :: string
  bop_Variables :: "(string \<times> string) list"
  bop_StartMessage :: string
  bop_Model :: string

definition bot_functions :: "bot_params \<Rightarrow> bot_function list" where
  "bot_functions p = (case bop_Functions p of Some fs \<Rightarrow> fs | None \<Rightarrow> [])"

definition bot_timeouts :: "bot_params \<Rightarrow> (string \<times> bot_timeout) list" where
  "bot_timeouts p = (case bop_Timeout p of Some ts \<Rightarrow> ts | None \<Rightarrow> [])"

text \<open>\<open>sprint\<close> is \<open>fmt.Sprintf("%v", props)\<close>.\<close>

definition bot_parseOutputs :: "((string \<times> goval) list \<Rightarrow> string) \<Rightarrow> string \<Rightarrow> (string \<times> goval) list \<Rightarrow> applications result" where
  "bot_parseOutputs sprint propertyName props =
     (case map_get props propertyName of
        GArr apps \<Rightarrow> Inr (ArrInterfaceToArrayApplication apps)
      | _ \<Rightarrow> Inl (NewAppError ''Voice.Parse'' ''voice.valid.props'' [] (''bad arguments '' @ sprint props) 400))"

text \<open>The loop over the functions of the arguments, from position \<open>i\<close>; a function that is no object or has no counterpart panics.\<close>

fun setup_from :: "((string \<times> goval) list \<Rightarrow> string) \<Rightarrow> nat \<Rightarrow> goval list \<Rightarrow> bot_function list \<Rightarrow> bot_function list result option" where
  "setup_from sprint i [] fs = Some (Inr fs)"
| "setup_from sprint i (v # vs) fs =
     (case as_map v of
        None \<Rightarrow> None
      | Some obj \<Rightarrow>
          (if i \<ge> length fs then None
           else if bfn_Name (fs ! i) \<noteq> (case map_get obj ''name'' of GStr n \<Rightarrow> n | _ \<Rightarrow> [])
           then Some (Inl (ErrorRequiredParameter ''bot'' ''function name''))
           else (case bot_parseOutputs sprint ''actions'' obj of
                   Inl er \<Rightarrow> Some (Inl er)
                 | Inr acts \<Rightarrow> setup_from sprint (Suc i) vs (fs[i := (fs ! i)\<lparr>bfn_Actions := acts\<rparr>]))))"

definition setupFunctions :: "((string \<times> goval) list \<Rightarrow> string) \<Rightarrow> (string \<times> goval) list \<Rightarrow> bot_params \<Rightarrow> bot_params result option" where
  "setupFunctions sprint m p =
     (case (map_get m ''functions'', bop_Functions p) of
        (GArr vs, Some fs) \<Rightarrow> map_option (\<lambda>r. case r of Inl er \<Rightarrow> Inl er | Inr fs' \<Rightarrow> Inr (p\<lparr>bop_Functions := Some fs'\<rparr>)) (setup_from sprint 0 vs fs)
      | _ \<Rightarrow> Some (Inr p))"

text \<open>The timeouts of the arguments, in the order of the range; the error of bad actions is dropped.  Also the events to announce.\<close>

fun setup_timeouts ::
  "((string \<times> goval) list \<Rightarrow> string) \<Rightarrow> (string \<times> goval) list \<Rightarrow> (string \<times> bot_timeout) list \<Rightarrow> ((string \<times> bot_timeout) list \<times> (string \<times> int) list) option" where
  "setup_timeouts sprint [] ts = Some (ts, [])"
| "setup_timeouts sprint ((k, v) # r) ts =
     (case as_map v of
        None \<Rightarrow> None
      | Some obj \<Rightarrow>
          (case map_of ts k of
             None \<Rightarrow> setup_timeouts sprint r ts
           | Some tf \<Rightarrow>
               (let acts = (case bot_parseOutputs sprint ''actions'' obj of Inr a \<Rightarrow> a | Inl _ \<Rightarrow> [])
                in map_option (\<lambda>(ts', evs). (ts', (k, bti_Sec tf) # evs)) (setup_timeouts sprint r (AList.update k (tf\<lparr>bti_Actions := acts\<rparr>) ts)))))"

definition bot_events :: "((string \<times> goval) list \<Rightarrow> string) \<Rightarrow> (string \<times> goval) list \<Rightarrow> bot_params \<Rightarrow> (bot_params \<times> (string \<times> int) list) option" where
  "bot_events sprint m p =
     (case (map_get m ''timeout'', bop_Timeout p) of
        (GMap t, Some ts) \<Rightarrow> map_option (\<lambda>(ts', evs). (p\<lparr>bop_Timeout := Some ts'\<rparr>, evs)) (setup_timeouts sprint t ts)
      | _ \<Rightarrow> Some (p, []))"

definition getFunctionByName :: "string \<Rightarrow> bot_params \<Rightarrow> string + bot_function" where
  "getFunctionByName name p =
     (case List.find (\<lambda>f. bfn_Name f = name) (bot_functions p) of
        Some f \<Rightarrow> Inr f | None \<Rightarrow> Inl (''function '' @ name @ '' not found''))"

section \<open>The session of a bot\<close>

datatype conn_type = TypeCall | TypeGrpc | TypeEmail | TypeWebHook | TypeChat | TypeForm | TypeChannel | TypeIM

definition type_number :: "conn_type \<Rightarrow> int" where
  "type_number t = (case t of TypeCall \<Rightarrow> 0 | TypeGrpc \<Rightarrow> 1 | TypeEmail \<Rightarrow> 2 | TypeWebHook \<Rightarrow> 3 | TypeChat \<Rightarrow> 4 | TypeForm \<Rightarrow> 5 | TypeChannel \<Rightarrow> 6 | TypeIM \<Rightarrow> 7)"

definition botOnlyText :: "conn_type \<Rightarrow> bool result" where
  "botOnlyText t =
     (if t = TypeCall then Inr False else if t = TypeChat then Inr True
      else Inl (NewRequestError ''gemini.bots'' (''unsupported connection type '' @ Itoa (type_number t))))"

datatype bot_request = BotTimeout string | BotFunction string "(string \<times> goval) list option" | BotOther | BotWrong

text \<open>
  What the callback of a session does with a request: an error, or the variables it sets, the name of the branch and its actions,
  with which \<open>executeAndGetResponse\<close> goes on.
\<close>

definition bot_callback :: "bot_params \<Rightarrow> bot_request \<Rightarrow> string + (string \<times> goval) list option \<times> string \<times> applications" where
  "bot_callback p req =
     (case req of
        BotTimeout event \<Rightarrow>
          (case map_of (bot_timeouts p) event of
             None \<Rightarrow> Inl (AppError_Error (NewAppError ''bot'' ''bot.timeout'' [] ''timeout event not found'' 500))
           | Some t \<Rightarrow> Inr (None, ''function-timeout'', bti_Actions t))
      | BotFunction name vars \<Rightarrow>
          (case getFunctionByName name p of
             Inl er \<Rightarrow> Inl er
           | Inr f \<Rightarrow> Inr (vars, ''function-'' @ bfn_Name f, bfn_Actions f))
      | BotOther \<Rightarrow> Inl ''unknown data type in VoiceBotExecuteRequest''
      | BotWrong \<Rightarrow> Inl ''unknown request type for callback'')"

text \<open>
  What a session sees of its surroundings: the two caches, the connection and its runs of the bot.  The table of callbacks belongs to the
  process, so a run may return it changed by other sessions.
\<close>

record ('d, 'f, 'c) bot_conn =
  btc_xd :: "(string, 'd) exp_lru"
  btc_xf :: "(bot_params, 'f) exp_lru"
  btc_id :: string
  btc_domainId :: int
  btc_type :: conn_type
  btc_call :: "string \<Rightarrow> int \<Rightarrow> string \<Rightarrow> (string \<times> string) list \<Rightarrow> ('d, 'f) callbacks \<times> 'c \<Rightarrow> outcome2 \<times> ('d, 'f) callbacks \<times> 'c"
  btc_chat :: "string \<Rightarrow> ('d, 'f) callbacks \<times> 'c \<Rightarrow> outcome2 \<times> ('d, 'f) callbacks \<times> 'c"

definition bot ::
  "('d, 'f, 'c) bot_conn \<Rightarrow> string \<Rightarrow> string \<Rightarrow> bot_params \<Rightarrow> int \<Rightarrow> ('d, 'f) callbacks \<times> 'c \<Rightarrow> outcome2 \<times> ('d, 'f) callbacks \<times> 'c" where
  "bot cn connection dialogId p inputRate st =
     (let callback = (bot_functions p \<noteq> [] \<or> bot_timeouts p \<noteq> []);
          r0 = BindDialog (btc_xd cn) (btc_id cn) dialogId (fst st);
          r1 = (if callback then Register (btc_xf cn) dialogId p r0 else r0);
          (out, r2, c2) = (case btc_type cn of
              TypeCall \<Rightarrow> btc_call cn connection inputRate dialogId (bop_Variables p) (r1, snd st)
            | TypeChat \<Rightarrow> btc_chat cn dialogId (r1, snd st)
            | _ \<Rightarrow> ((Some CallResponseError, None), r1, snd st));
          r3 = (if callback then snd (Unregister (btc_xf cn) dialogId r2) else r2)
      in (out, UnbindDialog (btc_xd cn) (btc_id cn) r3, c2))"

section \<open>Gemini\<close>

record gemini_vad =
  gvd_Enabled :: bool
  gvd_StartOfSpeechSensitivity :: string
  gvd_EndOfSpeechSensitivity :: string
  gvd_PrefixPaddingMs :: int
  gvd_SilenceDurationMs :: int
  gvd_ActivityHandling :: string

record gemini_args =
  gma_bot :: bot_params
  gma_Role :: string
  gma_Parts :: "(string \<times> bool) list"
  gma_VoiceName :: string
  gma_MediaResolution :: string
  gma_Temperature :: rat
  gma_Language :: string
  gma_Vad :: "gemini_vad option"
  gma_SessionResumption :: "(string \<times> bool) option"

record gemini_initial =
  gmi_TextBot :: bool
  gmi_Channel :: string
  gmi_DomainId :: int
  gmi_FlowConnection :: string
  gmi_ProfileId :: int
  gmi_CallId :: string
  gmi_Functions :: string
  gmi_TranscribeClient :: string
  gmi_TranscribeModel :: string
  gmi_TranscribeVar :: string
  gmi_Role :: string
  gmi_Parts :: "(bool \<times> string) list"
  gmi_VoiceName :: string
  gmi_Language :: string
  gmi_Temperature :: rat
  gmi_MediaResolution :: string
  gmi_Model :: string
  gmi_StartMessage :: string
  gmi_SessionResumption :: "(string \<times> bool) option"
  gmi_Vad :: "gemini_vad option"
  gmi_Events :: "(string \<times> int) list"

text \<open>
  The services: the address of this process, functions as JSON, values as text, and the answer to the first message, an error or the
  connection, the dialog and the rate, where \<open>None\<close> is an answer of another kind.
\<close>

record bot_services =
  bsv_ConnectionString :: string
  bsv_json :: "bot_function list \<Rightarrow> string"
  bsv_sprint :: "(string \<times> goval) list \<Rightarrow> string"

type_synonym bot_answer = "string + (string \<times> string \<times> int) option"

definition bot_channel :: "bool \<Rightarrow> string" where
  "bot_channel textBot = (if textBot then ''chat'' else ''call'')"

definition gemini_initial_of :: "bot_services \<Rightarrow> ('d, 'f, 'c) bot_conn \<Rightarrow> bool \<Rightarrow> gemini_args \<Rightarrow> (string \<times> int) list \<Rightarrow> gemini_initial" where
  "gemini_initial_of bs cn textBot a events =
     \<lparr>gmi_TextBot = textBot, gmi_Channel = bot_channel textBot, gmi_DomainId = btc_domainId cn, gmi_FlowConnection = bsv_ConnectionString bs,
      gmi_ProfileId = bop_ProfileId (gma_bot a), gmi_CallId = btc_id cn, gmi_Functions = bsv_json bs (bot_functions (gma_bot a)),
      gmi_TranscribeClient = ''todo'', gmi_TranscribeModel = ''todo'', gmi_TranscribeVar = bop_TranscribeVar (gma_bot a), gmi_Role = gma_Role a, gmi_Parts = map (\<lambda>(t, th). (th, t)) (gma_Parts a),
      gmi_VoiceName = gma_VoiceName a, gmi_Language = gma_Language a, gmi_Temperature = gma_Temperature a, gmi_MediaResolution = gma_MediaResolution a,
      gmi_Model = bop_Model (gma_bot a), gmi_StartMessage = bop_StartMessage (gma_bot a), gmi_SessionResumption = gma_SessionResumption a,
      gmi_Vad = (case gma_Vad a of Some v \<Rightarrow> if gvd_Enabled v then Some v else None | None \<Rightarrow> None), gmi_Events = events\<rparr>"

text \<open>The end that \<open>gemini\<close> and \<open>openai\<close> share, with the names of their errors and their default rate.\<close>

definition bot_start ::
  "('d, 'f, 'c) bot_conn \<Rightarrow> string \<Rightarrow> app_error \<Rightarrow> int \<Rightarrow> bot_params \<Rightarrow> bot_answer \<Rightarrow> ('d, 'f) callbacks \<times> 'c \<Rightarrow> outcome2 \<times> ('d, 'f) callbacks \<times> 'c" where
  "bot_start cn connectId refused rate0 p answer st =
     (case answer of
        Inl e \<Rightarrow> ((None, Some (NewInternalError connectId e)), st)
      | Inr None \<Rightarrow> ((None, Some refused), st)
      | Inr (Some (connection, dialogId, rate)) \<Rightarrow> bot cn connection dialogId p (if rate = 0 then rate0 else rate) st)"

text \<open>The two applications need an object: the functions and timeouts are read from it again.\<close>

definition with_branches ::
  "bot_services \<Rightarrow> goval \<Rightarrow> bot_params \<Rightarrow> (bot_params \<Rightarrow> (string \<times> int) list \<Rightarrow> 's \<Rightarrow> outcome2 \<times> 's) \<Rightarrow> 's \<Rightarrow> (outcome2 \<times> 's) option" where
  "with_branches bs args p k st =
     (case as_map args of
        None \<Rightarrow> None
      | Some m \<Rightarrow>
          (case setupFunctions (bsv_sprint bs) m p of
             None \<Rightarrow> None
           | Some (Inl er) \<Rightarrow> Some ((None, Some er), st)
           | Some (Inr p1) \<Rightarrow> map_option (\<lambda>(p2, events). k p2 events st) (bot_events (bsv_sprint bs) m p1)))"

definition gemini ::
  "bot_services \<Rightarrow> (gemini_initial \<Rightarrow> bot_answer) \<Rightarrow> (goval \<Rightarrow> gemini_args result) \<Rightarrow> ('d, 'f, 'c) bot_conn \<Rightarrow> goval \<Rightarrow>
   ('d, 'f) callbacks \<times> 'c \<Rightarrow> (outcome2 \<times> ('d, 'f) callbacks \<times> 'c) option" where
  "gemini bs service decode cn args st =
     (case decode args of
        Inl er \<Rightarrow> Some ((None, Some er), st)
      | Inr a \<Rightarrow>
          (case botOnlyText (btc_type cn) of
             Inl er \<Rightarrow> Some ((Some CallResponseError, Some er), st)
           | Inr textBot \<Rightarrow>
               with_branches bs args (gma_bot a) (\<lambda>p events.
                 bot_start cn ''gemini.connect'' (NewAppError ''gemini'' ''gemini.gemini'' [] ''failed to get connected response'' 500) 16000 p
                   (service (gemini_initial_of bs cn textBot a events))) st))"

section \<open>OpenAI\<close>

record openai_args =
  oaa_bot :: bot_params
  oaa_Instructions :: "string list"
  oaa_Voice :: string
  oaa_Language :: string
  oaa_InputAudioTranscription :: "goval"
  oaa_TurnDetection :: "(rat \<times> int \<times> int) option"
  oaa_ToolChoice :: string
  oaa_Temperature :: rat
  oaa_MaxResponseOutputTokens :: int
  oaa_InputAudioNoiseReduction :: string

record openai_initial =
  oai_FlowConnection :: string
  oai_DomainId :: int
  oai_ProfileId :: int
  oai_TextBot :: bool
  oai_Channel :: string
  oai_CallId :: string
  oai_TranscribeVar :: string
  oai_Functions :: string
  oai_StartMessage :: string
  oai_Model :: string
  oai_Instructions :: string
  oai_Language :: string
  oai_Voice :: string
  oai_InputAudioTranscription :: "goval"
  oai_TurnDetection :: "(rat \<times> int \<times> int) option"
  oai_ToolChoice :: string
  oai_Temperature :: rat
  oai_MaxResponseOutputTokens :: int
  oai_InputAudioNoiseReduction :: string
  oai_Events :: "(string \<times> int) list"

text \<open>
  The texts of the instructions: \<open>i\<close> counts them, \<open>l\<close> is the variable that is meant to be the length of \<open>acc\<close> and grows by it
  each time.  An index out of range panics.
\<close>

fun join_instructions :: "nat \<Rightarrow> nat \<Rightarrow> string \<Rightarrow> string list \<Rightarrow> string option" where
  "join_instructions i l acc [] = Some acc"
| "join_instructions i l acc (v # vs) =
     (if v = [] then join_instructions (Suc i) l acc vs
      else if i > 0 \<and> l > 0 \<and> l - 1 \<ge> length acc then None
      else (let acc1 = (if i > 0 \<and> l > 0 \<and> acc ! (l - 1) \<noteq> CHR ''.'' then acc @ ''. '' else acc) @ v
            in join_instructions (Suc i) (l + length acc1) acc1 vs))"

definition openai_initial_of :: "bot_services \<Rightarrow> ('d, 'f, 'c) bot_conn \<Rightarrow> bool \<Rightarrow> openai_args \<Rightarrow> string \<Rightarrow> (string \<times> int) list \<Rightarrow> openai_initial" where
  "openai_initial_of bs cn textBot a instructions events =
     \<lparr>oai_FlowConnection = bsv_ConnectionString bs, oai_DomainId = btc_domainId cn, oai_ProfileId = bop_ProfileId (oaa_bot a), oai_TextBot = textBot,
      oai_Channel = bot_channel textBot, oai_CallId = btc_id cn, oai_TranscribeVar = bop_TranscribeVar (oaa_bot a),
      oai_Functions = bsv_json bs (bot_functions (oaa_bot a)), oai_StartMessage = bop_StartMessage (oaa_bot a), oai_Model = bop_Model (oaa_bot a),
      oai_Instructions = instructions, oai_Language = oaa_Language a, oai_Voice = oaa_Voice a, oai_InputAudioTranscription = oaa_InputAudioTranscription a,
      oai_TurnDetection = oaa_TurnDetection a, oai_ToolChoice = oaa_ToolChoice a, oai_Temperature = oaa_Temperature a,
      oai_MaxResponseOutputTokens = oaa_MaxResponseOutputTokens a, oai_InputAudioNoiseReduction = oaa_InputAudioNoiseReduction a, oai_Events = events\<rparr>"

definition openai ::
  "bot_services \<Rightarrow> (openai_initial \<Rightarrow> bot_answer) \<Rightarrow> (goval \<Rightarrow> openai_args result) \<Rightarrow> ('d, 'f, 'c) bot_conn \<Rightarrow> goval \<Rightarrow>
   ('d, 'f) callbacks \<times> 'c \<Rightarrow> (outcome2 \<times> ('d, 'f) callbacks \<times> 'c) option" where
  "openai bs service decode cn args st =
     (case decode args of
        Inl er \<Rightarrow> Some ((None, Some er), st)
      | Inr a \<Rightarrow>
          (case botOnlyText (btc_type cn) of
             Inl er \<Rightarrow> Some ((Some CallResponseError, Some er), st)
           | Inr textBot \<Rightarrow>
               (case join_instructions 0 0 [] (oaa_Instructions a) of
                  None \<Rightarrow> None
                | Some instructions \<Rightarrow>
                    with_branches bs args (oaa_bot a) (\<lambda>p events.
                      bot_start cn ''bot.openai.connect'' (NewAppError ''openai'' ''bot.openai'' [] ''failed to get connected response'' 500) 24000 p
                        (service (openai_initial_of bs cn textBot a instructions events))) st)))"

section \<open>The cascade of recognition, model and speech\<close>

record pipeline_args =
  pla_bot :: bot_params
  pla_Tts :: "int \<times> goval \<times> string \<times> rat"
  pla_Stt :: "int \<times> string \<times> bool \<times> goval"
  pla_Llm :: "int \<times> goval \<times> string"
  pla_System :: string
  pla_StartMessage :: string
  pla_HalfDuplex :: bool

record pipeline_tool =
  plt_Name :: string
  plt_Description :: string
  plt_SchemaJson :: string
  plt_Idempotent :: bool
  plt_TimeoutMs :: int

record pipeline_initial =
  pli_DomainId :: int
  pli_CallId :: string
  pli_FlowConnection :: string
  pli_StartMessage :: string
  pli_Stt :: "int \<times> string \<times> bool \<times> string"
  pli_Llm :: "int \<times> string \<times> string"
  pli_Tts :: "int \<times> string \<times> rat \<times> string"
  pli_Tools :: "pipeline_tool list"
  pli_System :: string
  pli_HalfDuplex :: bool

text \<open>\<open>json\<close> is \<open>json.Marshal\<close> with its error dropped; a nil value gives no text.\<close>

definition extra_json :: "(goval \<Rightarrow> string) \<Rightarrow> goval \<Rightarrow> string" where
  "extra_json json v = (if v = GNil then [] else json v)"

definition pipeline_initial_of :: "(goval \<Rightarrow> string) \<Rightarrow> bot_services \<Rightarrow> ('d, 'f, 'c) bot_conn \<Rightarrow> pipeline_args \<Rightarrow> pipeline_initial" where
  "pipeline_initial_of json bs cn a =
     (case (pla_Tts a, pla_Stt a, pla_Llm a) of ((tts, ttsExtra, voice, speed), (stt, lang, punct, sttExtra), (llm, llmExtra, mdl)) \<Rightarrow>
       \<lparr>pli_DomainId = btc_domainId cn, pli_CallId = btc_id cn, pli_FlowConnection = bsv_ConnectionString bs, pli_StartMessage = pla_StartMessage a,
        pli_Stt = (stt, lang, punct, extra_json json sttExtra), pli_Llm = (llm, mdl, extra_json json llmExtra), pli_Tts = (tts, voice, speed, extra_json json ttsExtra),
        pli_Tools = map (\<lambda>f. \<lparr>plt_Name = bfn_Name f, plt_Description = bfn_Description f, plt_SchemaJson = json (bfn_Parameters f),
          plt_Idempotent = bfn_Idempotent f, plt_TimeoutMs = 1000 * 1000 * 7\<rparr>) (bot_functions (pla_bot a)),
        pli_System = pla_System a, pli_HalfDuplex = pla_HalfDuplex a\<rparr>)"

text \<open>An answer that is not the connected one yields empty values; timeouts are not read.\<close>

definition cascadeVoice ::
  "(goval \<Rightarrow> string) \<Rightarrow> bot_services \<Rightarrow> (pipeline_initial \<Rightarrow> bot_answer) \<Rightarrow> (goval \<Rightarrow> pipeline_args result) \<Rightarrow> ('d, 'f, 'c) bot_conn \<Rightarrow> goval \<Rightarrow>
   ('d, 'f) callbacks \<times> 'c \<Rightarrow> (outcome2 \<times> ('d, 'f) callbacks \<times> 'c) option" where
  "cascadeVoice json bs service decode cn args st =
     (case decode args of
        Inl er \<Rightarrow> Some ((None, Some er), st)
      | Inr a \<Rightarrow>
          (case service (pipeline_initial_of json bs cn a) of
             Inl e \<Rightarrow> Some ((None, Some (NewInternalError ''pipeline.connect'' e)), st)
           | Inr answer \<Rightarrow>
               (case as_map args of
                  None \<Rightarrow> None
                | Some m \<Rightarrow>
                    (case setupFunctions (bsv_sprint bs) m (pla_bot a) of
                       None \<Rightarrow> None
                     | Some (Inl er) \<Rightarrow> Some ((None, Some er), st)
                     | Some (Inr p) \<Rightarrow>
                         (let (connection, dialogId, rate) = (case answer of Some d \<Rightarrow> d | None \<Rightarrow> ([], [], 0))
                          in Some (bot cn connection dialogId p rate st))))))"

section \<open>Functions of a bot\<close>

record embed_args =
  emb_ProfileId :: int
  emb_Query :: string
  emb_Threshold :: rat
  emb_Limit :: int
  emb_Set :: string
  emb_Tags :: "string list"

definition embed ::
  "(int \<Rightarrow> embed_args \<Rightarrow> string \<Rightarrow> string + string) \<Rightarrow> (string, 'd) exp_lru \<Rightarrow> (goval \<Rightarrow> embed_args result) \<Rightarrow> 'c app_conn \<Rightarrow> goval \<Rightarrow>
   ('d, 'f) callbacks \<times> 'c \<Rightarrow> outcome2 \<times> ('d, 'f) callbacks \<times> 'c" where
  "embed GetContent xd decode cn args st =
     (case decode args of
        Inl er \<Rightarrow> ((Some CallResponseError, Some er), st)
      | Inr a \<Rightarrow>
          (case DialogByCall xd (acn_id cn) (fst st) of (dialog, r) \<Rightarrow>
            (case GetContent (acn_domainId cn) a (case dialog of Some i \<Rightarrow> i | None \<Rightarrow> []) of
               Inl e \<Rightarrow> ((Some CallResponseError, Some (NewAppError ''embed'' ''bot.embed.get_content'' [] e 500)), r, snd st)
             | Inr txt \<Rightarrow>
                 (case acn_set cn [(emb_Set a, GStr (base64Fn ''encoder'' txt))] (snd st) of (out, c) \<Rightarrow> (out, r, c)))))"

text \<open>Whether \<open>DecodeString\<close> returns no error.\<close>

function b64_valid :: "string \<Rightarrow> bool" where
  "b64_valid src = (if src = [] then True else (case b64_quantum [] src of (rest, bs, bad) \<Rightarrow> if bad then False else b64_valid rest))"
  by pat_completeness auto
termination
  by (relation "measure length") (use b64_quantum_less [of "[]"] in \<open>auto, metis fst_conv\<close>)

declare b64_valid.simps [simp del]

record bot_result =
  bre_Exit :: bool
  bre_WillContinue :: bool
  bre_Response :: "(string \<times> goval) list option"
  bre_Scheduling :: string
  bre_Content :: string
  bre_Tts :: "(string \<times> string \<times> bool) option"

record bot_response =
  brs_WillContinue :: bool
  brs_Scheduling :: string
  brs_Exit :: bool
  brs_Response :: "(string \<times> goval) list"
  brs_Tts :: "(string \<times> string \<times> bool) option"

definition result_content :: "string \<Rightarrow> string" where
  "result_content txt = (if b64_valid txt then base64Fn ''decoder'' txt else txt)"

definition bot_response_of :: "bot_result \<Rightarrow> bot_response" where
  "bot_response_of a =
     (let response = (case bre_Response a of Some m \<Rightarrow> m | None \<Rightarrow> []); txt = result_content (bre_Content a)
      in \<lparr>brs_WillContinue = bre_WillContinue a, brs_Scheduling = bre_Scheduling a, brs_Exit = bre_Exit a,
          brs_Response = (if txt \<noteq> [] then AList.update ''output'' (GStr txt) response else response), brs_Tts = bre_Tts a\<rparr>)"

text \<open>
  \<open>botReturnResult\<close>: the arguments of the schema, behind which the parser puts the channel, so a second argument stands at its place.
  \<open>struct\<close> is the error of \<open>structpb.NewStruct\<close>.  The result is the scope and the message for the channel.
\<close>

definition botReturnResult ::
  "((string \<times> goval) list \<Rightarrow> string option) \<Rightarrow> (goval \<Rightarrow> bot_result result) \<Rightarrow> goval list \<Rightarrow> flow \<Rightarrow> outcome2 \<times> flow \<times> bot_response option" where
  "botReturnResult struct decode args scope =
     (let bad = (\<lambda>er s. ((Some CallResponseError, Some er), s, None)) in
      case args of
        [] \<Rightarrow> bad (NewAppError ''botReturnResult'' ''bot.return.args'' [] ''invalid arguments'' 400) scope
      | x # rest \<Rightarrow>
          (case decode x of
             Inl er \<Rightarrow> bad er scope
           | Inr a \<Rightarrow>
               (if rest \<noteq> [] then bad (NewAppError ''botReturnResult'' ''bot.return.channel'' [] ''result channel is of wrong type'' 500) (SetCancel scope)
                else (case struct (brs_Response (bot_response_of a)) of
                    Some er \<Rightarrow> bad (NewAppError ''botReturnResult'' ''bot.return.struct'' [] er 500) (SetCancel scope)
                  | None \<Rightarrow> (ok2, SetCancel scope, Some (bot_response_of a))))))"

text \<open>
  \<open>executeAndGetResponse\<close> after its branch has run: a channel with room for one response, one goroutine for each result the branch
  gave, the caller in its \<open>select\<close>, and the deferred \<open>close\<close>.
\<close>

datatype 'r exec_wait = ExecWaiting | ExecGot 'r | ExecCancelled

record 'r exec_state =
  exs_buffer :: "'r option"
  exs_closed :: bool
  exs_senders :: "'r list"
  exs_done :: bool
  exs_wait :: "'r exec_wait"
  exs_panic :: bool

definition exec_start :: "'r list \<Rightarrow> 'r exec_state" where
  "exec_start results = \<lparr>exs_buffer = None, exs_closed = False, exs_senders = results, exs_done = False, exs_wait = ExecWaiting, exs_panic = False\<rparr>"

definition executeAndGetResponse :: "(flow \<Rightarrow> 'r list) \<Rightarrow> flow \<Rightarrow> string \<Rightarrow> applications \<Rightarrow> 'r exec_state" where
  "executeAndGetResponse run scope forkName actions = exec_start (run (Fork forkName actions scope))"

text \<open>The \<open>select\<close> of a goroutine may take either branch when both are open; sending on a closed channel panics.\<close>

inductive exec_step :: "'r exec_state \<Rightarrow> 'r exec_state \<Rightarrow> bool" where
  sender_sends: "\<lbrakk>exs_senders s = rs @ r # rs'; \<not> exs_closed s; exs_buffer s = None\<rbrakk> \<Longrightarrow>
     exec_step s (s\<lparr>exs_buffer := Some r, exs_senders := rs @ rs'\<rparr>)"
| sender_panics: "\<lbrakk>exs_senders s \<noteq> []; exs_closed s\<rbrakk> \<Longrightarrow> exec_step s (s\<lparr>exs_panic := True\<rparr>)"
| sender_leaves: "\<lbrakk>exs_senders s = rs @ r # rs'; exs_done s\<rbrakk> \<Longrightarrow> exec_step s (s\<lparr>exs_senders := rs @ rs'\<rparr>)"
| context_ends: "\<not> exs_done s \<Longrightarrow> exec_step s (s\<lparr>exs_done := True\<rparr>)"
| caller_receives: "\<lbrakk>exs_wait s = ExecWaiting; exs_buffer s = Some r\<rbrakk> \<Longrightarrow> exec_step s (s\<lparr>exs_buffer := None, exs_wait := ExecGot r\<rparr>)"
| caller_gives_up: "\<lbrakk>exs_wait s = ExecWaiting; exs_done s\<rbrakk> \<Longrightarrow> exec_step s (s\<lparr>exs_wait := ExecCancelled\<rparr>)"
| caller_closes: "\<lbrakk>exs_wait s \<noteq> ExecWaiting; \<not> exs_closed s\<rbrakk> \<Longrightarrow> exec_step s (s\<lparr>exs_closed := True\<rparr>)"

inductive exec_reach :: "'r exec_state \<Rightarrow> 'r exec_state \<Rightarrow> bool" where
  exec_here: "exec_reach s s"
| exec_more: "exec_reach s t \<Longrightarrow> exec_step t u \<Longrightarrow> exec_reach s u"

inductive_cases exec_stepE: "exec_step s t"

end
