(* ===== verification/Bot_Props.thy ===== *)
theory Bot_Props
  imports Bot_Bridge
begin

text \<open>
  Properties of bots: the caches of callbacks on the LRU cache of the repository, the end of a session, the branches of functions,
  the text of instructions, and the result of a function.
\<close>

section \<open>The caches\<close>

definition registry_lru :: "('v, (string, 'v) lru) exp_lru" where
  "registry_lru = \<lparr>xl_Add = lru_Add 0, xl_Remove = (\<lambda>k c. (content c k \<noteq> None, lru_Remove k c)), xl_Get = lru_Get 0\<rparr>"

definition registry_ok :: "(string, 'v) lru \<Rightarrow> bool" where
  "registry_ok c = (lru_inv c \<and> 1 \<le> lru_size c)"

definition registry_view :: "(string, 'v) lru \<Rightarrow> string \<rightharpoonup> 'v" where
  "registry_view c k = map_option fst (content c k)"

lemma view_le: "content c' \<subseteq>\<^sub>m m \<Longrightarrow> registry_view c' \<subseteq>\<^sub>m (\<lambda>k. map_option fst (m k))"
  by (fastforce simp: map_le_def registry_view_def dom_def)

lemma registry_get:
  assumes "registry_ok c" and g: "xl_Get registry_lru k c = (r, c')"
  shows "registry_ok c' \<and> registry_view c' \<subseteq>\<^sub>m registry_view c \<and> (\<forall>a. r = Some a \<longrightarrow> registry_view c k = Some a)"
proof -
  have w: "lru_inv c" and g': "lru_Get 0 k c = (r, c')" using assms by (simp_all add: registry_ok_def registry_lru_def)
  note G = lru_Get_facts [OF w g']
  have "lru_size c' = lru_size c"
    using g' by (auto simp: lru_Get_def removeElement_def split: option.splits if_splits)
  moreover have "registry_view c' \<subseteq>\<^sub>m registry_view c" using G(3) by (auto simp: map_le_def registry_view_def split: if_splits)
  ultimately show ?thesis using assms(1) G(1,2) by (auto simp: registry_ok_def registry_view_def split: option.splits if_splits)
qed

lemma registry_add:
  assumes "registry_ok c"
  shows "registry_ok (xl_Add registry_lru k a c) \<and> registry_view (xl_Add registry_lru k a c) \<subseteq>\<^sub>m (registry_view c)(k \<mapsto> a)"
proof -
  let ?c = "AddWithExpiresInSecs 0 k a 0 c"
  have e: "xl_Add registry_lru k a c = ?c" by (simp add: registry_lru_def lru_Add_def)
  have w: "lru_inv c" using assms by (simp add: registry_ok_def)
  note A = lru_Add_facts [OF w, of 0 k a 0]
  have "(\<lambda>b. map_option fst (((content c)(k \<mapsto> (a, expires_at 0 0))) b)) = (registry_view c)(k \<mapsto> a)"
    by (auto simp: registry_view_def)
  with view_le [OF A(4)] A(1,2) assms show ?thesis by (simp add: e registry_ok_def)
qed

lemma registry_remove:
  assumes "registry_ok c"
  shows "registry_ok (snd (xl_Remove registry_lru k c)) \<and> registry_view (snd (xl_Remove registry_lru k c)) \<subseteq>\<^sub>m (registry_view c)(k := None)"
proof -
  have w: "lru_inv c" using assms by (simp add: registry_ok_def)
  have "lru_size (lru_Remove k c) = lru_size c" by (simp add: lru_Remove_def removeElement_def split: option.splits)
  then show ?thesis using lru_Remove_facts [OF w, of k] assms by (auto simp: registry_lru_def registry_ok_def registry_view_def map_le_def)
qed

interpretation registry: exp_store registry_lru registry_ok registry_view
  by unfold_locales (fact registry_get registry_add registry_remove)+

section \<open>Lemmas\<close>

text \<open>Each function of the arguments gives its actions to the function of the same place and name.\<close>

lemma setup_from_branches:
  assumes "setup_from sprint i vs fs = Some (Inr fs')"
  shows "length fs' = length fs \<and> map bfn_Name fs' = map bfn_Name fs \<and>
    (\<forall>j < length vs. \<exists>obj. vs ! j = GMap obj \<and> bot_parseOutputs sprint ''actions'' obj = Inr (bfn_Actions (fs' ! (i + j)))) \<and>
    (\<forall>j < i. fs' ! j = fs ! j)"
  using assms
proof (induction vs arbitrary: i fs)
  case (Cons v vs)
  then obtain obj acts where v: "v = GMap obj" and i: "i < length fs" and acts: "bot_parseOutputs sprint ''actions'' obj = Inr acts"
    and rest: "setup_from sprint (Suc i) vs (fs[i := (fs ! i)\<lparr>bfn_Actions := acts\<rparr>]) = Some (Inr fs')"
    by (auto split: option.splits if_splits sum.splits)
  note IH = Cons.IH [OF rest]
  have "fs' ! i = (fs ! i)\<lparr>bfn_Actions := acts\<rparr>" using IH i by simp
  moreover have "map bfn_Name fs' = map bfn_Name fs" using IH i by (simp add: map_update)
  moreover have "\<exists>o'. (v # vs) ! j = GMap o' \<and> bot_parseOutputs sprint ''actions'' o' = Inr (bfn_Actions (fs' ! (i + j)))"
    if "j < length (v # vs)" for j
    using that IH v acts calculation(1) by (cases j) auto
  ultimately show ?case using IH by auto
qed simp

text \<open>The text of the instructions.\<close>

lemma join_stuck: "i > 0 \<Longrightarrow> l > length acc \<Longrightarrow> join_instructions i l acc vs = None \<longleftrightarrow> filter (\<lambda>v. v \<noteq> []) vs \<noteq> []"
  by (induction vs arbitrary: i) auto

lemma join_second:
  assumes "i > 0" "acc \<noteq> []"
  shows "join_instructions i (length acc) acc vs = None \<longleftrightarrow> 2 \<le> length (filter (\<lambda>v. v \<noteq> []) vs)"
  using assms(1)
proof (induction vs arbitrary: i)
  case (Cons v vs)
  show ?case
  proof (cases "v = []")
    case False
    let ?acc = "(if acc ! (length acc - 1) \<noteq> CHR ''.'' then acc @ ''. '' else acc) @ v"
    have "join_instructions i (length acc) acc (v # vs) = join_instructions (Suc i) (length acc + length ?acc) ?acc vs"
      using False Cons.prems assms(2) by (cases acc) (simp_all add: Let_def)
    moreover have "length acc + length ?acc > length ?acc" using assms(2) by simp
    ultimately show ?thesis using join_stuck [of "Suc i" ?acc "length acc + length ?acc" vs] False
      by (cases "filter (\<lambda>v. v \<noteq> []) vs") auto
  qed (use Cons in simp)
qed simp

lemma join_first: "join_instructions i 0 [] vs = None \<longleftrightarrow> 3 \<le> length (filter (\<lambda>v. v \<noteq> []) vs)"
proof (induction vs arbitrary: i)
  case (Cons v vs)
  show ?case
  proof (cases "v = []")
    case False
    then have "join_instructions i 0 [] (v # vs) = join_instructions (Suc i) (length v) v vs" by simp
    with False join_second [of "Suc i" v vs] show ?thesis by auto
  qed (use Cons in simp)
qed simp

text \<open>A base64 text that \<open>embed\<close> has stored comes back as it was; but a plain word of four letters is taken for base64 too.\<close>

lemma b64_valid_encode: "\<forall>x\<in>set bs. x < 256 \<Longrightarrow> b64_valid (b64_encode bs)"
proof (induction bs rule: b64_encode.induct)
  case 1
  then show ?case by (simp add: b64_valid.simps)
next
  case (2 a)
  then show ?case using six_bits [of a 0 0] b64_pad_char
    by (subst b64_valid.simps) (simp add: b64_char_facts b64_padding_def Let_def b64_valid.simps [of "[]"])
next
  case (3 a b)
  then show ?case using six_bits [of a b 0] b64_pad_char
    by (subst b64_valid.simps) (simp add: b64_char_facts b64_padding_def Let_def b64_valid.simps [of "[]"])
next
  case (4 a b c r)
  have q: "b64_quantum [i, j, k, l] s = (s, b64_bytes [i, j, k, l], False)" for i j k l s by (cases s) simp_all
  show ?case using 4 six_bits [of a b c] by (subst b64_valid.simps) (simp add: b64_char_facts q)
qed

lemma embedded_content: "result_content (base64Fn ''encoder'' s) = s"
  using b64_valid_encode [of "map of_char s"] b64_round_trip [of "map of_char s"]
  by (simp add: result_content_def base64Fn_def comp_def)

lemma plain_word_decoded: "result_content ''test'' \<noteq> ''test''"
  by code_simp

text \<open>A function whose branch gives one result, as long as its context is not over.\<close>

definition exec_ok :: "'r \<Rightarrow> 'r exec_state \<Rightarrow> bool" where
  "exec_ok r s = (\<not> exs_panic s \<and>
     ((exs_wait s = ExecWaiting \<and> \<not> exs_closed s \<and> (exs_senders s = [r] \<and> exs_buffer s = None \<or> exs_senders s = [] \<and> exs_buffer s = Some r)) \<or>
      (exs_wait s = ExecGot r \<and> exs_senders s = [] \<and> exs_buffer s = None)))"

lemma exec_step_ok: "exec_step s t \<Longrightarrow> \<not> exs_done t \<Longrightarrow> (\<not> exs_done s \<Longrightarrow> exec_ok r s) \<Longrightarrow> exec_ok r t"
  by (induction rule: exec_step.induct) (auto simp: exec_ok_def Cons_eq_append_conv append_eq_Cons_conv)

lemma exec_reach_ok: "exec_reach s0 s \<Longrightarrow> s0 = exec_start [r] \<Longrightarrow> \<not> exs_done s \<Longrightarrow> exec_ok r s"
proof (induction rule: exec_reach.induct)
  case (exec_more s0 t u)
  then show ?case using exec_step_ok [of t u r] by blast
qed (simp add: exec_ok_def exec_start_def)

lemma exec_late: "\<exists>t. exec_reach (exec_start [r]) t \<and> exs_panic t"
proof -
  let ?s = "exec_start [r]"
  have "exec_reach ?s (?s\<lparr>exs_done := True\<rparr>)" by (rule exec_more [OF exec_here]) (rule context_ends, simp add: exec_start_def)
  from exec_more [OF this caller_gives_up] have "exec_reach ?s (?s\<lparr>exs_done := True, exs_wait := ExecCancelled\<rparr>)" by (simp add: exec_start_def)
  from exec_more [OF this caller_closes] have "exec_reach ?s (?s\<lparr>exs_done := True, exs_wait := ExecCancelled, exs_closed := True\<rparr>)" by (simp add: exec_start_def)
  from exec_more [OF this sender_panics] show ?thesis by (fastforce simp: exec_start_def)
qed

section \<open>The end of a session\<close>

text \<open>Whatever other sessions do with the caches meanwhile, no dialog is bound to the connection and no callback to the dialog.\<close>

lemma bot_session_released:
  assumes xd: "exp_store (btc_xd cn) okd vd" and xf: "exp_store (btc_xf cn) okf vf"
    and call: "\<And>x rate d vs r c out r' c'. btc_call cn x rate d vs (r, c) = (out, r', c') \<Longrightarrow> okd (cbk_dialogByCall r) \<Longrightarrow> okf (cbk_cb r) \<Longrightarrow> okd (cbk_dialogByCall r') \<and> okf (cbk_cb r')"
    and chat: "\<And>d r c out r' c'. btc_chat cn d (r, c) = (out, r', c') \<Longrightarrow> okd (cbk_dialogByCall r) \<Longrightarrow> okf (cbk_cb r) \<Longrightarrow> okd (cbk_dialogByCall r') \<and> okf (cbk_cb r')"
    and ok: "okd (cbk_dialogByCall r0)" "okf (cbk_cb r0)"
    and run: "bot cn connection dialogId p rate (r0, c0) = (out, r1, c1)"
  shows "fst (DialogByCall (btc_xd cn) (btc_id cn) r1) = None"
    and "bot_functions p \<noteq> [] \<or> bot_timeouts p \<noteq> [] \<Longrightarrow> fst (Callback (btc_xf cn) dialogId r1) = Inl ''callback not found''"
proof -
  define cb where "cb = (bot_functions p \<noteq> [] \<or> bot_timeouts p \<noteq> [])"
  define ra where "ra = BindDialog (btc_xd cn) (btc_id cn) dialogId r0"
  define rb where "rb = (if cb then Register (btc_xf cn) dialogId p ra else ra)"
  obtain out' rc c' where sess: "(case btc_type cn of
              TypeCall \<Rightarrow> btc_call cn connection rate dialogId (bop_Variables p) (rb, c0)
            | TypeChat \<Rightarrow> btc_chat cn dialogId (rb, c0)
            | _ \<Rightarrow> ((Some CallResponseError, None), rb, c0)) = (out', rc, c')" by (rule prod_cases3)
  have "bot cn connection dialogId p rate (r0, c0) =
      (out', UnbindDialog (btc_xd cn) (btc_id cn) (if cb then snd (Unregister (btc_xf cn) dialogId rc) else rc), c')"
    unfolding bot_def Let_def fst_conv snd_conv cb_def [symmetric] ra_def [symmetric] rb_def [symmetric] sess by simp
  then have r1: "r1 = UnbindDialog (btc_xd cn) (btc_id cn) (if cb then snd (Unregister (btc_xf cn) dialogId rc) else rc)"
    using run by simp
  have "okd (cbk_dialogByCall rb) \<and> okf (cbk_cb rb)"
    using exp_store.add_law [OF xd ok(1)] exp_store.add_law [OF xf ok(2)] ok by (simp add: rb_def ra_def BindDialog_def Register_def)
  then have okc: "okd (cbk_dialogByCall rc) \<and> okf (cbk_cb rc)"
    using sess call [of connection rate dialogId "bop_Variables p" rb c0 out' rc c'] chat [of dialogId rb c0 out' rc c'] by (simp split: conn_type.splits)
  have un: "snd (Unregister (btc_xf cn) dialogId rc) = rc\<lparr>cbk_cb := snd (xl_Remove (btc_xf cn) dialogId (cbk_cb rc))\<rparr>"
    by (simp add: Unregister_def split: prod.split)
  have "cbk_dialogByCall r1 = snd (xl_Remove (btc_xd cn) (btc_id cn) (cbk_dialogByCall rc))" by (simp add: r1 un UnbindDialog_def)
  with exp_store.removed_is_gone [OF xd, of "cbk_dialogByCall rc" "btc_id cn"] okc
  show "fst (DialogByCall (btc_xd cn) (btc_id cn) r1) = None" by (simp add: DialogByCall_def case_prod_beta)
  assume "bot_functions p \<noteq> [] \<or> bot_timeouts p \<noteq> []"
  then have "cbk_cb r1 = snd (xl_Remove (btc_xf cn) dialogId (cbk_cb rc))" by (simp add: r1 un UnbindDialog_def cb_def)
  with exp_store.removed_is_gone [OF xf, of "cbk_cb rc" dialogId] okc
  show "fst (Callback (btc_xf cn) dialogId r1) = Inl ''callback not found''" by (simp add: Callback_def case_prod_beta)
qed

section \<open>Properties\<close>

definition example_bot :: bot_params where
  "example_bot = \<lparr>bop_ProfileId = 1, bop_Timeout = None, bop_Functions = None, bop_TranscribeVar = [], bop_Variables = [], bop_StartMessage = [], bop_Model = []\<rparr>"

definition example_openai :: openai_args where
  "example_openai = \<lparr>oaa_bot = example_bot, oaa_Instructions = [''Be kind'', [], ''Be brief.'', ''Answer''], oaa_Voice = [], oaa_Language = [],
     oaa_InputAudioTranscription = GNil, oaa_TurnDetection = None, oaa_ToolChoice = [], oaa_Temperature = 0, oaa_MaxResponseOutputTokens = 0, oaa_InputAudioNoiseReduction = []\<rparr>"

definition example_bot_conn :: "((string, string) lru, (string, bot_params) lru, unit) bot_conn" where
  "example_bot_conn = \<lparr>btc_xd = registry_lru, btc_xf = registry_lru, btc_id = ''c1'', btc_domainId = 1, btc_type = TypeCall,
     btc_call = (\<lambda>_ _ _ _ st. (ok2, st)), btc_chat = (\<lambda>_ st. (ok2, st))\<rparr>"

definition example_bot_services :: bot_services where
  "example_bot_services = \<lparr>bsv_ConnectionString = ''127.0.0.1:8080'', bsv_json = (\<lambda>_. ''[]''), bsv_sprint = (\<lambda>_. ''map[]'')\<rparr>"

text \<open>
  C35: On a call or a chat, \<open>openai\<close> for a bot without functions and timeouts panics exactly when three or more of its instructions are not
  empty: the variable for the length of the text grows by the whole text each time, so the third instruction reads beyond its end.
\<close>

theorem openai_three_instructions:
  assumes "decode (GMap m) = Inr a" and "btc_type cn \<in> {TypeCall, TypeChat}"
    and "map_get m ''functions'' = GNil" and "map_get m ''timeout'' = GNil"
  shows "openai bs service decode cn (GMap m) st = None \<longleftrightarrow> 3 \<le> length (filter (\<lambda>v. v \<noteq> []) (oaa_Instructions a))"
proof -
  have "\<exists>textBot. botOnlyText (btc_type cn) = Inr textBot" using assms(2) by (auto simp: botOnlyText_def)
  then obtain textBot where "botOnlyText (btc_type cn) = Inr textBot" ..
  then show ?thesis using assms(1,3,4) join_first [of 0 "oaa_Instructions a"]
    by (cases "join_instructions 0 0 [] (oaa_Instructions a)") (simp_all add: openai_def with_branches_def setupFunctions_def bot_events_def)
qed

theorem openai_three_instructions_witness:
  "openai example_bot_services (\<lambda>_. Inl ''refused'') (\<lambda>_. Inr example_openai) example_bot_conn (GMap [])
     (\<lparr>cbk_cb = NewLruWithParams 2000 [] 0 [], cbk_dialogByCall = NewLruWithParams 2000 [] 0 []\<rparr>, ()) = None"
  using openai_three_instructions [of "\<lambda>_. Inr example_openai" "[]" example_openai example_bot_conn example_bot_services "\<lambda>_. Inl ''refused''"]
  by (simp add: example_openai_def example_bot_conn_def map_get_def)

text \<open>
  C36: A function of a bot whose branch gives one result: as long as the context of the request is not over, nothing panics and the caller
  gets no other result; but when the context ends before the goroutine has sent the result, the caller closes the channel and the
  goroutine can panic on it.
\<close>

theorem bot_result_race:
  assumes "run (Fork name actions scope) = [r]" and "exec_reach (executeAndGetResponse run scope name actions) s"
  shows "(\<not> exs_done s \<longrightarrow> \<not> exs_panic s \<and> exs_wait s \<in> {ExecWaiting, ExecGot r}) \<and>
    (\<exists>t. exec_reach (executeAndGetResponse run scope name actions) t \<and> exs_panic t)"
proof -
  have e: "executeAndGetResponse run scope name actions = exec_start [r]" using assms(1) by (simp add: executeAndGetResponse_def)
  then have "\<not> exs_panic s \<and> exs_wait s \<in> {ExecWaiting, ExecGot r}" if "\<not> exs_done s"
    using exec_reach_ok [OF assms(2) e that] by (auto simp: exec_ok_def)
  with exec_late [of r] e show ?thesis by auto
qed

theorem bot_result_race_witness:
  "\<exists>t. exec_reach (executeAndGetResponse (\<lambda>_. [True]) empty_flow ''function-f'' []) t \<and> exs_panic t"
  using bot_result_race [of "\<lambda>_. [True]" "''function-f''" "[]" empty_flow True, OF refl exec_here] by blast

end
