(* ===== verification/Net_Conn.thy ===== *)
theory Net_Conn
  imports Flow_Scripts Flow_Basic Flow_Route
begin

text \<open>
  The other connections: schemas started by gRPC requests (\<open>providers/grpc/connection.go\<close>, \<open>flow.go\<close>, \<open>routes/grpc\<close>), by messages of
  the queue (\<open>providers/channel\<close>, \<open>routes/channel\<close>) and by web hooks (\<open>providers/http\<close>, \<open>routes/webhook\<close>, \<open>model/web_hook.go\<close>).
  \<open>gj\<close> is the query of a JSON text by a path, \<open>ff\<close> prints a float.
\<close>

section \<open>Variables\<close>

text \<open>The three connections keep their variables alike.\<close>

definition plain_Get :: "(string \<Rightarrow> string \<Rightarrow> string) \<Rightarrow> (string \<rightharpoonup> string) \<Rightarrow> string \<Rightarrow> string \<times> bool" where
  "plain_Get gj vars key =
     (let direct = (case vars key of Some v \<Rightarrow> (v, True) | None \<Rightarrow> ([], False)) in
      case take_until (CHR ''.'') key of
        Some (nameRoot, path) \<Rightarrow>
          (if nameRoot = [] then direct else case vars nameRoot of Some v \<Rightarrow> (gj v path, True) | None \<Rightarrow> direct)
      | None \<Rightarrow> direct)"

definition plain_Set :: "(rat \<Rightarrow> string) \<Rightarrow> (string \<times> goval) list \<Rightarrow> (string \<rightharpoonup> string) \<Rightarrow> string \<rightharpoonup> string" where
  "plain_Set ff vars m = fold (\<lambda>(k, v) m. m(k \<mapsto> sprint_v ff v)) vars m"

section \<open>Connections of gRPC requests\<close>

record grpc_conn =
  gcn_id :: string
  gcn_domainId :: int
  gcn_schemaId :: int
  gcn_variables :: "string \<rightharpoonup> string"
  gcn_exportVariables :: "string list"
  gcn_scope :: "string \<times> string"
  gcn_timeoutSec :: int
  gcn_cancelled :: bool

definition timeoutFlowSchema :: int where "timeoutFlowSchema = 30"

definition grpc_newConnection :: "string \<Rightarrow> int \<Rightarrow> int \<Rightarrow> (string \<rightharpoonup> string) option \<Rightarrow> int \<Rightarrow> grpc_conn" where
  "grpc_newConnection i domainId flowId vars timeout =
     \<lparr>gcn_id = i, gcn_domainId = domainId, gcn_schemaId = flowId, gcn_variables = (case vars of Some m \<Rightarrow> m | None \<Rightarrow> Map.empty), gcn_exportVariables = [],
      gcn_scope = ([], []), gcn_timeoutSec = (if timeout = 0 then timeoutFlowSchema else timeout), gcn_cancelled = False\<rparr>"

definition grpc_Set :: "(rat \<Rightarrow> string) \<Rightarrow> (string \<times> goval) list \<Rightarrow> grpc_conn \<Rightarrow> grpc_conn" where
  "grpc_Set ff vars c = c\<lparr>gcn_variables := plain_Set ff vars (gcn_variables c)\<rparr>"

definition grpc_Get :: "(string \<Rightarrow> string \<Rightarrow> string) \<Rightarrow> grpc_conn \<Rightarrow> string \<Rightarrow> string \<times> bool" where
  "grpc_Get gj c = plain_Get gj (gcn_variables c)"

definition grpc_Export :: "string list \<Rightarrow> grpc_conn \<Rightarrow> grpc_conn" where
  "grpc_Export vars c = c\<lparr>gcn_exportVariables := gcn_exportVariables c @ filter (\<lambda>v. v \<noteq> []) vars\<rparr>"

definition grpc_DumpExportVariables :: "(string \<Rightarrow> string \<Rightarrow> string) \<Rightarrow> grpc_conn \<Rightarrow> (string \<rightharpoonup> string) option" where
  "grpc_DumpExportVariables gj c =
     (if gcn_exportVariables c = [] then None
      else Some (fold (\<lambda>v m. m(v \<mapsto> fst (grpc_Get gj c v))) (gcn_exportVariables c) Map.empty))"

definition grpc_Close :: "grpc_conn \<Rightarrow> grpc_conn" where
  "grpc_Close c = c\<lparr>gcn_cancelled := True\<rparr>"

section \<open>Attempts (cc_attempt.go)\<close>

definition uint32 :: "int \<Rightarrow> int" where
  "uint32 i = uint (word_of_int i :: 32 word)"

record cancel_args =
  cna_Description :: string
  cna_WaitBetweenRetries :: int
  cna_Stop :: bool
  cna_Export :: "string list"

record abandoned_args =
  aba_Status :: string
  aba_MaxAttempts :: int
  aba_WaitBetweenRetries :: int
  aba_Export :: "string list"
  aba_ExcludeCurrentCommunication :: bool
  aba_Redial :: bool
  aba_Display :: bool
  aba_Description :: string
  aba_AgentId :: "int option"

record retry_args =
  rta_NextResource :: bool
  rta_Sleep :: int
  rta_Resource :: "search_entity option"
  rta_Export :: "string list"

text \<open>The results: the first two answer a distribution, the others an attempt.\<close>

datatype attempt_outcome =
    ResultCancel string int bool
  | ResultConfirm string string
  | ResultSuccess
  | ResultAbandoned string int int bool bool int bool string
  | ResultRetry bool int int

type_synonym attempt_msg = "attempt_outcome \<times> (string \<rightharpoonup> string) option"

fun is_distribute :: "attempt_outcome \<Rightarrow> bool" where
  "is_distribute (ResultCancel _ _ _) = True"
| "is_distribute (ResultConfirm _ _) = True"
| "is_distribute _ = False"

definition exportVars :: "(string \<Rightarrow> string \<times> bool) \<Rightarrow> string list \<Rightarrow> (string \<rightharpoonup> string) option" where
  "exportVars get vars =
     (if vars = [] then None
      else Some (fold (\<lambda>v m. case get v of (x, ok) \<Rightarrow> if ok then m(v \<mapsto> x) else m) vars Map.empty))"

text \<open>
  Each application gives its message to \<open>Result\<close>, which waits for a receiver, and then cancels the rest of the schema.
\<close>

definition give_result ::
  "(string \<Rightarrow> string \<Rightarrow> string) \<Rightarrow> (goval \<Rightarrow> 'a result) \<Rightarrow> ('a \<Rightarrow> attempt_outcome) \<Rightarrow> ('a \<Rightarrow> string list) \<Rightarrow> grpc_conn \<Rightarrow> goval \<Rightarrow> flow \<Rightarrow>
   outcome2 \<times> flow \<times> attempt_msg option" where
  "give_result gj decode result export c args scope =
     (case decode args of
        Inl er \<Rightarrow> ((None, Some er), scope, None)
      | Inr a \<Rightarrow> (ok2, SetCancel scope, Some (result a, exportVars (grpc_Get gj c) (export a))))"

definition grpc_cancel :: "(string \<Rightarrow> string \<Rightarrow> string) \<Rightarrow> (goval \<Rightarrow> cancel_args result) \<Rightarrow> grpc_conn \<Rightarrow> goval \<Rightarrow> flow \<Rightarrow> outcome2 \<times> flow \<times> attempt_msg option" where
  "grpc_cancel gj decode =
     give_result gj decode (\<lambda>a. ResultCancel (cna_Description a) (uint32 (cna_WaitBetweenRetries a)) (cna_Stop a)) cna_Export"

definition grpc_confirm :: "(string \<Rightarrow> string \<Rightarrow> string) \<Rightarrow> (goval \<Rightarrow> (string \<times> string \<times> string list) result) \<Rightarrow> grpc_conn \<Rightarrow> goval \<Rightarrow> flow \<Rightarrow> outcome2 \<times> flow \<times> attempt_msg option" where
  "grpc_confirm gj decode = give_result gj decode (\<lambda>(display, destination, _). ResultConfirm destination display) (\<lambda>(_, _, export). export)"

definition grpc_success :: "(string \<Rightarrow> string \<Rightarrow> string) \<Rightarrow> (goval \<Rightarrow> string list result) \<Rightarrow> grpc_conn \<Rightarrow> goval \<Rightarrow> flow \<Rightarrow> outcome2 \<times> flow \<times> attempt_msg option" where
  "grpc_success gj decode = give_result gj decode (\<lambda>_. ResultSuccess) (\<lambda>export. export)"

text \<open>The default status of the decoder is \<open>abandoned\<close>.\<close>

definition grpc_abandoned :: "(string \<Rightarrow> string \<Rightarrow> string) \<Rightarrow> (string \<Rightarrow> goval \<Rightarrow> abandoned_args result) \<Rightarrow> grpc_conn \<Rightarrow> goval \<Rightarrow> flow \<Rightarrow> outcome2 \<times> flow \<times> attempt_msg option" where
  "grpc_abandoned gj decode =
     give_result gj (decode ''abandoned'') (\<lambda>a. ResultAbandoned (aba_Status a) (aba_MaxAttempts a) (aba_WaitBetweenRetries a) (aba_ExcludeCurrentCommunication a)
       (aba_Redial a) (case aba_AgentId a of Some i \<Rightarrow> i | None \<Rightarrow> 0) (aba_Display a) (aba_Description a)) aba_Export"

definition grpc_retry :: "(string \<Rightarrow> string \<Rightarrow> string) \<Rightarrow> (goval \<Rightarrow> retry_args result) \<Rightarrow> grpc_conn \<Rightarrow> goval \<Rightarrow> flow \<Rightarrow> outcome2 \<times> flow \<times> attempt_msg option" where
  "grpc_retry gj decode =
     give_result gj decode (\<lambda>a. ResultRetry (rta_NextResource a) (rta_Sleep a)
       (case Option.bind (rta_Resource a) sen_Id of Some i \<Rightarrow> int32 i | None \<Rightarrow> 0)) rta_Export"

definition grpc_export :: "(goval \<Rightarrow> string list result) \<Rightarrow> goval \<Rightarrow> grpc_conn \<Rightarrow> outcome2 \<times> grpc_conn" where
  "grpc_export decode args = svc_args decode args (\<lambda>vars c. (ok2, grpc_Export vars c))"

section \<open>Requests (flow.go)\<close>

datatype rpc_request = DistributeAttempt | ResultAttempt | StartFlow | StartSyncFlow

text \<open>Whether a request waits on the channel of results.\<close>

definition receives :: "rpc_request \<Rightarrow> bool" where
  "receives k = (k = DistributeAttempt \<or> k = ResultAttempt)"

datatype flow_answer = AnswerError string | AnswerResult attempt_msg | AnswerEmpty

text \<open>A message of the other kind becomes an empty answer.\<close>

definition answer_of :: "rpc_request \<Rightarrow> attempt_msg \<Rightarrow> flow_answer" where
  "answer_of k m = (if is_distribute (fst m) = (k = DistributeAttempt) then AnswerResult m else AnswerEmpty)"

definition start_connection :: "rpc_request \<Rightarrow> string \<Rightarrow> int \<Rightarrow> int \<Rightarrow> (string \<rightharpoonup> string) option \<Rightarrow> int \<Rightarrow> (string \<times> string) option \<Rightarrow> grpc_conn" where
  "start_connection k i domainId schemaId vars timeoutSec scope =
     (let c = grpc_newConnection i domainId schemaId vars (if k = StartSyncFlow then timeoutSec else 0)
      in case scope of Some s \<Rightarrow> if k = ResultAttempt \<or> k = StartFlow then c\<lparr>gcn_scope := s\<rparr> else c | None \<Rightarrow> c)"

text \<open>
  A request beside its schema: applications that have called \<open>Result\<close> and wait, the request while it waits, its context and its answer.
\<close>

record request_state =
  rqs_kind :: rpc_request
  rqs_senders :: "attempt_msg list"
  rqs_waits :: bool
  rqs_done :: bool
  rqs_answer :: "flow_answer option"

definition request_start :: "rpc_request \<Rightarrow> request_state" where
  "request_start k = \<lparr>rqs_kind = k, rqs_senders = [], rqs_waits = receives k, rqs_done = False, rqs_answer = None\<rparr>"

inductive request_step :: "request_state \<Rightarrow> request_state \<Rightarrow> bool" where
  result_called: "request_step s (s\<lparr>rqs_senders := rqs_senders s @ [m]\<rparr>)"
| result_taken: "\<lbrakk>rqs_waits s; rqs_senders s = ms @ m # ms'\<rbrakk> \<Longrightarrow>
     request_step s (s\<lparr>rqs_senders := ms @ ms', rqs_waits := False, rqs_answer := Some (answer_of (rqs_kind s) m)\<rparr>)"
| request_ends: "\<not> rqs_done s \<Longrightarrow> request_step s (s\<lparr>rqs_done := True\<rparr>)"
| request_fails: "\<lbrakk>rqs_waits s; rqs_done s; e \<in> {''ctx done'', ''error: server close connection''}\<rbrakk> \<Longrightarrow>
     request_step s (s\<lparr>rqs_waits := False, rqs_answer := Some (AnswerError e)\<rparr>)"

inductive request_reach :: "request_state \<Rightarrow> request_state \<Rightarrow> bool" where
  request_here: "request_reach s s"
| request_more: "request_reach s t \<Longrightarrow> request_step t u \<Longrightarrow> request_reach s u"

section \<open>Routers\<close>

definition net_Request :: "(string \<Rightarrow> (flow \<Rightarrow> app_args \<Rightarrow> 'w \<Rightarrow> 'w outcome) option) \<Rightarrow> flow \<Rightarrow> reqptr \<Rightarrow> 'w \<Rightarrow> 'w outcome" where
  "net_Request apps = Router_Request (''GRPC.Request'', ''grpc.request.not_found'') apps"

definition net_AddApplications :: "(string \<rightharpoonup> 'h) \<Rightarrow> (string \<rightharpoonup> 'h) \<Rightarrow> string \<rightharpoonup> 'h" where
  "net_AddApplications added apps = apps ++ added"

text \<open>What is stored for a call after the schema: its id and the exported variables.\<close>

definition grpc_disconnected :: "(string \<Rightarrow> string \<Rightarrow> string) \<Rightarrow> grpc_conn \<Rightarrow> (string \<times> (string \<rightharpoonup> string) option) option" where
  "grpc_disconnected gj c =
     (if fst (gcn_scope c) \<noteq> [] \<and> snd (gcn_scope c) = ''call'' then Some (fst (gcn_scope c), grpc_DumpExportVariables gj c) else None)"

definition grpc_handle ::
  "(string \<Rightarrow> string \<Rightarrow> string) \<Rightarrow> grpc_conn env \<Rightarrow> (flow \<Rightarrow> reqptr \<Rightarrow> grpc_conn \<Rightarrow> grpc_conn outcome) \<Rightarrow> (string \<Rightarrow> string option) \<Rightarrow>
   (int \<Rightarrow> int \<Rightarrow> (int \<times> string \<times> applications) result) \<Rightarrow> grpc_conn \<Rightarrow> (grpc_conn \<times> (string \<times> (string \<rightharpoonup> string) option) option) option" where
  "grpc_handle gj e rq loc schemaById c =
     (case schemaById (gcn_domainId c) (gcn_schemaId c) of
        Inl _ \<Rightarrow> Some (grpc_Close c, None)
      | Inr (i, name, apps) \<Rightarrow>
          map_option (\<lambda>(_, c1). (grpc_Close c1, grpc_disconnected gj (grpc_Close c1)))
            (Route e rq (New loc \<lparr>cf_SchemaId = i, cf_Timezone = [], cf_Name = name, cf_Schema = apps, cf_ConnId = Some (gcn_id c)\<rparr>) c))"

section \<open>Connections of the message queue\<close>

record chan_conn =
  chn_id :: string
  chn_domainId :: int
  chn_schemaId :: int
  chn_variables :: "string \<rightharpoonup> string"

record channel_exec =
  che_SchemaId :: int
  che_DomainId :: int
  che_Variables :: "string \<rightharpoonup> string"

text \<open>A raw JSON value is kept as its text.\<close>

definition chan_newConnection :: "string \<Rightarrow> channel_exec \<Rightarrow> chan_conn" where
  "chan_newConnection i x = \<lparr>chn_id = i, chn_domainId = che_DomainId x, chn_schemaId = che_SchemaId x, chn_variables = che_Variables x\<rparr>"

definition chan_Set :: "(rat \<Rightarrow> string) \<Rightarrow> (string \<times> goval) list \<Rightarrow> chan_conn \<Rightarrow> chan_conn" where
  "chan_Set ff vars c = c\<lparr>chn_variables := plain_Set ff vars (chn_variables c)\<rparr>"

definition chan_Get :: "(string \<Rightarrow> string \<Rightarrow> string) \<Rightarrow> chan_conn \<Rightarrow> string \<Rightarrow> string \<times> bool" where
  "chan_Get gj c = plain_Get gj (chn_variables c)"

text \<open>One round of \<open>listen\<close>: the end of the server ends it; \<open>None\<close> from the receiver is a closed channel, which is read again.\<close>

datatype chan_input = ChanStop | ChanRecv "channel_exec option"

definition chan_listen_round :: "string \<Rightarrow> chan_input \<Rightarrow> chan_conn list \<Rightarrow> bool \<times> chan_conn list" where
  "chan_listen_round i inp out =
     (case inp of
        ChanStop \<Rightarrow> (False, out)
      | ChanRecv None \<Rightarrow> (True, out)
      | ChanRecv (Some x) \<Rightarrow> (True, if che_DomainId x = 0 \<or> che_SchemaId x = 0 then out else out @ [chan_newConnection i x]))"

definition chan_handle ::
  "chan_conn env \<Rightarrow> (flow \<Rightarrow> reqptr \<Rightarrow> chan_conn \<Rightarrow> chan_conn outcome) \<Rightarrow> (string \<Rightarrow> string option) \<Rightarrow> (int \<Rightarrow> int \<Rightarrow> (string \<times> applications) result) \<Rightarrow> chan_conn \<Rightarrow> chan_conn option" where
  "chan_handle e rq loc schemaById c =
     (case schemaById (chn_domainId c) (chn_schemaId c) of
        Inl _ \<Rightarrow> Some c
      | Inr (name, apps) \<Rightarrow>
          map_option snd (Route e rq (New loc \<lparr>cf_SchemaId = 0, cf_Timezone = [], cf_Name = name, cf_Schema = apps, cf_ConnId = Some (chn_id c)\<rparr>) c))"

end
