(* ===== verification/Web_Hook.thy ===== *)
theory Web_Hook
  imports Net_Conn
begin

text \<open>
  Web hooks: the check of a request (\<open>model/web_hook.go\<close>), the connection it starts and its response (\<open>providers/http\<close>,
  \<open>routes/webhook\<close>).  \<open>lower\<close> is \<open>strings.ToLower\<close>; the response writer of \<open>net/http\<close> is modelled: the first write sends the header.
\<close>

section \<open>Hooks (web_hook.go)\<close>

record web_hook =
  wbh_Enabled :: bool
  wbh_SchemaId :: int
  wbh_AllowOrigins :: "string list"
  wbh_DomainId :: int
  wbh_Authorization :: "string option"

datatype originPattern = originAny | originWildcard string string | originString string

fun origin_match :: "originPattern \<Rightarrow> string \<Rightarrow> bool" where
  "origin_match originAny origin = (origin \<noteq> [])"
| "origin_match (originWildcard p s) origin =
     (length origin \<ge> length p + length s \<and> has_prefix origin p \<and> has_suffix origin s)"
| "origin_match (originString s) origin = (s = origin)"

fun InitOrigin :: "(string \<Rightarrow> string) \<Rightarrow> string list \<Rightarrow> originPattern list \<Rightarrow> originPattern list" where
  "InitOrigin lower [] acc = acc"
| "InitOrigin lower (o1 # os) acc =
     (let origin = lower o1 in
      if origin = ''*'' then [originAny]
      else case take_until (CHR ''*'') origin of
             Some (p, s) \<Rightarrow> InitOrigin lower os (acc @ [originWildcard p s])
           | None \<Rightarrow> InitOrigin lower os (if origin \<noteq> [] then acc @ [originString origin] else acc))"

definition AllowOrigin :: "(string \<Rightarrow> string) \<Rightarrow> originPattern list \<Rightarrow> string \<Rightarrow> bool" where
  "AllowOrigin lower allowed origin = (allowed = [] \<or> list_ex (\<lambda>p. origin_match p (lower origin)) allowed)"

record hook_request =
  hkr_Method :: string
  hkr_Path :: string
  hkr_Id :: string
  hkr_Header :: "string \<Rightarrow> string"
  hkr_RemoteAddr :: string
  hkr_Query :: "(string \<times> string list) list"
  hkr_Body :: string

definition Authentication :: "web_hook \<Rightarrow> hook_request \<Rightarrow> app_error option" where
  "Authentication h r =
     (case wbh_Authorization h of
        None \<Rightarrow> None
      | Some a \<Rightarrow> if hkr_Header r ''Authorization'' \<noteq> a
                  then Some (NewAppError ''WebHook'' ''hook.authentication.unauthorized'' [] ''Unauthorized'' 401) else None)"

definition ReadUserIP :: "hook_request \<Rightarrow> string" where
  "ReadUserIP r =
     (let real = hkr_Header r ''X-Real-Ip''; forwarded = hkr_Header r ''X-Forwarded-For''
      in if real \<noteq> [] then real else if forwarded \<noteq> [] then forwarded else hkr_RemoteAddr r)"

section \<open>Responses\<close>

record http_writer =
  hwr_header :: "string \<rightharpoonup> string"
  hwr_sent :: "(int \<times> (string \<rightharpoonup> string)) option"
  hwr_body :: string

definition new_writer :: http_writer where
  "new_writer = \<lparr>hwr_header = Map.empty, hwr_sent = None, hwr_body = []\<rparr>"

definition writer_set :: "string \<Rightarrow> string \<Rightarrow> http_writer \<Rightarrow> http_writer" where
  "writer_set k v w = w\<lparr>hwr_header := (hwr_header w)(k \<mapsto> v)\<rparr>"

definition WriteHeader :: "int \<Rightarrow> http_writer \<Rightarrow> http_writer" where
  "WriteHeader code w = (case hwr_sent w of None \<Rightarrow> w\<lparr>hwr_sent := Some (code, hwr_header w)\<rparr> | Some _ \<Rightarrow> w)"

definition writer_Write :: "string \<Rightarrow> http_writer \<Rightarrow> http_writer" where
  "writer_Write data w = (let w1 = WriteHeader 200 w in w1\<lparr>hwr_body := hwr_body w1 @ data\<rparr>)"

section \<open>The connection of a hook\<close>

record http_conn =
  htc_id :: string
  htc_domainId :: int
  htc_schemaId :: int
  htc_variables :: "string \<rightharpoonup> string"
  htc_responseCode :: int
  htc_response :: http_writer
  htc_cancelled :: bool

definition http_Set :: "(rat \<Rightarrow> string) \<Rightarrow> (string \<times> goval) list \<Rightarrow> http_conn \<Rightarrow> http_conn" where
  "http_Set ff vars c = c\<lparr>htc_variables := plain_Set ff vars (htc_variables c)\<rparr>"

definition http_Get :: "(string \<Rightarrow> string \<Rightarrow> string) \<Rightarrow> http_conn \<Rightarrow> string \<Rightarrow> string \<times> bool" where
  "http_Get gj c = plain_Get gj (htc_variables c)"

definition http_SetHeader :: "string \<Rightarrow> string \<Rightarrow> http_conn \<Rightarrow> http_conn" where
  "http_SetHeader k v c = c\<lparr>htc_response := writer_set k v (htc_response c)\<rparr>"

definition http_WriteBody :: "string \<Rightarrow> http_conn \<Rightarrow> http_conn" where
  "http_WriteBody data c = c\<lparr>htc_response := writer_Write data (htc_response c)\<rparr>"

definition http_WriteCode :: "int \<Rightarrow> http_conn \<Rightarrow> http_conn" where
  "http_WriteCode code c = c\<lparr>htc_responseCode := code\<rparr>"

definition http_Close :: "http_conn \<Rightarrow> http_conn" where
  "http_Close c = c\<lparr>htc_cancelled := True\<rparr>"

record http_response_args =
  hra_Headers :: "(string \<times> string) list"
  hra_ResponseCode :: "int option"
  hra_Body :: "string option"

definition httpResponse :: "(goval \<Rightarrow> http_response_args result) \<Rightarrow> goval \<Rightarrow> http_conn \<Rightarrow> outcome2 \<times> http_conn" where
  "httpResponse decode args = svc_args decode args (\<lambda>a c.
     let c1 = fold (\<lambda>(k, v). http_SetHeader k v) (hra_Headers a) c;
         c2 = (case hra_Body a of Some b \<Rightarrow> if b \<noteq> [] then http_WriteBody b c1 else c1 | None \<Rightarrow> c1);
         c3 = (case hra_ResponseCode a of Some code \<Rightarrow> http_WriteCode code c2 | None \<Rightarrow> c2)
     in (ok2, http_Close c3))"

text \<open>
  \<open>startHook\<close>: an error, or the connection that goes to the router.  \<open>unmarshal\<close> gives the map a body leaves behind, \<open>None\<close> for nil.
\<close>

definition startHook ::
  "(string \<Rightarrow> string) \<Rightarrow> (string \<Rightarrow> web_hook result) \<Rightarrow> (string \<Rightarrow> (string \<rightharpoonup> string) option) \<Rightarrow> string \<Rightarrow> hook_request \<Rightarrow> http_conn result" where
  "startHook lower GetHookById unmarshal i r =
     (case GetHookById (hkr_Id r) of
        Inl er \<Rightarrow> Inl er
      | Inr h \<Rightarrow>
          (case Authentication h r of
             Some er \<Rightarrow> Inl er
           | None \<Rightarrow>
               (if \<not> AllowOrigin lower (InitOrigin lower (wbh_AllowOrigins h) []) (ReadUserIP r) then Inl (NewAppError ''WebHook'' ''hook.valid.origin'' [] [] 405)
                else
                  let query = map_of (map (\<lambda>(k, vs). (k, hd vs)) (hkr_Query r))
                  in Inr \<lparr>htc_id = i, htc_domainId = wbh_DomainId h, htc_schemaId = wbh_SchemaId h,
                          htc_variables = (if hkr_Method r = ''GET'' then query else case unmarshal (hkr_Body r) of Some m \<Rightarrow> m | None \<Rightarrow> query),
                          htc_responseCode = 0, htc_response = new_writer, htc_cancelled = False\<rparr>)))"

text \<open>The end of a hook, when its connection is closed or the minute is over, and the answer of the handler.\<close>

definition endHook :: "http_conn \<Rightarrow> http_writer" where
  "endHook c = WriteHeader (if htc_responseCode c > 0 then htc_responseCode c else 200) (htc_response c)"

text \<open>\<open>run\<close> is the schema on the connection, \<open>json\<close> the text of an error.\<close>

definition ServeHTTP :: "(app_error \<Rightarrow> string) \<Rightarrow> (http_conn \<Rightarrow> http_conn) \<Rightarrow> http_conn result \<Rightarrow> hook_request \<Rightarrow> http_writer" where
  "ServeHTTP json run hook r =
     (case hook of
        Inl er \<Rightarrow> writer_Write (json (er\<lparr>err_where := hkr_Path r\<rparr>)) (WriteHeader (err_status er) (writer_set ''Content-Type'' ''application/json'' new_writer))
      | Inr c \<Rightarrow> endHook (run c))"

text \<open>The outer handler: cross-origin headers, and no further work for \<open>OPTIONS\<close>.\<close>

definition CorsWrapper_ServeHTTP :: "(http_writer \<Rightarrow> http_writer) \<Rightarrow> hook_request \<Rightarrow> http_writer" where
  "CorsWrapper_ServeHTTP serve r =
     (let origin = hkr_Header r ''Origin'';
          w = writer_set ''Access-Control-Allow-Origin'' (if origin = [] then ''*'' else origin) new_writer
      in if hkr_Method r = ''OPTIONS''
         then writer_set ''Access-Control-Allow-Headers'' (hkr_Header r ''Access-Control-Request-Headers'')
                (writer_set ''Access-Control-Allow-Methods'' ''GET, POST, PUT, DELETE'' w)
         else serve w)"

record http_params =
  hpa_Id :: string
  hpa_Page :: int
  hpa_PerPage :: int

definition ParamsFromRequest :: "string option \<Rightarrow> (string \<Rightarrow> string) \<Rightarrow> http_params" where
  "ParamsFromRequest prop query =
     \<lparr>hpa_Id = (case prop of Some i \<Rightarrow> i | None \<Rightarrow> []),
      hpa_Page = (case Atoi (query ''page'') of Some v \<Rightarrow> if v < 0 then 0 else v | None \<Rightarrow> 0),
      hpa_PerPage = (case Atoi (query ''per_page'') of Some v \<Rightarrow> if v < 0 then 20 else if v > 100 then 100 else v | None \<Rightarrow> 20)\<rparr>"

definition hook_handle ::
  "http_conn env \<Rightarrow> (flow \<Rightarrow> reqptr \<Rightarrow> http_conn \<Rightarrow> http_conn outcome) \<Rightarrow> (string \<Rightarrow> string option) \<Rightarrow> (int \<Rightarrow> int \<Rightarrow> (string \<times> applications) result) \<Rightarrow> http_conn \<Rightarrow> http_conn option" where
  "hook_handle e rq loc schemaById c =
     (case schemaById (htc_domainId c) (htc_schemaId c) of
        Inl _ \<Rightarrow> Some (http_Close c)
      | Inr (name, apps) \<Rightarrow>
          map_option (\<lambda>(_, c1). http_Close c1)
            (Route e rq (New loc \<lparr>cf_SchemaId = 0, cf_Timezone = [], cf_Name = name, cf_Schema = apps, cf_ConnId = Some (htc_id c)\<rparr>) c))"

end
