(* ===== verification/Net_Props.thy ===== *)
theory Net_Props
  imports Web_Hook
begin

text \<open>
  Properties of the other connections: what is set is read, a result nobody waits for blocks its application for ever, a web hook starts
  its schema only for the right password and origin, and the code of a response with a body is lost.
\<close>

section \<open>Variables\<close>

lemma plain_get_set: "CHR ''.'' \<notin> set k \<Longrightarrow> plain_Get gj (plain_Set ff [(k, GStr v)] m) k = (v, True)"
  by (simp add: plain_Get_def plain_Set_def take_until_None)

interpretation grpc_vars: variables "grpc_Get gj" "\<lambda>vars c. (Inr CallResponseOK, grpc_Set ff vars c)" for gj ff
  by unfold_locales (simp_all add: grpc_Get_def grpc_Set_def plain_get_set)

interpretation chan_vars: variables "chan_Get gj" "\<lambda>vars c. (Inr CallResponseOK, chan_Set ff vars c)" for gj ff
  by unfold_locales (simp_all add: chan_Get_def chan_Set_def plain_get_set)

interpretation hook_vars: variables "http_Get gj" "\<lambda>vars c. (Inr CallResponseOK, http_Set ff vars c)" for gj ff
  by unfold_locales (simp_all add: http_Get_def http_Set_def plain_get_set)

section \<open>Results\<close>

lemma unheard_step: "request_step s t \<Longrightarrow> \<not> rqs_waits s \<Longrightarrow> \<not> rqs_waits t \<and> (\<exists>ms. rqs_senders t = rqs_senders s @ ms) \<and> rqs_answer t = rqs_answer s"
  by (induction rule: request_step.induct) auto

lemma unheard_reach:
  "request_reach s t \<Longrightarrow> \<not> rqs_waits s \<Longrightarrow> \<not> rqs_waits t \<and> (\<exists>ms. rqs_senders t = rqs_senders s @ ms) \<and> rqs_answer t = rqs_answer s"
proof (induction rule: request_reach.induct)
  case (request_more s t u)
  then show ?case using unheard_step [of t u] by auto
qed simp

text \<open>The answer of a request is never of the other kind.\<close>

definition answer_ok :: "request_state \<Rightarrow> bool" where
  "answer_ok s = (\<forall>m. rqs_answer s = Some (AnswerResult m) \<longrightarrow> is_distribute (fst m) = (rqs_kind s = DistributeAttempt))"

lemma answer_kind: "request_reach s t \<Longrightarrow> answer_ok s \<Longrightarrow> rqs_kind t = rqs_kind s \<and> answer_ok t"
proof (induction rule: request_reach.induct)
  case (request_more s t u)
  from request_more.hyps(2) have "rqs_kind u = rqs_kind t \<and> (answer_ok t \<longrightarrow> answer_ok u)"
    by (induction rule: request_step.induct) (auto simp: answer_ok_def answer_of_def)
  with request_more show ?case by simp
qed simp

section \<open>Hooks\<close>

text \<open>The meaning of one entry of the list of origins.\<close>

definition origin_entry :: "(string \<Rightarrow> string) \<Rightarrow> string \<Rightarrow> string \<Rightarrow> bool" where
  "origin_entry lower entry origin =
     (let o' = lower entry in
      if o' = ''*'' then origin \<noteq> []
      else if CHR ''*'' \<in> set o' then \<exists>p m s. o' = p @ CHR ''*'' # s \<and> CHR ''*'' \<notin> set p \<and> origin = p @ m @ s
      else o' \<noteq> [] \<and> origin = o')"

lemma take_until_parts: "take_until x xs = Some (p, s) \<longleftrightarrow> xs = p @ x # s \<and> x \<notin> set p"
proof (induction xs arbitrary: p)
  case (Cons y ys)
  then show ?case by (cases p) (auto split: option.splits)
qed simp

lemma wildcard_match: "origin_match (originWildcard p s) origin \<longleftrightarrow> (\<exists>m. origin = p @ m @ s)"
proof
  assume m: "origin_match (originWildcard p s) origin"
  then obtain r where r: "origin = p @ r" by (auto simp: has_prefix_def) (metis append_take_drop_id)
  with m have "length s \<le> length r" by simp
  moreover have "drop (length origin - length s) origin = s" using m by (auto simp: has_suffix_def)
  ultimately have "drop (length r - length s) r = s" using r by simp
  then have "origin = p @ take (length r - length s) r @ s" using r by (metis append_take_drop_id)
  then show "\<exists>m. origin = p @ m @ s" by blast
qed (auto simp: has_prefix_def has_suffix_def)

lemma InitOrigin_empty: "InitOrigin lower os acc = [] \<longleftrightarrow> acc = [] \<and> (\<forall>e\<in>set os. lower e = [])"
  by (induction os arbitrary: acc) (auto simp: Let_def split: option.splits)

lemma InitOrigin_match:
  assumes "x \<noteq> []"
  shows "list_ex (\<lambda>p. origin_match p x) (InitOrigin lower os acc) \<longleftrightarrow> list_ex (\<lambda>p. origin_match p x) acc \<or> (\<exists>e\<in>set os. origin_entry lower e x)"
proof (induction os arbitrary: acc)
  case (Cons e os)
  consider (any) "lower e = ''*''" | (wild) p s where "lower e \<noteq> ''*''" "take_until (CHR ''*'') (lower e) = Some (p, s)"
    | (plain) "lower e \<noteq> ''*''" "take_until (CHR ''*'') (lower e) = None" by fastforce
  then show ?case
  proof cases
    case any
    with assms show ?thesis by (auto simp: origin_entry_def)
  next
    case wild
    then have o: "lower e = p @ CHR ''*'' # s \<and> CHR ''*'' \<notin> set p" by (simp add: take_until_parts)
    have u: "p' = p \<and> s' = s" if "lower e = p' @ CHR ''*'' # s'" "CHR ''*'' \<notin> set p'" for p' s'
      using take_until_parts [of "CHR ''*''" "lower e" p' s'] that wild(2) by simp
    have "(\<exists>p' m s'. lower e = p' @ CHR ''*'' # s' \<and> CHR ''*'' \<notin> set p' \<and> x = p' @ m @ s') \<longleftrightarrow> (\<exists>m. x = p @ m @ s)"
      using u o by metis
    then have "origin_entry lower e x \<longleftrightarrow> origin_match (originWildcard p s) x"
      using wild(1) o unfolding origin_entry_def Let_def wildcard_match by simp
    with wild Cons.IH [of "acc @ [originWildcard p s]"] show ?thesis by (auto simp: Let_def simp del: origin_match.simps)
  next
    case plain
    then have "CHR ''*'' \<notin> set (lower e)" by (metis in_set_conv_decomp_first not_None_eq option.discI take_until_parts)
    then have "origin_entry lower e x \<longleftrightarrow> lower e \<noteq> [] \<and> origin_match (originString (lower e)) x"
      using plain by (auto simp: origin_entry_def Let_def)
    with plain Cons.IH show ?thesis by (auto simp: Let_def)
  qed
qed simp

text \<open>Headers do not send anything.\<close>

lemma headers_unsent: "hwr_sent (htc_response (fold (\<lambda>(k, v). http_SetHeader k v) hs c)) = hwr_sent (htc_response c)"
  by (induction hs arbitrary: c) (auto simp: http_SetHeader_def writer_set_def)

text \<open>The body is written before the code, so the status line with 200 has gone: the code of the response is lost.\<close>

lemma body_hides_code:
  assumes "decode args = Inr a" and "hra_Body a = Some b" and "b \<noteq> []" and "hwr_sent (htc_response c) = None"
  shows "\<exists>hs. hwr_sent (endHook (snd (httpResponse decode args c))) = Some (200, hs)"
  using assms headers_unsent [of "hra_Headers a" c]
  by (auto simp: httpResponse_def svc_args_def Let_def http_WriteBody_def writer_Write_def WriteHeader_def http_WriteCode_def http_Close_def endHook_def split: option.splits)

section \<open>Properties\<close>

definition example_hook :: web_hook where
  "example_hook = \<lparr>wbh_Enabled = True, wbh_SchemaId = 7, wbh_AllowOrigins = [''10.0.*''], wbh_DomainId = 1, wbh_Authorization = Some ''secret''\<rparr>"

definition example_hook_request :: hook_request where
  "example_hook_request = \<lparr>hkr_Method = ''POST'', hkr_Path = ''/hook/k'', hkr_Id = ''k'', hkr_Header = (\<lambda>h. if h = ''Authorization'' then ''secret'' else []),
     hkr_RemoteAddr = ''10.0.0.5:4711'', hkr_Query = [], hkr_Body = ''{}''\<rparr>"

text \<open>
  C38: A web hook starts its schema exactly when the hook exists, the request carries its password if it has one, and the list of origins is
  blank or one of its entries admits the address of the client: any address for a star, a text with a star in it for the addresses with its
  two ends, and the address itself otherwise.
\<close>

theorem hook_runs_only_when_allowed:
  assumes "lower (ReadUserIP r) \<noteq> []"
  shows "(\<exists>c. startHook lower GetHookById unmarshal i r = Inr c) \<longleftrightarrow>
    (\<exists>h. GetHookById (hkr_Id r) = Inr h \<and> (\<forall>a. wbh_Authorization h = Some a \<longrightarrow> hkr_Header r ''Authorization'' = a) \<and>
      ((\<forall>e\<in>set (wbh_AllowOrigins h). lower e = []) \<or> (\<exists>e\<in>set (wbh_AllowOrigins h). origin_entry lower e (lower (ReadUserIP r)))))"
proof -
  have allow: "AllowOrigin lower (InitOrigin lower os []) (ReadUserIP r) \<longleftrightarrow> (\<forall>e\<in>set os. lower e = []) \<or> (\<exists>e\<in>set os. origin_entry lower e (lower (ReadUserIP r)))" for os
    using InitOrigin_match [OF assms, of lower os "[]"] InitOrigin_empty [of lower os "[]"] by (simp add: AllowOrigin_def)
  have auth: "Authentication h r = None \<longleftrightarrow> (\<forall>a. wbh_Authorization h = Some a \<longrightarrow> hkr_Header r ''Authorization'' = a)" for h
    by (auto simp: Authentication_def split: option.splits)
  show ?thesis
  proof (cases "GetHookById (hkr_Id r)")
    case (Inr h)
    then show ?thesis using allow [of "wbh_AllowOrigins h"] auth [of h] by (cases "Authentication h r") (auto simp: startHook_def Let_def)
  qed (simp add: startHook_def)
qed

theorem hook_runs_only_when_allowed_witness:
  "\<exists>c. startHook (\<lambda>s. s) (\<lambda>_. Inr example_hook) (\<lambda>_. None) ''id'' example_hook_request = Inr c"
proof -
  have "origin_entry (\<lambda>s. s) ''10.0.*'' ''10.0.0.5:4711''"
    unfolding origin_entry_def Let_def
    by (simp, rule exI [of _ "''10.0.''"], rule exI [of _ "''0.5:4711''"], rule exI [of _ "[]"], simp)
  then show ?thesis
    using hook_runs_only_when_allowed [of "\<lambda>s. s" example_hook_request "\<lambda>_. Inr example_hook" "\<lambda>_. None" "''id''"]
    by (simp add: example_hook_def example_hook_request_def ReadUserIP_def)
qed

text \<open>
  A schema started without a receiver of results (\<open>StartFlow\<close>, \<open>StartSyncFlow\<close>) that reports the result of an attempt: the application
  never returns.
\<close>

lemma unheard_result_blocks:
  assumes "k \<in> {StartFlow, StartSyncFlow}" and "request_reach (request_start k) s" and "m \<in> set (rqs_senders s)" and "request_reach s t"
  shows "m \<in> set (rqs_senders t) \<and> rqs_answer t = None"
proof -
  have "\<not> rqs_waits (request_start k) \<and> rqs_answer (request_start k) = None" using assms(1) by (auto simp: request_start_def receives_def)
  with unheard_reach [OF assms(2)] have "\<not> rqs_waits s" "rqs_answer s = None" by auto
  with unheard_reach [OF assms(4)] assms(3) show ?thesis by auto
qed

end
