(* ===== verification/Mail_Server.thy ===== *)
theory Mail_Server
  imports Flow_Scripts Flow_Basic Flow_Route Lru_Cache
begin

text \<open>
  The e-mail provider (\<open>providers/email\<close>) and its router (\<open>routes/email\<close>): profiles with their IMAP sessions, the parts of a message, the
  server that fetches new messages, connections and replies.  The IMAP and SMTP libraries, the MIME decoder and the stores are
  arguments; \<open>None\<close> is a panic.  Profiles are shared by reference: the server has a heap of them, and the cache (\<open>model.NewLru\<close>) holds
  addresses.
\<close>

section \<open>Profiles (profile.go)\<close>

record mail_token =
  mtk_AccessToken :: string
  mtk_Expiry :: int

record mail_profile =
  mpf_Id :: int
  mpf_DomainId :: int
  mpf_updatedAt :: int
  mpf_name :: string
  mpf_login :: string
  mpf_password :: string
  mpf_Mailbox :: string
  mpf_smtpHost :: string
  mpf_smtpPort :: int
  mpf_imapHost :: string
  mpf_imapPort :: int
  mpf_logged :: bool
  mpf_flowId :: int
  mpf_client :: bool
  mpf_authMethod :: string
  mpf_token :: "mail_token option"
  mpf_Tls :: bool

record mail_settings =
  mst_Id :: int
  mst_DomainId :: int
  mst_UpdatedAt :: int
  mst_Name :: string
  mst_Login :: string
  mst_Password :: string
  mst_Mailbox :: string
  mst_SmtpHost :: string
  mst_SmtpPort :: int
  mst_ImapHost :: string
  mst_ImapPort :: int
  mst_FlowId :: int
  mst_Token :: "mail_token option"
  mst_AuthType :: string
  mst_Insecure :: "bool option"

definition newProfile :: "mail_settings \<Rightarrow> mail_profile" where
  "newProfile s =
     \<lparr>mpf_Id = mst_Id s, mpf_DomainId = mst_DomainId s, mpf_updatedAt = mst_UpdatedAt s, mpf_name = mst_Name s, mpf_login = mst_Login s, mpf_password = mst_Password s,
      mpf_Mailbox = mst_Mailbox s, mpf_smtpHost = mst_SmtpHost s, mpf_smtpPort = mst_SmtpPort s, mpf_imapHost = mst_ImapHost s, mpf_imapPort = mst_ImapPort s,
      mpf_logged = False, mpf_flowId = mst_FlowId s, mpf_client = False, mpf_authMethod = mst_AuthType s, mpf_token = mst_Token s, mpf_Tls = (mst_Insecure s = Some True)\<rparr>"

text \<open>Messages of the IMAP library: the envelope, and the parts behind it.\<close>

record mail_envelope =
  env_MessageId :: string
  env_Subject :: string
  env_From :: "string list"
  env_To :: "string list"
  env_Sender :: "string list"
  env_ReplyTo :: "string list"
  env_InReplyTo :: string
  env_Cc :: "string list"

record inline_part =
  ilp_body :: "string + string"
  ilp_type :: string
  ilp_name :: string
  ilp_filename :: string
  ilp_cid :: string

record attachment_part =
  atp_body :: string
  atp_filename :: "string + string"
  atp_type :: string

datatype mail_part = InlinePart inline_part | AttachmentPart attachment_part | OtherPart

text \<open>What the reader gives for its next part; the end of the list is the end of the message.\<close>

datatype part_item = PartOk mail_part | PartError string | PartNil

record imap_message =
  img_Envelope :: "mail_envelope option"
  img_Body :: "(string + part_item list) option"

text \<open>The answers of the IMAP server, of the token service and of the file service during one session.\<close>

record imap_session =
  ims_dial :: "string option"
  ims_supportAuth :: "string + bool"
  ims_token :: "mail_token \<Rightarrow> string + mail_token"
  ims_authenticate :: "string \<Rightarrow> string \<Rightarrow> string option"
  ims_login :: "string \<Rightarrow> string \<Rightarrow> string option"
  ims_slow :: bool
  ims_select :: "string \<Rightarrow> string option"
  ims_search :: "string + nat list"
  ims_fetch :: "nat list \<Rightarrow> imap_message option list"
  ims_logout :: "string option"

definition mail_err :: "string \<Rightarrow> string \<Rightarrow> int \<Rightarrow> app_error" where
  "mail_err i detail status = NewAppError ''Email'' i [] detail status"

text \<open>The login, with the error, the profile after it and a token to store.\<close>

definition clientLogin :: "imap_session \<Rightarrow> mail_profile \<Rightarrow> app_error option \<times> mail_profile \<times> mail_token option" where
  "clientLogin im p0 =
     (if mpf_logged p0 \<and> mpf_client p0 then (None, p0, None)
      else case ims_dial im of
        Some e \<Rightarrow> (Some (mail_err ''email.dial.app_err'' e 500), p0\<lparr>mpf_logged := False, mpf_client := False\<rparr>, None)
      | None \<Rightarrow>
          (let p = p0\<lparr>mpf_logged := False, mpf_client := True\<rparr> in
           if mpf_authMethod p = ''oauth2'' then
             (case (ims_supportAuth im, mpf_token p) of
                (Inl e, _) \<Rightarrow> (Some (mail_err ''email.xoauth2.support'' e 500), p, None)
              | (Inr False, _) \<Rightarrow> (Some (mail_err ''email.xoauth2.support'' ''Not support'' 500), p, None)
              | (Inr True, None) \<Rightarrow> (Some (mail_err ''email.xoauth2.support'' ''Not found token'' 500), p, None)
              | (Inr True, Some t) \<Rightarrow>
                  (case ims_token im t of
                     Inl e \<Rightarrow> (Some (mail_err ''email.login.token'' e 401), p, None)
                   | Inr t' \<Rightarrow>
                       (let p1 = p\<lparr>mpf_token := Some t'\<rparr>; stored = (if mtk_Expiry t' \<noteq> mtk_Expiry t then Some t' else None)
                        in case ims_authenticate im (mpf_login p) (mtk_AccessToken t') of
                             Some e \<Rightarrow> (Some (mail_err ''email.login.unauthorized'' e 401), p1, stored)
                           | None \<Rightarrow> (None, p1\<lparr>mpf_logged := True\<rparr>, stored))))
           else (case ims_login im (mpf_login p) (mpf_password p) of
                   Some e \<Rightarrow> (Some (mail_err ''email.login.unauthorized'' e 401), p, None)
                 | None \<Rightarrow> (None, p\<lparr>mpf_logged := True\<rparr>, None))))"

text \<open>A login that takes longer than a minute is reported as an error and goes on behind it.\<close>

definition profile_Login :: "imap_session \<Rightarrow> mail_profile \<Rightarrow> app_error option \<times> mail_profile \<times> mail_token option" where
  "profile_Login im p =
     (case clientLogin im p of (er, p1, t) \<Rightarrow> (if ims_slow im then Some (mail_err ''email.login.timeout'' ''Timeout'' 500) else er, p1, t))"

definition profile_Logout :: "imap_session \<Rightarrow> mail_profile \<Rightarrow> app_error option \<times> mail_profile" where
  "profile_Logout im p =
     (if \<not> mpf_logged p then (None, p)
      else case ims_logout im of
             Some e \<Rightarrow> (Some (mail_err ''email.logout.app_err'' e 500), p)
           | None \<Rightarrow> (None, p\<lparr>mpf_logged := False, mpf_client := False\<rparr>))"

section \<open>Messages\<close>

record mail =
  mml_Direction :: string
  mml_MessageId :: string
  mml_Subject :: string
  mml_ProfileId :: int
  mml_From :: "string list"
  mml_To :: "string list"
  mml_Sender :: "string list"
  mml_ReplyTo :: "string list"
  mml_InReplyTo :: string
  mml_CC :: "string list"
  mml_Body :: string
  mml_HtmlBody :: string
  mml_Attachments :: "im_file list"
  mml_Cid :: "(string \<times> int) list"

text \<open>The services of a message: the header decoder, the upload of a file (name, type and bytes), fresh ids and the text of HTML.\<close>

record mime_services =
  mis_decode :: "string \<Rightarrow> string option"
  mis_upload :: "int \<Rightarrow> string \<Rightarrow> string \<Rightarrow> string \<Rightarrow> string \<Rightarrow> string + im_file"
  mis_newId :: string
  mis_html2text :: "string \<Rightarrow> string"

definition decodeText :: "mime_services \<Rightarrow> string \<Rightarrow> string" where
  "decodeText ms s = (case mis_decode ms s of Some d \<Rightarrow> d | None \<Rightarrow> s)"

definition decodeAddress :: "mime_services \<Rightarrow> string list \<Rightarrow> string list" where
  "decodeAddress ms addrs = map (decodeText ms) addrs"

definition createEmailFromEnvelope :: "mime_services \<Rightarrow> int \<Rightarrow> mail_envelope \<Rightarrow> mail" where
  "createEmailFromEnvelope ms profileId e =
     \<lparr>mml_Direction = ''inbound'', mml_MessageId = env_MessageId e, mml_Subject = decodeText ms (env_Subject e), mml_ProfileId = profileId,
      mml_From = decodeAddress ms (env_From e), mml_To = decodeAddress ms (env_To e), mml_Sender = decodeAddress ms (env_Sender e),
      mml_ReplyTo = decodeAddress ms (env_ReplyTo e), mml_InReplyTo = decodeText ms (env_InReplyTo e), mml_CC = decodeAddress ms (env_Cc e),
      mml_Body = [], mml_HtmlBody = [], mml_Attachments = [], mml_Cid = []\<rparr>"

definition AddAttachment :: "im_file \<Rightarrow> mail \<Rightarrow> mail" where
  "AddAttachment f e = e\<lparr>mml_Attachments := mml_Attachments e @ [f]\<rparr>"

definition AddCID :: "string \<Rightarrow> int \<Rightarrow> mail \<Rightarrow> mail" where
  "AddCID cid i e = e\<lparr>mml_Cid := AList.update cid i (mml_Cid e)\<rparr>"

definition cmp_Or :: "string list \<Rightarrow> string" where
  "cmp_Or xs = (case List.find (\<lambda>x. x \<noteq> []) xs of Some x \<Rightarrow> x | None \<Rightarrow> [])"

definition trim_angles :: "string \<Rightarrow> string" where
  "trim_angles s = rev (dropWhile (\<lambda>c. c \<in> set ''<>'') (rev (dropWhile (\<lambda>c. c \<in> set ''<>'') s)))"

text \<open>A text, an HTML text or a file, which is an image of the text when it has a content id; or an error that skips the part.\<close>

definition inlineHeaderHandler :: "mime_services \<Rightarrow> int \<Rightarrow> inline_part \<Rightarrow> mail \<Rightarrow> string + (string \<times> string \<times> mail)" where
  "inlineHeaderHandler ms domainId h e =
     (case ilp_body h of
        Inl er \<Rightarrow> Inl er
      | Inr b \<Rightarrow>
          (if has_prefix (ilp_type h) ''text/html'' then Inr ([], b, e)
           else if has_prefix (ilp_type h) ''text/'' then Inr (b, [], e)
           else case mis_upload ms domainId (mml_MessageId e) (cmp_Or [ilp_filename h, ilp_name h, ''unnamed_inline_file'']) (ilp_type h) b of
                  Inl er \<Rightarrow> Inl er
                | Inr f \<Rightarrow>
                    (let cid = trim_angles (ilp_cid h) in Inr ([], [], if cid \<noteq> [] then AddCID cid (fi_Id f) e else AddAttachment f e))))"

definition attachmentHeaderHandler :: "mime_services \<Rightarrow> int \<Rightarrow> attachment_part \<Rightarrow> mail \<Rightarrow> string + mail" where
  "attachmentHeaderHandler ms domainId h e =
     (case atp_filename h of
        Inl er \<Rightarrow> Inl er
      | Inr name \<Rightarrow>
          (case mis_upload ms domainId (mml_MessageId e) (if name = [] then mis_newId ms else name) (atp_type h) (atp_body h) of
             Inl er \<Rightarrow> Inl er
           | Inr f \<Rightarrow> Inr (AddAttachment f e)))"

text \<open>The iterator of parts: it ends at an error, which it keeps, and at an empty part.\<close>

fun iterate_parts :: "part_item list \<Rightarrow> mail_part list \<times> app_error option" where
  "iterate_parts [] = ([], None)"
| "iterate_parts (PartOk p # r) = (case iterate_parts r of (ps, er) \<Rightarrow> (p # ps, er))"
| "iterate_parts (PartError e # r) = ([], Some (NewAppError ''Next'' ''email.reader_iterator.next_part'' [] e 500))"
| "iterate_parts (PartNil # r) = ([], None)"

fun read_parts :: "mime_services \<Rightarrow> int \<Rightarrow> mail_part list \<Rightarrow> string \<times> string \<times> mail \<Rightarrow> string \<times> string \<times> mail" where
  "read_parts ms domainId [] st = st"
| "read_parts ms domainId (InlinePart h # ps) (text, html, e) =
     read_parts ms domainId ps (case inlineHeaderHandler ms domainId h e of
       Inl _ \<Rightarrow> (text, html, e)
     | Inr (bodyText, bodyHtml, e') \<Rightarrow> (text @ bodyText, if bodyHtml \<noteq> [] then bodyHtml else html, e'))"
| "read_parts ms domainId (AttachmentPart h # ps) (text, html, e) =
     read_parts ms domainId ps (case attachmentHeaderHandler ms domainId h e of Inl _ \<Rightarrow> (text, html, e) | Inr e' \<Rightarrow> (text, html, e'))"
| "read_parts ms domainId (OtherPart # ps) st = read_parts ms domainId ps st"

definition resolveMailMessageText :: "mime_services \<Rightarrow> string \<Rightarrow> string \<Rightarrow> string" where
  "resolveMailMessageText ms text html = (if text = [] \<and> html \<noteq> [] then mis_html2text ms html else text)"

definition prepareBodySection :: "imap_message option \<Rightarrow> (mail_envelope \<times> (string + part_item list)) result" where
  "prepareBodySection msg =
     (case msg of
        None \<Rightarrow> Inl (mail_err ''email.message.app_err'' (''Server didn'' @ [CHR 0x27] @ ''t returned message'') 500)
      | Some m \<Rightarrow>
          (case (img_Envelope m, img_Body m) of
             (None, _) \<Rightarrow> Inl (mail_err ''email.message.app_err'' (''Message does'' @ [CHR 0x60] @ ''nt contain envelope'') 500)
           | (_, None) \<Rightarrow> Inl (mail_err ''email.message.app_err'' (''Server didn'' @ [CHR 0x27] @ ''t returned message body'') 500)
           | (Some e, Some b) \<Rightarrow> Inr (e, b)))"

definition parseMessage :: "mime_services \<Rightarrow> mail_profile \<Rightarrow> imap_message option \<Rightarrow> mail result" where
  "parseMessage ms p msg =
     (case prepareBodySection msg of
        Inl er \<Rightarrow> Inl er
      | Inr (_, Inl er) \<Rightarrow> Inl (mail_err ''email.message.app_err'' er 500)
      | Inr (env, Inr items) \<Rightarrow>
          (case iterate_parts items of (parts, er) \<Rightarrow>
            (case read_parts ms (mpf_DomainId p) parts ([], [], createEmailFromEnvelope ms (mpf_Id p) env) of (text, html, e) \<Rightarrow>
              (case er of
                 Some x \<Rightarrow> Inl x
               | None \<Rightarrow> Inr (e\<lparr>mml_Body := resolveMailMessageText ms text html, mml_HtmlBody := html\<rparr>)))))"

text \<open>
  \<open>Read\<close>: the messages that can be parsed, or an error; the profile after it; the errors it stores; a token to store.
\<close>

definition profile_Read :: "mime_services \<Rightarrow> imap_session \<Rightarrow> mail_profile \<Rightarrow> mail list result \<times> mail_profile \<times> app_error list \<times> mail_token option" where
  "profile_Read ms im p0 =
     (case (if mpf_logged p0 then (None, p0, None) else profile_Login im p0) of
        (Some er, p, t) \<Rightarrow> (Inl er, p, [], t)
      | (None, p, t) \<Rightarrow>
          (case ims_select im (mpf_Mailbox p) of
             Some e \<Rightarrow> (let er = mail_err ''email.mailbox.app_err'' e 500 in (Inl er, p, [er], t))
           | None \<Rightarrow>
               (case ims_search im of
                  Inl e \<Rightarrow> (let er = mail_err ''email.mailbox.search.app_err'' e 500 in (Inl er, p, [er], t))
                | Inr uids \<Rightarrow>
                    (let parsed = (if uids = [] then [] else map (parseMessage ms p) (ims_fetch im uids))
                     in (Inr (concat (map (\<lambda>r. case r of Inr e \<Rightarrow> [e] | Inl _ \<Rightarrow> []) parsed)), p, [], t)))))"

definition profile_Reply :: "(string + string) \<Rightarrow> (mail_dialer \<Rightarrow> mail_message \<Rightarrow> string option) \<Rightarrow> mail_profile \<Rightarrow> mail \<Rightarrow> string \<Rightarrow> mail result" where
  "profile_Reply newId send p parent data =
     (case newId of
        Inl e \<Rightarrow> Inl (mail_err ''email.reply.app_err'' e 500)
      | Inr i \<Rightarrow>
          (let rr = \<lparr>mml_Direction = ''outbound'', mml_MessageId = i, mml_Subject = mml_Subject parent, mml_ProfileId = mml_ProfileId parent, mml_From = [mpf_login p],
                     mml_To = mml_From parent, mml_Sender = mml_Sender parent, mml_ReplyTo = mml_ReplyTo parent, mml_InReplyTo = mml_MessageId parent,
                     mml_CC = mml_CC parent, mml_Body = data, mml_HtmlBody = data, mml_Attachments = [], mml_Cid = []\<rparr>;
               headers = [(''Message-Id'', [i]), (''From'', [mpf_login p]), (''To'', mml_To rr)] @
                 (if mml_Subject rr \<noteq> [] then [(''Subject'', [mml_Subject rr])] else []) @
                 (if mml_InReplyTo rr \<noteq> [] then [(''In-Reply-To'', [mml_InReplyTo rr])] else []) @
                 (if mml_CC rr \<noteq> [] then [(''Cc'', mml_CC rr)] else []);
               oauth = (mpf_authMethod p = ''oauth2'');
               bearer = (case mpf_token p of Some t \<Rightarrow> if oauth \<and> mtk_AccessToken t \<noteq> [] then Some (mtk_AccessToken t) else None | None \<Rightarrow> None);
               dialer = \<lparr>mdl_server = mpf_smtpHost p, mdl_port = mpf_smtpPort p, mdl_user = mpf_login p, mdl_password = (if oauth then [] else mpf_password p),
                         mdl_bearer = bearer, mdl_skipVerify = mpf_Tls p\<rparr>
           in case send dialer \<lparr>mmm_headers = headers, mmm_body = (''text/html'', data), mmm_files = []\<rparr> of
                Some e \<Rightarrow> Inl (mail_err ''email.reply.app_err'' e 500)
              | None \<Rightarrow> Inr rr))"

section \<open>Authentication (login.go, oauth2.go)\<close>

definition loginAuth_Next :: "string \<Rightarrow> string \<Rightarrow> string \<Rightarrow> bool \<Rightarrow> string + string" where
  "loginAuth_Next username password fromServer again =
     (if \<not> again then Inr []
      else if fromServer = ''Username:'' then Inr username
      else if fromServer = ''Password:'' then Inr password else Inl ''unknown fromServer'')"

definition OAuth2Smtp_Start :: "bool \<Rightarrow> string \<Rightarrow> string \<Rightarrow> string + string \<times> string" where
  "OAuth2Smtp_Start tls user token =
     (if \<not> tls then Inl ''unencrypted connection''
      else Inr (''XOAUTH2'', ''user='' @ user @ [CHR 0x01] @ ''auth=Bearer '' @ token @ [CHR 0x01, CHR 0x01]))"

definition xoauth2Client_Start :: "string \<Rightarrow> string \<Rightarrow> string \<times> string" where
  "xoauth2Client_Start user token = (''XOAUTH2'', ''user='' @ user @ [CHR 0x01] @ ''auth=Bearer '' @ token @ [CHR 0x01, CHR 0x01])"

section \<open>Connections (connection.go)\<close>

record mail_conn =
  mcn_profile :: "int \<times> int"
  mcn_flowId :: int
  mcn_domainId :: int
  mcn_email :: mail
  mcn_emailId :: int
  mcn_variables :: "string \<rightharpoonup> goval"

text \<open>\<open>json\<close> is the text of the attachments; the variables are those of the message.\<close>

definition mail_NewConnection :: "(im_file list \<Rightarrow> string) \<Rightarrow> int \<times> int \<Rightarrow> int \<Rightarrow> int \<Rightarrow> mail \<Rightarrow> int \<Rightarrow> mail_conn" where
  "mail_NewConnection json pkey flowId domainId e i =
     (let vars = [(''message_id'', mml_MessageId e), (''reply_to'', join_with '','' (mml_ReplyTo e)), (''from'', join_with '','' (mml_From e)),
            (''cc'', join_with '','' (mml_CC e)), (''sender'', join_with '','' (mml_Sender e)), (''in_reply_to'', mml_InReplyTo e), (''body'', mml_Body e)] @
            (if mml_HtmlBody e \<noteq> [] then [(''body_html'', mml_HtmlBody e)] else []) @ [(''subject'', mml_Subject e), (''id'', Itoa i)] @
            (if mml_Attachments e \<noteq> [] then [(''attachments'', json (mml_Attachments e))] else [])
      in \<lparr>mcn_profile = pkey, mcn_flowId = flowId, mcn_domainId = domainId, mcn_email = e, mcn_emailId = i, mcn_variables = map_of (map (\<lambda>(k, v). (k, GStr v)) vars)\<rparr>)"

definition mail_Get :: "(string \<Rightarrow> string \<Rightarrow> string) \<Rightarrow> (rat \<Rightarrow> string) \<Rightarrow> mail_conn \<Rightarrow> string \<Rightarrow> string \<times> bool" where
  "mail_Get gj ff c name =
     (let direct = (case mcn_variables c name of Some v \<Rightarrow> (sprint_v ff v, True) | None \<Rightarrow> (sprint_v ff GNil, False)) in
      case take_until (CHR ''.'') name of
        Some (nameRoot, path) \<Rightarrow>
          (if nameRoot = [] then direct
           else case mcn_variables c nameRoot of Some v \<Rightarrow> (gj (sprint_v ff v) path, True) | None \<Rightarrow> direct)
      | None \<Rightarrow> direct)"

definition mail_Set :: "(string \<times> goval) list \<Rightarrow> mail_conn \<Rightarrow> mail_conn" where
  "mail_Set vars c = c\<lparr>mcn_variables := fold (\<lambda>(k, v) m. m(k \<mapsto> v)) vars (mcn_variables c)\<rparr>"

definition emailParser_ParseText :: "(string \<Rightarrow> string \<Rightarrow> string) \<Rightarrow> (rat \<Rightarrow> string) \<Rightarrow> mail_conn \<Rightarrow> string \<Rightarrow> string" where
  "emailParser_ParseText gj ff c text = ReplaceAllStringFunc [op_var] (CHR 0x7D) (\<lambda>st op body. (fst (mail_Get gj ff c body), st)) () text"

section \<open>The server (server.go)\<close>

record mail_server =
  mls_profiles :: "(int, nat) lru"
  mls_heap :: "mail_profile list"
  mls_running :: "int set"
  mls_consumed :: "mail_conn list"
  mls_errors :: "(int \<times> app_error) list"
  mls_tokens :: "(int \<times> mail_token) list"

definition NewMailServer :: mail_server where
  "NewMailServer = \<lparr>mls_profiles = NewLru 1000, mls_heap = [], mls_running = {}, mls_consumed = [], mls_errors = [], mls_tokens = []\<rparr>"

definition upd_profile :: "nat \<Rightarrow> mail_profile \<Rightarrow> mail_server \<Rightarrow> mail_server" where
  "upd_profile a p s = s\<lparr>mls_heap := (mls_heap s)[a := p]\<rparr>"

definition storeError :: "int \<Rightarrow> app_error \<Rightarrow> mail_server \<Rightarrow> mail_server" where
  "storeError i er s = s\<lparr>mls_errors := mls_errors s @ [(i, er)], mls_profiles := lru_Remove i (mls_profiles s)\<rparr>"

definition storeToken :: "int \<Rightarrow> mail_token option \<Rightarrow> mail_server \<Rightarrow> mail_server" where
  "storeToken i t s = (case t of Some x \<Rightarrow> s\<lparr>mls_tokens := mls_tokens s @ [(i, x)]\<rparr> | None \<Rightarrow> s)"

text \<open>A cached profile is returned whatever \<open>updatedAt\<close> is; \<open>shared\<close> tells that another call has loaded it at the same time.\<close>

definition GetProfile :: "int \<Rightarrow> (int \<Rightarrow> mail_settings result) \<Rightarrow> bool \<Rightarrow> int \<Rightarrow> int \<Rightarrow> mail_server \<Rightarrow> nat result \<times> mail_server" where
  "GetProfile now store shared i updatedAt s =
     (case lru_Get now i (mls_profiles s) of (r, cache) \<Rightarrow>
       (let s1 = s\<lparr>mls_profiles := cache\<rparr> in
        case r of
          Some a \<Rightarrow> (Inr a, s1)
        | None \<Rightarrow>
            (case store i of
               Inl er \<Rightarrow> (Inl er, s1)
             | Inr params \<Rightarrow>
                 (let a = length (mls_heap s1); s2 = s1\<lparr>mls_heap := mls_heap s1 @ [newProfile params]\<rparr>
                  in (Inr a, if shared then s2 else s2\<lparr>mls_profiles := lru_Add now i a (mls_profiles s2)\<rparr>)))))"

text \<open>One attempt: the login, whose error is stored, and the reading.\<close>

definition fetch_attempt :: "mime_services \<Rightarrow> imap_session \<Rightarrow> nat \<Rightarrow> mail_server \<Rightarrow> mail list result \<times> mail_server" where
  "fetch_attempt ms im a s =
     (let p = mls_heap s ! a in
      case profile_Login im p of (er, p1, t) \<Rightarrow>
        (let s1 = upd_profile a p1 (storeToken (mpf_Id p) t (case er of Some x \<Rightarrow> storeError (mpf_Id p) x s | None \<Rightarrow> s))
         in case profile_Read ms im p1 of (res, p2, errs, t2) \<Rightarrow>
              (res, upd_profile a p2 (storeToken (mpf_Id p) t2 (fold (storeError (mpf_Id p)) errs s1)))))"

text \<open>The sessions of the two attempts are \<open>im 0\<close> and \<open>im 1\<close>; \<open>save\<close> stores a message and gives its number.\<close>

fun fetch_retry :: "nat \<Rightarrow> mime_services \<Rightarrow> (nat \<Rightarrow> imap_session) \<Rightarrow> nat \<Rightarrow> nat \<Rightarrow> mail_server \<Rightarrow> mail list result \<times> nat \<times> mail_server" where
  "fetch_retry 0 ms im k a s = (case fetch_attempt ms (im k) a s of (res, s1) \<Rightarrow> (res, k, s1))"
| "fetch_retry (Suc n) ms im k a s =
     (case fetch_attempt ms (im k) a s of
        (Inl er, s1) \<Rightarrow> if err_detail er = ''Not logged in'' then fetch_retry n ms im (Suc k) a s1 else (Inl er, k, s1)
      | (Inr es, s1) \<Rightarrow> (Inr es, k, s1))"

definition fetchNewMessageInProfile ::
  "int \<Rightarrow> (int \<Rightarrow> mail_settings result) \<Rightarrow> bool \<Rightarrow> mime_services \<Rightarrow> (nat \<Rightarrow> imap_session) \<Rightarrow> (int \<Rightarrow> mail \<Rightarrow> int result) \<Rightarrow> (im_file list \<Rightarrow> string) \<Rightarrow>
   int \<Rightarrow> int \<Rightarrow> mail_server \<Rightarrow> mail_server option" where
  "fetchNewMessageInProfile now store shared ms im save json i updatedAt s =
     (case GetProfile now store shared i updatedAt s of
        (Inl _, _) \<Rightarrow> None
      | (Inr a, s1) \<Rightarrow>
          Some (case fetch_retry 1 ms im 0 a s1 of
              (Inl _, _, s2) \<Rightarrow> s2
            | (Inr emails, k, s2) \<Rightarrow>
                (let p = mls_heap s2 ! a;
                     conns = concat (map (\<lambda>e. case save (mpf_DomainId p) e of Inl _ \<Rightarrow> []
                       | Inr n \<Rightarrow> [mail_NewConnection json (mpf_Id p, updatedAt) (mpf_flowId p) (mpf_DomainId p) e n]) emails);
                     s3 = s2\<lparr>mls_consumed := mls_consumed s2 @ conns\<rparr>
                 in case profile_Logout (im k) p of
                      (er, p1) \<Rightarrow> upd_profile a p1 (case er of Some x \<Rightarrow> storeError (mpf_Id p) x s3 | None \<Rightarrow> s3))))"

text \<open>One round of \<open>listen\<close>: the tasks that start a goroutine of their own.\<close>

definition listen_tasks :: "(int \<times> int) list \<Rightarrow> mail_server \<Rightarrow> (int \<times> int) list \<times> mail_server" where
  "listen_tasks tasks s =
     fold (\<lambda>(i, u) (started, s). if i \<in> mls_running s then (started, s) else (started @ [(i, u)], s\<lparr>mls_running := insert i (mls_running s)\<rparr>)) tasks ([], s)"

definition stopRunning :: "int \<Rightarrow> mail_server \<Rightarrow> mail_server" where
  "stopRunning i s = s\<lparr>mls_running := mls_running s - {i}\<rparr>"

definition TestProfile ::
  "int \<Rightarrow> (int \<Rightarrow> mail_settings result) \<Rightarrow> bool \<Rightarrow> imap_session \<Rightarrow> int result \<Rightarrow> int \<Rightarrow> mail_server \<Rightarrow> app_error option \<times> mail_server" where
  "TestProfile now store shared im updated i s =
     (case updated of
        Inl er \<Rightarrow> (Some er, s)
      | Inr updatedAt \<Rightarrow>
          (case GetProfile now store shared i updatedAt s of
             (Inl er, s1) \<Rightarrow> (Some er, s1)
           | (Inr a, s1) \<Rightarrow>
               (let p = mls_heap s1 ! a in
                case profile_Login im p of (er, p1, t) \<Rightarrow>
                  (let s2 = upd_profile a p1 (storeToken (mpf_Id p) t s1) in
                   if er \<noteq> None then (er, s2)
                   else case profile_Logout im p1 of (er2, p2) \<Rightarrow> (er2, upd_profile a p2 s2)))))"

section \<open>The router (routes/email)\<close>

text \<open>The contacts with the address of the sender: only one of them is linked.\<close>

definition email_linkContact :: "(string \<Rightarrow> string list result) \<Rightarrow> mail_conn \<Rightarrow> mail_conn \<times> int list" where
  "email_linkContact contacts c =
     (case mml_From (mcn_email c) of
        [] \<Rightarrow> (c, [])
      | from # _ \<Rightarrow>
          (case contacts from of
             Inr [i] \<Rightarrow> (mail_Set [(''wbt_contact_id'', GStr i)] c, [Atoi_clamp i])
           | _ \<Rightarrow> (c, [])))"

definition email_handle ::
  "mail_conn env \<Rightarrow> (flow \<Rightarrow> reqptr \<Rightarrow> mail_conn \<Rightarrow> mail_conn outcome) \<Rightarrow> (string \<Rightarrow> string option) \<Rightarrow> (int \<Rightarrow> int \<Rightarrow> (string \<times> applications) result) \<Rightarrow>
   (int \<Rightarrow> bool) \<Rightarrow> (string \<Rightarrow> string list result) \<Rightarrow> mail_conn \<Rightarrow> mail_conn option" where
  "email_handle e rq loc schemaById autoLink contacts c =
     (case schemaById (mcn_domainId c) (mcn_flowId c) of
        Inl _ \<Rightarrow> Some c
      | Inr (name, apps) \<Rightarrow>
          (let c1 = (if autoLink (mcn_domainId c) then fst (email_linkContact contacts c) else c)
           in map_option snd (Route e rq (New loc \<lparr>cf_SchemaId = 0, cf_Timezone = [], cf_Name = name, cf_Schema = apps, cf_ConnId = Some (mml_MessageId (mcn_email c))\<rparr>) c1)))"

text \<open>\<open>reply\<close>: \<open>send\<close> is the reply of the profile, \<open>save\<close> stores it.\<close>

definition email_reply :: "(mail \<Rightarrow> string \<Rightarrow> mail result) \<Rightarrow> (int \<Rightarrow> mail \<Rightarrow> app_error option) \<Rightarrow> (goval \<Rightarrow> string result) \<Rightarrow> goval \<Rightarrow> mail_conn \<Rightarrow> outcome2 \<times> mail_conn" where
  "email_reply send save decode args =
     svc_args decode args (\<lambda>body c.
       if body = [] then svc_bad (NewAppError ''Reply'' ''email.reply.valid.args'' [] ''bad arguments'' 400) c
       else case send (mcn_email c) body of
              Inl er \<Rightarrow> svc_fail er c
            | Inr e \<Rightarrow> (case save (mcn_domainId c) e of Some er \<Rightarrow> svc_fail er c | None \<Rightarrow> (ok2, c)))"

end
