(* ===== verification/Mail_Props.thy ===== *)
theory Mail_Props
  imports Mail_Server
begin

text \<open>
  Properties of the e-mail provider: the cache of profiles stays sound, a retry never logs in again, a missing profile panics, texts of a
  message are kept, and an unset variable is printed as a Go nil.
\<close>

section \<open>Messages\<close>

text \<open>The text of a part that could be read.\<close>

definition part_text :: "mail_part \<Rightarrow> string" where
  "part_text p = (case p of
     InlinePart h \<Rightarrow> (case ilp_body h of Inr b \<Rightarrow> if has_prefix (ilp_type h) ''text/'' \<and> \<not> has_prefix (ilp_type h) ''text/html'' then b else [] | Inl _ \<Rightarrow> [])
   | _ \<Rightarrow> [])"

lemma read_parts_text: "fst (read_parts ms d ps (t0, h0, e)) = t0 @ concat (map part_text ps)"
proof (induction ps arbitrary: t0 h0 e)
  case (Cons p ps)
  show ?case
  proof (cases p)
    case (InlinePart h)
    then show ?thesis using Cons.IH
      by (cases "ilp_body h") (auto simp: inlineHeaderHandler_def part_text_def Let_def split: sum.splits prod.splits)
  next
    case (AttachmentPart h)
    then show ?thesis using Cons.IH by (auto simp: part_text_def split: sum.splits)
  qed (simp add: part_text_def Cons.IH)
qed simp

text \<open>The plain text of a message is that of its text parts, in order; only without it the HTML is used.\<close>

lemma parsed_text:
  assumes "parseMessage ms p msg = Inr e" and "prepareBodySection msg = Inr (env, Inr (map PartOk parts))"
    and "concat (map part_text parts) \<noteq> []"
  shows "mml_Body e = concat (map part_text parts)"
proof -
  have it: "iterate_parts (map PartOk parts) = (parts, None)" by (induction parts) simp_all
  obtain t1 h1 e' where r: "read_parts ms (mpf_DomainId p) parts ([], [], createEmailFromEnvelope ms (mpf_Id p) env) = (t1, h1, e')" by (rule prod_cases3)
  have "t1 = concat (map part_text parts)" using read_parts_text [of ms "mpf_DomainId p" parts "[]" "[]"] r by (metis append_Nil fst_conv)
  then show ?thesis using assms it r by (auto simp: parseMessage_def resolveMailMessageText_def)
qed

section \<open>Connections\<close>

text \<open>What is set is read, but a variable that is not set is printed as \<open><nil>\<close>.\<close>

interpretation mail_vars: variables "mail_Get gj ff" "\<lambda>vars c. (Inr CallResponseOK, mail_Set vars c)" for gj ff
  by unfold_locales (simp_all add: mail_Get_def mail_Set_def take_until_None)

lemma unset_variable_text:
  assumes "mcn_variables c name = None" and "CHR ''.'' \<notin> set name" and "CHR 0x7D \<notin> set name"
  shows "emailParser_ParseText gj ff c (op_var @ name @ [CHR 0x7D]) = ''<nil>''"
proof -
  have "mail_Get gj ff c name = (''<nil>'', False)" using assms by (simp add: mail_Get_def take_until_None)
  moreover have "take_until (CHR 0x7D) (name @ [CHR 0x7D]) = Some (name, [])" using assms(3) by (induction name) auto
  ultimately show ?thesis by (simp add: emailParser_ParseText_def op_var_def has_prefix_def)
qed

section \<open>The server\<close>

text \<open>The cache leads to profiles of the right id, and no two ids to the same profile.\<close>

definition mail_inv :: "mail_server \<Rightarrow> bool" where
  "mail_inv s = (lru_inv (mls_profiles s) \<and> 1 \<le> lru_size (mls_profiles s) \<and>
     (\<forall>i a e. content (mls_profiles s) i = Some (a, e) \<longrightarrow> a < length (mls_heap s) \<and> mpf_Id (mls_heap s ! a) = i))"

lemma profile_ids:
  "mpf_Id (fst (snd (profile_Login im p))) = mpf_Id p"
  "mpf_Id (fst (snd (profile_Read ms im p))) = mpf_Id p"
  "mpf_Id (snd (profile_Logout im p)) = mpf_Id p"
proof -
  have l: "mpf_Id (fst (snd (profile_Login im p))) = mpf_Id p" for p
    by (auto simp: profile_Login_def clientLogin_def Let_def split: option.splits sum.splits bool.splits prod.splits)
  then show "mpf_Id (fst (snd (profile_Login im p))) = mpf_Id p" .
  show "mpf_Id (fst (snd (profile_Read ms im p))) = mpf_Id p"
    using l [of p] by (auto simp: profile_Read_def Let_def split: option.splits sum.splits prod.splits if_splits)
  show "mpf_Id (snd (profile_Logout im p)) = mpf_Id p" by (simp add: profile_Logout_def split: option.split)
qed

lemma mail_invD: "mail_inv s \<Longrightarrow> content (mls_profiles s) i = Some (a, e) \<Longrightarrow> a < length (mls_heap s) \<and> mpf_Id (mls_heap s ! a) = i"
  unfolding mail_inv_def by blast

lemma mail_inv_upd:
  assumes "mail_inv s" and "mpf_Id p = mpf_Id (mls_heap s ! a)"
  shows "mail_inv (upd_profile a p s)"
proof -
  have "b < length (mls_heap s) \<and> mpf_Id ((mls_heap s)[a := p] ! b) = i" if "content (mls_profiles s) i = Some (b, e)" for i b e
    using mail_invD [OF assms(1) that] assms(2) by (cases "b = a") simp_all
  then show ?thesis using assms(1) by (simp add: mail_inv_def upd_profile_def)
qed

lemma mail_inv_fields:
  "mail_inv s \<Longrightarrow> mail_inv (storeToken i t s)"
  "mail_inv s \<Longrightarrow> mail_inv (s\<lparr>mls_consumed := cs\<rparr>)"
  by (simp_all add: mail_inv_def storeToken_def split: option.split)

lemma mail_inv_error: "mail_inv s \<Longrightarrow> mail_inv (storeError i er s)"
  using lru_Remove_facts [of "mls_profiles s" i]
  by (auto simp: mail_inv_def storeError_def lru_Remove_def removeElement_def split: option.splits if_splits)

lemma mail_inv_errors: "mail_inv s \<Longrightarrow> mail_inv (fold (storeError i) ers s)"
  by (induction ers arbitrary: s) (simp_all add: mail_inv_error)

lemma heap_kept [simp]:
  "mls_heap (storeToken i t s) = mls_heap s" "mls_heap (storeError i er s) = mls_heap s" "mls_heap (fold (storeError i) ers s) = mls_heap s"
  "mls_consumed (storeToken i t s) = mls_consumed s" "mls_consumed (storeError i er s) = mls_consumed s" "mls_consumed (fold (storeError i) ers s) = mls_consumed s"
  "mls_consumed (upd_profile a p s) = mls_consumed s" "length (mls_heap (upd_profile a p s)) = length (mls_heap s)"
proof -
  show "mls_heap (fold (storeError i) ers s) = mls_heap s" by (induction ers arbitrary: s) (simp_all add: storeError_def)
  show "mls_consumed (fold (storeError i) ers s) = mls_consumed s" by (induction ers arbitrary: s) (simp_all add: storeError_def)
qed (simp_all add: storeToken_def storeError_def upd_profile_def split: option.split)

lemma heap_upd: "a < length (mls_heap s) \<Longrightarrow> mls_heap (upd_profile a p s) ! a = p"
  by (simp add: upd_profile_def)

text \<open>An attempt and the retry: the invariant, the id of the profile and the connections given out.\<close>

lemma fetch_attempt_ok:
  assumes "mail_inv s" and "a < length (mls_heap s)" and "fetch_attempt ms im a s = (res, s')"
  shows "mail_inv s' \<and> length (mls_heap s') = length (mls_heap s) \<and> mpf_Id (mls_heap s' ! a) = mpf_Id (mls_heap s ! a) \<and> mls_consumed s' = mls_consumed s"
proof -
  let ?p = "mls_heap s ! a"
  obtain er p1 t where l: "profile_Login im ?p = (er, p1, t)" by (rule prod_cases3)
  define s0 where "s0 = (case er of Some x \<Rightarrow> storeError (mpf_Id ?p) x s | None \<Rightarrow> s)"
  define s1 where "s1 = upd_profile a p1 (storeToken (mpf_Id ?p) t s0)"
  obtain res' p2 errs t2 where r: "profile_Read ms im p1 = (res', p2, errs, t2)" by (rule prod_cases4)
  have s': "s' = upd_profile a p2 (storeToken (mpf_Id ?p) t2 (fold (storeError (mpf_Id ?p)) errs s1))"
    using assms(3) l r by (simp add: fetch_attempt_def Let_def s0_def s1_def)
  have ids: "mpf_Id p1 = mpf_Id ?p" "mpf_Id p2 = mpf_Id ?p" using profile_ids(1) [of im ?p] profile_ids(2) [of ms im p1] l r by simp_all
  have s0: "mail_inv s0" "mls_heap s0 = mls_heap s" "mls_consumed s0 = mls_consumed s" using assms(1) by (auto simp: s0_def mail_inv_error split: option.split)
  have s1: "mail_inv s1" "length (mls_heap s1) = length (mls_heap s)" "mls_heap s1 ! a = p1" "mls_consumed s1 = mls_consumed s"
    using s0 ids assms(2) by (auto simp: s1_def heap_upd intro!: mail_inv_upd mail_inv_fields)
  then show ?thesis using ids assms(2) by (auto simp: s' heap_upd intro!: mail_inv_upd mail_inv_fields mail_inv_errors)
qed

lemma fetch_retry_ok:
  assumes "mail_inv s" and "a < length (mls_heap s)" and "fetch_retry n ms im k a s = (res, k', s')"
  shows "mail_inv s' \<and> length (mls_heap s') = length (mls_heap s) \<and> mpf_Id (mls_heap s' ! a) = mpf_Id (mls_heap s ! a) \<and> mls_consumed s' = mls_consumed s"
  using assms
proof (induction n arbitrary: k s)
  case 0
  then show ?case using fetch_attempt_ok [of s a ms "im k"] by (auto split: prod.splits)
next
  case (Suc n)
  obtain r s1 where f: "fetch_attempt ms (im k) a s = (r, s1)" by fastforce
  note A = fetch_attempt_ok [OF Suc.prems(1,2) f]
  show ?case
  proof (cases "\<exists>er. r = Inl er \<and> err_detail er = ''Not logged in''")
    case True
    then have "fetch_retry n ms im (Suc k) a s1 = (res, k', s')" using Suc.prems(3) f by auto
    with Suc.IH [of s1 "Suc k"] A Suc.prems(2) show ?thesis by simp
  next
    case False
    then have "s' = s1" using Suc.prems(3) f by (auto split: sum.splits if_splits)
    with A show ?thesis by simp
  qed
qed

lemma GetProfile_ok:
  assumes "mail_inv s" and "\<And>i p. store i = Inr p \<Longrightarrow> mst_Id p = i" and "GetProfile now store shared i u s = (Inr a, s')"
  shows "mail_inv s' \<and> a < length (mls_heap s') \<and> mpf_Id (mls_heap s' ! a) = i \<and> mls_consumed s' = mls_consumed s"
proof -
  obtain r cache where g: "lru_Get now i (mls_profiles s) = (r, cache)" by fastforce
  have w: "lru_inv (mls_profiles s)" using assms(1) by (simp add: mail_inv_def)
  note G = lru_Get_facts [OF w g]
  have sz: "lru_size cache = lru_size (mls_profiles s)" using g by (auto simp: lru_Get_def removeElement_def split: option.splits if_splits)
  have inv1: "mail_inv (s\<lparr>mls_profiles := cache\<rparr>)" using assms(1) G sz by (auto simp: mail_inv_def split: if_splits)
  show ?thesis
  proof (cases r)
    case (Some b)
    then obtain e where "content (mls_profiles s) i = Some (b, e)" using G(2) by (auto split: option.splits if_splits)
    from mail_invD [OF assms(1) this] show ?thesis using assms(3) g Some inv1 by (auto simp: GetProfile_def)
  next
    case None
    then obtain p where p: "store i = Inr p" and a: "a = length (mls_heap s)"
      and s': "s' = (let s2 = s\<lparr>mls_profiles := cache, mls_heap := mls_heap s @ [newProfile p]\<rparr> in if shared then s2 else s2\<lparr>mls_profiles := lru_Add now i a cache\<rparr>)"
      using assms(3) g by (auto simp: GetProfile_def Let_def split: sum.splits)
    have inv2: "mail_inv (s\<lparr>mls_profiles := cache, mls_heap := mls_heap s @ [newProfile p]\<rparr>)"
    proof -
      have "b < Suc (length (mls_heap s)) \<and> mpf_Id ((mls_heap s @ [newProfile p]) ! b) = j" if "content cache j = Some (b, e)" for j b e
        using mail_invD [OF inv1, of j b e] that by (simp add: nth_append)
      then show ?thesis using inv1 by (simp add: mail_inv_def)
    qed
    have "lru_inv cache" using inv1 by (simp add: mail_inv_def)
    note A = lru_Add_facts [OF this, of now i a 0]
    have "mail_inv (s\<lparr>mls_heap := mls_heap s @ [newProfile p], mls_profiles := lru_Add now i a cache\<rparr>)"
      unfolding mail_inv_def
    proof (intro conjI allI impI)
      fix j b e
      assume "content (mls_profiles (s\<lparr>mls_heap := mls_heap s @ [newProfile p], mls_profiles := lru_Add now i a cache\<rparr>)) j = Some (b, e)"
      then have "((content cache)(i \<mapsto> (a, expires_at now 0))) j = Some (b, e)"
        using A(4) by (auto simp: lru_Add_def map_le_def dom_def)
      then have "j = i \<and> b = a \<or> content cache j = Some (b, e)" by (auto split: if_splits)
      then have "b < Suc (length (mls_heap s)) \<and> mpf_Id ((mls_heap s @ [newProfile p]) ! b) = j"
        using mail_invD [OF inv2, of j b e] a assms(2) [OF p] by (auto simp: newProfile_def)
      then show "b < length (mls_heap (s\<lparr>mls_heap := mls_heap s @ [newProfile p], mls_profiles := lru_Add now i a cache\<rparr>))"
        "mpf_Id (mls_heap (s\<lparr>mls_heap := mls_heap s @ [newProfile p], mls_profiles := lru_Add now i a cache\<rparr>) ! b) = j" by simp_all
    qed (use A(1,2) inv2 in \<open>simp_all add: lru_Add_def mail_inv_def\<close>)
    then show ?thesis using inv2 s' a assms(2) [OF p] by (auto simp: Let_def newProfile_def)
  qed
qed

section \<open>Properties\<close>

definition example_settings :: mail_settings where
  "example_settings = \<lparr>mst_Id = 5, mst_DomainId = 1, mst_UpdatedAt = 10, mst_Name = ''box'', mst_Login = ''u'', mst_Password = ''p'', mst_Mailbox = ''INBOX'', mst_SmtpHost = ''smtp'',
     mst_SmtpPort = 465, mst_ImapHost = ''imap'', mst_ImapPort = 993, mst_FlowId = 3, mst_Token = None, mst_AuthType = ''plain'', mst_Insecure = None\<rparr>"

definition example_envelope :: mail_envelope where
  "example_envelope = \<lparr>env_MessageId = ''<1@h>'', env_Subject = ''hi'', env_From = [''a@h''], env_To = [''u@h''], env_Sender = [''a@h''], env_ReplyTo = [], env_InReplyTo = [], env_Cc = []\<rparr>"

definition example_session :: imap_session where
  "example_session = \<lparr>ims_dial = None, ims_supportAuth = Inr False, ims_token = Inr, ims_authenticate = (\<lambda>_ _. None), ims_login = (\<lambda>_ _. None), ims_slow = False,
     ims_select = (\<lambda>_. None), ims_search = Inr [7],
     ims_fetch = (\<lambda>_. [Some \<lparr>img_Envelope = Some example_envelope, img_Body = Some (Inr [PartOk (InlinePart \<lparr>ilp_body = Inr ''text'', ilp_type = ''text/plain'', ilp_name = [], ilp_filename = [], ilp_cid = []\<rparr>)])\<rparr>]),
     ims_logout = None\<rparr>"

definition example_mime :: mime_services where
  "example_mime = \<lparr>mis_decode = Some, mis_upload = (\<lambda>_ _ _ _ _. Inl ''refused''), mis_newId = ''n'', mis_html2text = (\<lambda>h. h)\<rparr>"

text \<open>
  C37: In a server whose cache leads to profiles of the right id, fetching the new messages of a profile keeps it so, and gives out only
  connections of this profile; it panics exactly when the profile is not in the cache and cannot be loaded, where the error is stored
  for a nil profile.
\<close>

theorem mail_fetch_sound:
  assumes inv: "mail_inv s" and store: "\<forall>j p. store j = Inr p \<longrightarrow> mst_Id p = j"
  shows "(fetchNewMessageInProfile now store shared ms im save json i u s = None
        \<longleftrightarrow> fst (lru_Get now i (mls_profiles s)) = None \<and> (\<exists>er. store i = Inl er))
    \<and> (\<forall>s'. fetchNewMessageInProfile now store shared ms im save json i u s = Some s'
        \<longrightarrow> mail_inv s' \<and> (\<exists>cs. mls_consumed s' = mls_consumed s @ cs \<and> (\<forall>c\<in>set cs. mcn_profile c = (i, u))))"
proof (cases "GetProfile now store shared i u s")
  case (Pair r s1)
  show ?thesis
  proof (cases r)
    case (Inl er)
    then show ?thesis using Pair by (auto simp: fetchNewMessageInProfile_def GetProfile_def Let_def split: prod.splits option.splits sum.splits)
  next
    case (Inr a)
    have G: "mail_inv s1" "a < length (mls_heap s1)" "mpf_Id (mls_heap s1 ! a) = i" "mls_consumed s1 = mls_consumed s"
      using GetProfile_ok [OF inv, of store now shared i u a s1] store Pair Inr by auto
    have P: "fetchNewMessageInProfile now store shared ms im save json i u s \<noteq> None" "\<not> (fst (lru_Get now i (mls_profiles s)) = None \<and> (\<exists>er. store i = Inl er))"
      using Pair Inr by (auto simp: fetchNewMessageInProfile_def GetProfile_def split: prod.splits)
    obtain res k s2 where f: "fetch_retry 1 ms im 0 a s1 = (res, k, s2)" by (rule prod_cases3)
    note R = fetch_retry_ok [OF G(1,2) f]
    show ?thesis
    proof (cases res)
      case (Inl er)
      then show ?thesis using Pair Inr f R G P by (simp add: fetchNewMessageInProfile_def)
    next
      case (Inr emails)
      let ?p = "mls_heap s2 ! a"
      obtain er p1 where l: "profile_Logout (im k) ?p = (er, p1)" by fastforce
      have "mpf_Id p1 = mpf_Id ?p" using profile_ids(3) [of "im k" ?p] l by simp
      then show ?thesis using Pair \<open>r = Inr a\<close> f R G Inr l P
        by (auto simp: fetchNewMessageInProfile_def Let_def mail_NewConnection_def intro!: mail_inv_upd mail_inv_error mail_inv_fields split: option.splits sum.splits)
    qed
  qed
qed

lemma NewMailServer_inv: "mail_inv NewMailServer"
  using NewLru_inv [of 1000 "[]" 0 "[]"]
  by (simp add: mail_inv_def NewMailServer_def NewLruWithParams_def NewLru_def content_def lru_inv_def lru_links_def)

theorem mail_fetch_sound_witness:
  "(\<exists>s'. fetchNewMessageInProfile 0 (\<lambda>j. if j = 5 then Inr example_settings else Inl (mail_err [] [] 404)) False example_mime (\<lambda>_. example_session)
       (\<lambda>_ _. Inr 1) (\<lambda>_. []) 5 10 NewMailServer = Some s' \<and> mail_inv s' \<and> (\<forall>c\<in>set (mls_consumed s'). mcn_profile c = (5, 10)))
   \<and> fetchNewMessageInProfile 0 (\<lambda>j. if j = 5 then Inr example_settings else Inl (mail_err [] [] 404)) False example_mime (\<lambda>_. example_session)
       (\<lambda>_ _. Inr 1) (\<lambda>_. []) 6 10 NewMailServer = None"
proof -
  let ?store = "\<lambda>j :: int. if j = 5 then Inr example_settings else Inl (mail_err [] [] 404)"
  have st: "\<forall>j p. ?store j = Inr p \<longrightarrow> mst_Id p = j" by (simp add: example_settings_def)
  have g: "fst (lru_Get 0 6 (mls_profiles NewMailServer)) = None" by (simp add: NewMailServer_def NewLruWithParams_def NewLru_def lru_Get_def)
  note F = mail_fetch_sound [OF NewMailServer_inv st, of 0 False example_mime "\<lambda>_. example_session" "\<lambda>_ _. Inr 1" "\<lambda>_. []"]
  have "mls_consumed NewMailServer = []" by (simp add: NewMailServer_def)
  then show ?thesis using F [of 5 10] F [of 6 10] g by auto
qed

text \<open>
  A session that the server has dropped: the profile still counts as logged in, so the retry does not log in again, whatever the
  login would answer.
\<close>

lemma retry_never_logs_in:
  assumes "a < length (mls_heap s)" and "mpf_logged (mls_heap s ! a)" and "mpf_client (mls_heap s ! a)"
    and "\<not> ims_slow (im 0)" and "ims_select (im 0) (mpf_Mailbox (mls_heap s ! a)) = Some ''Not logged in''"
  shows "fetch_retry 1 ms im 0 a s = fetch_retry 1 ms (im(1 := (im 1)\<lparr>ims_dial := d, ims_login := lg, ims_authenticate := au, ims_token := tk, ims_supportAuth := sa\<rparr>)) 0 a s"
proof -
  let ?p = "mls_heap s ! a"
  have login: "profile_Login x ?p = (if ims_slow x then Some (mail_err ''email.login.timeout'' ''Timeout'' 500) else None, ?p, None)" for x
    using assms(2,3) by (simp add: profile_Login_def clientLogin_def)
  define er where "er = mail_err ''email.mailbox.app_err'' ''Not logged in'' 500"
  define s1 where "s1 = storeError (mpf_Id ?p) er s"
  have heap: "mls_heap s1 = mls_heap s" by (simp add: s1_def)
  have upd: "upd_profile a ?p s = s" "upd_profile a ?p s1 = s1" by (simp_all add: upd_profile_def heap)
  have "fetch_attempt ms (im 0) a s = (Inl er, s1)"
    using assms(2,4,5) login [of "im 0"] upd by (simp add: fetch_attempt_def profile_Read_def storeToken_def er_def s1_def Let_def)
  moreover have "profile_Read ms (x\<lparr>ims_dial := d, ims_login := lg, ims_authenticate := au, ims_token := tk, ims_supportAuth := sa\<rparr>) ?p = profile_Read ms x ?p" for x
    using assms(2) by (simp add: profile_Read_def Let_def split: option.split sum.split)
  then have "fetch_attempt ms ((im 1)\<lparr>ims_dial := d, ims_login := lg, ims_authenticate := au, ims_token := tk, ims_supportAuth := sa\<rparr>) a s1 = fetch_attempt ms (im 1) a s1"
    using login by (simp add: fetch_attempt_def heap Let_def)
  ultimately show ?thesis by (simp add: er_def mail_err_def NewAppError_def)
qed

text \<open>A profile in the cache is returned however old it is.\<close>

lemma stale_profile:
  assumes "lru_Get now i (mls_profiles s) = (Some a, cache)"
  shows "fst (GetProfile now store shared i updatedAt s) = Inr a"
  using assms by (simp add: GetProfile_def)

end
