(* ===== verification/Spec2Isabelle.thy ===== *)
theory Spec2Isabelle
  imports Flow_Props Flow_Date Text_Laws Cache_Laws Sql_Laws Im_Apps_Laws Chat_Props Chat_Apps Chat_Manager Fs_Reader_Laws Fs_Vars_Props Call_Props Call_Events_Props Form_Props Flow_Http_Props Bot_Props Net_Props Mail_Props
begin

text \<open>
  \<^bold>\<open>Verification of the flow manager\<close>

  The flow manager runs routing schemas (JSON programs of named applications) on connections:
  calls, chats, instant-message dialogs, e-mails and forms.  A connection provider
  (\<open>src/providers\<close>) turns external events into connections, a router (\<open>src/routes\<close>) picks the
  schema and runs it with the engine (\<open>src/flow\<close>), the applications act on the connection,
  and the application layer (\<open>src/app\<close>) offers schemas, variables and caches from the stores
  (\<open>src/store\<close>).  The library models the engine, the text and cache functions it rests on, the
  external databases, the applications, and the providers of instant messages, chats, calls, forms, e-mails, web hooks and flow requests.

  \<^bold>\<open>The engine\<close> (\<open>src/flow\<close>)

  \<^item> \<open>Flow_Prelude\<close>: Go values (\<open>goval\<close>), errors, responses, the environment \<open>env\<close> of a run:
    the script engine, the argument decoders, the applications that are not part of the engine (each may
    fail to return, answer with nil, cancel the flow and change its functions and triggers), the clock and the choice of \<open>select\<close> between an application and the end of the context.
  \<^item> \<open>Flow_Tree\<close>: \<open>flow.go\<close>, \<open>node.go\<close>.  The tree is a list of nodes; pointers are indices, a
    request is addressed by its node and its place.  \<open>flow\<close> is the record of the Go struct.
    \<open>NextRequest\<close>, \<open>Goto\<close>, \<open>RepeatInterrupted\<close>, \<open>Reset\<close> move the cursor; the jump counter is a
    16-bit word.
  \<^item> \<open>Flow_Nav\<close>: well-formedness \<open>wf_flow\<close> (static tree, dynamic cursor) and its preservation by
    every cursor operation.
  \<^item> \<open>Flow_Parse\<close>: the parser (\<open>parseFlowArray\<close>, \<open>parseReq\<close>, conditions, switches, loops,
    functions, triggers, \<open>New\<close>, \<open>Fork\<close>) and the proof that it builds well-formed flows.
  \<^item> \<open>Flow_Handlers\<close>, \<open>Flow_Route\<close>: \<open>if\<close>, \<open>while\<close>, \<open>switch\<close>, \<open>break\<close>, \<open>goto\<close> and the loop \<open>Route\<close>
    of \<open>handler.go\<close>, over the locales \<open>request_provider\<close> and \<open>applications\<close> (what a run needs of
    the applications) and \<open>answering_provider\<close> (every request is answered).  \<open>route_loop\<close> is a partial function; \<open>None\<close> is a run
    that does not return, because an application does not or because it answered with nil, which \<open>Route\<close> prints and so panics.
    That it returns where every request is answered is proved with a measure on jumps, loop steps and limiters left.
  \<^item> \<open>Flow_Nested\<close>: \<open>execute\<close>, \<open>schema\<close>, \<open>list\<close>, \<open>timer\<close>.  These run other flows;
    \<open>flow_request e d\<close> allows \<open>d\<close> levels and answers \<open>None\<close> beyond, and results do not depend on
    \<open>d\<close> once there is one.
  \<^item> \<open>Flow_Seq\<close>, \<open>Flow_Order\<close>, \<open>Flow_Resume\<close>, \<open>Flow_Example\<close>: the reference \<open>run_list\<close> for schemas
    without control, independence of the key order, resumption, and concrete schemas; \<open>Flow_Props\<close>: the
    properties of the engine.
  \<^item> \<open>Flow_Basic\<close>, \<open>Flow_Date\<close>: the applications \<open>set\<close>, \<open>unSet\<close>, \<open>global\<close>, \<open>string\<close>, \<open>math\<close>, \<open>sleep\<close> and the date functions
    of conditions.  The locale \<open>variables\<close> states what an application relies on when it writes a
    variable; the dialogs of instant messages and the conversations of chats interpret it.

  \<^bold>\<open>Text\<close>: \<open>Text_Subst\<close> models \<open>ParseText\<close>, \<open>JsonString\<close>, \<open>UrlEncoded\<close>, \<open>parseValidJson\<close> and
  \<open>parseExpression\<close> on byte strings; \<open>Text_Laws\<close> proves them against templates, a decoder and
  the words of a condition.

  \<^bold>\<open>Caches\<close>: \<open>Lru_Cache\<close> is \<open>model/lru.go\<close> on an explicit list of elements and an index from
  keys to elements, with time in seconds as an argument; \<open>Cache_Layer\<close> the memory and Redis
  stores, \<open>app/cache.go\<close>, the cache application, and the cached schemas and schema variables;
  \<open>Cache_Laws\<close> the interface \<open>cache_store\<close> of a cache, its interpretation on the LRU cache, and the
  refinement of a domain-keyed map.

  \<^bold>\<open>External databases\<close>: \<open>Sql_Store\<close> is \<open>store/cachelayer/store.go\<close> with its settings and the \<open>sql\<close>
  application; the file system (with links) and the drivers are arguments.  \<open>Sql_Laws\<close> shows that an
  SQLite file is opened only below the sandbox, by the driver that enforces it, after any history.

  \<^bold>\<open>Instant messages\<close>

  \<^item> \<open>Im_Types\<close>: the data of \<open>model/im.go\<close> and its neighbours.
  \<^item> \<open>Im_Connection\<close>, \<open>Im_Outbound\<close>: \<open>providers/im/connection.go\<close>.  A heap \<open>im_heap\<close> holds the
    dialogs, contexts (cancelled or not) and channels (closed or not); operations name a
    dialog by its index.  Each operation of the source that runs under the lock of the dialog
    is one step; \<open>receive\<close> takes what the others do during the wait, and how the wait ends, as
    an argument.  Outbound operations record the request they send.
  \<^item> \<open>Im_Server\<close>: \<open>server.go\<close> and \<open>store.go\<close>, the listener with its handlers, the table of
    sessions (\<open>store/pg_store/session.go\<close>) and the parents of pushed dialogs.
  \<^item> \<open>Im_Heap\<close>, \<open>Im_Laws\<close>: the invariant of the heap, the locales \<open>conn_store\<close> and \<open>fresh_store\<close> for
    the store of dialogs, their interpretation on the LRU cache, and what each handler keeps.
  \<^item> \<open>Im_Props\<close>: the transition system \<open>im_step\<close> of listener events, message waits, tokens and
    completions, and the properties of its reachable states.
  \<^item> \<open>Im_Runner\<close>: \<open>routes/im/router.go\<close>; \<open>runSchema\<close> as a function of what the runner observes at
    each round of its park loop (the list ends where the loop does), and as the step relation
    \<open>run_step\<close> beside the listener; the wait of a receiver as \<open>wait_step\<close>.
  \<^item> \<open>Im_Apps\<close>, \<open>Im_Apps_Laws\<close>: the applications of \<open>routes/im\<close>, with the services of the flow manager as
    arguments.

  \<^bold>\<open>Chats\<close>

  \<^item> \<open>Chat_Conversation\<close>, \<open>Chat_Server\<close>: \<open>providers/grpc/conversation.go\<close>, \<open>chat_server.go\<close> and
    \<open>routes/chat/router.go\<close>.  The world \<open>chat_world\<close> holds the conversations, the bridge channels, the table
    of active conversations (the LRU cache above) and the requests sent to the chat service.
  \<^item> \<open>Chat_Laws\<close>, \<open>Chat_Props\<close>: the invariant of the world, the transition system \<open>chat_step\<close>, whose requests come one after
    another, and what holds in its reachable states; \<open>Break\<close> and \<open>BreakBridge\<close> step by step (\<open>break_next\<close>, \<open>bridge_next\<close>), which
    can overlap and close a bridge twice; breaks, transfers, bridges.
  \<^item> \<open>Chat_Apps\<close>, \<open>Chat_Manager\<close>: the applications of \<open>routes/chat\<close>, broadcasts, routes and histories
    (\<open>chat_manager.go\<close>, \<open>app/chat.go\<close>, \<open>flow/chat.go\<close>, \<open>flow/chat_history.go\<close>).

  \<^bold>\<open>Calls\<close>

  \<^item> \<open>Fs_Reader\<close>, \<open>Fs_Reader_Laws\<close>: the event socket (\<open>providers/fs/fs_reader\<close>, \<open>providers/fs/eventsocket\<close>), on the
    string of bytes still to come: headers, frames, events and the text of commands.
  \<^item> \<open>Fs_Call\<close>: \<open>providers/fs/connection.go\<close>, \<open>server.go\<close>, \<open>variables.go\<close>.  A call is the record \<open>fs_call\<close>; the channels
    on which commands and hooks wait are maps in it.  \<open>execute_ctx\<close> sends a command and waits over
    \<open>fc_future\<close>, what happens on the socket and to the context; a wait that nothing ends is \<open>None\<close>.  Its context is that of the
    flow, which a hangup cancels, or a background context (\<open>cmd_ctx\<close>).  An operation under the mutex of the call is one step.
  \<^item> \<open>Fs_Call_Laws\<close>, \<open>Fs_Call_Props\<close>, \<open>Fs_Vars_Props\<close>: the invariant \<open>call_ok\<close>, the transition system \<open>call_step\<close>, commands
    that return and what their success means, hooks, variables, and the lock of the exported variables.
  \<^item> \<open>Fs_Control\<close>, \<open>Fs_Media\<close>: \<open>providers/fs/control.go\<close>, \<open>model/tts.go\<close>, \<open>model/endpoint.go\<close>: the commands, each a text run by
    \<open>executeWithContext\<close>, with files, speech, recordings, recognition and the dial string of a bridge.
  \<^item> \<open>Call_Apps\<close>, \<open>Call_Media\<close>, \<open>Call_Queue\<close>: the applications of \<open>routes/call\<close>.  An application returns a response, an error, both
    or neither (\<open>outcome2\<close>) and the call after it; those that run branches or cancel the schema take and return the flow.
  \<^item> \<open>Call_Router\<close>, \<open>Call_Props\<close>: \<open>routes/call/router.go\<close>, \<open>call.go\<close>, \<open>app/call_routings.go\<close>: the choice of the schema, the life
    of a call, and the properties of the router, the queue, the bridge and the wrapper of applications.
  \<^item> \<open>Call_Events\<close>, \<open>Call_Events_Props\<close>: the events of calls from the message queue, the table they are written to and its history
    (\<open>app/call.go\<close>, \<open>model/call.go\<close>, \<open>store/pg_store/call_store.go\<close>).  A statement is a function on the table.  A late event
    overwrites the state of a call that has hung up; the move to the history keeps every call.
  \<^item> \<open>Form_Conn\<close>, \<open>Form_Apps\<close>, \<open>Form_Props\<close>: forms that a schema shows to the user of a web page (\<open>providers/grpc/processing_connection.go\<close>,
    \<open>processing_server.go\<close>, \<open>pkg/processing\<close>, \<open>routes/processing\<close>).  \<open>PushForm\<close> and \<open>FormAction\<close> share a field without a lock, so both are
    sequences of single reads, writes and channel operations (\<open>push_pc\<close>, \<open>act_pc\<close>), which \<open>form_step\<close> interleaves and \<open>server_step\<close> puts
    beside the table of connections.  With one form and one action at a time nothing panics and an action reaches the form that waits
    for it unless the time of the form is over; a double click
    can crash the process, a quick schema can lose its next form, and no request learns of the end of a schema.
  \<^item> \<open>Flow_Http\<close>, \<open>Flow_Http_Props\<close>: the application \<open>httpRequest\<close> (\<open>flow/http.go\<close>): the request, the cookies in the memory cache of
    \<open>Cache_Layer\<close> and the exported variables.  A query that is written again keeps its parameters (for both escapings, by the locale
    \<open>query_escaping\<close>); a short-lived cookie stays in the cache for ever and comes back garbled.
  \<^item> \<open>Flow_Mail\<close>: mail and payments (\<open>flow/email.go\<close>, \<open>monopay.go\<close>): the retries of a mail and what its variables report, the links of
    images, and the operations on invoices.
  \<^item> \<open>Flow_Services\<close>, \<open>Flow_Tasks\<close>, \<open>Flow_Scripts\<close>: the applications that ask a service: calendars, calls, members, queues, tasks, contacts,
    cases, files, messages, topics, the classifier and scripts (\<open>flow/*.go\<close>), on the connection \<open>app_conn\<close> of \<open>Flow_Mail\<close>.  The
    interpreter of scripts is an argument; its interrupt channel is modelled, and a script that ends late stops all later ones.
  \<^item> \<open>Bot_Bridge\<close>, \<open>Bot_Props\<close>: the bots of calls and chats (\<open>flow/ai_bridge.go\<close>) with the table of callbacks (\<open>app/callback.go\<close>), whose
    caches obey the locale \<open>exp_store\<close>, and the wait for the result of a function as a step relation.  A session releases its dialog
    and its callback; three instructions make \<open>openai\<close> panic; a result that comes after the end of its context can panic.
  \<^item> \<open>Net_Conn\<close>, \<open>Web_Hook\<close>, \<open>Net_Props\<close>: the connections of gRPC requests, of queued messages and of web hooks (\<open>providers/grpc\<close>, \<open>channel\<close>,
    \<open>http\<close>) with their routers.  All three obey the locale \<open>variables\<close> of \<open>Flow_Basic\<close>; a hook runs only for the right password and origin.
  \<^item> \<open>Mail_Server\<close>, \<open>Mail_Props\<close>: the e-mail provider (\<open>providers/email\<close>, \<open>routes/email\<close>): a heap of profiles behind the LRU cache of
    \<open>Lru_Cache\<close>, the login and the reading of a mailbox, the parts of a message, and the fetching of new messages, which keeps the
    cache sound and gives out connections of the right profile, and panics for a profile that cannot be loaded.

  \<^bold>\<open>Arguments of the model\<close>  Code that is not in the repository is an argument: the expirable LRU
  that stores dialogs (\<open>conn_lru\<close>, with the laws of \<open>conn_store\<close> as hypotheses and an instance),
  gRPC services, the Redis client, \<open>gjson\<close>, the rendering of JSON and of Go values, the script engine \<open>otto\<close>,
  \<open>mapstructure\<close>.  Random identifiers and clocks are arguments too.

  \<^bold>\<open>Bounds\<close>  Positions, counts and durations are unbounded integers where the source has 64-bit
  \<open>int\<close> values that only count upwards; the jump counter keeps its 16 bits.  The depth \<open>d\<close> is
  unbounded in the theorems.

  \<^bold>\<open>Not modelled\<close>  The message-queue client, the other SQL texts, the tables of application names and start-up: they are input
  and output, with the engine taking applications as arguments.  Goroutines are modelled where they interact (the
  runner beside the listener, a receiver beside the listener, the reader of a call beside its commands, a schema beside the requests of a page),
  not inside a locked operation.
\<close>

end
